(* ===== verification/Alf_Prelude.thy ===== *)
theory Alf_Prelude
  imports Main "HOL-Library.Sublist"
begin

text \<open>
  What every component of the development shares: the reading of Go's basic types, the string
  functions of Go's standard library that the modelled code calls, time arithmetic, the delete
  loop over a Go map, and two interfaces that several components provide (a state machine with
  an invariant, a keyed store).

  Conventions. A Go \<open>string\<close> is a HOL \<open>string\<close> whose characters are its bytes. A Go map is a
  partial function. An \<open>error\<close> is its message, and a function that returns a value and an error
  returns \<open>string + 'a\<close>. A \<open>time.Time\<close> is an \<open>int\<close>, its nanoseconds since the epoch, and a
  \<open>time.Duration\<close> is an \<open>int\<close> of nanoseconds. A read of the clock, a fresh random value and the
  iteration order of a map are arguments of the operation that uses them.
\<close>

section \<open>Names for Go's types\<close>

type_synonym gotime = int
type_synonym duration = int
type_synonym 'a res = "string + 'a"

abbreviation Err :: "string \<Rightarrow> 'a res" where "Err \<equiv> Inl"
abbreviation Ok :: "'a \<Rightarrow> 'a res" where "Ok \<equiv> Inr"

text \<open>Values of Go's type \<open>any\<close> that the code stores without looking inside.\<close>

datatype go_any = AnyBool bool | AnyInt int | AnyString string | AnyList "go_any list"
  | AnyMap "(string \<times> go_any) list"

named_theorems go_string \<open>the string functions of the standard library\<close>
named_theorems go_time \<open>time and duration arithmetic\<close>

section \<open>Durations\<close>

definition nanosecond :: duration where "nanosecond = 1"
definition second :: duration where "second = 1000000000"
definition minute :: duration where "minute = 60 * second"
definition hour :: duration where "hour = 60 * minute"

lemmas [go_time] = nanosecond_def second_def minute_def hour_def

definition max_duration :: duration where "max_duration = 2 ^ 63 - 1"
definition min_duration :: duration where "min_duration = - (2 ^ 63)"

text \<open>\<open>t.Sub(u)\<close> saturates at the ends of the 64-bit range.\<close>

definition time_sub :: "gotime \<Rightarrow> gotime \<Rightarrow> duration" where
  "time_sub t u = max min_duration (min max_duration (t - u))"

lemma time_sub_exact:
  "min_duration \<le> t - u \<Longrightarrow> t - u \<le> max_duration \<Longrightarrow> time_sub t u = t - u"
  by (simp add: time_sub_def)

lemma time_sub_less_iff:
  "min_duration < d \<Longrightarrow> d \<le> max_duration \<Longrightarrow> time_sub t u < d \<longleftrightarrow> t - u < d"
  by (auto simp: time_sub_def min_def max_def)

lemma time_sub_ge_iff:
  "min_duration < d \<Longrightarrow> d \<le> max_duration \<Longrightarrow> d \<le> time_sub t u \<longleftrightarrow> d \<le> t - u"
  using time_sub_less_iff[of d t u] by linarith

text \<open>Go's integer division truncates towards zero.\<close>

definition go_div :: "int \<Rightarrow> int \<Rightarrow> int" where
  "go_div a b = sgn a * sgn b * (\<bar>a\<bar> div \<bar>b\<bar>)"

lemma go_div_nonneg [simp]: "0 \<le> a \<Longrightarrow> 0 < b \<Longrightarrow> go_div a b = a div b"
  by (cases "a = 0") (auto simp: go_div_def)

section \<open>Strings\<close>

definition has_prefix :: "string \<Rightarrow> string \<Rightarrow> bool" where
  "has_prefix s p \<longleftrightarrow> prefix p s"

definition has_suffix :: "string \<Rightarrow> string \<Rightarrow> bool" where
  "has_suffix s p \<longleftrightarrow> suffix p s"

definition str_contains :: "string \<Rightarrow> string \<Rightarrow> bool" where
  "str_contains s p \<longleftrightarrow> sublist p s"

definition trim_prefix :: "string \<Rightarrow> string \<Rightarrow> string" where
  "trim_prefix s p = (if has_prefix s p then drop (length p) s else s)"

text \<open>\<open>strings.IndexByte\<close> and the predicate form the loops use.\<close>

fun find_index :: "('a \<Rightarrow> bool) \<Rightarrow> 'a list \<Rightarrow> nat option" where
  "find_index P [] = None"
| "find_index P (x # xs) = (if P x then Some 0 else map_option Suc (find_index P xs))"

definition index_byte :: "string \<Rightarrow> char \<Rightarrow> nat option" where
  "index_byte s c = find_index (\<lambda>x. x = c) s"

text \<open>\<open>strings.Index\<close>: the first position at which the pattern occurs.\<close>

fun str_index :: "string \<Rightarrow> string \<Rightarrow> nat option" where
  "str_index [] p = (if p = [] then Some 0 else None)"
| "str_index (c # s) p =
     (if has_prefix (c # s) p then Some 0 else map_option Suc (str_index s p))"

text \<open>\<open>strings.Split\<close> at a one-byte separator.\<close>

fun split_at :: "char \<Rightarrow> string \<Rightarrow> string list" where
  "split_at c [] = [[]]"
| "split_at c (x # xs) =
     (if x = c then [] # split_at c xs
      else (case split_at c xs of [] \<Rightarrow> [[x]] | w # ws \<Rightarrow> (x # w) # ws))"

text \<open>\<open>strings.TrimSpace\<close> and \<open>strings.ToLower\<close> on ASCII input, which is what the modelled code
  passes them (host names, file extensions, header lines).\<close>

definition is_space :: "char \<Rightarrow> bool" where
  "is_space c \<longleftrightarrow> c \<in> {CHR '' '', CHR 0x09, CHR 0x0A, CHR 0x0B, CHR 0x0C, CHR 0x0D}"

definition trim_left :: "string \<Rightarrow> string" where
  "trim_left s = dropWhile is_space s"

definition trim_right :: "string \<Rightarrow> string" where
  "trim_right s = rev (dropWhile is_space (rev s))"

definition trim_space :: "string \<Rightarrow> string" where
  "trim_space s = trim_right (trim_left s)"

definition lower_char :: "char \<Rightarrow> char" where
  "lower_char c =
     (if 65 \<le> (of_char c :: nat) \<and> (of_char c :: nat) \<le> 90
      then char_of ((of_char c :: nat) + 32) else c)"

definition to_lower :: "string \<Rightarrow> string" where
  "to_lower s = map lower_char s"

definition trim_right_char :: "char \<Rightarrow> string \<Rightarrow> string" where
  "trim_right_char c s = rev (dropWhile (\<lambda>x. x = c) (rev s))"

text \<open>\<open>strings.Join\<close>, and the cut that several components make: at most \<open>n\<close> bytes and three dots.\<close>

fun str_join :: "string \<Rightarrow> string list \<Rightarrow> string" where
  "str_join sep [] = []"
| "str_join sep [x] = x"
| "str_join sep (x # y # zs) = x @ sep @ str_join sep (y # zs)"

definition clip :: "nat \<Rightarrow> string \<Rightarrow> string" where
  "clip n s = (if n < length s then take n s @ ''...'' else s)"

abbreviation newline :: string where "newline \<equiv> [CHR 0x0A]"

lemma length_clip: "length (clip n s) \<le> n + 3"
  by (simp add: clip_def)

lemma clip_idem [simp]: "clip n (clip n s) = clip n s"
  by (simp add: clip_def)

lemma str_join_Nil_iff: "list_all (\<lambda>x. x \<noteq> []) xs \<Longrightarrow> str_join sep xs = [] \<longleftrightarrow> xs = []"
  by (cases "(sep, xs)" rule: str_join.cases) auto

lemma has_prefix_code [simp, code]:
  "has_prefix s [] = True"
  "has_prefix [] (c # p) = False"
  "has_prefix (x # s) (c # p) = (x = c \<and> has_prefix s p)"
  by (auto simp: has_prefix_def)

lemma has_prefixD: "has_prefix s p \<Longrightarrow> \<exists>r. s = p @ r"
  by (auto simp: has_prefix_def prefix_def)

lemma has_prefix_append [simp]: "has_prefix (p @ r) p"
  by (simp add: has_prefix_def)

lemma has_prefix_trans: "has_prefix s p \<Longrightarrow> has_prefix p q \<Longrightarrow> has_prefix s q"
  by (auto simp: has_prefix_def intro: prefix_order.trans)

lemma trim_prefix_append [simp]: "trim_prefix (p @ r) p = r"
  by (simp add: trim_prefix_def)

lemma find_index_Some:
  "find_index P xs = Some i \<longleftrightarrow> i < length xs \<and> P (xs ! i) \<and> (\<forall>j < i. \<not> P (xs ! j))"
proof (induction xs arbitrary: i)
  case Nil
  then show ?case by simp
next
  case (Cons x xs)
  then show ?case
    by (cases i) (auto simp: All_less_Suc2)
qed

lemma find_index_None: "find_index P xs = None \<longleftrightarrow> (\<forall>x \<in> set xs. \<not> P x)"
  by (induction xs) auto

text \<open>\<open>str_index\<close> is the first occurrence, and there is none when it fails.\<close>

lemma str_index_first:
  "str_index s p = Some i \<Longrightarrow> prefix p (drop i s) \<and> i + length p \<le> length s \<and> (\<forall>k < i. \<not> prefix p (drop k s))"
proof (induction s arbitrary: i)
  case Nil
  then show ?case by (auto split: if_splits)
next
  case (Cons c s)
  show ?case
  proof (cases "prefix p (c # s)")
    case True
    with Cons.prems have "i = 0" by (simp add: has_prefix_def)
    with True show ?thesis by (auto dest: prefix_length_le)
  next
    case False
    with Cons.prems obtain j where j: "str_index s p = Some j" "i = Suc j" by (auto simp: has_prefix_def)
    have "\<not> prefix p (drop k (c # s))" if "k < Suc j" for k
      using False Cons.IH[OF j(1)] that by (cases k) auto
    with Cons.IH[OF j(1)] j(2) show ?thesis by auto
  qed
qed

lemma str_index_absent: "str_index s p = None \<Longrightarrow> \<not> prefix p (drop k s)"
proof (induction s arbitrary: k)
  case Nil
  then show ?case by (auto split: if_splits)
next
  case (Cons c s)
  then show ?case by (cases k) (auto simp: has_prefix_def split: if_splits)
qed

lemma split_at_not_Nil [simp]: "split_at c s \<noteq> []"
  by (induction s) (auto split: list.splits)

lemma split_at_no_sep: "c \<notin> set s \<Longrightarrow> split_at c s = [s]"
  by (induction s) auto

lemma lower_char_idem [simp]: "lower_char (lower_char c) = lower_char c"
  by (auto simp: lower_char_def)

lemma to_lower_idem [simp]: "to_lower (to_lower s) = to_lower s"
  by (simp add: to_lower_def)

lemma length_to_lower [simp]: "length (to_lower s) = length s"
  by (simp add: to_lower_def)

section \<open>Decimal numbers\<close>

text \<open>\<open>fmt.Sprintf("%d", n)\<close> of a number that is not negative.\<close>

definition digit_char :: "nat \<Rightarrow> char" where
  "digit_char d = char_of (48 + d)"

fun show_nat :: "nat \<Rightarrow> string" where
  "show_nat n = (if n < 10 then [digit_char n] else show_nat (n div 10) @ [digit_char (n mod 10)])"

declare show_nat.simps [simp del]

definition show_int :: "int \<Rightarrow> string" where
  "show_int i = (if i < 0 then CHR ''-'' # show_nat (nat (- i)) else show_nat (nat i))"

lemma digit_char_inj: "d < 10 \<Longrightarrow> e < 10 \<Longrightarrow> digit_char d = digit_char e \<Longrightarrow> d = e"
  by (simp add: digit_char_def char_of_eq_iff take_bit_eq_mod)

lemma show_nat_not_Nil [simp]: "show_nat n \<noteq> []"
  by (subst show_nat.simps) simp

lemma show_nat_inj: "show_nat m = show_nat n \<Longrightarrow> m = n"
proof (induction m arbitrary: n rule: show_nat.induct)
  case (1 m)
  note [simp] = show_nat.simps[of m] show_nat.simps[of n]
  consider "m < 10" "n < 10" | "m < 10" "\<not> n < 10" | "\<not> m < 10" "n < 10"
    | "\<not> m < 10" "\<not> n < 10" by blast
  then show ?case
  proof cases
    case 1
    then show ?thesis using "1.prems" digit_char_inj by simp
  next
    case 2
    then show ?thesis using "1.prems" by (simp add: Cons_eq_append_conv)
  next
    case 3
    then show ?thesis using "1.prems" by (simp add: append_eq_Cons_conv)
  next
    case 4
    then have "m div 10 = n div 10" and "m mod 10 = n mod 10"
      using "1.prems" "1.IH" digit_char_inj by simp_all
    then show ?thesis by (metis div_mult_mod_eq)
  qed
qed

lemma show_nat_eq_iff [simp]: "show_nat m = show_nat n \<longleftrightarrow> m = n"
  using show_nat_inj by blast

text \<open>The verb \<open>%q\<close> of a text without characters that need an escape.\<close>

definition go_quote :: "string \<Rightarrow> string" where
  "go_quote s = CHR 0x22 # s @ [CHR 0x22]"

section \<open>Maps and lists\<close>

text \<open>\<open>for k, v := range m { if P(k, v) { delete(m, k) } }\<close>: the order of the iteration has no
  effect on the result.\<close>

definition delete_where :: "('k \<Rightarrow> 'v \<Rightarrow> bool) \<Rightarrow> ('k \<rightharpoonup> 'v) \<Rightarrow> ('k \<rightharpoonup> 'v)" where
  "delete_where P m = (\<lambda>k. case m k of None \<Rightarrow> None | Some v \<Rightarrow> if P k v then None else Some v)"

lemma delete_where_Some:
  "delete_where P m k = Some v \<longleftrightarrow> m k = Some v \<and> \<not> P k v"
  by (auto simp: delete_where_def split: option.splits)

lemma delete_where_None:
  "delete_where P m k = None \<longleftrightarrow> (\<forall>v. m k = Some v \<longrightarrow> P k v)"
  by (auto simp: delete_where_def split: option.splits)

lemma dom_delete_where: "dom (delete_where P m) = {k. \<exists>v. m k = Some v \<and> \<not> P k v}"
  by (auto simp: delete_where_Some)

lemma finite_delete_where [intro]: "finite (dom m) \<Longrightarrow> finite (dom (delete_where P m))"
  by (rule finite_subset[of _ "dom m"]) (auto simp: delete_where_Some)

text \<open>\<open>for k := range m\<close> visits every key once, in an order that Go does not fix: an argument of the
  operation, which lists the domain.\<close>

definition visits :: "'k list \<Rightarrow> ('k \<rightharpoonup> 'v) \<Rightarrow> bool" where
  "visits order m \<longleftrightarrow> distinct order \<and> set order = dom m"

text \<open>The value at a position that the source has checked to be in range.\<close>

lemma distinct_nth_inj:
  "distinct xs \<Longrightarrow> i < length xs \<Longrightarrow> j < length xs \<Longrightarrow> xs ! i = xs ! j \<Longrightarrow> i = j"
  by (simp add: nth_eq_iff_index_eq)

lemma remove1_distinct_filter: "distinct xs \<Longrightarrow> remove1 x xs = filter (\<lambda>y. y \<noteq> x) xs"
  by (simp add: distinct_remove1_removeAll removeAll_filter_not_eq)
     (auto intro: filter_cong)

section \<open>Interfaces shared by the components\<close>

text \<open>
  A component that only changes through its operations, and an invariant that its initial state
  has and every operation keeps. What a component owes is the two laws; what it gets is the
  invariant after any sequence of operations.
\<close>

locale op_machine =
  fixes init :: "'s"
    and step :: "'op \<Rightarrow> 's \<Rightarrow> 's"
    and inv :: "'s \<Rightarrow> bool"
  assumes inv_init: "inv init"
    and inv_step: "inv s \<Longrightarrow> inv (step op s)"
begin

lemma run_from: "inv s \<Longrightarrow> inv (fold step ops s)"
  by (induction ops arbitrary: s) (auto intro: inv_step)

lemma run_inv: "inv (fold step ops init)"
  by (rule run_from[OF inv_init])

lemma run_prefix_inv: "inv (fold step (take n ops) init)"
  by (rule run_inv)

end

text \<open>
  A keyed store: reading after an accepted write at the same key gives the value, other keys are
  not touched, and a removed key is absent. \<open>accepts\<close> and \<open>removable\<close> are the arguments the
  provider does not refuse.
\<close>

locale keyed_store =
  fixes get :: "'s \<Rightarrow> 'k \<Rightarrow> 'v option"
    and put :: "'k \<Rightarrow> 'v \<Rightarrow> 's \<Rightarrow> 's"
    and del :: "'k \<Rightarrow> 's \<Rightarrow> 's"
    and accepts :: "'k \<Rightarrow> 'v \<Rightarrow> bool"
    and removable :: "'k \<Rightarrow> bool"
    and ok :: "'s \<Rightarrow> bool"
  assumes get_put:
      "ok s \<Longrightarrow> accepts k v \<Longrightarrow> get (put k v s) k' = (if k' = k then Some v else get s k')"
    and get_del: "ok s \<Longrightarrow> removable k \<Longrightarrow> get (del k s) k' = (if k' = k then None else get s k')"
    and ok_put: "ok s \<Longrightarrow> ok (put k v s)"
    and ok_del: "ok s \<Longrightarrow> ok (del k s)"
begin

lemma last_put_wins:
  "ok s \<Longrightarrow> accepts k v \<Longrightarrow> accepts k w \<Longrightarrow> get (put k v (put k w s)) = get (put k v s)"
  by (rule ext) (simp add: get_put ok_put)

lemma put_commute:
  "ok s \<Longrightarrow> k \<noteq> l \<Longrightarrow> accepts k v \<Longrightarrow> accepts l w \<Longrightarrow>
   get (put k v (put l w s)) = get (put l w (put k v s))"
  by (rule ext) (auto simp: get_put ok_put)

lemma del_put: "ok s \<Longrightarrow> accepts k v \<Longrightarrow> removable k \<Longrightarrow> get (del k (put k v s)) = get (del k s)"
  by (rule ext) (auto simp: get_put get_del ok_put)

lemma puts_map_of:
  "ok s \<Longrightarrow> distinct (map fst kvs) \<Longrightarrow> list_all (\<lambda>(k, v). accepts k v) kvs \<Longrightarrow>
   get (fold (\<lambda>(k, v). put k v) kvs s) k = (case map_of kvs k of None \<Rightarrow> get s k | Some v \<Rightarrow> Some v)"
proof (induction kvs arbitrary: s)
  case (Cons kv kvs)
  obtain a b where kv: "kv = (a, b)" by (cases kv)
  have "map_of kvs a = None"
    using Cons.prems kv by (simp add: map_of_eq_None_iff)
  then show ?case
    using Cons.prems kv Cons.IH[of "put a b s"] by (auto simp: ok_put get_put split: option.split)
qed simp

end

end
