(* ===== verification/Memory_Model.thy ===== *)
theory Memory_Model
  imports Alf_Prelude "HOL-Library.Word"
begin

text \<open>
  \<open>internal/memory/store.go\<close> and \<open>internal/memory/inmem.go\<close>: the data model of the memory block
  (conversations, messages, documents, preferences) and the in-memory store that the contract
  tests use as the reference implementation. Every method of the store is one definition. The
  context's error is the first argument of each (\<open>None\<close> when the context is live), the values
  that \<open>nowFn\<close> returns are arguments, and a method returns the error or the value with the new
  state.
\<close>

section \<open>Data\<close>

type_synonym conv_id = string
type_synonym msg_id = string
type_synonym scope = string
type_synonym channel = string
type_synonym role = string

definition ChannelCC :: channel where "ChannelCC = ''cc''"
definition ChannelTelegram :: channel where "ChannelTelegram = ''tg''"
definition RoleSummary :: role where "RoleSummary = ''summary''"

datatype block_type = BlockText | BlockThinking | BlockToolUse | BlockToolResult | BlockSummary

record content_block =
  cb_type :: block_type
  cb_text :: string
  cb_name :: string
  cb_input :: string
  cb_tool_id :: string
  cb_output :: string

definition empty_block :: "block_type \<Rightarrow> content_block" where
  "empty_block t = \<lparr>cb_type = t, cb_text = [], cb_name = [], cb_input = [], cb_tool_id = [],
                    cb_output = []\<rparr>"

record media =
  md_upload_id :: string
  md_file_name :: string
  md_mime_type :: string
  md_media_type :: string
  md_file_path :: string
  md_url :: string

record reaction =
  r_emoji :: string
  r_source :: string

record tool_call =
  tc_id :: string
  tc_name :: string
  tc_args :: "(string \<times> go_any) list"

text \<open>\<open>CostUSD\<close> is a \<open>float64\<close> that the store only copies: its 64 bits.\<close>

record message =
  m_id :: msg_id
  m_seq :: int
  m_role :: role
  m_channel :: channel
  m_content :: string
  m_blocks :: "content_block list"
  m_media :: "media list"
  m_reactions :: "reaction list"
  m_tool_call :: "tool_call option"
  m_model :: string
  m_tier :: string
  m_backend :: string
  m_cost :: "64 word"
  m_duration :: int
  m_session_id :: string
  m_reply_to :: msg_id
  m_covered :: "msg_id list"
  m_created :: int

definition empty_message :: message where
  "empty_message = \<lparr>m_id = [], m_seq = 0, m_role = [], m_channel = [], m_content = [],
     m_blocks = [], m_media = [], m_reactions = [], m_tool_call = None, m_model = [], m_tier = [],
     m_backend = [], m_cost = 0, m_duration = 0, m_session_id = [], m_reply_to = [],
     m_covered = [], m_created = 0\<rparr>"

record summary =
  s_conv :: conv_id
  s_text :: string
  s_upto :: msg_id
  s_created :: int

definition empty_summary :: summary where
  "empty_summary = \<lparr>s_conv = [], s_text = [], s_upto = [], s_created = 0\<rparr>"

record conv_info =
  ci_id :: conv_id
  ci_title :: string
  ci_channel :: channel
  ci_archived :: bool
  ci_created :: int
  ci_updated :: int
  ci_last_message :: int
  ci_msg_count :: nat

definition empty_conv_info :: conv_info where
  "empty_conv_info = \<lparr>ci_id = [], ci_title = [], ci_channel = [], ci_archived = False,
     ci_created = 0, ci_updated = 0, ci_last_message = 0, ci_msg_count = 0\<rparr>"

record conv_filter =
  cf_channel :: channel
  cf_archived :: bool

record list_opts =
  lo_limit :: int
  lo_before :: msg_id
  lo_after :: msg_id
  lo_summary :: bool

definition no_opts :: list_opts where
  "no_opts = \<lparr>lo_limit = 0, lo_before = [], lo_after = [], lo_summary = False\<rparr>"

record document =
  d_id :: string
  d_text :: string
  d_meta :: "(string \<times> string) list"

section \<open>State\<close>

record conv_state =
  cs_info :: conv_info
  cs_seq :: int
  cs_last_write :: nat

text \<open>\<open>msgSeq\<close> is a 64-bit counter of the messages ever written; it is a \<open>nat\<close> here, so the
  model agrees with the code up to the first \<open>2 ^ 64 - 1\<close> messages.\<close>

record in_mem =
  im_msg_seq :: nat
  im_messages :: "conv_id \<rightharpoonup> message list"
  im_convs :: "conv_id \<rightharpoonup> conv_state"
  im_conv_order :: "conv_id list"
  im_documents :: "scope \<rightharpoonup> (string \<rightharpoonup> document)"
  im_doc_order :: "scope \<rightharpoonup> string list"
  im_prefs :: "string \<rightharpoonup> go_any"

definition new_in_mem :: in_mem where
  "new_in_mem = \<lparr>im_msg_seq = 0, im_messages = Map.empty, im_convs = Map.empty,
     im_conv_order = [], im_documents = Map.empty, im_doc_order = Map.empty,
     im_prefs = Map.empty\<rparr>"

text \<open>A read of an absent key gives the zero value, for a slice the empty one.\<close>

definition msgs_of :: "in_mem \<Rightarrow> conv_id \<Rightarrow> message list" where
  "msgs_of s c = (case im_messages s c of None \<Rightarrow> [] | Some ms \<Rightarrow> ms)"

definition doc_order_of :: "in_mem \<Rightarrow> scope \<Rightarrow> string list" where
  "doc_order_of s sc = (case im_doc_order s sc of None \<Rightarrow> [] | Some xs \<Rightarrow> xs)"

section \<open>Conversations\<close>

definition ensure_conv ::
  "string option \<Rightarrow> conv_id \<Rightarrow> string \<Rightarrow> channel \<Rightarrow> int \<Rightarrow> in_mem \<Rightarrow> in_mem res" where
  "ensure_conv ctx c title ch now s =
     (case ctx of Some e \<Rightarrow> Err e | None \<Rightarrow>
      if c = [] then Err ''memory: EnsureConv: empty convID''
      else if im_convs s c \<noteq> None then Ok s
      else Ok (s\<lparr>im_convs := (im_convs s)(c \<mapsto>
                   \<lparr>cs_info = \<lparr>ci_id = c, ci_title = title, ci_channel = ch, ci_archived = False,
                               ci_created = now, ci_updated = now, ci_last_message = 0,
                               ci_msg_count = 0\<rparr>,
                    cs_seq = 0, cs_last_write = 0\<rparr>),
                 im_conv_order := im_conv_order s @ [c]\<rparr>))"

text \<open>The two fields that \<open>GetConv\<close> and \<open>ListConvs\<close> fill in from the message list.\<close>

definition conv_view :: "in_mem \<Rightarrow> conv_id \<Rightarrow> conv_state \<Rightarrow> conv_info" where
  "conv_view s c st =
     (let ms = msgs_of s c; info = (cs_info st)\<lparr>ci_msg_count := length ms\<rparr>
      in if ms \<noteq> [] then info\<lparr>ci_last_message := m_created (ms ! (length ms - 1))\<rparr> else info)"

definition get_conv :: "string option \<Rightarrow> conv_id \<Rightarrow> in_mem \<Rightarrow> conv_info res" where
  "get_conv ctx c s =
     (case ctx of Some e \<Rightarrow> Err e | None \<Rightarrow>
      if c = [] then Err ''memory: GetConv: empty convID''
      else (case im_convs s c of None \<Rightarrow> Ok empty_conv_info | Some st \<Rightarrow> Ok (conv_view s c st)))"

fun list_convs_loop :: "in_mem \<Rightarrow> conv_filter \<Rightarrow> conv_id list \<Rightarrow> conv_info list" where
  "list_convs_loop s f [] = []"
| "list_convs_loop s f (c # cs) =
     (case im_convs s c of
        None \<Rightarrow> list_convs_loop s f cs
      | Some st \<Rightarrow>
          if cf_channel f \<noteq> [] \<and> ci_channel (cs_info st) \<noteq> cf_channel f
          then list_convs_loop s f cs
          else if ci_archived (cs_info st) \<and> \<not> cf_archived f then list_convs_loop s f cs
          else conv_view s c st # list_convs_loop s f cs)"

definition list_convs :: "string option \<Rightarrow> conv_filter \<Rightarrow> in_mem \<Rightarrow> conv_info list res" where
  "list_convs ctx f s =
     (case ctx of Some e \<Rightarrow> Err e | None \<Rightarrow> Ok (list_convs_loop s f (im_conv_order s)))"

definition update_conv_title ::
  "string option \<Rightarrow> conv_id \<Rightarrow> string \<Rightarrow> int \<Rightarrow> in_mem \<Rightarrow> in_mem res" where
  "update_conv_title ctx c title now s =
     (case ctx of Some e \<Rightarrow> Err e | None \<Rightarrow>
      if c = [] then Err ''memory: UpdateConvTitle: empty convID''
      else (case im_convs s c of None \<Rightarrow> Ok s | Some st \<Rightarrow>
        Ok (s\<lparr>im_convs := (im_convs s)(c \<mapsto>
              st\<lparr>cs_info := (cs_info st)\<lparr>ci_title := title, ci_updated := now\<rparr>\<rparr>)\<rparr>)))"

definition archive_conv :: "string option \<Rightarrow> conv_id \<Rightarrow> int \<Rightarrow> in_mem \<Rightarrow> in_mem res" where
  "archive_conv ctx c now s =
     (case ctx of Some e \<Rightarrow> Err e | None \<Rightarrow>
      if c = [] then Err ''memory: ArchiveConv: empty convID''
      else (case im_convs s c of None \<Rightarrow> Ok s | Some st \<Rightarrow>
        Ok (s\<lparr>im_convs := (im_convs s)(c \<mapsto>
              st\<lparr>cs_info := (cs_info st)\<lparr>ci_archived := True, ci_updated := now\<rparr>\<rparr>)\<rparr>)))"

definition delete_conv :: "string option \<Rightarrow> conv_id \<Rightarrow> in_mem \<Rightarrow> in_mem res" where
  "delete_conv ctx c s =
     (case ctx of Some e \<Rightarrow> Err e | None \<Rightarrow>
      if c = [] then Err ''memory: DeleteConv: empty convID''
      else Ok (s\<lparr>im_convs := (im_convs s)(c := None),
                 im_messages := (im_messages s)(c := None),
                 im_conv_order := remove1 c (im_conv_order s)\<rparr>))"

text \<open>\<open>LatestConvID\<close> ranges over a Go map, whose order the runtime picks: \<open>order\<close> is the order of
  this call.\<close>

fun latest_loop ::
  "in_mem \<Rightarrow> channel \<Rightarrow> conv_id list \<Rightarrow> conv_id \<Rightarrow> nat \<Rightarrow> conv_id" where
  "latest_loop s ch [] best best_order = best"
| "latest_loop s ch (c # cs) best best_order =
     (case im_convs s c of
        None \<Rightarrow> latest_loop s ch cs best best_order
      | Some st \<Rightarrow>
          if ci_archived (cs_info st) then latest_loop s ch cs best best_order
          else if ch \<noteq> [] \<and> ci_channel (cs_info st) \<noteq> ch then latest_loop s ch cs best best_order
          else if msgs_of s c = [] then latest_loop s ch cs best best_order
          else if best_order < cs_last_write st then latest_loop s ch cs c (cs_last_write st)
          else latest_loop s ch cs best best_order)"

definition latest_conv_id ::
  "string option \<Rightarrow> channel \<Rightarrow> conv_id list \<Rightarrow> in_mem \<Rightarrow> conv_id res" where
  "latest_conv_id ctx ch order s =
     (case ctx of Some e \<Rightarrow> Err e | None \<Rightarrow> Ok (latest_loop s ch order [] 0))"

section \<open>Messages\<close>

text \<open>\<open>AppendMessage\<close> reads the clock once for a conversation it has to create (\<open>now\<close>) and once
  for the message (\<open>now'\<close>).\<close>

definition append_message ::
  "string option \<Rightarrow> conv_id \<Rightarrow> message \<Rightarrow> int \<Rightarrow> int \<Rightarrow> in_mem \<Rightarrow> (message \<times> in_mem) res" where
  "append_message ctx c msg now now' s =
     (case ctx of Some e \<Rightarrow> Err e | None \<Rightarrow>
      if c = [] then Err ''memory: AppendMessage: empty convID''
      else
        let (st, order) =
              (case im_convs s c of
                 Some st \<Rightarrow> (st, im_conv_order s)
               | None \<Rightarrow> (\<lparr>cs_info = empty_conv_info\<lparr>ci_id := c, ci_created := now, ci_updated := now\<rparr>,
                          cs_seq = 0, cs_last_write = 0\<rparr>, im_conv_order s @ [c]));
            n = Suc (im_msg_seq s);
            seq = cs_seq st + 1;
            msg' = msg\<lparr>m_id := CHR ''m'' # show_nat n, m_created := now', m_seq := seq\<rparr>;
            st' = st\<lparr>cs_seq := seq, cs_info := (cs_info st)\<lparr>ci_updated := now'\<rparr>,
                     cs_last_write := n\<rparr>
        in Ok (msg', s\<lparr>im_msg_seq := n,
                       im_convs := (im_convs s)(c \<mapsto> st'),
                       im_conv_order := order,
                       im_messages := (im_messages s)(c \<mapsto> msgs_of s c @ [msg'])\<rparr>))"

definition get_message ::
  "string option \<Rightarrow> conv_id \<Rightarrow> msg_id \<Rightarrow> in_mem \<Rightarrow> message option res" where
  "get_message ctx c mid s =
     (case ctx of Some e \<Rightarrow> Err e | None \<Rightarrow>
      if c = [] then Err ''memory: GetMessage: empty convID''
      else if mid = [] then Err ''memory: GetMessage: empty msgID''
      else Ok (List.find (\<lambda>m. m_id m = mid) (msgs_of s c)))"

text \<open>The slice between the two exclusive cursors; an unknown cursor does not cut.\<close>

definition list_window :: "message list \<Rightarrow> list_opts \<Rightarrow> message list" where
  "list_window raw opts =
     (let start = (if lo_after opts \<noteq> []
                   then (case find_index (\<lambda>m. m_id m = lo_after opts) raw of
                           Some i \<Rightarrow> i + 1 | None \<Rightarrow> 0)
                   else 0);
          stop = (if lo_before opts \<noteq> []
                  then (case find_index (\<lambda>m. m_id m = lo_before opts) raw of
                          Some i \<Rightarrow> (if i < length raw then i else length raw)
                        | None \<Rightarrow> length raw)
                  else length raw)
      in if stop \<le> start then [] else drop start (take stop raw))"

text \<open>\<open>applySummaryInPlace\<close>: the first loop keeps the last summary it sees.\<close>

fun latest_summary :: "message list \<Rightarrow> message option \<Rightarrow> message option" where
  "latest_summary [] acc = acc"
| "latest_summary (m # ms) acc =
     latest_summary ms (if m_role m = RoleSummary then Some m else acc)"

definition apply_summary :: "message list \<Rightarrow> message list" where
  "apply_summary ms =
     (case latest_summary ms None of
        None \<Rightarrow> ms
      | Some latest \<Rightarrow>
          latest # filter (\<lambda>m. m_role m \<noteq> RoleSummary \<and> m_id m \<notin> set (m_covered latest)) ms)"

definition last_n :: "int \<Rightarrow> 'a list \<Rightarrow> 'a list" where
  "last_n n xs = (if 0 < n \<and> n < int (length xs) then drop (length xs - nat n) xs else xs)"

definition list_messages ::
  "string option \<Rightarrow> conv_id \<Rightarrow> list_opts \<Rightarrow> in_mem \<Rightarrow> message list res" where
  "list_messages ctx c opts s =
     (case ctx of Some e \<Rightarrow> Err e | None \<Rightarrow>
      if c = [] then Err ''memory: ListMessages: empty convID''
      else
        let raw = msgs_of s c; window = list_window raw opts
        in if raw = [] \<or> window = [] then Ok []
           else Ok (last_n (lo_limit opts)
                      (if lo_summary opts then apply_summary window else window)))"

text \<open>The loop of \<open>AddReaction\<close> over the messages: the first message with the id gets the
  reaction, unless it has it. The flag is whether the id was found.\<close>

fun react_loop :: "msg_id \<Rightarrow> reaction \<Rightarrow> message list \<Rightarrow> bool \<times> message list" where
  "react_loop mid r [] = (False, [])"
| "react_loop mid r (m # ms) =
     (if m_id m \<noteq> mid then (case react_loop mid r ms of (b, ms') \<Rightarrow> (b, m # ms'))
      else if \<exists>x \<in> set (m_reactions m). r_emoji x = r_emoji r \<and> r_source x = r_source r
      then (True, m # ms)
      else (True, m\<lparr>m_reactions := m_reactions m @ [r]\<rparr> # ms))"

definition add_reaction ::
  "string option \<Rightarrow> conv_id \<Rightarrow> msg_id \<Rightarrow> reaction \<Rightarrow> in_mem \<Rightarrow> (bool \<times> in_mem) res" where
  "add_reaction ctx c mid r s =
     (case ctx of Some e \<Rightarrow> Err e | None \<Rightarrow>
      if c = [] then Err ''memory: AddReaction: empty convID''
      else if mid = [] then Err ''memory: AddReaction: empty msgID''
      else (case im_messages s c of
              None \<Rightarrow> Ok (False, s)
            | Some ms \<Rightarrow>
                let (b, ms') = react_loop mid r ms
                in Ok (b, s\<lparr>im_messages := (im_messages s)(c \<mapsto> ms')\<rparr>)))"

definition append_summary ::
  "string option \<Rightarrow> conv_id \<Rightarrow> string \<Rightarrow> msg_id list \<Rightarrow> int \<Rightarrow> int \<Rightarrow> in_mem \<Rightarrow> in_mem res" where
  "append_summary ctx c txt ids now now' s =
     (case ctx of Some e \<Rightarrow> Err e | None \<Rightarrow>
      if c = [] then Err ''memory: AppendSummary: empty convID''
      else if txt = [] \<or> ids = [] then Ok s
      else map_sum id snd
             (append_message None c
                (empty_message\<lparr>m_role := RoleSummary, m_content := txt,
                               m_blocks := [(empty_block BlockSummary)\<lparr>cb_text := txt\<rparr>],
                               m_covered := ids\<rparr>) now now' s))"

fun covered_loop :: "message list \<Rightarrow> msg_id list \<Rightarrow> msg_id list" where
  "covered_loop [] acc = acc"
| "covered_loop (m # ms) acc =
     covered_loop ms (if m_role m = RoleSummary then m_covered m else acc)"

definition latest_summary_covered ::
  "string option \<Rightarrow> conv_id \<Rightarrow> in_mem \<Rightarrow> msg_id list res" where
  "latest_summary_covered ctx c s =
     (case ctx of Some e \<Rightarrow> Err e | None \<Rightarrow>
      if c = [] then Err ''memory: LatestSummaryCovered: empty convID''
      else Ok (covered_loop (msgs_of s c) []))"

definition summarize :: "string option \<Rightarrow> conv_id \<Rightarrow> int \<Rightarrow> in_mem \<Rightarrow> summary res" where
  "summarize ctx c now s =
     (case ctx of Some e \<Rightarrow> Err e | None \<Rightarrow>
      if c = [] then Err ''memory: Summarize: empty convID''
      else
        let ms = msgs_of s c
        in if ms = [] then Ok empty_summary
           else (case List.find (\<lambda>m. m_role m = RoleSummary) (rev ms) of
                   Some m \<Rightarrow> Ok \<lparr>s_conv = c, s_text = m_content m, s_upto = m_id m,
                                 s_created = m_created m\<rparr>
                 | None \<Rightarrow> Ok \<lparr>s_conv = c,
                              s_text = ''conv '' @ c @ '': '' @ show_nat (length ms) @ '' message(s)'',
                              s_upto = m_id (ms ! (length ms - 1)), s_created = now\<rparr>))"

section \<open>Documents\<close>

definition index_document ::
  "string option \<Rightarrow> scope \<Rightarrow> document \<Rightarrow> in_mem \<Rightarrow> in_mem res" where
  "index_document ctx sc doc s =
     (case ctx of Some e \<Rightarrow> Err e | None \<Rightarrow>
      if sc = [] then Err ''memory: Index: empty scope''
      else if d_id doc = [] then Err ''memory: Index: empty Document.ID''
      else
        let docs = (case im_documents s sc of None \<Rightarrow> Map.empty | Some ds \<Rightarrow> ds);
            order = (if docs (d_id doc) = None
                     then (im_doc_order s)(sc \<mapsto> doc_order_of s sc @ [d_id doc])
                     else im_doc_order s)
        in Ok (s\<lparr>im_documents := (im_documents s)(sc \<mapsto> docs(d_id doc \<mapsto> doc)),
                 im_doc_order := order\<rparr>))"

definition get_document ::
  "string option \<Rightarrow> scope \<Rightarrow> string \<Rightarrow> in_mem \<Rightarrow> document option res" where
  "get_document ctx sc did s =
     (case ctx of Some e \<Rightarrow> Err e | None \<Rightarrow>
      if sc = [] then Err ''memory: GetDocument: empty scope''
      else if did = [] then Err ''memory: GetDocument: empty docID''
      else Ok (case im_documents s sc of None \<Rightarrow> None | Some ds \<Rightarrow> ds did))"

text \<open>The loop stops once \<open>limit\<close> documents are in \<open>out\<close>.\<close>

fun list_documents_loop ::
  "(string \<rightharpoonup> document) \<Rightarrow> int \<Rightarrow> string list \<Rightarrow> document list \<Rightarrow> document list" where
  "list_documents_loop ds limit [] out = out"
| "list_documents_loop ds limit (i # is) out =
     (case ds i of
        None \<Rightarrow> list_documents_loop ds limit is out
      | Some d \<Rightarrow>
          if limit \<le> int (length (out @ [d])) then out @ [d]
          else list_documents_loop ds limit is (out @ [d]))"

definition list_documents ::
  "string option \<Rightarrow> scope \<Rightarrow> int \<Rightarrow> in_mem \<Rightarrow> document list res" where
  "list_documents ctx sc limit s =
     (case ctx of Some e \<Rightarrow> Err e | None \<Rightarrow>
      if sc = [] then Err ''memory: ListDocuments: empty scope''
      else if limit \<le> 0 then Err ''memory: ListDocuments: limit must be > 0''
      else Ok (case im_documents s sc of None \<Rightarrow> []
               | Some ds \<Rightarrow> list_documents_loop ds limit (doc_order_of s sc) []))"

definition delete_document ::
  "string option \<Rightarrow> scope \<Rightarrow> string \<Rightarrow> in_mem \<Rightarrow> (bool \<times> in_mem) res" where
  "delete_document ctx sc did s =
     (case ctx of Some e \<Rightarrow> Err e | None \<Rightarrow>
      if sc = [] then Err ''memory: DeleteDocument: empty scope''
      else if did = [] then Err ''memory: DeleteDocument: empty docID''
      else (case im_documents s sc of
              None \<Rightarrow> Ok (False, s)
            | Some ds \<Rightarrow>
                if ds did = None then Ok (False, s)
                else Ok (True, s\<lparr>im_documents := (im_documents s)(sc \<mapsto> ds(did := None)),
                                 im_doc_order := (im_doc_order s)(sc \<mapsto>
                                   remove1 did (doc_order_of s sc))\<rparr>)))"

section \<open>Preferences\<close>

definition get_pref :: "string option \<Rightarrow> string \<Rightarrow> in_mem \<Rightarrow> go_any option res" where
  "get_pref ctx k s =
     (case ctx of Some e \<Rightarrow> Err e | None \<Rightarrow>
      if k = [] then Err ''memory: GetPref: empty key'' else Ok (im_prefs s k))"

definition set_pref :: "string option \<Rightarrow> string \<Rightarrow> go_any option \<Rightarrow> in_mem \<Rightarrow> in_mem res" where
  "set_pref ctx k v s =
     (case ctx of Some e \<Rightarrow> Err e | None \<Rightarrow>
      if k = [] then Err ''memory: SetPref: empty key''
      else Ok (s\<lparr>im_prefs := (im_prefs s)(k := v)\<rparr>))"

end
