(* ===== verification/Memory_Store.thy ===== *)
theory Memory_Store
  imports Memory_Model
begin

text \<open>
  What makes the in-memory store of \<open>Memory_Model\<close> correct: the well-formedness invariant and
  its preservation by every operation, the functional behaviour of the message timeline, the
  document index as a refinement of a list, and the interfaces the store provides (a keyed store
  for documents and preferences, a conversation log for the runtime).
\<close>

section \<open>The well-formedness invariant\<close>

definition msg_name :: "nat \<Rightarrow> msg_id" where
  "msg_name n = CHR ''m'' # show_nat n"

lemma msg_name_eq_iff [simp]: "msg_name m = msg_name n \<longleftrightarrow> m = n"
  by (simp add: msg_name_def)

lemma msg_name_not_Nil [simp]: "msg_name n \<noteq> []" "[] \<noteq> msg_name n"
  by (simp_all add: msg_name_def)

text \<open>The messages of one conversation: ids are the counter's values in writing order, none above
  \<open>hi\<close>, the last one is \<open>lastw\<close>, and \<open>Seq\<close> counts from 1 without gaps.\<close>

definition numbered :: "nat \<Rightarrow> message list \<Rightarrow> nat \<Rightarrow> bool" where
  "numbered hi ms lastw \<longleftrightarrow>
     (\<exists>ns. map m_id ms = map msg_name ns \<and> sorted_wrt (<) ns \<and> (\<forall>n \<in> set ns. 0 < n \<and> n \<le> hi) \<and>
           lastw = (if ns = [] then 0 else last ns)) \<and>
     (\<forall>i < length ms. m_seq (ms ! i) = int i + 1)"

lemma numbered_Nil: "numbered hi [] lastw \<longleftrightarrow> lastw = 0"
  by (auto simp: numbered_def)

lemma numbered_mono: "numbered hi ms l \<Longrightarrow> hi \<le> hi' \<Longrightarrow> numbered hi' ms l"
  unfolding numbered_def by (fastforce intro: order_trans)

lemma numbered_snoc:
  assumes "numbered hi ms l" and "m_id m = msg_name (Suc hi)" and "m_seq m = int (length ms) + 1"
  shows "numbered (Suc hi) (ms @ [m]) (Suc hi)"
proof -
  from assms(1) obtain ns where ns: "map m_id ms = map msg_name ns" "sorted_wrt (<) ns"
      "\<forall>n \<in> set ns. 0 < n \<and> n \<le> hi"
    and seq: "\<forall>i < length ms. m_seq (ms ! i) = int i + 1"
    by (auto simp: numbered_def)
  have "map m_id (ms @ [m]) = map msg_name (ns @ [Suc hi])"
    using ns(1) assms(2) by simp
  moreover have "sorted_wrt (<) (ns @ [Suc hi])"
    using ns(2,3) by (auto simp: sorted_wrt_append less_Suc_eq_le)
  moreover have "\<forall>n \<in> set (ns @ [Suc hi]). 0 < n \<and> n \<le> Suc hi"
    using ns(3) by auto
  moreover have "\<forall>i < length (ms @ [m]). m_seq ((ms @ [m]) ! i) = int i + 1"
    using seq assms(3) by (auto simp: nth_append less_Suc_eq)
  ultimately show ?thesis
    unfolding numbered_def by (intro conjI exI[of _ "ns @ [Suc hi]"]) auto
qed

lemma numbered_fresh:
  "numbered hi ms l \<Longrightarrow> m \<in> set ms \<Longrightarrow> m_id m \<noteq> msg_name (Suc hi)"
proof
  assume "numbered hi ms l" "m \<in> set ms" "m_id m = msg_name (Suc hi)"
  then obtain ns where "map m_id ms = map msg_name ns" "\<forall>n \<in> set ns. n \<le> hi"
    by (auto simp: numbered_def)
  moreover have "m_id m \<in> set (map m_id ms)" using \<open>m \<in> set ms\<close> by simp
  ultimately show False using \<open>m_id m = msg_name (Suc hi)\<close> by auto
qed

lemma numbered_distinct:
  assumes "numbered hi ms l"
  shows "distinct (map m_id ms)"
proof -
  obtain ns where "map m_id ms = map msg_name ns" "sorted_wrt (<) ns"
    using assms by (auto simp: numbered_def)
  then show ?thesis by (simp add: distinct_map inj_on_def strict_sorted_iff)
qed

lemma numbered_cong:
  "map m_id ms' = map m_id ms \<Longrightarrow> map m_seq ms' = map m_seq ms \<Longrightarrow>
   numbered hi ms' l = numbered hi ms l"
proof -
  assume ids: "map m_id ms' = map m_id ms" and seqs: "map m_seq ms' = map m_seq ms"
  have len: "length ms' = length ms" using ids by (metis length_map)
  have "m_seq (ms' ! i) = m_seq (ms ! i)" if "i < length ms" for i
    using seqs that len by (metis nth_map)
  then show ?thesis using ids len by (auto simp: numbered_def)
qed

lemma numbered_last_pos: "numbered hi ms l \<Longrightarrow> ms \<noteq> [] \<Longrightarrow> 0 < l \<and> m_id (last ms) = msg_name l"
proof -
  assume "numbered hi ms l" "ms \<noteq> []"
  then obtain ns where ns: "map m_id ms = map msg_name ns" "\<forall>n \<in> set ns. 0 < n" "ns \<noteq> []"
    "l = last ns"
    by (auto simp: numbered_def split: if_splits)
  then have "m_id (last ms) = msg_name (last ns)"
    using \<open>ms \<noteq> []\<close> by (metis last_map)
  then show ?thesis using ns by auto
qed

definition convs_wf :: "in_mem \<Rightarrow> bool" where
  "convs_wf s \<longleftrightarrow>
     distinct (im_conv_order s) \<and> set (im_conv_order s) = dom (im_convs s) \<and>
     dom (im_messages s) \<subseteq> dom (im_convs s) \<and>
     (\<forall>c st. im_convs s c = Some st \<longrightarrow>
        c \<noteq> [] \<and> ci_id (cs_info st) = c \<and> cs_seq st = int (length (msgs_of s c)) \<and>
        numbered (im_msg_seq s) (msgs_of s c) (cs_last_write st))"

definition ids_wf :: "in_mem \<Rightarrow> bool" where
  "ids_wf s \<longleftrightarrow>
     (\<forall>c d. c \<noteq> d \<longrightarrow> m_id ` set (msgs_of s c) \<inter> m_id ` set (msgs_of s d) = {})"

definition docs_wf :: "in_mem \<Rightarrow> bool" where
  "docs_wf s \<longleftrightarrow>
     (\<forall>sc. distinct (doc_order_of s sc) \<and>
           set (doc_order_of s sc) =
             (case im_documents s sc of None \<Rightarrow> {} | Some ds \<Rightarrow> dom ds)) \<and>
     (\<forall>sc ds i d. im_documents s sc = Some ds \<longrightarrow> ds i = Some d \<longrightarrow> d_id d = i \<and> i \<noteq> [])"

definition mem_wf :: "in_mem \<Rightarrow> bool" where
  "mem_wf s \<longleftrightarrow> convs_wf s \<and> ids_wf s \<and> docs_wf s"

text \<open>The operations that change the store, and one step of it; a method that returns an error
  leaves the store as it was.\<close>

datatype mem_op =
    OpEnsure "string option" conv_id string channel int
  | OpTitle "string option" conv_id string int
  | OpArchive "string option" conv_id int
  | OpDelete "string option" conv_id
  | OpAppend "string option" conv_id message int int
  | OpReact "string option" conv_id msg_id reaction
  | OpSummary "string option" conv_id string "msg_id list" int int
  | OpIndex "string option" scope document
  | OpDeleteDoc "string option" scope string
  | OpSetPref "string option" string "go_any option"

definition keep :: "in_mem \<Rightarrow> in_mem res \<Rightarrow> in_mem" where
  "keep s r = (case r of Inl _ \<Rightarrow> s | Inr s' \<Rightarrow> s')"

fun mem_step :: "mem_op \<Rightarrow> in_mem \<Rightarrow> in_mem" where
  "mem_step (OpEnsure ctx c t ch now) s = keep s (ensure_conv ctx c t ch now s)"
| "mem_step (OpTitle ctx c t now) s = keep s (update_conv_title ctx c t now s)"
| "mem_step (OpArchive ctx c now) s = keep s (archive_conv ctx c now s)"
| "mem_step (OpDelete ctx c) s = keep s (delete_conv ctx c s)"
| "mem_step (OpAppend ctx c m now now') s =
     keep s (map_sum id snd (append_message ctx c m now now' s))"
| "mem_step (OpReact ctx c mid r) s = keep s (map_sum id snd (add_reaction ctx c mid r s))"
| "mem_step (OpSummary ctx c t ids now now') s = keep s (append_summary ctx c t ids now now' s)"
| "mem_step (OpIndex ctx sc d) s = keep s (index_document ctx sc d s)"
| "mem_step (OpDeleteDoc ctx sc i) s = keep s (map_sum id snd (delete_document ctx sc i s))"
| "mem_step (OpSetPref ctx k v) s = keep s (set_pref ctx k v s)"

lemma keep_simps [simp]: "keep s (Inl e) = s" "keep s (Inr s') = s'"
  by (simp_all add: keep_def)

lemma mem_wf_new: "mem_wf new_in_mem"
  by (simp add: mem_wf_def convs_wf_def ids_wf_def docs_wf_def new_in_mem_def msgs_of_def
      doc_order_of_def)

lemma msgs_of_upd [simp]:
  "msgs_of (s\<lparr>im_messages := (im_messages t)(c := v)\<rparr>) =
     (msgs_of t)(c := (case v of None \<Rightarrow> [] | Some ms \<Rightarrow> ms))"
  "msgs_of (s\<lparr>im_convs := g\<rparr>) = msgs_of s"
  "msgs_of (s\<lparr>im_conv_order := h\<rparr>) = msgs_of s"
  "msgs_of (s\<lparr>im_msg_seq := n\<rparr>) = msgs_of s"
  "msgs_of (s\<lparr>im_documents := ds\<rparr>) = msgs_of s"
  "msgs_of (s\<lparr>im_doc_order := do\<rparr>) = msgs_of s"
  "msgs_of (s\<lparr>im_prefs := pr\<rparr>) = msgs_of s"
  by (simp_all add: msgs_of_def fun_eq_iff)

lemma doc_order_of_upd [simp]:
  "doc_order_of (s\<lparr>im_messages := f\<rparr>) = doc_order_of s"
  "doc_order_of (s\<lparr>im_convs := g\<rparr>) = doc_order_of s"
  "doc_order_of (s\<lparr>im_conv_order := h\<rparr>) = doc_order_of s"
  "doc_order_of (s\<lparr>im_msg_seq := n\<rparr>) = doc_order_of s"
  "doc_order_of (s\<lparr>im_documents := ds\<rparr>) = doc_order_of s"
  "doc_order_of (s\<lparr>im_doc_order := (im_doc_order t)(sc \<mapsto> xs)\<rparr>) = (doc_order_of t)(sc := xs)"
  "doc_order_of (s\<lparr>im_prefs := pr\<rparr>) = doc_order_of s"
  by (simp_all add: doc_order_of_def fun_eq_iff)

lemma mem_wf_conv:
  assumes "mem_wf s" and "im_convs s c = Some st"
  shows "c \<noteq> []" and "ci_id (cs_info st) = c" and "cs_seq st = int (length (msgs_of s c))"
    and "numbered (im_msg_seq s) (msgs_of s c) (cs_last_write st)"
  using assms by (simp_all add: mem_wf_def convs_wf_def)

lemma mem_wf_ids:
  "mem_wf s \<Longrightarrow> c \<noteq> d \<Longrightarrow> m_id ` set (msgs_of s c) \<inter> m_id ` set (msgs_of s d) = {}"
  by (simp add: mem_wf_def ids_wf_def)

lemma msgs_of_fresh: "convs_wf s \<Longrightarrow> im_convs s c = None \<Longrightarrow> msgs_of s c = []"
proof -
  assume "convs_wf s" "im_convs s c = None"
  then have "im_messages s c = None" by (auto simp: convs_wf_def domIff)
  then show ?thesis by (simp add: msgs_of_def)
qed

text \<open>Each operation on the well-formed state, one lemma per shape of change.\<close>

lemma wf_new_conv:
  assumes "mem_wf s" and "im_convs s c = None" and "c \<noteq> []"
    and "ci_id (cs_info st) = c" and "cs_seq st = 0" and "cs_last_write st = 0"
  shows "mem_wf (s\<lparr>im_convs := (im_convs s)(c \<mapsto> st), im_conv_order := im_conv_order s @ [c]\<rparr>)"
proof -
  have "msgs_of s c = []" using assms(1,2) by (simp add: mem_wf_def msgs_of_fresh)
  then show ?thesis
    using assms by (auto simp: mem_wf_def convs_wf_def ids_wf_def docs_wf_def numbered_Nil)
qed

lemma wf_conv_info:
  assumes "mem_wf s" and "im_convs s c = Some st"
    and "ci_id (cs_info st') = ci_id (cs_info st)" and "cs_seq st' = cs_seq st"
    and "cs_last_write st' = cs_last_write st"
  shows "mem_wf (s\<lparr>im_convs := (im_convs s)(c \<mapsto> st')\<rparr>)"
proof -
  have "insert c (dom (im_convs s)) = dom (im_convs s)" using assms(2) by auto
  then show ?thesis
    using assms by (auto simp: mem_wf_def convs_wf_def ids_wf_def docs_wf_def)
qed

lemma wf_delete_conv:
  assumes "mem_wf s"
  shows "mem_wf (s\<lparr>im_convs := (im_convs s)(c := None), im_messages := (im_messages s)(c := None),
                   im_conv_order := remove1 c (im_conv_order s)\<rparr>)"
  using assms unfolding mem_wf_def
  by (auto simp: convs_wf_def ids_wf_def docs_wf_def)

lemma wf_set_messages:
  assumes "mem_wf s" and "im_messages s c = Some ms"
    and "map m_id ms' = map m_id ms" and "map m_seq ms' = map m_seq ms"
  shows "mem_wf (s\<lparr>im_messages := (im_messages s)(c \<mapsto> ms')\<rparr>)"
proof -
  have len: "length ms' = length ms" using assms(3) by (metis length_map)
  have ids: "m_id ` set ms' = m_id ` set ms" using assms(3) by (metis list.set_map)
  have ms: "ms = msgs_of s c" using assms(2) by (simp add: msgs_of_def)
  have num: "numbered n ms' l = numbered n ms l" for n l
    using assms(3,4) by (rule numbered_cong)
  have "c \<in> dom (im_convs s)" using assms(1,2) by (auto simp: mem_wf_def convs_wf_def)
  then show ?thesis
    using assms(1) ms len ids num unfolding mem_wf_def
    by (auto simp: convs_wf_def ids_wf_def docs_wf_def)
qed

lemma wf_append:
  assumes wf: "mem_wf s" and c: "c \<noteq> []"
    and st: "im_convs s c = Some st"
    and st': "ci_id (cs_info st') = c" "cs_seq st' = cs_seq st + 1"
      "cs_last_write st' = Suc (im_msg_seq s)"
    and m: "m_id m = msg_name (Suc (im_msg_seq s))" "m_seq m = cs_seq st + 1"
  shows "mem_wf (s\<lparr>im_msg_seq := Suc (im_msg_seq s), im_convs := (im_convs s)(c \<mapsto> st'),
                   im_messages := (im_messages s)(c \<mapsto> msgs_of s c @ [m])\<rparr>)"
proof -
  let ?n = "Suc (im_msg_seq s)" and ?ms = "msgs_of s c @ [m]"
  have cw: "convs_wf s" and iw: "ids_wf s" and dw: "docs_wf s" using wf by (auto simp: mem_wf_def)
  have seq: "cs_seq st = int (length (msgs_of s c))"
    and num: "numbered (im_msg_seq s) (msgs_of s c) (cs_last_write st)"
    using cw st by (auto simp: convs_wf_def)
  have num': "numbered ?n ?ms ?n" by (rule numbered_snoc[OF num m(1)]) (simp add: m(2) seq)
  have fresh: "m_id x \<noteq> msg_name ?n" if "x \<in> set (msgs_of s d)" for x d
  proof (cases "im_convs s d")
    case None
    then show ?thesis using that cw by (simp add: msgs_of_fresh)
  next
    case (Some std)
    then have "numbered (im_msg_seq s) (msgs_of s d) (cs_last_write std)"
      using cw by (simp add: convs_wf_def)
    then show ?thesis using that by (rule numbered_fresh)
  qed
  have "numbered ?n (msgs_of s d) (cs_last_write std)" if "im_convs s d = Some std" for d std
    using cw that numbered_mono[of "im_msg_seq s" _ _ ?n] by (simp add: convs_wf_def)
  then have "convs_wf (s\<lparr>im_msg_seq := ?n, im_convs := (im_convs s)(c \<mapsto> st'),
                   im_messages := (im_messages s)(c \<mapsto> ?ms)\<rparr>)"
    using cw st c st' num' seq by (auto simp: convs_wf_def)
  moreover have "m_id m \<notin> m_id ` set (msgs_of s d)" for d using fresh[of _ d] m(1) by force
  then have "ids_wf (s\<lparr>im_msg_seq := ?n, im_convs := (im_convs s)(c \<mapsto> st'),
                   im_messages := (im_messages s)(c \<mapsto> ?ms)\<rparr>)"
    using iw unfolding ids_wf_def by auto
  ultimately show ?thesis using dw by (simp add: mem_wf_def docs_wf_def)
qed

lemma wf_documents:
  assumes wf: "mem_wf s" and id: "d_id d = i" "i \<noteq> []"
    and ds: "ds = (case im_documents s sc of None \<Rightarrow> Map.empty | Some ds \<Rightarrow> ds)"
  shows "ds i = None \<Longrightarrow>
           mem_wf (s\<lparr>im_documents := (im_documents s)(sc \<mapsto> ds(i \<mapsto> d)),
                     im_doc_order := (im_doc_order s)(sc \<mapsto> doc_order_of s sc @ [i])\<rparr>)"
    and "ds i \<noteq> None \<Longrightarrow> mem_wf (s\<lparr>im_documents := (im_documents s)(sc \<mapsto> ds(i \<mapsto> d))\<rparr>)"
proof -
  have o: "set (doc_order_of s sc) = dom ds"
    using wf ds by (auto simp: mem_wf_def docs_wf_def split: option.splits)
  have old: "d_id d' = j \<and> j \<noteq> []" if "ds j = Some d'" for j d'
    using wf ds that by (auto simp: mem_wf_def docs_wf_def split: option.splits)
  show "ds i = None \<Longrightarrow>
           mem_wf (s\<lparr>im_documents := (im_documents s)(sc \<mapsto> ds(i \<mapsto> d)),
                     im_doc_order := (im_doc_order s)(sc \<mapsto> doc_order_of s sc @ [i])\<rparr>)"
    using wf o old id by (auto simp: mem_wf_def convs_wf_def ids_wf_def docs_wf_def)
  show "ds i \<noteq> None \<Longrightarrow> mem_wf (s\<lparr>im_documents := (im_documents s)(sc \<mapsto> ds(i \<mapsto> d))\<rparr>)"
    using wf o old id by (auto simp: mem_wf_def convs_wf_def ids_wf_def docs_wf_def insert_absorb)
qed

lemma wf_delete_document:
  assumes "mem_wf s" and "im_documents s sc = Some ds"
  shows "mem_wf (s\<lparr>im_documents := (im_documents s)(sc \<mapsto> ds(i := None)),
                   im_doc_order := (im_doc_order s)(sc \<mapsto> remove1 i (doc_order_of s sc))\<rparr>)"
proof -
  have "distinct (doc_order_of s sc)" "set (doc_order_of s sc) = dom ds"
    "\<forall>j d. ds j = Some d \<longrightarrow> d_id d = j \<and> j \<noteq> []"
    using assms by (auto simp: mem_wf_def docs_wf_def split: option.splits)
  then show ?thesis
    using assms(1) by (auto simp: mem_wf_def convs_wf_def ids_wf_def docs_wf_def)
qed

lemma react_loop_ids:
  "react_loop mid r ms = (b, ms') \<Longrightarrow> map m_id ms' = map m_id ms \<and> map m_seq ms' = map m_seq ms"
  by (induction mid r ms arbitrary: b ms' rule: react_loop.induct)
     (auto split: if_splits prod.splits)

lemma wf_ensure_conv: "mem_wf s \<Longrightarrow> mem_wf (keep s (ensure_conv ctx c t ch now s))"
  by (auto simp: ensure_conv_def intro!: wf_new_conv split: option.split)

text \<open>\<open>AppendMessage\<close> on a known conversation, and on an unknown one, where it is the same as
  on the store that has the conversation already, with an empty title and channel.\<close>

definition stored :: "message \<Rightarrow> int \<Rightarrow> nat \<Rightarrow> int \<Rightarrow> message" where
  "stored m seq n now = m\<lparr>m_id := msg_name n, m_created := now, m_seq := seq\<rparr>"

lemma append_message_known:
  "im_convs s c = Some st \<Longrightarrow> c \<noteq> [] \<Longrightarrow>
   append_message None c m now now' s =
     Ok (stored m (cs_seq st + 1) (Suc (im_msg_seq s)) now',
         s\<lparr>im_msg_seq := Suc (im_msg_seq s),
           im_convs := (im_convs s)(c \<mapsto> st\<lparr>cs_seq := cs_seq st + 1,
             cs_info := (cs_info st)\<lparr>ci_updated := now'\<rparr>, cs_last_write := Suc (im_msg_seq s)\<rparr>),
           im_messages := (im_messages s)(c \<mapsto>
             msgs_of s c @ [stored m (cs_seq st + 1) (Suc (im_msg_seq s)) now'])\<rparr>)"
  by (simp add: append_message_def Let_def stored_def msg_name_def)

definition bare_conv :: "conv_id \<Rightarrow> int \<Rightarrow> conv_state" where
  "bare_conv c now = \<lparr>cs_info = empty_conv_info\<lparr>ci_id := c, ci_created := now, ci_updated := now\<rparr>,
                      cs_seq = 0, cs_last_write = 0\<rparr>"

definition with_conv :: "conv_id \<Rightarrow> int \<Rightarrow> in_mem \<Rightarrow> in_mem" where
  "with_conv c now s =
     (if im_convs s c = None
      then s\<lparr>im_convs := (im_convs s)(c \<mapsto> bare_conv c now),
             im_conv_order := im_conv_order s @ [c]\<rparr>
      else s)"

lemma append_message_with_conv:
  "append_message ctx c m now now' s = append_message ctx c m now now' (with_conv c now s)"
  by (cases "im_convs s c")
     (simp_all add: append_message_def with_conv_def bare_conv_def Let_def split: option.split)

lemma wf_with_conv: "mem_wf s \<Longrightarrow> c \<noteq> [] \<Longrightarrow> mem_wf (with_conv c now s)"
  by (simp add: with_conv_def bare_conv_def wf_new_conv)

lemma with_conv_known: "\<exists>st. im_convs (with_conv c now s) c = Some st"
  by (auto simp: with_conv_def)

lemma stored_sel [simp]:
  "m_id (stored m q n now) = msg_name n" "m_seq (stored m q n now) = q"
  "m_created (stored m q n now) = now" "m_role (stored m q n now) = m_role m"
  "m_covered (stored m q n now) = m_covered m" "m_blocks (stored m q n now) = m_blocks m"
  "m_content (stored m q n now) = m_content m"
  by (simp_all add: stored_def)

lemma wf_append_message:
  assumes wf: "mem_wf s"
  shows "mem_wf (keep s (map_sum id snd (append_message ctx c m now now' s)))"
proof (cases "ctx = None \<and> c \<noteq> []")
  case False
  then show ?thesis using wf by (cases ctx) (simp_all add: append_message_def)
next
  case True
  then have wf': "mem_wf (with_conv c now s)" using wf by (simp add: wf_with_conv)
  obtain st where st: "im_convs (with_conv c now s) c = Some st" using with_conv_known by blast
  have "ci_id (cs_info st) = c" using wf' st by (simp add: mem_wf_def convs_wf_def)
  then show ?thesis
    using True st wf_append[OF wf' _ st]
    by (simp add: append_message_with_conv[of _ _ _ _ _ s] append_message_known)
qed

lemma wf_mem_step: "mem_wf s \<Longrightarrow> mem_wf (mem_step op s)"
proof (cases op)
  case (OpSummary ctx c t ids now now')
  assume "mem_wf s"
  then show ?thesis
    using OpSummary wf_append_message[of s None c _ now now']
    by (auto simp: append_summary_def split: option.split)
next
  case (OpReact ctx c mid r)
  assume "mem_wf s"
  then show ?thesis
    using OpReact react_loop_ids[of mid r]
    by (auto simp: add_reaction_def split: option.split prod.split intro!: wf_set_messages)
next
  case (OpIndex ctx sc d)
  assume "mem_wf s"
  then show ?thesis
    using OpIndex wf_documents[OF _ refl _ refl]
    by (auto simp: index_document_def Let_def split: option.split)
next
  case (OpDeleteDoc ctx sc i)
  assume "mem_wf s"
  then show ?thesis
    using OpDeleteDoc
    by (auto simp: delete_document_def split: option.split intro!: wf_delete_document)
next
  case (OpSetPref ctx k v)
  assume "mem_wf s"
  then show ?thesis
    using OpSetPref
    by (auto simp: set_pref_def mem_wf_def convs_wf_def ids_wf_def docs_wf_def split: option.split)
qed (auto simp: update_conv_title_def archive_conv_def delete_conv_def
      intro!: wf_ensure_conv wf_append_message wf_conv_info wf_delete_conv split: option.split)

interpretation mem: op_machine new_in_mem mem_step mem_wf
  by unfold_locales (auto intro: mem_wf_new wf_mem_step)

section \<open>Functional behaviour\<close>

lemma list_messages_all: "c \<noteq> [] \<Longrightarrow> list_messages None c no_opts s = Ok (msgs_of s c)"
  by (simp add: list_messages_def no_opts_def list_window_def last_n_def Let_def)

lemma append_message_ok:
  assumes "append_message None c m now now' s = Ok (m', s')"
  shows "c \<noteq> []" and "msgs_of s' = (msgs_of s)(c := msgs_of s c @ [m'])"
    and "m_id m' = msg_name (Suc (im_msg_seq s))" and "im_msg_seq s' = Suc (im_msg_seq s)"
    and "m' = stored m (m_seq m') (Suc (im_msg_seq s)) now'"
proof -
  show c: "c \<noteq> []" using assms by (auto simp: append_message_def)
  obtain st where st: "im_convs (with_conv c now s) c = Some st" using with_conv_known by blast
  have w: "msgs_of (with_conv c now s) = msgs_of s" "im_msg_seq (with_conv c now s) = im_msg_seq s"
    by (auto simp: with_conv_def)
  have e: "m' = stored m (cs_seq st + 1) (Suc (im_msg_seq s)) now'"
    and s': "msgs_of s' = (msgs_of s)(c := msgs_of s c @ [m'])" "im_msg_seq s' = Suc (im_msg_seq s)"
    using assms append_message_known[OF st c, of m now now'] w
    by (auto simp: append_message_with_conv[of _ _ _ _ _ s])
  show "msgs_of s' = (msgs_of s)(c := msgs_of s c @ [m'])"
    "im_msg_seq s' = Suc (im_msg_seq s)" by (fact s')+
  show "m_id m' = msg_name (Suc (im_msg_seq s))"
    "m' = stored m (m_seq m') (Suc (im_msg_seq s)) now'" using e by simp_all
qed

lemma append_message_total: "c \<noteq> [] \<Longrightarrow> \<exists>m' s'. append_message None c m now now' s = Ok (m', s')"
  by (auto simp: append_message_def Let_def split: option.split)

lemma list_window_before:
  assumes "ms = a @ [m] @ b" and "distinct (map m_id ms)" and "m_id m \<noteq> []"
  shows "list_window ms (no_opts\<lparr>lo_before := m_id m\<rparr>) = a"
    and "list_window ms (no_opts\<lparr>lo_after := m_id m\<rparr>) = b"
proof -
  have notin: "m_id m \<notin> m_id ` set a" using assms(1,2) by auto
  have "m_id (a ! j) \<noteq> m_id m" if "j < length a" for j
  proof -
    have "m_id (a ! j) \<in> m_id ` set a" using that by simp
    then show ?thesis using notin by metis
  qed
  then have "find_index (\<lambda>x. m_id x = m_id m) ms = Some (length a)"
    using assms(1) by (auto simp: find_index_Some nth_append)
  then show "list_window ms (no_opts\<lparr>lo_before := m_id m\<rparr>) = a"
    "list_window ms (no_opts\<lparr>lo_after := m_id m\<rparr>) = b"
    using assms(1,3) by (auto simp: list_window_def no_opts_def Let_def)
qed

lemma latest_summary_acc:
  "latest_summary ms acc =
     (case filter (\<lambda>m. m_role m = RoleSummary) ms of [] \<Rightarrow> acc | xs \<Rightarrow> Some (last xs))"
  by (induction ms arbitrary: acc) (auto split: list.splits)

lemma latest_summary_None:
  "latest_summary ms None = None \<longleftrightarrow> (\<forall>m \<in> set ms. m_role m \<noteq> RoleSummary)"
proof (cases "filter (\<lambda>m. m_role m = RoleSummary) ms")
  case Nil
  then have "\<forall>m \<in> set ms. m_role m \<noteq> RoleSummary" by (simp only: filter_empty_conv)
  then show ?thesis by (simp add: latest_summary_acc Nil)
next
  case (Cons x xs)
  then have "x \<in> set (filter (\<lambda>m. m_role m = RoleSummary) ms)" by simp
  then have "x \<in> set ms \<and> m_role x = RoleSummary" by (simp only: set_filter mem_Collect_eq)
  then show ?thesis by (auto simp: latest_summary_acc Cons)
qed

lemma latest_summary_Some:
  "latest_summary ms None = Some l \<Longrightarrow> m_role l = RoleSummary \<and> l \<in> set ms"
proof -
  assume a: "latest_summary ms None = Some l"
  let ?f = "filter (\<lambda>m. m_role m = RoleSummary) ms"
  have "?f \<noteq> []" "l = last ?f" using a by (auto simp: latest_summary_acc split: list.splits)
  then have "l \<in> set ?f" using last_in_set by blast
  then show ?thesis by simp
qed

lemma apply_summary_Some:
  "latest_summary ms None = Some l \<Longrightarrow>
   apply_summary ms = l # filter (\<lambda>m. m_role m \<noteq> RoleSummary \<and> m_id m \<notin> set (m_covered l)) ms"
  by (simp add: apply_summary_def)

lemma latest_summary_no_more:
  "m_role l = RoleSummary \<Longrightarrow> (\<forall>m \<in> set ms. m_role m \<noteq> RoleSummary) \<Longrightarrow>
   latest_summary (l # ms) None = Some l"
  by (simp add: latest_summary_acc filter_empty_conv split: list.splits)

lemma react_loop_found: "fst (react_loop mid r ms) \<longleftrightarrow> (\<exists>m \<in> set ms. m_id m = mid)"
  by (induction mid r ms rule: react_loop.induct) (auto split: prod.splits)

lemma react_loop_idem:
  "react_loop mid r (snd (react_loop mid r ms)) = react_loop mid r ms"
  by (induction mid r ms rule: react_loop.induct) (auto split: prod.splits)

text \<open>A conversation that \<open>LatestConvID\<close> may return, and when it was last written to.\<close>

definition eligible :: "in_mem \<Rightarrow> channel \<Rightarrow> conv_id \<Rightarrow> bool" where
  "eligible s ch c \<longleftrightarrow>
     (case im_convs s c of None \<Rightarrow> False | Some st \<Rightarrow>
        \<not> ci_archived (cs_info st) \<and> (ch = [] \<or> ci_channel (cs_info st) = ch) \<and> msgs_of s c \<noteq> [])"

definition last_write :: "in_mem \<Rightarrow> conv_id \<Rightarrow> nat" where
  "last_write s c = (case im_convs s c of None \<Rightarrow> 0 | Some st \<Rightarrow> cs_last_write st)"

declare latest_loop.simps(2) [simp del]

lemma latest_loop_Cons:
  "latest_loop s ch (c # cs) best bo =
     (if eligible s ch c \<and> bo < last_write s c then latest_loop s ch cs c (last_write s c)
      else latest_loop s ch cs best bo)"
  by (auto simp: latest_loop.simps(2) eligible_def last_write_def split: option.split)

lemma latest_loop_spec:
  "(latest_loop s ch cs best bo = best \<and> (\<forall>c \<in> set cs. eligible s ch c \<longrightarrow> last_write s c \<le> bo)) \<or>
   (let r = latest_loop s ch cs best bo
    in r \<in> set cs \<and> eligible s ch r \<and> bo < last_write s r \<and>
       (\<forall>c \<in> set cs. eligible s ch c \<longrightarrow> last_write s c \<le> last_write s r))"
proof (induction cs arbitrary: best bo)
  case (Cons c cs)
  show ?case
  proof (cases "eligible s ch c \<and> bo < last_write s c")
    case True
    then have e: "latest_loop s ch (c # cs) best bo = latest_loop s ch cs c (last_write s c)"
      by (simp add: latest_loop_Cons)
    show ?thesis using Cons.IH[of c "last_write s c"] True unfolding e Let_def
      by (auto intro: order_trans)
  next
    case False
    then have e: "latest_loop s ch (c # cs) best bo = latest_loop s ch cs best bo"
      by (auto simp: latest_loop_Cons)
    show ?thesis using Cons.IH[of best bo] False unfolding e Let_def by auto
  qed
qed simp

lemma eligible_last_write:
  assumes "mem_wf s" and "eligible s ch c"
  shows "0 < last_write s c" and "m_id (last (msgs_of s c)) = msg_name (last_write s c)"
    and "msgs_of s c \<noteq> []"
proof -
  obtain st where st: "im_convs s c = Some st" and ne: "msgs_of s c \<noteq> []"
    using assms(2) by (auto simp: eligible_def split: option.splits)
  have "numbered (im_msg_seq s) (msgs_of s c) (cs_last_write st)"
    using assms(1) st by (simp add: mem_wf_def convs_wf_def)
  from numbered_last_pos[OF this ne] st ne show "0 < last_write s c"
    "m_id (last (msgs_of s c)) = msg_name (last_write s c)" "msgs_of s c \<noteq> []"
    by (simp_all add: last_write_def)
qed

lemma last_write_inj:
  assumes "mem_wf s" "eligible s ch c" "eligible s ch d" "last_write s c = last_write s d"
  shows "c = d"
proof (rule ccontr)
  assume "c \<noteq> d"
  then have disj: "m_id ` set (msgs_of s c) \<inter> m_id ` set (msgs_of s d) = {}"
    using assms(1) by (simp add: mem_wf_def ids_wf_def)
  have "m_id (last (msgs_of s c)) \<in> m_id ` set (msgs_of s c)"
    "m_id (last (msgs_of s d)) \<in> m_id ` set (msgs_of s d)"
    using eligible_last_write(3)[OF assms(1)] assms(2,3) by simp_all
  moreover have "m_id (last (msgs_of s c)) = m_id (last (msgs_of s d))"
    using eligible_last_write(2)[OF assms(1)] assms(2,3,4) by simp
  ultimately show False using disj by (metis disjoint_iff)
qed

lemma latest_spec:
  assumes "mem_wf s" and "set order = dom (im_convs s)"
  shows "(latest_loop s ch order [] 0 = [] \<and> (\<forall>c. \<not> eligible s ch c)) \<or>
    (eligible s ch (latest_loop s ch order [] 0) \<and>
     (\<forall>c. eligible s ch c \<longrightarrow> last_write s c \<le> last_write s (latest_loop s ch order [] 0)))"
proof -
  have el: "c \<in> set order" if "eligible s ch c" for c
    using that assms(2) by (auto simp: eligible_def split: option.splits)
  have pos: "0 < last_write s c" if "eligible s ch c" for c
    using eligible_last_write(1)[OF assms(1) that] .
  show ?thesis
    using latest_loop_spec[of s ch order "[]" 0] el pos unfolding Let_def by fastforce
qed

section \<open>Properties\<close>

abbreviation mem_after :: "mem_op list \<Rightarrow> in_mem" where
  "mem_after ops \<equiv> fold mem_step ops new_in_mem"

text \<open>After any sequence of store operations the ids of all stored messages are pairwise
  distinct, over all conversations, and the \<open>Seq\<close> numbers of a conversation are 1, 2, 3, ...
  without gaps.\<close>

theorem message_ids_unique:
  "distinct (concat (map (\<lambda>c. map m_id (msgs_of (mem_after ops) c)) (im_conv_order (mem_after ops)))) \<and>
   map m_seq (msgs_of (mem_after ops) c) = map (\<lambda>i. int i + 1) [0..<length (msgs_of (mem_after ops) c)]"
proof -
  let ?s = "mem_after ops"
  have wf: "mem_wf ?s" by (rule mem.run_inv)
  have num: "\<exists>l. numbered (im_msg_seq ?s) (msgs_of ?s d) l" for d
  proof (cases "im_convs ?s d")
    case None
    then show ?thesis using wf by (auto simp: mem_wf_def msgs_of_fresh numbered_Nil)
  next
    case (Some st)
    then show ?thesis using mem_wf_conv(4)[OF wf] by blast
  qed
  have dis: "distinct (map m_id (msgs_of ?s d))" for d using num[of d] numbered_distinct by blast
  have "distinct (concat (map (\<lambda>c. map m_id (msgs_of ?s c)) cs))" if "distinct cs" for cs
    using that
  proof (induction cs)
    case (Cons d cs)
    have "m_id ` set (msgs_of ?s d) \<inter> m_id ` set (msgs_of ?s e) = {}" if "e \<in> set cs" for e
      using that Cons.prems by (intro mem_wf_ids[OF wf]) auto
    then show ?case using Cons dis[of d] by auto
  qed simp
  moreover have "distinct (im_conv_order ?s)" using wf by (simp add: mem_wf_def convs_wf_def)
  moreover have "map m_seq (msgs_of ?s c) = map (\<lambda>i. int i + 1) [0..<length (msgs_of ?s c)]"
    using num[of c] by (auto simp: numbered_def intro: nth_equalityI)
  ultimately show ?thesis by blast
qed

text \<open>What \<open>AppendMessage\<close> stores is what \<open>ListMessages\<close> returns: the stored message is the
  last of its conversation, with the caller's role and blocks, the messages before it are
  untouched, and so is every other conversation.\<close>

theorem append_then_list:
  assumes "append_message None c m now now' s = Ok (m', s')"
    and "list_messages None c no_opts s = Ok old"
  shows "list_messages None c no_opts s' = Ok (old @ [m']) \<and>
    m_role m' = m_role m \<and> m_blocks m' = m_blocks m \<and> m_created m' = now' \<and>
    (d = c \<or> list_messages None d opts s' = list_messages None d opts s)"
proof -
  note a = append_message_ok[OF assms(1)]
  have "m_role m' = m_role m \<and> m_blocks m' = m_blocks m \<and> m_created m' = now'"
    by (subst (1 2 3) a(5)) simp
  moreover have "old = msgs_of s c" using assms(2) a(1) by (simp add: list_messages_all)
  moreover have "d = c \<or> list_messages None d opts s' = list_messages None d opts s"
    using a(2) by (simp add: list_messages_def)
  ultimately show ?thesis using a(1,2) by (simp add: list_messages_all)
qed

theorem append_then_list_witness:
  "\<exists>m' s'. append_message None ''c1'' (empty_message\<lparr>m_role := ''user''\<rparr>) 5 7 new_in_mem = Ok (m', s') \<and>
     list_messages None ''c1'' no_opts s' = Ok [m']"
proof -
  obtain m' s' where a:
    "append_message None ''c1'' (empty_message\<lparr>m_role := ''user''\<rparr>) 5 7 new_in_mem = Ok (m', s')"
    using append_message_total[of "''c1''" _ 5 7 new_in_mem] by blast
  have "list_messages None ''c1'' no_opts new_in_mem = Ok []"
    by (simp add: list_messages_all new_in_mem_def msgs_of_def)
  from append_then_list[OF a this] a show ?thesis by auto
qed

text \<open>Pagination covers the timeline: for a message of a conversation, the messages listed
  with \<open>Before\<close> it, the message itself and the messages listed with \<open>After\<close> it are the whole
  conversation, in order.\<close>

theorem pagination_covers_timeline:
  assumes "list_messages None c no_opts (mem_after ops) = Ok ms" and "m \<in> set ms"
  shows "\<exists>a b. list_messages None c (no_opts\<lparr>lo_before := m_id m\<rparr>) (mem_after ops) = Ok a \<and>
    list_messages None c (no_opts\<lparr>lo_after := m_id m\<rparr>) (mem_after ops) = Ok b \<and>
    ms = a @ [m] @ b"
proof -
  let ?s = "mem_after ops"
  have wf: "mem_wf ?s" by (rule mem.run_inv)
  have c: "c \<noteq> []" using assms(1) by (auto simp: list_messages_def)
  then have ms: "ms = msgs_of ?s c" using assms(1) by (simp add: list_messages_all)
  obtain st where st: "im_convs ?s c = Some st"
    using assms(2) ms wf by (cases "im_convs ?s c") (auto simp: mem_wf_def msgs_of_fresh)
  have num: "numbered (im_msg_seq ?s) ms (cs_last_write st)" using mem_wf_conv(4)[OF wf st] ms by simp
  have ne: "m_id m \<noteq> []"
  proof -
    obtain ns where "map m_id ms = map msg_name ns" using num by (auto simp: numbered_def)
    then have "m_id m \<in> msg_name ` set ns" using assms(2) by (metis image_eqI list.set_map)
    then show ?thesis by auto
  qed
  obtain a b where ab: "ms = a @ [m] @ b" using split_list[OF assms(2)] by auto
  note w = list_window_before[OF ab numbered_distinct[OF num] ne]
  have "list_messages None c (no_opts\<lparr>lo_before := m_id m\<rparr>) ?s = Ok a"
    "list_messages None c (no_opts\<lparr>lo_after := m_id m\<rparr>) ?s = Ok b"
    using c w ab by (simp_all add: list_messages_def ms[symmetric] Let_def)
      (simp_all add: no_opts_def last_n_def)
  then show ?thesis using ab by blast
qed

theorem pagination_covers_timeline_witness:
  "\<exists>ops m a b. list_messages None ''c'' (no_opts\<lparr>lo_before := m_id m\<rparr>) (mem_after ops) = Ok a \<and>
     list_messages None ''c'' (no_opts\<lparr>lo_after := m_id m\<rparr>) (mem_after ops) = Ok b \<and>
     length (a @ [m] @ b) = 2"
proof -
  let ?ops = "[OpAppend None ''c'' empty_message 1 1, OpAppend None ''c'' empty_message 2 2]"
  have ms: "list_messages None ''c'' no_opts (mem_after ?ops) =
      Ok [stored empty_message 1 1 1, stored empty_message 2 2 2]"
    by (simp add: list_messages_all append_message_def new_in_mem_def msgs_of_def stored_def
        msg_name_def Let_def keep_def)
  from pagination_covers_timeline[OF ms, of "stored empty_message 2 2 2"]
  obtain a b where
    "list_messages None ''c'' (no_opts\<lparr>lo_before := m_id (stored empty_message 2 2 2)\<rparr>) (mem_after ?ops) = Ok a"
    "list_messages None ''c'' (no_opts\<lparr>lo_after := m_id (stored empty_message 2 2 2)\<rparr>) (mem_after ?ops) = Ok b"
    "[stored empty_message 1 1 1, stored empty_message 2 2 2] = a @ [stored empty_message 2 2 2] @ b"
    by (auto simp del: append_Cons)
  moreover from this(3) have "length (a @ [stored empty_message 2 2 2] @ b) = 2" by (metis length_Cons list.size(3) One_nat_def Suc_1)
  ultimately show ?thesis by blast
qed

text \<open>\<open>applySummaryInPlace\<close>: the latest summary comes first, no other summary is left, every
  other message is kept exactly when the latest summary does not cover it, in the original order,
  and collapsing a collapsed timeline changes nothing.\<close>

theorem apply_summary_collapses:
  assumes "latest_summary ms None = Some l"
  shows "hd (apply_summary ms) = l \<and>
    tl (apply_summary ms) = filter (\<lambda>m. m_role m \<noteq> RoleSummary \<and> m_id m \<notin> set (m_covered l)) ms \<and>
    filter (\<lambda>m. m_role m = RoleSummary) (apply_summary ms) = [l] \<and>
    apply_summary (apply_summary ms) = apply_summary ms"
proof -
  note l = latest_summary_Some[OF assms] and ap = apply_summary_Some[OF assms]
  let ?f = "filter (\<lambda>m. m_role m \<noteq> RoleSummary \<and> m_id m \<notin> set (m_covered l)) ms"
  have "latest_summary (l # ?f) None = Some l" by (rule latest_summary_no_more) (auto simp: l)
  then have "apply_summary (l # ?f) = l # ?f"
    using l by (simp add: apply_summary_Some)
  then show ?thesis using l by (auto simp: ap filter_empty_conv)
qed

theorem apply_summary_collapses_witness:
  "\<exists>l ms. latest_summary ms None = Some l \<and> length ms = 4 \<and> hd (apply_summary ms) = l \<and>
     length (apply_summary ms) = 2 \<and> apply_summary (apply_summary ms) = apply_summary ms"
proof -
  let ?l = "empty_message\<lparr>m_id := ''m3'', m_role := RoleSummary, m_covered := [''m1'']\<rparr>"
  let ?ms = "[empty_message\<lparr>m_id := ''m1''\<rparr>, empty_message\<lparr>m_id := ''m2'', m_role := RoleSummary\<rparr>, ?l,
              empty_message\<lparr>m_id := ''m4''\<rparr>]"
  have h: "latest_summary ?ms None = Some ?l"
    by (simp add: empty_message_def RoleSummary_def)
  have "length (apply_summary ?ms) = 2"
    using h by (simp add: apply_summary_def) (simp add: empty_message_def RoleSummary_def)
  then show ?thesis using apply_summary_collapses[OF h] h by (intro exI[of _ ?l] exI[of _ ?ms]) simp
qed

text \<open>\<open>LatestConvID\<close> does not depend on the iteration order of the Go map: it returns the
  empty id when no conversation of the channel is live and has messages, otherwise the live
  conversation that was written to last.\<close>

theorem latest_conv_order_independent:
  assumes "set order = dom (im_convs (mem_after ops))" and "set order' = dom (im_convs (mem_after ops))"
  shows "latest_conv_id None ch order (mem_after ops) = latest_conv_id None ch order' (mem_after ops) \<and>
    (latest_conv_id None ch order (mem_after ops) = Ok [] \<and> (\<forall>c. \<not> eligible (mem_after ops) ch c) \<or>
     (\<exists>r. latest_conv_id None ch order (mem_after ops) = Ok r \<and> eligible (mem_after ops) ch r \<and>
          (\<forall>c. eligible (mem_after ops) ch c \<longrightarrow> last_write (mem_after ops) c \<le> last_write (mem_after ops) r)))"
proof -
  let ?s = "mem_after ops"
  have wf: "mem_wf ?s" by (rule mem.run_inv)
  note a = latest_spec[OF wf assms(1), of ch] and b = latest_spec[OF wf assms(2), of ch]
  have "latest_loop ?s ch order [] 0 = latest_loop ?s ch order' [] 0"
  proof (cases "\<exists>c. eligible ?s ch c")
    case False
    then show ?thesis using a b by auto
  next
    case True
    then have "eligible ?s ch (latest_loop ?s ch order [] 0)" "eligible ?s ch (latest_loop ?s ch order' [] 0)"
      "last_write ?s (latest_loop ?s ch order [] 0) = last_write ?s (latest_loop ?s ch order' [] 0)"
      using a b by (auto intro: antisym)
    then show ?thesis by (rule last_write_inj[OF wf])
  qed
  then show ?thesis using a by (auto simp: latest_conv_id_def)
qed

theorem latest_conv_order_independent_witness:
  "\<exists>ops. latest_conv_id None [] [''a'', ''b''] (mem_after ops) = latest_conv_id None [] [''b'', ''a''] (mem_after ops) \<and>
         latest_conv_id None [] [''b'', ''a''] (mem_after ops) = Ok ''a''"
proof -
  let ?ops = "[OpAppend None ''a'' empty_message 1 1, OpAppend None ''b'' empty_message 1 1,
               OpAppend None ''a'' empty_message 1 1]"
  have e: "im_convs (mem_after ?ops) = [''a'' \<mapsto> the (im_convs (mem_after ?ops) ''a''),
                                      ''b'' \<mapsto> the (im_convs (mem_after ?ops) ''b'')]"
    by (auto simp: append_message_def new_in_mem_def msgs_of_def Let_def fun_eq_iff)
  have d: "set [''a'', ''b''] = dom (im_convs (mem_after ?ops))"
    "set [''b'', ''a''] = dom (im_convs (mem_after ?ops))" by (subst e, force)+
  have "latest_conv_id None [] [''b'', ''a''] (mem_after ?ops) = Ok ''a''"
    by (simp add: latest_conv_id_def latest_loop_Cons eligible_def last_write_def append_message_def
        new_in_mem_def msgs_of_def empty_conv_info_def Let_def)
  then show ?thesis using latest_conv_order_independent[OF d] by blast
qed

text \<open>\<open>AddReaction\<close> reports whether the message exists, and adding the same reaction again
  changes nothing.\<close>

theorem add_reaction_idempotent:
  assumes "add_reaction None c mid r s = Ok (b, s')"
  shows "b = (\<exists>m \<in> set (msgs_of s c). m_id m = mid) \<and> add_reaction None c mid r s' = Ok (b, s')"
proof (cases "im_messages s c")
  case None
  then show ?thesis using assms by (auto simp: add_reaction_def msgs_of_def split: if_splits)
next
  case (Some ms)
  have ne: "c \<noteq> []" "mid \<noteq> []" using assms by (auto simp: add_reaction_def split: if_splits)
  then have s': "b = fst (react_loop mid r ms)"
      "s' = s\<lparr>im_messages := (im_messages s)(c \<mapsto> snd (react_loop mid r ms))\<rparr>"
    using assms Some by (auto simp: add_reaction_def split: prod.splits)
  have "react_loop mid r (snd (react_loop mid r ms)) = (b, snd (react_loop mid r ms))"
    using s'(1) by (simp add: react_loop_idem prod_eq_iff)
  then have "add_reaction None c mid r s' = Ok (b, s')"
    using ne by (simp add: add_reaction_def s'(2))
  then show ?thesis using s'(1) Some by (simp add: react_loop_found msgs_of_def)
qed

theorem add_reaction_idempotent_witness:
  "\<exists>s'. add_reaction None ''c'' ''m1'' \<lparr>r_emoji = ''+1'', r_source = ''cc''\<rparr>
           (new_in_mem\<lparr>im_messages := [''c'' \<mapsto> [empty_message\<lparr>m_id := ''m1''\<rparr>]]\<rparr>) = Ok (True, s') \<and>
         add_reaction None ''c'' ''m1'' \<lparr>r_emoji = ''+1'', r_source = ''cc''\<rparr> s' = Ok (True, s') \<and>
         length (m_reactions (hd (msgs_of s' ''c''))) = 1"
proof -
  let ?r = "\<lparr>r_emoji = ''+1'', r_source = ''cc''\<rparr>"
  let ?s = "new_in_mem\<lparr>im_messages := [''c'' \<mapsto> [empty_message\<lparr>m_id := ''m1''\<rparr>]]\<rparr>"
  let ?s' = "new_in_mem\<lparr>im_messages := [''c'' \<mapsto> [empty_message\<lparr>m_id := ''m1'', m_reactions := [?r]\<rparr>]]\<rparr>"
  have h: "add_reaction None ''c'' ''m1'' ?r ?s = Ok (True, ?s')"
    by (simp add: add_reaction_def empty_message_def)
  have "length (m_reactions (hd (msgs_of ?s' ''c''))) = 1" by (simp add: msgs_of_def)
  then show ?thesis using add_reaction_idempotent[OF h] h by blast
qed

text \<open>\<open>DeleteConv\<close> cascades: the conversation is unknown afterwards, it has no messages, it is
  not listed, and no other conversation changes.\<close>

theorem delete_conv_cascades:
  assumes "delete_conv None c s = Ok s'"
  shows "get_conv None c s' = Ok empty_conv_info \<and> list_messages None c opts s' = Ok [] \<and>
    (d = c \<or> get_conv None d s' = get_conv None d s \<and> list_messages None d opts s' = list_messages None d opts s)"
proof -
  have c: "c \<noteq> []" and s': "s' = s\<lparr>im_convs := (im_convs s)(c := None),
                 im_messages := (im_messages s)(c := None), im_conv_order := remove1 c (im_conv_order s)\<rparr>"
    using assms by (auto simp: delete_conv_def split: if_splits)
  show ?thesis
    by (auto simp: s' c get_conv_def list_messages_def conv_view_def Let_def split: option.split)
qed

theorem delete_conv_cascades_witness:
  "\<exists>s'. delete_conv None ''c'' (mem_after [OpAppend None ''c'' empty_message 1 1]) = Ok s' \<and>
        get_conv None ''c'' s' = Ok empty_conv_info \<and> list_messages None ''c'' no_opts s' = Ok []"
proof -
  obtain s' where "delete_conv None ''c'' (mem_after [OpAppend None ''c'' empty_message 1 1]) = Ok s'"
    by (simp add: delete_conv_def)
  from delete_conv_cascades[OF this, of no_opts] this show ?thesis by blast
qed

text \<open>\<open>ListMessages\<close> applies \<open>Limit\<close> after the summary has been put in front, so with
  \<open>ApplySummary\<close> and a limit the summary is cut off while the messages it covers stay hidden:
  neither the covered message nor the summary that replaces it is in the result.\<close>

theorem limit_drops_summary:
  "\<exists>ops out. list_messages None ''c'' \<lparr>lo_limit = 2, lo_before = [], lo_after = [], lo_summary = True\<rparr>
               (mem_after ops) = Ok out \<and>
     (\<exists>m \<in> set (msgs_of (mem_after ops) ''c''). m_role m = RoleSummary \<and> m_covered m = [''m1'']) \<and>
     (\<exists>m \<in> set (msgs_of (mem_after ops) ''c''). m_id m = ''m1'') \<and>
     filter (\<lambda>m. m_role m = RoleSummary \<or> m_id m = ''m1'') out = []"
proof -
  let ?ops = "[OpAppend None ''c'' empty_message 1 1, OpSummary None ''c'' ''s'' [''m1''] 2 2,
     OpAppend None ''c'' empty_message 3 3, OpAppend None ''c'' empty_message 4 4]"
  have m: "msgs_of (mem_after ?ops) ''c'' =
     [stored empty_message 1 1 1,
      stored (empty_message\<lparr>m_role := RoleSummary, m_content := ''s'',
        m_blocks := [(empty_block BlockSummary)\<lparr>cb_text := ''s''\<rparr>], m_covered := [''m1'']\<rparr>) 2 2 2,
      stored empty_message 3 3 3, stored empty_message 4 4 4]"
    by (simp add: append_summary_def append_message_def new_in_mem_def stored_def msg_name_def Let_def
        msgs_of_def numeral_eq_Suc)
  have ids: "msg_name 1 = ''m1''" "msg_name 2 = ''m2''" "msg_name 3 = ''m3''" "msg_name 4 = ''m4''"
    by code_simp+
  have r: "m_role empty_message \<noteq> RoleSummary" by (simp add: empty_message_def RoleSummary_def)
  obtain S where S: "S = mem_after ?ops" by simp
  have "list_messages None ''c'' \<lparr>lo_limit = 2, lo_before = [], lo_after = [], lo_summary = True\<rparr> S =
      Ok [stored empty_message 3 3 3, stored empty_message 4 4 4]"
    by (simp add: list_messages_def m[folded S] list_window_def Let_def last_n_def apply_summary_def r ids)
  moreover have "filter (\<lambda>m. m_role m = RoleSummary \<or> m_id m = ''m1'')
      [stored empty_message 3 3 3, stored empty_message 4 4 4] = []"
    by (simp add: r ids)
  moreover have "\<exists>m \<in> set (msgs_of S ''c''). m_role m = RoleSummary \<and> m_covered m = [''m1'']"
    "\<exists>m \<in> set (msgs_of S ''c''). m_id m = ''m1''"
    by (simp_all add: m[folded S] ids ids(1)[unfolded One_nat_def])
  ultimately show ?thesis unfolding S by blast
qed

section \<open>The document index as a list\<close>

text \<open>The abstraction: the documents of a scope in insertion order. The two maps of the code
  implement it.\<close>

definition doc_list :: "in_mem \<Rightarrow> scope \<Rightarrow> document list" where
  "doc_list s sc =
     (case im_documents s sc of None \<Rightarrow> []
      | Some ds \<Rightarrow> map (\<lambda>i. the (ds i)) (doc_order_of s sc))"

fun upsert :: "document \<Rightarrow> document list \<Rightarrow> document list" where
  "upsert d [] = [d]"
| "upsert d (x # xs) = (if d_id x = d_id d then d # xs else x # upsert d xs)"

lemma upsert_new: "d_id d \<notin> d_id ` set xs \<Longrightarrow> upsert d xs = xs @ [d]"
  by (induction xs) auto

lemma upsert_map:
  "distinct is \<Longrightarrow> d_id d \<in> set is \<Longrightarrow> (\<forall>i \<in> set is. d_id (f i) = i) \<Longrightarrow>
   upsert d (map f is) = map (\<lambda>i. if i = d_id d then d else f i) is"
  by (induction "is") auto

lemma list_documents_loop_take:
  "0 < limit \<Longrightarrow> int (length out) < limit \<Longrightarrow> set is \<subseteq> dom ds \<Longrightarrow>
   list_documents_loop ds limit is out = take (nat limit) (out @ map (\<lambda>i. the (ds i)) is)"
  by (induction ds limit "is" out rule: list_documents_loop.induct)
     (auto split: option.split simp: take_Cons' nat_eq_iff)

lemma docs_wf_scope:
  assumes "mem_wf s" and "im_documents s sc = Some ds"
  shows "distinct (doc_order_of s sc)" and "set (doc_order_of s sc) = dom ds"
    and "ds i = Some d \<Longrightarrow> d_id d = i" and "i \<in> dom ds \<Longrightarrow> d_id (the (ds i)) = i"
  using assms by (auto simp: mem_wf_def docs_wf_def split: option.splits)

lemma docs_wf_fresh:
  assumes "mem_wf s" and "im_documents s sc = None"
  shows "doc_order_of s sc = []"
proof -
  have "set (doc_order_of s sc) = (case im_documents s sc of None \<Rightarrow> {} | Some ds \<Rightarrow> dom ds)"
    using assms(1) by (simp add: mem_wf_def docs_wf_def)
  then show ?thesis by (simp add: assms(2))
qed

lemma get_document_find:
  assumes wf: "mem_wf s" and "sc \<noteq> []" "i \<noteq> []"
  shows "get_document None sc i s = Ok (List.find (\<lambda>d. d_id d = i) (doc_list s sc))"
proof (cases "im_documents s sc")
  case None
  then show ?thesis using assms by (simp add: get_document_def doc_list_def)
next
  case (Some ds)
  note d = docs_wf_scope[OF wf Some]
  have "List.find (\<lambda>d. d_id d = i) (map (\<lambda>i. the (ds i)) is) = (if i \<in> set is then ds i else None)"
    if "set is \<subseteq> dom ds" for "is"
    using that d(4) by (induction "is") auto
  then have "List.find (\<lambda>d. d_id d = i) (doc_list s sc) = (if i \<in> dom ds then ds i else None)"
    using d(2) by (simp add: doc_list_def Some)
  then show ?thesis using assms by (auto simp: get_document_def Some)
qed

lemma doc_list_index:
  assumes wf: "mem_wf s" and r: "index_document None sc d s = Ok s'"
  shows "doc_list s' sc = upsert d (doc_list s sc)"
proof (cases "im_documents s sc")
  case None
  then show ?thesis
    using r docs_wf_fresh[OF wf None]
    by (auto simp: index_document_def doc_list_def split: if_splits)
next
  case (Some ds)
  note w = docs_wf_scope[OF wf Some]
  show ?thesis
  proof (cases "ds (d_id d)")
    case None
    have "d_id d \<notin> d_id ` set (doc_list s sc)" using w None by (force simp: doc_list_def Some)
    moreover have "map (\<lambda>i. the (if i = d_id d then Some d else ds i)) (doc_order_of s sc) = doc_list s sc"
      using w(2) None by (auto simp: doc_list_def Some)
    ultimately show ?thesis
      using r Some None by (auto simp: index_document_def doc_list_def upsert_new split: if_splits)
  next
    case (Some d0)
    have "upsert d (doc_list s sc) =
        map (\<lambda>i. if i = d_id d then d else the (ds i)) (doc_order_of s sc)"
      unfolding doc_list_def \<open>im_documents s sc = Some ds\<close> option.case
      by (rule upsert_map) (use w Some in auto)
    then show ?thesis
      using r \<open>im_documents s sc = Some ds\<close> Some
      by (auto simp: index_document_def doc_list_def split: if_splits)
  qed
qed

lemma doc_list_delete:
  assumes wf: "mem_wf s" and r: "delete_document None sc i s = Ok (b, s')"
  shows "doc_list s' sc = filter (\<lambda>d. d_id d \<noteq> i) (doc_list s sc)"
    and "b \<longleftrightarrow> i \<in> d_id ` set (doc_list s sc)"
proof -
  have "doc_list s' sc = filter (\<lambda>d. d_id d \<noteq> i) (doc_list s sc) \<and> (b \<longleftrightarrow> i \<in> d_id ` set (doc_list s sc))"
  proof (cases "im_documents s sc")
    case None
    then show ?thesis using r by (auto simp: delete_document_def doc_list_def split: if_splits)
  next
    case (Some ds)
    note w = docs_wf_scope[OF wf Some]
    have mem: "i \<in> d_id ` set (doc_list s sc) \<longleftrightarrow> i \<in> dom ds"
      using w by (force simp: doc_list_def Some image_iff)
    have fil: "filter (\<lambda>d. d_id d \<noteq> i) (doc_list s sc) =
        map (\<lambda>i. the (ds i)) (filter (\<lambda>j. j \<noteq> i) (doc_order_of s sc))"
      using w(2,4) unfolding doc_list_def Some option.case filter_map o_def
      by (intro arg_cong[where f = "map _"] filter_cong) auto
    have keep_all: "filter (\<lambda>j. j \<noteq> i) (doc_order_of s sc) = doc_order_of s sc" if "ds i = None"
      using that w(2) by (auto intro!: filter_True)
    show ?thesis
    proof (cases "ds i")
      case None
      then have "\<not> b" "s' = s" using r Some by (auto simp: delete_document_def split: if_splits)
      then show ?thesis using None mem fil keep_all by (auto simp: doc_list_def Some)
    next
      case (Some d)
      then show ?thesis
        using r \<open>im_documents s sc = Some ds\<close> mem fil w(1)
        by (auto simp: delete_document_def remove1_distinct_filter doc_list_def split: if_splits)
    qed
  qed
  then show "doc_list s' sc = filter (\<lambda>d. d_id d \<noteq> i) (doc_list s sc)"
    "b \<longleftrightarrow> i \<in> d_id ` set (doc_list s sc)" by blast+
qed

lemma list_documents_take:
  assumes wf: "mem_wf s" and "sc \<noteq> []" "0 < limit"
  shows "list_documents None sc limit s = Ok (take (nat limit) (doc_list s sc))"
proof (cases "im_documents s sc")
  case (Some ds)
  then show ?thesis
    using assms docs_wf_scope(2)[OF wf Some]
    by (simp add: list_documents_def doc_list_def list_documents_loop_take)
qed (use assms in \<open>simp add: list_documents_def doc_list_def\<close>)

lemma index_document_wf: "mem_wf s \<Longrightarrow> index_document None sc d s = Ok s' \<Longrightarrow> mem_wf s'"
  using wf_mem_step[of s "OpIndex None sc d"] by simp

lemma delete_document_wf: "mem_wf s \<Longrightarrow> delete_document None sc i s = Ok (b, s') \<Longrightarrow> mem_wf s'"
  using wf_mem_step[of s "OpDeleteDoc None sc i"] by simp

text \<open>C6. The document index refines a list in insertion order: \<open>Index\<close> replaces the document with
  the same id in place or appends, \<open>DeleteDocument\<close> removes it and reports whether it was there,
  \<open>GetDocument\<close> finds it, and \<open>ListDocuments\<close> returns the first \<open>limit\<close> documents.\<close>

theorem documents_refine_list:
  assumes "sc \<noteq> []" and "i \<noteq> []" and "0 < limit"
    and "index_document None sc d (mem_after ops) = Ok s1"
    and "delete_document None sc i s1 = Ok (b, s2)"
  shows "list_documents None sc limit s1 = Ok (take (nat limit) (upsert d (doc_list (mem_after ops) sc))) \<and>
    get_document None sc (d_id d) s1 = Ok (Some d) \<and>
    list_documents None sc limit s2 =
      Ok (take (nat limit) (filter (\<lambda>x. d_id x \<noteq> i) (upsert d (doc_list (mem_after ops) sc)))) \<and>
    get_document None sc i s2 = Ok None \<and>
    (b = (i \<in> d_id ` set (upsert d (doc_list (mem_after ops) sc))))"
proof -
  have wf: "mem_wf (mem_after ops)" by (rule mem.run_inv)
  note wf1 = index_document_wf[OF wf assms(4)]
  note wf2 = delete_document_wf[OF wf1 assms(5)]
  note l1 = doc_list_index[OF wf assms(4)] and l2 = doc_list_delete[OF wf1 assms(5)]
  have id: "d_id d \<noteq> []" using assms(4) by (auto simp: index_document_def split: if_splits)
  have "List.find (\<lambda>x. d_id x = d_id d) (upsert d xs) = Some d" for xs by (induction xs) auto
  moreover have "List.find (\<lambda>x. d_id x = i) (filter (\<lambda>x. d_id x \<noteq> i) xs) = None" for xs
    by (induction xs) auto
  ultimately show ?thesis
    using assms(1,2,3) id l1 l2 list_documents_take[OF wf1] list_documents_take[OF wf2]
      get_document_find[OF wf1] get_document_find[OF wf2] by simp
qed

theorem documents_refine_list_witness:
  "\<exists>s1 s2. index_document None ''memory'' \<lparr>d_id = ''a'', d_text = ''x'', d_meta = []\<rparr> (mem_after []) = Ok s1 \<and>
     delete_document None ''memory'' ''a'' s1 = Ok (True, s2) \<and>
     list_documents None ''memory'' 5 s1 = Ok [\<lparr>d_id = ''a'', d_text = ''x'', d_meta = []\<rparr>] \<and>
     list_documents None ''memory'' 5 s2 = Ok []"
proof -
  let ?d = "\<lparr>d_id = ''a'', d_text = ''x'', d_meta = []\<rparr>"
  obtain s1 where 1: "index_document None ''memory'' ?d (mem_after []) = Ok s1"
    by (auto simp: index_document_def Let_def)
  obtain s2 where 2: "delete_document None ''memory'' ''a'' s1 = Ok (True, s2)"
    using 1 by (auto simp: index_document_def delete_document_def Let_def new_in_mem_def)
  have "doc_list (mem_after []) ''memory'' = []" by (simp add: doc_list_def new_in_mem_def)
  with documents_refine_list[OF _ _ _ 1 2, of 5] show ?thesis using 1 2 by auto
qed

section \<open>The store behind its interfaces\<close>

text \<open>The document index is a keyed store over (scope, id) pairs.\<close>

definition doc_get :: "in_mem \<Rightarrow> scope \<times> string \<Rightarrow> document option" where
  "doc_get s k = (case get_document None (fst k) (snd k) s of Inl _ \<Rightarrow> None | Inr r \<Rightarrow> r)"

definition doc_put :: "scope \<times> string \<Rightarrow> document \<Rightarrow> in_mem \<Rightarrow> in_mem" where
  "doc_put k d s = mem_step (OpIndex None (fst k) d) s"

definition doc_del :: "scope \<times> string \<Rightarrow> in_mem \<Rightarrow> in_mem" where
  "doc_del k s = mem_step (OpDeleteDoc None (fst k) (snd k)) s"

interpretation docs: keyed_store doc_get doc_put doc_del
    "\<lambda>k d. fst k \<noteq> [] \<and> snd k \<noteq> [] \<and> d_id d = snd k" "\<lambda>k. fst k \<noteq> [] \<and> snd k \<noteq> []" mem_wf
proof (unfold_locales, goal_cases)
  case (1 s k v k')
  then show ?case
    by (cases k; cases k')
       (auto simp: doc_get_def doc_put_def index_document_def get_document_def Let_def split: option.split)
next
  case (2 s k k')
  then show ?case
    by (cases k; cases k')
       (auto simp: doc_get_def doc_del_def delete_document_def get_document_def split: option.split)
qed (simp_all only: doc_put_def doc_del_def wf_mem_step)

lemma mem_wf_prefs: "mem_wf (s\<lparr>im_prefs := p\<rparr>) = mem_wf s"
  by (simp add: mem_wf_def convs_wf_def ids_wf_def docs_wf_def)

text \<open>So are the preferences, with \<open>SetPref\<close> of a nil value as the removal.\<close>

interpretation prefs: keyed_store im_prefs "\<lambda>k v. mem_step (OpSetPref None k (Some v))"
    "\<lambda>k. mem_step (OpSetPref None k None)" "\<lambda>k v. k \<noteq> []" "\<lambda>k. k \<noteq> []" mem_wf
  by unfold_locales (auto simp: set_pref_def mem_wf_prefs)

text \<open>
  The interface the runtime uses: an append-only log per conversation. A message that is appended
  is the last of the conversation's list, carries the caller's content, and no other conversation
  changes; nothing is appended to the empty conversation id.
\<close>

locale conv_log =
  fixes append :: "conv_id \<Rightarrow> message \<Rightarrow> 's \<Rightarrow> (message \<times> 's) res"
    and timeline :: "conv_id \<Rightarrow> 's \<Rightarrow> message list res"
  assumes append_total: "c \<noteq> [] \<Longrightarrow> \<exists>m' s'. append c m s = Ok (m', s')"
    and append_empty: "\<exists>e. append [] m s = Err e"
    and append_body: "append c m s = Ok (m', s') \<Longrightarrow>
      m_role m' = m_role m \<and> m_blocks m' = m_blocks m \<and> m_content m' = m_content m"
    and timeline_total: "c \<noteq> [] \<Longrightarrow> \<exists>ms. timeline c s = Ok ms"
    and timeline_append: "append c m s = Ok (m', s') \<Longrightarrow> timeline c s = Ok ms \<Longrightarrow>
      timeline c s' = Ok (ms @ [m'])"
    and timeline_frame: "append c m s = Ok (m', s') \<Longrightarrow> d \<noteq> c \<Longrightarrow> timeline d s' = timeline d s"
begin

lemma append_nonempty: "append c m s = Ok (m', s') \<Longrightarrow> c \<noteq> []"
  using append_empty by (metis Inl_Inr_False)

lemma two_appends:
  assumes "append c m s = Ok (m', s')" and "append c n s' = Ok (n', s'')" and "timeline c s = Ok ms"
  shows "timeline c s'' = Ok (ms @ [m', n'])"
  using timeline_append[OF assms(2) timeline_append[OF assms(1,3)]] by simp

lemma append_grows:
  "append c m s = Ok (m', s') \<Longrightarrow> timeline c s = Ok ms \<Longrightarrow> timeline c s' = Ok ms' \<Longrightarrow>
   length ms' = Suc (length ms)"
  using timeline_append by fastforce

end

interpretation in_mem_log: conv_log "\<lambda>c m. append_message None c m now now'"
    "\<lambda>c. list_messages None c no_opts"
  for now now'
proof (unfold_locales, goal_cases)
  case (1 c m s)
  then show ?case by (rule append_message_total)
next
  case (2 m s)
  then show ?case by (simp add: append_message_def)
next
  case (3 c m s m' s')
  show ?case by (subst (1 2 3) append_message_ok(5)[OF 3]) simp
next
  case (4 c s)
  then show ?case by (simp add: list_messages_all)
next
  case (5 c m s m' s' ms)
  then show ?case
    using append_message_ok(1,2)[OF 5(1)] by (simp add: list_messages_all)
next
  case (6 c m s m' s' d)
  then show ?case using append_message_ok(2)[OF 6(1)] by (simp add: list_messages_def)
qed

end
