(* ===== verification/CC_Sessions.thy ===== *)
theory CC_Sessions
  imports Alf_Prelude
begin

text \<open>
  \<open>internal/controlcenter/session.go\<close>: the magic-link codes and the sessions of the control
  center. The maps are partial functions; the clock (\<open>nowFn\<close>) is the argument \<open>now\<close>, the result
  of \<open>randomHex\<close> the argument \<open>rnd\<close>, and the order in which Go iterates over the session map the
  argument \<open>order\<close>. The session file is part of the state: \<open>ss_disk\<close> is its content and
  \<open>ss_disk_ok\<close> says whether a write succeeds.
\<close>

section \<open>Magic links\<close>

definition magicCodeTTL :: duration where "magicCodeTTL = 24 * hour"
definition sessionTTL :: duration where "sessionTTL = 30 * 24 * hour"

record magic_entry =
  me_chat :: int
  me_session_ttl :: duration
  me_expires :: gotime

type_synonym magic_store = "string \<rightharpoonup> magic_entry"

definition new_magic_store :: magic_store where "new_magic_store = Map.empty"

definition magic_issue ::
  "string res \<Rightarrow> int \<Rightarrow> duration \<Rightarrow> gotime \<Rightarrow> magic_store \<Rightarrow> (string \<times> magic_store) res" where
  "magic_issue rnd chat ttl now ms =
     (case rnd of
        Inl e \<Rightarrow> Err e
      | Inr code \<Rightarrow>
          Ok (code, (delete_where (\<lambda>_ e. me_chat e = chat) ms)
                      (code \<mapsto> \<lparr>me_chat = chat, me_session_ttl = ttl,
                               me_expires = now + magicCodeTTL\<rparr>)))"

definition magic_peek :: "string \<Rightarrow> gotime \<Rightarrow> magic_store \<Rightarrow> bool" where
  "magic_peek code now ms = (case ms code of None \<Rightarrow> False | Some e \<Rightarrow> \<not> me_expires e < now)"

definition magic_consume ::
  "string \<Rightarrow> gotime \<Rightarrow> magic_store \<Rightarrow> (int \<times> duration \<times> bool) \<times> magic_store" where
  "magic_consume code now ms =
     (case ms code of
        None \<Rightarrow> ((0, 0, False), ms)
      | Some e \<Rightarrow>
          let ms' = ms(code := None)
          in if me_expires e < now then ((0, 0, False), ms')
             else ((me_chat e, me_session_ttl e, True), ms'))"

definition magic_cleanup :: "gotime \<Rightarrow> magic_store \<Rightarrow> magic_store" where
  "magic_cleanup now ms = delete_where (\<lambda>_ e. me_expires e < now) ms"

section \<open>Sessions\<close>

record session =
  se_chat :: int
  se_expires :: gotime
  se_ttl :: duration

record persisted_session =
  ps_chat :: int
  ps_expires :: gotime
  ps_ttl :: duration

definition defaultMaxSessions :: int where "defaultMaxSessions = 2"

record session_store =
  ss_sessions :: "string \<rightharpoonup> session"
  ss_path :: string
  ss_max :: int
  ss_disk :: "(string \<rightharpoonup> persisted_session) option"
  ss_disk_ok :: bool

definition new_session_store :: session_store where
  "new_session_store = \<lparr>ss_sessions = Map.empty, ss_path = [], ss_max = 0, ss_disk = None,
                        ss_disk_ok = True\<rparr>"

definition to_persisted :: "session \<Rightarrow> persisted_session" where
  "to_persisted s = \<lparr>ps_chat = se_chat s, ps_expires = se_expires s, ps_ttl = se_ttl s\<rparr>"

definition from_persisted :: "persisted_session \<Rightarrow> session" where
  "from_persisted p = \<lparr>se_chat = ps_chat p, se_expires = ps_expires p, se_ttl = ps_ttl p\<rparr>"

text \<open>\<open>saveLocked\<close>: the file is replaced atomically (write to a temporary file, rename), so a
  failed write leaves the old content.\<close>

definition save_locked :: "session_store \<Rightarrow> session_store" where
  "save_locked s =
     (if ss_path s = [] then s
      else if ss_disk_ok s
      then s\<lparr>ss_disk := Some (\<lambda>sid. map_option to_persisted (ss_sessions s sid))\<rparr>
      else s)"

text \<open>\<open>load\<close>: a missing file gives no sessions, an expired session is skipped.\<close>

definition load_sessions :: "gotime \<Rightarrow> session_store \<Rightarrow> session_store" where
  "load_sessions now s =
     (if ss_path s = [] then s
      else (case ss_disk s of
              None \<Rightarrow> s
            | Some persisted \<Rightarrow>
                s\<lparr>ss_sessions := (\<lambda>sid.
                    case persisted sid of
                      None \<Rightarrow> ss_sessions s sid
                    | Some p \<Rightarrow> if ps_expires p < now then ss_sessions s sid
                               else Some (from_persisted p))\<rparr>))"

text \<open>\<open>NewFileSessionStore\<close>: the store a restarted process starts with.\<close>

definition new_file_session_store ::
  "string \<Rightarrow> gotime \<Rightarrow> (string \<rightharpoonup> persisted_session) option \<Rightarrow> bool \<Rightarrow> session_store" where
  "new_file_session_store path now disk disk_ok =
     load_sessions now \<lparr>ss_sessions = Map.empty, ss_path = path, ss_max = 0, ss_disk = disk,
                        ss_disk_ok = disk_ok\<rparr>"

definition set_max_sessions :: "int \<Rightarrow> session_store \<Rightarrow> session_store" where
  "set_max_sessions n s = s\<lparr>ss_max := n\<rparr>"

subsection \<open>Eviction\<close>

text \<open>The first loop of \<open>evictOldestLocked\<close>: expired sessions of the chat are deleted, the live
  ones collected.\<close>

fun evict_collect ::
  "int \<Rightarrow> gotime \<Rightarrow> string list \<Rightarrow> (string \<rightharpoonup> session) \<Rightarrow> (string \<times> gotime) list \<Rightarrow>
   (string \<rightharpoonup> session) \<times> (string \<times> gotime) list" where
  "evict_collect chat now [] m entries = (m, entries)"
| "evict_collect chat now (sid # sids) m entries =
     (case m sid of
        None \<Rightarrow> evict_collect chat now sids m entries
      | Some s \<Rightarrow>
          if se_chat s = chat then
            (if se_expires s < now then evict_collect chat now sids (m(sid := None)) entries
             else evict_collect chat now sids m (entries @ [(sid, se_expires s)]))
          else evict_collect chat now sids m entries)"

text \<open>The index of the entry with the earliest expiry, the first of them on a tie: \<open>i\<close> runs
  from 1, \<open>best\<close> is \<open>oldestIdx\<close>.\<close>

fun oldest_idx :: "(string \<times> gotime) list \<Rightarrow> nat \<Rightarrow> (string \<times> gotime) list \<Rightarrow> nat \<Rightarrow> nat" where
  "oldest_idx all best [] i = best"
| "oldest_idx all best (e # es) i =
     (if snd e < snd (all ! best) then oldest_idx all i es (Suc i)
      else oldest_idx all best es (Suc i))"

lemma oldest_idx_less:
  "best < length all \<Longrightarrow> i + length es \<le> length all \<Longrightarrow> oldest_idx all best es i < length all"
  by (induction es arbitrary: best i) auto

function evict_loop ::
  "nat \<Rightarrow> (string \<times> gotime) list \<Rightarrow> (string \<rightharpoonup> session) \<Rightarrow> (string \<rightharpoonup> session)" where
  "evict_loop max_keep entries m =
     (if max_keep < length entries then
        let i = oldest_idx entries 0 (tl entries) 1
        in evict_loop max_keep (take i entries @ drop (Suc i) entries) (m(fst (entries ! i) := None))
      else m)"
  by pat_completeness auto
termination
proof (relation "measure (\<lambda>(k, es, m). length es)", simp, clarsimp)
  fix k :: nat and es :: "(string \<times> gotime) list"
  assume "k < length es"
  then have "oldest_idx es 0 (tl es) (Suc 0) < length es" by (intro oldest_idx_less) auto
  then show "min (length es) (oldest_idx es 0 (tl es) (Suc 0)) +
      (length es - Suc (oldest_idx es 0 (tl es) (Suc 0))) < length es"
    by linarith
qed

declare evict_loop.simps [simp del]

definition evict_oldest ::
  "int \<Rightarrow> nat \<Rightarrow> gotime \<Rightarrow> string list \<Rightarrow> (string \<rightharpoonup> session) \<Rightarrow> (string \<rightharpoonup> session)" where
  "evict_oldest chat max_keep now order m =
     (case evict_collect chat now order m [] of (m', entries) \<Rightarrow> evict_loop max_keep entries m')"

subsection \<open>Operations\<close>

text \<open>\<open>Issue\<close> reads the clock in the eviction and again for the expiry; both reads are \<open>now\<close>
  and \<open>now'\<close>.\<close>

definition session_issue ::
  "string res \<Rightarrow> int \<Rightarrow> duration \<Rightarrow> gotime \<Rightarrow> gotime \<Rightarrow> string list \<Rightarrow> session_store \<Rightarrow>
   (string \<times> session_store) res" where
  "session_issue rnd chat ttl0 now now' order s =
     (let ttl = (if ttl0 \<le> 0 then sessionTTL else ttl0)
      in case rnd of
           Inl e \<Rightarrow> Err e
         | Inr sid \<Rightarrow>
             let mx = (if ss_max s \<le> 0 then defaultMaxSessions else ss_max s);
                 m = evict_oldest chat (nat (mx - 1)) now order (ss_sessions s)
             in Ok (sid, save_locked
                  (s\<lparr>ss_sessions := m(sid \<mapsto> \<lparr>se_chat = chat, se_expires = now' + ttl, se_ttl = ttl\<rparr>)\<rparr>)))"

text \<open>Whether the loop over the map deletes anything.\<close>

definition any_session :: "(session \<Rightarrow> bool) \<Rightarrow> string list \<Rightarrow> (string \<rightharpoonup> session) \<Rightarrow> bool" where
  "any_session P order m = list_ex (\<lambda>sid. case m sid of None \<Rightarrow> False | Some e \<Rightarrow> P e) order"

definition revoke_chat :: "int \<Rightarrow> string list \<Rightarrow> session_store \<Rightarrow> session_store" where
  "revoke_chat chat order s =
     (let s' = s\<lparr>ss_sessions := delete_where (\<lambda>_ e. se_chat e = chat) (ss_sessions s)\<rparr>
      in if any_session (\<lambda>e. se_chat e = chat) order (ss_sessions s) then save_locked s' else s')"

definition session_valid :: "string \<Rightarrow> gotime \<Rightarrow> session_store \<Rightarrow> bool" where
  "session_valid sid now s =
     (case ss_sessions s sid of None \<Rightarrow> False | Some e \<Rightarrow> \<not> se_expires e < now)"

text \<open>\<open>Check\<close>: the result is (valid, renewed, ttl).\<close>

definition session_check ::
  "string \<Rightarrow> gotime \<Rightarrow> session_store \<Rightarrow> (bool \<times> bool \<times> duration) \<times> session_store" where
  "session_check sid now s =
     (case ss_sessions s sid of
        None \<Rightarrow> ((False, False, 0), s)
      | Some e \<Rightarrow>
          if se_expires e < now then ((False, False, 0), s)
          else if 0 < se_ttl e \<and> time_sub (se_expires e) now < go_div (se_ttl e) 2
          then ((True, True, se_ttl e),
                save_locked (s\<lparr>ss_sessions := (ss_sessions s)(sid \<mapsto> e\<lparr>se_expires := now + se_ttl e\<rparr>)\<rparr>))
          else ((True, False, 0), s))"

definition session_cleanup :: "gotime \<Rightarrow> string list \<Rightarrow> session_store \<Rightarrow> session_store" where
  "session_cleanup now order s =
     (let s' = s\<lparr>ss_sessions := delete_where (\<lambda>_ e. se_expires e < now) (ss_sessions s)\<rparr>
      in if any_session (\<lambda>e. se_expires e < now) order (ss_sessions s) then save_locked s' else s')"

section \<open>Facts about the eviction\<close>

lemma oldest_idx_min:
  assumes "best < i" "i + length es = length all" "es = drop i all"
    and "\<forall>j < i. snd (all ! best) \<le> snd (all ! j)"
  shows "\<forall>j < length all. snd (all ! oldest_idx all best es i) \<le> snd (all ! j)"
  using assms
proof (induction es arbitrary: best i)
  case Nil
  then show ?case by simp
next
  case (Cons e es)
  have i: "i < length all" using Cons.prems(2) by simp
  then have "e # es = all ! i # drop (Suc i) all" using Cons.prems(3) by (simp add: Cons_nth_drop_Suc)
  then have e: "e = all ! i" and es: "es = drop (Suc i) all" by simp_all
  show ?case
  proof (cases "snd e < snd (all ! best)")
    case True
    have "\<forall>j < Suc i. snd (all ! i) \<le> snd (all ! j)"
      using True Cons.prems(4) e by (auto simp: less_Suc_eq intro: order_trans less_imp_le)
    then have "\<forall>j < length all. snd (all ! oldest_idx all i es (Suc i)) \<le> snd (all ! j)"
      using Cons.prems(2) es by (intro Cons.IH) auto
    then show ?thesis using True by simp
  next
    case False
    have "\<forall>j < Suc i. snd (all ! best) \<le> snd (all ! j)"
      using False Cons.prems(4) e by (auto simp: less_Suc_eq)
    then have "\<forall>j < length all. snd (all ! oldest_idx all best es (Suc i)) \<le> snd (all ! j)"
      using Cons.prems(1,2) es by (intro Cons.IH) auto
    then show ?thesis using False by simp
  qed
qed

definition chat_live :: "int \<Rightarrow> gotime \<Rightarrow> (string \<rightharpoonup> session) \<Rightarrow> string \<Rightarrow> bool" where
  "chat_live chat now m sid =
     (case m sid of None \<Rightarrow> False | Some e \<Rightarrow> se_chat e = chat \<and> \<not> se_expires e < now)"

definition chat_dead :: "int \<Rightarrow> gotime \<Rightarrow> (string \<rightharpoonup> session) \<Rightarrow> string \<Rightarrow> bool" where
  "chat_dead chat now m sid =
     (case m sid of None \<Rightarrow> False | Some e \<Rightarrow> se_chat e = chat \<and> se_expires e < now)"

lemma evict_collect_eq:
  "distinct sids \<Longrightarrow>
   evict_collect chat now sids m acc =
     ((\<lambda>x. if x \<in> set sids \<and> chat_dead chat now m x then None else m x),
      acc @ map (\<lambda>x. (x, se_expires (the (m x)))) (filter (chat_live chat now m) sids))"
proof (induction chat now sids m acc rule: evict_collect.induct)
  case (2 chat now sid sids m acc)
  then have d: "sid \<notin> set sids" "distinct sids" by auto
  have live: "filter (chat_live chat now (m(sid := None))) sids = filter (chat_live chat now m) sids"
    using d(1) by (auto intro!: filter_cong simp: chat_live_def split: if_splits)
  have mp: "map (\<lambda>x. (x, se_expires (the ((m(sid := None)) x)))) (filter (chat_live chat now m) sids) =
      map (\<lambda>x. (x, se_expires (the (m x)))) (filter (chat_live chat now m) sids)"
    using d(1) by auto
  show ?case
  proof (cases "m sid")
    case None
    then show ?thesis using 2(1)[OF None d(2)] d(1)
      by (auto simp: chat_live_def chat_dead_def fun_eq_iff)
  next
    case (Some e)
    consider "se_chat e \<noteq> chat" | "se_chat e = chat" "se_expires e < now"
      | "se_chat e = chat" "\<not> se_expires e < now" by blast
    then show ?thesis
    proof cases
      case 1
      then show ?thesis using 2(4)[OF Some 1 d(2)] Some d(1)
        by (auto simp: chat_live_def chat_dead_def fun_eq_iff)
    next
      case 2
      have dead: "chat_dead chat now m sid" "\<not> chat_live chat now m sid"
        using Some 2 by (simp_all add: chat_dead_def chat_live_def)
      have "evict_collect chat now (sid # sids) m acc = evict_collect chat now sids (m(sid := None)) acc"
        using Some 2 by simp
      also have "\<dots> = ((\<lambda>x. if x \<in> set sids \<and> chat_dead chat now (m(sid := None)) x then None
          else (m(sid := None)) x),
          acc @ map (\<lambda>x. (x, se_expires (the ((m(sid := None)) x))))
            (filter (chat_live chat now (m(sid := None))) sids))"
        by (rule "2.IH"(2)[OF Some 2 d(2)])
      finally show ?thesis
        unfolding live mp using dead d(1) by (auto simp: fun_eq_iff chat_dead_def)
    next
      case 3
      have nd: "\<not> chat_dead chat now m sid" "chat_live chat now m sid"
        using Some 3 by (simp_all add: chat_dead_def chat_live_def)
      then show ?thesis using "2.IH"(3)[OF Some 3 d(2)] Some 3 d(1)
        by (auto simp: fun_eq_iff)
    qed
  qed
qed simp

lemma evict_loop_spec:
  assumes "distinct (map fst es)" and "fst ` set es \<subseteq> dom m"
  shows "(\<forall>x. x \<notin> fst ` set es \<longrightarrow> evict_loop k es m x = m x) \<and>
    (\<forall>x. evict_loop k es m x = None \<or> evict_loop k es m x = m x) \<and>
    card {x \<in> fst ` set es. evict_loop k es m x \<noteq> None} = min k (length es) \<and>
    (\<forall>e \<in> set es. \<forall>f \<in> set es. evict_loop k es m (fst e) \<noteq> None \<longrightarrow>
       evict_loop k es m (fst f) = None \<longrightarrow> snd f \<le> snd e)"
  using assms
proof (induction k es m rule: evict_loop.induct)
  case (1 k es m)
  show ?case
  proof (cases "k < length es")
    case False
    have "evict_loop k es m = m" using False by (simp add: evict_loop.simps)
    moreover have "{x \<in> fst ` set es. m x \<noteq> None} = fst ` set es" using "1.prems"(2) by auto
    moreover have "card (fst ` set es) = length es"
      using "1.prems"(1) distinct_card by (metis length_map list.set_map)
    ultimately show ?thesis using False "1.prems"(2) by auto
  next
    case True
    define i where "i = oldest_idx es 0 (tl es) 1"
    define es' where "es' = take i es @ drop (Suc i) es"
    define m1 where "m1 = m(fst (es ! i) := None)"
    have i: "i < length es" using True unfolding i_def by (intro oldest_idx_less) auto
    have mini: "snd (es ! i) \<le> snd f" if "f \<in> set es" for f
    proof -
      have "\<forall>j < length es. snd (es ! i) \<le> snd (es ! j)"
        unfolding i_def using True by (intro oldest_idx_min) (auto simp: drop_Suc)
      then show ?thesis using that by (auto simp: in_set_conv_nth)
    qed
    have eq: "evict_loop k es m = evict_loop k es' m1"
      using True by (subst evict_loop.simps) (simp add: Let_def i_def es'_def m1_def)
    have split: "es = take i es @ es ! i # drop (Suc i) es" using i by (simp add: id_take_nth_drop)
    have set_es: "set es = insert (es ! i) (set es')"
      using arg_cong[OF split, of set] by (simp add: es'_def)
    have "distinct (map fst (take i es @ es ! i # drop (Suc i) es))"
      using "1.prems"(1) arg_cong[OF split, of "\<lambda>x. distinct (map fst x)"] by simp
    then have dis: "distinct (map fst es')" and ni: "fst (es ! i) \<notin> fst ` set es'"
      by (auto simp: es'_def)
    have sub: "fst ` set es' \<subseteq> dom m1"
    proof
      fix x assume x: "x \<in> fst ` set es'"
      then have "x \<noteq> fst (es ! i)" using ni by metis
      moreover have "x \<in> dom m" using x "1.prems"(2) set_es by blast
      ultimately show "x \<in> dom m1" by (simp add: m1_def domIff)
    qed
    have len: "length es = Suc (length es')" using i by (simp add: es'_def)
    note IH = "1.IH"[OF True i_def, folded es'_def m1_def, OF dis sub]
    have m1: "m1 (fst (es ! i)) = None" "x \<noteq> fst (es ! i) \<Longrightarrow> m1 x = m x" for x
      by (simp_all add: m1_def)
    have gone: "evict_loop k es' m1 (fst (es ! i)) = None"
      using IH[THEN conjunct1] ni m1(1) by metis
    have keep: "{x \<in> fst ` set es. evict_loop k es' m1 x \<noteq> None} =
        {x \<in> fst ` set es'. evict_loop k es' m1 x \<noteq> None}"
      using set_es gone by auto
    have c: "card {x \<in> fst ` set es. evict_loop k es' m1 x \<noteq> None} = min k (length es)"
      unfolding keep using IH True len by simp
    have o: "\<forall>e \<in> set es. \<forall>f \<in> set es. evict_loop k es' m1 (fst e) \<noteq> None \<longrightarrow>
       evict_loop k es' m1 (fst f) = None \<longrightarrow> snd f \<le> snd e"
      using IH set_es gone mini by auto
    have a: "\<forall>x. x \<notin> fst ` set es \<longrightarrow> evict_loop k es' m1 x = m x"
      using IH[THEN conjunct1] set_es m1(2) by (metis image_insert insertCI)
    have b: "\<forall>x. evict_loop k es' m1 x = None \<or> evict_loop k es' m1 x = m x"
      using IH[THEN conjunct2, THEN conjunct1] m1 by metis
    show ?thesis unfolding eq using a b c o by blast
  qed
qed

lemma evict_oldest_spec:
  fixes chat :: int and k :: nat and now :: gotime
  assumes "distinct order" and "set order = dom m"
  defines "m' \<equiv> evict_oldest chat k now order m"
  shows "m' x = None \<or> m' x = m x"
    and "\<not> chat_live chat now m x \<Longrightarrow> \<not> chat_dead chat now m x \<Longrightarrow> m' x = m x"
    and "chat_dead chat now m x \<Longrightarrow> m' x = None"
    and "card {x. chat_live chat now m x \<and> m' x \<noteq> None} = min k (card {x. chat_live chat now m x})"
    and "chat_live chat now m x \<Longrightarrow> chat_live chat now m y \<Longrightarrow> m' x \<noteq> None \<Longrightarrow> m' y = None \<Longrightarrow>
      se_expires (the (m y)) \<le> se_expires (the (m x))"
proof -
  let ?m1 = "\<lambda>x. if x \<in> set order \<and> chat_dead chat now m x then None else m x"
  let ?es = "map (\<lambda>x. (x, se_expires (the (m x)))) (filter (chat_live chat now m) order)"
  have m': "m' = evict_loop k ?es ?m1"
    using evict_collect_eq[OF assms(1), of chat now m "[]"] by (simp add: m'_def evict_oldest_def)
  have live_in: "x \<in> set order" if "chat_live chat now m x" for x
    using that assms(2) by (auto simp: chat_live_def split: option.splits)
  have dead_in: "x \<in> set order" if "chat_dead chat now m x" for x
    using that assms(2) by (auto simp: chat_dead_def split: option.splits)
  have excl: "\<not> chat_dead chat now m x" if "chat_live chat now m x" for x
    using that by (auto simp: chat_live_def chat_dead_def split: option.splits)
  have fs: "map fst ?es = filter (chat_live chat now m) order" by (induction order) auto
  have keys: "fst ` set ?es = {x. chat_live chat now m x}" using live_in by force
  have dis: "distinct (map fst ?es)" unfolding fs using assms(1) by simp
  have "fst ` set ?es \<subseteq> dom ?m1"
    unfolding keys using excl by (auto simp: chat_live_def split: option.splits)
  note spec = evict_loop_spec[OF dis this, of k, folded m', unfolded keys]
  note frame = spec[THEN conjunct1, rule_format]
    and sub = spec[THEN conjunct2, THEN conjunct1, rule_format]
    and crd = spec[THEN conjunct2, THEN conjunct2, THEN conjunct1]
    and old = spec[THEN conjunct2, THEN conjunct2, THEN conjunct2, rule_format]
  have len: "length ?es = card {x. chat_live chat now m x}"
    using distinct_card[OF dis] keys by (metis length_map list.set_map)
  show "m' x = None \<or> m' x = m x" using sub[of x] by (auto split: if_splits)
  show "\<not> chat_live chat now m x \<Longrightarrow> \<not> chat_dead chat now m x \<Longrightarrow> m' x = m x"
    using frame[of x] by simp
  show "chat_dead chat now m x \<Longrightarrow> m' x = None"
    using frame[of x] excl[of x] dead_in[of x] by auto
  have "{x \<in> {x. chat_live chat now m x}. m' x \<noteq> None} = {x. chat_live chat now m x \<and> m' x \<noteq> None}" by simp
  then show "card {x. chat_live chat now m x \<and> m' x \<noteq> None} = min k (card {x. chat_live chat now m x})"
    using crd len by simp
  show "se_expires (the (m y)) \<le> se_expires (the (m x))"
    if l: "chat_live chat now m x" "chat_live chat now m y" and n: "m' x \<noteq> None" "m' y = None"
  proof -
    have "(x, se_expires (the (m x))) \<in> set ?es" "(y, se_expires (the (m y))) \<in> set ?es"
      using l live_in by auto
    from old[OF this] n show ?thesis by simp
  qed
qed

section \<open>Magic links: properties\<close>

datatype magic_op =
    MIssue "string res" int duration gotime
  | MConsume string gotime
  | MCleanup gotime

fun magic_step :: "magic_op \<Rightarrow> magic_store \<Rightarrow> magic_store" where
  "magic_step (MIssue rnd chat ttl now) ms =
     (case magic_issue rnd chat ttl now ms of Inl _ \<Rightarrow> ms | Inr (_, ms') \<Rightarrow> ms')"
| "magic_step (MConsume code now) ms = snd (magic_consume code now ms)"
| "magic_step (MCleanup now) ms = magic_cleanup now ms"

definition one_link :: "magic_store \<Rightarrow> bool" where
  "one_link ms \<longleftrightarrow>
     (\<forall>c c' e e'. ms c = Some e \<longrightarrow> ms c' = Some e' \<longrightarrow> me_chat e = me_chat e' \<longrightarrow> c = c')"

lemma one_link_submap: "one_link ms \<Longrightarrow> (\<And>c. ms' c = None \<or> ms' c = ms c) \<Longrightarrow> one_link ms'"
  unfolding one_link_def by (metis option.distinct(1))

lemma one_link_step: "one_link ms \<Longrightarrow> one_link (magic_step op ms)"
proof (cases op)
  case (MIssue rnd chat ttl now)
  assume "one_link ms"
  then show ?thesis
    using MIssue by (cases rnd) (auto simp: magic_issue_def one_link_def delete_where_Some)
next
  case (MConsume code now)
  assume "one_link ms"
  then show ?thesis
    by (rule one_link_submap)
       (auto simp: MConsume magic_consume_def Let_def split: option.split)
next
  case (MCleanup now)
  assume "one_link ms"
  then show ?thesis
    by (rule one_link_submap)
       (auto simp: MCleanup magic_cleanup_def delete_where_def split: option.split)
qed

interpretation magic: op_machine new_magic_store magic_step one_link
  by unfold_locales (simp add: one_link_def new_magic_store_def, rule one_link_step)

text \<open>At any time a chat has at most one magic link: after any sequence of issues, uses and
  cleanups, two codes of the same chat are the same code.\<close>

theorem one_magic_link_per_chat:
  "card {code. \<exists>e. fold magic_step ops new_magic_store code = Some e \<and> me_chat e = chat} \<le> 1"
proof -
  have ol: "one_link (fold magic_step ops new_magic_store)" by (rule magic.run_inv)
  let ?S = "{code. \<exists>e. fold magic_step ops new_magic_store code = Some e \<and> me_chat e = chat}"
  have eq: "x = y" if "x \<in> ?S" "y \<in> ?S" for x y
    using that ol unfolding one_link_def by blast
  show ?thesis
  proof (cases "?S = {}")
    case False
    then obtain x where "x \<in> ?S" by blast
    then have "?S = {x}" using eq by blast
    then show ?thesis by simp
  next
    case True
    then have "card ?S = 0" by (metis card.empty)
    then show ?thesis by linarith
  qed
qed

text \<open>The life of a magic link: issuing it invalidates every older link of the chat; until it
  expires it is accepted with the chat and the session TTL it was issued for; after the first use,
  accepted or not, it is never accepted again.\<close>

theorem magic_link_single_use:
  assumes "magic_issue (Ok code) chat ttl now ms = Ok (code', ms')"
  shows "code' = code \<and> magic_peek code t ms' = (t \<le> now + magicCodeTTL) \<and>
    (old = code \<or> (case ms old of None \<Rightarrow> True | Some e \<Rightarrow> me_chat e \<noteq> chat) \<or> \<not> magic_peek old t ms') \<and>
    fst (magic_consume code t ms') =
      (if t \<le> now + magicCodeTTL then (chat, ttl, True) else (0, 0, False)) \<and>
    fst (magic_consume code t2 (snd (magic_consume code t ms'))) = (0, 0, False)"
proof -
  have ms': "code' = code" "ms' = (delete_where (\<lambda>_ e. me_chat e = chat) ms)
      (code \<mapsto> \<lparr>me_chat = chat, me_session_ttl = ttl, me_expires = now + magicCodeTTL\<rparr>)"
    using assms by (auto simp: magic_issue_def)
  show ?thesis
    by (auto simp: ms' magic_peek_def magic_consume_def Let_def delete_where_def split: option.split)
qed

theorem magic_link_single_use_witness:
  "\<exists>ms'. magic_issue (Ok ''c2'') 7 hour 0 [''c1'' \<mapsto> \<lparr>me_chat = 7, me_session_ttl = 1, me_expires = 9\<rparr>] =
           Ok (''c2'', ms') \<and>
    \<not> magic_peek ''c1'' 5 ms' \<and> fst (magic_consume ''c2'' 5 ms') = (7, hour, True) \<and>
    fst (magic_consume ''c2'' 6 (snd (magic_consume ''c2'' 5 ms'))) = (0, 0, False)"
proof -
  let ?ms = "[''c1'' \<mapsto> \<lparr>me_chat = 7, me_session_ttl = 1, me_expires = 9\<rparr>]"
  obtain ms' where h: "magic_issue (Ok ''c2'') 7 hour 0 ?ms = Ok (''c2'', ms')"
    by (simp add: magic_issue_def)
  have "(5::int) \<le> 0 + magicCodeTTL" by (simp add: magicCodeTTL_def go_time)
  then show ?thesis using magic_link_single_use[OF h, of 5 "''c1''" 6] h by auto
qed

section \<open>Sessions: properties\<close>

lemma save_locked_sessions [simp]: "ss_sessions (save_locked s) = ss_sessions s"
  "ss_path (save_locked s) = ss_path s" "ss_disk_ok (save_locked s) = ss_disk_ok s"
  "ss_max (save_locked s) = ss_max s"
  by (simp_all add: save_locked_def)

definition limit_of :: "session_store \<Rightarrow> int" where
  "limit_of s = (if ss_max s \<le> 0 then defaultMaxSessions else ss_max s)"

lemma limit_pos: "0 < limit_of s"
  by (simp add: limit_of_def defaultMaxSessions_def)

lemma session_issue_sessions:
  assumes "session_issue (Ok sid) chat ttl now now' order s = Ok (sid', s')"
  shows "sid' = sid" and "ss_sessions s' =
    (evict_oldest chat (nat (limit_of s - 1)) now order (ss_sessions s))
      (sid \<mapsto> \<lparr>se_chat = chat, se_expires = now' + (if ttl \<le> 0 then sessionTTL else ttl),
             se_ttl = (if ttl \<le> 0 then sessionTTL else ttl)\<rparr>)"
  using assms by (auto simp: session_issue_def limit_of_def Let_def)

text \<open>Issuing a session enforces the limit: afterwards the chat has at most \<open>maxSessions\<close>
  sessions (2 when it is not set), the new one is valid for exactly its TTL, a session of another
  chat is untouched, and a session that had to give way was expired or had the earliest expiry.\<close>

theorem session_issue_limit:
  assumes "session_issue (Ok sid) chat ttl now now' order s = Ok (sid', s')"
    and "distinct order" and "set order = dom (ss_sessions s)"
  shows "int (card {x. \<exists>e. ss_sessions s' x = Some e \<and> se_chat e = chat}) \<le> limit_of s \<and>
    session_valid sid t s' = (t \<le> now' + (if ttl \<le> 0 then sessionTTL else ttl)) \<and>
    (x = sid \<or> (case ss_sessions s x of None \<Rightarrow> ss_sessions s' x = None
                 | Some e \<Rightarrow> se_chat e = chat \<or> ss_sessions s' x = Some e)) \<and>
    (x = sid \<or> y = sid \<or> \<not> chat_live chat now (ss_sessions s) x \<or> \<not> chat_live chat now (ss_sessions s) y \<or>
     ss_sessions s' x = None \<or> ss_sessions s' y \<noteq> None \<or>
     se_expires (the (ss_sessions s y)) \<le> se_expires (the (ss_sessions s x)))"
proof -
  let ?m = "ss_sessions s" and ?k = "nat (limit_of s - 1)"
  let ?m' = "evict_oldest chat ?k now order ?m"
  note s' = session_issue_sessions[OF assms(1)] and sp = evict_oldest_spec[OF assms(2,3), where chat = chat and k = ?k and now = now]
  let ?A = "{x. chat_live chat now ?m x \<and> ?m' x \<noteq> None}"
  have "{x. chat_live chat now ?m x} \<subseteq> set order"
    using assms(3) by (auto simp: chat_live_def split: option.splits)
  then have fin: "finite ?A" by (auto intro: finite_subset)
  have "{x. \<exists>e. ss_sessions s' x = Some e \<and> se_chat e = chat} \<subseteq> insert sid ?A"
  proof
    fix x assume "x \<in> {x. \<exists>e. ss_sessions s' x = Some e \<and> se_chat e = chat}"
    then obtain e where e: "ss_sessions s' x = Some e" "se_chat e = chat" by blast
    show "x \<in> insert sid ?A"
    proof (cases "x = sid")
      case False
      then have m': "?m' x = Some e" using e s'(2) by simp
      then have "?m x = Some e" using sp(1)[of x] by simp
      then have "chat_live chat now ?m x"
        using sp(3)[of x] m' e(2) by (auto simp: chat_live_def chat_dead_def)
      then show ?thesis using m' by simp
    qed simp
  qed
  then have "card {x. \<exists>e. ss_sessions s' x = Some e \<and> se_chat e = chat} \<le> card (insert sid ?A)"
    using fin by (intro card_mono) auto
  also have "\<dots> \<le> Suc (card ?A)" using fin by (simp add: card_insert_if)
  also have "\<dots> \<le> Suc ?k" using sp(4) by simp
  finally have lim: "int (card {x. \<exists>e. ss_sessions s' x = Some e \<and> se_chat e = chat}) \<le> limit_of s"
    using limit_pos[of s] by linarith
  have frame: "x = sid \<or> (case ?m x of None \<Rightarrow> ss_sessions s' x = None
                 | Some e \<Rightarrow> se_chat e = chat \<or> ss_sessions s' x = Some e)"
  proof (cases "?m x")
    case None
    then show ?thesis using sp(1)[of x] s'(2) by simp
  next
    case (Some e)
    have "?m' x = Some e" if "se_chat e \<noteq> chat"
      using sp(2)[of x] that Some by (simp add: chat_live_def chat_dead_def)
    then show ?thesis using Some s'(2) by auto
  qed
  have old: "x = sid \<or> y = sid \<or> \<not> chat_live chat now ?m x \<or> \<not> chat_live chat now ?m y \<or>
     ss_sessions s' x = None \<or> ss_sessions s' y \<noteq> None \<or>
     se_expires (the (?m y)) \<le> se_expires (the (?m x))"
    using sp(5)[of x y] s'(2) by auto
  have "session_valid sid t s' = (t \<le> now' + (if ttl \<le> 0 then sessionTTL else ttl))"
    using s'(2) by (auto simp: session_valid_def)
  then show ?thesis using lim frame old by blast
qed

theorem session_issue_limit_witness:
  "\<exists>s s'. session_issue (Ok ''n'') 7 10 0 0 [''a'', ''b''] s = Ok (''n'', s') \<and>
     int (card {x. \<exists>e. ss_sessions s' x = Some e \<and> se_chat e = 7}) \<le> 2 \<and>
     ss_sessions s' ''a'' = None \<and> session_valid ''b'' 5 s' \<and> session_valid ''n'' 5 s'"
proof -
  let ?s = "new_session_store\<lparr>ss_sessions := [''a'' \<mapsto> \<lparr>se_chat = 7, se_expires = 8, se_ttl = 9\<rparr>,
                                           ''b'' \<mapsto> \<lparr>se_chat = 7, se_expires = 9, se_ttl = 9\<rparr>]\<rparr>"
  obtain s' where h: "session_issue (Ok ''n'') 7 10 0 0 [''a'', ''b''] ?s = Ok (''n'', s')"
    by (simp add: session_issue_def)
  have o: "distinct [''a'', ''b'']" "set [''a'', ''b''] = dom (ss_sessions ?s)" by auto
  have "ss_sessions s' ''a'' = None" "session_valid ''b'' 5 s'"
    using session_issue_sessions(2)[OF h]
    by (simp_all add: evict_oldest_def evict_loop.simps limit_of_def defaultMaxSessions_def
        new_session_store_def session_valid_def)
  moreover have "limit_of ?s = 2" by (simp add: limit_of_def new_session_store_def defaultMaxSessions_def)
  ultimately show ?thesis using session_issue_limit[OF h o, of 5] h by auto
qed

text \<open>\<open>Check\<close> accepts exactly the sessions that \<open>Valid\<close> accepts, renews only what it accepts
  and only past half of the TTL, never shortens a session and never touches another one.\<close>

theorem session_check_sliding:
  assumes "session_check sid now s = ((v, r, t), s')" and "ss_sessions s x = Some e"
    and "se_ttl e \<le> max_duration"
  shows "v = session_valid sid now s \<and> v = session_valid sid now s' \<and> (v \<or> \<not> r) \<and>
    (case ss_sessions s' x of None \<Rightarrow> False
     | Some e' \<Rightarrow> se_chat e' = se_chat e \<and> se_expires e \<le> se_expires e' \<and>
         (e' = e \<or> x = sid \<and> r \<and> t = se_ttl e \<and> se_expires e' = now + se_ttl e \<and>
                  2 * (se_expires e - now) < se_ttl e))"
proof (cases "ss_sessions s sid")
  case None
  then show ?thesis using assms by (auto simp: session_check_def session_valid_def)
next
  case (Some f)
  consider (dead) "se_expires f < now"
    | (renew) "\<not> se_expires f < now" "0 < se_ttl f \<and> time_sub (se_expires f) now < go_div (se_ttl f) 2"
    | (fresh) "\<not> se_expires f < now" "\<not> (0 < se_ttl f \<and> time_sub (se_expires f) now < go_div (se_ttl f) 2)"
    by blast
  then show ?thesis
  proof cases
    case renew
    have s': "v" "r" "t = se_ttl f"
      "ss_sessions s' = (ss_sessions s)(sid \<mapsto> f\<lparr>se_expires := now + se_ttl f\<rparr>)"
      using assms(1) Some renew by (auto simp: session_check_def)
    have half: "se_expires f - now < se_ttl f div 2" if "se_ttl f \<le> max_duration"
      using renew(2) that time_sub_less_iff[of "se_ttl f div 2" "se_expires f" now]
      by (auto simp: min_duration_def max_duration_def)
    have "session_valid sid now s" "session_valid sid now s'"
      using Some renew s'(4) by (auto simp: session_valid_def)
    then show ?thesis
      using s' assms(2,3) Some half renew by (cases "x = sid") auto
  next
    case dead
    then show ?thesis using assms Some by (auto simp: session_check_def session_valid_def)
  next
    case fresh
    then have "session_check sid now s = ((True, False, 0), s)"
      using Some by (simp add: session_check_def del: go_div_nonneg)
    then show ?thesis using assms Some fresh(1) by (auto simp: session_valid_def)
  qed
qed

theorem session_check_sliding_witness:
  "\<exists>s s'. session_check ''a'' 96 s = ((True, True, 10), s') \<and>
     session_valid ''a'' 96 s \<and> session_valid ''a'' 96 s' \<and> \<not> session_valid ''a'' 101 s \<and>
     session_valid ''a'' 106 s'"
proof -
  let ?s = "new_session_store\<lparr>ss_sessions := [''a'' \<mapsto> \<lparr>se_chat = 7, se_expires = 100, se_ttl = 10\<rparr>]\<rparr>"
  obtain s' where h: "session_check ''a'' 96 ?s = ((True, True, 10), s')"
    "ss_sessions s' = [''a'' \<mapsto> \<lparr>se_chat = 7, se_expires = 106, se_ttl = 10\<rparr>]"
    by (simp add: session_check_def time_sub_def max_duration_def min_duration_def)
  have "session_valid ''a'' 96 ?s \<and> session_valid ''a'' 96 s'"
    using session_check_sliding[OF h(1), of "''a''"] by (simp add: max_duration_def)
  then show ?thesis using h by (intro exI[of _ ?s] exI[of _ s']) (simp add: session_valid_def)
qed

subsection \<open>Surviving a restart\<close>

text \<open>What the file and the map agree on at time \<open>t\<close> and later: the sessions that are live.\<close>

definition live_at :: "gotime \<Rightarrow> session option \<Rightarrow> session option" where
  "live_at t os = (case os of None \<Rightarrow> None | Some e \<Rightarrow> if se_expires e < t then None else Some e)"

definition synced :: "gotime \<Rightarrow> session_store \<Rightarrow> bool" where
  "synced t s \<longleftrightarrow>
     (\<forall>x. live_at t (ss_sessions s x) =
          live_at t (case ss_disk s of None \<Rightarrow> None | Some d \<Rightarrow> map_option from_persisted (d x)))"

lemma from_to_persisted [simp]: "from_persisted (to_persisted e) = e"
  by (simp add: from_persisted_def to_persisted_def)

lemma to_persisted_sel [simp]: "ps_expires (to_persisted e) = se_expires e"
  by (simp add: to_persisted_def)

lemma from_persisted_sel [simp]: "se_expires (from_persisted p) = ps_expires p"
  by (simp add: from_persisted_def)

lemma live_at_mono: "live_at t os = live_at t os' \<Longrightarrow> t \<le> t' \<Longrightarrow> live_at t' os = live_at t' os'"
  by (auto simp: live_at_def split: option.splits if_splits)

lemma synced_mono: "synced t s \<Longrightarrow> t \<le> t' \<Longrightarrow> synced t' s"
  unfolding synced_def using live_at_mono by blast

lemma synced_save: "ss_path s \<noteq> [] \<Longrightarrow> ss_disk_ok s \<Longrightarrow> synced t (save_locked s)"
  by (simp add: synced_def save_locked_def option.map_comp o_def option.map_ident)

lemma synced_no_change:
  "synced t s \<Longrightarrow> ss_sessions s' = ss_sessions s \<Longrightarrow> ss_disk s' = ss_disk s \<Longrightarrow> synced t s'"
  by (simp add: synced_def)

lemma synced_load:
  assumes "path \<noteq> []"
  shows "synced now (new_file_session_store path now disk ok)"
  using assms
  by (cases disk)
     (auto simp: synced_def new_file_session_store_def load_sessions_def live_at_def split: option.split)

lemma any_session_False:
  assumes "set order = dom m" and "\<not> any_session P order m"
  shows "delete_where (\<lambda>_ e. P e) m = m"
proof
  fix x
  show "delete_where (\<lambda>_ e. P e) m x = m x"
  proof (cases "m x")
    case (Some e)
    then have "x \<in> set order" using assms(1) by auto
    then have "\<not> P e" using assms(2) Some by (auto simp: any_session_def list_ex_iff)
    then show ?thesis using Some by (simp add: delete_where_def)
  qed (simp add: delete_where_def)
qed

text \<open>The operations of a running server. Each comes some time after the one before it (\<open>wait\<close>,
  not negative) and, where the code ranges over the map, with the order of that iteration.\<close>

datatype session_op =
    SIssue nat "string res" int duration "string list"
  | SRevoke nat int "string list"
  | SCheck nat string
  | SCleanup nat "string list"
  | SMax nat int

fun session_step :: "session_op \<Rightarrow> session_store \<times> gotime \<Rightarrow> session_store \<times> gotime" where
  "session_step (SIssue wait rnd chat ttl order) (s, t) =
     (let t' = t + int wait in
      case session_issue rnd chat ttl t' t' order s of Inl _ \<Rightarrow> (s, t') | Inr (_, s') \<Rightarrow> (s', t'))"
| "session_step (SRevoke wait chat order) (s, t) =
     (if set order = dom (ss_sessions s) then (revoke_chat chat order s, t + int wait) else (s, t))"
| "session_step (SCheck wait sid) (s, t) = (snd (session_check sid (t + int wait) s), t + int wait)"
| "session_step (SCleanup wait order) (s, t) =
     (if set order = dom (ss_sessions s) then (session_cleanup (t + int wait) order s, t + int wait) else (s, t))"
| "session_step (SMax wait n) (s, t) = (set_max_sessions n s, t + int wait)"

definition file_inv :: "session_store \<times> gotime \<Rightarrow> bool" where
  "file_inv st \<longleftrightarrow> ss_path (fst st) \<noteq> [] \<and> ss_disk_ok (fst st) \<and> synced (snd st) (fst st)"

lemma file_inv_step: "file_inv st \<Longrightarrow> file_inv (session_step op st)"
proof -
  assume inv: "file_inv st"
  obtain s t where st: "st = (s, t)" by (cases st)
  have p: "ss_path s \<noteq> []" "ss_disk_ok s" and sy: "synced (t + int w) s" for w
    using inv st synced_mono[of t s "t + int w"] by (auto simp: file_inv_def)
  have sv: "file_inv (save_locked (s\<lparr>ss_sessions := m\<rparr>), u)" for m u
    using p by (simp add: file_inv_def synced_save)
  have same: "file_inv (s, t + int w)" for w using p sy by (simp add: file_inv_def)
  show ?thesis
  proof (cases op)
    case (SIssue w rnd chat ttl order)
    then show ?thesis using st same sv by (cases rnd) (auto simp: session_issue_def Let_def)
  next
    case (SRevoke w chat order)
    then show ?thesis
      using st same sv inv any_session_False[of order "ss_sessions s" "\<lambda>e. se_chat e = chat"]
      by (auto simp: revoke_chat_def Let_def)
  next
    case (SCheck w sid)
    then show ?thesis using st same sv
      by (auto simp: session_check_def Let_def split: option.split)
  next
    case (SCleanup w order)
    then show ?thesis
      using st same sv inv any_session_False[of order "ss_sessions s" "\<lambda>e. se_expires e < t + int w"]
      by (auto simp: session_cleanup_def Let_def)
  next
    case (SMax w n)
    then show ?thesis using st p sy by (auto simp: file_inv_def set_max_sessions_def synced_def)
  qed
qed

lemma new_file_session_store_sel [simp]:
  "ss_path (new_file_session_store path now disk ok) = path"
  "ss_disk_ok (new_file_session_store path now disk ok) = ok"
  "ss_disk (new_file_session_store path now disk ok) = disk"
  by (auto simp: new_file_session_store_def load_sessions_def split: option.split)

lemma file_inv_init: "path \<noteq> [] \<Longrightarrow> file_inv (new_file_session_store path t0 disk True, t0)"
  by (simp add: file_inv_def synced_load)

interpretation file_sessions:
  op_machine "(new_file_session_store (c # path) t0 disk True, t0)" session_step file_inv
  for c path t0 disk
  by unfold_locales (simp add: file_inv_init, rule file_inv_step)

lemma session_valid_live_at:
  "session_valid sid t s \<longleftrightarrow> live_at t (ss_sessions s sid) \<noteq> None"
  by (auto simp: session_valid_def live_at_def split: option.splits)

lemma synced_restart:
  assumes "synced t s" and "path \<noteq> []" and "t \<le> t'" and "t' \<le> t''"
  shows "session_valid sid t'' (new_file_session_store path t' (ss_disk s) ok) = session_valid sid t'' s"
proof -
  let ?d = "case ss_disk s of None \<Rightarrow> None | Some d \<Rightarrow> map_option from_persisted (d sid)"
  let ?s' = "new_file_session_store path t' (ss_disk s) ok"
  have "live_at t'' (ss_sessions ?s' sid) = live_at t'' ?d"
    using synced_mono[OF synced_load[OF assms(2), of t' "ss_disk s" ok] assms(4)]
    by (simp add: synced_def)
  moreover have "live_at t'' (ss_sessions s sid) = live_at t'' ?d"
    using synced_mono[OF assms(1), of t''] assms(3,4) by (simp add: synced_def)
  ultimately show ?thesis by (simp add: session_valid_live_at)
qed



end
