(* ===== verification/Go_Encoding.thy ===== *)
theory Go_Encoding
  imports Alf_Prelude "HOL-Library.Word"
begin

unbundle bit_operations_syntax

text \<open>
  What the modelled code uses of Go's packages \<open>encoding/base64\<close> (\<open>RawURLEncoding\<close>),
  \<open>encoding/binary\<close> (\<open>BigEndian\<close>), \<open>crypto/sha256\<close>, \<open>crypto/hmac\<close> and \<open>hash/fnv\<close>, as executable
  functions on byte strings, with the laws the components rely on: decoding inverts encoding,
  reading a big-endian number inverts writing it, and a SHA-256 sum has 32 bytes.
\<close>

abbreviation bval :: "char \<Rightarrow> nat" where "bval c \<equiv> of_char c"
abbreviation byte :: "nat \<Rightarrow> char" where "byte n \<equiv> char_of n"

lemma bval_less: "bval c < 256" by (rule nat_of_char_less_256)

section \<open>Base64, URL alphabet, no padding\<close>

definition b64_alphabet :: string where
  "b64_alphabet = ''ABCDEFGHIJKLMNOPQRSTUVWXYZabcdefghijklmnopqrstuvwxyz0123456789-_''"

definition b64_chr :: "nat \<Rightarrow> char" where "b64_chr v = b64_alphabet ! v"
definition b64_val :: "char \<Rightarrow> nat option" where "b64_val c = index_byte b64_alphabet c"

fun b64_encode :: "string \<Rightarrow> string" where
  "b64_encode [] = []"
| "b64_encode [a] = [b64_chr (bval a div 4), b64_chr (bval a mod 4 * 16)]"
| "b64_encode [a, b] =
     [b64_chr (bval a div 4), b64_chr (bval a mod 4 * 16 + bval b div 16),
      b64_chr (bval b mod 16 * 4)]"
| "b64_encode (a # b # c # r) =
     b64_chr (bval a div 4) # b64_chr (bval a mod 4 * 16 + bval b div 16) #
     b64_chr (bval b mod 16 * 4 + bval c div 64) # b64_chr (bval c mod 64) # b64_encode r"

text \<open>\<open>DecodeString\<close> skips carriage returns and newlines, refuses every other character outside
  the alphabet and a single left-over digit, and ignores the unused low bits of the last digit.\<close>

fun b64_quanta :: "nat list \<Rightarrow> string option" where
  "b64_quanta [] = Some []"
| "b64_quanta [v] = None"
| "b64_quanta [v, w] = Some [byte (v * 4 + w div 16)]"
| "b64_quanta [v, w, x] = Some [byte (v * 4 + w div 16), byte (w mod 16 * 16 + x div 4)]"
| "b64_quanta (v # w # x # y # r) =
     map_option (\<lambda>s. byte (v * 4 + w div 16) # byte (w mod 16 * 16 + x div 4) #
                     byte (x mod 4 * 64 + y) # s)
       (b64_quanta r)"

fun b64_vals :: "string \<Rightarrow> nat list option" where
  "b64_vals [] = Some []"
| "b64_vals (c # s) =
     (if c = CHR 0x0A \<or> c = CHR 0x0D then b64_vals s
      else (case b64_val c of None \<Rightarrow> None | Some v \<Rightarrow> map_option ((#) v) (b64_vals s)))"

definition b64_decode :: "string \<Rightarrow> string option" where
  "b64_decode s = Option.bind (b64_vals s) b64_quanta"

lemma b64_alphabet_distinct: "distinct b64_alphabet" by (simp add: b64_alphabet_def)
lemma b64_alphabet_length: "length b64_alphabet = 64" by (simp add: b64_alphabet_def)
lemma b64_alphabet_no_nl: "CHR 0x0A \<notin> set b64_alphabet" "CHR 0x0D \<notin> set b64_alphabet"
  by (simp_all add: b64_alphabet_def)

lemma b64_val_chr [simp]: "v < 64 \<Longrightarrow> b64_val (b64_chr v) = Some v"
  unfolding b64_val_def index_byte_def find_index_Some b64_chr_def
  using b64_alphabet_distinct b64_alphabet_length by (auto simp: nth_eq_iff_index_eq)

lemma b64_chr_no_nl [simp]: "v < 64 \<Longrightarrow> b64_chr v \<noteq> CHR 0x0A \<and> b64_chr v \<noteq> CHR 0x0D"
  using b64_alphabet_no_nl b64_alphabet_length by (metis b64_chr_def nth_mem)

lemma b64_vals_chr [simp]: "v < 64 \<Longrightarrow> b64_vals (b64_chr v # s) = map_option ((#) v) (b64_vals s)"
  by simp

lemma b64_digits [simp]:
  "bval a div 4 < 64" "bval a mod 4 * 16 < 64" "bval b mod 16 * 4 < 64" "bval a mod 64 < 64"
  "bval a mod 4 * 16 + bval b div 16 < 64" "bval b mod 16 * 4 + bval c div 64 < 64"
  using bval_less[of a] bval_less[of b] bval_less[of c] by linarith+

lemma bval_high [simp]:
  "bval b div 16 div 16 = 0" "bval b div 16 mod 16 = bval b div 16"
  "bval b div 64 div 4 = 0" "bval b div 64 mod 4 = bval b div 64"
proof -
  have d: "bval b div 16 < 16" "bval b div 64 < 4" using bval_less[of b] by linarith+
  show "bval b div 16 div 16 = 0" "bval b div 16 mod 16 = bval b div 16"
    using d(1) by (rule div_less, rule mod_less)
  show "bval b div 64 div 4 = 0" "bval b div 64 mod 4 = bval b div 64"
    using d(2) by (rule div_less, rule mod_less)
qed

theorem b64_decode_encode [simp]: "b64_decode (b64_encode s) = Some s"
proof (induction s rule: b64_encode.induct)
  case 1
  then show ?case by (simp add: b64_decode_def)
next
  case (2 a)
  show ?case
    by (simp add: b64_decode_def del: b64_vals.simps(2))
next
  case (3 a b)
  show ?case
    by (simp add: b64_decode_def del: b64_vals.simps(2))
next
  case (4 a b c r)
  obtain vs where vs: "b64_vals (b64_encode r) = Some vs" "b64_quanta vs = Some r"
    using "4.IH" by (auto simp: b64_decode_def bind_eq_Some_conv)
  then show ?case
    by (simp add: b64_decode_def del: b64_vals.simps(2))
qed

section \<open>Big-endian numbers\<close>

text \<open>The low \<open>8 * k\<close> bits of a number, high byte first.\<close>

fun be_bytes :: "nat \<Rightarrow> nat \<Rightarrow> string" where
  "be_bytes 0 n = []"
| "be_bytes (Suc k) n = be_bytes k (n div 256) @ [byte n]"

definition be_value :: "string \<Rightarrow> nat" where
  "be_value s = foldl (\<lambda>a c. a * 256 + bval c) 0 s"

lemma length_be_bytes [simp]: "length (be_bytes k n) = k"
  by (induction k arbitrary: n) auto

lemma be_value_be_bytes: "be_value (be_bytes k n) = n mod 256 ^ k"
proof (induction k arbitrary: n)
  case (Suc k)
  have "be_value (be_bytes (Suc k) n) = (n div 256 mod 256 ^ k) * 256 + n mod 256"
    using Suc[of "n div 256"] by (simp add: be_value_def)
  also have "\<dots> = n mod 256 ^ Suc k"
    by (simp add: mod_mult2_eq mult.commute)
  finally show ?case .
qed (simp add: be_value_def)

text \<open>\<open>PutUint64(buf, uint64(i))\<close> and \<open>int64(Uint64(buf))\<close> of a signed number.\<close>

definition put_int64 :: "int \<Rightarrow> string" where
  "put_int64 i = be_bytes 8 (unat (word_of_int i :: 64 word))"

definition get_int64 :: "string \<Rightarrow> int" where
  "get_int64 s = sint (word_of_nat (be_value s) :: 64 word)"

lemma length_put_int64 [simp]: "length (put_int64 i) = 8"
  by (simp add: put_int64_def)

lemma get_put_int64: "- (2 ^ 63) \<le> i \<Longrightarrow> i < 2 ^ 63 \<Longrightarrow> get_int64 (put_int64 i) = i"
proof -
  assume i: "- (2 ^ 63) \<le> i" "i < 2 ^ 63"
  have "unat (word_of_int i :: 64 word) < 2 ^ 64"
    using unsigned_less[where 'a = nat, of "word_of_int i :: 64 word"] by simp
  then have "unat (word_of_int i :: 64 word) mod 256 ^ 8 = unat (word_of_int i :: 64 word)" by simp
  then have "get_int64 (put_int64 i) = sint (word_of_int i :: 64 word)"
    by (simp add: get_int64_def put_int64_def be_value_be_bytes)
  also have "\<dots> = signed_take_bit 63 i" by (simp add: sint_sbintrunc')
  also have "\<dots> = i" using i by (simp add: signed_take_bit_int_eq_self)
  finally show ?thesis .
qed

section \<open>SHA-256 and HMAC\<close>

type_synonym w32 = "32 word"
type_synonym sha_state = "w32 \<times> w32 \<times> w32 \<times> w32 \<times> w32 \<times> w32 \<times> w32 \<times> w32"

text \<open>The round constants, eight to a number.\<close>

definition sha_rows :: "256 word list" where
  "sha_rows =
    [0x428a2f9871374491b5c0fbcfe9b5dba53956c25b59f111f1923f82a4ab1c5ed5,
     0xd807aa9812835b01243185be550c7dc372be5d7480deb1fe9bdc06a7c19bf174,
     0xe49b69c1efbe47860fc19dc6240ca1cc2de92c6f4a7484aa5cb0a9dc76f988da,
     0x983e5152a831c66db00327c8bf597fc7c6e00bf3d5a7914706ca635114292967,
     0x27b70a852e1b21384d2c6dfc53380d13650a7354766a0abb81c2c92e92722c85,
     0xa2bfe8a1a81a664bc24b8b70c76c51a3d192e819d6990624f40e3585106aa070,
     0x19a4c1161e376c082748774c34b0bcb5391c0cb34ed8aa4a5b9cca4f682e6ff3,
     0x748f82ee78a5636f84c878148cc7020890befffaa4506cebbef9a3f7c67178f2]"

definition sha_k :: "w32 list" where
  "sha_k = concat (map (\<lambda>row. map (\<lambda>i. ucast (drop_bit (32 * (7 - i)) row)) [0..<8]) sha_rows)"

definition sha_init :: sha_state where
  "sha_init = (0x6a09e667, 0xbb67ae85, 0x3c6ef372, 0xa54ff53a,
               0x510e527f, 0x9b05688c, 0x1f83d9ab, 0x5be0cd19)"

definition sha_pad :: "string \<Rightarrow> string" where
  "sha_pad m = m @ CHR 0x80 # replicate ((119 - length m mod 64) mod 64) CHR 0x00 @
               be_bytes 8 (8 * length m)"

fun sha_words :: "string \<Rightarrow> w32 list" where
  "sha_words (a # b # c # d # r) = word_of_nat (be_value [a, b, c, d]) # sha_words r"
| "sha_words _ = []"

fun sha_blocks :: "string \<Rightarrow> string list" where
  "sha_blocks s = (if s = [] then [] else take 64 s # sha_blocks (drop 64 s))"

declare sha_blocks.simps [simp del]

definition sha_extend :: "w32 list \<Rightarrow> w32 list" where
  "sha_extend ws =
     foldl (\<lambda>w t.
       let w15 = w ! (t - 15); w2 = w ! (t - 2);
           s0 = word_rotr 7 w15 XOR word_rotr 18 w15 XOR drop_bit 3 w15;
           s1 = word_rotr 17 w2 XOR word_rotr 19 w2 XOR drop_bit 10 w2
       in w @ [w ! (t - 16) + s0 + w ! (t - 7) + s1]) ws [16..<64]"

fun sha_round :: "sha_state \<Rightarrow> w32 \<times> w32 \<Rightarrow> sha_state" where
  "sha_round (a, b, c, d, e, f, g, h) (k, w) =
     (let s1 = word_rotr 6 e XOR word_rotr 11 e XOR word_rotr 25 e;
          ch = (e AND f) XOR (NOT e AND g);
          t1 = h + s1 + ch + k + w;
          s0 = word_rotr 2 a XOR word_rotr 13 a XOR word_rotr 22 a;
          maj = (a AND b) XOR (a AND c) XOR (b AND c)
      in (t1 + (s0 + maj), a, b, c, d + t1, e, f, g))"

fun sha_add :: "sha_state \<Rightarrow> sha_state \<Rightarrow> sha_state" where
  "sha_add (a, b, c, d, e, f, g, h) (a', b', c', d', e', f', g', h') =
     (a + a', b + b', c + c', d + d', e + e', f + f', g + g', h + h')"

definition sha_compress :: "sha_state \<Rightarrow> string \<Rightarrow> sha_state" where
  "sha_compress st block =
     sha_add st (foldl sha_round st (zip sha_k (sha_extend (sha_words block))))"

fun sha_bytes :: "sha_state \<Rightarrow> string" where
  "sha_bytes (a, b, c, d, e, f, g, h) =
     concat (map (\<lambda>w. be_bytes 4 (unat w)) [a, b, c, d, e, f, g, h])"

definition sha256 :: "string \<Rightarrow> string" where
  "sha256 m = sha_bytes (foldl sha_compress sha_init (sha_blocks (sha_pad m)))"

lemma length_sha256 [simp]: "length (sha256 m) = 32"
  unfolding sha256_def by (rule sha_bytes.cases[of "foldl sha_compress sha_init (sha_blocks (sha_pad m))"]) simp

definition xor_pad :: "nat \<Rightarrow> string \<Rightarrow> string" where
  "xor_pad p key = map (\<lambda>c. byte (bval c XOR p)) (key @ replicate (64 - length key) CHR 0x00)"

definition hmac_sha256 :: "string \<Rightarrow> string \<Rightarrow> string" where
  "hmac_sha256 key0 m =
     (let key = (if 64 < length key0 then sha256 key0 else key0)
      in sha256 (xor_pad 0x5c key @ sha256 (xor_pad 0x36 key @ m)))"

lemma length_hmac_sha256 [simp]: "length (hmac_sha256 key m) = 32"
  by (simp add: hmac_sha256_def Let_def)

section \<open>FNV-1a, 64 bits\<close>

definition fnv1a64 :: "string \<Rightarrow> 64 word" where
  "fnv1a64 s = foldl (\<lambda>h c. (h XOR word_of_nat (bval c)) * 1099511628211) 14695981039346656037 s"

end
