(* ===== verification/App_Tokens.thy ===== *)
theory App_Tokens
  imports Go_Encoding
begin

text \<open>
  \<open>internal/controlcenter/app_token.go\<close>: the signed tokens with which a sandboxed app iframe
  calls the API. A store is its signing key; a token is the base64 text of one length byte, the
  slug, eight bytes of expiry (Unix seconds, big-endian) and the 32 bytes of the HMAC. The clock
  is the argument \<open>now\<close>.
\<close>

definition appTokenTTL :: duration where "appTokenTTL = 5 * minute"
definition appTokenKeyLen :: nat where "appTokenKeyLen = 32"

text \<open>\<open>t.Unix()\<close>.\<close>

definition unix_sec :: "gotime \<Rightarrow> int" where "unix_sec t = t div second"

definition new_app_token_store :: "string res \<Rightarrow> string res" where
  "new_app_token_store rnd =
     (case rnd of Inl e \<Rightarrow> Err (''generate app token key: '' @ e) | Inr bytes \<Rightarrow> Ok (take appTokenKeyLen bytes))"

definition app_token_issue :: "string \<Rightarrow> string \<Rightarrow> gotime \<Rightarrow> string" where
  "app_token_issue key slug0 now =
     (let slug = (if 255 < length slug0 then take 255 slug0 else slug0);
          expiry = now + appTokenTTL;
          payload = byte (length slug) # slug @ put_int64 (unix_sec expiry);
          sig = hmac_sha256 key payload
      in b64_encode (payload @ sig))"

text \<open>The result of \<open>Validate\<close> is \<open>None\<close> for \<open>("", false)\<close>.\<close>

definition app_token_validate :: "string \<Rightarrow> string \<Rightarrow> gotime \<Rightarrow> string option" where
  "app_token_validate key token now =
     (case b64_decode token of
        None \<Rightarrow> None
      | Some raw \<Rightarrow>
          if length raw < 41 then None
          else let slugLen = bval (raw ! 0)
            in if length raw \<noteq> 1 + slugLen + 8 + 32 then None
               else let payload = take (1 + slugLen + 8) raw;
                        sig = drop (1 + slugLen + 8) raw
                 in if hmac_sha256 key payload \<noteq> sig then None
                    else let expiry = get_int64 (drop (1 + slugLen) payload)
                      in if unix_sec now > expiry then None
                         else Some (drop 1 (take (1 + slugLen) payload)))"

definition validate_for_slug :: "string \<Rightarrow> string \<Rightarrow> string \<Rightarrow> gotime \<Rightarrow> bool" where
  "validate_for_slug key token slug now = (app_token_validate key token now = Some slug)"

text \<open>The argument is the value of the \<open>Authorization\<close> header.\<close>

definition extract_app_bearer_token :: "string \<Rightarrow> string" where
  "extract_app_bearer_token auth = (if has_prefix auth ''Bearer '' then drop 7 auth else [])"

section \<open>What a token says\<close>

text \<open>The signed bytes of a token for a slug and an expiry.\<close>

definition token_bytes :: "string \<Rightarrow> string \<Rightarrow> string \<Rightarrow> string" where
  "token_bytes key slug expiry =
     (let payload = byte (length slug) # slug @ expiry in payload @ hmac_sha256 key payload)"

lemma bval_byte [simp]: "n < 256 \<Longrightarrow> bval (byte n) = n"
  by (simp add: of_char_of)

lemma token_bytes_parts:
  assumes "length slug < 256" and "length e = 8"
  shows "length (token_bytes key slug e) = 1 + length slug + 8 + 32"
    and "token_bytes key slug e ! 0 = byte (length slug)"
    and "take (1 + length slug + 8) (token_bytes key slug e) = byte (length slug) # slug @ e"
    and "drop (1 + length slug + 8) (token_bytes key slug e) =
           hmac_sha256 key (byte (length slug) # slug @ e)"
  using assms by (simp_all add: token_bytes_def Let_def take_Cons' drop_Cons')

lemma validate_token_bytes:
  assumes "b64_decode token = Some (token_bytes key slug e)" "length slug < 256" "length e = 8"
  shows "app_token_validate key token now =
    (if get_int64 e < unix_sec now then None else Some slug)"
  using assms(1) token_bytes_parts[OF assms(2,3), of key] assms(2)
  by (simp add: app_token_validate_def)

lemma validate_accepts:
  assumes "app_token_validate key token now = Some slug"
  obtains e where "length e = 8" "length slug < 256" "b64_decode token = Some (token_bytes key slug e)"
    "unix_sec now \<le> get_int64 e"
proof -
  obtain raw where raw: "b64_decode token = Some raw"
    using assms by (auto simp: app_token_validate_def split: option.splits)
  define n where "n = bval (raw ! 0)"
  define e where "e = drop (1 + n) (take (1 + n + 8) raw)"
  have n: "n < 256" by (simp add: n_def bval_less)
  have a: "length raw = 1 + n + 8 + 32"
    "hmac_sha256 key (take (1 + n + 8) raw) = drop (1 + n + 8) raw"
    "\<not> get_int64 e < unix_sec now" "slug = drop 1 (take (1 + n) (take (1 + n + 8) raw))"
    using assms raw by (auto simp: app_token_validate_def Let_def n_def e_def split: if_splits)
  obtain c r where cr: "raw = c # r" using a(1) by (cases raw) auto
  have c: "c = byte n" using cr by (simp add: n_def)
  have s: "slug = take n r" "e = drop n (take (n + 8) r)" using a(4) cr by (simp_all add: e_def take_Cons' add.commute)
  have len: "length slug = n" "length e = 8" using a(1) s cr by simp_all
  have "take (1 + n + 8) raw = c # take (n + 8) r" using cr by (simp add: take_Cons' add.commute)
  then have p: "take (1 + n + 8) raw = byte (length slug) # slug @ e"
    using c s len take_add[of n 8 r] by simp
  have "raw = token_bytes key slug e"
    using a(2) p append_take_drop_id[of "1 + n + 8" raw] by (simp add: token_bytes_def Let_def)
  then show thesis using that len n a(3) raw by simp
qed

text \<open>A token is accepted exactly for the slug it was issued for, from its issue until its
  expiry five minutes later (on whole seconds), and for no other slug; a slug of more than 255
  bytes is cut to 255.\<close>

theorem app_token_roundtrip:
  assumes "- (2 ^ 63) * second \<le> now" and "now + appTokenTTL < 2 ^ 63 * second"
  shows "validate_for_slug key (app_token_issue key slug now) slug' t \<longleftrightarrow>
    slug' = take 255 slug \<and> t div second \<le> (now + 300 * second) div second"
proof -
  let ?u = "unix_sec (now + appTokenTTL)" and ?s = "take 255 slug"
  have "- (2 ^ 63) * second div second \<le> (now + appTokenTTL) div second"
    using assms(1) by (intro zdiv_mono1) (simp_all add: appTokenTTL_def go_time)
  moreover have "(now + appTokenTTL) div second < 2 ^ 63"
    using assms(2) by (simp add: go_time div_less_iff_less_mult)
  ultimately have u: "get_int64 (put_int64 ?u) = ?u"
    by (intro get_put_int64) (simp_all add: unix_sec_def go_time)
  have cut: "(if 255 < length slug then take 255 slug else slug) = ?s" by simp
  have "app_token_issue key slug now = b64_encode (token_bytes key ?s (put_int64 ?u))"
    unfolding app_token_issue_def token_bytes_def Let_def cut by simp
  then have "app_token_validate key (app_token_issue key slug now) t =
      (if get_int64 (put_int64 ?u) < unix_sec t then None else Some ?s)"
    by (intro validate_token_bytes) simp_all
  then show ?thesis unfolding validate_for_slug_def u
    by (auto simp: unix_sec_def appTokenTTL_def minute_def)
qed

theorem app_token_roundtrip_witness:
  "validate_for_slug ''k'' (app_token_issue ''k'' ''todo'' 0) ''todo'' (300 * second) \<and>
   \<not> validate_for_slug ''k'' (app_token_issue ''k'' ''todo'' 0) ''todo'' (301 * second) \<and>
   \<not> validate_for_slug ''k'' (app_token_issue ''k'' ''todo'' 0) ''mail'' 0"
proof -
  have "- (2 ^ 63) * second \<le> 0" "0 + appTokenTTL < 2 ^ 63 * second"
    by (simp_all add: appTokenTTL_def go_time)
  note h = app_token_roundtrip[OF this, of "''k''" "''todo''"]
  show ?thesis using h[of "''todo''" "300 * second"] h[of "''todo''" "301 * second"] h[of "''mail''" 0]
    by (simp add: go_time)
qed

text \<open>C11. What \<open>Validate\<close> accepts is signed with the store's key: a token is accepted exactly when
  it decodes to a length byte, the slug, an expiry that has not passed and the HMAC of those bytes,
  so no unsigned, truncated, extended or expired token is accepted.\<close>

theorem app_token_accepts_only_signed:
  "(app_token_validate key token now = Some slug) =
   (\<exists>e. length e = 8 \<and> length slug < 256 \<and> unix_sec now \<le> get_int64 e \<and>
        b64_decode token = Some (byte (length slug) # slug @ e @
          hmac_sha256 key (byte (length slug) # slug @ e)))"
proof
  assume "app_token_validate key token now = Some slug"
  then obtain e where "length e = 8" "length slug < 256" "b64_decode token = Some (token_bytes key slug e)"
    "unix_sec now \<le> get_int64 e" by (rule validate_accepts)
  then show "\<exists>e. length e = 8 \<and> length slug < 256 \<and> unix_sec now \<le> get_int64 e \<and>
        b64_decode token = Some (byte (length slug) # slug @ e @
          hmac_sha256 key (byte (length slug) # slug @ e))"
    by (auto simp: token_bytes_def Let_def)
next
  assume "\<exists>e. length e = 8 \<and> length slug < 256 \<and> unix_sec now \<le> get_int64 e \<and>
        b64_decode token = Some (byte (length slug) # slug @ e @
          hmac_sha256 key (byte (length slug) # slug @ e))"
  then obtain e where e: "length e = 8" "length slug < 256" "unix_sec now \<le> get_int64 e"
    "b64_decode token = Some (token_bytes key slug e)"
    by (auto simp: token_bytes_def Let_def)
  then show "app_token_validate key token now = Some slug"
    using validate_token_bytes[OF e(4,2,1), of now] by simp
qed

end
