(* ===== verification/Net_Addr.thy ===== *)
theory Net_Addr
  imports Go_Encoding
begin

text \<open>
  What the modelled code uses of Go's package \<open>net\<close>: \<open>SplitHostPort\<close>, \<open>ParseIP\<close> (with \<open>netip\<close>'s
  parsers for both address families) and the address classes \<open>IsLoopback\<close>, \<open>IsPrivate\<close> and
  \<open>IsLinkLocalUnicast\<close>. An address is its list of 16 bytes; an IPv4 address is in its mapped form.
\<close>

section \<open>Host and port\<close>

definition last_index :: "char \<Rightarrow> string \<Rightarrow> nat option" where
  "last_index c s = map_option (\<lambda>i. length s - 1 - i) (index_byte (rev s) c)"

text \<open>The host of \<open>net.SplitHostPort\<close>, \<open>None\<close> when it returns an error.\<close>

definition split_host_port :: "string \<Rightarrow> string option" where
  "split_host_port hp =
     (case last_index (CHR '':'') hp of
        None \<Rightarrow> None
      | Some i \<Rightarrow>
          if hp ! 0 = CHR ''['' then
            (case index_byte hp (CHR '']'') of
               None \<Rightarrow> None
             | Some e \<Rightarrow>
                 if e + 1 \<noteq> i then None
                 else if CHR ''['' \<in> set (drop 1 hp) \<or> CHR '']'' \<in> set (drop (e + 1) hp) then None
                 else Some (drop 1 (take e hp)))
          else if CHR '':'' \<in> set (take i hp) \<or> CHR ''['' \<in> set hp \<or> CHR '']'' \<in> set hp then None
          else Some (take i hp))"

section \<open>Addresses\<close>

definition digit_val :: "char \<Rightarrow> nat option" where
  "digit_val c = (if 48 \<le> bval c \<and> bval c \<le> 57 then Some (bval c - 48) else None)"

definition hex_val :: "char \<Rightarrow> nat option" where
  "hex_val c =
     (if 48 \<le> bval c \<and> bval c \<le> 57 then Some (bval c - 48)
      else if 97 \<le> bval c \<and> bval c \<le> 102 then Some (bval c - 87)
      else if 65 \<le> bval c \<and> bval c \<le> 70 then Some (bval c - 55)
      else None)"

text \<open>\<open>parseIPv4Fields\<close>: the value of the field, the number of its digits and the fields before it.\<close>

fun parse_ipv4_fields :: "string \<Rightarrow> nat \<Rightarrow> nat \<Rightarrow> nat list \<Rightarrow> nat list option" where
  "parse_ipv4_fields [] val len fields =
     (if len = 0 \<or> length fields \<noteq> 3 then None else Some (fields @ [val]))"
| "parse_ipv4_fields (c # s) val len fields =
     (case digit_val c of
        Some d \<Rightarrow>
          if len = 1 \<and> val = 0 then None
          else if 255 < val * 10 + d then None
          else parse_ipv4_fields s (val * 10 + d) (Suc len) fields
      | None \<Rightarrow>
          if c \<noteq> CHR ''.'' then None
          else if len = 0 \<or> s = [] then None
          else if length fields = 3 then None
          else parse_ipv4_fields s 0 0 (fields @ [val]))"

definition parse_ipv4 :: "string \<Rightarrow> nat list option" where
  "parse_ipv4 s = parse_ipv4_fields s 0 0 []"

text \<open>The longest prefix of hexadecimal digits: its value, its length and the rest.\<close>

fun hex_prefix :: "string \<Rightarrow> nat \<Rightarrow> nat \<Rightarrow> nat \<times> nat \<times> string" where
  "hex_prefix [] acc off = (acc, off, [])"
| "hex_prefix (c # s) acc off =
     (case hex_val c of
        None \<Rightarrow> (acc, off, c # s)
      | Some d \<Rightarrow> hex_prefix s (acc * 16 + d) (Suc off))"

text \<open>The loop of \<open>parseIPv6\<close>: \<open>n\<close> groups of 16 bits are left, \<open>ip\<close> holds the bytes so far, \<open>ell\<close> the
  position of the ellipsis. The result is the bytes, the ellipsis and the unread rest.\<close>

fun parse_ipv6_loop ::
  "nat \<Rightarrow> string \<Rightarrow> nat list \<Rightarrow> nat option \<Rightarrow> (nat list \<times> nat option \<times> string) option" where
  "parse_ipv6_loop 0 s ip ell = Some (ip, ell, s)"
| "parse_ipv6_loop (Suc n) s ip ell =
     (case hex_prefix s 0 0 of
        (acc, off, rest) \<Rightarrow>
          if off = 0 \<or> 4 < off then None
          else if rest \<noteq> [] \<and> hd rest = CHR ''.'' then
            (if ell = None \<and> length ip \<noteq> 12 then None
             else if 16 < length ip + 4 then None
             else (case parse_ipv4 s of None \<Rightarrow> None | Some v4 \<Rightarrow> Some (ip @ v4, ell, [])))
          else
            let ip' = ip @ [acc div 256, acc mod 256] in
            (case rest of
               [] \<Rightarrow> Some (ip', ell, [])
             | c # rest1 \<Rightarrow>
                 if c \<noteq> CHR '':'' \<or> rest1 = [] then None
                 else if hd rest1 = CHR '':'' then
                   (if ell \<noteq> None then None
                    else if tl rest1 = [] then Some (ip', Some (length ip'), [])
                    else parse_ipv6_loop n (tl rest1) ip' (Some (length ip')))
                 else parse_ipv6_loop n rest1 ip' ell))"

definition parse_ipv6 :: "string \<Rightarrow> nat list option" where
  "parse_ipv6 s =
     (if s = ''::'' then Some (replicate 16 0)
      else
        let lead = has_prefix s ''::''; ell0 = (if lead then Some 0 else None)
        in (case parse_ipv6_loop 8 (if lead then drop 2 s else s) [] ell0 of
              None \<Rightarrow> None
            | Some (ip, ell, rest) \<Rightarrow>
                if rest \<noteq> [] then None
                else if length ip < 16 then
                  (case ell of None \<Rightarrow> None
                   | Some e \<Rightarrow> Some (take e ip @ replicate (16 - length ip) 0 @ drop e ip))
                else if ell \<noteq> None then None
                else Some ip))"

definition v4_prefix :: "nat list" where "v4_prefix = replicate 10 0 @ [255, 255]"

text \<open>\<open>ParseIP\<close>: the first of the characters \<open>.\<close>, \<open>:\<close> and \<open>%\<close> decides; an address with a zone is
  refused.\<close>

definition parse_ip :: "string \<Rightarrow> nat list option" where
  "parse_ip s =
     (case find_index (\<lambda>c. c \<in> {CHR ''.'', CHR '':'', CHR ''%''}) s of
        None \<Rightarrow> None
      | Some i \<Rightarrow>
          if s ! i = CHR ''.'' then map_option (\<lambda>v4. v4_prefix @ v4) (parse_ipv4 s)
          else if s ! i = CHR '':'' then (if CHR ''%'' \<in> set s then None else parse_ipv6 s)
          else None)"

definition to4 :: "nat list \<Rightarrow> nat list option" where
  "to4 ip = (if take 12 ip = v4_prefix then Some (drop 12 ip) else None)"

definition is_loopback :: "nat list \<Rightarrow> bool" where
  "is_loopback ip =
     (case to4 ip of Some v4 \<Rightarrow> v4 ! 0 = 127 | None \<Rightarrow> ip = replicate 15 0 @ [1])"

definition is_private :: "nat list \<Rightarrow> bool" where
  "is_private ip =
     (case to4 ip of
        Some v4 \<Rightarrow> v4 ! 0 = 10 \<or> (v4 ! 0 = 172 \<and> v4 ! 1 div 16 = 1) \<or> (v4 ! 0 = 192 \<and> v4 ! 1 = 168)
      | None \<Rightarrow> ip ! 0 div 2 = 126)"

definition is_link_local_unicast :: "nat list \<Rightarrow> bool" where
  "is_link_local_unicast ip =
     (case to4 ip of
        Some v4 \<Rightarrow> v4 ! 0 = 169 \<and> v4 ! 1 = 254
      | None \<Rightarrow> ip ! 0 = 254 \<and> ip ! 1 div 64 = 2)"

lemma parse_ipv4_fields_length:
  "parse_ipv4_fields s val len fields = Some v \<Longrightarrow> length v = 4"
  by (induction s val len fields rule: parse_ipv4_fields.induct)
     (auto split: if_splits option.splits)

lemma parse_ipv6_loop_length:
  "parse_ipv6_loop n s ip ell = Some (ip', ell', rest) \<Longrightarrow> length ip + 2 * n \<le> 16 \<Longrightarrow>
   (case ell of None \<Rightarrow> True | Some e \<Rightarrow> e \<le> length ip) \<Longrightarrow>
   length ip' \<le> 16 \<and> (case ell' of None \<Rightarrow> True | Some e \<Rightarrow> e \<le> length ip')"
proof (induction n s ip ell rule: parse_ipv6_loop.induct)
  case (2 n s ip ell)
  obtain acc off r where h: "hex_prefix s 0 0 = (acc, off, r)" by (metis surj_pair)
  show ?case
  proof (cases "r \<noteq> [] \<and> hd r = CHR ''.''")
    case True
    then show ?thesis using "2.prems" h
      by (auto simp: parse_ipv4_def split: if_splits option.splits dest!: parse_ipv4_fields_length)
  next
    case False
    then show ?thesis using "2.prems" h "2.IH"[OF h[symmetric] refl]
      by (auto simp: Let_def split: if_splits option.splits list.splits)
  qed
qed simp

text \<open>Whatever \<open>ParseIP\<close> accepts has 16 bytes, so the class tests never index out of range.\<close>

lemma parse_ip_length: "parse_ip s = Some ip \<Longrightarrow> length ip = 16"
  by (auto simp: parse_ip_def parse_ipv4_def v4_prefix_def parse_ipv6_def Let_def
      split: option.splits if_splits prod.splits
      dest!: parse_ipv4_fields_length parse_ipv6_loop_length)

end
