(* ===== verification/Http_Base.thy ===== *)
theory Http_Base
  imports CC_Sessions App_Tokens Net_Addr
begin

text \<open>
  What the control center's HTTP code uses of \<open>net/http\<close>, \<open>net\<close> and \<open>path\<close>: requests, response
  writers, handlers and the helpers of \<open>internal/controlcenter/httputil.go\<close>; and the state that
  the middlewares share.

  A header map is a partial function from canonical header names (\<open>X-Real-Ip\<close>) to the first value,
  because the code only reads with \<open>Get\<close>. A handler maps a request and the pair of state and
  response writer to a new pair; a middleware maps a handler to a handler. The writer keeps every
  call of \<open>WriteHeader\<close> in order: the first is the status the client sees, the last is what
  \<open>statusWriter\<close> remembers.
\<close>

section \<open>Requests\<close>

record request =
  rq_method :: string
  rq_path :: string
  rq_headers :: "string \<rightharpoonup> string"
  rq_cookies :: "(string \<times> string) list"
  rq_query :: "string \<rightharpoonup> string"
  rq_form :: "string \<rightharpoonup> string"
  rq_tls :: bool
  rq_remote :: string
  rq_app_slug :: "string option"

definition header_get :: "request \<Rightarrow> string \<Rightarrow> string" where
  "header_get r name = (case rq_headers r name of None \<Rightarrow> [] | Some v \<Rightarrow> v)"

definition header_del :: "string \<Rightarrow> request \<Rightarrow> request" where
  "header_del name r = r\<lparr>rq_headers := (rq_headers r)(name := None)\<rparr>"

definition header_set :: "string \<Rightarrow> string \<Rightarrow> request \<Rightarrow> request" where
  "header_set name v r = r\<lparr>rq_headers := (rq_headers r)(name \<mapsto> v)\<rparr>"

text \<open>\<open>r.Cookie(name)\<close>: the first cookie of the name, or \<open>ErrNoCookie\<close>.\<close>

definition cookie_of :: "request \<Rightarrow> string \<Rightarrow> string option" where
  "cookie_of r name = map_of (rq_cookies r) name"

definition value_of :: "(string \<rightharpoonup> string) \<Rightarrow> string \<Rightarrow> string" where
  "value_of m k = (case m k of None \<Rightarrow> [] | Some v \<Rightarrow> v)"

named_theorems http_simps \<open>reading a request and a writer after an update\<close>

lemma header_get_del [simp]:
  "header_get (header_del n r) m = (if m = n then [] else header_get r m)"
  by (simp add: header_get_def header_del_def)

lemma header_get_set [simp]:
  "header_get (header_set n v r) m = (if m = n then v else header_get r m)"
  by (simp add: header_get_def header_set_def)

lemma header_del_sel [simp]:
  "rq_method (header_del n r) = rq_method r" "rq_path (header_del n r) = rq_path r"
  "rq_cookies (header_del n r) = rq_cookies r" "rq_remote (header_del n r) = rq_remote r"
  "rq_tls (header_del n r) = rq_tls r" "rq_app_slug (header_del n r) = rq_app_slug r"
  "cookie_of (header_del n r) = cookie_of r"
  by (auto simp: header_del_def cookie_of_def)

lemma header_set_sel [simp]:
  "rq_method (header_set n v r) = rq_method r" "rq_path (header_set n v r) = rq_path r"
  "rq_cookies (header_set n v r) = rq_cookies r" "rq_remote (header_set n v r) = rq_remote r"
  "cookie_of (header_set n v r) = cookie_of r"
  by (auto simp: header_set_def cookie_of_def)

section \<open>Responses\<close>

datatype same_site = SameSiteLax | SameSiteNone

record cookie =
  ck_name :: string
  ck_value :: string
  ck_path :: string
  ck_max_age :: int
  ck_http_only :: bool
  ck_secure :: bool
  ck_same_site :: same_site

record writer =
  w_codes :: "nat list"
  w_headers :: "string \<rightharpoonup> string"
  w_cookies :: "cookie list"
  w_body :: string

definition new_writer :: writer where
  "new_writer = \<lparr>w_codes = [], w_headers = Map.empty, w_cookies = [], w_body = []\<rparr>"

definition set_header :: "string \<Rightarrow> string \<Rightarrow> writer \<Rightarrow> writer" where
  "set_header name v w = w\<lparr>w_headers := (w_headers w)(name \<mapsto> v)\<rparr>"

definition write_header :: "nat \<Rightarrow> writer \<Rightarrow> writer" where
  "write_header code w = w\<lparr>w_codes := w_codes w @ [code]\<rparr>"

definition write_body :: "string \<Rightarrow> writer \<Rightarrow> writer" where
  "write_body s w = w\<lparr>w_body := w_body w @ s\<rparr>"

definition set_cookie :: "cookie \<Rightarrow> writer \<Rightarrow> writer" where
  "set_cookie c w = w\<lparr>w_cookies := w_cookies w @ [c]\<rparr>"

text \<open>\<open>http.Error\<close>.\<close>

definition http_error :: "string \<Rightarrow> nat \<Rightarrow> writer \<Rightarrow> writer" where
  "http_error msg code w =
     write_body (msg @ [CHR 0x0A]) (write_header code
       (set_header ''X-Content-Type-Options'' ''nosniff''
       (set_header ''Content-Type'' ''text/plain; charset=utf-8''
       (w\<lparr>w_headers := (w_headers w)(''Content-Length'' := None)\<rparr>))))"

text \<open>The status of a response: the first \<open>WriteHeader\<close>, 200 when there is none.\<close>

definition status_of :: "writer \<Rightarrow> nat" where
  "status_of w = (case w_codes w of [] \<Rightarrow> 200 | c # _ \<Rightarrow> c)"

text \<open>What a \<open>statusWriter\<close> that was wrapped around the writer \<open>w0\<close> holds when the wrapped
  handler has returned \<open>w\<close>.\<close>

definition status_writer_status :: "writer \<Rightarrow> writer \<Rightarrow> nat" where
  "status_writer_status w0 w =
     (let new = drop (length (w_codes w0)) (w_codes w) in if new = [] then 200 else last new)"

lemma writer_codes [simp]:
  "w_codes (set_header n v w) = w_codes w" "w_codes (set_cookie c w) = w_codes w"
  "w_codes (write_body s w) = w_codes w" "w_codes (write_header code w) = w_codes w @ [code]"
  "w_codes (http_error msg code w) = w_codes w @ [code]" "w_codes new_writer = []"
  by (simp_all add: set_header_def set_cookie_def write_body_def write_header_def http_error_def
      new_writer_def)

lemma writer_cookies [simp]:
  "w_cookies (set_header n v w) = w_cookies w" "w_cookies (write_header code w) = w_cookies w"
  "w_cookies (write_body s w) = w_cookies w" "w_cookies (set_cookie c w) = w_cookies w @ [c]"
  "w_cookies (http_error msg code w) = w_cookies w" "w_cookies new_writer = []"
  by (simp_all add: set_header_def set_cookie_def write_body_def write_header_def http_error_def
      new_writer_def)

section \<open>The state of the middlewares\<close>

text \<open>One \<open>rateLimiter\<close> is its counters; the limits are arguments of its middleware. \<open>ipBan\<close> has
  its failure counts and bans.\<close>

record ip_ban =
  ib_failures :: "string \<rightharpoonup> int"
  ib_banned :: "string \<rightharpoonup> gotime"
  ib_threshold :: int
  ib_duration :: duration

record cc_state =
  cs_sessions :: "session_store option"
  cs_magic :: magic_store
  cs_counters :: "string \<rightharpoonup> int"
  cs_auth_counters :: "string \<rightharpoonup> int"
  cs_ban :: ip_ban

text \<open>What does not change while a request is served: the settings of the server, the tokens that
  the token callbacks return, the clock, the next random session id, and the order in which Go
  iterates over a session map. \<open>cf_trusted\<close> is \<open>isTrustedProxy\<close>, a test of an address against
  the networks of the environment.\<close>

record config =
  cf_token :: string
  cf_extra_tokens :: "string list"
  cf_app_key :: "string option"
  cf_origin :: string
  cf_secure :: bool
  cf_trusted :: "string \<Rightarrow> bool"
  cf_now :: gotime
  cf_rnd :: "string res"
  cf_order :: "(string \<rightharpoonup> session) \<Rightarrow> string list"

type_synonym handler = "request \<Rightarrow> cc_state \<times> writer \<Rightarrow> cc_state \<times> writer"

section \<open>Paths and addresses\<close>

text \<open>\<open>path.Ext\<close>: the suffix from the last dot of the last path element.\<close>

fun ext_scan :: "string \<Rightarrow> string \<Rightarrow> string" where
  "ext_scan [] acc = []"
| "ext_scan (c # cs) acc =
     (if c = CHR ''/'' then [] else if c = CHR ''.'' then c # acc else ext_scan cs (c # acc))"

definition path_ext :: "string \<Rightarrow> string" where "path_ext p = ext_scan (rev p) []"

text \<open>What \<open>net.SplitHostPort\<close> returns for an address without a host.\<close>

definition split_host :: "string \<Rightarrow> string" where
  "split_host hp = (case split_host_port hp of None \<Rightarrow> [] | Some h \<Rightarrow> h)"

text \<open>\<open>clientIP\<close> (\<open>middleware.go\<close>).\<close>

definition client_ip :: "config \<Rightarrow> request \<Rightarrow> string" where
  "client_ip cf r =
     (let host = split_host (rq_remote r);
          remoteHost = (if host = [] then rq_remote r else host);
          xff = header_get r ''X-Forwarded-For'';
          xri = header_get r ''X-Real-Ip''
      in if cf_trusted cf remoteHost \<and> xff \<noteq> [] then
           (case str_index xff '','' of Some i \<Rightarrow> trim_space (take i xff) | None \<Rightarrow> xff)
         else if cf_trusted cf remoteHost \<and> xri \<noteq> [] then xri
         else remoteHost)"

lemma client_ip_stripped:
  "header_get r ''X-Forwarded-For'' = [] \<Longrightarrow> header_get r ''X-Real-Ip'' = [] \<Longrightarrow>
   client_ip cf r = (if split_host (rq_remote r) = [] then rq_remote r else split_host (rq_remote r))"
  by (simp add: client_ip_def Let_def)

end
