(* ===== verification/Http_Auth.thy ===== *)
theory Http_Auth
  imports Http_Base
begin

text \<open>
  Authentication of the control center: \<open>checkRequestAuth\<close>, the middleware
  \<open>authMiddlewareWithAppTokens\<close> and its helpers (\<open>internal/controlcenter/middleware.go\<close>), and the
  magic-link login of \<open>handler_auth.go\<close> and \<open>handler_magic_link.go\<close>. Log lines are left out.
  \<open>subtle.ConstantTimeCompare\<close> is equality.
\<close>

section \<open>Sub-resources of sandboxed apps\<close>

definition subResourceExts :: "string list" where
  "subResourceExts =
     [''.js'', ''.mjs'', ''.map'', ''.css'', ''.png'', ''.jpg'', ''.jpeg'', ''.gif'', ''.webp'',
      ''.svg'', ''.ico'', ''.avif'', ''.woff'', ''.woff2'', ''.ttf'', ''.otf'', ''.eot'', ''.mp3'',
      ''.mp4'', ''.webm'', ''.ogg'', ''.wav'', ''.wasm'']"

definition assetExts :: "string list" where
  "assetExts =
     [''.png'', ''.jpg'', ''.jpeg'', ''.gif'', ''.webp'', ''.svg'', ''.ico'', ''.avif'', ''.woff'',
      ''.woff2'', ''.ttf'', ''.otf'', ''.eot'', ''.mp3'', ''.mp4'', ''.webm'', ''.ogg'', ''.wav'']"

definition is_app_sub_resource :: "request \<Rightarrow> bool" where
  "is_app_sub_resource r =
     (if rq_method r \<noteq> ''GET'' \<or> \<not> has_prefix (rq_path r) ''/apps/'' then False
      else let ext = to_lower (path_ext (rq_path r)) in
        if ext \<notin> set subResourceExts then False
        else if str_contains (rq_path r) ''/api/'' \<and> ext \<notin> set assetExts then False
        else let dest = header_get r ''Sec-Fetch-Dest''; site = header_get r ''Sec-Fetch-Site'' in
          if dest = [] \<or> site = [] then False
          else let org = header_get r ''Origin'';
                   isTagLoad = dest \<in> {''image'', ''audio'', ''video'', ''font'', ''track''};
                   isStaticAssetLoad = dest \<in> {''script'', ''style''} \<and>
                                       \<not> str_contains (rq_path r) ''/api/'' in
            if org \<noteq> ''null'' \<and> \<not> (org = [] \<and> (isTagLoad \<or> isStaticAssetLoad)) then False
            else if dest \<in> {''document'', ''iframe'', ''navigate''} then False
            else let ref = header_get r ''Referer'' in
              \<not> (ref \<noteq> [] \<and> \<not> str_contains ref ''/apps/''))"

section \<open>Checking a request\<close>

datatype auth_method = AuthNone | AuthBearer | AuthCookie | AuthSession

record session_renewal =
  sr_id :: string
  sr_ttl :: duration

definition token_matches :: "string \<Rightarrow> string list \<Rightarrow> string \<Rightarrow> bool" where
  "token_matches token extra v =
     (token \<noteq> [] \<and> v = token \<or> list_ex (\<lambda>et. et \<noteq> [] \<and> v = et) extra)"

definition check_request_auth ::
  "request \<Rightarrow> string \<Rightarrow> string list \<Rightarrow> gotime \<Rightarrow> session_store option \<Rightarrow>
   (auth_method \<times> session_renewal option) \<times> session_store option" where
  "check_request_auth r token extra now sessions =
     (let auth = header_get r ''Authorization'' in
      if has_prefix auth ''Bearer '' \<and> token_matches token extra (drop 7 auth)
      then ((AuthBearer, None), sessions)
      else if (case cookie_of r ''cc_bearer'' of None \<Rightarrow> False | Some cv \<Rightarrow> token_matches token extra cv)
      then ((AuthCookie, None), sessions)
      else (case sessions of
              None \<Rightarrow> ((AuthNone, None), sessions)
            | Some ss \<Rightarrow>
                (case cookie_of r ''cc_session'' of
                   None \<Rightarrow> ((AuthNone, None), sessions)
                 | Some cv \<Rightarrow>
                     (case session_check cv now ss of
                        ((valid, renewed, ttl), ss') \<Rightarrow>
                          if valid then
                            (if renewed
                             then ((AuthSession, Some \<lparr>sr_id = cv, sr_ttl = ttl\<rparr>), Some ss')
                             else ((AuthSession, None), Some ss'))
                          else ((AuthNone, None), Some ss')))))"

definition is_secure :: "request \<Rightarrow> bool" where
  "is_secure r = (rq_tls r \<or> header_get r ''X-Forwarded-Proto'' = ''https'')"

definition session_cookie :: "string \<Rightarrow> int \<Rightarrow> bool \<Rightarrow> cookie" where
  "session_cookie v max_age secure =
     \<lparr>ck_name = ''cc_session'', ck_value = v, ck_path = ''/'', ck_max_age = max_age,
      ck_http_only = True, ck_secure = secure,
      ck_same_site = (if secure then SameSiteNone else SameSiteLax)\<rparr>"

definition refresh_session_cookie :: "request \<Rightarrow> session_renewal \<Rightarrow> writer \<Rightarrow> writer" where
  "refresh_session_cookie r rn w =
     set_cookie (session_cookie (sr_id rn) (go_div (sr_ttl rn) second) (is_secure r)) w"

definition autoIssueSessionTTL :: duration where "autoIssueSessionTTL = hour"

text \<open>\<open>bearerDerivedChatID\<close>: the sum is at 64 bits and wraps.\<close>

definition bearer_derived_chat_id :: "string \<Rightarrow> int" where
  "bearer_derived_chat_id bearer =
     (let v = drop_bit 1 (fnv1a64 bearer) in sint (- v - 3 :: 64 word))"

definition auto_issue_session ::
  "config \<Rightarrow> request \<Rightarrow> session_store option \<Rightarrow> writer \<Rightarrow> session_store option \<times> writer" where
  "auto_issue_session cf r sessions w =
     (case sessions of
        None \<Rightarrow> (sessions, w)
      | Some ss \<Rightarrow>
          if header_get r ''Sec-Fetch-Dest'' \<noteq> ''document'' then (sessions, w)
          else if (case cookie_of r ''cc_session'' of
                     None \<Rightarrow> False | Some v \<Rightarrow> session_valid v (cf_now cf) ss) then (sessions, w)
          else
            let b0 = trim_prefix (header_get r ''Authorization'') ''Bearer '';
                bearer = (if b0 = []
                          then (case cookie_of r ''cc_bearer'' of None \<Rightarrow> b0 | Some v \<Rightarrow> v)
                          else b0);
                chatID = (if bearer \<noteq> [] then bearer_derived_chat_id bearer else - 3)
            in (case session_issue (cf_rnd cf) chatID autoIssueSessionTTL (cf_now cf) (cf_now cf)
                       (cf_order cf (ss_sessions ss)) ss of
                  Inl _ \<Rightarrow> (sessions, w)
                | Inr (sid, ss') \<Rightarrow>
                    (Some ss', set_cookie (session_cookie sid (go_div autoIssueSessionTTL second)
                                             (is_secure r)) w)))"

section \<open>The middleware\<close>

text \<open>The slug in the path of a slug-scoped route.\<close>

definition route_slug :: "string \<Rightarrow> string" where
  "route_slug path =
     (let pre = (if has_prefix path ''/apps/'' then ''/apps/'' else ''/api/apps/'');
          reqSlug = trim_prefix path pre
      in case index_byte reqSlug (CHR ''/'') of None \<Rightarrow> reqSlug | Some i \<Rightarrow> take i reqSlug)"

text \<open>The part for app tokens: the request the next handler gets, or \<open>None\<close>.\<close>

definition app_token_pass :: "config \<Rightarrow> request \<Rightarrow> request option" where
  "app_token_pass cf r =
     (case cf_app_key cf of
        None \<Rightarrow> None
      | Some key \<Rightarrow>
          let bearer = extract_app_bearer_token (header_get r ''Authorization'') in
          if bearer = [] then None
          else (case app_token_validate key bearer (cf_now cf) of
                  None \<Rightarrow> None
                | Some tokenSlug \<Rightarrow>
                    let path = rq_path r in
                    if (has_prefix path ''/apps/'' \<or> has_prefix path ''/api/apps/'') \<and>
                       route_slug path = tokenSlug
                    then Some r
                    else if path = ''/api/bash'' \<or> path = ''/api/app-action''
                    then Some (r\<lparr>rq_app_slug := Some tokenSlug\<rparr>)
                    else None))"

text \<open>The body of an HTML page is reduced to what varies in it.\<close>

definition quoted :: "string \<Rightarrow> string" where "quoted s = CHR 0x27 # s @ [CHR 0x27]"

definition login_page :: string where "login_page = ''Not authorized.''"

definition render_login_page :: "writer \<Rightarrow> writer" where
  "render_login_page w =
     write_body login_page (write_header 200
       (set_header ''Content-Security-Policy''
          (''default-src '' @ quoted ''none'' @ ''; style-src '' @ quoted ''unsafe-inline'' @
           ''; frame-ancestors '' @ quoted ''none'')
       (set_header ''Content-Type'' ''text/html; charset=utf-8'' w)))"

definition auth_reject :: "request \<Rightarrow> writer \<Rightarrow> writer" where
  "auth_reject r w =
     (if (rq_path r = ''/'' \<or> has_prefix (rq_path r) ''/apps/'') \<and>
         str_contains (header_get r ''Accept'') ''text/html''
      then render_login_page w
      else http_error ''{\"error\":\"unauthorized\"}'' 401 w)"

definition auth_exempt :: "string list \<Rightarrow> request \<Rightarrow> bool" where
  "auth_exempt exempt r =
     (rq_path r \<in> set exempt \<or> has_prefix (rq_path r) ''/static/'' \<or> rq_method r = ''OPTIONS'' \<or>
      is_app_sub_resource r)"

definition auth_middleware :: "config \<Rightarrow> string list \<Rightarrow> handler \<Rightarrow> handler" where
  "auth_middleware cf exempt nxt r st =
     (case st of (s, w) \<Rightarrow>
        if auth_exempt exempt r then nxt r (s, w)
        else if header_get r ''X-Tools-Socket'' = ''1'' then
          (let appSlug = header_get r ''X-Tools-Socket-App'' in
           if appSlug \<noteq> [] then nxt (r\<lparr>rq_app_slug := Some appSlug\<rparr>) (s, w) else nxt r (s, w))
        else
          (case check_request_auth r (cf_token cf) (cf_extra_tokens cf) (cf_now cf) (cs_sessions s) of
             ((result, renewal), sess) \<Rightarrow>
               if result \<noteq> AuthNone then
                 (if result = AuthBearer then
                    (case auto_issue_session cf r sess w of
                       (sess', w') \<Rightarrow> nxt r (s\<lparr>cs_sessions := sess'\<rparr>, w'))
                  else
                    (case renewal of
                       None \<Rightarrow> nxt r (s\<lparr>cs_sessions := sess\<rparr>, w)
                     | Some rn \<Rightarrow> nxt r (s\<lparr>cs_sessions := sess\<rparr>, refresh_session_cookie r rn w)))
               else
                 (case app_token_pass cf r of
                    Some r' \<Rightarrow> nxt r' (s\<lparr>cs_sessions := sess\<rparr>, w)
                  | None \<Rightarrow> (s\<lparr>cs_sessions := sess\<rparr>, auth_reject r w))))"

section \<open>Magic-link login\<close>

definition render_error :: "string \<Rightarrow> writer \<Rightarrow> writer" where
  "render_error msg w =
     write_body msg (write_header 400 (set_header ''Content-Type'' ''text/html; charset=utf-8'' w))"

definition render_login_form :: "string \<Rightarrow> writer \<Rightarrow> writer" where
  "render_login_form code w =
     write_body code
       (set_header ''Content-Security-Policy''
          (''default-src '' @ quoted ''none'' @ ''; style-src '' @ quoted ''unsafe-inline'' @
           ''; form-action '' @ quoted ''self'' @ ''; frame-ancestors '' @ quoted ''none'')
       (set_header ''Content-Type'' ''text/html; charset=utf-8'' w))"

definition method_not_allowed :: "writer \<Rightarrow> writer" where
  "method_not_allowed w =
     write_body (''{\"error\":\"method not allowed\"}'' @ [CHR 0x0A])
       (write_header 405 (set_header ''Content-Type'' ''application/json'' w))"

definition respond_error :: "nat \<Rightarrow> string \<Rightarrow> writer \<Rightarrow> writer" where
  "respond_error status msg w =
     write_body (''{\"error\":\"'' @ msg @ ''\"}'' @ [CHR 0x0A]) (write_header status (set_header ''Content-Type'' ''application/json'' w))"

definition auth_handle_get :: "config \<Rightarrow> handler" where
  "auth_handle_get cf r st =
     (case st of (s, w) \<Rightarrow>
        let code = value_of (rq_query r) ''code'' in
        if code = [] then (s, render_error ''Missing code parameter.'' w)
        else if \<not> magic_peek code (cf_now cf) (cs_magic s)
        then (s, render_error ''Invalid or expired link. Send /login to get a new one.'' w)
        else (s, render_login_form code w))"

text \<open>\<open>int(ttl.Seconds())\<close> is computed in floating point; for the TTLs that magic links carry
  (whole days) it is the whole number of seconds, which \<open>go_div ttl second\<close> is. The store of
  sessions is present, because the handler is only registered when it is.\<close>

definition auth_handle_post :: "config \<Rightarrow> handler" where
  "auth_handle_post cf r st =
     (case st of (s, w) \<Rightarrow>
        let code = value_of (rq_form r) ''code'' in
        if code = [] then (s, render_error ''Missing code parameter.'' w)
        else (case magic_consume code (cf_now cf) (cs_magic s) of
                ((chatID, ttl, ok), magic') \<Rightarrow>
                  let s1 = s\<lparr>cs_magic := magic'\<rparr> in
                  if \<not> ok
                  then (s1, render_error ''Invalid or expired link. Send /login to get a new one.'' w)
                  else (case cs_sessions s of
                          None \<Rightarrow> (s1, w)
                        | Some ss \<Rightarrow>
                            (case session_issue (cf_rnd cf) chatID ttl (cf_now cf) (cf_now cf)
                                    (cf_order cf (ss_sessions ss)) ss of
                               Inl _ \<Rightarrow> (s1, render_error ''Internal error creating session.'' w)
                             | Inr (sid, ss') \<Rightarrow>
                                 (s1\<lparr>cs_sessions := Some ss'\<rparr>,
                                  write_header 303 (set_header ''Location'' ''/''
                                    (set_cookie (session_cookie sid (go_div ttl second) (cf_secure cf)) w)))))))"

definition auth_serve_http :: "config \<Rightarrow> handler" where
  "auth_serve_http cf r st =
     (if rq_method r = ''GET'' then auth_handle_get cf r st
      else if rq_method r = ''POST'' then auth_handle_post cf r st
      else (fst st, method_not_allowed (snd st)))"

text \<open>\<open>strconv.Atoi\<close> on what it accepts here: an optional sign and digits; the range test of the
  caller makes the overflow error and every large value the same.\<close>

definition is_digit :: "char \<Rightarrow> bool" where
  "is_digit c \<longleftrightarrow> 48 \<le> bval c \<and> bval c \<le> 57"

definition digits_value :: "string \<Rightarrow> int" where
  "digits_value s = foldl (\<lambda>a c. a * 10 + int (bval c - 48)) 0 s"

definition atoi :: "string \<Rightarrow> int option" where
  "atoi s =
     (let body = (if s \<noteq> [] \<and> (hd s = CHR ''+'' \<or> hd s = CHR ''-'') then tl s else s)
      in if body = [] \<or> \<not> list_all is_digit body then None
         else Some (if hd s = CHR ''-'' then - digits_value body else digits_value body))"

definition magic_link_serve_http :: "string \<Rightarrow> config \<Rightarrow> handler" where
  "magic_link_serve_http externalURL cf r st =
     (case st of (s, w) \<Rightarrow>
        if rq_method r \<noteq> ''POST'' then (s, method_not_allowed w)
        else
          let d = value_of (rq_query r) ''days'';
              days = (case atoi d of None \<Rightarrow> 7 | Some n \<Rightarrow> if 1 \<le> n \<and> n \<le> 90 then n else 7)
          in (case magic_issue (cf_rnd cf) 0 (days * 24 * hour) (cf_now cf) (cs_magic s) of
                Inl _ \<Rightarrow> (s, respond_error 500 ''failed to generate link'' w)
              | Inr (code, magic') \<Rightarrow>
                  (s\<lparr>cs_magic := magic'\<rparr>,
                   write_body (''{\"url\":\"'' @ externalURL @ ''/auth?code='' @ code @ ''\"}'' @ [CHR 0x0A])
                     (write_header 200 (set_header ''Content-Type'' ''application/json'' w)))))"

end
