(* ===== verification/Http_Chain.thy ===== *)
theory Http_Chain
  imports Http_Auth
begin

text \<open>
  The other middlewares of \<open>internal/controlcenter/middleware.go\<close> (CORS, JSON content type, CSRF,
  app isolation, security headers, rate limiter, IP ban), the socket proxies of
  \<open>tools_proxy.go\<close>, and the chain in which \<open>factory.go\<close> composes them. The router behind the chain
  is a parameter (\<open>mux\<close>). \<open>loggingMiddleware\<close> only logs and is left out of the chain.
\<close>

section \<open>The middlewares\<close>

definition strip_tools_socket_header :: "handler \<Rightarrow> handler" where
  "strip_tools_socket_header nxt r st =
     nxt (header_del ''X-Tools-Socket-App'' (header_del ''X-Tools-Socket'' r)) st"

definition slashless :: "string \<Rightarrow> string" where "slashless s = trim_right_char (CHR ''/'') s"

definition cors_allowed :: "config \<Rightarrow> request \<Rightarrow> bool" where
  "cors_allowed cf r =
     (let org = slashless (header_get r ''Origin'');
          allowedOrigin = slashless (cf_origin cf);
          p = rq_path r
      in if org \<noteq> [] \<and> allowedOrigin \<noteq> [] \<and> org = allowedOrigin then True
         else if org = ''null'' then
           (if has_prefix p ''/apps/'' \<or> has_prefix p ''/api/apps/'' \<or> has_prefix p ''/static/'' \<or>
               p = ''/api/bash'' \<or> p = ''/api/app-action''
            then (if has_prefix p ''/static/'' then True
                  else if rq_method r = ''OPTIONS'' then True
                  else if is_app_sub_resource r then True
                  else (case cf_app_key cf of
                          None \<Rightarrow> False
                        | Some key \<Rightarrow>
                            let bearer = extract_app_bearer_token (header_get r ''Authorization'') in
                            bearer \<noteq> [] \<and> app_token_validate key bearer (cf_now cf) \<noteq> None))
            else False)
         else False)"

definition cors_middleware :: "config \<Rightarrow> handler \<Rightarrow> handler" where
  "cors_middleware cf nxt r st =
     (case st of (s, w) \<Rightarrow>
        let w1 = (if cors_allowed cf r then
                    set_header ''Access-Control-Allow-Credentials'' ''true''
                    (set_header ''Access-Control-Allow-Headers'' ''Authorization, Content-Type, X-Requested-With''
                    (set_header ''Access-Control-Allow-Methods'' ''GET, POST, PUT, PATCH, DELETE, OPTIONS''
                    (set_header ''Access-Control-Allow-Origin'' (slashless (header_get r ''Origin'')) w)))
                  else w)
        in if rq_method r = ''OPTIONS'' then (s, write_header 204 w1) else nxt r (s, w1))"

definition json_middleware :: "handler \<Rightarrow> handler" where
  "json_middleware nxt r st =
     (case st of (s, w) \<Rightarrow>
        nxt r (s, if has_prefix (rq_path r) ''/api/''
                  then set_header ''Content-Type'' ''application/json'' w else w))"

definition csrf_pass :: "string \<Rightarrow> request \<Rightarrow> bool" where
  "csrf_pass allowedOrigin r =
     (if rq_method r \<noteq> ''GET'' \<and> rq_method r \<noteq> ''HEAD'' \<and> rq_method r \<noteq> ''OPTIONS'' then
        (if has_prefix (rq_path r) ''/api/'' \<and> header_get r ''X-Requested-With'' = [] then
           (if has_prefix (header_get r ''Authorization'') ''Bearer '' then True
            else allowedOrigin \<noteq> [] \<and> has_prefix (header_get r ''Referer'') allowedOrigin)
         else True)
      else True)"

definition csrf_middleware :: "string \<Rightarrow> handler \<Rightarrow> handler" where
  "csrf_middleware allowedOrigin nxt r st =
     (if csrf_pass allowedOrigin r then nxt r st
      else (fst st, http_error ''{\"error\":\"missing X-Requested-With header\"}'' 403 (snd st)))"

text \<open>\<open>validName\<close> (\<open>resource_store.go\<close>) is the expression \<open>^[a-zA-Z0-9_-]+$\<close>.\<close>

definition name_char :: "char \<Rightarrow> bool" where
  "name_char c \<longleftrightarrow> 97 \<le> bval c \<and> bval c \<le> 122 \<or> 65 \<le> bval c \<and> bval c \<le> 90 \<or>
     48 \<le> bval c \<and> bval c \<le> 57 \<or> c = CHR ''_'' \<or> c = CHR ''-''"

definition valid_name :: "string \<Rightarrow> bool" where
  "valid_name s \<longleftrightarrow> s \<noteq> [] \<and> list_all name_char s"

definition extract_app_slug_from_referer :: "request \<Rightarrow> string" where
  "extract_app_slug_from_referer r =
     (let ref = header_get r ''Referer'' in
      if ref = [] then []
      else (case str_index ref ''/apps/'' of
              None \<Rightarrow> []
            | Some idx \<Rightarrow>
                let rest0 = drop (idx + 6) ref;
                    rest = (case str_index rest0 ''/'' of
                              None \<Rightarrow> rest0
                            | Some i \<Rightarrow> if 0 < i then take i rest0 else rest0)
                in if rest = [] \<or> \<not> valid_name rest then [] else rest))"

definition isolation_pass :: "request \<Rightarrow> bool" where
  "isolation_pass r =
     (let path = rq_path r in
      if header_get r ''Referer'' = [] \<or> \<not> has_prefix path ''/api/'' then True
      else let appSlug = extract_app_slug_from_referer r in
        if appSlug = [] then True
        else if has_prefix path (''/apps/'' @ appSlug @ ''/api/'') then True
        else if path = ''/api/app-action'' then True
        else if path = ''/api/bash'' then True
        else if has_prefix path (''/api/apps/'' @ appSlug @ ''/'') then True
        else path = ''/api/events'')"

definition app_isolation_middleware :: "handler \<Rightarrow> handler" where
  "app_isolation_middleware nxt r st =
     (if isolation_pass r then nxt r st
      else (fst st, http_error ''{\"error\":\"forbidden: app isolation\"}'' 403 (snd st)))"

definition strip_forwarded :: "request \<Rightarrow> request" where
  "strip_forwarded r =
     header_del ''X-Real-Ip'' (header_del ''X-Forwarded-Proto''
       (header_del ''X-Forwarded-For'' (header_del ''X-Forwarded-Host'' r)))"

definition security_headers_middleware :: "handler \<Rightarrow> handler" where
  "security_headers_middleware nxt r st =
     (case st of (s, w) \<Rightarrow>
        let r1 = strip_forwarded r;
            apps = has_prefix (rq_path r1) ''/apps/'';
            w1 = set_header ''Referrer-Policy'' ''strict-origin-when-cross-origin''
                   (set_header ''X-Content-Type-Options'' ''nosniff''
                   (set_header ''X-Frame-Options'' (if apps then ''SAMEORIGIN'' else ''DENY'')
                   (set_header ''Strict-Transport-Security'' ''max-age=31536000; includeSubDomains'' w)));
            w2 = (if \<not> apps \<and> value_of (w_headers w1) ''Content-Security-Policy'' = []
                  then set_header ''Content-Security-Policy''
                         (''default-src '' @ quoted ''none'' @ ''; frame-ancestors '' @ quoted ''none'') w1
                  else w1)
        in nxt r1 (s, w2))"

section \<open>Rate limiter\<close>

text \<open>The settings of one \<open>rateLimiter\<close>: \<open>newRateLimiter(limit)\<close> and its \<open>with\<close> functions. Its
  counters are replaced by an empty map every minute.\<close>

record limiter =
  rl_limit :: int
  rl_auth_limit :: int
  rl_use_sessions :: bool
  rl_token :: string
  rl_extra :: "string list"
  rl_app_key :: "string option"

definition new_rate_limiter :: "int \<Rightarrow> limiter" where
  "new_rate_limiter limit =
     \<lparr>rl_limit = limit, rl_auth_limit = 0, rl_use_sessions = False, rl_token = [], rl_extra = [],
      rl_app_key = None\<rparr>"

definition with_auth_limit :: "int \<Rightarrow> limiter \<Rightarrow> limiter" where
  "with_auth_limit n rl = rl\<lparr>rl_auth_limit := n, rl_use_sessions := True\<rparr>"
definition with_token :: "string \<Rightarrow> limiter \<Rightarrow> limiter" where
  "with_token t rl = rl\<lparr>rl_token := t\<rparr>"
definition with_extra_tokens :: "string list \<Rightarrow> limiter \<Rightarrow> limiter" where
  "with_extra_tokens ts rl = rl\<lparr>rl_extra := ts\<rparr>"
definition with_app_tokens :: "string option \<Rightarrow> limiter \<Rightarrow> limiter" where
  "with_app_tokens k rl = rl\<lparr>rl_app_key := k\<rparr>"

definition limiter_exempt :: "request \<Rightarrow> bool" where
  "limiter_exempt r =
     (rq_method r = ''OPTIONS'' \<or> has_prefix (rq_path r) ''/static/'' \<or> rq_path r = ''/'' \<or>
      rq_path r = ''/health'' \<or> rq_path r = ''/favicon.ico'' \<or> is_app_sub_resource r)"

definition limiter_authenticated :: "limiter \<Rightarrow> gotime \<Rightarrow> session_store option \<Rightarrow> request \<Rightarrow> bool" where
  "limiter_authenticated rl now sessions r =
     ((case sessions of None \<Rightarrow> False
       | Some ss \<Rightarrow> (case cookie_of r ''cc_session'' of None \<Rightarrow> False | Some v \<Rightarrow> session_valid v now ss)) \<or>
      (let auth = header_get r ''Authorization'' in
       has_prefix auth ''Bearer '' \<and>
       (token_matches (rl_token rl) (rl_extra rl) (drop 7 auth) \<or>
        (case rl_app_key rl of None \<Rightarrow> False | Some key \<Rightarrow> app_token_validate key (drop 7 auth) now \<noteq> None))) \<or>
      (case cookie_of r ''cc_bearer'' of None \<Rightarrow> False
       | Some cv \<Rightarrow> token_matches (rl_token rl) (rl_extra rl) cv))"

text \<open>The counting: whether the request may go on, and the new counters.\<close>

definition limiter_step ::
  "limiter \<Rightarrow> config \<Rightarrow> session_store option \<Rightarrow> request \<Rightarrow> (string \<rightharpoonup> int) \<Rightarrow> bool \<times> (string \<rightharpoonup> int)" where
  "limiter_step rl cf sessions r counters =
     (if limiter_exempt r then (True, counters)
      else let ip = client_ip cf r;
               count = (case counters ip of None \<Rightarrow> 0 | Some n \<Rightarrow> n) + 1;
               effective = (if 0 < rl_auth_limit rl \<and>
                               limiter_authenticated rl (cf_now cf)
                                 (if rl_use_sessions rl then sessions else None) r
                            then rl_auth_limit rl else rl_limit rl)
           in (\<not> effective < count, counters(ip \<mapsto> count)))"

definition rate_limit_error :: "writer \<Rightarrow> writer" where
  "rate_limit_error w = http_error ''{\"error\":\"rate limit exceeded\"}'' 429 w"

text \<open>The middleware of the main chain and that of \<open>/auth\<close>; they differ in whose counters they use.\<close>

definition main_limiter :: "limiter \<Rightarrow> config \<Rightarrow> handler \<Rightarrow> handler" where
  "main_limiter rl cf nxt r st =
     (case st of (s, w) \<Rightarrow>
        case limiter_step rl cf (cs_sessions s) r (cs_counters s) of
          (ok, counters) \<Rightarrow>
            let s' = s\<lparr>cs_counters := counters\<rparr>
            in if ok then nxt r (s', w) else (s', rate_limit_error w))"

definition auth_limiter :: "limiter \<Rightarrow> config \<Rightarrow> handler \<Rightarrow> handler" where
  "auth_limiter rl cf nxt r st =
     (case st of (s, w) \<Rightarrow>
        case limiter_step rl cf (cs_sessions s) r (cs_auth_counters s) of
          (ok, counters) \<Rightarrow>
            let s' = s\<lparr>cs_auth_counters := counters\<rparr>
            in if ok then nxt r (s', w) else (s', rate_limit_error w))"

section \<open>IP ban\<close>

definition new_ip_ban :: "int \<Rightarrow> duration \<Rightarrow> ip_ban" where
  "new_ip_ban threshold duration =
     \<lparr>ib_failures = Map.empty, ib_banned = Map.empty,
      ib_threshold = (if threshold \<le> 0 then 10 else threshold),
      ib_duration = (if duration \<le> 0 then 15 * minute else duration)\<rparr>"

definition is_banned :: "string \<Rightarrow> gotime \<Rightarrow> ip_ban \<Rightarrow> bool \<times> ip_ban" where
  "is_banned ip now b =
     (case ib_banned b ip of
        None \<Rightarrow> (False, b)
      | Some expiry \<Rightarrow>
          if expiry < now
          then (False, b\<lparr>ib_banned := (ib_banned b)(ip := None), ib_failures := (ib_failures b)(ip := None)\<rparr>)
          else (True, b))"

definition record_failure :: "string \<Rightarrow> gotime \<Rightarrow> ip_ban \<Rightarrow> ip_ban" where
  "record_failure ip now b =
     (let n = (case ib_failures b ip of None \<Rightarrow> 0 | Some n \<Rightarrow> n) + 1;
          b' = b\<lparr>ib_failures := (ib_failures b)(ip \<mapsto> n)\<rparr>
      in if ib_threshold b \<le> n then b'\<lparr>ib_banned := (ib_banned b')(ip \<mapsto> now + ib_duration b)\<rparr> else b')"

definition record_success :: "string \<Rightarrow> ip_ban \<Rightarrow> ip_ban" where
  "record_success ip b = b\<lparr>ib_failures := (ib_failures b)(ip := None)\<rparr>"

definition ban_middleware :: "config \<Rightarrow> handler \<Rightarrow> handler" where
  "ban_middleware cf nxt r st =
     (case st of (s, w) \<Rightarrow>
        let ip = client_ip cf r in
        case is_banned ip (cf_now cf) (cs_ban s) of
          (banned, b) \<Rightarrow>
            let s1 = s\<lparr>cs_ban := b\<rparr> in
            if banned then
              (s1, http_error ''{\"error\":\"too many failed attempts, try again later\"}'' 403 w)
            else
              (case nxt r (s1, w) of
                 (s2, w2) \<Rightarrow>
                   let status = status_writer_status w w2 in
                   (if status = 400 then s2\<lparr>cs_ban := record_failure ip (cf_now cf) (cs_ban s2)\<rparr>
                    else if status = 303 then s2\<lparr>cs_ban := record_success ip (cs_ban s2)\<rparr>
                    else s2, w2)))"

section \<open>The chain\<close>

definition exempt_paths :: "string list" where
  "exempt_paths = [''/health'', ''/auth'', ''/api/vault/oauth2/callback'']"

definition main_rl :: "config \<Rightarrow> limiter" where
  "main_rl cf = with_extra_tokens (cf_extra_tokens cf) (with_app_tokens (cf_app_key cf)
     (with_token (cf_token cf) (with_auth_limit 600 (new_rate_limiter 15))))"

definition cc_handler :: "config \<Rightarrow> handler \<Rightarrow> handler" where
  "cc_handler cf mux =
     cors_middleware cf (security_headers_middleware (main_limiter (main_rl cf) cf
       (auth_middleware cf exempt_paths (csrf_middleware (cf_origin cf)
         (app_isolation_middleware (json_middleware mux))))))"

text \<open>The handler of the TCP port, and the handler of \<open>/auth\<close> that the router holds.\<close>

definition tcp_handler :: "config \<Rightarrow> handler \<Rightarrow> handler" where
  "tcp_handler cf mux = strip_tools_socket_header (cc_handler cf mux)"

definition auth_endpoint :: "config \<Rightarrow> handler" where
  "auth_endpoint cf = ban_middleware cf (auth_limiter (new_rate_limiter 5) cf (auth_serve_http cf))"

section \<open>The socket proxies\<close>

definition allowedToolsPaths :: "string list" where
  "allowedToolsPaths =
     [''/api/tasks'', ''/api/tasks/chain'', ''/api/teams'', ''/api/skills/catalog'', ''/api/tiers'',
      ''/api/config'', ''/api/logs'', ''/api/search'', ''/api/llm/invoke'', ''/api/settings/avatar'',
      ''/health'']"

definition allowedToolsPrefixes :: "string list" where
  "allowedToolsPrefixes = [''/api/apps/'', ''/api/marketplace/'', ''/api/developer/'']"

definition blockedToolsMethods :: "string \<rightharpoonup> string list" where
  "blockedToolsMethods = [''/api/config'' \<mapsto> [''PUT'', ''POST'', ''DELETE'']]"

definition appAllowedPaths :: "string list" where
  "appAllowedPaths = allowedToolsPaths @ [''/api/bash'']"

definition appAllowedPrefixes :: "string list" where "appAllowedPrefixes = [''/api/apps/'']"

definition proxy_allows :: "string list \<Rightarrow> string list \<Rightarrow> request \<Rightarrow> bool" where
  "proxy_allows paths pres r =
     (let p0 = slashless (rq_path r); path = (if p0 = [] then ''/'' else p0);
          allowed = (path \<in> set paths \<or> list_ex (\<lambda>pre. has_prefix (path @ ''/'') pre) pres)
      in allowed \<and>
         (case blockedToolsMethods path of None \<Rightarrow> True | Some ms \<Rightarrow> rq_method r \<notin> set ms))"

definition tools_proxy :: "handler \<Rightarrow> handler" where
  "tools_proxy nxt r st =
     (if proxy_allows allowedToolsPaths allowedToolsPrefixes r
      then nxt (header_set ''X-Tools-Socket'' ''1'' r) st
      else (fst st, http_error ''forbidden'' 403 (snd st)))"

definition app_tools_proxy :: "string \<Rightarrow> handler \<Rightarrow> handler" where
  "app_tools_proxy slug nxt r st =
     (if proxy_allows appAllowedPaths appAllowedPrefixes r
      then nxt (header_set ''X-Tools-Socket-App'' slug (header_set ''X-Tools-Socket'' ''1'' r)) st
      else (fst st, http_error ''forbidden'' 403 (snd st)))"

end
