(* ===== verification/Http_Security.thy ===== *)
theory Http_Security
  imports Http_Chain
begin

text \<open>
  What the chain of \<open>Http_Chain\<close> guarantees. The interface \<open>guard\<close> is what a middleware owes: it
  either hands the request on, whatever the next handler is, or answers by itself, whatever the
  next handler is; every deciding middleware of the model is an interpretation of it.
\<close>

section \<open>Guards\<close>

definition reaches :: "(handler \<Rightarrow> handler) \<Rightarrow> request \<Rightarrow> cc_state \<times> writer \<Rightarrow> bool" where
  "reaches mw r st \<longleftrightarrow> (\<exists>r' st'. \<forall>nxt. mw nxt r st = nxt r' st')"

definition blocks :: "(handler \<Rightarrow> handler) \<Rightarrow> request \<Rightarrow> cc_state \<times> writer \<Rightarrow> bool" where
  "blocks mw r st \<longleftrightarrow> (\<forall>nxt nxt'. mw nxt r st = mw nxt' r st)"

lemma reachesI: "(\<And>nxt. mw nxt r st = nxt r' st') \<Longrightarrow> reaches mw r st"
  unfolding reaches_def by blast

lemma blocksI: "(\<And>nxt. mw nxt r st = a) \<Longrightarrow> blocks mw r st"
  by (simp add: blocks_def)

lemma blocks_not_reaches: "blocks mw r st \<Longrightarrow> \<not> reaches mw r st"
proof
  assume b: "blocks mw r st" and "reaches mw r st"
  then obtain r' s w where e: "\<And>nxt. mw nxt r st = nxt r' (s, w)"
    unfolding reaches_def by (metis prod.collapse)
  have "(s, write_header 1 w) = (s, w)"
    using b e[of "\<lambda>_ _. (s, write_header 1 w)"] e[of "\<lambda>_ _. (s, w)"]
    unfolding blocks_def by metis
  then have "w_codes (write_header 1 w) = w_codes w" by simp
  then show False by simp
qed

locale guard =
  fixes mw :: "handler \<Rightarrow> handler"
    and pass :: "request \<Rightarrow> cc_state \<times> writer \<Rightarrow> bool"
  assumes hands_on: "pass r st \<Longrightarrow> reaches mw r st"
    and answers: "\<not> pass r st \<Longrightarrow> blocks mw r st"
begin

lemma reaches_iff: "reaches mw r st \<longleftrightarrow> pass r st"
  using hands_on answers blocks_not_reaches by blast

lemma blocked_answer: "\<not> pass r st \<Longrightarrow> mw nxt r st = mw nxt' r st"
  using answers unfolding blocks_def by blast

lemma blocks_behind: "\<not> pass r st \<Longrightarrow> blocks (\<lambda>nxt. mw (g nxt)) r st"
  using answers unfolding blocks_def by blast

lemma not_behind: "\<not> pass r st \<Longrightarrow> \<not> reaches (\<lambda>nxt. mw (g nxt)) r st"
  by (rule blocks_not_reaches[OF blocks_behind])

end

lemma reaches_behind:
  "(\<And>nxt. mw nxt r st = nxt r' st') \<Longrightarrow> reaches (\<lambda>nxt. mw (g nxt)) r st = reaches g r' st'"
  by (simp add: reaches_def)

interpretation cors: guard "cors_middleware cf" "\<lambda>r st. rq_method r \<noteq> ''OPTIONS''" for cf
  by unfold_locales
     (auto simp: cors_middleware_def Let_def split: prod.split intro!: reachesI blocksI)

interpretation csrf: guard "csrf_middleware org" "\<lambda>r st. csrf_pass org r" for org
  by unfold_locales (auto simp: csrf_middleware_def intro!: reachesI blocksI)

interpretation isolation: guard app_isolation_middleware "\<lambda>r st. isolation_pass r"
  by unfold_locales (auto simp: app_isolation_middleware_def intro!: reachesI blocksI)

definition limiter_pass :: "limiter \<Rightarrow> config \<Rightarrow> request \<Rightarrow> cc_state \<times> writer \<Rightarrow> bool" where
  "limiter_pass rl cf r st = fst (limiter_step rl cf (cs_sessions (fst st)) r (cs_counters (fst st)))"

lemma main_limiter_eq:
  "main_limiter rl cf nxt r (s, w) =
     (let st = limiter_step rl cf (cs_sessions s) r (cs_counters s) in
      if fst st then nxt r (s\<lparr>cs_counters := snd st\<rparr>, w)
      else (s\<lparr>cs_counters := snd st\<rparr>, rate_limit_error w))"
  by (simp add: main_limiter_def Let_def split: prod.split)

interpretation limiter: guard "main_limiter rl cf" "limiter_pass rl cf" for rl cf
proof
  fix r and st :: "cc_state \<times> writer"
  obtain s w where st: "st = (s, w)" by (cases st)
  show "limiter_pass rl cf r st \<Longrightarrow> reaches (main_limiter rl cf) r st"
    unfolding st by (rule reachesI) (simp add: main_limiter_eq limiter_pass_def Let_def)
  show "\<not> limiter_pass rl cf r st \<Longrightarrow> blocks (main_limiter rl cf) r st"
    unfolding st by (rule blocksI) (simp add: main_limiter_eq limiter_pass_def Let_def)
qed

section \<open>Who gets in\<close>

text \<open>The credentials of the documentation: a Bearer token or a \<open>cc_bearer\<close> cookie that is the
  configured token or one of the extra ones, or a cookie of a live session; and an app token for
  the app's own routes.\<close>

definition has_credential :: "config \<Rightarrow> session_store option \<Rightarrow> request \<Rightarrow> bool" where
  "has_credential cf sessions r \<longleftrightarrow>
     (\<exists>t. t \<noteq> [] \<and> t \<in> set (cf_token cf # cf_extra_tokens cf) \<and>
          (header_get r ''Authorization'' = ''Bearer '' @ t \<or> cookie_of r ''cc_bearer'' = Some t)) \<or>
     (\<exists>ss sid. sessions = Some ss \<and> cookie_of r ''cc_session'' = Some sid \<and>
               session_valid sid (cf_now cf) ss)"

definition on_route :: "string \<Rightarrow> string \<Rightarrow> bool" where
  "on_route path route \<longleftrightarrow> path = route \<or> has_prefix path (route @ ''/'')"

definition app_token_grants :: "config \<Rightarrow> request \<Rightarrow> bool" where
  "app_token_grants cf r \<longleftrightarrow>
     (\<exists>key tok slug. cf_app_key cf = Some key \<and> header_get r ''Authorization'' = ''Bearer '' @ tok \<and>
        app_token_validate key tok (cf_now cf) = Some slug \<and>
        (CHR ''/'' \<notin> set slug \<and>
          (on_route (rq_path r) (''/apps/'' @ slug) \<or> on_route (rq_path r) (''/api/apps/'' @ slug)) \<or>
         rq_path r \<in> {''/api/bash'', ''/api/app-action''}))"

lemma token_matches_iff:
  "token_matches token extra v \<longleftrightarrow> v \<noteq> [] \<and> v \<in> set (token # extra)"
  by (auto simp: token_matches_def list_ex_iff)

lemma bearer_iff: "has_prefix a ''Bearer '' \<and> P (drop 7 a) \<longleftrightarrow> (\<exists>t. a = ''Bearer '' @ t \<and> P t)"
proof
  assume a: "has_prefix a ''Bearer '' \<and> P (drop 7 a)"
  then obtain t where "a = ''Bearer '' @ t" using has_prefixD by blast
  then show "\<exists>t. a = ''Bearer '' @ t \<and> P t" using a by auto
qed auto

lemma check_valid: "fst (fst (session_check sid now ss)) = session_valid sid now ss"
  by (auto simp: session_check_def session_valid_def split: option.split)

lemma check_request_auth_iff:
  "fst (fst (check_request_auth r (cf_token cf) (cf_extra_tokens cf) (cf_now cf) sessions)) \<noteq> AuthNone
   \<longleftrightarrow> has_credential cf sessions r"
proof -
  let ?a = "header_get r ''Authorization''"
  let ?m = "token_matches (cf_token cf) (cf_extra_tokens cf)"
  have h: "has_prefix ?a ''Bearer '' \<and> ?m (drop 7 ?a) \<longleftrightarrow>
      (\<exists>t. t \<noteq> [] \<and> t \<in> set (cf_token cf # cf_extra_tokens cf) \<and> ?a = ''Bearer '' @ t)"
    using bearer_iff[of ?a ?m] unfolding token_matches_iff by blast
  have c: "(case cookie_of r ''cc_bearer'' of None \<Rightarrow> False | Some cv \<Rightarrow> ?m cv) \<longleftrightarrow>
      (\<exists>t. t \<noteq> [] \<and> t \<in> set (cf_token cf # cf_extra_tokens cf) \<and> cookie_of r ''cc_bearer'' = Some t)"
    unfolding token_matches_iff by (auto split: option.split)
  have v: "fst (fst (case session_check cv (cf_now cf) ss of ((valid, renewed, ttl), ss') \<Rightarrow>
         if valid then (if renewed then ((AuthSession, Some \<lparr>sr_id = cv, sr_ttl = ttl\<rparr>), Some ss')
                        else ((AuthSession, None), Some ss'))
         else ((AuthNone, None), Some ss'))) \<noteq> AuthNone \<longleftrightarrow> session_valid cv (cf_now cf) ss" for cv ss
    using check_valid[of cv "cf_now cf" ss] by (auto split: prod.splits)
  show ?thesis
    unfolding check_request_auth_def Let_def has_credential_def
    using h c v by (auto split: option.splits)
qed

lemma first_segment:
  "(case index_byte s (CHR ''/'') of None \<Rightarrow> s | Some i \<Rightarrow> take i s) = slug \<longleftrightarrow>
   CHR ''/'' \<notin> set slug \<and> on_route s slug"
proof (cases "index_byte s (CHR ''/'')")
  case None
  then have "CHR ''/'' \<notin> set s" by (auto simp: index_byte_def find_index_None)
  then show ?thesis using None by (auto simp: on_route_def dest!: has_prefixD)
next
  case (Some i)
  then have i: "i < length s" "s ! i = CHR ''/''" "\<And>j. j < i \<Longrightarrow> s ! j \<noteq> CHR ''/''"
    by (auto simp: index_byte_def find_index_Some)
  have s: "s = take i s @ CHR ''/'' # drop (Suc i) s"
    using i(1,2) by (metis id_take_nth_drop)
  have n: "CHR ''/'' \<notin> set (take i s)" using i(1,3) by (auto simp: in_set_conv_nth)
  have "take i s = slug" if a: "CHR ''/'' \<notin> set slug" "on_route s slug"
  proof -
    have "s \<noteq> slug" using a(1) i(1,2) nth_mem by metis
    then obtain t where t: "s = slug @ CHR ''/'' # t"
      using a(2) unfolding on_route_def by (auto dest!: has_prefixD)
    have "i = length slug"
    proof (rule linorder_cases[of i "length slug"])
      assume "i < length slug"
      then show ?thesis using i(2) t a(1) by (simp add: nth_append) (metis nth_mem)
    next
      assume "length slug < i"
      then show ?thesis using i(3)[of "length slug"] t by simp
    qed
    then show ?thesis using t by simp
  qed
  moreover have "on_route s (take i s)"
  proof -
    have "s = (take i s @ ''/'') @ drop (Suc i) s" using s by simp
    then have "has_prefix s (take i s @ ''/'')" using has_prefix_append by metis
    then show ?thesis by (simp add: on_route_def)
  qed
  ultimately show ?thesis using Some n by auto
qed

lemma trim_prefix_route:
  "has_prefix path pre \<Longrightarrow> on_route (trim_prefix path pre) slug \<longleftrightarrow> on_route path (pre @ slug)"
  by (auto simp: on_route_def trim_prefix_def has_prefix_def prefix_def)

lemma on_route_prefix: "on_route path (pre @ slug) \<Longrightarrow> has_prefix path pre"
  by (auto simp: on_route_def has_prefix_def prefix_def)

lemma app_prefixes_disjoint: "has_prefix p ''/apps/'' \<Longrightarrow> \<not> has_prefix p ''/api/apps/''"
  by (auto dest!: has_prefixD)

lemma route_slug_iff:
  "(has_prefix p ''/apps/'' \<or> has_prefix p ''/api/apps/'') \<and> route_slug p = slug \<longleftrightarrow>
   CHR ''/'' \<notin> set slug \<and> (on_route p (''/apps/'' @ slug) \<or> on_route p (''/api/apps/'' @ slug))"
  unfolding route_slug_def Let_def first_segment
  using trim_prefix_route[of p "''/apps/''" slug] trim_prefix_route[of p "''/api/apps/''" slug]
    on_route_prefix[of p "''/apps/''" slug] on_route_prefix[of p "''/api/apps/''" slug]
    app_prefixes_disjoint[of p]
  by (cases "has_prefix p ''/apps/''") (auto simp del: has_prefix_code)

lemma app_token_pass_cases:
  assumes "app_token_pass cf r = Some r'"
  shows "r' = r \<or> (\<exists>x. r' = r\<lparr>rq_app_slug := Some x\<rparr>)"
proof -
  obtain key slug where "cf_app_key cf = Some key"
    "app_token_validate key (extract_app_bearer_token (header_get r ''Authorization'')) (cf_now cf) = Some slug"
    using assms unfolding app_token_pass_def Let_def by (simp split: option.splits if_split_asm)
  then show ?thesis using assms unfolding app_token_pass_def Let_def
    by (simp split: if_split_asm) blast+
qed

lemma app_token_pass_iff: "app_token_pass cf r \<noteq> None \<longleftrightarrow> app_token_grants cf r"
proof -
  let ?a = "header_get r ''Authorization''"
  define R where "R slug \<longleftrightarrow> (has_prefix (rq_path r) ''/apps/'' \<or> has_prefix (rq_path r) ''/api/apps/'') \<and>
    route_slug (rq_path r) = slug \<or> rq_path r \<in> {''/api/bash'', ''/api/app-action''}" for slug
  have short: "app_token_validate key [] now = None" for key now
    by (simp add: app_token_validate_def b64_decode_def)
  have bearer: "extract_app_bearer_token ?a \<noteq> [] \<and>
      app_token_validate key (extract_app_bearer_token ?a) now = Some slug \<longleftrightarrow>
      (\<exists>tok. ?a = ''Bearer '' @ tok \<and> app_token_validate key tok now = Some slug)" for key now slug
    using short[of key now] bearer_iff[of ?a "\<lambda>t. app_token_validate key t now = Some slug"]
    by (auto simp: extract_app_bearer_token_def split: if_splits)
  have R: "R slug \<longleftrightarrow> CHR ''/'' \<notin> set slug \<and>
      (on_route (rq_path r) (''/apps/'' @ slug) \<or> on_route (rq_path r) (''/api/apps/'' @ slug)) \<or>
      rq_path r \<in> {''/api/bash'', ''/api/app-action''}" for slug
    unfolding R_def route_slug_iff ..
  show ?thesis
  proof (cases "cf_app_key cf")
    case (Some key)
    let ?b = "extract_app_bearer_token ?a"
    have "app_token_pass cf r \<noteq> None \<longleftrightarrow>
        (\<exists>slug. (?b \<noteq> [] \<and> app_token_validate key ?b (cf_now cf) = Some slug) \<and> R slug)"
      unfolding app_token_pass_def Let_def R_def using Some by (simp split: option.split)
    then have "app_token_pass cf r \<noteq> None \<longleftrightarrow>
        (\<exists>tok slug. ?a = ''Bearer '' @ tok \<and> app_token_validate key tok (cf_now cf) = Some slug \<and> R slug)"
      unfolding bearer by blast
    then show ?thesis using Some unfolding app_token_grants_def R by (metis option.inject)
  qed (simp add: app_token_pass_def app_token_grants_def)
qed

definition auth_pass :: "config \<Rightarrow> string list \<Rightarrow> request \<Rightarrow> cc_state \<times> writer \<Rightarrow> bool" where
  "auth_pass cf exempt r st \<longleftrightarrow>
     auth_exempt exempt r \<or> header_get r ''X-Tools-Socket'' = ''1'' \<or>
     has_credential cf (cs_sessions (fst st)) r \<or> app_token_grants cf r"

lemma auth_hands_on:
  assumes "auth_pass cf exempt r (s, w)"
  obtains slug s' w' where "\<And>nxt. auth_middleware cf exempt nxt r (s, w) = nxt (r\<lparr>rq_app_slug := slug\<rparr>) (s', w')"
proof -
  have same: "r\<lparr>rq_app_slug := rq_app_slug r\<rparr> = r" by simp
  obtain result renewal sess where c:
    "check_request_auth r (cf_token cf) (cf_extra_tokens cf) (cf_now cf) (cs_sessions s) = ((result, renewal), sess)"
    by (metis surj_pair)
  have cred: "result \<noteq> AuthNone \<longleftrightarrow> has_credential cf (cs_sessions s) r"
    using check_request_auth_iff[of r cf "cs_sessions s"] c by simp
  have grant: "\<exists>slug. app_token_pass cf r = Some (r\<lparr>rq_app_slug := slug\<rparr>)" if g: "app_token_grants cf r"
  proof -
    obtain r' where "app_token_pass cf r = Some r'"
      using g app_token_pass_iff[of cf r] by (cases "app_token_pass cf r") simp_all
    moreover have "r' = r\<lparr>rq_app_slug := rq_app_slug r\<rparr> \<or> (\<exists>x. r' = r\<lparr>rq_app_slug := Some x\<rparr>)"
      using app_token_pass_cases[OF calculation] same by (simp only:)
    ultimately show ?thesis by blast
  qed
  have "\<exists>slug s' w'. \<forall>nxt. auth_middleware cf exempt nxt r (s, w) = nxt (r\<lparr>rq_app_slug := slug\<rparr>) (s', w')"
  proof (cases "auth_exempt exempt r \<or> header_get r ''X-Tools-Socket'' = ''1''")
    case True
    define slug where "slug = (if auth_exempt exempt r \<or> header_get r ''X-Tools-Socket-App'' = []
      then rq_app_slug r else Some (header_get r ''X-Tools-Socket-App''))"
    have "auth_middleware cf exempt nxt r (s, w) = nxt (r\<lparr>rq_app_slug := slug\<rparr>) (s, w)" for nxt
      using True by (cases "auth_exempt exempt r") (simp_all add: auth_middleware_def Let_def slug_def)
    then show ?thesis by blast
  next
    case ne: False
    show ?thesis
    proof (cases "result = AuthNone")
      case True
      then obtain slug where "app_token_pass cf r = Some (r\<lparr>rq_app_slug := slug\<rparr>)"
        using assms ne cred grant by (auto simp: auth_pass_def)
      then show ?thesis using True ne c by (auto simp: auth_middleware_def)
    next
      case False
      obtain sess' w' where a: "auto_issue_session cf r sess w = (sess', w')" by (metis surj_pair)
      define st' where "st' = (if result = AuthBearer then (s\<lparr>cs_sessions := sess'\<rparr>, w')
        else (s\<lparr>cs_sessions := sess\<rparr>,
              case renewal of None \<Rightarrow> w | Some rn \<Rightarrow> refresh_session_cookie r rn w))"
      have "auth_middleware cf exempt nxt r (s, w) = nxt (r\<lparr>rq_app_slug := rq_app_slug r\<rparr>) (fst st', snd st')" for nxt
        using False ne c a by (simp add: auth_middleware_def st'_def split: option.split)
      then show ?thesis by blast
    qed
  qed
  then show thesis using that by blast
qed

lemma auth_answers:
  assumes "\<not> auth_pass cf exempt r (s, w)"
  obtains s' where "\<And>nxt. auth_middleware cf exempt nxt r (s, w) = (s', auth_reject r w)"
proof -
  obtain result renewal sess where c:
    "check_request_auth r (cf_token cf) (cf_extra_tokens cf) (cf_now cf) (cs_sessions s) = ((result, renewal), sess)"
    by (metis surj_pair)
  have "result = AuthNone"
    using check_request_auth_iff[of r cf "cs_sessions s"] c assms by (auto simp: auth_pass_def)
  moreover have "app_token_pass cf r = None"
    using app_token_pass_iff[of cf r] assms by (auto simp: auth_pass_def)
  ultimately have "auth_middleware cf exempt nxt r (s, w) = (s\<lparr>cs_sessions := sess\<rparr>, auth_reject r w)" for nxt
    using assms c by (auto simp: auth_middleware_def auth_pass_def)
  then show thesis using that by blast
qed

interpretation auth: guard "auth_middleware cf exempt" "auth_pass cf exempt" for cf exempt
proof
  fix r and st :: "cc_state \<times> writer"
  obtain s w where st: "st = (s, w)" by (cases st)
  show "auth_pass cf exempt r st \<Longrightarrow> reaches (auth_middleware cf exempt) r st"
    unfolding st by (erule auth_hands_on) (rule reachesI)
  show "\<not> auth_pass cf exempt r st \<Longrightarrow> blocks (auth_middleware cf exempt) r st"
    unfolding st by (erule auth_answers) (rule blocksI)
qed

section \<open>The chain of the TCP port\<close>

text \<open>The request that the rate limiter and everything behind it sees.\<close>

definition tcp_request :: "request \<Rightarrow> request" where
  "tcp_request r =
     strip_forwarded (header_del ''X-Tools-Socket-App'' (header_del ''X-Tools-Socket'' r))"

definition stripped_headers :: "string list" where
  "stripped_headers = [''X-Tools-Socket'', ''X-Tools-Socket-App'', ''X-Forwarded-Host'',
     ''X-Forwarded-For'', ''X-Forwarded-Proto'', ''X-Real-Ip'']"

lemma tcp_request_sel [simp]:
  "rq_method (tcp_request r) = rq_method r" "rq_path (tcp_request r) = rq_path r"
  "rq_cookies (tcp_request r) = rq_cookies r" "rq_remote (tcp_request r) = rq_remote r"
  "cookie_of (tcp_request r) = cookie_of r"
  by (simp_all add: tcp_request_def strip_forwarded_def)

lemma tcp_request_header [simp]:
  "header_get (tcp_request r) n = (if n \<in> set stripped_headers then [] else header_get r n)"
  by (auto simp: tcp_request_def strip_forwarded_def stripped_headers_def)

lemma same_headers_sub_resource:
  assumes "rq_method r' = rq_method r" "rq_path r' = rq_path r"
    and "\<And>n. n \<in> set [''Sec-Fetch-Dest'', ''Sec-Fetch-Site'', ''Origin'', ''Referer''] \<Longrightarrow>
      header_get r' n = header_get r n"
  shows "is_app_sub_resource r' = is_app_sub_resource r"
proof -
  have "header_get r' ''Sec-Fetch-Dest'' = header_get r ''Sec-Fetch-Dest''"
    "header_get r' ''Sec-Fetch-Site'' = header_get r ''Sec-Fetch-Site''"
    "header_get r' ''Origin'' = header_get r ''Origin''"
    "header_get r' ''Referer'' = header_get r ''Referer''" using assms(3) by simp_all
  then show ?thesis unfolding is_app_sub_resource_def assms(1,2) by simp
qed

lemma tcp_request_preserves [simp]:
  "is_app_sub_resource (tcp_request r) = is_app_sub_resource r"
  "auth_exempt exempt (tcp_request r) = auth_exempt exempt r"
  "has_credential cf sess (tcp_request r) = has_credential cf sess r"
  "app_token_grants cf (tcp_request r) = app_token_grants cf r"
  "csrf_pass org (tcp_request r) = csrf_pass org r"
  "isolation_pass (tcp_request r) = isolation_pass r"
proof -
  show sub: "is_app_sub_resource (tcp_request r) = is_app_sub_resource r"
    by (rule same_headers_sub_resource) (auto simp: stripped_headers_def)
  show "auth_exempt exempt (tcp_request r) = auth_exempt exempt r"
    by (simp add: auth_exempt_def sub)
  show "has_credential cf sess (tcp_request r) = has_credential cf sess r"
    by (simp add: has_credential_def stripped_headers_def)
  show "app_token_grants cf (tcp_request r) = app_token_grants cf r"
    by (simp add: app_token_grants_def stripped_headers_def)
  show "csrf_pass org (tcp_request r) = csrf_pass org r"
    by (simp add: csrf_pass_def stripped_headers_def)
  show "isolation_pass (tcp_request r) = isolation_pass r"
    by (simp add: isolation_pass_def extract_app_slug_from_referer_def stripped_headers_def Let_def)
qed

lemma app_slug_irrelevant [simp]:
  "csrf_pass org (r\<lparr>rq_app_slug := x\<rparr>) = csrf_pass org r"
  "isolation_pass (r\<lparr>rq_app_slug := x\<rparr>) = isolation_pass r"
  by (simp_all add: csrf_pass_def isolation_pass_def extract_app_slug_from_referer_def header_get_def)

lemma json_reaches: "reaches json_middleware r st"
  by (cases st) (rule reachesI, simp add: json_middleware_def)

lemma inner_reaches:
  "reaches (\<lambda>mux. csrf_middleware org (app_isolation_middleware (json_middleware mux))) r st \<longleftrightarrow>
   csrf_pass org r \<and> isolation_pass r"
proof (cases "csrf_pass org r")
  case True
  have "reaches (\<lambda>mux. csrf_middleware org (app_isolation_middleware (json_middleware mux))) r st =
      reaches (\<lambda>mux. app_isolation_middleware (json_middleware mux)) r st"
    by (rule reaches_behind) (simp add: csrf_middleware_def True)
  also have "\<dots> = isolation_pass r"
  proof (cases "isolation_pass r")
    case True
    have "reaches (\<lambda>mux. app_isolation_middleware (json_middleware mux)) r st = reaches json_middleware r st"
      by (rule reaches_behind) (simp add: app_isolation_middleware_def True)
    then show ?thesis using True json_reaches by simp
  next
    case False
    then show ?thesis by (simp add: isolation.not_behind)
  qed
  finally show ?thesis using True by simp
next
  case False
  then show ?thesis by (simp add: csrf.not_behind)
qed

lemma auth_reaches:
  "reaches (\<lambda>mux. auth_middleware cf exempt (csrf_middleware org
      (app_isolation_middleware (json_middleware mux)))) r (s, w) \<longleftrightarrow>
   auth_pass cf exempt r (s, w) \<and> csrf_pass org r \<and> isolation_pass r"
proof (cases "auth_pass cf exempt r (s, w)")
  case True
  then obtain x s' w' where
    e: "\<And>nxt. auth_middleware cf exempt nxt r (s, w) = nxt (r\<lparr>rq_app_slug := x\<rparr>) (s', w')"
    using auth_hands_on by blast
  show ?thesis unfolding reaches_behind[where mw = "auth_middleware cf exempt", OF e]
    using True by (simp add: inner_reaches)
next
  case False
  then show ?thesis by (simp add: auth.not_behind)
qed

lemma tcp_handler_unfold:
  assumes "rq_method r \<noteq> ''OPTIONS''"
  obtains w' where "w_codes w' = w_codes w" "w_cookies w' = w_cookies w"
    "\<And>mux. tcp_handler cf mux r (s, w) = main_limiter (main_rl cf) cf (auth_middleware cf exempt_paths
       (csrf_middleware (cf_origin cf) (app_isolation_middleware (json_middleware mux)))) (tcp_request r) (s, w')"
proof -
  let ?r = "header_del ''X-Tools-Socket-App'' (header_del ''X-Tools-Socket'' r)"
  define w1 where "w1 = snd (cors_middleware cf (\<lambda>_ st. st) ?r (s, w))"
  define w2 where "w2 = snd (security_headers_middleware (\<lambda>_ st. st) ?r (s, w1))"
  have "w_codes w1 = w_codes w" "w_cookies w1 = w_cookies w"
    and c: "\<And>nxt. cors_middleware cf nxt ?r (s, w) = nxt ?r (s, w1)"
    using assms by (simp_all add: cors_middleware_def w1_def)
  moreover have "w_codes w2 = w_codes w1" "w_cookies w2 = w_cookies w1"
    and "\<And>nxt. security_headers_middleware nxt ?r (s, w1) = nxt (strip_forwarded ?r) (s, w2)"
    by (simp_all add: security_headers_middleware_def Let_def w2_def)
  ultimately show thesis
    by (intro that[of w2]) (simp_all add: tcp_handler_def strip_tools_socket_header_def
        cc_handler_def tcp_request_def)
qed


end
