(* ===== verification/Http_Properties.thy ===== *)
theory Http_Properties
  imports Http_Security
begin

text \<open>
  Properties of the HTTP layer beyond admission: forged proxy headers have no effect, the rate
  limits and the IP ban count what they should, the magic-link login gives a session exactly once,
  and what the CSRF and isolation checks let through.
\<close>

section \<open>Forged headers\<close>

lemma header_del_set [simp]:
  "header_del n (header_set n v r) = header_del n r"
  "m \<noteq> n \<Longrightarrow> header_del m (header_set n v r) = header_set n v (header_del m r)"
  by (simp_all add: header_del_def header_set_def fun_upd_twist)

lemma strip_forwarded_set:
  "n \<in> set [''X-Forwarded-For'', ''X-Real-Ip'', ''X-Forwarded-Proto'', ''X-Forwarded-Host''] \<Longrightarrow>
   strip_forwarded (header_set n v r) = strip_forwarded r"
  by (auto simp: strip_forwarded_def)

lemma cc_handler_forwarded:
  assumes n: "n \<in> set [''X-Forwarded-For'', ''X-Real-Ip'', ''X-Forwarded-Proto'', ''X-Forwarded-Host'']"
  shows "cc_handler cf mux (header_set n v r) st = cc_handler cf mux r st"
proof -
  have sub: "is_app_sub_resource (header_set n v r) = is_app_sub_resource r"
    by (rule same_headers_sub_resource) (use n in auto)
  have h: "header_get (header_set n v r) ''Origin'' = header_get r ''Origin''"
    "header_get (header_set n v r) ''Authorization'' = header_get r ''Authorization''" using n by auto
  have "cors_allowed cf (header_set n v r) = cors_allowed cf r"
    unfolding cors_allowed_def sub h header_set_sel ..
  moreover note h(1)
  moreover have "has_prefix (rq_path (strip_forwarded (header_set n v r))) p =
      has_prefix (rq_path (strip_forwarded r)) p" for p
    using strip_forwarded_set[OF n] by simp
  ultimately show ?thesis
    by (simp add: cc_handler_def cors_middleware_def security_headers_middleware_def
        strip_forwarded_set[OF n] split: prod.split)
qed

text \<open>Proxy headers and the socket marker cannot be forged over TCP: whatever value a client
  gives them, the server answers and changes its state exactly as without them, so they affect
  neither the address that is rate-limited nor authentication.\<close>

theorem forged_headers_have_no_effect:
  "tcp_handler cf mux (header_set ''X-Tools-Socket'' v r) st = tcp_handler cf mux r st \<and>
   tcp_handler cf mux (header_set ''X-Tools-Socket-App'' v r) st = tcp_handler cf mux r st \<and>
   tcp_handler cf mux (header_set ''X-Forwarded-For'' v r) st = tcp_handler cf mux r st \<and>
   tcp_handler cf mux (header_set ''X-Real-Ip'' v r) st = tcp_handler cf mux r st \<and>
   tcp_handler cf mux (header_set ''X-Forwarded-Proto'' v r) st = tcp_handler cf mux r st \<and>
   tcp_handler cf mux (header_set ''X-Forwarded-Host'' v r) st = tcp_handler cf mux r st"
  by (simp add: tcp_handler_def strip_tools_socket_header_def cc_handler_forwarded)

section \<open>Rate limit\<close>

text \<open>The requests of one minute in their order, each with the settings and sessions at its time;
  the result says for each whether the limiter of the main chain lets it pass.\<close>

type_synonym arrival = "config \<times> session_store option \<times> request"

fun limiter_run :: "arrival list \<Rightarrow> (string \<rightharpoonup> int) \<Rightarrow> bool list" where
  "limiter_run [] counters = []"
| "limiter_run ((cf, sess, r) # xs) counters =
     (case limiter_step (main_rl cf) cf sess r counters of
        (ok, counters') \<Rightarrow> ok # limiter_run xs counters')"

definition counted_from :: "string \<Rightarrow> arrival \<Rightarrow> bool" where
  "counted_from ip = (\<lambda>(cf, sess, r). \<not> limiter_exempt r \<and> client_ip cf r = ip)"

definition arrival_limit :: "arrival \<Rightarrow> nat" where
  "arrival_limit = (\<lambda>(cf, sess, r). if limiter_authenticated (main_rl cf) (cf_now cf) sess r then 600 else 15)"

definition arrival_passes :: "arrival list \<Rightarrow> arrival \<Rightarrow> bool" where
  "arrival_passes before a = (case a of (cf, sess, r) \<Rightarrow>
     limiter_exempt r \<or> length (filter (counted_from (client_ip cf r)) before) < arrival_limit a)"

definition counters_for :: "arrival list \<Rightarrow> string \<rightharpoonup> int" where
  "counters_for before = (\<lambda>ip. let n = length (filter (counted_from ip) before) in
     if n = 0 then None else Some (int n))"

lemma main_rl_sel [simp]:
  "rl_limit (main_rl cf) = 15" "rl_auth_limit (main_rl cf) = 600" "rl_use_sessions (main_rl cf)"
  by (simp_all add: main_rl_def with_extra_tokens_def with_app_tokens_def with_token_def
      with_auth_limit_def new_rate_limiter_def)

lemma limiter_step_counts:
  "limiter_step (main_rl cf) cf sess r (counters_for before) =
   (arrival_passes before (cf, sess, r), counters_for (before @ [(cf, sess, r)]))"
proof (cases "limiter_exempt r")
  case True
  then show ?thesis by (simp add: limiter_step_def arrival_passes_def counters_for_def counted_from_def)
next
  case False
  let ?ip = "client_ip cf r"
  have c: "(case counters_for before ?ip of None \<Rightarrow> 0 | Some n \<Rightarrow> n) =
      int (length (filter (counted_from ?ip) before))"
    by (simp add: counters_for_def Let_def)
  have "counters_for (before @ [(cf, sess, r)]) =
      (counters_for before)(?ip \<mapsto> int (length (filter (counted_from ?ip) before)) + 1)"
    using False by (auto simp: counters_for_def counted_from_def Let_def)
  then show ?thesis using False c
    by (auto simp: limiter_step_def arrival_passes_def arrival_limit_def Let_def)
qed

lemma limiter_run_counts:
  "limiter_run xs (counters_for before) =
   map (\<lambda>i. arrival_passes (before @ take i xs) (xs ! i)) [0..<length xs]"
proof (induction xs arbitrary: before)
  case (Cons a xs)
  obtain cf sess r where a: "a = (cf, sess, r)" by (cases a)
  have "map (\<lambda>i. arrival_passes (before @ take i (a # xs)) ((a # xs) ! i)) [0..<length (a # xs)] =
      arrival_passes before a # map (\<lambda>i. arrival_passes (before @ a # take i xs) (xs ! i)) [0..<length xs]"
    by (simp add: upt_conv_Cons map_Suc_upt[symmetric] comp_def del: upt_Suc)
  then show ?case using Cons.IH[of "before @ [a]"] a by (simp add: limiter_step_counts)
qed simp

text \<open>The rate limiter is exact: among the requests between two resets, a counted request passes
  exactly when fewer than 15 counted requests of its address came before it, 600 when it is
  authenticated; a request for a static asset, the login page or a health check always passes.\<close>

theorem rate_limit_exact:
  "limiter_run xs Map.empty = map (\<lambda>i. arrival_passes (take i xs) (xs ! i)) [0..<length xs]"
proof -
  have "counters_for [] = Map.empty" by (simp add: counters_for_def)
  then show ?thesis using limiter_run_counts[of xs "[]"] by simp
qed

section \<open>IP ban\<close>

text \<open>An attacker at one address who posts wrong codes at the times \<open>ts\<close>: the handler behind the ban
  answers each with 400. The result is the status of each response.\<close>

definition wrong_code :: handler where
  "wrong_code r st = (fst st, render_error ''Invalid or expired link. Send /login to get a new one.'' (snd st))"

fun ban_run :: "config \<Rightarrow> request \<Rightarrow> gotime list \<Rightarrow> cc_state \<Rightarrow> nat list" where
  "ban_run cf r [] s = []"
| "ban_run cf r (t # ts) s =
     (case ban_middleware (cf\<lparr>cf_now := t\<rparr>) wrong_code r (s, new_writer) of
        (s', w') \<Rightarrow> status_of w' # ban_run cf r ts s')"

lemma client_ip_now [simp]: "client_ip (cf\<lparr>cf_now := t\<rparr>) r = client_ip cf r"
  by (simp add: client_ip_def Let_def cong: if_cong)

lemma ban_run_banned:
  assumes "ib_banned (cs_ban s) (client_ip cf r) = Some e" and "\<forall>t \<in> set ts. t \<le> e"
  shows "ban_run cf r ts s = replicate (length ts) 403"
  using assms
proof (induction ts)
  case (Cons t ts)
  then have "is_banned (client_ip cf r) t (cs_ban s) = (True, cs_ban s)" by (simp add: is_banned_def)
  then show ?case using Cons by (simp add: ban_middleware_def status_of_def)
qed simp

lemma ban_run_count:
  assumes "ib_banned (cs_ban s) (client_ip cf r) = None"
    and "(case ib_failures (cs_ban s) (client_ip cf r) of None \<Rightarrow> 0 | Some n \<Rightarrow> n) = int k"
    and "ib_threshold (cs_ban s) = int k + int n" and "0 < n"
    and "\<forall>t \<in> set ts. \<forall>u \<in> set ts. u \<le> t + ib_duration (cs_ban s)"
  shows "ban_run cf r ts s = replicate (min (length ts) n) 400 @ replicate (length ts - n) 403"
  using assms
proof (induction ts arbitrary: s k n)
  case (Cons t ts)
  let ?ip = "client_ip cf r"
  let ?b = "record_failure ?ip t (cs_ban s)"
  let ?s = "s\<lparr>cs_ban := ?b\<rparr>"
  have step: "ban_run cf r (t # ts) s = 400 # ban_run cf r ts ?s"
    using Cons.prems(1) by (simp add: ban_middleware_def is_banned_def wrong_code_def render_error_def
        status_writer_status_def status_of_def Let_def)
  have fields: "ib_threshold ?b = ib_threshold (cs_ban s)" "ib_duration ?b = ib_duration (cs_ban s)"
    "ib_failures ?b ?ip = Some (int k + 1)"
    using Cons.prems(2) by (simp_all add: record_failure_def Let_def)
  show ?case
  proof (cases "n = 1")
    case True
    then have "ib_banned ?b ?ip = Some (t + ib_duration (cs_ban s))"
      using Cons.prems(2,3) by (simp add: record_failure_def Let_def)
    then have "ban_run cf r ts ?s = replicate (length ts) 403"
      using Cons.prems(5) by (intro ban_run_banned[of ?s cf r "t + ib_duration (cs_ban s)"]) auto
    then show ?thesis using step True by simp
  next
    case False
    then have "ib_banned ?b ?ip = None"
      using Cons.prems by (simp add: record_failure_def Let_def)
    moreover have "ib_threshold ?b = int (Suc k) + int (n - 1)" "0 < n - 1"
      using fields Cons.prems(3,4) False by simp_all
    ultimately have "ban_run cf r ts ?s =
        replicate (min (length ts) (n - 1)) 400 @ replicate (length ts - (n - 1)) 403"
      using Cons.prems(5) fields by (intro Cons.IH[of ?s "Suc k"]) auto
    then show ?thesis using step Cons.prems(4) by (cases n) auto
  qed
qed simp

text \<open>Guessing login codes is bounded: from a fresh start, an address that only posts wrong codes
  has exactly \<open>threshold\<close> of them looked at (10 when not configured); every further attempt within
  the ban time is refused unseen with 403.\<close>

theorem ban_after_threshold:
  assumes "cs_ban s = new_ip_ban threshold dur"
    and "\<forall>t \<in> set ts. \<forall>u \<in> set ts. u \<le> t + (if dur \<le> 0 then 15 * minute else dur)"
  shows "ban_run cf r ts s =
    (let n = nat (if threshold \<le> 0 then 10 else threshold)
     in replicate (min (length ts) n) 400 @ replicate (length ts - n) 403)"
  unfolding Let_def using assms
  by (intro ban_run_count[of s cf r 0]) (simp_all add: new_ip_ban_def)

theorem ban_after_threshold_witness:
  "\<forall>cf r. ban_run cf r [1, 2, 3, 4] \<lparr>cs_sessions = None, cs_magic = Map.empty, cs_counters = Map.empty,
      cs_auth_counters = Map.empty, cs_ban = new_ip_ban 3 10\<rparr> = [400, 400, 400, 403]"
proof (intro allI)
  fix cf r
  let ?s = "\<lparr>cs_sessions = None, cs_magic = Map.empty, cs_counters = Map.empty,
      cs_auth_counters = Map.empty, cs_ban = new_ip_ban 3 10\<rparr>"
  have "cs_ban ?s = new_ip_ban 3 10" by simp
  from ban_after_threshold[OF this, of "[1, 2, 3, 4]" cf r]
  show "ban_run cf r [1, 2, 3, 4] ?s = [400, 400, 400, 403]"
    by (simp add: numeral_eq_Suc)
qed

section \<open>Login\<close>

lemma auth_get_keeps_state: "fst (auth_handle_get cf r st) = fst st"
  by (simp add: auth_handle_get_def Let_def split: prod.split)

lemma consumed_code:
  "fst (magic_consume code t (snd (magic_consume code now ms))) = (0, 0, False)"
  by (auto simp: magic_consume_def Let_def split: option.split)

text \<open>C14. The login flow. Opening a link (a crawler, a preview) changes nothing. Posting a code that is
  still valid redirects, sets a cookie with the new session id, and that session is valid for the
  TTL of the link; posting the same code again is answered with 400 and opens no session, whoever
  posts it and whenever.\<close>

theorem login_once:
  assumes "rq_method r = ''POST''" and "rq_form r ''code'' = Some code" and "code \<noteq> []"
    and "magic_consume code (cf_now cf) (cs_magic s) = ((chat, ttl, True), m')"
    and "cs_sessions s = Some ss" and "cf_rnd cf = Ok sid" and "0 < ttl"
    and "rq_method r2 = ''POST''" and "rq_form r2 ''code'' = Some code"
  shows "fst (auth_serve_http cf (r\<lparr>rq_method := ''GET''\<rparr>) (s, w)) = s \<and>
    (case auth_serve_http cf r (s, new_writer) of (s1, w1) \<Rightarrow>
       status_of w1 = 303 \<and>
       w_cookies w1 = [session_cookie sid (ttl div second) (cf_secure cf)] \<and>
       (case cs_sessions s1 of None \<Rightarrow> False
        | Some ss1 \<Rightarrow> session_valid sid t ss1 = (t \<le> cf_now cf + ttl)) \<and>
       (case auth_serve_http cf2 r2 (s1, new_writer) of (s2, w2) \<Rightarrow>
          status_of w2 = 400 \<and> w_cookies w2 = [] \<and> cs_sessions s2 = cs_sessions s1))"
proof -
  have code: "value_of (rq_form r) ''code'' = code" "value_of (rq_form r2) ''code'' = code"
    using assms(2,9) by (simp_all add: value_of_def)
  obtain ss' where issue: "session_issue (cf_rnd cf) chat ttl (cf_now cf) (cf_now cf)
      (cf_order cf (ss_sessions ss)) ss = Ok (sid, ss')"
    using assms(6) by (simp add: session_issue_def Let_def)
  let ?s1 = "s\<lparr>cs_magic := m', cs_sessions := Some ss'\<rparr>"
  let ?w1 = "write_header 303 (set_header ''Location'' ''/''
      (set_cookie (session_cookie sid (ttl div second) (cf_secure cf)) new_writer))"
  have sec: "0 < second" by (simp add: second_def)
  have first: "auth_serve_http cf r (s, new_writer) = (?s1, ?w1)"
    using assms(1,3,4,5,7) code(1) issue sec by (simp add: auth_serve_http_def auth_handle_post_def)
  have valid: "session_valid sid t ss' = (t \<le> cf_now cf + ttl)"
    using session_issue_sessions(2)[OF issue[unfolded assms(6)]] assms(7) by (auto simp: session_valid_def)
  have m': "m' = snd (magic_consume code (cf_now cf) (cs_magic s))" using assms(4) by simp
  obtain m'' where "magic_consume code (cf_now cf2) m' = ((0, 0, False), m'')"
    using consumed_code[of code "cf_now cf2" "cf_now cf" "cs_magic s"] unfolding m' by (metis prod.collapse)
  then have second: "auth_serve_http cf2 r2 (?s1, new_writer) = (?s1\<lparr>cs_magic := m''\<rparr>,
      render_error ''Invalid or expired link. Send /login to get a new one.'' new_writer)"
    using assms(3,8) code(2) by (simp add: auth_serve_http_def auth_handle_post_def)
  have get: "fst (auth_serve_http cf (r\<lparr>rq_method := ''GET''\<rparr>) (s, w)) = s"
    using auth_get_keeps_state[of cf "r\<lparr>rq_method := ''GET''\<rparr>" "(s, w)"] by (simp add: auth_serve_http_def)
  show ?thesis unfolding first prod.case second using get valid
    by (simp add: status_of_def render_error_def)
qed

theorem login_once_witness:
  "\<exists>cf r s. case auth_serve_http cf r (s, new_writer) of (s1, w1) \<Rightarrow>
     status_of w1 = 303 \<and> status_of (snd (auth_serve_http cf r (s1, new_writer))) = 400"
proof -
  let ?cf = "\<lparr>cf_token = [], cf_extra_tokens = [], cf_app_key = None, cf_origin = [], cf_secure = True,
    cf_trusted = (\<lambda>_. False), cf_now = 0, cf_rnd = Ok ''s1'', cf_order = (\<lambda>_. [])\<rparr>"
  let ?r = "\<lparr>rq_method = ''POST'', rq_path = ''/auth'', rq_headers = Map.empty, rq_cookies = [],
    rq_query = Map.empty, rq_form = [''code'' \<mapsto> ''c1''], rq_tls = True, rq_remote = ''1.2.3.4:5'',
    rq_app_slug = None\<rparr>"
  let ?m = "[''c1'' \<mapsto> \<lparr>me_chat = 7, me_session_ttl = hour, me_expires = 9\<rparr>]"
  let ?s = "\<lparr>cs_sessions = Some new_session_store, cs_magic = ?m, cs_counters = Map.empty,
      cs_auth_counters = Map.empty, cs_ban = new_ip_ban 3 10\<rparr>"
  obtain m' where m: "magic_consume ''c1'' (cf_now ?cf) (cs_magic ?s) = ((7, hour, True), m')"
    by (simp add: magic_consume_def)
  have "0 < hour" by (simp add: go_time)
  note h = login_once[OF _ _ _ m _ _ this, where r = ?r and ?r2.0 = ?r and ss = new_session_store
      and sid = "''s1''" and t = 0 and ?cf2.0 = ?cf and w = new_writer]
  obtain s1 w1 where one: "auth_serve_http ?cf ?r (?s, new_writer) = (s1, w1)" by (metis surj_pair)
  obtain s2 w2 where two: "auth_serve_http ?cf ?r (s1, new_writer) = (s2, w2)" by (metis surj_pair)
  have "status_of w1 = 303 \<and> status_of w2 = 400"
    using h unfolding one two prod.case by simp
  then show ?thesis using one two by (intro exI[of _ ?cf] exI[of _ ?r] exI[of _ ?s]) simp
qed

section \<open>CSRF and app isolation\<close>

text \<open>What the CSRF check stops and what it does not. A state-changing API request without
  \<open>X-Requested-With\<close>, without a Bearer header and with a Referer that does not start with the
  allowed origin is answered with 403 and never handed on. But the origin is compared as a string
  prefix: a Referer on any host whose name continues the allowed origin passes.\<close>

theorem csrf_referer_is_prefix_test:
  "(reaches (csrf_middleware org) r st \<noteq>
      (rq_method r \<notin> {''GET'', ''HEAD'', ''OPTIONS''} \<and> has_prefix (rq_path r) ''/api/'' \<and>
       header_get r ''X-Requested-With'' = [] \<and> \<not> has_prefix (header_get r ''Authorization'') ''Bearer '' \<and>
       \<not> (org \<noteq> [] \<and> has_prefix (header_get r ''Referer'') org))) \<and>
   reaches (csrf_middleware ''https://cc.example.com'')
     (header_set ''Referer'' (''https://cc.example.com.evil.net/'' @ rest) r) st"
proof -
  have a: "reaches (csrf_middleware org) r st = csrf_pass org r" by (rule csrf.reaches_iff)
  have b: "csrf_pass ''https://cc.example.com''
     (header_set ''Referer'' (''https://cc.example.com.evil.net/'' @ rest) r)"
    by (simp add: csrf_pass_def)
  show ?thesis unfolding a csrf.reaches_iff using b by (auto simp: csrf_pass_def)
qed

lemma str_index_hit:
  assumes "str_index s p = Some i"
  shows "has_prefix (drop i s) p"
  using assms by (induction s arbitrary: i) (auto split: if_splits)

lemma str_index_slash: "CHR ''/'' \<notin> set a \<Longrightarrow> str_index (a @ CHR ''/'' # b) ''/'' = Some (length a)"
  by (induction a) auto

lemma valid_name_no_slash: "valid_name s \<Longrightarrow> CHR ''/'' \<notin> set s"
  by (auto simp: valid_name_def list_all_iff name_char_def)

lemma extract_slug:
  assumes "header_get r ''Referer'' = ref" and "str_index ref ''/apps/'' = Some i"
    and "drop (i + 6) ref = slug @ CHR ''/'' # rest" and "valid_name slug"
  shows "extract_app_slug_from_referer r = slug"
proof -
  have "ref \<noteq> []" using assms(3) by auto
  moreover have "slug \<noteq> []" using assms(4) by (simp add: valid_name_def)
  ultimately show ?thesis using assms valid_name_no_slash[OF assms(4)] str_index_slash[of slug rest]
    by (simp add: extract_app_slug_from_referer_def Let_def)
qed

text \<open>App isolation: an API request whose Referer is inside the app \<open>slug\<close> reaches the handlers
  exactly when its path is under \<open>/api/apps/slug/\<close> or is one of the three shared endpoints. The
  allowance for \<open>/apps/slug/api/\<close> never applies, because the check only looks at \<open>/api/\<close> paths.\<close>

theorem app_isolation_exact:
  assumes "header_get r ''Referer'' = ref" and "str_index ref ''/apps/'' = Some i"
    and "drop (i + 6) ref = slug @ CHR ''/'' # rest" and "valid_name slug"
    and "has_prefix (rq_path r) ''/api/''"
  shows "reaches app_isolation_middleware r st \<longleftrightarrow>
    has_prefix (rq_path r) (''/api/apps/'' @ slug @ ''/'') \<or>
    rq_path r \<in> {''/api/app-action'', ''/api/bash'', ''/api/events''}"
proof -
  have s: "extract_app_slug_from_referer r = slug" using assms(1-4) by (rule extract_slug)
  have ne: "slug \<noteq> []" "ref \<noteq> []" using assms(3,4) by (auto simp: valid_name_def)
  have "\<not> has_prefix (rq_path r) (''/apps/'' @ slug @ ''/api/'')"
    using assms(5) by (auto dest!: has_prefixD)
  then show ?thesis unfolding isolation.reaches_iff isolation_pass_def Let_def s
    using assms(1,5) ne by auto
qed

theorem app_isolation_exact_witness:
  "\<exists>r st. header_get r ''Referer'' = ''https://h/apps/todo/index.html'' \<and> rq_path r = ''/api/vault'' \<and>
     \<not> reaches app_isolation_middleware r st"
proof -
  let ?ref = "''https://h/apps/todo/index.html''"
  let ?r = "\<lparr>rq_method = ''GET'', rq_path = ''/api/vault'', rq_headers = [''Referer'' \<mapsto> ?ref],
    rq_cookies = [], rq_query = Map.empty, rq_form = Map.empty, rq_tls = True, rq_remote = ''h:1'',
    rq_app_slug = None\<rparr>"
  have h: "header_get ?r ''Referer'' = ?ref" by (simp add: header_get_def)
  have i: "str_index ?ref ''/apps/'' = Some 9" by code_simp
  have d: "drop (9 + 6) ?ref = ''todo'' @ CHR ''/'' # ''index.html''" by simp
  have v: "valid_name ''todo''" by code_simp
  have p: "has_prefix (rq_path ?r) ''/api/''" by simp
  have "\<not> reaches app_isolation_middleware ?r st" for st
    using app_isolation_exact[OF h i d v p, of st] by simp
  then show ?thesis using h by (intro exI[of _ ?r]) simp
qed

text \<open>The isolation is decided on the Referer's text up to the next slash, so a page of the app
  opened with a query string right after the slug (\<open>/apps/todo?x=1\<close>) is not recognised as an app:
  every API path passes.\<close>

theorem isolation_query_bypass:
  "reaches app_isolation_middleware (header_set ''Referer'' ''https://h/apps/todo?x=1'' r) st"
proof -
  let ?r = "header_set ''Referer'' ''https://h/apps/todo?x=1'' r"
  have "str_index ''https://h/apps/todo?x=1'' ''/apps/'' = Some 9" by code_simp
  moreover have "str_index ''todo?x=1'' ''/'' = None" by code_simp
  moreover have "\<not> valid_name ''todo?x=1''" by code_simp
  ultimately have "extract_app_slug_from_referer ?r = []"
    by (simp add: extract_app_slug_from_referer_def)
  then show ?thesis unfolding isolation.reaches_iff by (simp add: isolation_pass_def Let_def)
qed

section \<open>Chat ids of auto-issued sessions\<close>

lemma bearer_id_int:
  "bearer_derived_chat_id b = signed_take_bit 63 (- (uint (fnv1a64 b) div 2) - 3)"
proof -
  let ?v = "drop_bit 1 (fnv1a64 b)"
  have "uint ?v = uint (fnv1a64 b) div 2" by (simp add: drop_bit_eq_div uint_div)
  moreover have "- ?v - 3 = word_of_int (- uint ?v - 3)" by simp
  moreover have "sint (word_of_int (- uint ?v - 3) :: 64 word) = signed_take_bit 63 (- uint ?v - 3)"
    by (subst sint_sbintrunc') simp
  ultimately show ?thesis unfolding bearer_derived_chat_id_def Let_def by metis
qed

text \<open>The chat id derived from a Bearer token is \<open>-3\<close> or less, as its comment promises, for all
  but four values of the hash; for those the 64-bit negation wraps around, and there is such a token:
  its sessions get the largest positive chat id.\<close>

theorem bearer_chat_id_range:
  "(bearer_derived_chat_id b \<le> -3 \<longleftrightarrow> uint (fnv1a64 b) < 2 ^ 64 - 4) \<and>
   bearer_derived_chat_id ''nvDVGl5k6.~Is3DgM.'' = 2 ^ 63 - 1"
proof
  let ?h = "uint (fnv1a64 b)"
  have h: "0 \<le> ?h" "?h < 2 ^ 64" using uint_lt2p[of "fnv1a64 b"] by simp_all
  show "bearer_derived_chat_id b \<le> -3 \<longleftrightarrow> ?h < 2 ^ 64 - 4"
  proof (cases "?h < 2 ^ 64 - 4")
    case True
    then have "?h div 2 \<le> 2 ^ 63 - 3" "0 \<le> ?h div 2" by simp_all
    then have "- (2 ^ 63) \<le> - (?h div 2) - 3" "- (?h div 2) - 3 < 2 ^ 63" by linarith+
    then have "signed_take_bit 63 (- (?h div 2) - 3) = - (?h div 2) - 3"
      by (rule signed_take_bit_int_eq_self)
    then show ?thesis using True h by (simp add: bearer_id_int)
  next
    case False
    then have "?h div 2 = 2 ^ 63 - 2 \<or> ?h div 2 = 2 ^ 63 - 1" using h by auto
    then show ?thesis using False by (auto simp: bearer_id_int)
  qed
  have "fnv1a64 ''nvDVGl5k6.~Is3DgM.'' = 18446744073709551613"
    by (simp add: fnv1a64_def)
  then show "bearer_derived_chat_id ''nvDVGl5k6.~Is3DgM.'' = 2 ^ 63 - 1"
    by (simp add: bearer_id_int)
qed

end
