(* ===== verification/Firewall.thy ===== *)
theory Firewall
  imports Net_Addr
begin

text \<open>
  \<open>internal/sandbox/network\<close>: the outbound firewall proxy. \<open>proxy.go\<close> has the rules, the decision for
  a host, the two request handlers and the ring buffer of the last 500 requests; \<open>store.go\<close> the
  statistics per host. The proxy library is not modelled; a handler's result says whether the
  request is forwarded. The clock is the argument \<open>now\<close>.
\<close>

section \<open>Configuration and log\<close>

definition ModeLogOnly :: string where "ModeLogOnly = ''log-only''"
definition ModeEnforce :: string where "ModeEnforce = ''enforce''"

record rule =
  ru_pattern :: string
  ru_action :: string

record fw_config =
  fc_mode :: string
  fc_port :: int
  fc_rules :: "rule list"

definition default_config :: fw_config where
  "default_config = \<lparr>fc_mode = ModeLogOnly, fc_port = 4751, fc_rules = []\<rparr>"

record request_entry =
  re_time :: gotime
  re_method :: string
  re_host :: string
  re_path :: string
  re_status :: int
  re_blocked :: bool
  re_rule :: string
  re_source :: string

definition empty_request_entry :: request_entry where
  "empty_request_entry = \<lparr>re_time = 0, re_method = [], re_host = [], re_path = [], re_status = 0,
                  re_blocked = False, re_rule = [], re_source = []\<rparr>"

definition ringSize :: nat where "ringSize = 500"

record ring =
  rb_items :: "request_entry list"
  rb_pos :: nat
  rb_count :: nat

definition new_ring :: ring where
  "new_ring = \<lparr>rb_items = replicate ringSize empty_request_entry, rb_pos = 0, rb_count = 0\<rparr>"

definition ring_add :: "request_entry \<Rightarrow> ring \<Rightarrow> ring" where
  "ring_add e r = r\<lparr>rb_items := (rb_items r)[rb_pos r := e], rb_pos := (rb_pos r + 1) mod ringSize,
                    rb_count := (if rb_count r < ringSize then rb_count r + 1 else rb_count r)\<rparr>"

definition ring_entries :: "ring \<Rightarrow> request_entry list" where
  "ring_entries r =
     (if rb_count r = 0 then []
      else let start = (rb_pos r + ringSize - rb_count r) mod ringSize
        in map (\<lambda>i. rb_items r ! ((start + i) mod ringSize)) [0..<rb_count r])"

definition ring_clear :: "ring \<Rightarrow> ring" where
  "ring_clear r = r\<lparr>rb_pos := 0, rb_count := 0\<rparr>"

section \<open>Host statistics\<close>

record host_stat =
  hs_host :: string
  hs_count :: int
  hs_allowed :: int
  hs_blocked :: int
  hs_last_seen :: gotime
  hs_vault :: bool

record fw_store =
  fs_hosts :: "string \<rightharpoonup> host_stat"
  fs_hosts_file :: "(string \<rightharpoonup> host_stat) option"
  fs_config_file :: "fw_config option"

definition record_host :: "string \<Rightarrow> bool \<Rightarrow> bool \<Rightarrow> gotime \<Rightarrow> fw_store \<Rightarrow> fw_store" where
  "record_host host blocked vault now s =
     (let h0 = (case fs_hosts s host of
                  None \<Rightarrow> \<lparr>hs_host = host, hs_count = 0, hs_allowed = 0, hs_blocked = 0,
                          hs_last_seen = 0, hs_vault = False\<rparr>
                | Some h \<Rightarrow> h);
          h1 = h0\<lparr>hs_count := hs_count h0 + 1\<rparr>;
          h2 = (if blocked then h1\<lparr>hs_blocked := hs_blocked h1 + 1\<rparr>
                else h1\<lparr>hs_allowed := hs_allowed h1 + 1\<rparr>);
          h3 = (if vault then h2\<lparr>hs_vault := True\<rparr> else h2);
          h4 = h3\<lparr>hs_last_seen := now\<rparr>
      in s\<lparr>fs_hosts := (fs_hosts s)(host \<mapsto> h4)\<rparr>)"

text \<open>The two files of the store: their content, \<open>None\<close> when there is no file. A write that fails
  is not reported by \<open>SaveHosts\<close>; \<open>ok\<close> says whether it succeeds.\<close>

definition hosts_list :: "string list \<Rightarrow> fw_store \<Rightarrow> host_stat list" where
  "hosts_list order s = List.map_filter (fs_hosts s) order"

definition save_hosts :: "bool \<Rightarrow> fw_store \<Rightarrow> fw_store" where
  "save_hosts ok s = (if ok then s\<lparr>fs_hosts_file := Some (fs_hosts s)\<rparr> else s)"

definition load_hosts :: "fw_store \<Rightarrow> fw_store" where
  "load_hosts s = (case fs_hosts_file s of None \<Rightarrow> s | Some m \<Rightarrow> s\<lparr>fs_hosts := fs_hosts s ++ m\<rparr>)"

definition new_fw_store :: "(string \<rightharpoonup> host_stat) option \<Rightarrow> fw_config option \<Rightarrow> fw_store" where
  "new_fw_store hosts_file config_file =
     load_hosts \<lparr>fs_hosts = Map.empty, fs_hosts_file = hosts_file, fs_config_file = config_file\<rparr>"

definition load_config :: "fw_store \<Rightarrow> fw_config" where
  "load_config s = (case fs_config_file s of None \<Rightarrow> default_config | Some cfg \<Rightarrow> cfg)"

definition save_config :: "fw_config \<Rightarrow> fw_store \<Rightarrow> fw_store" where
  "save_config cfg s = s\<lparr>fs_config_file := Some cfg\<rparr>"

section \<open>The proxy\<close>

record proxy =
  px_config :: fw_config
  px_log :: ring
  px_store :: "fw_store option"
  px_vault_hosts :: "string set option"

definition new_proxy :: "fw_config \<Rightarrow> proxy" where
  "new_proxy cfg = \<lparr>px_config = cfg, px_log = new_ring, px_store = None, px_vault_hosts = None\<rparr>"

definition match_pattern :: "string \<Rightarrow> string \<Rightarrow> bool" where
  "match_pattern pattern0 host =
     (let pattern = to_lower pattern0 in
      if pattern = ''*'' then True
      else if pattern = host then True
      else if has_prefix pattern ''*.'' then has_suffix host (drop 1 pattern)
      else False)"

fun match_rules :: "rule list \<Rightarrow> string \<Rightarrow> string \<times> string" where
  "match_rules [] host = ([], [])"
| "match_rules (r # rs) host =
     (if match_pattern (ru_pattern r) host then (ru_pattern r, ru_action r) else match_rules rs host)"

definition match_host :: "proxy \<Rightarrow> string \<Rightarrow> string \<times> string" where
  "match_host p host = match_rules (fc_rules (px_config p)) (to_lower host)"

definition is_internal_host :: "string \<Rightarrow> bool" where
  "is_internal_host host =
     (if host = ''localhost'' then True
      else (case parse_ip host of
              None \<Rightarrow> False
            | Some ip \<Rightarrow> is_loopback ip \<or> is_private ip \<or> is_link_local_unicast ip))"

definition is_vault_host :: "proxy \<Rightarrow> string \<Rightarrow> bool" where
  "is_vault_host p host = (case px_vault_hosts p of None \<Rightarrow> False | Some hosts \<Rightarrow> host \<in> hosts)"

definition decide :: "proxy \<Rightarrow> string \<Rightarrow> string \<times> bool" where
  "decide p host =
     (case match_host p host of
        (pattern, action) \<Rightarrow>
          if fc_mode (px_config p) \<noteq> ModeEnforce then (pattern, False)
          else if action = ''allow'' then (pattern, False)
          else if action = ''deny'' then (pattern, True)
          else if is_vault_host p host then (''vault-implicit-allow'', False)
          else if is_internal_host host then (''internal-implicit-allow'', False)
          else (''default-deny'', True))"

definition check_host :: "proxy \<Rightarrow> string \<Rightarrow> string \<times> string \<times> bool" where
  "check_host p host =
     (let explicitAction = snd (match_host p host); (ruleLabel, b) = decide p host;
          action = (if explicitAction = [] then ruleLabel else explicitAction)
      in (ruleLabel, action, b))"

definition proxy_record :: "request_entry \<Rightarrow> gotime \<Rightarrow> proxy \<Rightarrow> proxy" where
  "proxy_record entry0 now p =
     (let entry = (if re_source entry0 = [] \<and> is_vault_host p (re_host entry0)
                   then entry0\<lparr>re_source := ''vault''\<rparr> else entry0)
      in p\<lparr>px_log := ring_add entry (px_log p),
           px_store := map_option (record_host (re_host entry) (re_blocked entry)
                                     (re_source entry = ''vault'') now) (px_store p)\<rparr>)"

definition set_vault_hosts :: "string list \<Rightarrow> proxy \<Rightarrow> proxy" where
  "set_vault_hosts hosts p = p\<lparr>px_vault_hosts := Some (set hosts)\<rparr>"

definition proxy_reload :: "fw_config \<Rightarrow> proxy \<Rightarrow> proxy" where
  "proxy_reload cfg p = p\<lparr>px_config := cfg\<rparr>"

definition strip_port :: "string \<Rightarrow> string" where
  "strip_port hostport = (case split_host_port hostport of None \<Rightarrow> hostport | Some host \<Rightarrow> host)"

text \<open>The handlers for a plain request and for CONNECT: whether the request is forwarded.\<close>

definition on_request :: "string \<Rightarrow> string \<Rightarrow> string \<Rightarrow> gotime \<Rightarrow> proxy \<Rightarrow> bool \<times> proxy" where
  "on_request meth reqHost path now p =
     (let host = strip_port reqHost; (ru, blocked) = decide p host;
          entry = empty_request_entry\<lparr>re_time := now, re_method := meth, re_host := host, re_path := path,
                              re_blocked := blocked, re_rule := ru\<rparr>
      in if blocked then (False, proxy_record (entry\<lparr>re_status := 403\<rparr>) now p)
         else (True, proxy_record entry now p))"

definition on_connect :: "string \<Rightarrow> gotime \<Rightarrow> proxy \<Rightarrow> bool \<times> proxy" where
  "on_connect host now p =
     (let hostname = strip_port host; (ru, blocked) = decide p hostname;
          entry = empty_request_entry\<lparr>re_time := now, re_method := ''CONNECT'', re_host := hostname,
                              re_blocked := blocked, re_rule := ru\<rparr>
      in if blocked then (False, proxy_record (entry\<lparr>re_status := 403\<rparr>) now p)
         else (True, proxy_record entry now p))"

section \<open>The ring buffer is the last 500 entries\<close>

definition ring_ok :: "request_entry list \<Rightarrow> ring \<Rightarrow> bool" where
  "ring_ok es r \<longleftrightarrow> length (rb_items r) = ringSize \<and> rb_pos r < ringSize \<and>
     rb_count r = min (length es) ringSize \<and>
     (\<forall>i < rb_count r. rb_items r ! ((rb_pos r + ringSize - 1 - i) mod ringSize) = es ! (length es - 1 - i))"

lemma ring_ok_new: "ring_ok [] new_ring"
  by (simp add: ring_ok_def new_ring_def ringSize_def)

lemma back_index:
  assumes "p < n" "Suc i < n"
  shows "((p + 1) mod n + n - 1 - Suc i) mod n = (p + n - 1 - i) mod n"
    and "(p + n - 1 - i) mod n \<noteq> p"
proof -
  show "((p + 1) mod n + n - 1 - Suc i) mod n = (p + n - 1 - i) mod n"
  proof (cases "p + 1 < n")
    case True
    then show ?thesis using assms by simp
  next
    case False
    then have p: "p + 1 = n" using assms(1) by simp
    have "p + n - 1 - i = (n - 1 - Suc i) + n" using p assms(2) by simp
    then have "(p + n - 1 - i) mod n = n - 1 - Suc i" using assms(2) by (simp only: mod_add_self2) simp
    then show ?thesis using p assms(2) by simp
  qed
  show "(p + n - 1 - i) mod n \<noteq> p"
  proof (cases "p < Suc i")
    case True
    then have "p + n - 1 - i < n" "p + n - 1 - i \<noteq> p" using assms by linarith+
    then show ?thesis by simp
  next
    case False
    then have "p + n - 1 - i = (p - Suc i) + n" using assms by simp
    then have "(p + n - 1 - i) mod n = p - Suc i" using assms by (simp only: mod_add_self2) simp
    then show ?thesis using False by simp
  qed
qed

lemma ring_ok_add:
  assumes "ring_ok es r"
  shows "ring_ok (es @ [e]) (ring_add e r)"
proof -
  let ?n = ringSize
  have n: "1 < ?n" by (simp add: ringSize_def)
  have a: "length (rb_items r) = ?n" "rb_pos r < ?n" "rb_count r = min (length es) ?n"
    and v: "\<And>i. i < rb_count r \<Longrightarrow>
      rb_items r ! ((rb_pos r + ?n - 1 - i) mod ?n) = es ! (length es - 1 - i)"
    using assms by (auto simp: ring_ok_def)
  have cnt: "rb_count (ring_add e r) = min (Suc (length es)) ?n" using a(3) by (simp add: ring_add_def)
  have zero: "((rb_pos r + 1) mod ?n + ?n - 1) mod ?n = rb_pos r"
    using a(2) n by (cases "rb_pos r + 1 < ?n") (auto simp: mod_if not_less Suc_le_eq le_Suc_eq)
  have "rb_items (ring_add e r) ! ((rb_pos (ring_add e r) + ?n - 1 - i) mod ?n) =
      (es @ [e]) ! (length (es @ [e]) - 1 - i)" if i: "i < rb_count (ring_add e r)" for i
  proof (cases i)
    case 0
    then show ?thesis using a zero by (simp add: ring_add_def)
  next
    case (Suc j)
    then have j: "Suc j < ?n" "j < rb_count r" "j < length es" using i cnt a(3) by auto
    show ?thesis using Suc back_index[OF a(2) j(1)] v[OF j(2)] j(3) a(1)
      by (simp add: ring_add_def nth_append)
  qed
  then show ?thesis using a n cnt by (simp add: ring_ok_def) (simp add: ring_add_def)
qed

lemma ring_ok_entries:
  assumes "ring_ok es r"
  shows "ring_entries r = drop (length es - ringSize) es"
proof (rule nth_equalityI)
  let ?n = ringSize
  have a: "length (rb_items r) = ?n" "rb_pos r < ?n" "rb_count r = min (length es) ?n"
    and v: "\<And>i. i < rb_count r \<Longrightarrow>
      rb_items r ! ((rb_pos r + ?n - 1 - i) mod ?n) = es ! (length es - 1 - i)"
    using assms by (auto simp: ring_ok_def)
  show "length (ring_entries r) = length (drop (length es - ?n) es)"
    using a(3) by (simp add: ring_entries_def Let_def min_def)
  fix i assume "i < length (ring_entries r)"
  then have i: "i < rb_count r" by (auto simp: ring_entries_def Let_def split: if_splits)
  let ?j = "rb_count r - 1 - i"
  have "(rb_pos r + ?n - rb_count r) mod ?n + i = (rb_pos r + ?n - rb_count r) mod ?n + i" ..
  have "((rb_pos r + ?n - rb_count r) mod ?n + i) mod ?n = (rb_pos r + ?n - rb_count r + i) mod ?n"
    by (simp add: mod_add_left_eq)
  also have "rb_pos r + ?n - rb_count r + i = rb_pos r + ?n - 1 - ?j" using i a(3) by simp
  finally have "ring_entries r ! i = rb_items r ! ((rb_pos r + ?n - 1 - ?j) mod ?n)"
    using i by (simp add: ring_entries_def Let_def)
  also have "\<dots> = es ! (length es - 1 - ?j)" using i by (intro v) simp
  also have "length es - 1 - ?j = length es - ?n + i" using i a(3) by simp
  finally show "ring_entries r ! i = drop (length es - ?n) es ! i" using i a(3) by simp
qed

datatype ring_op = RAdd request_entry | RClear

fun ring_step :: "ring_op \<Rightarrow> ring \<times> request_entry list \<Rightarrow> ring \<times> request_entry list" where
  "ring_step (RAdd e) (r, es) = (ring_add e r, es @ [e])"
| "ring_step RClear (r, es) = (ring_clear r, [])"

lemma ring_ok_clear: "ring_ok es r \<Longrightarrow> ring_ok [] (ring_clear r)"
  by (simp add: ring_ok_def ring_clear_def ringSize_def)

interpretation ring: op_machine "(new_ring, [])" ring_step "\<lambda>st. ring_ok (snd st) (fst st)"
proof
  show "ring_ok (snd (new_ring, [])) (fst (new_ring, []))" by (simp add: ring_ok_new)
  show "ring_ok (snd s) (fst s) \<Longrightarrow> ring_ok (snd (ring_step op s)) (fst (ring_step op s))" for s op
    by (cases s; cases op) (auto simp: ring_ok_add ring_ok_clear)
qed

text \<open>The log as it should be: the entries since the last \<open>Clear\<close>, oldest first.\<close>

fun log_step :: "ring_op \<Rightarrow> request_entry list \<Rightarrow> request_entry list" where
  "log_step (RAdd e) es = es @ [e]"
| "log_step RClear es = []"

lemma ring_step_log: "fold ring_step ops (r, es) = (fst (fold ring_step ops (r, es)), fold log_step ops es)"
proof (induction ops arbitrary: r es)
  case (Cons op ops)
  then show ?case by (cases op) auto
qed simp

text \<open>The ring buffer refines a list: after any sequence of additions and clears \<open>Entries\<close>
  returns exactly the last 500 entries added since the last clear, oldest first, across every
  wrap-around of the array.\<close>

theorem ring_refines_last_500:
  "ring_entries (fst (fold ring_step ops (new_ring, []))) =
   (let es = fold log_step ops [] in drop (length es - 500) es)"
proof -
  have "snd (fold ring_step ops (new_ring, [])) = fold log_step ops []"
    using ring_step_log[of ops new_ring "[]"] by (metis snd_conv)
  then have "ring_ok (fold log_step ops []) (fst (fold ring_step ops (new_ring, [])))"
    using ring.run_inv[of ops] by simp
  then show ?thesis by (simp add: ring_ok_entries Let_def) (simp add: ringSize_def)
qed

section \<open>The decision\<close>

text \<open>The policy as a specification: the first rule whose pattern matches decides; without an
  explicit allow or deny, in enforce mode, only vault services and internal addresses pass.\<close>

definition policy_allows :: "fw_config \<Rightarrow> string set \<Rightarrow> string \<Rightarrow> bool" where
  "policy_allows cfg vault host =
     (fc_mode cfg \<noteq> ModeEnforce \<or>
      (let implicit = host \<in> vault \<or> is_internal_host host in
       case find (\<lambda>r. match_pattern (ru_pattern r) (to_lower host)) (fc_rules cfg) of
         None \<Rightarrow> implicit
       | Some r \<Rightarrow> ru_action r = ''allow'' \<or> ru_action r \<noteq> ''deny'' \<and> implicit))"

lemma match_rules_find:
  "match_rules rs host = (case find (\<lambda>r. match_pattern (ru_pattern r) host) rs of
     None \<Rightarrow> ([], []) | Some r \<Rightarrow> (ru_pattern r, ru_action r))"
  by (induction rs) auto

definition vault_set :: "proxy \<Rightarrow> string set" where
  "vault_set p = (case px_vault_hosts p of None \<Rightarrow> {} | Some hosts \<Rightarrow> hosts)"

lemma decide_policy: "snd (decide p host) \<longleftrightarrow> \<not> policy_allows (px_config p) (vault_set p) host"
  by (auto simp: decide_def policy_allows_def match_host_def match_rules_find is_vault_host_def
      vault_set_def Let_def split: option.splits)

text \<open>C13. The firewall enforces its policy and logs what it did: a plain request and a CONNECT are
  forwarded exactly when the policy allows the host (in enforce mode it is fail-closed, in log-only
  mode nothing is ever blocked), and each adds one log entry for that host whose blocked flag and
  status say whether it was forwarded.\<close>

theorem firewall_enforces_policy:
  "(fst (on_request m h path now p) \<longleftrightarrow> policy_allows (px_config p) (vault_set p) (strip_port h)) \<and>
   (fst (on_connect h now p) \<longleftrightarrow> policy_allows (px_config p) (vault_set p) (strip_port h)) \<and>
   (\<exists>e. px_log (snd (on_request m h path now p)) = ring_add e (px_log p) \<and> re_host e = strip_port h \<and>
        re_method e = m \<and> re_path e = path \<and> re_blocked e = (\<not> fst (on_request m h path now p)) \<and>
        re_status e = (if re_blocked e then 403 else 0)) \<and>
   (\<exists>e. px_log (snd (on_connect h now p)) = ring_add e (px_log p) \<and> re_host e = strip_port h \<and>
        re_method e = ''CONNECT'' \<and> re_blocked e = (\<not> fst (on_connect h now p)) \<and>
        re_status e = (if re_blocked e then 403 else 0))"
proof -
  obtain ru b where d: "decide p (strip_port h) = (ru, b)" by (metis surj_pair)
  have b: "b \<longleftrightarrow> \<not> policy_allows (px_config p) (vault_set p) (strip_port h)"
    using decide_policy[of p "strip_port h"] d by simp
  have rq: "fst (on_request m h path now p) = (\<not> b)" and cn: "fst (on_connect h now p) = (\<not> b)"
    by (simp_all add: on_request_def on_connect_def d Let_def)
  let ?e = "empty_request_entry\<lparr>re_time := now, re_host := strip_port h, re_blocked := b, re_rule := ru,
    re_status := (if b then 403 else 0),
    re_source := (if is_vault_host p (strip_port h) then ''vault'' else [])\<rparr>"
  have "px_log (snd (on_request m h path now p)) = ring_add (?e\<lparr>re_method := m, re_path := path\<rparr>) (px_log p)"
    "px_log (snd (on_connect h now p)) = ring_add (?e\<lparr>re_method := ''CONNECT''\<rparr>) (px_log p)"
    by (simp_all add: on_request_def on_connect_def d proxy_record_def empty_request_entry_def)
  then show ?thesis unfolding rq cn using b
    by (intro conjI exI[of _ "?e\<lparr>re_method := m, re_path := path\<rparr>"] exI[of _ "?e\<lparr>re_method := ''CONNECT''\<rparr>"])
       simp_all
qed

text \<open>Rules are matched without regard to case, but vault services are not: in enforce mode the
  same service host is allowed in the spelling it was registered with and denied in another.\<close>

theorem vault_hosts_are_case_sensitive:
  "match_host p (to_lower host) = match_host p host \<and>
   decide (set_vault_hosts [''api.github.com''] (new_proxy (default_config\<lparr>fc_mode := ModeEnforce\<rparr>)))
     ''api.github.com'' = (''vault-implicit-allow'', False) \<and>
   decide (set_vault_hosts [''api.github.com''] (new_proxy (default_config\<lparr>fc_mode := ModeEnforce\<rparr>)))
     ''API.github.com'' = (''default-deny'', True)"
proof -
  have "parse_ip ''API.github.com'' = None" by code_simp
  then show ?thesis
    by (simp add: match_host_def decide_def new_proxy_def default_config_def set_vault_hosts_def
        is_vault_host_def is_internal_host_def)
qed

section \<open>Host statistics\<close>

type_synonym hit = "string \<times> bool \<times> bool \<times> gotime"

definition record_hits :: "hit list \<Rightarrow> fw_store \<Rightarrow> fw_store" where
  "record_hits hits s = fold (\<lambda>(host, blocked, vault, now). record_host host blocked vault now) hits s"

definition hits_of :: "string \<Rightarrow> hit list \<Rightarrow> hit list" where
  "hits_of host hits = filter (\<lambda>x. fst x = host) hits"

definition stat_of :: "string \<Rightarrow> hit list \<Rightarrow> host_stat option" where
  "stat_of host hits =
     (let hs = hits_of host hits in
      if hs = [] then None
      else Some \<lparr>hs_host = host, hs_count = int (length hs),
                 hs_allowed = int (length (filter (\<lambda>(_, blocked, _). \<not> blocked) hs)),
                 hs_blocked = int (length (filter (\<lambda>(_, blocked, _). blocked) hs)),
                 hs_last_seen = snd (snd (snd (last hs))),
                 hs_vault = list_ex (\<lambda>(_, _, vault, _). vault) hs\<rparr>)"

lemma record_host_stat:
  assumes "fs_hosts s = (\<lambda>h. stat_of h hits)"
  shows "fs_hosts (record_host host blocked vault now s) = (\<lambda>h. stat_of h (hits @ [(host, blocked, vault, now)]))"
proof
  fix h
  show "fs_hosts (record_host host blocked vault now s) h = stat_of h (hits @ [(host, blocked, vault, now)])"
  proof (cases "h = host")
    case True
    then show ?thesis using assms
      by (cases "hits_of host hits = []")
         (auto simp: record_host_def stat_of_def hits_of_def Let_def split: option.splits)
  next
    case False
    then show ?thesis using assms by (simp add: record_host_def stat_of_def hits_of_def Let_def)
  qed
qed

text \<open>Host statistics are exact: after any sequence of records the statistics of a host are the
  numbers of its requests, of the allowed and of the blocked ones among them, the time of the last
  one, and whether any went through the vault; and a save followed by a restart keeps them.\<close>

theorem host_stats_exact:
  "fs_hosts (record_hits hits (new_fw_store None cfg)) h = stat_of h hits \<and>
   fs_hosts (new_fw_store (fs_hosts_file (save_hosts True (record_hits hits (new_fw_store None cfg)))) cfg) h =
     stat_of h hits"
proof -
  have "fs_hosts (record_hits (rev xs) (new_fw_store None cfg)) = (\<lambda>h. stat_of h (rev xs))" for xs
  proof (induction xs)
    case Nil
    then show ?case by (auto simp: record_hits_def new_fw_store_def load_hosts_def stat_of_def hits_of_def)
  next
    case (Cons x xs)
    obtain a b c d where x: "x = (a, b, c, d)" by (cases x)
    show ?case using record_host_stat[OF Cons.IH, of a b c d] x by (simp add: record_hits_def)
  qed
  from this[of "rev hits"] have "fs_hosts (record_hits hits (new_fw_store None cfg)) = (\<lambda>h. stat_of h hits)"
    by simp
  then show ?thesis by (simp add: save_hosts_def new_fw_store_def load_hosts_def)
qed

end
