(* ===== verification/Chat_Sessions.thy ===== *)
theory Chat_Sessions
  imports Alf_Prelude
begin

text \<open>
  \<open>internal/platform/session/store.go\<close>: one Claude session per chat, with a timeout of inactivity,
  the routing context, the active skills and the forced tier. The file \<open>session_map.json\<close> is part of
  the state (\<open>ch_disk\<close>, a list of entries in the order in which Go ranges over the map), \<open>ch_disk_ok\<close>
  says whether a write succeeds, and \<open>ch_order\<close> is that iteration order as a function of the map.
  The clock is the argument \<open>now\<close>.
\<close>

section \<open>State\<close>

record entry =
  en_session_id :: string
  en_chat_id :: int
  en_created_at :: gotime
  en_last_active :: gotime
  en_last_tier :: string
  en_last_backend :: string
  en_message_count :: int
  en_active_skills :: "string list"
  en_forced_tier :: string

definition empty_entry :: "int \<Rightarrow> gotime \<Rightarrow> gotime \<Rightarrow> entry" where
  "empty_entry chat created active =
     \<lparr>en_session_id = [], en_chat_id = chat, en_created_at = created, en_last_active = active,
      en_last_tier = [], en_last_backend = [], en_message_count = 0, en_active_skills = [],
      en_forced_tier = []\<rparr>"

text \<open>The zero value of \<open>time.Time\<close>, which an entry made without \<open>LastActive\<close> has until the line
  that sets it.\<close>

definition zero_time :: gotime where "zero_time = -62135596800 * second"

record chat_store =
  ch_timeout :: duration
  ch_entries :: "int \<rightharpoonup> entry"
  ch_disk :: "entry list option"
  ch_disk_ok :: bool
  ch_order :: "(int \<rightharpoonup> entry) \<Rightarrow> int list"

section \<open>Persistence\<close>

definition chat_persist :: "chat_store \<Rightarrow> chat_store" where
  "chat_persist s =
     (let entries = List.map_filter (ch_entries s) (ch_order s (ch_entries s))
      in if ch_disk_ok s then s\<lparr>ch_disk := Some entries\<rparr> else s)"

definition chat_load :: "chat_store \<Rightarrow> chat_store" where
  "chat_load s =
     (case ch_disk s of
        None \<Rightarrow> s
      | Some entries \<Rightarrow>
          s\<lparr>ch_entries := fold (\<lambda>e m. m(en_chat_id e \<mapsto> e)) entries (ch_entries s)\<rparr>)"

definition new_chat_store ::
  "duration \<Rightarrow> entry list option \<Rightarrow> bool \<Rightarrow> ((int \<rightharpoonup> entry) \<Rightarrow> int list) \<Rightarrow> chat_store" where
  "new_chat_store timeout disk ok order =
     chat_load \<lparr>ch_timeout = timeout, ch_entries = Map.empty, ch_disk = disk, ch_disk_ok = ok,
                ch_order = order\<rparr>"

section \<open>Operations\<close>

definition expired :: "chat_store \<Rightarrow> gotime \<Rightarrow> entry \<Rightarrow> bool" where
  "expired s now e \<longleftrightarrow> 0 < ch_timeout s \<and> ch_timeout s \<le> time_sub now (en_last_active e)"

definition put_entry :: "int \<Rightarrow> entry \<Rightarrow> chat_store \<Rightarrow> chat_store" where
  "put_entry chat e s = chat_persist (s\<lparr>ch_entries := (ch_entries s)(chat \<mapsto> e)\<rparr>)"

definition drop_entry :: "int \<Rightarrow> chat_store \<Rightarrow> chat_store" where
  "drop_entry chat s = chat_persist (s\<lparr>ch_entries := (ch_entries s)(chat := None)\<rparr>)"

definition chat_get :: "int \<Rightarrow> gotime \<Rightarrow> chat_store \<Rightarrow> string \<times> chat_store" where
  "chat_get chat now s =
     (case ch_entries s chat of
        None \<Rightarrow> ([], s)
      | Some e \<Rightarrow> if expired s now e then ([], drop_entry chat s) else (en_session_id e, s))"

definition chat_set :: "int \<Rightarrow> string \<Rightarrow> gotime \<Rightarrow> chat_store \<Rightarrow> chat_store" where
  "chat_set chat sid now s = put_entry chat ((empty_entry chat now now)\<lparr>en_session_id := sid\<rparr>) s"

definition chat_touch :: "int \<Rightarrow> gotime \<Rightarrow> chat_store \<Rightarrow> chat_store" where
  "chat_touch chat now s =
     (case ch_entries s chat of
        None \<Rightarrow> s
      | Some e \<Rightarrow> put_entry chat (e\<lparr>en_last_active := now\<rparr>) s)"

text \<open>The entry of the chat, or a new one.\<close>

definition entry_or_new :: "int \<Rightarrow> gotime \<Rightarrow> gotime \<Rightarrow> chat_store \<Rightarrow> entry" where
  "entry_or_new chat created active s =
     (case ch_entries s chat of None \<Rightarrow> empty_entry chat created active | Some e \<Rightarrow> e)"

definition set_with_context :: "int \<Rightarrow> string \<Rightarrow> string \<Rightarrow> gotime \<Rightarrow> chat_store \<Rightarrow> chat_store" where
  "set_with_context chat sid tier now s =
     (let e = entry_or_new chat now zero_time s
      in put_entry chat (e\<lparr>en_session_id := sid, en_last_active := now, en_last_tier := tier,
                           en_message_count := en_message_count e + 1\<rparr>) s)"

definition set_with_backend :: "int \<Rightarrow> string \<Rightarrow> string \<Rightarrow> string \<Rightarrow> gotime \<Rightarrow> chat_store \<Rightarrow> chat_store" where
  "set_with_backend chat sid tier backend now s =
     (let e = entry_or_new chat now zero_time s
      in put_entry chat (e\<lparr>en_session_id := sid, en_last_active := now, en_last_tier := tier,
                           en_last_backend := backend,
                           en_message_count := en_message_count e + 1\<rparr>) s)"

definition touch_context :: "int \<Rightarrow> string \<Rightarrow> gotime \<Rightarrow> chat_store \<Rightarrow> chat_store" where
  "touch_context chat tier now s =
     (let e = entry_or_new chat now zero_time s
      in put_entry chat (e\<lparr>en_last_active := now, en_last_tier := tier,
                           en_message_count := en_message_count e + 1\<rparr>) s)"

definition context_full :: "int \<Rightarrow> gotime \<Rightarrow> chat_store \<Rightarrow> string \<times> string \<times> int" where
  "context_full chat now s =
     (case ch_entries s chat of
        None \<Rightarrow> ([], [], 0)
      | Some e \<Rightarrow> if expired s now e then ([], [], 0)
                 else (en_last_tier e, en_last_backend e, en_message_count e))"

definition chat_context :: "int \<Rightarrow> gotime \<Rightarrow> chat_store \<Rightarrow> string \<times> int" where
  "chat_context chat now s =
     (case ch_entries s chat of
        None \<Rightarrow> ([], 0)
      | Some e \<Rightarrow> if expired s now e then ([], 0) else (en_last_tier e, en_message_count e))"

definition chat_archive :: "int \<Rightarrow> chat_store \<Rightarrow> string \<times> chat_store" where
  "chat_archive chat s =
     (case ch_entries s chat of
        None \<Rightarrow> ([], s)
      | Some e \<Rightarrow> (en_session_id e, drop_entry chat s))"

text \<open>The loop of \<open>AddSkills\<close>: the set \<open>seen\<close> has the names of the list.\<close>

fun merge_skills :: "string list \<Rightarrow> string list \<Rightarrow> string set \<Rightarrow> string list" where
  "merge_skills skills [] seen = skills"
| "merge_skills skills (n # ns) seen =
     (if n \<notin> seen then merge_skills (skills @ [n]) ns (insert n seen)
      else merge_skills skills ns seen)"

definition add_skills :: "int \<Rightarrow> string list \<Rightarrow> gotime \<Rightarrow> chat_store \<Rightarrow> chat_store" where
  "add_skills chat names now s =
     (let e = entry_or_new chat now now s
      in put_entry chat (e\<lparr>en_active_skills :=
           merge_skills (en_active_skills e) names (set (en_active_skills e))\<rparr>) s)"

definition get_skills :: "int \<Rightarrow> gotime \<Rightarrow> chat_store \<Rightarrow> string list" where
  "get_skills chat now s =
     (case ch_entries s chat of
        None \<Rightarrow> []
      | Some e \<Rightarrow> if expired s now e then [] else en_active_skills e)"

definition remove_skill :: "int \<Rightarrow> string \<Rightarrow> chat_store \<Rightarrow> chat_store" where
  "remove_skill chat name s =
     (case ch_entries s chat of
        None \<Rightarrow> s
      | Some e \<Rightarrow> put_entry chat (e\<lparr>en_active_skills := filter (\<lambda>n. n \<noteq> name) (en_active_skills e)\<rparr>) s)"

definition clear_skills :: "int \<Rightarrow> chat_store \<Rightarrow> chat_store" where
  "clear_skills chat s =
     (case ch_entries s chat of
        None \<Rightarrow> s
      | Some e \<Rightarrow> put_entry chat (e\<lparr>en_active_skills := []\<rparr>) s)"

definition set_forced_tier :: "int \<Rightarrow> string \<Rightarrow> gotime \<Rightarrow> chat_store \<Rightarrow> chat_store" where
  "set_forced_tier chat tier now s =
     (let e = entry_or_new chat now now s
      in put_entry chat (e\<lparr>en_forced_tier := tier, en_last_active := now\<rparr>) s)"

definition get_forced_tier :: "int \<Rightarrow> gotime \<Rightarrow> chat_store \<Rightarrow> string \<times> chat_store" where
  "get_forced_tier chat now s =
     (case ch_entries s chat of
        None \<Rightarrow> ([], s)
      | Some e \<Rightarrow> if expired s now e then ([], drop_entry chat s) else (en_forced_tier e, s))"

definition set_timeout :: "duration \<Rightarrow> chat_store \<Rightarrow> chat_store" where
  "set_timeout d s = s\<lparr>ch_timeout := d\<rparr>"

lemma put_entry_sel [simp]:
  "ch_entries (put_entry chat e s) = (ch_entries s)(chat \<mapsto> e)"
  "ch_timeout (put_entry chat e s) = ch_timeout s"
  by (simp_all add: put_entry_def chat_persist_def Let_def)

lemma drop_entry_sel [simp]:
  "ch_entries (drop_entry chat s) = (ch_entries s)(chat := None)"
  "ch_timeout (drop_entry chat s) = ch_timeout s"
  by (simp_all add: drop_entry_def chat_persist_def Let_def)

section \<open>The file always has the entries\<close>

definition enumerates :: "((int \<rightharpoonup> entry) \<Rightarrow> int list) \<Rightarrow> bool" where
  "enumerates order \<longleftrightarrow> (\<forall>m. finite (dom m) \<longrightarrow> distinct (order m) \<and> set (order m) = dom m)"

definition chat_inv :: "chat_store \<Rightarrow> bool" where
  "chat_inv s \<longleftrightarrow> finite (dom (ch_entries s)) \<and> ch_disk_ok s \<and> enumerates (ch_order s) \<and>
     (\<forall>chat e. ch_entries s chat = Some e \<longrightarrow> en_chat_id e = chat) \<and>
     fold (\<lambda>e m. m(en_chat_id e \<mapsto> e)) (case ch_disk s of None \<Rightarrow> [] | Some es \<Rightarrow> es) Map.empty = ch_entries s"

lemma fold_entries_keyed:
  "\<forall>chat e. m chat = Some e \<longrightarrow> en_chat_id e = chat \<Longrightarrow> distinct xs \<Longrightarrow>
   fold (\<lambda>e m. m(en_chat_id e \<mapsto> e)) (List.map_filter m xs) m0 x = (if x \<in> set xs \<and> m x \<noteq> None then m x else m0 x)"
proof (induction xs arbitrary: m0)
  case (Cons a xs)
  then show ?case
    by (cases "m a") (auto simp: map_filter_simps)
qed (simp add: map_filter_simps)

lemma persist_inv:
  assumes "finite (dom (ch_entries s))" "ch_disk_ok s" "enumerates (ch_order s)"
    and k: "\<forall>chat e. ch_entries s chat = Some e \<longrightarrow> en_chat_id e = chat"
  shows "chat_inv (chat_persist s)"
proof -
  let ?xs = "ch_order s (ch_entries s)"
  have xs: "distinct ?xs" "set ?xs = dom (ch_entries s)" using assms(1,3) by (auto simp: enumerates_def)
  have "fold (\<lambda>e m. m(en_chat_id e \<mapsto> e)) (List.map_filter (ch_entries s) ?xs) Map.empty = ch_entries s"
    using fold_entries_keyed[OF k xs(1), of Map.empty] xs(2) by (intro ext) (auto split: if_splits)
  then show ?thesis using assms by (simp add: chat_inv_def chat_persist_def Let_def)
qed

lemma put_inv: "chat_inv s \<Longrightarrow> en_chat_id e = chat \<Longrightarrow> chat_inv (put_entry chat e s)"
  unfolding put_entry_def by (rule persist_inv) (auto simp: chat_inv_def)

lemma drop_inv: "chat_inv s \<Longrightarrow> chat_inv (drop_entry chat s)"
  unfolding drop_entry_def by (rule persist_inv) (auto simp: chat_inv_def)

lemma inv_chat_id: "chat_inv s \<Longrightarrow> ch_entries s chat = Some e \<Longrightarrow> en_chat_id e = chat"
  by (simp add: chat_inv_def)

lemma entry_or_new_id: "chat_inv s \<Longrightarrow> en_chat_id (entry_or_new chat c a s) = chat"
  by (auto simp: entry_or_new_def empty_entry_def inv_chat_id split: option.split)

datatype chat_op =
    CGet int gotime | CSet int string gotime | CTouch int gotime
  | CSetContext int string string gotime | CSetBackend int string string string gotime
  | CTouchContext int string gotime | CArchive int | CAddSkills int "string list" gotime
  | CRemoveSkill int string | CClearSkills int | CSetForced int string gotime
  | CGetForced int gotime | CSetTimeout duration

fun chat_step :: "chat_op \<Rightarrow> chat_store \<Rightarrow> chat_store" where
  "chat_step (CGet c t) s = snd (chat_get c t s)"
| "chat_step (CSet c sid t) s = chat_set c sid t s"
| "chat_step (CTouch c t) s = chat_touch c t s"
| "chat_step (CSetContext c sid tier t) s = set_with_context c sid tier t s"
| "chat_step (CSetBackend c sid tier b t) s = set_with_backend c sid tier b t s"
| "chat_step (CTouchContext c tier t) s = touch_context c tier t s"
| "chat_step (CArchive c) s = snd (chat_archive c s)"
| "chat_step (CAddSkills c ns t) s = add_skills c ns t s"
| "chat_step (CRemoveSkill c n) s = remove_skill c n s"
| "chat_step (CClearSkills c) s = clear_skills c s"
| "chat_step (CSetForced c tier t) s = set_forced_tier c tier t s"
| "chat_step (CGetForced c t) s = snd (get_forced_tier c t s)"
| "chat_step (CSetTimeout d) s = set_timeout d s"

lemma put_same_id: "chat_inv s \<Longrightarrow> ch_entries s chat = Some e \<Longrightarrow> en_chat_id e' = en_chat_id e \<Longrightarrow>
    chat_inv (put_entry chat e' s)"
  by (rule put_inv) (auto dest: inv_chat_id)

lemma put_new_id: "chat_inv s \<Longrightarrow> en_chat_id e' = en_chat_id (entry_or_new chat c a s) \<Longrightarrow>
    chat_inv (put_entry chat e' s)"
  by (rule put_inv) (auto simp: entry_or_new_id)

lemma chat_inv_step:
  assumes "chat_inv s"
  shows "chat_inv (chat_step op s)"
proof (cases op)
  case (CGet c t)
  then show ?thesis using assms by (simp add: chat_get_def drop_inv split: option.split)
next
  case (CSet c sid t)
  then show ?thesis using assms by (simp add: chat_set_def put_inv empty_entry_def)
next
  case (CTouch c t)
  then show ?thesis using assms by (auto simp: chat_touch_def split: option.split intro: put_same_id)
next
  case (CSetContext c sid tier t)
  then show ?thesis using assms by (auto simp: set_with_context_def Let_def intro: put_new_id)
next
  case (CSetBackend c sid tier b t)
  then show ?thesis using assms by (auto simp: set_with_backend_def Let_def intro: put_new_id)
next
  case (CTouchContext c tier t)
  then show ?thesis using assms by (auto simp: touch_context_def Let_def intro: put_new_id)
next
  case (CArchive c)
  then show ?thesis using assms by (simp add: chat_archive_def drop_inv split: option.split)
next
  case (CAddSkills c ns t)
  then show ?thesis using assms by (auto simp: add_skills_def Let_def intro: put_new_id)
next
  case (CRemoveSkill c n)
  then show ?thesis using assms by (auto simp: remove_skill_def split: option.split intro: put_same_id)
next
  case (CClearSkills c)
  then show ?thesis using assms by (auto simp: clear_skills_def split: option.split intro: put_same_id)
next
  case (CSetForced c tier t)
  then show ?thesis using assms by (auto simp: set_forced_tier_def Let_def intro: put_new_id)
next
  case (CGetForced c t)
  then show ?thesis using assms by (simp add: get_forced_tier_def drop_inv split: option.split)
next
  case (CSetTimeout d)
  then show ?thesis using assms by (simp add: set_timeout_def chat_inv_def)
qed

definition keyed :: "(int \<rightharpoonup> entry) \<Rightarrow> bool" where
  "keyed m \<longleftrightarrow> finite (dom m) \<and> (\<forall>chat e. m chat = Some e \<longrightarrow> en_chat_id e = chat)"

lemma keyed_load: "keyed m \<Longrightarrow> keyed (fold (\<lambda>e m. m(en_chat_id e \<mapsto> e)) es m)"
proof (induction es arbitrary: m)
  case (Cons e es)
  have "keyed (m(en_chat_id e \<mapsto> e))" using Cons.prems by (simp add: keyed_def)
  from Cons.IH[OF this] show ?case by (simp only: fold_simps)
qed simp

lemma chat_inv_new:
  assumes "enumerates order"
  shows "chat_inv (new_chat_store timeout disk True order)"
proof -
  have "keyed Map.empty" by (simp add: keyed_def)
  note k = keyed_load[OF this, of "case disk of None \<Rightarrow> [] | Some es \<Rightarrow> es", unfolded keyed_def]
  show ?thesis using k[THEN conjunct1] k[THEN conjunct2] assms
    unfolding chat_inv_def by (cases disk) (simp_all add: new_chat_store_def chat_load_def)
qed

interpretation chat: op_machine "new_chat_store timeout disk True order" chat_step
  "\<lambda>s. enumerates order \<longrightarrow> chat_inv s" for timeout disk order
  by unfold_locales (simp_all add: chat_inv_new chat_inv_step)


lemma enumerates_sorted: "enumerates (\<lambda>m. sorted_list_of_set (dom m))"
  by (simp add: enumerates_def)


section \<open>Expiry\<close>

text \<open>What happens to an expired session depends on who looks first. Every reader hides it, and
  \<open>Get\<close> and \<open>GetForcedTier\<close> delete it for good; but if a routing update (\<open>TouchContext\<close>) or
  \<open>Touch\<close> comes first, the expired session id, skills and forced tier are all live again, although
  the forced tier is documented to end with the timeout.\<close>

theorem expired_session_revived_by_touch:
  assumes "ch_entries s chat = Some e" and "expired s now e"
  shows "fst (chat_get chat now s) = [] \<and> fst (get_forced_tier chat now s) = [] \<and>
    get_skills chat now s = [] \<and> context_full chat now s = ([], [], 0) \<and>
    ch_entries (snd (chat_get chat now s)) chat = None \<and>
    fst (chat_get chat now (touch_context chat tier now (snd (chat_get chat now s)))) = [] \<and>
    fst (chat_get chat now (touch_context chat tier now s)) = en_session_id e \<and>
    fst (get_forced_tier chat now (touch_context chat tier now s)) = en_forced_tier e \<and>
    get_skills chat now (chat_touch chat now s) = en_active_skills e"
proof -
  have fresh: "\<not> expired s' now e'" if "en_last_active e' = now" for s' e'
    using that by (simp add: expired_def time_sub_def max_duration_def min_duration_def)
  show ?thesis using assms
    by (simp add: chat_get_def get_forced_tier_def get_skills_def context_full_def touch_context_def
        chat_touch_def entry_or_new_def Let_def fresh empty_entry_def)
qed

theorem expired_session_revived_by_touch_witness:
  "\<exists>s. fst (get_forced_tier 7 500 s) = [] \<and>
       fst (get_forced_tier 7 500 (touch_context 7 ''fast'' 500 s)) = ''opus''"
proof -
  let ?e = "(empty_entry 7 0 0)\<lparr>en_forced_tier := ''opus''\<rparr>"
  let ?s = "\<lparr>ch_timeout = 100, ch_entries = [7 \<mapsto> ?e], ch_disk = None, ch_disk_ok = True,
    ch_order = (\<lambda>_. [7])\<rparr>"
  have "ch_entries ?s 7 = Some ?e" "expired ?s 500 ?e"
    by (simp_all add: expired_def empty_entry_def time_sub_def max_duration_def min_duration_def)
  from expired_session_revived_by_touch[OF this, of "''fast''"] show ?thesis
    by (intro exI[of _ ?s]) simp
qed

section \<open>Skills\<close>

lemma merge_skills_spec:
  "seen = set skills \<Longrightarrow> distinct skills \<Longrightarrow>
   distinct (merge_skills skills ns seen) \<and> set (merge_skills skills ns seen) = set skills \<union> set ns \<and>
   prefix skills (merge_skills skills ns seen)"
proof (induction skills ns seen rule: merge_skills.induct)
  case (2 skills n ns seen)
  then show ?case
  proof (cases "n \<in> seen")
    case False
    then have h: "distinct (merge_skills (skills @ [n]) ns (insert n seen)) \<and>
        set (merge_skills (skills @ [n]) ns (insert n seen)) = set (skills @ [n]) \<union> set ns \<and>
        prefix (skills @ [n]) (merge_skills (skills @ [n]) ns (insert n seen))"
      using 2 by auto
    then have "prefix skills (merge_skills (skills @ [n]) ns (insert n seen))"
      using append_prefixD by blast
    then show ?thesis using h False by auto
  qed auto
qed auto

text \<open>The active skills of a chat are a set in order of activation: adding keeps what was there,
  in its order, adds each new name once, and adding the same names again changes nothing; removing a
  name removes exactly that name.\<close>

theorem active_skills_set:
  assumes "distinct (get_skills chat now s)" and "ch_timeout s = 0"
  shows "distinct (get_skills chat now (add_skills chat names now s)) \<and>
    set (get_skills chat now (add_skills chat names now s)) = set (get_skills chat now s) \<union> set names \<and>
    prefix (get_skills chat now s) (get_skills chat now (add_skills chat names now s)) \<and>
    get_skills chat now (add_skills chat names now (add_skills chat names now s)) =
      get_skills chat now (add_skills chat names now s) \<and>
    get_skills chat now (remove_skill chat n s) = filter (\<lambda>m. m \<noteq> n) (get_skills chat now s)"
proof -
  let ?m = "\<lambda>skills. merge_skills skills names (set skills)"
  have live: "\<not> expired s' now e" if "ch_timeout s' = 0" for s' e using that by (simp add: expired_def)
  have add: "get_skills chat now (add_skills chat names now s') = ?m (get_skills chat now s')"
    if "ch_timeout s' = 0" for s'
    using that by (simp add: get_skills_def add_skills_def Let_def entry_or_new_def live empty_entry_def
        split: option.split)
  have t: "ch_timeout (add_skills chat names now s) = 0"
    using assms(2) by (simp add: add_skills_def Let_def)
  have noop: "merge_skills skills ns seen = skills" if "set ns \<subseteq> seen" for skills ns and seen :: "string set"
    using that by (induction skills ns seen rule: merge_skills.induct) auto
  let ?g = "get_skills chat now s"
  note sp = merge_skills_spec[OF refl assms(1), of names]
  have "?m (?m ?g) = ?m ?g" using sp by (intro noop) auto
  moreover have "get_skills chat now (remove_skill chat n s) = filter (\<lambda>m. m \<noteq> n) ?g"
    using assms(2) by (simp add: get_skills_def remove_skill_def live split: option.split)
  ultimately show ?thesis using sp by (simp add: add[OF assms(2)] add[OF t])
qed

theorem active_skills_set_witness:
  "\<exists>s. get_skills 7 0 s = [] \<and> set (get_skills 7 0 (add_skills 7 [''a'', ''b'', ''a''] 0 s)) = {''a'', ''b''} \<and>
       distinct (get_skills 7 0 (add_skills 7 [''a'', ''b'', ''a''] 0 s))"
proof -
  let ?s = "new_chat_store 0 None True (\<lambda>_. [])"
  have "get_skills 7 0 ?s = []" "ch_timeout ?s = 0"
    by (simp_all add: new_chat_store_def chat_load_def get_skills_def)
  then show ?thesis using active_skills_set[of 7 0 ?s "[''a'', ''b'', ''a'']" "[]"]
    by (intro exI[of _ ?s]) auto
qed

end
