(* ===== verification/Scheduler.thy ===== *)
theory Scheduler
  imports Alf_Prelude
begin

text \<open>
  \<open>internal/scheduler\<close>: the job store of \<open>job.go\<close>, the engine of \<open>scheduler.go\<close> and the catch-up plan
  of \<open>catchup.go\<close>. Running a job (\<open>executor.go\<close>) is not modelled; what the cron callbacks do after
  it is. Jobs are shared pointers in Go: a pointer obtained from the store is the first job of the
  list with its id, and a write through it is a write to that job.

  The cron library (\<open>robfig/cron\<close>) and the parsers of times and durations are parameters in the
  record \<open>sched_env\<close>; so are the tier names and the error that writing the file gives, if any. The
  table of the library is modelled as far as the engine uses it: a map from entry ids to what is
  scheduled, with ids handed out in increasing order.
\<close>

section \<open>Jobs\<close>

record job =
  jb_id :: string
  jb_name :: string
  jb_description :: string
  jb_reason :: string
  jb_schedule :: string
  jb_tier :: string
  jb_prompt :: string
  jb_command :: string
  jb_message :: string
  jb_output :: string
  jb_enabled :: bool
  jb_system :: bool
  jb_managed :: bool
  jb_auto_delete :: bool
  jb_timeout :: duration
  jb_skills :: "string list"
  jb_created_at :: gotime
  jb_last_run :: "gotime option"
  jb_next_run :: "gotime option"
  jb_last_error :: string
  jb_running :: bool
  jb_cron_id :: nat

definition empty_job :: job where
  "empty_job = \<lparr>jb_id = [], jb_name = [], jb_description = [], jb_reason = [], jb_schedule = [],
     jb_tier = [], jb_prompt = [], jb_command = [], jb_message = [], jb_output = [],
     jb_enabled = False, jb_system = False, jb_managed = False, jb_auto_delete = False,
     jb_timeout = 0, jb_skills = [], jb_created_at = 0, jb_last_run = None, jb_next_run = None,
     jb_last_error = [], jb_running = False, jb_cron_id = 0\<rparr>"

type_synonym overrides = "string \<rightharpoonup> (string \<rightharpoonup> string)"

text \<open>The file \<open>cron.json\<close>: absent, unreadable, not valid JSON, or its content.\<close>

datatype cron_file = NoFile | Unreadable string | Garbled string | CronFile "job list" overrides

datatype cron_entry = CronOnce gotime string | CronFunc string string | CronSystem string string

fun entry_job :: "cron_entry \<Rightarrow> string" where
  "entry_job (CronOnce at jid) = jid"
| "entry_job (CronFunc spec jid) = jid"
| "entry_job (CronSystem spec jid) = jid"

record sched_env =
  sv_rfc3339 :: "string \<Rightarrow> gotime option"
  sv_cron_error :: "string \<Rightarrow> string option"
  sv_cron_next :: "string \<Rightarrow> gotime option"
  sv_catchup_sched :: "string \<Rightarrow> (gotime \<Rightarrow> gotime option) option"
  sv_parse_duration :: "string \<Rightarrow> duration res"
  sv_tiers :: "string list option"
  sv_save_error :: "string option"
  sv_now :: gotime

record engine =
  eg_jobs :: "job list"
  eg_overrides :: overrides
  eg_file :: cron_file
  eg_entries :: "string \<rightharpoonup> nat"
  eg_cron :: "nat \<rightharpoonup> cron_entry"
  eg_next_entry :: nat
  eg_system_funcs :: "string set"

definition new_engine :: "cron_file \<Rightarrow> engine" where
  "new_engine file = \<lparr>eg_jobs = [], eg_overrides = Map.empty, eg_file = file, eg_entries = Map.empty,
                      eg_cron = Map.empty, eg_next_entry = 1, eg_system_funcs = {}\<rparr>"

section \<open>The store\<close>

definition persisted_job :: "job \<Rightarrow> job" where
  "persisted_job j = j\<lparr>jb_running := False, jb_cron_id := 0\<rparr>"

definition override_of :: "job \<Rightarrow> (string \<rightharpoonup> string)" where
  "override_of j = [''enabled'' \<mapsto> (if jb_enabled j then ''true'' else ''false''),
     ''output'' \<mapsto> jb_output j, ''description'' \<mapsto> jb_description j, ''reason'' \<mapsto> jb_reason j]"

text \<open>The loop of \<open>Save\<close> over the jobs: a later system job with the same id overwrites.\<close>

fun collect_overrides :: "job list \<Rightarrow> overrides \<Rightarrow> overrides" where
  "collect_overrides [] m = m"
| "collect_overrides (j # js) m =
     (if jb_system j then collect_overrides js (m(jb_id j \<mapsto> override_of j)) else collect_overrides js m)"

definition store_save :: "sched_env \<Rightarrow> engine \<Rightarrow> string option \<times> engine" where
  "store_save env s =
     (let userJobs = filter (\<lambda>j. \<not> jb_system j) (eg_jobs s);
          sysOverrides = collect_overrides (eg_jobs s) Map.empty
      in case sv_save_error env of
           Some e \<Rightarrow> (Some e, s)
         | None \<Rightarrow> (None, s\<lparr>eg_file := CronFile (map persisted_job userJobs) sysOverrides\<rparr>))"

definition store_load :: "engine \<Rightarrow> string option \<times> engine" where
  "store_load s =
     (case eg_file s of
        NoFile \<Rightarrow> (None, s\<lparr>eg_jobs := []\<rparr>)
      | Unreadable e \<Rightarrow> (Some (''read cron.json: '' @ e), s)
      | Garbled e \<Rightarrow> (Some (''parse cron.json: '' @ e), s)
      | CronFile jobs ov \<Rightarrow>
          (None, s\<lparr>eg_jobs := map (\<lambda>j. if jb_output j = ''telegram'' then j\<lparr>jb_output := ''chat''\<rparr> else j)
                                  (filter (\<lambda>j. \<not> jb_system j) jobs),
                   eg_overrides := ov\<rparr>))"

definition store_get :: "string \<Rightarrow> engine \<Rightarrow> job option" where
  "store_get jid s = find (\<lambda>j. jb_id j = jid) (eg_jobs s)"

definition store_add :: "sched_env \<Rightarrow> job \<Rightarrow> engine \<Rightarrow> string option \<times> engine" where
  "store_add env j s = store_save env (s\<lparr>eg_jobs := eg_jobs s @ [j]\<rparr>)"

text \<open>A write through the pointer that \<open>Get\<close> returns.\<close>

fun modify_first :: "string \<Rightarrow> (job \<Rightarrow> job) \<Rightarrow> job list \<Rightarrow> job list" where
  "modify_first jid f [] = []"
| "modify_first jid f (j # js) = (if jb_id j = jid then f j # js else j # modify_first jid f js)"

fun remove_first :: "string \<Rightarrow> job list \<Rightarrow> job list option" where
  "remove_first jid [] = None"
| "remove_first jid (j # js) = (if jb_id j = jid then Some js else map_option ((#) j) (remove_first jid js))"

definition store_remove :: "sched_env \<Rightarrow> string \<Rightarrow> engine \<Rightarrow> bool \<times> engine" where
  "store_remove env jid s =
     (case remove_first jid (eg_jobs s) of
        None \<Rightarrow> (False, s)
      | Some js \<Rightarrow> (True, snd (store_save env (s\<lparr>eg_jobs := js\<rparr>))))"

definition store_update :: "sched_env \<Rightarrow> job \<Rightarrow> engine \<Rightarrow> string option \<times> engine" where
  "store_update env j s = store_save env (s\<lparr>eg_jobs := modify_first (jb_id j) (\<lambda>_. j) (eg_jobs s)\<rparr>)"

section \<open>Scheduling\<close>

definition cron_add :: "string \<Rightarrow> cron_entry \<Rightarrow> engine \<Rightarrow> engine" where
  "cron_add jid c s = s\<lparr>eg_cron := (eg_cron s)(eg_next_entry s \<mapsto> c),
                        eg_entries := (eg_entries s)(jid \<mapsto> eg_next_entry s),
                        eg_next_entry := eg_next_entry s + 1\<rparr>"

definition cron_remove :: "string \<Rightarrow> engine \<Rightarrow> engine" where
  "cron_remove jid s =
     (case eg_entries s jid of
        None \<Rightarrow> s
      | Some n \<Rightarrow> s\<lparr>eg_cron := (eg_cron s)(n := None), eg_entries := (eg_entries s)(jid := None)\<rparr>)"

text \<open>\<open>onceSchedule.Next\<close>.\<close>

definition once_next :: "gotime \<Rightarrow> gotime \<Rightarrow> gotime option" where
  "once_next at t = (if t < at then Some at else None)"

definition schedule_job :: "sched_env \<Rightarrow> job \<Rightarrow> engine \<Rightarrow> (job \<times> engine) res" where
  "schedule_job env j s =
     (case sv_rfc3339 env (jb_schedule j) of
        Some at \<Rightarrow>
          Ok (case once_next at (sv_now env) of None \<Rightarrow> j | Some n \<Rightarrow> j\<lparr>jb_next_run := Some n\<rparr>,
              cron_add (jb_id j) (CronOnce at (jb_id j)) s)
      | None \<Rightarrow>
          (case sv_cron_error env (jb_schedule j) of
             Some e \<Rightarrow> Err e
           | None \<Rightarrow>
               Ok (case sv_cron_next env (jb_schedule j) of None \<Rightarrow> j | Some n \<Rightarrow> j\<lparr>jb_next_run := Some n\<rparr>,
                   cron_add (jb_id j) (CronFunc (jb_schedule j) (jb_id j)) s)))"

text \<open>What the callback of a one-shot does when the job has run.\<close>

definition finish_one_shot :: "sched_env \<Rightarrow> string \<Rightarrow> engine \<Rightarrow> engine" where
  "finish_one_shot env jid s =
     (let s1 = s\<lparr>eg_jobs := modify_first jid (\<lambda>j. j\<lparr>jb_enabled := False\<rparr>) (eg_jobs s)\<rparr>;
          s2 = snd (store_save env s1)
      in case store_get jid s2 of
           None \<Rightarrow> s2
         | Some j \<Rightarrow> if jb_auto_delete j then snd (store_remove env jid s2) else s2)"

definition register_system :: "sched_env \<Rightarrow> string \<Rightarrow> string \<Rightarrow> string \<Rightarrow> string \<Rightarrow> engine \<Rightarrow> engine" where
  "register_system env jid name schedule desc s =
     (let j = empty_job\<lparr>jb_id := jid, jb_name := name, jb_description := desc, jb_schedule := schedule,
                        jb_system := True, jb_enabled := True, jb_output := ''silent'',
                        jb_created_at := sv_now env\<rparr>;
          s1 = s\<lparr>eg_system_funcs := insert jid (eg_system_funcs s)\<rparr>
      in case sv_cron_error env schedule of
           Some _ \<Rightarrow> s1
         | None \<Rightarrow>
             let s2 = cron_add jid (CronSystem schedule jid) s1
             in s2\<lparr>eg_jobs := eg_jobs s2 @ [j\<lparr>jb_cron_id := eg_next_entry s1\<rparr>]\<rparr>)"

text \<open>\<open>strings.Fields\<close> on ASCII white space.\<close>

fun fields_acc :: "string \<Rightarrow> string \<Rightarrow> string list" where
  "fields_acc [] acc = (if acc = [] then [] else [rev acc])"
| "fields_acc (c # s) acc =
     (if is_space c then (if acc = [] then fields_acc s [] else rev acc # fields_acc s [])
      else fields_acc s (c # acc))"

definition str_fields :: "string \<Rightarrow> string list" where "str_fields s = fields_acc s []"

definition warn_fixed_day_month_cron :: "string \<Rightarrow> string option" where
  "warn_fixed_day_month_cron schedule =
     (let fields = str_fields schedule in
      if length fields \<noteq> 6 then None
      else let day = fields ! 3; month = fields ! 4; plain = (\<lambda>f. \<not> str_contains f ''/'' \<and> \<not> str_contains f ''-'' \<and> \<not> str_contains f '','')
        in if day \<noteq> ''*'' \<and> month \<noteq> ''*'' \<and> plain day \<and> plain month
           then Some (''cron '' @ go_quote schedule @ '' has fixed day='' @ day @ '' month='' @ month @
                      '' which creates a yearly recurrence. For a one-time job, use RFC3339 format '' @
                      ''(e.g. 2026-03-23T09:00:00+02:00) instead'')
           else None)"

definition validOutputs :: "string list" where
  "validOutputs = [''chat'', ''file'', ''both'', ''silent'']"

definition invalid_output :: "string \<Rightarrow> string" where
  "invalid_output v = ''invalid output '' @ go_quote v @ '' (must be chat, file, both, or silent)''"

text \<open>The check that a tier name exists; without a tier store every name passes.\<close>

definition tier_known :: "sched_env \<Rightarrow> string \<Rightarrow> bool" where
  "tier_known env tier = (case sv_tiers env of None \<Rightarrow> True | Some names \<Rightarrow> tier \<in> set names)"

text \<open>The common end of \<open>Create\<close> and \<open>CreateReminder\<close>: schedule, then add. The result is the job or
  the error, and the engine.\<close>

definition add_scheduled :: "sched_env \<Rightarrow> job \<Rightarrow> engine \<Rightarrow> job res \<times> engine" where
  "add_scheduled env j s =
     (case schedule_job env j s of
        Inl e \<Rightarrow> (Err (''invalid schedule: '' @ e), s)
      | Inr (j', s1) \<Rightarrow>
          (case store_add env j' s1 of
             (Some e, s2) \<Rightarrow> (Err e, s2)
           | (None, s2) \<Rightarrow> (Ok j', s2)))"

definition create_job ::
  "sched_env \<Rightarrow> string \<Rightarrow> string \<Rightarrow> string \<Rightarrow> string \<Rightarrow> string \<Rightarrow> string \<Rightarrow> string \<Rightarrow> duration \<Rightarrow>
   string list \<Rightarrow> string \<Rightarrow> engine \<Rightarrow> job res \<times> engine" where
  "create_job env new_id name schedule tier prompt command output0 timeout skills reason s =
     (let output = (if output0 = [] then ''chat'' else output0) in
      if output \<notin> set validOutputs then (Err (invalid_output output), s)
      else if tier \<noteq> [] \<and> tier \<noteq> ''direct'' \<and> \<not> tier_known env tier
      then (Err (''unknown tier '' @ go_quote tier), s)
      else if sv_rfc3339 env schedule = None \<and> warn_fixed_day_month_cron schedule \<noteq> None
      then (Err (the (warn_fixed_day_month_cron schedule)), s)
      else add_scheduled env
        (empty_job\<lparr>jb_id := new_id, jb_name := name, jb_schedule := schedule, jb_tier := tier,
           jb_prompt := prompt, jb_command := command, jb_output := output, jb_timeout := timeout,
           jb_skills := skills, jb_reason := reason, jb_enabled := True, jb_created_at := sv_now env,
           jb_auto_delete := (sv_rfc3339 env schedule \<noteq> None)\<rparr>) s)"

definition create_reminder ::
  "sched_env \<Rightarrow> string \<Rightarrow> string \<Rightarrow> string \<Rightarrow> string \<Rightarrow> string \<Rightarrow> duration \<Rightarrow> string \<Rightarrow> engine \<Rightarrow>
   job res \<times> engine" where
  "create_reminder env new_id name schedule message output0 timeout reason s =
     (let output = (if output0 = [] then ''chat'' else output0) in
      if output \<notin> set validOutputs then (Err (invalid_output output), s)
      else if sv_rfc3339 env schedule = None \<and> warn_fixed_day_month_cron schedule \<noteq> None
      then (Err (the (warn_fixed_day_month_cron schedule)), s)
      else add_scheduled env
        (empty_job\<lparr>jb_id := new_id, jb_name := name, jb_schedule := schedule, jb_message := message,
           jb_output := output, jb_timeout := timeout, jb_reason := reason, jb_enabled := True,
           jb_created_at := sv_now env, jb_auto_delete := (sv_rfc3339 env schedule \<noteq> None)\<rparr>) s)"

definition delete_job :: "sched_env \<Rightarrow> string \<Rightarrow> engine \<Rightarrow> string option \<times> engine" where
  "delete_job env jid s =
     (case store_get jid s of
        None \<Rightarrow> (Some (''job '' @ jid @ '' not found''), s)
      | Some j \<Rightarrow>
          if jb_system j then (Some (''cannot delete system job '' @ jid), s)
          else if jb_managed j then (Some (''cannot delete managed job '' @ jid), s)
          else (None, snd (store_remove env jid (cron_remove jid s))))"

section \<open>Update\<close>

definition systemAllowed :: "string list" where
  "systemAllowed = [''enabled'', ''output'', ''output_mode'', ''description'', ''reason'', ''tier'']"

definition managedAllowed :: "string list" where
  "managedAllowed = [''enabled'', ''output'', ''tier'', ''schedule'', ''description'', ''reason'']"

text \<open>One field: the job with the value written, or the error of an invalid timeout. An unknown
  field is ignored.\<close>

definition set_field :: "sched_env \<Rightarrow> string \<Rightarrow> string \<Rightarrow> job \<Rightarrow> job res" where
  "set_field env k v j =
     (if k = ''name'' then Ok (j\<lparr>jb_name := v\<rparr>)
      else if k = ''description'' then Ok (j\<lparr>jb_description := v\<rparr>)
      else if k = ''schedule'' then Ok (j\<lparr>jb_schedule := v\<rparr>)
      else if k = ''tier'' then Ok (j\<lparr>jb_tier := v\<rparr>)
      else if k = ''prompt'' then Ok (j\<lparr>jb_prompt := v\<rparr>)
      else if k = ''command'' then Ok (j\<lparr>jb_command := v\<rparr>)
      else if k = ''message'' then Ok (j\<lparr>jb_message := v\<rparr>)
      else if k = ''reason'' then Ok (j\<lparr>jb_reason := v\<rparr>)
      else if k = ''output'' then Ok (j\<lparr>jb_output := v\<rparr>)
      else if k = ''timeout'' then
        (case sv_parse_duration env v of
           Inl e \<Rightarrow> Err (''invalid timeout '' @ go_quote v @ '': '' @ e)
         | Inr d \<Rightarrow> Ok (j\<lparr>jb_timeout := d\<rparr>))
      else if k = ''enabled'' then Ok (j\<lparr>jb_enabled := (v = ''true'')\<rparr>)
      else Ok j)"

text \<open>The loop over the fields, in the order in which Go ranges over the map: the first invalid
  timeout ends it with an error, after the fields before it have been written. The result is the
  error, the job and the flag \<open>reschedule\<close>.\<close>

fun apply_fields ::
  "sched_env \<Rightarrow> (string \<times> string) list \<Rightarrow> job \<Rightarrow> bool \<Rightarrow> string option \<times> job \<times> bool" where
  "apply_fields env [] j resched = (None, j, resched)"
| "apply_fields env ((k, v) # fs) j resched =
     (case set_field env k v j of
        Inl e \<Rightarrow> (Some e, j, resched)
      | Inr j' \<Rightarrow> apply_fields env fs j' (resched \<or> k = ''schedule'' \<or> k = ''enabled''))"

definition write_job :: "string \<Rightarrow> job \<Rightarrow> engine \<Rightarrow> engine" where
  "write_job jid j s = s\<lparr>eg_jobs := modify_first jid (\<lambda>_. j) (eg_jobs s)\<rparr>"

text \<open>The second half of \<open>Update\<close>, when its checks and the fields have passed: reschedule, then store.\<close>

definition update_tail ::
  "sched_env \<Rightarrow> string \<Rightarrow> job \<Rightarrow> bool \<Rightarrow> engine \<Rightarrow> job res \<times> engine" where
  "update_tail env jid j1 resched s =
     (let s1 = write_job jid j1 s;
          s2 = (if resched then cron_remove jid s1 else s1);
          scheduled =
            (if resched \<and> jb_enabled j1 then
               (if jb_system j1 then
                  (if jid \<in> eg_system_funcs s2 \<and> sv_cron_error env (jb_schedule j1) = None
                   then Ok (j1, cron_add jid (CronSystem (jb_schedule j1) jid) s2)
                   else Ok (j1, s2))
                else schedule_job env j1 s2)
             else Ok (j1, s2))
      in (case scheduled of
            Inl e \<Rightarrow> (Err (''invalid schedule: '' @ e), s2)
          | Inr (j2, s3) \<Rightarrow>
              (case store_update env j2 (write_job jid j2 s3) of
                 (Some e, s4) \<Rightarrow> (Err e, s4)
               | (None, s4) \<Rightarrow> (Ok j2, s4))))"

text \<open>The first field that is not allowed, when the job is locked.\<close>

definition locked_field :: "bool \<Rightarrow> string list \<Rightarrow> (string \<times> string) list \<Rightarrow> string option" where
  "locked_field locked allowed flds =
     (if locked then map_option fst (find (\<lambda>(k, _). k \<notin> set allowed) flds) else None)"

text \<open>The checks before anything is written; the fields are in the order of the iteration.\<close>

definition update_refusal :: "sched_env \<Rightarrow> string \<Rightarrow> job \<Rightarrow> (string \<times> string) list \<Rightarrow> string option" where
  "update_refusal env jid j flds =
     (case locked_field (jb_system j) systemAllowed flds of
        Some k \<Rightarrow> Some (''cannot modify field '' @ go_quote k @ '' on system job '' @ jid @
                        '' (allowed: enabled, output, output_mode, description, tier)'')
      | None \<Rightarrow>
          (case locked_field (jb_managed j) managedAllowed flds of
             Some k \<Rightarrow> Some (''cannot modify field '' @ go_quote k @ '' on managed job '' @ jid @
                             '' (allowed: enabled, output, tier, schedule)'')
           | None \<Rightarrow>
               if (case map_of flds ''output'' of None \<Rightarrow> False | Some v \<Rightarrow> v \<notin> set validOutputs)
               then Some (invalid_output (the (map_of flds ''output'')))
               else if (case map_of flds ''tier'' of None \<Rightarrow> False
                        | Some v \<Rightarrow> v \<noteq> ''direct'' \<and> \<not> tier_known env v)
               then Some (''unknown tier '' @ go_quote (the (map_of flds ''tier'')))
               else None))"

definition update_job ::
  "sched_env \<Rightarrow> string \<Rightarrow> (string \<times> string) list \<Rightarrow> engine \<Rightarrow> job res \<times> engine" where
  "update_job env jid flds s =
     (case store_get jid s of
        None \<Rightarrow> (Err (''job '' @ jid @ '' not found''), s)
      | Some j \<Rightarrow>
          (case update_refusal env jid j flds of
             Some e \<Rightarrow> (Err e, s)
           | None \<Rightarrow>
               (case apply_fields env flds j False of
                  (Some e, j1, _) \<Rightarrow> (Err e, write_job jid j1 s)
                | (None, j1, resched) \<Rightarrow> update_tail env jid j1 resched s)))"

section \<open>Managed jobs\<close>

definition stale_tier :: "sched_env \<Rightarrow> string \<Rightarrow> job \<Rightarrow> bool" where
  "stale_tier env tier existing \<longleftrightarrow>
     tier \<noteq> [] \<and> jb_tier existing \<noteq> tier \<and> \<not> tier_known env (jb_tier existing)"

definition add_managed :: "sched_env \<Rightarrow> job \<Rightarrow> engine \<Rightarrow> job res \<times> engine" where
  "add_managed env j s =
     (if jb_enabled j then add_scheduled env j s
      else (case store_add env j s of (Some e, s2) \<Rightarrow> (Err e, s2) | (None, s2) \<Rightarrow> (Ok j, s2)))"

definition ensure_managed ::
  "sched_env \<Rightarrow> string \<Rightarrow> string \<Rightarrow> string \<Rightarrow> string \<Rightarrow> string \<Rightarrow> string \<Rightarrow> string list \<Rightarrow> bool \<Rightarrow> engine \<Rightarrow>
   job res \<times> engine" where
  "ensure_managed env jid name schedule tier prompt output skills enabled s =
     (case store_get jid s of
        Some existing \<Rightarrow>
          let backfill = (jb_skills existing = [] \<and> skills \<noteq> []);
              e1 = (if backfill then existing\<lparr>jb_skills := skills\<rparr> else existing);
              stale = stale_tier env tier e1;
              e2 = (if stale then e1\<lparr>jb_tier := tier\<rparr> else e1)
          in if backfill \<or> stale then (Ok e2, snd (store_update env e2 (write_job jid e2 s))) else (Ok e2, s)
      | None \<Rightarrow>
          add_managed env
            (empty_job\<lparr>jb_id := jid, jb_name := name, jb_schedule := schedule, jb_tier := tier,
               jb_prompt := prompt, jb_output := output, jb_skills := skills, jb_managed := True,
               jb_enabled := enabled, jb_created_at := sv_now env\<rparr>) s)"

definition ensure_managed_full ::
  "sched_env \<Rightarrow> string \<Rightarrow> string \<Rightarrow> string \<Rightarrow> string \<Rightarrow> string \<Rightarrow> string \<Rightarrow> string \<Rightarrow> string list \<Rightarrow> bool \<Rightarrow> engine \<Rightarrow>
   job res \<times> engine" where
  "ensure_managed_full env jid name schedule tier prompt command output skills enabled s =
     (case store_get jid s of
        Some existing \<Rightarrow>
          if stale_tier env tier existing then
            let e2 = existing\<lparr>jb_tier := tier\<rparr> in (Ok e2, snd (store_update env e2 (write_job jid e2 s)))
          else (Ok existing, s)
      | None \<Rightarrow>
          add_managed env
            (empty_job\<lparr>jb_id := jid, jb_name := name, jb_schedule := schedule, jb_tier := tier,
               jb_prompt := prompt, jb_command := command, jb_output := output, jb_skills := skills,
               jb_managed := True, jb_enabled := enabled, jb_created_at := sv_now env\<rparr>) s)"

definition list_jobs :: "bool \<Rightarrow> engine \<Rightarrow> job list" where
  "list_jobs userOnly s = (if \<not> userOnly then eg_jobs s else filter (\<lambda>j. \<not> jb_system j) (eg_jobs s))"

text \<open>\<open>RunNow\<close>: the clone of the job that is executed; the stored job is not touched.\<close>

definition run_now :: "string \<Rightarrow> engine \<Rightarrow> job res" where
  "run_now jid s =
     (case store_get jid s of
        None \<Rightarrow> Err (''job '' @ jid @ '' not found'')
      | Some j \<Rightarrow> Ok (j\<lparr>jb_running := False\<rparr>))"

section \<open>Start and catch-up\<close>

definition catchupMaxDowntime :: duration where "catchupMaxDowntime = 24 * hour"

definition apply_override :: "(string \<rightharpoonup> string) \<Rightarrow> job \<Rightarrow> job" where
  "apply_override ov j =
     (let j1 = (case ov ''enabled'' of None \<Rightarrow> j | Some v \<Rightarrow> j\<lparr>jb_enabled := (v = ''true'')\<rparr>);
          j2 = (case ov ''output'' of None \<Rightarrow> j1 | Some v \<Rightarrow> if v \<noteq> [] then j1\<lparr>jb_output := v\<rparr> else j1);
          j3 = (case ov ''description'' of None \<Rightarrow> j2 | Some v \<Rightarrow> j2\<lparr>jb_description := v\<rparr>)
      in (case ov ''reason'' of None \<Rightarrow> j3 | Some v \<Rightarrow> j3\<lparr>jb_reason := v\<rparr>))"

definition override_job :: "overrides \<Rightarrow> job \<Rightarrow> job" where
  "override_job ovs j =
     (if jb_system j then (case ovs (jb_id j) of None \<Rightarrow> j | Some ov \<Rightarrow> apply_override ov j) else j)"

fun unschedule_disabled :: "overrides \<Rightarrow> job list \<Rightarrow> engine \<Rightarrow> engine" where
  "unschedule_disabled ovs [] s = s"
| "unschedule_disabled ovs (j # js) s =
     unschedule_disabled ovs js
       (if ovs (jb_id j) \<noteq> None \<and> \<not> jb_enabled (override_job ovs j) then cron_remove (jb_id j) s else s)"

text \<open>Whether \<open>Start\<close> removes a one-shot whose time has passed. \<open>lastSeen\<close> is \<open>None\<close> when there is no
  liveness file.\<close>

definition expired_one_shot :: "sched_env \<Rightarrow> gotime option \<Rightarrow> job \<Rightarrow> bool" where
  "expired_one_shot env lastSeen j =
     (if jb_system j then False
      else (case sv_rfc3339 env (jb_schedule j) of
              None \<Rightarrow> False
            | Some at \<Rightarrow>
                if sv_now env < at then False
                else (case lastSeen of
                        None \<Rightarrow> True
                      | Some ls \<Rightarrow> \<not> (time_sub (sv_now env) ls \<le> catchupMaxDowntime \<and> jb_enabled j \<and> ls < at))))"

fun remove_all :: "sched_env \<Rightarrow> string list \<Rightarrow> engine \<Rightarrow> engine" where
  "remove_all env [] s = s"
| "remove_all env (jid # ids) s = remove_all env ids (snd (store_remove env jid s))"

fun schedule_all :: "sched_env \<Rightarrow> job list \<Rightarrow> engine \<Rightarrow> engine" where
  "schedule_all env [] s = s"
| "schedule_all env (j # js) s =
     (if jb_system j \<or> \<not> jb_enabled j then schedule_all env js s
      else (case schedule_job env j s of
              Inl _ \<Rightarrow> schedule_all env js s
            | Inr (j', s') \<Rightarrow> schedule_all env js (write_job (jb_id j) j' s')))"

text \<open>\<open>Start\<close> up to the start of the cron loop: the refresh of \<open>NextRun\<close>, the catch-up (below) and
  the socket server follow it.\<close>

definition start_engine :: "sched_env \<Rightarrow> gotime option \<Rightarrow> engine \<Rightarrow> engine" where
  "start_engine env lastSeen s =
     (let systemJobs = filter jb_system (eg_jobs s);
          s1 = snd (store_load s);
          s2 = s1\<lparr>eg_jobs := systemJobs @ eg_jobs s1\<rparr>;
          ovs = eg_overrides s2;
          s3 = unschedule_disabled ovs systemJobs (s2\<lparr>eg_jobs := map (override_job ovs) (eg_jobs s2)\<rparr>);
          expired = map jb_id (filter (expired_one_shot env lastSeen) (eg_jobs s3));
          s4 = remove_all env expired s3
      in schedule_all env (eg_jobs s4) s4)"

record catchup_decision =
  cd_job_id :: string
  cd_run :: bool

definition plan_one :: "sched_env \<Rightarrow> gotime \<Rightarrow> duration \<Rightarrow> job \<Rightarrow> catchup_decision list" where
  "plan_one env lastSeen recurringMinInterval j =
     (if \<not> jb_enabled j \<or> jb_system j then []
      else (case sv_rfc3339 env (jb_schedule j) of
              Some at \<Rightarrow>
                if lastSeen < at \<and> \<not> sv_now env < at then [\<lparr>cd_job_id = jb_id j, cd_run = True\<rparr>] else []
            | None \<Rightarrow>
                if recurringMinInterval \<le> 0 then []
                else (case sv_catchup_sched env (jb_schedule j) of
                        None \<Rightarrow> []
                      | Some nxt \<Rightarrow>
                          (case nxt lastSeen of
                             None \<Rightarrow> []
                           | Some first \<Rightarrow>
                               if sv_now env < first then []
                               else (case nxt first of
                                       None \<Rightarrow> []
                                     | Some second_tick \<Rightarrow>
                                         if time_sub second_tick first < recurringMinInterval then []
                                         else [\<lparr>cd_job_id = jb_id j, cd_run = True\<rparr>])))))"

definition plan_catchup ::
  "sched_env \<Rightarrow> job list \<Rightarrow> gotime option \<Rightarrow> duration \<Rightarrow> catchup_decision list" where
  "plan_catchup env jobs lastSeen recurringMinInterval =
     (case lastSeen of
        None \<Rightarrow> []
      | Some ls \<Rightarrow>
          let downtime = time_sub (sv_now env) ls in
          if downtime \<le> 0 \<or> catchupMaxDowntime < downtime then []
          else concat (map (plan_one env ls recurringMinInterval) jobs))"

end
