(* ===== verification/Scheduler_Properties.thy ===== *)
theory Scheduler_Properties
  imports Scheduler
begin

text \<open>
  Correctness of the scheduler: the table of the cron library and the engine's map stay in step over
  any sequence of operations, creation is all-or-nothing when the file can be written, locked fields
  stay locked, the file round-trips, and every missed one-shot is either replayed or removed.
\<close>

section \<open>The cron table and the map of entries\<close>

definition sched_wf :: "engine \<Rightarrow> bool" where
  "sched_wf s \<longleftrightarrow>
     (\<forall>jid n. eg_entries s jid = Some n \<longrightarrow> n < eg_next_entry s) \<and>
     (\<forall>n c. eg_cron s n = Some c \<longrightarrow> eg_entries s (entry_job c) = Some n) \<and>
     distinct (map jb_id (eg_jobs s))"

lemma store_save_sel [simp]:
  "eg_jobs (snd (store_save env s)) = eg_jobs s"
  "eg_entries (snd (store_save env s)) = eg_entries s"
  "eg_cron (snd (store_save env s)) = eg_cron s"
  "eg_next_entry (snd (store_save env s)) = eg_next_entry s"
  "eg_system_funcs (snd (store_save env s)) = eg_system_funcs s"
  "fst (store_save env s) = sv_save_error env"
  by (auto simp: store_save_def Let_def split: option.splits)

lemma cron_add_sel [simp]:
  "eg_jobs (cron_add jid c s) = eg_jobs s"
  "eg_file (cron_add jid c s) = eg_file s"
  "eg_system_funcs (cron_add jid c s) = eg_system_funcs s"
  "eg_entries (cron_add jid c s) = (eg_entries s)(jid \<mapsto> eg_next_entry s)"
  by (simp_all add: cron_add_def)

lemma cron_remove_sel [simp]:
  "eg_jobs (cron_remove jid s) = eg_jobs s"
  "eg_file (cron_remove jid s) = eg_file s"
  "eg_next_entry (cron_remove jid s) = eg_next_entry s"
  "eg_system_funcs (cron_remove jid s) = eg_system_funcs s"
  "eg_entries (cron_remove jid s) = (eg_entries s)(jid := None)"
  by (auto simp: cron_remove_def split: option.splits)

lemma write_job_sel [simp]:
  "eg_entries (write_job jid j s) = eg_entries s" "eg_cron (write_job jid j s) = eg_cron s"
  "eg_next_entry (write_job jid j s) = eg_next_entry s" "eg_file (write_job jid j s) = eg_file s"
  "eg_system_funcs (write_job jid j s) = eg_system_funcs s"
  "eg_jobs (write_job jid j s) = modify_first jid (\<lambda>_. j) (eg_jobs s)"
  by (simp_all add: write_job_def)

lemma modify_first_ids:
  "(\<And>j. jb_id j = jid \<Longrightarrow> jb_id (f j) = jid) \<Longrightarrow> map jb_id (modify_first jid f js) = map jb_id js"
  by (induction js) auto

lemma remove_first_ids:
  "remove_first jid js = Some js' \<Longrightarrow> distinct (map jb_id js) \<Longrightarrow>
   distinct (map jb_id js') \<and> jid \<notin> set (map jb_id js') \<and> set (map jb_id js') \<subseteq> set (map jb_id js)"
proof (induction js arbitrary: js')
  case (Cons j js)
  show ?case
  proof (cases "jb_id j = jid")
    case False
    then obtain ks where "remove_first jid js = Some ks" "js' = j # ks" using Cons.prems(1) by auto
    then show ?thesis using Cons.IH[of ks] Cons.prems(2) False by auto
  qed (use Cons.prems in auto)
qed simp

lemma store_get_id: "store_get jid s = Some j \<Longrightarrow> jb_id j = jid \<and> j \<in> set (eg_jobs s)"
  by (auto simp: store_get_def find_Some_iff)

lemma store_get_None: "store_get jid s = None \<longleftrightarrow> jid \<notin> set (map jb_id (eg_jobs s))"
  by (auto simp: store_get_def find_None_iff)

lemma wf_same:
  "sched_wf s \<Longrightarrow> eg_entries s' = eg_entries s \<Longrightarrow> eg_cron s' = eg_cron s \<Longrightarrow>
   eg_next_entry s' = eg_next_entry s \<Longrightarrow> distinct (map jb_id (eg_jobs s')) \<Longrightarrow> sched_wf s'"
  by (simp add: sched_wf_def)

lemma wf_cron_add:
  assumes "sched_wf s" and "eg_entries s jid = None" and "entry_job c = jid"
  shows "sched_wf (cron_add jid c s)"
proof -
  have lt: "\<And>j n. eg_entries s j = Some n \<Longrightarrow> n < eg_next_entry s"
    and ce: "\<And>n c. eg_cron s n = Some c \<Longrightarrow> eg_entries s (entry_job c) = Some n"
    and d: "distinct (map jb_id (eg_jobs s))" using assms(1) by (auto simp: sched_wf_def)
  have "eg_entries (cron_add jid c s) (entry_job c') = Some n" if "eg_cron (cron_add jid c s) n = Some c'" for n c'
    using that assms(2,3) ce[of n c'] by (auto simp: cron_add_def split: if_splits)
  moreover have "n < eg_next_entry (cron_add jid c s)" if "eg_entries (cron_add jid c s) j = Some n" for j n
    using that lt[of j n] by (auto simp: cron_add_def split: if_splits)
  ultimately show ?thesis using d by (simp add: sched_wf_def)
qed

lemma wf_cron_remove:
  assumes "sched_wf s"
  shows "sched_wf (cron_remove jid s)"
proof (cases "eg_entries s jid")
  case (Some n)
  have ce: "\<And>n c. eg_cron s n = Some c \<Longrightarrow> eg_entries s (entry_job c) = Some n"
    using assms by (auto simp: sched_wf_def)
  have "eg_entries (cron_remove jid s) (entry_job c) = Some m" if "eg_cron (cron_remove jid s) m = Some c" for m c
    using that Some ce[of m c] by (auto simp: cron_remove_def split: if_splits)
  then show ?thesis using assms by (auto simp: sched_wf_def)
qed (use assms in \<open>simp add: cron_remove_def\<close>)

lemma cron_remove_gone:
  assumes "sched_wf s"
  shows "jid \<notin> entry_job ` ran (eg_cron (cron_remove jid s))"
proof -
  have ce: "\<And>n c. eg_cron s n = Some c \<Longrightarrow> eg_entries s (entry_job c) = Some n"
    using assms by (auto simp: sched_wf_def)
  have "entry_job c \<noteq> jid" if "eg_cron (cron_remove jid s) n = Some c" for n c
    using that ce[of n c] by (auto simp: cron_remove_def split: option.splits if_splits)
  then show ?thesis by (auto simp: ran_def)
qed

lemma schedule_job_next:
  assumes "schedule_job env j s = Ok (j', s')"
  shows "\<exists>n. j' = j\<lparr>jb_next_run := n\<rparr>"
proof -
  have "j = j\<lparr>jb_next_run := jb_next_run j\<rparr>" by simp
  moreover have "j' = j \<or> (\<exists>n. j' = j\<lparr>jb_next_run := n\<rparr>)"
    using assms by (auto simp: schedule_job_def split: option.splits)
  ultimately show ?thesis by metis
qed

lemma wf_schedule:
  assumes "schedule_job env j s = Ok (j', s')" and "sched_wf s" and "eg_entries s (jb_id j) = None"
  shows "sched_wf s'" and "jb_id j' = jb_id j" and "eg_jobs s' = eg_jobs s" and "eg_file s' = eg_file s"
    and "\<exists>c. s' = cron_add (jb_id j) c s \<and> entry_job c = jb_id j"
    and "\<exists>n. j' = j\<lparr>jb_next_run := n\<rparr>"
proof -
  show c: "\<exists>c. s' = cron_add (jb_id j) c s \<and> entry_job c = jb_id j"
    using assms(1) by (auto simp: schedule_job_def split: option.splits)
  then show "sched_wf s'" "eg_jobs s' = eg_jobs s" "eg_file s' = eg_file s"
    using wf_cron_add[OF assms(2,3)] by auto
  show "\<exists>n. j' = j\<lparr>jb_next_run := n\<rparr>" by (rule schedule_job_next[OF assms(1)])
  then show "jb_id j' = jb_id j" by auto
qed

lemma wf_distinct: "sched_wf s \<Longrightarrow> distinct (map jb_id (eg_jobs s))"
  by (simp add: sched_wf_def)

lemma wf_save: "sched_wf s \<Longrightarrow> sched_wf (snd (store_save env s))"
  by (rule wf_same) (simp_all add: wf_distinct)

lemma wf_jobs: "sched_wf s \<Longrightarrow> distinct (map jb_id js) \<Longrightarrow> sched_wf (s\<lparr>eg_jobs := js\<rparr>)"
  by (simp add: sched_wf_def)

lemma wf_add:
  assumes "sched_wf s" "jb_id j \<notin> set (map jb_id (eg_jobs s))"
  shows "sched_wf (snd (store_add env j s))"
  unfolding store_add_def using assms by (intro wf_save wf_jobs) (simp_all add: wf_distinct)

lemma wf_write: "sched_wf s \<Longrightarrow> jb_id j = jid \<Longrightarrow> sched_wf (write_job jid j s)"
  unfolding write_job_def by (rule wf_jobs) (simp_all add: modify_first_ids wf_distinct)

lemma wf_update_store: "sched_wf s \<Longrightarrow> sched_wf (snd (store_update env j s))"
  unfolding store_update_def by (intro wf_save wf_jobs) (simp_all add: modify_first_ids wf_distinct)

lemma wf_store_remove:
  assumes "sched_wf s"
  shows "sched_wf (snd (store_remove env jid s))"
proof (cases "remove_first jid (eg_jobs s)")
  case (Some js)
  then have "distinct (map jb_id js)" using remove_first_ids wf_distinct[OF assms] by blast
  then show ?thesis using Some assms by (simp add: store_remove_def wf_save wf_jobs)
qed (use assms in \<open>simp add: store_remove_def\<close>)

lemma wf_add_scheduled:
  assumes "sched_wf s" "eg_entries s (jb_id j) = None" "jb_id j \<notin> set (map jb_id (eg_jobs s))"
  shows "sched_wf (snd (add_scheduled env j s))"
proof (cases "schedule_job env j s")
  case (Inr p)
  obtain j' s1 where p: "p = (j', s1)" by (cases p)
  note w = wf_schedule[OF Inr[unfolded p] assms(1,2)]
  have "sched_wf (snd (store_add env j' s1))" using w(1-3) assms(3) by (intro wf_add) auto
  then show ?thesis using Inr p by (auto simp: add_scheduled_def split: prod.split option.split)
qed (use assms in \<open>simp add: add_scheduled_def\<close>)

lemmas set_field_splits = if_split_asm sum.split_asm

lemma set_field_id: "set_field env k v j = Ok j' \<Longrightarrow> jb_id j' = jb_id j"
  unfolding set_field_def by (simp split: set_field_splits; auto)

lemma set_field_system: "set_field env k v j = Ok j' \<Longrightarrow> jb_system j' = jb_system j"
  unfolding set_field_def by (simp split: set_field_splits; auto)

lemma set_field_managed: "set_field env k v j = Ok j' \<Longrightarrow> jb_managed j' = jb_managed j"
  unfolding set_field_def by (simp split: set_field_splits; auto)

lemma set_field_name: "set_field env k v j = Ok j' \<Longrightarrow> k \<noteq> ''name'' \<Longrightarrow> jb_name j' = jb_name j"
  unfolding set_field_def by (simp split: set_field_splits; auto)

lemma set_field_schedule: "set_field env k v j = Ok j' \<Longrightarrow> k \<noteq> ''schedule'' \<Longrightarrow> jb_schedule j' = jb_schedule j"
  unfolding set_field_def by (simp split: set_field_splits; auto)

lemma set_field_prompt: "set_field env k v j = Ok j' \<Longrightarrow> k \<noteq> ''prompt'' \<Longrightarrow> jb_prompt j' = jb_prompt j"
  unfolding set_field_def by (simp split: set_field_splits; auto)

lemma set_field_command: "set_field env k v j = Ok j' \<Longrightarrow> k \<noteq> ''command'' \<Longrightarrow> jb_command j' = jb_command j"
  unfolding set_field_def by (simp split: set_field_splits; auto)

lemma set_field_message: "set_field env k v j = Ok j' \<Longrightarrow> k \<noteq> ''message'' \<Longrightarrow> jb_message j' = jb_message j"
  unfolding set_field_def by (simp split: set_field_splits; auto)

lemma set_field_timeout: "set_field env k v j = Ok j' \<Longrightarrow> k \<noteq> ''timeout'' \<Longrightarrow> jb_timeout j' = jb_timeout j"
  unfolding set_field_def by (simp split: set_field_splits; auto)

lemma apply_fields_id: "apply_fields env flds j r = (e, j', r') \<Longrightarrow> jb_id j' = jb_id j"
proof (induction env flds j r rule: apply_fields.induct)
  case (2 env k v fs j r)
  show ?case
  proof (cases "set_field env k v j")
    case (Inl e')
    then show ?thesis using "2.prems" by simp
  next
    case (Inr j1)
    then have "jb_id j' = jb_id j1" using "2.IH"[OF Inr] "2.prems" by simp
    then show ?thesis using set_field_id[OF Inr] by simp
  qed
qed simp

lemma locked_field_None:
  "locked_field locked ok flds = None \<Longrightarrow> locked \<longrightarrow> (\<forall>k \<in> fst ` set flds. k \<in> set ok)"
  by (auto simp: locked_field_def find_None_iff split: if_splits)

lemma update_refusal_None:
  assumes "update_refusal env jid j flds = None"
  shows "jb_system j \<longrightarrow> (\<forall>k \<in> fst ` set flds. k \<in> set systemAllowed)"
    and "jb_managed j \<longrightarrow> (\<forall>k \<in> fst ` set flds. k \<in> set managedAllowed)"
proof -
  have sys: "locked_field (jb_system j) systemAllowed flds = None"
    using assms unfolding update_refusal_def by (cases "locked_field (jb_system j) systemAllowed flds") simp_all
  moreover have "locked_field (jb_managed j) managedAllowed flds = None"
    using assms sys unfolding update_refusal_def by (cases "locked_field (jb_managed j) managedAllowed flds") simp_all
  ultimately show "jb_system j \<longrightarrow> (\<forall>k \<in> fst ` set flds. k \<in> set systemAllowed)"
    "jb_managed j \<longrightarrow> (\<forall>k \<in> fst ` set flds. k \<in> set managedAllowed)"
    using locked_field_None by blast+
qed

lemma update_job_cases:
  obtains e where "update_job env jid flds s = (Err e, s)"
  | j e j1 r where "store_get jid s = Some j" "apply_fields env flds j False = (Some e, j1, r)"
      "jb_system j \<longrightarrow> (\<forall>k \<in> fst ` set flds. k \<in> set systemAllowed)"
      "jb_managed j \<longrightarrow> (\<forall>k \<in> fst ` set flds. k \<in> set managedAllowed)"
      "update_job env jid flds s = (Err e, write_job jid j1 s)"
  | j j1 r where "store_get jid s = Some j" "apply_fields env flds j False = (None, j1, r)"
      "jb_system j \<longrightarrow> (\<forall>k \<in> fst ` set flds. k \<in> set systemAllowed)"
      "jb_managed j \<longrightarrow> (\<forall>k \<in> fst ` set flds. k \<in> set managedAllowed)"
      "update_job env jid flds s = update_tail env jid j1 r s"
proof (cases "store_get jid s")
  case None
  then show thesis using that(1) by (simp add: update_job_def)
next
  case (Some j)
  note get = Some
  show thesis
  proof (cases "update_refusal env jid j flds")
    case (Some e)
    then show thesis using that(1) get by (simp add: update_job_def)
  next
    case None
    obtain eo j1 r where a: "apply_fields env flds j False = (eo, j1, r)" by (metis surj_pair)
    have sys: "jb_system j \<longrightarrow> (\<forall>k \<in> fst ` set flds. k \<in> set systemAllowed)"
      and man: "jb_managed j \<longrightarrow> (\<forall>k \<in> fst ` set flds. k \<in> set managedAllowed)"
      using update_refusal_None[OF None] by blast+
    show thesis
    proof (cases eo)
      case (Some e)
      then show thesis using that(2)[OF get _ sys man, of e j1 r] a get None by (simp add: update_job_def)
    next
      case eo: None
      show thesis using that(3)[OF get _ sys man, of j1 r] a get None eo by (simp add: update_job_def)
    qed
  qed
qed

lemma wf_update_tail:
  assumes "sched_wf s" "jb_id j1 = jid"
  shows "sched_wf (snd (update_tail env jid j1 r s))"
proof -
  let ?s1 = "write_job jid j1 s" and ?s2 = "if r then cron_remove jid (write_job jid j1 s) else write_job jid j1 s"
  have w2: "sched_wf ?s2" using assms by (simp add: wf_write wf_cron_remove)
  have fin: "sched_wf (snd (case store_update env j2 (write_job jid j2 s3) of
      (Some e, s4) \<Rightarrow> (Err e, s4) | (None, s4) \<Rightarrow> (Ok j2, s4)))" if "sched_wf s3" "jb_id j2 = jid"
    for j2 s3
    using wf_update_store[OF wf_write[OF that], of env j2] by (auto split: prod.split option.split)
  show ?thesis
  proof (cases "r \<and> jb_enabled j1")
    case False
    then show ?thesis using fin[OF w2 assms(2)] by (auto simp: update_tail_def Let_def)
  next
    case True
    then have none: "eg_entries ?s2 jid = None" by simp
    show ?thesis
    proof (cases "jb_system j1")
      case sys: True
      have "sched_wf (cron_add jid (CronSystem (jb_schedule j1) jid) ?s2)"
        using w2 none by (intro wf_cron_add) simp_all
      then show ?thesis using True sys fin[OF w2 assms(2)] fin[OF _ assms(2)]
        by (simp add: update_tail_def Let_def)
    next
      case user: False
      show ?thesis
      proof (cases "schedule_job env j1 ?s2")
        case (Inl e)
        then show ?thesis using True user w2 by (simp add: update_tail_def Let_def)
      next
        case (Inr p)
        obtain j2 s3 where p: "p = (j2, s3)" by (cases p)
        have "sched_wf s3" "jb_id j2 = jid"
          using wf_schedule[OF Inr[unfolded p] w2] none assms(2) by simp_all
        then show ?thesis using True user Inr p fin by (simp add: update_tail_def Let_def)
      qed
    qed
  qed
qed

lemma wf_update:
  assumes "sched_wf s"
  shows "sched_wf (snd (update_job env jid flds s))"
proof (rule update_job_cases[of env jid flds s])
  fix j e j1 r
  assume "store_get jid s = Some j" "apply_fields env flds j False = (Some e, j1, r)"
    "update_job env jid flds s = (Err e, write_job jid j1 s)"
  then show ?thesis using assms apply_fields_id store_get_id by (metis snd_conv wf_write)
next
  fix j j1 r
  assume "store_get jid s = Some j" "apply_fields env flds j False = (None, j1, r)"
    "update_job env jid flds s = update_tail env jid j1 r s"
  then show ?thesis using assms apply_fields_id store_get_id by (metis wf_update_tail)
qed (use assms in simp)

section \<open>Runs\<close>

text \<open>The operations. The id that \<open>GenerateID\<close> draws is an argument, and so is the id of a system or
  managed job; the step does nothing when a new job would get an id that is in use.\<close>

datatype sched_op =
    OCreate sched_env string string string string string string string duration "string list" string
  | OReminder sched_env string string string string string duration string
  | ODelete sched_env string
  | OUpdate sched_env string "(string \<times> string) list"
  | OEnsure sched_env string string string string string string "string list" bool
  | OEnsureFull sched_env string string string string string string string "string list" bool
  | ORegister sched_env string string string string
  | OFinish sched_env string

definition id_free :: "string \<Rightarrow> engine \<Rightarrow> bool" where
  "id_free jid s \<longleftrightarrow> eg_entries s jid = None \<and> store_get jid s = None"

definition id_usable :: "string \<Rightarrow> engine \<Rightarrow> bool" where
  "id_usable jid s \<longleftrightarrow> id_free jid s \<or> store_get jid s \<noteq> None"

fun sched_step :: "sched_op \<Rightarrow> engine \<Rightarrow> engine" where
  "sched_step (OCreate env jid n sc t p c out d sk r) s =
     (if id_free jid s then snd (create_job env jid n sc t p c out d sk r s) else s)"
| "sched_step (OReminder env jid n sc m out d r) s =
     (if id_free jid s then snd (create_reminder env jid n sc m out d r s) else s)"
| "sched_step (ODelete env jid) s = snd (delete_job env jid s)"
| "sched_step (OUpdate env jid flds) s = snd (update_job env jid flds s)"
| "sched_step (OEnsure env jid n sc t p out sk en) s =
     (if id_usable jid s then snd (ensure_managed env jid n sc t p out sk en s) else s)"
| "sched_step (OEnsureFull env jid n sc t p c out sk en) s =
     (if id_usable jid s then snd (ensure_managed_full env jid n sc t p c out sk en s) else s)"
| "sched_step (ORegister env jid n sc d) s =
     (if id_free jid s then register_system env jid n sc d s else s)"
| "sched_step (OFinish env jid) s = finish_one_shot env jid s"

lemma wf_add_managed:
  assumes "sched_wf s" "id_free (jb_id j) s"
  shows "sched_wf (snd (add_managed env j s))"
proof -
  have n: "jb_id j \<notin> set (map jb_id (eg_jobs s))" using assms(2) by (simp add: id_free_def store_get_None)
  have "sched_wf (snd (store_add env j s))" by (rule wf_add[OF assms(1) n])
  moreover have "sched_wf (snd (add_scheduled env j s))"
    using assms n by (intro wf_add_scheduled) (simp_all add: id_free_def)
  ultimately show ?thesis by (auto simp: add_managed_def split: prod.split option.split)
qed

lemma wf_step: "sched_wf s \<Longrightarrow> sched_wf (sched_step op s)"
proof (cases op)
  assume wf: "sched_wf s"
  {
    case (OCreate env jid n sc t p c out d sk r)
    have "sched_wf (snd (create_job env jid n sc t p c out d sk r s))" if "id_free jid s"
      unfolding create_job_def Let_def using wf that
      by (auto simp: id_free_def store_get_None empty_job_def intro!: wf_add_scheduled)
    then show ?thesis using OCreate wf by simp
  next
    case (OReminder env jid n sc m out d r)
    have "sched_wf (snd (create_reminder env jid n sc m out d r s))" if "id_free jid s"
      unfolding create_reminder_def Let_def using wf that
      by (auto simp: id_free_def store_get_None empty_job_def intro!: wf_add_scheduled)
    then show ?thesis using OReminder wf by simp
  next
    case (ODelete env jid)
    then show ?thesis using wf
      by (auto simp: delete_job_def wf_store_remove wf_cron_remove split: option.split)
  next
    case (OUpdate env jid flds)
    then show ?thesis using wf by (simp add: wf_update)
  next
    case (OEnsure env jid n sc t p out sk en)
    have "sched_wf (snd (ensure_managed env jid n sc t p out sk en s))" if "id_usable jid s"
    proof (cases "store_get jid s")
      case None
      then show ?thesis using that wf unfolding ensure_managed_def
        by (simp add: id_usable_def) (rule wf_add_managed, auto simp: empty_job_def)
    next
      case (Some j)
      then have "jb_id j = jid" using store_get_id by blast
      then show ?thesis using Some wf unfolding ensure_managed_def Let_def
        by (auto intro!: wf_update_store wf_write)
    qed
    then show ?thesis using OEnsure wf by simp
  next
    case (OEnsureFull env jid n sc t p c out sk en)
    have "sched_wf (snd (ensure_managed_full env jid n sc t p c out sk en s))" if "id_usable jid s"
    proof (cases "store_get jid s")
      case None
      then show ?thesis using that wf unfolding ensure_managed_full_def
        by (simp add: id_usable_def) (rule wf_add_managed, auto simp: empty_job_def)
    next
      case (Some j)
      then have "jb_id j = jid" using store_get_id by blast
      then show ?thesis using Some wf unfolding ensure_managed_full_def Let_def
        by (auto intro!: wf_update_store wf_write)
    qed
    then show ?thesis using OEnsureFull wf by simp
  next
    case (ORegister env jid n sc d)
    let ?s1 = "s\<lparr>eg_system_funcs := insert jid (eg_system_funcs s)\<rparr>"
    have w1: "sched_wf ?s1" using wf by (simp add: sched_wf_def)
    have "sched_wf (register_system env jid n sc d s)" if f: "id_free jid s"
    proof (cases "sv_cron_error env sc")
      case None
      have "sched_wf (cron_add jid (CronSystem sc jid) ?s1)"
        using w1 f by (intro wf_cron_add) (simp_all add: id_free_def)
      then show ?thesis using f None wf
        by (auto simp: register_system_def Let_def id_free_def store_get_None empty_job_def
            intro!: wf_jobs wf_distinct)
    qed (use w1 in \<open>simp add: register_system_def\<close>)
    then show ?thesis using ORegister wf by simp
  next
    case (OFinish env jid)
    have "sched_wf (snd (store_save env (s\<lparr>eg_jobs := modify_first jid (\<lambda>j. j\<lparr>jb_enabled := False\<rparr>) (eg_jobs s)\<rparr>)))"
      using wf by (intro wf_save wf_jobs) (simp_all add: modify_first_ids wf_distinct)
    then show ?thesis using OFinish
      by (auto simp: finish_one_shot_def Let_def wf_store_remove split: option.split)
  }
qed

interpretation sched: op_machine "new_engine cf" sched_step sched_wf for cf
  by unfold_locales (simp add: sched_wf_def new_engine_def, rule wf_step)

section \<open>Properties\<close>

lemma store_remove_gone:
  assumes "distinct (map jb_id (eg_jobs s))"
  shows "store_get jid (snd (store_remove env jid s)) = None"
proof (cases "remove_first jid (eg_jobs s)")
  case None
  have "remove_first jid js = None \<Longrightarrow> jid \<notin> set (map jb_id js)" for js
    by (induction js) (auto split: if_splits)
  then show ?thesis using None by (auto simp: store_remove_def store_get_None)
next
  case (Some js)
  then have "jid \<notin> set (map jb_id js)" using remove_first_ids[OF Some assms] by blast
  then show ?thesis using Some by (auto simp: store_remove_def store_get_None)
qed

lemma store_remove_cron [simp]:
  "eg_cron (snd (store_remove env jid s)) = eg_cron s"
  "eg_entries (snd (store_remove env jid s)) = eg_entries s"
  by (auto simp: store_remove_def split: option.split)


text \<open>A concrete environment for the examples: the schedule \<open>@daily\<close> is the only one cron accepts,
  every write succeeds.\<close>

definition example_env :: sched_env where
  "example_env = \<lparr>sv_rfc3339 = (\<lambda>s. if s = ''2026-01-01T00:00:00Z'' then Some 100 else None),
     sv_cron_error = (\<lambda>s. if s = ''@daily'' then None else Some ''expected 6 fields''),
     sv_cron_next = (\<lambda>_. None), sv_catchup_sched = (\<lambda>_. None), sv_parse_duration = (\<lambda>_. Err ''bad''),
     sv_tiers = None, sv_save_error = None, sv_now = 50\<rparr>"

definition example_job :: job where
  "example_job = empty_job\<lparr>jb_id := ''a1'', jb_name := ''n'', jb_schedule := ''@daily'',
     jb_output := ''chat'', jb_enabled := True, jb_created_at := 50\<rparr>"

lemma example_create:
  "create_job example_env ''a1'' ''n'' ''@daily'' [] [] [] [] 0 [] [] (new_engine NoFile) =
   (Ok example_job,
    \<lparr>eg_jobs = [example_job], eg_overrides = Map.empty, eg_file = CronFile [example_job] Map.empty,
     eg_entries = [''a1'' \<mapsto> 1], eg_cron = [1 \<mapsto> CronFunc ''@daily'' ''a1''], eg_next_entry = 2,
     eg_system_funcs = {}\<rparr>)"
proof -
  have f: "str_fields ''@daily'' = [''@daily'']" by code_simp
  then have w: "warn_fixed_day_month_cron ''@daily'' = None"
    by (simp add: warn_fixed_day_month_cron_def)
  show ?thesis
    by (simp add: create_job_def w example_env_def validOutputs_def add_scheduled_def schedule_job_def
        new_engine_def cron_add_def store_add_def store_save_def Let_def empty_job_def persisted_job_def
        example_job_def)
qed


text \<open>Creating a job is all or nothing as long as the file can be written: an error leaves the
  engine as it was; otherwise the job is valid, comes last in the list, is in the file, and exactly
  one new cron entry runs it, a one-shot one (to be deleted afterwards) for a point in time.\<close>

theorem create_all_or_nothing:
  assumes "create_job env jid name schedule tier prompt command output0 timeout skills reason s = (r, s')"
    and "sv_save_error env = None"
  shows "case r of
    Inl _ \<Rightarrow> s' = s
  | Inr j \<Rightarrow>
      jb_id j = jid \<and> jb_enabled j \<and> \<not> jb_system j \<and> \<not> jb_managed j \<and> jb_output j \<in> set validOutputs \<and>
      (tier = [] \<or> tier = ''direct'' \<or> tier_known env tier) \<and>
      eg_jobs s' = eg_jobs s @ [j] \<and>
      (case eg_file s' of CronFile js ov \<Rightarrow> js = map persisted_job (filter (\<lambda>j. \<not> jb_system j) (eg_jobs s')) | _ \<Rightarrow> False) \<and>
      eg_entries s' = (eg_entries s)(jid \<mapsto> eg_next_entry s) \<and>
      (case sv_rfc3339 env schedule of
         Some at \<Rightarrow> jb_auto_delete j \<and> eg_cron s' = (eg_cron s)(eg_next_entry s \<mapsto> CronOnce at jid)
       | None \<Rightarrow> \<not> jb_auto_delete j \<and> eg_cron s' = (eg_cron s)(eg_next_entry s \<mapsto> CronFunc schedule jid) \<and>
                 sv_cron_error env schedule = None \<and> warn_fixed_day_month_cron schedule = None)"
proof (cases r)
  case (Inl e)
  then show ?thesis using assms
    by (auto simp: create_job_def add_scheduled_def store_add_def store_save_def Let_def
        split: if_splits sum.splits prod.splits)
next
  case (Inr j)
  let ?out = "if output0 = [] then ''chat'' else output0"
  let ?j0 = "empty_job\<lparr>jb_id := jid, jb_name := name, jb_schedule := schedule, jb_tier := tier,
           jb_prompt := prompt, jb_command := command, jb_output := ?out, jb_timeout := timeout,
           jb_skills := skills, jb_reason := reason, jb_enabled := True, jb_created_at := sv_now env,
           jb_auto_delete := (sv_rfc3339 env schedule \<noteq> None)\<rparr>"
  have ok: "?out \<in> set validOutputs" "tier = [] \<or> tier = ''direct'' \<or> tier_known env tier"
    "sv_rfc3339 env schedule \<noteq> None \<or> warn_fixed_day_month_cron schedule = None"
    and add: "add_scheduled env ?j0 s = (Ok j, s')"
    using assms(1) Inr unfolding create_job_def Let_def by (auto split: if_splits)
  obtain j1 s1 where sch: "schedule_job env ?j0 s = Ok (j1, s1)"
    using add by (auto simp: add_scheduled_def split: sum.splits)
  have j: "j = j1" and s': "s' = s1\<lparr>eg_jobs := eg_jobs s1 @ [j1],
      eg_file := CronFile (map persisted_job (filter (\<lambda>j. \<not> jb_system j) (eg_jobs s1 @ [j1])))
        (collect_overrides (eg_jobs s1 @ [j1]) Map.empty)\<rparr>"
    using add sch assms(2) by (auto simp: add_scheduled_def store_add_def store_save_def Let_def)
  have "\<exists>n c. j1 = ?j0\<lparr>jb_next_run := n\<rparr> \<and> s1 = cron_add jid c s \<and>
      (case sv_rfc3339 env schedule of Some at \<Rightarrow> c = CronOnce at jid
       | None \<Rightarrow> c = CronFunc schedule jid \<and> sv_cron_error env schedule = None)"
    using sch by (auto simp: schedule_job_def empty_job_def split: option.splits)
  then obtain n c where n: "j1 = ?j0\<lparr>jb_next_run := n\<rparr>" "s1 = cron_add jid c s"
    "(case sv_rfc3339 env schedule of Some at \<Rightarrow> c = CronOnce at jid
       | None \<Rightarrow> c = CronFunc schedule jid \<and> sv_cron_error env schedule = None)" by blast
  show ?thesis using ok n Inr unfolding j s'
    by (simp add: empty_job_def cron_add_def split: option.splits)
qed

theorem create_all_or_nothing_witness:
  "\<exists>s'. create_job example_env ''a1'' ''n'' ''@daily'' [] [] [] [] 0 [] [] (new_engine NoFile) = (Ok example_job, s') \<and>
     eg_jobs s' = [example_job] \<and> eg_cron s' = [1 \<mapsto> CronFunc ''@daily'' ''a1'']"
proof -
  obtain s' where h: "create_job example_env ''a1'' ''n'' ''@daily'' [] [] [] [] 0 [] [] (new_engine NoFile) =
      (Ok example_job, s')"
    using example_create by blast
  have "sv_save_error example_env = None" "sv_rfc3339 example_env ''@daily'' = None"
    by (simp_all add: example_env_def)
  then show ?thesis using create_all_or_nothing[OF h] h by (simp add: new_engine_def)
qed

text \<open>What a list of fields cannot change when it has no such field.\<close>

lemma apply_fields_keeps:
  assumes step: "\<And>k v j j'. set_field env k v j = Ok j' \<Longrightarrow> k \<in> K \<Longrightarrow> g j' = g j"
  shows "apply_fields env flds j r = (e, j', r') \<Longrightarrow> fst ` set flds \<subseteq> K \<Longrightarrow> g j' = g j"
proof (induction env\<equiv>env flds j r rule: apply_fields.induct)
  case (2 k v fs j r)
  show ?case
  proof (cases "set_field env k v j")
    case (Inl e')
    then show ?thesis using "2.prems" by simp
  next
    case (Inr j1)
    then have "g j' = g j1" using "2.hyps"[OF Inr] "2.prems" by simp
    then show ?thesis using step[OF Inr] "2.prems"(2) by simp
  qed
qed simp

lemma update_tail_job:
  "update_tail env jid j1 r s = (Ok j', s') \<Longrightarrow> \<exists>n. j' = j1\<lparr>jb_next_run := n\<rparr>"
proof -
  assume u: "update_tail env jid j1 r s = (Ok j', s')"
  have same: "j1 = j1\<lparr>jb_next_run := jb_next_run j1\<rparr>" by simp
  have "j' = j1 \<or> (\<exists>t t'. schedule_job env j1 t = Ok (j', t'))"
    using u unfolding update_tail_def Let_def
    by (auto split: sum.splits if_splits prod.splits option.splits)
  then show ?thesis using same schedule_job_next[of env j1] by metis
qed

lemmas locked_values = set_field_name set_field_prompt set_field_command set_field_message set_field_timeout

definition touches_locked :: "job \<Rightarrow> (string \<times> string) list \<Rightarrow> bool" where
  "touches_locked j flds \<longleftrightarrow>
     jb_system j \<and> \<not> list_all (\<lambda>(k, _). k \<in> set systemAllowed) flds \<or>
     jb_managed j \<and> \<not> list_all (\<lambda>(k, _). k \<in> set managedAllowed) flds"

text \<open>The locked fields of system and managed jobs are locked: a successful update never changes
  the name, prompt, command, message or timeout of such a job, nor the schedule of a system job, nor
  whether it is a system or managed job; an update that tries is refused and changes nothing.\<close>

theorem update_respects_locks:
  assumes "store_get jid s = Some j" and "jb_system j \<or> jb_managed j"
  shows "case update_job env jid flds s of
    (Inl _, s') \<Rightarrow> if touches_locked j flds then s' = s else True
  | (Inr j', s') \<Rightarrow>
      \<not> touches_locked j flds \<and>
      jb_name j' = jb_name j \<and> jb_prompt j' = jb_prompt j \<and> jb_command j' = jb_command j \<and>
      jb_message j' = jb_message j \<and> jb_timeout j' = jb_timeout j \<and> jb_system j' = jb_system j \<and>
      jb_managed j' = jb_managed j \<and> (jb_schedule j' = jb_schedule j \<or> \<not> jb_system j)"
proof (rule update_job_cases[of env jid flds s])
  fix j0 e j1 r
  assume a: "store_get jid s = Some j0" "apply_fields env flds j0 False = (Some e, j1, r)"
    and sys: "jb_system j0 \<longrightarrow> (\<forall>k \<in> fst ` set flds. k \<in> set systemAllowed)"
    and man: "jb_managed j0 \<longrightarrow> (\<forall>k \<in> fst ` set flds. k \<in> set managedAllowed)"
    and u: "update_job env jid flds s = (Err e, write_job jid j1 s)"
  have "j0 = j" using a(1) assms(1) by simp
  then have "\<not> touches_locked j flds" using sys man by (auto simp: touches_locked_def list_all_iff)
  then show ?thesis using u by simp
next
  fix j0 j1 r
  assume a: "store_get jid s = Some j0" "apply_fields env flds j0 False = (None, j1, r)"
    and sys: "jb_system j0 \<longrightarrow> (\<forall>k \<in> fst ` set flds. k \<in> set systemAllowed)"
    and man: "jb_managed j0 \<longrightarrow> (\<forall>k \<in> fst ` set flds. k \<in> set managedAllowed)"
    and u: "update_job env jid flds s = update_tail env jid j1 r s"
  have j0: "j0 = j" using a(1) assms(1) by simp
  have unl: "\<not> touches_locked j flds"
    using sys man unfolding j0 by (auto simp: touches_locked_def list_all_iff)
  define K where "K = (if jb_system j then set systemAllowed else set managedAllowed)"
  have K: "fst ` set flds \<subseteq> K" using sys man assms(2) unfolding j0 K_def by auto
  note keep = apply_fields_keeps[OF _ a(2) K, of , unfolded j0]
  have n: "''name'' \<notin> K" "''prompt'' \<notin> K" "''command'' \<notin> K" "''message'' \<notin> K" "''timeout'' \<notin> K"
    "jb_system j \<Longrightarrow> ''schedule'' \<notin> K"
    by (auto simp: K_def systemAllowed_def managedAllowed_def)
  have same: "jb_name j1 = jb_name j" "jb_prompt j1 = jb_prompt j" "jb_command j1 = jb_command j"
    "jb_message j1 = jb_message j" "jb_timeout j1 = jb_timeout j"
    by (rule keep, erule locked_values, use n in blast)+
  have kind: "jb_system j1 = jb_system j" "jb_managed j1 = jb_managed j"
    by (rule keep, erule set_field_system) (rule keep, erule set_field_managed)
  have sched: "jb_schedule j1 = jb_schedule j" if "jb_system j"
    by (rule keep, erule set_field_schedule) (use n(6)[OF that] in blast)
  show ?thesis
  proof (cases "update_tail env jid j1 r s")
    case (Pair res s')
    show ?thesis
    proof (cases res)
      case (Inl e)
      then show ?thesis using Pair u unl by simp
    next
      case (Inr j')
      then obtain m where "j' = j1\<lparr>jb_next_run := m\<rparr>" using update_tail_job Pair by blast
      then show ?thesis using Pair u Inr same kind sched unl by auto
    qed
  qed
qed (use assms in simp)

theorem update_respects_locks_witness:
  "\<exists>s j'. fst (update_job example_env ''h'' [(''tier'', ''fast'')] s) = Ok j' \<and> jb_tier j' = ''fast'' \<and>
     jb_schedule j' = ''@daily'' \<and> jb_system j' \<and> snd (update_job example_env ''h'' [(''name'', ''x'')] s) = s"
proof -
  let ?j = "empty_job\<lparr>jb_id := ''h'', jb_system := True, jb_schedule := ''@daily'', jb_output := ''silent''\<rparr>"
  let ?s = "(new_engine NoFile)\<lparr>eg_jobs := [?j]\<rparr>"
  have g: "store_get ''h'' ?s = Some ?j" by (simp add: store_get_def)
  have t: "jb_system ?j \<or> jb_managed ?j" by simp
  obtain j' s' where u: "update_job example_env ''h'' [(''tier'', ''fast'')] ?s = (Ok j', s')" "jb_tier j' = ''fast''"
    using g by (simp add: update_job_def update_refusal_def locked_field_def empty_job_def systemAllowed_def
        tier_known_def example_env_def set_field_def update_tail_def store_update_def store_save_def Let_def)
  have "snd (update_job example_env ''h'' [(''name'', ''x'')] ?s) = ?s"
    using g by (simp add: update_job_def update_refusal_def locked_field_def systemAllowed_def)
  then show ?thesis using update_respects_locks[OF g t, where env = example_env and flds = "[(''tier'', ''fast'')]"] u
    by (intro exI[of _ ?s] exI[of _ j']) (simp add: empty_job_def)
qed

text \<open>An update with a schedule that cron refuses is reported as an error but is not undone: the
  enabled job keeps the bad schedule in memory and has lost its cron entry, so it no longer runs,
  while the file still has the old one.\<close>

theorem failed_update_unschedules:
  assumes "s = fold sched_step ops (new_engine cf)" and "store_get jid s = Some j"
    and "jb_enabled j" and "\<not> jb_system j" and "sv_rfc3339 env bad = None" and "sv_cron_error env bad = Some e"
  shows "case update_job env jid [(''schedule'', bad)] s of (r, s') \<Rightarrow>
    r = Err (''invalid schedule: '' @ e) \<and> eg_entries s' jid = None \<and>
    jid \<notin> entry_job ` ran (eg_cron s') \<and> eg_file s' = eg_file s \<and>
    (case store_get jid s' of None \<Rightarrow> False | Some j' \<Rightarrow> jb_enabled j' \<and> jb_schedule j' = bad)"
proof -
  let ?j1 = "j\<lparr>jb_schedule := bad\<rparr>"
  let ?s' = "cron_remove jid (write_job jid ?j1 s)"
  have wf: "sched_wf s" using sched.run_inv assms(1) by blast
  have jid: "jb_id j = jid" using assms(2) store_get_id by blast
  have "update_refusal env jid j [(''schedule'', bad)] = None"
    using assms(4) by (simp add: update_refusal_def locked_field_def managedAllowed_def)
  moreover have "set_field env ''schedule'' bad j = Ok ?j1" by (simp add: set_field_def)
  moreover have "schedule_job env ?j1 t = Err e" for t using assms(5,6) by (simp add: schedule_job_def)
  ultimately have u: "update_job env jid [(''schedule'', bad)] s = (Err (''invalid schedule: '' @ e), ?s')"
    using assms(2,3,4) by (simp add: update_job_def update_tail_def Let_def)
  have w: "sched_wf (write_job jid ?j1 s)" using wf jid by (intro wf_write) simp_all
  have f: "find P (modify_first jid (\<lambda>_. x) js) = Some x"
    if "find P js = Some j" "P x" "\<And>y. P y = (jb_id y = jid)" for P x js
    using that by (induction js) (auto split: if_splits)
  have "store_get jid ?s' = Some ?j1"
    unfolding store_get_def using f[of "\<lambda>y. jb_id y = jid" "eg_jobs s" ?j1] assms(2) jid
    by (simp add: store_get_def)
  then show ?thesis using cron_remove_gone[OF w, of jid] assms(3) unfolding u prod.case by simp
qed

theorem failed_update_unschedules_witness:
  "\<exists>s. eg_entries s ''a1'' = Some 1 \<and>
     eg_entries (snd (update_job example_env ''a1'' [(''schedule'', ''@dayly'')] s)) ''a1'' = None"
proof -
  let ?op = "OCreate example_env ''a1'' ''n'' ''@daily'' [] [] [] [] 0 [] []"
  obtain s where s: "s = fold sched_step [?op] (new_engine NoFile)" by blast
  have "id_free ''a1'' (new_engine NoFile)" by (simp add: id_free_def new_engine_def store_get_def)
  then have st: "eg_jobs s = [example_job]" "eg_entries s ''a1'' = Some 1" by (simp_all add: s example_create)
  have g: "store_get ''a1'' s = Some example_job" by (simp add: store_get_def st example_job_def)
  have p: "jb_enabled example_job" "\<not> jb_system example_job" "sv_rfc3339 example_env ''@dayly'' = None"
    "sv_cron_error example_env ''@dayly'' = Some ''expected 6 fields''"
    by (simp_all add: example_job_def empty_job_def example_env_def)
  from failed_update_unschedules[OF s g p] st(2) show ?thesis
    by (intro exI[of _ s]) (simp split: prod.splits)
qed

text \<open>The jobs that a save and a load preserve, and how.\<close>

definition migrate_output :: "job \<Rightarrow> job" where
  "migrate_output j = (if jb_output j = ''telegram'' then j\<lparr>jb_output := ''chat''\<rparr> else j)"

lemma persisted_job_system: "jb_system (persisted_job j) = jb_system j"
  by (simp add: persisted_job_def)

lemma collect_overrides_get:
  "distinct (map jb_id js) \<Longrightarrow> j \<in> set js \<Longrightarrow> jb_system j \<Longrightarrow>
   collect_overrides js m (jb_id j) = Some (override_of j)"
proof (induction js arbitrary: m)
  case (Cons a js)
  have other: "jid \<notin> set (map jb_id ks) \<Longrightarrow> collect_overrides ks m jid = m jid" for jid ks m
    by (induction ks arbitrary: m) auto
  show ?case
  proof (cases "j = a")
    case True
    then show ?thesis using Cons.prems other[of "jb_id a" js] by simp
  next
    case False
    then show ?thesis using Cons by auto
  qed
qed simp

text \<open>The file \<open>cron.json\<close> round-trips: after a save, a new process loads exactly the user jobs, in
  their order and with all their persistent fields (an old output \<open>telegram\<close> becomes \<open>chat\<close>), and
  the overrides give a freshly registered system job the enabled flag, output, description and
  reason it had; its tier is not among them, so a tier set by an update is lost.\<close>

theorem cron_file_roundtrip:
  assumes "sv_save_error env = None" and "distinct (map jb_id (eg_jobs s))"
    and "sysjob \<in> set (eg_jobs s)" and "jb_system sysjob" and "jb_output sysjob \<noteq> []"
    and "jb_system fresh" and "jb_id fresh = jb_id sysjob"
  shows "case store_load (new_engine (eg_file (snd (store_save env s)))) of (err, s') \<Rightarrow>
    err = None \<and>
    eg_jobs s' = map (\<lambda>j. migrate_output (persisted_job j)) (filter (\<lambda>j. \<not> jb_system j) (eg_jobs s)) \<and>
    override_job (eg_overrides s') fresh =
      fresh\<lparr>jb_enabled := jb_enabled sysjob, jb_output := jb_output sysjob,
            jb_description := jb_description sysjob, jb_reason := jb_reason sysjob\<rparr>"
proof -
  let ?ov = "collect_overrides (eg_jobs s) Map.empty"
  have saved: "eg_file (snd (store_save env s)) =
      CronFile (map persisted_job (filter (\<lambda>j. \<not> jb_system j) (eg_jobs s))) ?ov"
    using assms(1) by (simp add: store_save_def Let_def)
  have "filter (\<lambda>j. \<not> jb_system j) (map persisted_job (filter (\<lambda>j. \<not> jb_system j) js)) =
      map persisted_job (filter (\<lambda>j. \<not> jb_system j) js)" for js
    by (induction js) (simp_all add: persisted_job_system)
  moreover have "override_job ?ov fresh = apply_override (override_of sysjob) fresh"
    using collect_overrides_get[OF assms(2-4)] assms(6,7) by (simp add: override_job_def)
  moreover have "apply_override (override_of sysjob) fresh =
      fresh\<lparr>jb_enabled := jb_enabled sysjob, jb_output := jb_output sysjob,
            jb_description := jb_description sysjob, jb_reason := jb_reason sysjob\<rparr>"
    using assms(5) by (simp add: apply_override_def override_of_def Let_def)
  ultimately show ?thesis
    unfolding store_load_def new_engine_def saved by (simp add: migrate_output_def comp_def)
qed

theorem cron_file_roundtrip_witness:
  "\<exists>s s'. store_load (new_engine (eg_file (snd (store_save example_env s)))) = (None, s') \<and>
     eg_jobs s' = [example_job] \<and> length (eg_jobs s) = 2"
proof -
  let ?h = "empty_job\<lparr>jb_id := ''h'', jb_system := True, jb_output := ''silent'', jb_tier := ''fast''\<rparr>"
  let ?s = "(new_engine NoFile)\<lparr>eg_jobs := [?h, example_job]\<rparr>"
  have a: "sv_save_error example_env = None" "distinct (map jb_id (eg_jobs ?s))" "?h \<in> set (eg_jobs ?s)"
    "jb_system ?h" "jb_output ?h \<noteq> []"
    by (simp_all add: example_env_def example_job_def)
  have "\<not> jb_system example_job" "migrate_output (persisted_job example_job) = example_job"
    by (simp_all add: example_job_def empty_job_def migrate_output_def persisted_job_def)
  moreover obtain e s' where l: "store_load (new_engine (eg_file (snd (store_save example_env ?s)))) = (e, s')"
    by (metis surj_pair)
  ultimately have "e = None \<and> eg_jobs s' = [example_job]"
    using cron_file_roundtrip[OF a a(4) refl] unfolding l prod.case by simp
  then show ?thesis using l by (intro exI[of _ ?s] exI[of _ s']) simp
qed

text \<open>When the file cannot be parsed, \<open>Start\<close> does not start fresh as its message says: the load
  leaves the list as it was, the registered system jobs are put in front of it again, and every one
  of them is in the list twice.\<close>

theorem start_with_broken_file_duplicates:
  assumes "list_all jb_system (eg_jobs s)" and "eg_file s = Garbled msg" and "eg_overrides s = Map.empty"
  shows "eg_jobs (start_engine env lastSeen s) = eg_jobs s @ eg_jobs s"
proof -
  have sys: "filter jb_system (eg_jobs s) = eg_jobs s" using assms(1) by (induction "eg_jobs s") (auto simp: list_all_iff)
  have none: "map (override_job Map.empty) js = js" for js by (induction js) (auto simp: override_job_def)
  have un: "unschedule_disabled Map.empty js t = t" for js t by (induction js arbitrary: t) auto
  have exp: "filter (expired_one_shot env lastSeen) js = []" if "list_all jb_system js" for js
    using that by (induction js) (auto simp: expired_one_shot_def)
  have sch: "schedule_all env js t = t" if "list_all jb_system js" for js t
    using that by (induction js) auto
  have "list_all jb_system (eg_jobs s @ eg_jobs s)" using assms(1) by simp
  note x = exp[OF this] sch[OF this]
  show ?thesis unfolding start_engine_def Let_def
    using assms(2,3) x by (simp add: store_load_def sys none un)
qed

theorem start_with_broken_file_duplicates_witness:
  "\<exists>s. length (eg_jobs s) = 1 \<and> length (eg_jobs (start_engine example_env None s)) = 2"
proof -
  let ?h = "empty_job\<lparr>jb_id := ''h'', jb_system := True\<rparr>"
  let ?s = "(new_engine (Garbled ''eof''))\<lparr>eg_jobs := [?h]\<rparr>"
  have "list_all jb_system (eg_jobs ?s)" "eg_file ?s = Garbled ''eof''" "eg_overrides ?s = Map.empty"
    by (simp_all add: new_engine_def)
  from start_with_broken_file_duplicates[OF this] show ?thesis by (intro exI[of _ ?s]) simp
qed

lemma plan_one_self: "set (plan_one env ls m j) \<subseteq> {\<lparr>cd_job_id = jb_id j, cd_run = True\<rparr>}"
proof (cases "sv_rfc3339 env (jb_schedule j)")
  case None
  then show ?thesis by (simp add: plan_one_def split: option.split) auto
next
  case (Some at)
  then show ?thesis by (auto simp: plan_one_def)
qed

lemma plan_member:
  assumes "distinct (map jb_id jobs)" and "j \<in> set jobs"
  shows "\<lparr>cd_job_id = jb_id j, cd_run = True\<rparr> \<in> set (concat (map (plan_one env ls m) jobs)) \<longleftrightarrow>
    plan_one env ls m j \<noteq> []"
proof
  assume "\<lparr>cd_job_id = jb_id j, cd_run = True\<rparr> \<in> set (concat (map (plan_one env ls m) jobs))"
  then obtain k where k: "k \<in> set jobs" "\<lparr>cd_job_id = jb_id j, cd_run = True\<rparr> \<in> set (plan_one env ls m k)" by auto
  then have "jb_id j = jb_id k" using plan_one_self[of env ls m k] by auto
  then have "j = k" using assms k(1) by (auto simp: distinct_map dest: inj_onD)
  then show "plan_one env ls m j \<noteq> []" using k(2) by auto
next
  assume ne: "plan_one env ls m j \<noteq> []"
  then obtain d where "d \<in> set (plan_one env ls m j)" by (cases "plan_one env ls m j") auto
  then have "\<lparr>cd_job_id = jb_id j, cd_run = True\<rparr> \<in> set (plan_one env ls m j)" using plan_one_self by blast
  then show "\<lparr>cd_job_id = jb_id j, cd_run = True\<rparr> \<in> set (concat (map (plan_one env ls m) jobs))"
    using assms(2) by auto
qed

text \<open>No one-shot reminder is lost or doubled by a restart: at the time of the restart every
  enabled user one-shot whose time has passed is either replayed by the catch-up plan or removed as
  expired, and never both; it is replayed exactly when it was missed during a downtime of at most
  24 hours. Disabled jobs, system jobs and jobs still to come are never replayed.\<close>

theorem missed_one_shot_replayed_or_removed:
  assumes "distinct (map jb_id jobs)" and "j \<in> set jobs" and "sv_rfc3339 env (jb_schedule j) = Some at"
  shows "let planned = (\<lparr>cd_job_id = jb_id j, cd_run = True\<rparr> \<in> set (plan_catchup env jobs lastSeen m)) in
    (planned \<longleftrightarrow> jb_enabled j \<and> \<not> jb_system j \<and> at \<le> sv_now env \<and>
       (case lastSeen of None \<Rightarrow> False | Some ls \<Rightarrow> ls < at \<and> sv_now env - ls \<le> 24 * hour)) \<and>
    (jb_enabled j \<and> \<not> jb_system j \<and> at \<le> sv_now env \<longleftrightarrow> planned \<or> jb_enabled j \<and> expired_one_shot env lastSeen j) \<and>
    \<not> (planned \<and> expired_one_shot env lastSeen j)"
proof (cases lastSeen)
  case None
  then show ?thesis using assms(3) by (simp add: plan_catchup_def expired_one_shot_def)
next
  case (Some ls)
  let ?d = "time_sub (sv_now env) ls"
  have cap: "catchupMaxDowntime < ?d \<longleftrightarrow> 24 * hour < sv_now env - ls" "?d \<le> 0 \<longleftrightarrow> sv_now env - ls \<le> 0"
    "?d \<le> catchupMaxDowntime \<longleftrightarrow> sv_now env - ls \<le> 24 * hour"
    by (auto simp: time_sub_def catchupMaxDowntime_def go_time max_duration_def min_duration_def)
  have one: "plan_one env ls m j \<noteq> [] \<longleftrightarrow> jb_enabled j \<and> \<not> jb_system j \<and> ls < at \<and> at \<le> sv_now env"
    using assms(3) by (auto simp: plan_one_def not_less)
  have "\<lparr>cd_job_id = jb_id j, cd_run = True\<rparr> \<in> set (plan_catchup env jobs lastSeen m) \<longleftrightarrow>
      0 < sv_now env - ls \<and> sv_now env - ls \<le> 24 * hour \<and> plan_one env ls m j \<noteq> []"
    using plan_member[OF assms(1,2), of env ls m] cap Some by (simp add: plan_catchup_def Let_def not_less not_le)
  then show ?thesis unfolding Let_def one using Some assms(3) cap(3)
    by (auto simp: expired_one_shot_def)
qed

theorem missed_one_shot_replayed_or_removed_witness:
  "\<exists>j. let env = example_env\<lparr>sv_now := 200\<rparr> in
     \<lparr>cd_job_id = ''r'', cd_run = True\<rparr> \<in> set (plan_catchup env [j] (Some 60) 0) \<and> \<not> expired_one_shot env (Some 60) j"
proof -
  let ?j = "empty_job\<lparr>jb_id := ''r'', jb_enabled := True, jb_schedule := ''2026-01-01T00:00:00Z''\<rparr>"
  let ?env = "example_env\<lparr>sv_now := 200\<rparr>"
  have "distinct (map jb_id [?j])" "?j \<in> set [?j]" "sv_rfc3339 ?env (jb_schedule ?j) = Some 100"
    by (simp_all add: example_env_def)
  from missed_one_shot_replayed_or_removed[OF this, of "Some 60" 0] show ?thesis
    unfolding Let_def by (intro exI[of _ ?j]) (simp add: empty_job_def go_time)
qed

end
