(* ===== verification/Flatten.thy ===== *)
theory Flatten
  imports Memory_Model
begin

text \<open>
  \<open>internal/memory/flatten.go\<close>: the functions that turn the stored timeline of a conversation into
  what a model provider receives. Each loop over the messages or over the blocks of a message is
  one recursive function, with the values the loop collects as its result.
\<close>

section \<open>Definitions\<close>

definition MaxToolResultBytes :: nat where "MaxToolResultBytes = 2048"
definition DefaultMaxMessages :: int where "DefaultMaxMessages = 50"

record api_message =
  am_role :: string
  am_content :: string

record openai_tool_call =
  ot_id :: string
  ot_name :: string
  ot_arguments :: string

record openai_message =
  om_role :: string
  om_content :: string
  om_tool_calls :: "openai_tool_call list"
  om_tool_call_id :: string

definition text_message :: "string \<Rightarrow> string \<Rightarrow> openai_message" where
  "text_message role text =
     \<lparr>om_role = role, om_content = text, om_tool_calls = [], om_tool_call_id = []\<rparr>"

subsection \<open>\<open>BuildContext\<close>\<close>

fun context_blocks :: "content_block list \<Rightarrow> content_block list" where
  "context_blocks [] = []"
| "context_blocks (b # bs) =
     (case cb_type b of
        BlockThinking \<Rightarrow> context_blocks bs
      | BlockToolResult \<Rightarrow>
          (empty_block BlockToolResult)\<lparr>cb_tool_id := cb_tool_id b,
             cb_output := clip MaxToolResultBytes (cb_output b)\<rparr> # context_blocks bs
      | _ \<Rightarrow> b # context_blocks bs)"

definition context_message :: "message \<Rightarrow> message" where
  "context_message m = m\<lparr>m_blocks := context_blocks (m_blocks m), m_media := [], m_reactions := [],
                         m_tool_call := None\<rparr>"

definition build_context :: "message list \<Rightarrow> int \<Rightarrow> message list" where
  "build_context messages maxMessages0 =
     (let maxMessages = (if maxMessages0 \<le> 0 then DefaultMaxMessages else maxMessages0);
          recent = (if maxMessages < int (length messages)
                    then drop (length messages - nat maxMessages) messages else messages)
      in map context_message recent)"

subsection \<open>Blocks to text\<close>

fun flatten_parts :: "content_block list \<Rightarrow> string list" where
  "flatten_parts [] = []"
| "flatten_parts (b # bs) =
     (case cb_type b of
        BlockText \<Rightarrow> (if cb_text b \<noteq> [] then [cb_text b] else [])
      | BlockToolUse \<Rightarrow> [''[Used tool: '' @ cb_name b @ '']'']
      | BlockToolResult \<Rightarrow>
          (let output = clip 500 (cb_output b)
           in if output \<noteq> [] then [''[Tool result: '' @ output @ '']''] else [])
      | _ \<Rightarrow> []) @ flatten_parts bs"

definition flatten_blocks :: "content_block list \<Rightarrow> string" where
  "flatten_blocks bs = str_join newline (flatten_parts bs)"

fun typed_texts :: "block_type \<Rightarrow> content_block list \<Rightarrow> string list" where
  "typed_texts t [] = []"
| "typed_texts t (b # bs) =
     (if cb_type b = t \<and> cb_text b \<noteq> [] then cb_text b # typed_texts t bs else typed_texts t bs)"

definition text_from_blocks :: "content_block list \<Rightarrow> string" where
  "text_from_blocks bs = str_join newline (typed_texts BlockText bs)"

definition summary_text :: "content_block list \<Rightarrow> string" where
  "summary_text bs = str_join newline (typed_texts BlockSummary bs)"

definition text_content :: "message \<Rightarrow> string" where
  "text_content m = (if m_blocks m = [] then m_content m
                     else str_join [] (typed_texts BlockText (m_blocks m)))"

definition summary_intro :: string where
  "summary_intro = ''Summary of earlier conversation:'' @ newline"

subsection \<open>\<open>FlattenForAPI\<close>\<close>

fun flatten_for_api :: "message list \<Rightarrow> api_message list" where
  "flatten_for_api [] = []"
| "flatten_for_api (m # ms) =
     (if m_role m = RoleSummary then
        (let text = summary_text (m_blocks m)
         in if text = [] then flatten_for_api ms
            else \<lparr>am_role = ''system'', am_content = summary_intro @ text\<rparr> # flatten_for_api ms)
      else
        (let text = flatten_blocks (m_blocks m)
         in if text = [] then flatten_for_api ms
            else \<lparr>am_role = m_role m, am_content = text\<rparr> # flatten_for_api ms))"

subsection \<open>\<open>FlattenForOpenAI\<close>\<close>

fun tool_uses :: "content_block list \<Rightarrow> openai_tool_call list" where
  "tool_uses [] = []"
| "tool_uses (b # bs) =
     (if cb_type b = BlockToolUse
      then \<lparr>ot_id = cb_tool_id b, ot_name = cb_name b,
            ot_arguments = (if cb_input b = [] then ''{}'' else cb_input b)\<rparr> # tool_uses bs
      else tool_uses bs)"

fun tool_results :: "content_block list \<Rightarrow> (string \<times> string) list" where
  "tool_results [] = []"
| "tool_results (b # bs) =
     (if cb_type b = BlockToolResult
      then (cb_tool_id b, clip MaxToolResultBytes (cb_output b)) # tool_results bs
      else tool_results bs)"

definition tool_message :: "string \<times> string \<Rightarrow> openai_message" where
  "tool_message tr = \<lparr>om_role = ''tool'', om_content = snd tr, om_tool_calls = [],
                      om_tool_call_id = fst tr\<rparr>"

definition assistant_parts :: "content_block list \<Rightarrow> openai_message list" where
  "assistant_parts bs =
     (let textParts = typed_texts BlockText bs; toolCalls = tool_uses bs; toolResults = tool_results bs
      in if toolCalls \<noteq> [] then
           \<lparr>om_role = ''assistant'',
            om_content = (if textParts \<noteq> [] then str_join newline textParts else []),
            om_tool_calls = toolCalls, om_tool_call_id = []\<rparr> # map tool_message toolResults
         else if textParts \<noteq> [] then [text_message ''assistant'' (str_join newline textParts)]
         else [])"

fun flatten_for_openai :: "message list \<Rightarrow> openai_message list" where
  "flatten_for_openai [] = []"
| "flatten_for_openai (m # ms) =
     (if m_role m = RoleSummary then
        (let text = summary_text (m_blocks m)
         in if text \<noteq> [] then text_message ''system'' (summary_intro @ text) # flatten_for_openai ms
            else flatten_for_openai ms)
      else if m_role m = ''user'' then
        (let text = text_from_blocks (m_blocks m)
         in if text \<noteq> [] then text_message ''user'' text # flatten_for_openai ms
            else flatten_for_openai ms)
      else assistant_parts (m_blocks m) @ flatten_for_openai ms)"

subsection \<open>\<open>FlattenTextOnly\<close>\<close>

fun flatten_text_only :: "message list \<Rightarrow> openai_message list" where
  "flatten_text_only [] = []"
| "flatten_text_only (m # ms) =
     (if m_role m = RoleSummary then
        (let text = summary_text (m_blocks m)
         in if text \<noteq> [] then text_message ''system'' (summary_intro @ text) # flatten_text_only ms
            else flatten_text_only ms)
      else
        (let text = text_from_blocks (m_blocks m)
         in if text = [] then flatten_text_only ms
            else text_message (if m_role m = ''tool'' then ''user'' else m_role m) text #
                 flatten_text_only ms))"

subsection \<open>Prompt text\<close>

fun prompt_summary :: "content_block list \<Rightarrow> string" where
  "prompt_summary [] = []"
| "prompt_summary (b # bs) =
     (if cb_type b = BlockSummary then cb_text b @ newline else []) @ prompt_summary bs"

fun prompt_blocks :: "string \<Rightarrow> content_block list \<Rightarrow> string" where
  "prompt_blocks weight [] = []"
| "prompt_blocks weight (b # bs) =
     (case cb_type b of
        BlockText \<Rightarrow> cb_text b @ newline
      | BlockToolUse \<Rightarrow>
          (if weight \<noteq> ''light'' then ''[Used tool: '' @ cb_name b @ '']'' @ newline else [])
      | BlockToolResult \<Rightarrow>
          (if weight \<noteq> ''light'' then ''[Tool result: '' @ clip 200 (cb_output b) @ '']'' @ newline else [])
      | _ \<Rightarrow> []) @ prompt_blocks weight bs"

definition prompt_message :: "string \<Rightarrow> message \<Rightarrow> string" where
  "prompt_message weight m =
     (let role = (if m_tier m \<noteq> [] then m_role m @ '' ['' @ m_tier m @ '']'' else m_role m)
      in if m_role m = RoleSummary
         then ''--- summary of earlier conversation ---'' @ newline @ prompt_summary (m_blocks m) @ newline
         else ''--- '' @ role @ '' ---'' @ newline @ prompt_blocks weight (m_blocks m) @ newline)"

definition format_as_system_prompt :: "message list \<Rightarrow> string list \<Rightarrow> string" where
  "format_as_system_prompt messages contextWeight =
     (if messages = [] then []
      else let weight = (case contextWeight of w # _ \<Rightarrow> if w \<noteq> [] then w else ''full'' | [] \<Rightarrow> ''full'')
        in ''=== [conversation history] ==='' @ newline @
           ''Previous messages in this conversation (for context continuity):'' @ newline @ newline @
           concat (map (prompt_message weight) messages) @
           ''=== [end conversation history] ==='')"

fun router_lines :: "message list \<Rightarrow> string" where
  "router_lines [] = []"
| "router_lines (m # ms) =
     (let text0 = text_content m; text = clip 150 text0;
          role = (if m_role m = ''assistant'' then (if m_tier m \<noteq> [] then m_tier m else ''assistant'')
                  else ''user'')
      in (if text0 = [] then [] else ''['' @ role @ '']: '' @ text @ newline) @ router_lines ms)"

text \<open>The callers pass a number of turns that is not negative (with a negative one the slice of
  \<open>BuildRouterContext\<close> would be out of range).\<close>

definition build_router_context :: "message list \<Rightarrow> nat \<Rightarrow> string" where
  "build_router_context msgs maxTurns =
     (if msgs = [] then []
      else router_lines (drop (if maxTurns * 2 < length msgs then length msgs - maxTurns * 2 else 0) msgs))"

section \<open>Tool messages\<close>

text \<open>The rule the OpenAI interface imposes on a list of messages: a tool message is only allowed in
  a run of tool messages that directly follows an assistant message with tool calls. The flag says
  whether the message before the list allows one.\<close>

fun tools_ok :: "bool \<Rightarrow> openai_message list \<Rightarrow> bool" where
  "tools_ok allowed [] = True"
| "tools_ok allowed (m # ms) =
     (if om_role m = ''tool'' then allowed \<and> tools_ok allowed ms
      else tools_ok (om_role m = ''assistant'' \<and> om_tool_calls m \<noteq> []) ms)"

lemma tools_ok_mono: "tools_ok False ms \<Longrightarrow> tools_ok allowed ms"
  by (cases ms) (auto split: if_splits)

lemma text_message_sel [simp]:
  "om_role (text_message r t) = r" "om_content (text_message r t) = t"
  "om_tool_calls (text_message r t) = []" "om_tool_call_id (text_message r t) = []"
  by (simp_all add: text_message_def)

lemma tools_ok_results: "tools_ok False ms \<Longrightarrow> tools_ok True (map tool_message trs @ ms)"
  by (induction trs) (auto simp: tool_message_def tools_ok_mono)

lemma tools_ok_assistant: "tools_ok False ms \<Longrightarrow> tools_ok False (assistant_parts bs @ ms)"
  by (auto simp: assistant_parts_def Let_def tools_ok_results)

lemma typed_texts_nonempty: "list_all (\<lambda>t. t \<noteq> []) (typed_texts t bs)"
  by (induction bs) auto

lemma join_typed_texts [simp]: "str_join sep (typed_texts t bs) = [] \<longleftrightarrow> typed_texts t bs = []"
  by (rule str_join_Nil_iff[OF typed_texts_nonempty])

lemma tool_results_clipped: "list_all (\<lambda>tr. length (snd tr) \<le> MaxToolResultBytes + 3) (tool_results bs)"
  by (induction bs) (auto simp: length_clip)

definition sendable :: "openai_message \<Rightarrow> bool" where
  "sendable o' = (if om_role o' = ''tool'' then length (om_content o') \<le> MaxToolResultBytes + 3
                  else \<not> (om_content o' = [] \<and> om_tool_calls o' = []))"

lemma assistant_parts_sendable: "list_all sendable (assistant_parts bs)"
  using tool_results_clipped[of bs]
  by (auto simp: assistant_parts_def Let_def sendable_def list_all_iff tool_message_def)

lemma sendable_text: "t \<noteq> [] \<Longrightarrow> r \<noteq> ''tool'' \<Longrightarrow> sendable (text_message r t)"
  by (simp add: sendable_def)

definition answering :: "message \<Rightarrow> bool" where
  "answering m \<longleftrightarrow> m_role m \<noteq> RoleSummary \<and> m_role m \<noteq> ''user''"

lemma calls_of_assistant: "concat (map om_tool_calls (assistant_parts bs)) = tool_uses bs"
  by (simp add: assistant_parts_def Let_def comp_def tool_message_def)

text \<open>The structured history is one the OpenAI interface accepts, whatever the timeline holds: a tool
  message always answers an assistant message with tool calls in front of it, no other message is
  empty, a tool output has at most 2051 bytes, and no tool call of an assistant turn is lost.\<close>

theorem openai_history_well_formed:
  "tools_ok False (flatten_for_openai ms) \<and> list_all sendable (flatten_for_openai ms) \<and>
   concat (map om_tool_calls (flatten_for_openai ms)) =
     concat (map (\<lambda>m. tool_uses (m_blocks m)) (filter answering ms))"
proof (induction ms)
  case (Cons m ms)
  then show ?case
    by (auto simp: Let_def tools_ok_assistant tools_ok_mono assistant_parts_sendable calls_of_assistant
        sendable_text summary_intro_def answering_def)
qed simp

section \<open>Context window\<close>

lemma context_blocks_idem [simp]: "context_blocks (context_blocks bs) = context_blocks bs"
  by (induction bs) (auto simp: empty_block_def split: block_type.split)

lemma context_message_idem [simp]: "context_message (context_message m) = context_message m"
  by (simp add: context_message_def)

lemma context_message_sel [simp]:
  "m_id (context_message m) = m_id m" "m_role (context_message m) = m_role m"
  "m_content (context_message m) = m_content m" "m_tier (context_message m) = m_tier m"
  "m_blocks (context_message m) = context_blocks (m_blocks m)"
  by (simp_all add: context_message_def)

definition clean_block :: "content_block \<Rightarrow> bool" where
  "clean_block b = (if cb_type b = BlockToolResult then length (cb_output b) \<le> MaxToolResultBytes + 3
                    else cb_type b \<noteq> BlockThinking)"

lemma clean_blockI:
  "clean_block ((empty_block BlockToolResult)\<lparr>cb_tool_id := i, cb_output := clip MaxToolResultBytes out\<rparr>)"
  "cb_type b \<in> {BlockText, BlockToolUse, BlockSummary} \<Longrightarrow> clean_block b"
  by (auto simp: clean_block_def empty_block_def length_clip)

lemma context_blocks_clean: "list_all clean_block (context_blocks bs)"
  by (induction bs) (auto intro: clean_blockI split: block_type.split)

lemma typed_texts_context:
  "t = BlockText \<or> t = BlockSummary \<Longrightarrow> typed_texts t (context_blocks bs) = typed_texts t bs"
  by (induction bs) (auto simp: empty_block_def split: block_type.split)

definition window_size :: "int \<Rightarrow> nat" where
  "window_size n = nat (if n \<le> 0 then DefaultMaxMessages else n)"

lemma build_context_window:
  "build_context ms n = map context_message (drop (length ms - window_size n) ms)"
  by (auto simp: build_context_def Let_def window_size_def DefaultMaxMessages_def)

text \<open>The context window: \<open>BuildContext\<close> keeps the most recent messages, at most the requested number
  (50 when none is requested), in order; no thinking block and no tool output above 2051 bytes
  leaves it; what the user and the model said and the summaries are kept word for word; and building
  the context of a context changes nothing.\<close>

theorem build_context_window_exact:
  "suffix (map m_id (build_context ms n)) (map m_id ms) \<and>
   length (build_context ms n) = min (length ms) (window_size n) \<and>
   list_all (\<lambda>m. list_all clean_block (m_blocks m)) (build_context ms n) \<and>
   map (\<lambda>m. text_from_blocks (m_blocks m)) (build_context ms n) =
     map (\<lambda>m. text_from_blocks (m_blocks m)) (drop (length ms - window_size n) ms) \<and>
   build_context (build_context ms n) n = build_context ms n"
proof -
  have "suffix (drop k (map m_id ms)) (map m_id ms)" for k by (rule suffix_drop)
  then show ?thesis
    by (simp add: build_context_window comp_def drop_map list_all_iff context_blocks_clean[unfolded list_all_iff]
        text_from_blocks_def typed_texts_context)
qed

section \<open>The summary and the window\<close>

lemma text_only_system:
  "\<forall>m \<in> set ms. m_role m \<noteq> RoleSummary \<and> m_role m \<noteq> ''system'' \<Longrightarrow>
   \<forall>o' \<in> set (flatten_text_only ms). om_role o' \<noteq> ''system''"
  by (induction ms) (auto simp: Let_def)

lemma latest_summary_role: "latest_summary ms acc = Some s \<Longrightarrow> acc = Some s \<or> s \<in> set ms \<and> m_role s = RoleSummary"
  by (induction ms arbitrary: acc) (auto split: if_splits)

text \<open>Whether a summary reaches the model. The pipeline applies the summary to the timeline, which
  puts it in front, and then keeps the last 50 messages: the summary of a conversation is in the
  provider's messages, as the first one, exactly when at most 49 messages are left uncovered. With
  more the covered part of the conversation is gone from the prompt without a trace.\<close>

theorem summary_reaches_provider_iff:
  assumes "latest_summary ms None = Some s" and "summary_text (m_blocks s) \<noteq> []"
    and "\<forall>m \<in> set ms. m_role m \<noteq> ''system''"
  shows "let left = filter (\<lambda>m. m_role m \<noteq> RoleSummary \<and> m_id m \<notin> set (m_covered s)) ms;
             sent = flatten_text_only (build_context (apply_summary ms) DefaultMaxMessages)
         in if length left \<le> 49
            then take 1 sent = [text_message ''system'' (summary_intro @ summary_text (m_blocks s))]
            else list_all (\<lambda>o'. om_role o' \<noteq> ''system'') sent"
proof -
  let ?left = "filter (\<lambda>m. m_role m \<noteq> RoleSummary \<and> m_id m \<notin> set (m_covered s)) ms"
  have role: "m_role s = RoleSummary" using latest_summary_role[OF assms(1)] by simp
  have app: "apply_summary ms = s # ?left" using assms(1) by (simp add: apply_summary_def)
  have w: "window_size DefaultMaxMessages = 50" by (simp add: window_size_def DefaultMaxMessages_def)
  show ?thesis
  proof (cases "length ?left \<le> 49")
    case True
    then have "build_context (apply_summary ms) DefaultMaxMessages = context_message s # map context_message ?left"
      unfolding build_context_window w app by simp
    then show ?thesis using True role assms(2)
      by (simp add: Let_def summary_text_def typed_texts_context)
  next
    case False
    then have bc: "build_context (apply_summary ms) DefaultMaxMessages =
        map context_message (drop (length ?left - 50) ?left)"
      unfolding build_context_window w app by (simp add: drop_Cons')
    have nosys: "\<forall>m \<in> set (map context_message (drop (length ?left - 50) ?left)).
        m_role m \<noteq> RoleSummary \<and> m_role m \<noteq> ''system''"
    proof
      fix m assume "m \<in> set (map context_message (drop (length ?left - 50) ?left))"
      then obtain n where "n \<in> set (drop (length ?left - 50) ?left)" "m = context_message n"
        unfolding set_map by (rule imageE) simp
      then have "n \<in> set ?left" "m = context_message n" by (blast dest: in_set_dropD)+
      then show "m_role m \<noteq> RoleSummary \<and> m_role m \<noteq> ''system''" using assms(3) by simp
    qed
    have "\<forall>o' \<in> set (flatten_text_only (build_context (apply_summary ms) DefaultMaxMessages)).
        om_role o' \<noteq> ''system''" unfolding bc by (rule text_only_system[OF nosys])
    then show ?thesis unfolding Let_def list_all_iff using False by (simp only: if_False)
  qed
qed

definition example_summary :: message where
  "example_summary = empty_message\<lparr>m_role := RoleSummary,
     m_blocks := [(empty_block BlockSummary)\<lparr>cb_text := ''they met''\<rparr>]\<rparr>"

theorem summary_reaches_provider_iff_witness:
  "list_all (\<lambda>o'. om_role o' \<noteq> ''system'')
     (flatten_text_only (build_context (apply_summary
        (example_summary # replicate 50 (empty_message\<lparr>m_id := ''m'', m_role := ''user''\<rparr>))) DefaultMaxMessages))"
proof -
  obtain u where u: "u = empty_message\<lparr>m_id := ''m'', m_role := ''user''\<rparr>" by blast
  have l: "latest_summary (replicate n u) acc = acc" for n acc
    by (induction n) (simp_all add: u RoleSummary_def)
  have 1: "latest_summary (example_summary # replicate 50 u) None = Some example_summary"
    unfolding latest_summary.simps l by (simp add: example_summary_def)
  have 2: "summary_text (m_blocks example_summary) \<noteq> []"
    by (simp add: example_summary_def summary_text_def empty_block_def)
  have 3: "\<forall>m \<in> set (example_summary # replicate 50 u). m_role m \<noteq> ''system''"
    by (auto simp: u example_summary_def RoleSummary_def)
  have "length (filter (\<lambda>m. m_role m \<noteq> RoleSummary \<and> m_id m \<notin> set (m_covered example_summary))
      (example_summary # replicate 50 u)) = 50"
    by (simp add: example_summary_def u RoleSummary_def filter_replicate empty_message_def)
  then show ?thesis
    using summary_reaches_provider_iff[OF 1 2 3] unfolding Let_def u by simp
qed

section \<open>Plain conversations\<close>

definition plain_message :: "message \<Rightarrow> bool" where
  "plain_message m \<longleftrightarrow> m_role m \<in> {''user'', ''assistant'', RoleSummary} \<and>
     list_all (\<lambda>b. cb_type b \<in> {BlockText, BlockThinking, BlockSummary}) (m_blocks m)"

lemma plain_parts:
  "list_all (\<lambda>b. cb_type b \<in> {BlockText, BlockThinking, BlockSummary}) bs \<Longrightarrow>
   flatten_parts bs = typed_texts BlockText bs \<and> tool_uses bs = []"
  by (induction bs) auto

text \<open>On a conversation without tool blocks the three flatteners are the same function: the role and
  text pairs of \<open>FlattenForAPI\<close>, \<open>FlattenForOpenAI\<close> and \<open>FlattenTextOnly\<close> agree.\<close>

theorem flatteners_agree_without_tools:
  assumes "list_all plain_message ms"
  shows "flatten_for_openai ms = map (\<lambda>a. text_message (am_role a) (am_content a)) (flatten_for_api ms) \<and>
    flatten_text_only ms = flatten_for_openai ms"
  using assms
proof (induction ms)
  case (Cons m ms)
  then have "flatten_parts (m_blocks m) = typed_texts BlockText (m_blocks m)" "tool_uses (m_blocks m) = []"
    using plain_parts[of "m_blocks m"] by (auto simp: plain_message_def)
  then show ?case using Cons
    by (auto simp: Let_def plain_message_def RoleSummary_def flatten_blocks_def text_from_blocks_def
        assistant_parts_def)
qed simp

theorem flatteners_agree_without_tools_witness:
  "flatten_text_only [example_summary] = [text_message ''system'' (summary_intro @ ''they met'')]"
proof -
  have "list_all plain_message [example_summary]"
    by (simp add: example_summary_def plain_message_def RoleSummary_def empty_block_def)
  from flatteners_agree_without_tools[OF this] show ?thesis
    by (simp add: example_summary_def summary_text_def RoleSummary_def empty_block_def)
qed

end
