(* ===== verification/Capability_Registry.thy ===== *)
theory Capability_Registry
  imports Alf_Prelude "HOL-Library.List_Lexorder" "HOL-Library.Char_ord"
begin

text \<open>
  \<open>internal/capability\<close>: the data of a capability (\<open>capability.go\<close>) and the registry
  (\<open>registry.go\<close>). A \<open>Capability\<close> is an interface in Go; here it is its manifest and its
  \<open>Execute\<close> method, whose type the runtime fixes. A nil interface is \<open>None\<close>. The listings sort the
  ids they collect from a map; the order of the collection is an argument.
\<close>

section \<open>Data\<close>

datatype kind = KindTool | KindSkill | KindApp

record permission_set =
  pm_file_paths :: "string list"
  pm_networks :: "string list"
  pm_secrets :: "string list"

record manifest =
  mf_id :: string
  mf_kind :: kind
  mf_name :: string
  mf_version :: string
  mf_description :: string
  mf_permissions :: permission_set

record cap_output =
  co_data :: "go_any option"
  co_error :: string

record 'x capability =
  cap_manifest :: manifest
  cap_execute :: 'x

type_synonym 'x registry = "string \<rightharpoonup> 'x capability"

section \<open>Operations\<close>

definition new_registry :: "'x registry" where "new_registry = Map.empty"

definition register :: "'x capability option \<Rightarrow> 'x registry \<Rightarrow> string option \<times> 'x registry" where
  "register c r =
     (case c of
        None \<Rightarrow> (Some ''capability: cannot register nil'', r)
      | Some c \<Rightarrow>
          let i = mf_id (cap_manifest c) in
          if i = [] then (Some ''capability: manifest ID is empty'', r)
          else if r i \<noteq> None then (Some (''capability: ID '' @ go_quote i @ '' already registered''), r)
          else (None, r(i \<mapsto> c)))"

definition replace_cap :: "'x capability option \<Rightarrow> 'x registry \<Rightarrow> string option \<times> 'x registry" where
  "replace_cap c r =
     (case c of
        None \<Rightarrow> (Some ''capability: cannot replace with nil'', r)
      | Some c \<Rightarrow>
          let i = mf_id (cap_manifest c) in
          if i = [] then (Some ''capability: manifest ID is empty'', r)
          else (None, r(i \<mapsto> c)))"

definition get_cap :: "string \<Rightarrow> 'x registry \<Rightarrow> 'x capability option" where
  "get_cap i r = r i"

definition resolve :: "string \<Rightarrow> 'x registry \<Rightarrow> 'x capability option" where
  "resolve i r = get_cap i r"

definition caps_at :: "string list \<Rightarrow> 'x registry \<Rightarrow> 'x capability list" where
  "caps_at ids r = concat (map (\<lambda>i. case r i of None \<Rightarrow> [] | Some c \<Rightarrow> [c]) ids)"

definition all_caps :: "string list \<Rightarrow> 'x registry \<Rightarrow> 'x capability list" where
  "all_caps order r = caps_at (sort order) r"

definition list_manifests :: "string list \<Rightarrow> 'x registry \<Rightarrow> manifest list" where
  "list_manifests order r = map cap_manifest (all_caps order r)"

definition len_caps :: "string list \<Rightarrow> nat" where
  "len_caps order = length order"

definition of_kind :: "kind \<Rightarrow> 'x registry \<Rightarrow> string \<Rightarrow> bool" where
  "of_kind k r i = (case r i of None \<Rightarrow> False | Some c \<Rightarrow> mf_kind (cap_manifest c) = k)"

definition by_kind :: "kind \<Rightarrow> string list \<Rightarrow> 'x registry \<Rightarrow> 'x capability list" where
  "by_kind k order r = caps_at (sort (filter (of_kind k r) order)) r"

section \<open>Invariant\<close>

datatype 'x reg_op = OpRegister "'x capability option" | OpReplace "'x capability option"

fun reg_step :: "'x reg_op \<Rightarrow> 'x registry \<Rightarrow> 'x registry" where
  "reg_step (OpRegister c) r = snd (register c r)"
| "reg_step (OpReplace c) r = snd (replace_cap c r)"

definition reg_inv :: "'x registry \<Rightarrow> bool" where
  "reg_inv r \<longleftrightarrow> finite (dom r) \<and> (\<forall>i c. r i = Some c \<longrightarrow> mf_id (cap_manifest c) = i \<and> i \<noteq> [])"

interpretation reg: op_machine new_registry reg_step reg_inv
proof
  show "reg_inv new_registry" by (simp add: reg_inv_def new_registry_def)
next
  fix r :: "'a registry" and op assume "reg_inv r"
  then show "reg_inv (reg_step op r)"
    by (cases op) (auto simp: reg_inv_def register_def replace_cap_def Let_def split: option.splits if_splits)
qed

abbreviation reg_after :: "'x reg_op list \<Rightarrow> 'x registry" where
  "reg_after ops \<equiv> fold reg_step ops new_registry"

section \<open>Listings\<close>

lemma caps_at_map: "set ids \<subseteq> dom r \<Longrightarrow> caps_at ids r = map (\<lambda>i. the (r i)) ids"
  by (induction ids) (auto simp: caps_at_def)

lemma caps_at_ids: "reg_inv r \<Longrightarrow> set ids \<subseteq> dom r \<Longrightarrow> map (\<lambda>c. mf_id (cap_manifest c)) (caps_at ids r) = ids"
  by (induction ids) (auto simp: caps_at_def reg_inv_def)

lemma caps_at_set: "set ids \<subseteq> dom r \<Longrightarrow> set (caps_at ids r) = {c. \<exists>i \<in> set ids. r i = Some c}"
  by (auto simp: caps_at_map) (metis domI domD option.sel subsetD image_eqI)+

lemma sort_order_unique: "set xs = set ys \<Longrightarrow> distinct xs \<Longrightarrow> distinct ys \<Longrightarrow> sort xs = sort ys"
  by (metis distinct_remdups_id sorted_list_of_set_sort_remdups)

text \<open>The listings of the registry do not depend on Go's map order. After any registrations and
  replacements \<open>All\<close> has every capability that can be resolved, once, with strictly increasing ids,
  whatever order the map was read in; \<open>ByKind\<close> is exactly its part of that kind; \<open>Len\<close> is its
  length; and every capability resolves under the id of its manifest, which is never empty.\<close>

theorem registry_listings_canonical:
  assumes "visits order (reg_after ops)" and "visits order' (reg_after ops)"
  shows "all_caps order (reg_after ops) = all_caps order' (reg_after ops) \<and>
    sorted_wrt (<) (map (\<lambda>c. mf_id (cap_manifest c)) (all_caps order (reg_after ops))) \<and>
    set (all_caps order (reg_after ops)) = {c. \<exists>i. resolve i (reg_after ops) = Some c} \<and>
    length (all_caps order (reg_after ops)) = len_caps order \<and>
    by_kind k order' (reg_after ops) =
      filter (\<lambda>c. mf_kind (cap_manifest c) = k) (all_caps order (reg_after ops)) \<and>
    list_all (\<lambda>c. mf_id (cap_manifest c) \<noteq> [] \<and>
                  resolve (mf_id (cap_manifest c)) (reg_after ops) = Some c) (all_caps order (reg_after ops))"
proof -
  let ?r = "reg_after ops"
  have inv: "reg_inv ?r" by (rule reg.run_inv)
  have o1: "set (sort order) \<subseteq> dom ?r" "set (sort order) = dom ?r" "distinct order"
    and o2: "set order' = dom ?r" "distinct order'" using assms by (auto simp: visits_def)
  have same: "sort order = sort order'" using o1 o2 by (intro sort_order_unique) auto
  have all: "all_caps order ?r = map (\<lambda>i. the (?r i)) (sort order)"
    unfolding all_caps_def by (rule caps_at_map[OF o1(1)])
  have ids: "map (\<lambda>c. mf_id (cap_manifest c)) (all_caps order ?r) = sort order"
    unfolding all_caps_def by (rule caps_at_ids[OF inv o1(1)])
  have kind: "by_kind k order' ?r = filter (\<lambda>c. mf_kind (cap_manifest c) = k) (all_caps order ?r)"
  proof -
    have "sort (filter (of_kind k ?r) order') = filter (of_kind k ?r) (sort order)"
      unfolding same by (rule filter_sort[symmetric])
    moreover have "set (filter (of_kind k ?r) (sort order)) \<subseteq> dom ?r" using o1(1) by auto
    ultimately have "by_kind k order' ?r = map (\<lambda>i. the (?r i)) (filter (of_kind k ?r) (sort order))"
      unfolding by_kind_def by (simp only: caps_at_map)
    also have "\<dots> = filter (\<lambda>c. mf_kind (cap_manifest c) = k) (map (\<lambda>i. the (?r i)) (sort order))"
    proof -
      have "of_kind k ?r i = (mf_kind (cap_manifest (the (?r i))) = k)" if "i \<in> set (sort order)" for i
        using that o1(1) by (auto simp: of_kind_def split: option.split)
      then have "filter (of_kind k ?r) (sort order) =
          filter (\<lambda>i. mf_kind (cap_manifest (the (?r i))) = k) (sort order)" by (intro filter_cong) auto
      then show ?thesis by (simp add: filter_map comp_def)
    qed
    finally show ?thesis unfolding all .
  qed
  have "sorted_wrt (<) (sort order)" using o1(3) by (simp add: strict_sorted_iff)
  moreover have "list_all (\<lambda>c. mf_id (cap_manifest c) \<noteq> [] \<and> ?r (mf_id (cap_manifest c)) = Some c)
      (all_caps order ?r)"
    using inv caps_at_set[OF o1(1)] unfolding all_caps_def list_all_iff reg_inv_def by auto
  moreover have "length order' = length order" using same by (metis length_sort)
  ultimately show ?thesis
    using same ids kind caps_at_set[OF o1(1)] o1(2) all
    by (auto simp: all_caps_def resolve_def get_cap_def len_caps_def simp del: set_sort)
qed

definition no_permissions :: permission_set where
  "no_permissions = \<lparr>pm_file_paths = [], pm_networks = [], pm_secrets = []\<rparr>"

definition simple_cap :: "string \<Rightarrow> kind \<Rightarrow> 'x \<Rightarrow> 'x capability" where
  "simple_cap i k x = \<lparr>cap_manifest = \<lparr>mf_id = i, mf_kind = k, mf_name = i, mf_version = [],
     mf_description = [], mf_permissions = no_permissions\<rparr>, cap_execute = x\<rparr>"

theorem registry_listings_canonical_witness:
  "\<exists>ops. visits [''b'', ''a''] (reg_after ops :: nat registry) \<and>
     all_caps [''b'', ''a''] (reg_after ops) = [simple_cap ''a'' KindTool 1, simple_cap ''b'' KindSkill 2] \<and>
     by_kind KindSkill [''a'', ''b''] (reg_after ops) = [simple_cap ''b'' KindSkill 2]"
proof -
  let ?ops = "[OpRegister (Some (simple_cap ''b'' KindSkill (2 :: nat))), OpReplace (Some (simple_cap ''a'' KindTool 1))]"
  have r: "reg_after ?ops = [''b'' \<mapsto> simple_cap ''b'' KindSkill 2, ''a'' \<mapsto> simple_cap ''a'' KindTool 1]"
    by (simp add: new_registry_def register_def replace_cap_def simple_cap_def Let_def)
  have v: "visits [''b'', ''a''] (reg_after ?ops)" "visits [''a'', ''b''] (reg_after ?ops)"
    unfolding r visits_def by auto
  have all: "all_caps [''b'', ''a''] (reg_after ?ops) = [simple_cap ''a'' KindTool 1, simple_cap ''b'' KindSkill 2]"
    unfolding r by (simp add: all_caps_def caps_at_def)
  show ?thesis
    using registry_listings_canonical[OF v, of KindSkill] v(1) all
    by (intro exI[of _ ?ops]) (simp add: simple_cap_def)
qed

end
