(* ===== verification/Go_Path.thy ===== *)
theory Go_Path
  imports Alf_Prelude
begin

text \<open>
  The functions of Go's \<open>path/filepath\<close> on Unix that the modelled code calls: \<open>Clean\<close>, \<open>Join\<close>,
  \<open>IsAbs\<close> and \<open>Rel\<close>. A cleaned path is whether it is rooted and the list of its elements; \<open>Dir\<close> of
  a cleaned path is the path without its last element and \<open>Base\<close> is that element.
\<close>

definition is_abs :: "string \<Rightarrow> bool" where "is_abs p = has_prefix p ''/''"

text \<open>The loop of \<open>Clean\<close> over the elements; the accumulator is the output so far, reversed.\<close>

fun clean_elems :: "bool \<Rightarrow> string list \<Rightarrow> string list \<Rightarrow> string list" where
  "clean_elems rooted st [] = rev st"
| "clean_elems rooted st (e # es) =
     (if e = [] \<or> e = ''.'' then clean_elems rooted st es
      else if e = ''..'' then
        (case st of
           [] \<Rightarrow> clean_elems rooted (if rooted then [] else [''..'']) es
         | t # st' \<Rightarrow> clean_elems rooted (if t = ''..'' then ''..'' # st else st') es)
      else clean_elems rooted (e # st) es)"

definition path_elems :: "string \<Rightarrow> string list" where
  "path_elems p = clean_elems (is_abs p) [] (split_at (CHR ''/'') p)"

definition render :: "bool \<Rightarrow> string list \<Rightarrow> string" where
  "render rooted es = (if rooted then CHR ''/'' # str_join ''/'' es
                       else if es = [] then ''.'' else str_join ''/'' es)"

definition clean :: "string \<Rightarrow> string" where "clean p = render (is_abs p) (path_elems p)"

definition join_path :: "string list \<Rightarrow> string" where
  "join_path parts =
     (let ps = dropWhile (\<lambda>e. e = []) parts
      in if ps = [] then [] else clean (str_join ''/'' ps))"

fun strip_common :: "string list \<Rightarrow> string list \<Rightarrow> string list \<times> string list" where
  "strip_common (b # bs) (t # ts) = (if b = t then strip_common bs ts else (b # bs, t # ts))"
| "strip_common bs ts = (bs, ts)"

text \<open>\<open>Rel\<close>; \<open>None\<close> is its error. The target \<open>.\<close> is an element of its own.\<close>

definition go_rel :: "string \<Rightarrow> string \<Rightarrow> string option" where
  "go_rel base targ =
     (let bs = path_elems base;
          ts = (if \<not> is_abs targ \<and> path_elems targ = [] then [''.''] else path_elems targ)
      in if clean base = clean targ then Some ''.''
         else if is_abs base \<noteq> is_abs targ then None
         else (case strip_common bs ts of (b, t) \<Rightarrow>
                 if b \<noteq> [] \<and> t \<noteq> [] \<and> hd b = ''..'' then None
                 else Some (str_join ''/'' (replicate (length b) ''..'' @ t))))"

section \<open>Absolute paths\<close>

text \<open>An element of a cleaned absolute path.\<close>

definition plain_elem :: "string \<Rightarrow> bool" where
  "plain_elem e \<longleftrightarrow> e \<noteq> [] \<and> e \<noteq> ''.'' \<and> e \<noteq> ''..'' \<and> CHR ''/'' \<notin> set e"

lemma split_at_elems: "e \<in> set (split_at c s) \<Longrightarrow> c \<notin> set e"
  by (induction s arbitrary: e) (auto split: if_splits list.splits)

lemma clean_elems_plain:
  "list_all plain_elem st \<Longrightarrow> \<forall>e \<in> set es. CHR ''/'' \<notin> set e \<Longrightarrow> list_all plain_elem (clean_elems True st es)"
proof (induction True st es rule: clean_elems.induct)
  case (2 st e es)
  then show ?case by (auto simp: plain_elem_def split: list.splits)
qed simp

lemma path_elems_plain: "is_abs p \<Longrightarrow> list_all plain_elem (path_elems p)"
  unfolding path_elems_def by (auto intro!: clean_elems_plain dest: split_at_elems)

lemma clean_elems_id: "list_all plain_elem es \<Longrightarrow> clean_elems rooted st es = rev st @ es"
  by (induction es arbitrary: st) (auto simp: plain_elem_def)

lemma split_at_append: "c \<notin> set e \<Longrightarrow> split_at c (e @ c # s) = e # split_at c s"
  by (induction e) auto

lemma clean_elems_append: "clean_elems rooted st (a @ b) = clean_elems rooted (rev (clean_elems rooted st a)) b"
  by (induction rooted st a rule: clean_elems.induct) (auto split: list.split)

lemma split_at_app: "split_at c (a @ c # s) = split_at c a @ split_at c s"
proof (induction a)
  case (Cons x a)
  then show ?case by (cases "split_at c a") auto
qed simp

lemma split_at_join:
  "\<forall>e \<in> set es. CHR ''/'' \<notin> set e \<Longrightarrow> es \<noteq> [] \<Longrightarrow> split_at (CHR ''/'') (str_join ''/'' es) = es"
  by (induction "''/''" es rule: str_join.induct) (auto simp: split_at_no_sep split_at_append)

lemma path_elems_render: "list_all plain_elem es \<Longrightarrow> path_elems (render True es) = es"
proof (cases "es = []")
  case False
  assume "list_all plain_elem es"
  then have "split_at (CHR ''/'') (str_join ''/'' es) = es"
    using False by (intro split_at_join) (auto simp: list_all_iff plain_elem_def)
  then show ?thesis
    using \<open>list_all plain_elem es\<close> by (simp add: path_elems_def render_def is_abs_def clean_elems_id)
qed (simp add: path_elems_def render_def is_abs_def)

lemma is_abs_render [simp]: "is_abs (render True es)"
  by (simp add: is_abs_def render_def)

lemma clean_render: "is_abs p \<Longrightarrow> clean p = render True (path_elems p)"
  by (simp only: clean_def)

lemma clean_abs: "is_abs p \<Longrightarrow> is_abs (clean p) \<and> path_elems (clean p) = path_elems p"
  by (simp only: clean_render is_abs_render path_elems_render[OF path_elems_plain] simp_thms)

lemma clean_idem_abs: "is_abs p \<Longrightarrow> clean (clean p) = clean p"
  by (metis clean_abs clean_render)

lemma clean_eq_iff_abs: "is_abs p \<Longrightarrow> is_abs q \<Longrightarrow> clean p = clean q \<longleftrightarrow> path_elems p = path_elems q"
  by (metis clean_abs clean_render)

lemma strip_common_prefix: "strip_common bs (bs @ t) = ([], t)"
  by (induction bs) (cases t; simp)+

lemma strip_common_not_prefix: "\<not> prefix bs ts \<Longrightarrow> fst (strip_common bs ts) \<noteq> []"
  by (induction bs ts rule: strip_common.induct) auto

lemma strip_common_subset: "set (fst (strip_common bs ts)) \<subseteq> set bs"
  by (induction bs ts rule: strip_common.induct) auto

lemma dotdot_prefix:
  assumes "list_all plain_elem es" and "es \<noteq> []"
  shows "has_prefix (str_join ''/'' es) ''..'' \<longleftrightarrow> has_prefix (hd es) ''..''"
proof -
  obtain e r where es: "es = e # r" using assms(2) by (cases es) auto
  then have "plain_elem e" using assms(1) by simp
  then obtain a e' where e: "e = a # e'" "a = CHR ''.'' \<Longrightarrow> e' \<noteq> []" by (cases e) (auto simp: plain_elem_def)
  show ?thesis
    by (cases e'; cases r) (use es e in auto)
qed

text \<open>\<open>Rel\<close> on absolute paths never fails; it is inside (does not start with two dots) exactly when the
  target's elements continue those of the base with an element that does not.\<close>

lemma go_rel_inside:
  assumes "is_abs base" and "is_abs targ" and "path_elems targ = path_elems base @ rest"
  shows "go_rel base targ = Some (if rest = [] then ''.'' else str_join ''/'' rest)"
  using assms clean_eq_iff_abs[OF assms(1,2)]
  by (simp add: go_rel_def Let_def strip_common_prefix)

lemma go_rel_outside:
  assumes "is_abs base" and "is_abs targ" and "\<not> prefix (path_elems base) (path_elems targ)"
  shows "\<exists>r. go_rel base targ = Some r \<and> has_prefix r ''..''"
proof -
  obtain b t where s: "strip_common (path_elems base) (path_elems targ) = (b, t)" by (metis surj_pair)
  then have b: "b \<noteq> []" and "set b \<subseteq> set (path_elems base)"
    using strip_common_not_prefix[OF assms(3)] strip_common_subset[of "path_elems base" "path_elems targ"] by auto
  then have "hd b \<in> set (path_elems base)" by (meson hd_in_set subsetD)
  then have "hd b \<noteq> ''..''" using path_elems_plain[OF assms(1)]
    by (auto simp: list_all_iff plain_elem_def)
  moreover have "clean base \<noteq> clean targ" using clean_eq_iff_abs[OF assms(1,2)] assms(3) by auto
  moreover have "has_prefix (str_join ''/'' (replicate (length b) ''..'' @ t)) ''..''"
  proof -
    obtain x b' where "b = x # b'" using b by (cases b) auto
    then show ?thesis by (cases "replicate (length b') ''..'' @ t") auto
  qed
  ultimately show ?thesis using assms(1,2) s by (simp add: go_rel_def Let_def)
qed

end
