(* ===== verification/Sandbox_Policy.thy ===== *)
theory Sandbox_Policy
  imports Go_Path
begin

text \<open>
  \<open>internal/sandbox\<close>: the policy a capability runs under (\<open>sandbox.go\<close>, \<open>derive.go\<close>), the permission
  names of app manifests (\<open>permissions.go\<close>, with \<open>ValidateManifest\<close> of \<open>internal/marketplace\<close>), and
  the boundary check of file paths (\<open>exec/path.go\<close>). A context is what \<open>Apply\<close> can see of it: the
  policies installed on it, innermost first. The integrity checker and the file system are
  parameters; of the file system the check uses \<open>EvalSymlinks\<close> and \<open>Lstat\<close>.
\<close>

section \<open>Policies\<close>

record permissions_view =
  pv_file_paths :: "string list"
  pv_networks :: "string list"
  pv_secrets :: "string list"

record manifest_view =
  mv_id :: string
  mv_permissions :: permissions_view

record file_rules =
  fr_read_paths :: "string list"
  fr_write_paths :: "string list"

record network_rules =
  nr_domains :: "string list"
  nr_cidrs :: "string list"

record policy =
  po_files :: file_rules
  po_network :: network_rules
  po_secrets :: "string list"
  po_tier :: string

type_synonym sandbox_ctx = "policy list"

definition derive :: "manifest_view \<Rightarrow> string \<Rightarrow> policy" where
  "derive m tier =
     \<lparr>po_files = \<lparr>fr_read_paths = pv_file_paths (mv_permissions m), fr_write_paths = pv_file_paths (mv_permissions m)\<rparr>,
      po_network = \<lparr>nr_domains = pv_networks (mv_permissions m), nr_cidrs = []\<rparr>,
      po_secrets = pv_secrets (mv_permissions m), po_tier = tier\<rparr>"

text \<open>The checker is \<open>None\<close> when none is wired.\<close>

definition apply_policy ::
  "(string \<Rightarrow> string option) option \<Rightarrow> sandbox_ctx \<Rightarrow> manifest_view \<Rightarrow> policy \<Rightarrow> sandbox_ctx res" where
  "apply_policy checker ctx m p =
     (case (case checker of None \<Rightarrow> None | Some verify \<Rightarrow> verify (mv_id m)) of
        Some e \<Rightarrow> Err (''sandbox: integrity check failed for '' @ go_quote (mv_id m) @ '': '' @ e)
      | None \<Rightarrow> Ok (p # ctx))"

definition policy_from :: "sandbox_ctx \<Rightarrow> policy option" where
  "policy_from ctx = (case ctx of [] \<Rightarrow> None | p # _ \<Rightarrow> Some p)"

section \<open>Permissions\<close>

definition ValidPermissions :: "string list" where
  "ValidPermissions = [''storage'', ''bash'', ''tool'', ''upload'', ''clipboard'', ''events'', ''network'']"

definition UntrustedMaxPermissions :: "string list" where
  "UntrustedMaxPermissions = [''storage'', ''events'', ''clipboard'']"

fun validate_permissions :: "string list \<Rightarrow> string option" where
  "validate_permissions [] = None"
| "validate_permissions (p # ps) =
     (if p \<notin> set ValidPermissions then Some (''unknown permission: '' @ go_quote p) else validate_permissions ps)"

fun validate_services :: "string list \<Rightarrow> string option" where
  "validate_services [] = None"
| "validate_services (s # ss) =
     (if s = [] then Some ''empty service name''
      else if list_ex (\<lambda>c. c = CHR ''/'' \<or> c = CHR ''.'' \<or> c = CHR 0x5C) s
      then Some (''service name '' @ go_quote s @ '' contains path separator'')
      else validate_services ss)"

definition cap_permissions_for_untrusted :: "string list option \<Rightarrow> string list option" where
  "cap_permissions_for_untrusted perms =
     (case perms of None \<Rightarrow> None | Some ps \<Rightarrow> Some (filter (\<lambda>p. p \<in> set UntrustedMaxPermissions) ps))"

record app_manifest =
  ap_name :: string
  ap_slug :: string
  ap_version :: string
  ap_description :: string
  ap_permissions :: "string list option"
  ap_services :: "string list"
  ap_trusted :: bool

definition validate_manifest :: "app_manifest \<Rightarrow> string list \<times> string list" where
  "validate_manifest m =
     ((if ap_name m = [] then [''name is required''] else []) @
      (if ap_slug m = [] then [''slug is required''] else []) @
      (if ap_version m = [] then [''version is required'']
       else if length (filter (\<lambda>c. c = CHR ''.'') (ap_version m)) \<noteq> 2
       then [''version must be semver (e.g. 1.0.0)''] else []) @
      (case validate_permissions (case ap_permissions m of None \<Rightarrow> [] | Some ps \<Rightarrow> ps) of None \<Rightarrow> [] | Some e \<Rightarrow> [e]) @
      (case validate_services (ap_services m) of None \<Rightarrow> [] | Some e \<Rightarrow> [e]),
      if ap_description m = [] then [''description is empty''] else [])"

section \<open>Paths\<close>

datatype fs_error = NotExist | FsError string

record file_system =
  fs_eval :: "string \<Rightarrow> fs_error + string"
  fs_lstat :: "string \<Rightarrow> fs_error option"

definition resolve_path :: "string \<Rightarrow> string \<Rightarrow> string" where
  "resolve_path dataDir path =
     clean (if dataDir \<noteq> [] \<and> \<not> is_abs path then join_path [dataDir, path] else path)"

text \<open>The loop of \<open>resolveExistingAncestor\<close>: the elements of the cursor, reversed, and the tail. \<open>None\<close>
  is the lexical fallback.\<close>

fun ancestor :: "file_system \<Rightarrow> bool \<Rightarrow> string list \<Rightarrow> string list \<Rightarrow> (string list \<times> string list) option" where
  "ancestor fs rooted up tail =
     (case fs_lstat fs (render rooted (rev up)) of
        None \<Rightarrow> Some (rev up, tail)
      | Some (FsError _) \<Rightarrow> None
      | Some NotExist \<Rightarrow> (case up of [] \<Rightarrow> None | e # up' \<Rightarrow> ancestor fs rooted up' (e # tail)))"

declare ancestor.simps [simp del]

definition resolve_existing_ancestor :: "file_system \<Rightarrow> string \<Rightarrow> string \<times> string list" where
  "resolve_existing_ancestor fs path =
     (case ancestor fs (is_abs path) (rev (path_elems path)) [] of
        None \<Rightarrow> (clean path, [])
      | Some (es, tail) \<Rightarrow>
          let cursor = render (is_abs path) es
          in (case fs_eval fs cursor of Inr real \<Rightarrow> (real, tail) | Inl _ \<Rightarrow> (clean cursor, tail)))"

definition real_path :: "file_system \<Rightarrow> string \<Rightarrow> string res" where
  "real_path fs path =
     (case fs_eval fs path of
        Inr p \<Rightarrow> Ok p
      | Inl (FsError e) \<Rightarrow> Err (''cannot resolve path: '' @ e)
      | Inl NotExist \<Rightarrow>
          (case resolve_existing_ancestor fs path of (existingReal, tail) \<Rightarrow> Ok (join_path (existingReal # tail))))"

definition real_dir :: "file_system \<Rightarrow> string \<Rightarrow> string" where
  "real_dir fs dataDir = (case fs_eval fs dataDir of Inr r \<Rightarrow> r | Inl _ \<Rightarrow> clean dataDir)"

definition protected_prefixes :: "string list" where
  "protected_prefixes = [''.daemon'', ''logs/tool-changes.log'']"

definition check_boundary :: "file_system \<Rightarrow> string \<Rightarrow> string \<Rightarrow> string res" where
  "check_boundary fs dataDir path =
     (if dataDir = [] then Ok path
      else (case real_path fs path of
              Inl e \<Rightarrow> Err e
            | Inr realPath \<Rightarrow>
                (case go_rel (real_dir fs dataDir) realPath of
                   None \<Rightarrow> Err (''path escapes workspace boundary: '' @ path)
                 | Some rel \<Rightarrow>
                     if has_prefix rel ''..'' then Err (''path escapes workspace boundary: '' @ path)
                     else if list_ex (has_prefix rel) protected_prefixes
                     then Err (''path is protected (internal system directory): '' @ path)
                     else Ok realPath)))"

section \<open>The boundary\<close>

text \<open>Documented behaviour of \<open>EvalSymlinks\<close>: the result for an absolute path is absolute.\<close>

definition fs_sane :: "file_system \<Rightarrow> bool" where
  "fs_sane fs \<longleftrightarrow> (\<forall>p r. fs_eval fs p = Inr r \<and> is_abs p \<longrightarrow> is_abs r)"

lemma real_dir_abs: "fs_sane fs \<Longrightarrow> is_abs d \<Longrightarrow> is_abs (real_dir fs d)"
  by (auto simp: real_dir_def fs_sane_def clean_abs split: sum.split)

lemma is_abs_join: "is_abs p \<Longrightarrow> is_abs (join_path (p # tail))"
proof -
  assume p: "is_abs p"
  then have ne: "p \<noteq> []" by (auto simp: is_abs_def)
  have "is_abs (str_join ''/'' (p # tail))"
    using p ne by (cases tail; cases p) (auto simp: is_abs_def)
  then show ?thesis using ne clean_abs by (simp add: join_path_def Let_def)
qed

lemma real_path_abs:
  assumes "fs_sane fs" and "is_abs path" and "real_path fs path = Ok p"
  shows "is_abs p"
proof (cases "fs_eval fs path")
  case (Inl e)
  obtain r tail where r: "resolve_existing_ancestor fs path = (r, tail)" by (metis surj_pair)
  have "is_abs r"
    using r assms(1,2) is_abs_render clean_abs
    by (fastforce simp: resolve_existing_ancestor_def Let_def fs_sane_def
        split: option.splits sum.splits prod.splits)
  then show ?thesis using assms(3) Inl r is_abs_join by (auto simp: real_path_def split: fs_error.splits)
next
  case (Inr q)
  then show ?thesis using assms by (auto simp: real_path_def fs_sane_def)
qed

text \<open>What the check allows below the workspace: nothing whose relative path starts with two dots or with
  one of the protected prefixes. These are string prefixes: \<open>..notes\<close> and \<open>.daemonize.txt\<close> are
  refused too.\<close>

definition allowed_below :: "string list \<Rightarrow> bool" where
  "allowed_below rest \<longleftrightarrow> rest = [] \<or>
     list_all (\<lambda>pre. \<not> has_prefix (str_join ''/'' rest) pre) (''..'' # protected_prefixes)"

lemma check_boundary_iff:
  assumes "fs_sane fs" and "is_abs dataDir" and "is_abs path"
  shows "(check_boundary fs dataDir path = Ok p) =
    (real_path fs path = Ok p \<and>
     (\<exists>rest. path_elems p = path_elems (real_dir fs dataDir) @ rest \<and> allowed_below rest))"
proof (cases "real_path fs path = Ok p")
  case True
  let ?d = "real_dir fs dataDir"
  have abs: "is_abs ?d" "is_abs p" using assms True real_dir_abs real_path_abs by blast+
  have ne: "dataDir \<noteq> []" using assms(2) by (auto simp: is_abs_def)
  show ?thesis
  proof (cases "prefix (path_elems ?d) (path_elems p)")
    case pre: True
    then obtain rest where rest: "path_elems p = path_elems ?d @ rest" by (auto simp: prefix_def)
    show ?thesis using True ne rest go_rel_inside[OF abs rest]
      by (auto simp: check_boundary_def allowed_below_def protected_prefixes_def)
  next
    case False
    then obtain r where "go_rel ?d p = Some r" "has_prefix r ''..''" using go_rel_outside[OF abs] by blast
    then show ?thesis using True ne False by (auto simp: check_boundary_def)
  qed
next
  case False
  have ne: "dataDir \<noteq> []" using assms(2) by (auto simp: is_abs_def)
  show ?thesis using False ne
    by (auto simp: check_boundary_def split: sum.splits option.splits if_splits)
qed


text \<open>A small file system: the workspace \<open>/w\<close> with a file \<open>a\<close>, and a symbolic link \<open>link\<close> whose target
  does not exist.\<close>

definition example_fs :: file_system where
  "example_fs =
     \<lparr>fs_eval = (\<lambda>p. if p \<in> {''/'', ''/w'', ''/w/a''} then Inr p else Inl NotExist),
      fs_lstat = (\<lambda>p. if p \<in> {''/'', ''/w'', ''/w/a'', ''/w/link''} then None else Some NotExist)\<rparr>"

lemma example_fs_sane: "fs_sane example_fs"
  by (auto simp: fs_sane_def example_fs_def)


text \<open>The gap in the boundary: a symbolic link inside the workspace whose target does not exist yet
  (\<open>Lstat\<close> finds the link, \<open>EvalSymlinks\<close> fails) passes the check under its own name, whatever it
  points to; creating a file through the accepted path creates the target, outside the workspace.\<close>

theorem dangling_link_passes_boundary:
  assumes "fs_sane fs" and "is_abs dataDir" and "is_abs path" and "clean path = path"
    and "fs_eval fs path = Inl NotExist" and "fs_lstat fs path = None"
    and "path_elems path = path_elems (real_dir fs dataDir) @ rest" and "allowed_below rest"
  shows "check_boundary fs dataDir path = Ok path"
proof -
  have r: "render (is_abs path) (path_elems path) = path" using assms(4) by (simp add: clean_def)
  have "ancestor fs (is_abs path) (rev (path_elems path)) [] = Some (path_elems path, [])"
    using assms(6) r by (subst ancestor.simps) simp
  then have "resolve_existing_ancestor fs path = (path, [])"
    using assms(4,5) r by (simp add: resolve_existing_ancestor_def Let_def)
  moreover have "path \<noteq> []" using assms(3) by (auto simp: is_abs_def)
  ultimately have "real_path fs path = Ok path"
    using assms(4,5) by (simp add: real_path_def join_path_def)
  then show ?thesis using check_boundary_iff[OF assms(1-3)] assms(7,8) by blast
qed

theorem dangling_link_passes_boundary_witness:
  "check_boundary example_fs ''/w'' ''/w/link'' = Ok ''/w/link''"
proof -
  have "is_abs ''/w''" "is_abs ''/w/link''" "clean ''/w/link'' = ''/w/link''"
    by (simp_all add: is_abs_def clean_def path_elems_def render_def)
  moreover have "fs_eval example_fs ''/w/link'' = Inl NotExist" "fs_lstat example_fs ''/w/link'' = None"
    by (simp_all add: example_fs_def)
  moreover have "path_elems ''/w/link'' = path_elems (real_dir example_fs ''/w'') @ [''link'']"
    by (simp add: real_dir_def example_fs_def path_elems_def is_abs_def)
  moreover have "allowed_below [''link'']" by (simp add: allowed_below_def protected_prefixes_def)
  ultimately show ?thesis by (rule dangling_link_passes_boundary[OF example_fs_sane])
qed

section \<open>Permissions of apps\<close>

lemma validate_permissions_iff: "validate_permissions ps = None \<longleftrightarrow> set ps \<subseteq> set ValidPermissions"
  by (induction ps) (auto split: if_splits)

lemma validate_services_iff:
  "validate_services ss = None \<longleftrightarrow>
   list_all (\<lambda>s. s \<noteq> [] \<and> CHR ''/'' \<notin> set s \<and> CHR ''.'' \<notin> set s \<and> CHR 0x5C \<notin> set s) ss"
  by (induction ss) (auto simp: list_ex_iff split: if_splits)

text \<open>The permissions of an untrusted app: the cap keeps exactly the declared permissions among storage,
  events and clipboard, in their order (so never bash, tools, uploads or the network), leaves "not
  declared" as it is, always passes the validation, and capping twice is capping once.\<close>

theorem untrusted_permissions_capped:
  "cap_permissions_for_untrusted None = None \<and>
   cap_permissions_for_untrusted (Some ps) = Some (filter (\<lambda>p. p \<in> {''storage'', ''events'', ''clipboard''}) ps) \<and>
   validate_permissions (the (cap_permissions_for_untrusted (Some ps))) = None \<and>
   cap_permissions_for_untrusted (cap_permissions_for_untrusted perms) = cap_permissions_for_untrusted perms \<and>
   (set ps \<inter> {''bash'', ''tool'', ''upload'', ''network''} \<inter>
      set (the (cap_permissions_for_untrusted (Some ps))) = {})"
proof -
  have "cap_permissions_for_untrusted (cap_permissions_for_untrusted perms) = cap_permissions_for_untrusted perms"
    by (cases perms) (simp_all add: cap_permissions_for_untrusted_def)
  moreover have "validate_permissions (filter (\<lambda>p. p \<in> set UntrustedMaxPermissions) ps) = None"
    unfolding validate_permissions_iff by (auto simp: UntrustedMaxPermissions_def ValidPermissions_def)
  ultimately show ?thesis
    by (auto simp: cap_permissions_for_untrusted_def UntrustedMaxPermissions_def)
qed

end
