(* ===== verification/Go_Json.thy ===== *)
theory Go_Json
  imports Alf_Prelude "HOL-Library.List_Lexorder" "HOL-Library.Char_ord"
begin

text \<open>
  \<open>encoding/json.Marshal\<close> on the values the code passes it: the keys of a map are sorted, and a
  string is written with the escapes of the standard library (the characters of HTML included).
  Bytes from 128 on are copied, as they are for the valid UTF-8 the code handles (the line
  separators U+2028 and U+2029, which Go escapes, apart).
\<close>

definition hex_digit :: "nat \<Rightarrow> char" where
  "hex_digit d = char_of (if d < 10 then 48 + d else 87 + d)"

definition json_escape :: "char \<Rightarrow> string" where
  "json_escape c =
     (let b = (of_char c :: nat) in
      if c = CHR 0x22 \<or> c = CHR 0x5C then [CHR 0x5C, c]
      else if c = CHR 0x08 then [CHR 0x5C, CHR ''b'']
      else if c = CHR 0x0C then [CHR 0x5C, CHR ''f'']
      else if c = CHR 0x0A then [CHR 0x5C, CHR ''n'']
      else if c = CHR 0x0D then [CHR 0x5C, CHR ''r'']
      else if c = CHR 0x09 then [CHR 0x5C, CHR ''t'']
      else if b < 32 \<or> c = CHR ''<'' \<or> c = CHR ''>'' \<or> c = CHR ''&''
      then CHR 0x5C # ''u00'' @ [hex_digit (b div 16), hex_digit (b mod 16)]
      else [c])"

definition json_string :: "string \<Rightarrow> string" where
  "json_string s = CHR 0x22 # concat (map json_escape s) @ [CHR 0x22]"

fun json_value :: "go_any \<Rightarrow> string" where
  "json_value (AnyBool b) = (if b then ''true'' else ''false'')"
| "json_value (AnyInt i) = show_int i"
| "json_value (AnyString s) = json_string s"
| "json_value (AnyList xs) = ''['' @ str_join '','' (map json_value xs) @ '']''"
| "json_value (AnyMap kvs) =
     ''{'' @ str_join '','' (map (\<lambda>(k, v). json_string k @ '':'' @ v)
               (sort_key fst (map (\<lambda>(k, v). (k, json_value v)) kvs))) @ ''}''"

end
