(* ===== verification/Runtime.thy ===== *)
theory Runtime
  imports Memory_Store Flatten Capability_Registry Sandbox_Policy Go_Json
begin

text \<open>
  \<open>internal/runtime\<close> (\<open>runtime.go\<close>, \<open>impl.go\<close>) with the data of \<open>internal/ai\<close>: the orchestrator of one
  turn. It composes the memory of \<open>Memory_Model\<close>, the registry of \<open>Capability_Registry\<close>, the policies
  of \<open>Sandbox_Policy\<close> and the flattening of \<open>Flatten\<close>.

  The world outside (providers, the machine the tools act on) is a state of type \<open>'w\<close>: running the
  engine and executing a capability are functions of it, and parameters. The engine's channel is the
  list of events it delivers until it closes. The output channel is the list of events sent so far.
  The context is a pair of functions of the number of events sent: whether the next send succeeds
  (it fails once the context is cancelled) and the error of the context.
\<close>

section \<open>Data\<close>

record ai_message =
  ai_role :: string
  ai_content :: string

record tool_spec =
  ts_name :: string
  ts_description :: string

record media_entry =
  me_type :: string
  me_file_name :: string
  me_mime_type :: string
  me_temp_path :: string
  me_frame_paths :: "string list"
  me_transcript :: string
  me_text_content :: string

record ai_request =
  ar_model :: string
  ar_backend :: string
  ar_system_prompts :: "string list"
  ar_messages :: "ai_message list"
  ar_tools :: "tool_spec list"
  ar_max_turns :: int
  ar_effort :: string
  ar_write_capable :: bool
  ar_data_dir :: string
  ar_stream :: bool
  ar_cache_breakpoint :: int
  ar_media :: "media_entry list"
  ar_env :: "string list"
  ar_resume_id :: string

text \<open>\<open>CostUSD\<close> is a \<open>float64\<close> that is only passed on: its 64 bits.\<close>

record ai_usage =
  us_cost :: "64 word"
  us_model :: string
  us_num_turns :: int
  us_session_id :: string
  us_input_tokens :: int
  us_output_tokens :: int

record ai_tool_call =
  at_id :: string
  at_name :: string
  at_args :: "(string \<times> go_any) list option"

datatype ai_event =
    AiToken string
  | AiToolCall "ai_tool_call option"
  | AiDone "ai_usage option"
  | AiError string
  | AiThinking string
  | AiToolUse string
  | AiToolInput string string
  | AiToolOutput string string

datatype rt_event =
    EvToken string
  | EvToolResult string cap_output
  | EvDone "ai_usage option"
  | EvError string
  | EvThinking string
  | EvToolUse string
  | EvToolInput string string
  | EvToolOutput string string

type_synonym args = "(string \<times> go_any) list option"
type_synonym 'w exec = "sandbox_ctx \<Rightarrow> args \<Rightarrow> 'w \<Rightarrow> (cap_output \<times> string option) \<times> 'w"
type_synonym 'w ai_engine = "ai_request \<Rightarrow> 'w \<Rightarrow> ai_event list res \<times> 'w"
type_synonym 'w strategy = "'w ai_engine \<Rightarrow> 'w ai_engine"

record run_ctx =
  rc_send :: "nat \<Rightarrow> bool"
  rc_err :: "nat \<Rightarrow> string option"

text \<open>\<open>Deps\<close> and \<open>Options\<close> together; \<open>rt_clock\<close> is what the memory's clock shows at its four reads
  in a turn, \<open>rt_order\<close> the order of the registry's map.\<close>

record 'w runtime =
  rt_registry :: "'w exec registry"
  rt_order :: "string list"
  rt_engine :: "'w ai_engine"
  rt_checker :: "(string \<Rightarrow> string option) option"
  rt_model :: string
  rt_tier :: string
  rt_max_iterations :: int
  rt_clock :: "nat \<Rightarrow> int"

definition defaultMaxIterations :: int where "defaultMaxIterations = 20"

definition new_runtime :: "'w runtime \<Rightarrow> 'w runtime" where
  "new_runtime rt = (if rt_max_iterations rt \<le> 0 then rt\<lparr>rt_max_iterations := defaultMaxIterations\<rparr> else rt)"

record chat_request =
  cr_conv :: conv_id
  cr_input :: string
  cr_model :: string
  cr_backend :: string
  cr_system_prompts :: "string list"
  cr_tools :: "tool_spec list option"
  cr_max_turns :: int
  cr_effort :: string
  cr_write_capable :: bool
  cr_data_dir :: string
  cr_resume_id :: string

section \<open>Helpers\<close>

definition emit :: "run_ctx \<Rightarrow> rt_event \<Rightarrow> rt_event list \<Rightarrow> rt_event list option" where
  "emit cx ev out = (if rc_send cx (length out) then Some (out @ [ev]) else None)"

text \<open>A send whose result is not looked at.\<close>

definition emit_last :: "run_ctx \<Rightarrow> rt_event \<Rightarrow> rt_event list \<Rightarrow> rt_event list" where
  "emit_last cx ev out = (case emit cx ev out of None \<Rightarrow> out | Some out' \<Rightarrow> out')"

definition format_tool_result :: "cap_output \<Rightarrow> string" where
  "format_tool_result o' =
     (if co_error o' \<noteq> [] then ''ERROR: '' @ co_error o'
      else (case co_data o' of
              None \<Rightarrow> []
            | Some (AnyString s) \<Rightarrow> s
            | Some v \<Rightarrow> json_value v))"

definition to_ai_messages :: "message list \<Rightarrow> ai_message list" where
  "to_ai_messages msgs =
     map (\<lambda>m. \<lparr>ai_role = am_role m, ai_content = am_content m\<rparr>) (flatten_for_api msgs)"

definition build_tool_specs :: "manifest list \<Rightarrow> tool_spec list" where
  "build_tool_specs ms = map (\<lambda>m. \<lparr>ts_name = mf_id m, ts_description = mf_description m\<rparr>) ms"

definition view_of :: "manifest \<Rightarrow> manifest_view" where
  "view_of m = \<lparr>mv_id = mf_id m, mv_permissions = \<lparr>pv_file_paths = pm_file_paths (mf_permissions m),
      pv_networks = pm_networks (mf_permissions m), pv_secrets = pm_secrets (mf_permissions m)\<rparr>\<rparr>"

definition args_json :: "args \<Rightarrow> string" where
  "args_json a = (case a of None \<Rightarrow> ''null'' | Some kvs \<Rightarrow> json_value (AnyMap kvs))"

section \<open>Capabilities\<close>

definition invoke ::
  "'w runtime \<Rightarrow> sandbox_ctx \<Rightarrow> string \<Rightarrow> args \<Rightarrow> 'w \<Rightarrow> (cap_output \<times> string option) \<times> 'w" where
  "invoke rt ctx capID a w =
     (let none = \<lparr>co_data = None, co_error = []\<rparr> in
      if capID = [] then ((none, Some ''runtime.Invoke: capID required''), w)
      else (case resolve capID (rt_registry rt) of
              None \<Rightarrow> ((none, Some (''runtime.Invoke: capability '' @ go_quote capID @ '' not found'')), w)
            | Some c \<Rightarrow>
                let view = view_of (cap_manifest c); policy = derive view (rt_tier rt)
                in (case apply_policy (rt_checker rt) ctx view policy of
                      Inl e \<Rightarrow> ((none, Some (''runtime.Invoke: apply policy: '' @ e)), w)
                    | Inr sctx \<Rightarrow>
                        (case cap_execute c sctx a w of
                           ((out, err), w') \<Rightarrow>
                             ((out, map_option (\<lambda>e. ''runtime.Invoke: execute '' @ go_quote capID @ '': '' @ e) err),
                              w')))))"

definition execute_capability ::
  "'w runtime \<Rightarrow> sandbox_ctx \<Rightarrow> ai_tool_call \<Rightarrow> 'w \<Rightarrow> cap_output \<times> 'w" where
  "execute_capability rt ctx tc w =
     (case resolve (at_name tc) (rt_registry rt) of
        None \<Rightarrow> (\<lparr>co_data = None, co_error = ''capability '' @ go_quote (at_name tc) @ '' not found''\<rparr>, w)
      | Some c \<Rightarrow>
          let view = view_of (cap_manifest c); policy = derive view (rt_tier rt)
          in (case apply_policy (rt_checker rt) ctx view policy of
                Inl e \<Rightarrow> (\<lparr>co_data = None, co_error = ''apply policy: '' @ e\<rparr>, w)
              | Inr sctx \<Rightarrow>
                  (case cap_execute c sctx (at_args tc) w of
                     ((out, err), w') \<Rightarrow>
                       (case err of
                          None \<Rightarrow> (out, w')
                        | Some e \<Rightarrow> (if co_error out = [] then out\<lparr>co_error := e\<rparr> else out, w')))))"

section \<open>The chat loop\<close>

text \<open>The loop over the stream of one engine run: either the turn ends in it, or it gives the pending
  calls, the text and whether the stream was done.\<close>

datatype drained =
    Ended "rt_event list"
  | Drained "ai_tool_call list" string bool "rt_event list"

fun drain :: "run_ctx \<Rightarrow> ai_event list \<Rightarrow> ai_tool_call list \<Rightarrow> string \<Rightarrow> bool \<Rightarrow> rt_event list \<Rightarrow> drained" where
  "drain cx [] calls text sawDone out = Drained calls text sawDone out"
| "drain cx (ev # evs) calls text sawDone out =
     (case ev of
        AiToken t \<Rightarrow>
          (case emit cx (EvToken t) out of
             None \<Rightarrow> Ended out
           | Some out' \<Rightarrow> drain cx evs calls (text @ t) sawDone out')
      | AiToolCall tc \<Rightarrow>
          (case tc of
             None \<Rightarrow> drain cx evs calls text sawDone out
           | Some c \<Rightarrow> drain cx evs (calls @ [c]) text sawDone out)
      | AiError e \<Rightarrow> Ended (emit_last cx (EvError e) out)
      | AiDone u \<Rightarrow> drain cx evs calls text True out
      | _ \<Rightarrow> drain cx evs calls text sawDone out)"

text \<open>The loop over the pending calls; the flag is whether every send succeeded.\<close>

fun run_calls ::
  "run_ctx \<Rightarrow> 'w runtime \<Rightarrow> sandbox_ctx \<Rightarrow> ai_tool_call list \<Rightarrow> content_block list \<Rightarrow> ai_message list \<Rightarrow>
   rt_event list \<Rightarrow> 'w \<Rightarrow> bool \<times> content_block list \<times> ai_message list \<times> rt_event list \<times> 'w" where
  "run_calls cx rt ctx [] blocks messages out w = (True, blocks, messages, out, w)"
| "run_calls cx rt ctx (tc # tcs) blocks messages out w =
     (let blocks1 = blocks @ [(empty_block BlockToolUse)\<lparr>cb_name := at_name tc,
                                cb_input := args_json (at_args tc), cb_tool_id := at_id tc\<rparr>]
      in case execute_capability rt ctx tc w of
           (result, w') \<Rightarrow>
             (case emit cx (EvToolResult (at_name tc) result) out of
                None \<Rightarrow> (False, blocks1, messages, out, w')
              | Some out' \<Rightarrow>
                  let resultText = format_tool_result result in
                  run_calls cx rt ctx tcs
                    (blocks1 @ [(empty_block BlockToolResult)\<lparr>cb_output := resultText, cb_tool_id := at_id tc\<rparr>])
                    (messages @ [\<lparr>ai_role = ''tool'', ai_content = resultText\<rparr>]) out' w'))"

definition chat_ai_request :: "chat_request \<Rightarrow> string \<Rightarrow> ai_message list \<Rightarrow> tool_spec list \<Rightarrow> ai_request" where
  "chat_ai_request r model messages tools =
     \<lparr>ar_model = model, ar_backend = cr_backend r, ar_system_prompts = cr_system_prompts r,
      ar_messages = messages, ar_tools = tools, ar_max_turns = cr_max_turns r, ar_effort = cr_effort r,
      ar_write_capable = cr_write_capable r, ar_data_dir = cr_data_dir r, ar_stream = True,
      ar_cache_breakpoint = 0, ar_media = [], ar_env = [], ar_resume_id = cr_resume_id r\<rparr>"

definition add_text :: "string \<Rightarrow> content_block list \<Rightarrow> content_block list" where
  "add_text text blocks =
     (if text \<noteq> [] then blocks @ [(empty_block BlockText)\<lparr>cb_text := text\<rparr>] else blocks)"

definition add_reply :: "string \<Rightarrow> ai_message list \<Rightarrow> ai_message list" where
  "add_reply text messages =
     (if text \<noteq> [] then messages @ [\<lparr>ai_role = ''assistant'', ai_content = text\<rparr>] else messages)"

definition persist_assistant ::
  "run_ctx \<Rightarrow> 'w runtime \<Rightarrow> conv_id \<Rightarrow> content_block list \<Rightarrow> rt_event list \<Rightarrow> in_mem \<Rightarrow> rt_event list \<times> in_mem" where
  "persist_assistant cx rt conv blocks out mem =
     (if blocks = [] then (emit_last cx (EvDone None) out, mem)
      else (case append_message (rc_err cx (length out)) conv
                   (empty_message\<lparr>m_role := ''assistant'', m_blocks := blocks\<rparr>) (rt_clock rt 2) (rt_clock rt 3) mem of
              Inl e \<Rightarrow> (emit_last cx (EvError (''runtime.Chat: persist assistant: '' @ e)) out, mem)
            | Inr (_, mem') \<Rightarrow> (emit_last cx (EvDone None) out, mem')))"

text \<open>The number of iterations left counts down from \<open>MaxIterations\<close>.\<close>

fun chat_loop ::
  "run_ctx \<Rightarrow> 'w runtime \<Rightarrow> sandbox_ctx \<Rightarrow> chat_request \<Rightarrow> string \<Rightarrow> tool_spec list \<Rightarrow> nat \<Rightarrow> ai_message list \<Rightarrow>
   content_block list \<Rightarrow> rt_event list \<Rightarrow> in_mem \<Rightarrow> 'w \<Rightarrow> rt_event list \<times> in_mem \<times> 'w" where
  "chat_loop cx rt ctx r model tools 0 messages blocks out mem w =
     (emit_last cx (EvError (''runtime.Chat: max iterations ('' @ show_int (rt_max_iterations rt) @ '') exceeded'')) out,
      mem, w)"
| "chat_loop cx rt ctx r model tools (Suc n) messages blocks out mem w =
     (case rt_engine rt (chat_ai_request r model messages tools) w of
        (Inl e, w1) \<Rightarrow> (emit_last cx (EvError (''runtime.Chat: ai.Run: '' @ e)) out, mem, w1)
      | (Inr stream, w1) \<Rightarrow>
          (case drain cx stream [] [] False out of
             Ended out1 \<Rightarrow> (out1, mem, w1)
           | Drained calls text sawDone out1 \<Rightarrow>
               if \<not> sawDone then
                 (if rc_err cx (length out1) \<noteq> None then (out1, mem, w1)
                  else (emit_last cx (EvError ''runtime.Chat: ai engine closed stream without EventDone'') out1,
                        mem, w1))
               else let blocks1 = add_text text blocks; messages1 = add_reply text messages in
                 if calls = [] then
                   (case persist_assistant cx rt (cr_conv r) blocks1 out1 mem of (out2, mem') \<Rightarrow> (out2, mem', w1))
                 else
                   (case run_calls cx rt ctx calls blocks1 messages1 out1 w1 of
                      (ok, blocks2, messages2, out2, w2) \<Rightarrow>
                        if ok then chat_loop cx rt ctx r model tools n messages2 blocks2 out2 mem w2
                        else (out2, mem, w2))))"

definition chat ::
  "run_ctx \<Rightarrow> 'w runtime \<Rightarrow> sandbox_ctx \<Rightarrow> chat_request \<Rightarrow> in_mem \<Rightarrow> 'w \<Rightarrow> rt_event list res \<times> in_mem \<times> 'w" where
  "chat cx rt ctx r mem w =
     (if cr_conv r = [] then (Err ''runtime.Chat: ConvID required'', mem, w)
      else if cr_input r = [] then (Err ''runtime.Chat: UserInput required'', mem, w)
      else let model = (if cr_model r = [] then rt_model rt else cr_model r) in
        if model = [] then (Err ''runtime.Chat: Model required (none in Request, none in Options)'', mem, w)
        else
          let userMsg = empty_message\<lparr>m_role := ''user'',
                          m_blocks := [(empty_block BlockText)\<lparr>cb_text := cr_input r\<rparr>]\<rparr>
          in (case append_message (rc_err cx 0) (cr_conv r) userMsg (rt_clock rt 0) (rt_clock rt 1) mem of
                Inl e \<Rightarrow> (Err (''runtime.Chat: persist user message: '' @ e), mem, w)
              | Inr (_, mem1) \<Rightarrow>
                  (case list_messages (rc_err cx 0) (cr_conv r) (no_opts\<lparr>lo_summary := True\<rparr>) mem1 of
                     Inl e \<Rightarrow> (Err (''runtime.Chat: load history: '' @ e), mem1, w)
                   | Inr history \<Rightarrow>
                       let tools = (case cr_tools r of
                                      Some ts \<Rightarrow> ts
                                    | None \<Rightarrow> build_tool_specs (list_manifests (rt_order rt) (rt_registry rt)))
                       in (case chat_loop cx rt ctx r model tools (nat (rt_max_iterations rt))
                                  (to_ai_messages history) [] [] mem1 w of
                             (out, mem', w') \<Rightarrow> (Ok out, mem', w')))))"

section \<open>Converse\<close>

record 'w converse_request =
  vr_model :: string
  vr_backend :: string
  vr_system_prompts :: "string list"
  vr_prompt :: string
  vr_history :: "ai_message list"
  vr_tools :: "tool_spec list"
  vr_max_turns :: int
  vr_effort :: string
  vr_write_capable :: bool
  vr_data_dir :: string
  vr_cache_breakpoint :: int
  vr_media :: "media_entry list"
  vr_env :: "string list"
  vr_strategy :: "'w strategy option"
  vr_engine :: "'w ai_engine option"
  vr_resume_id :: string

record converse_result =
  vs_text :: string
  vs_usage :: "ai_usage option"

definition prepare_converse_stream ::
  "'w runtime \<Rightarrow> 'w converse_request \<Rightarrow> string \<Rightarrow> 'w \<Rightarrow> ai_event list res \<times> 'w" where
  "prepare_converse_stream rt r caller w =
     (if vr_prompt r = [] then (Err (caller @ '': Prompt required''), w)
      else let model = (if vr_model r = [] then rt_model rt else vr_model r) in
        if model = [] \<and> vr_strategy r = None
        then (Err (caller @ '': Model required (none in Request, none in Options)''), w)
        else
          let aiReq = \<lparr>ar_model = model, ar_backend = vr_backend r, ar_system_prompts = vr_system_prompts r,
                ar_messages = vr_history r @ [\<lparr>ai_role = ''user'', ai_content = vr_prompt r\<rparr>],
                ar_tools = vr_tools r, ar_max_turns = vr_max_turns r, ar_effort = vr_effort r,
                ar_write_capable = vr_write_capable r, ar_data_dir = vr_data_dir r, ar_stream = True,
                ar_cache_breakpoint = vr_cache_breakpoint r, ar_media = vr_media r, ar_env = vr_env r,
                ar_resume_id = vr_resume_id r\<rparr>;
              engine = (case vr_engine r of None \<Rightarrow> rt_engine rt | Some e \<Rightarrow> e)
          in (case (case vr_strategy r of None \<Rightarrow> engine aiReq w | Some strategy \<Rightarrow> strategy engine aiReq w) of
                (Inl e, w') \<Rightarrow> (Err (caller @ '': ai.Run: '' @ e), w')
              | (Inr stream, w') \<Rightarrow> (Ok stream, w')))"

fun aggregate :: "ai_event list \<Rightarrow> string \<Rightarrow> ai_usage option \<Rightarrow> bool \<Rightarrow> (string \<times> ai_usage option \<times> bool) res" where
  "aggregate [] text usage sawDone = Ok (text, usage, sawDone)"
| "aggregate (ev # evs) text usage sawDone =
     (case ev of
        AiToken t \<Rightarrow> aggregate evs (text @ t) usage sawDone
      | AiError e \<Rightarrow> Err (''runtime.Converse: '' @ e)
      | AiDone u \<Rightarrow> aggregate evs text u True
      | _ \<Rightarrow> aggregate evs text usage sawDone)"

definition converse ::
  "run_ctx \<Rightarrow> 'w runtime \<Rightarrow> 'w converse_request \<Rightarrow> 'w \<Rightarrow> converse_result res \<times> 'w" where
  "converse cx rt r w =
     (case prepare_converse_stream rt r ''runtime.Converse'' w of
        (Inl e, w') \<Rightarrow> (Err e, w')
      | (Inr stream, w') \<Rightarrow>
          (case aggregate stream [] None False of
             Inl e \<Rightarrow> (Err e, w')
           | Inr (text, usage, sawDone) \<Rightarrow>
               if sawDone then (Ok \<lparr>vs_text = text, vs_usage = usage\<rparr>, w')
               else (case rc_err cx 0 of
                       Some e \<Rightarrow> (Err e, w')
                     | None \<Rightarrow> (Err ''runtime.Converse: engine closed stream without EventDone'', w'))))"

fun forward :: "run_ctx \<Rightarrow> ai_event list \<Rightarrow> bool \<Rightarrow> rt_event list \<Rightarrow> rt_event list" where
  "forward cx [] sawDone out =
     (if \<not> sawDone \<and> rc_err cx (length out) = None
      then emit_last cx (EvError ''runtime.ConverseStream: engine closed stream without EventDone'') out else out)"
| "forward cx (ev # evs) sawDone out =
     (let send = (\<lambda>e. case emit cx e out of None \<Rightarrow> out | Some out' \<Rightarrow> forward cx evs sawDone out')
      in case ev of
           AiToken t \<Rightarrow> send (EvToken t)
         | AiThinking t \<Rightarrow> send (EvThinking t)
         | AiToolUse n \<Rightarrow> send (EvToolUse n)
         | AiToolInput n t \<Rightarrow> send (EvToolInput n t)
         | AiToolOutput i t \<Rightarrow> send (EvToolOutput i t)
         | AiToolCall c \<Rightarrow> forward cx evs sawDone out
         | AiError e \<Rightarrow> emit_last cx (EvError e) out
         | AiDone u \<Rightarrow> forward cx evs True (emit_last cx (EvDone u) out))"

definition converse_stream ::
  "run_ctx \<Rightarrow> 'w runtime \<Rightarrow> 'w converse_request \<Rightarrow> 'w \<Rightarrow> rt_event list res \<times> 'w" where
  "converse_stream cx rt r w =
     (case prepare_converse_stream rt r ''runtime.ConverseStream'' w of
        (Inl e, w') \<Rightarrow> (Err e, w')
      | (Inr stream, w') \<Rightarrow> (Ok (forward cx stream False []), w'))"

section \<open>Model names\<close>

definition resolve_model :: "string \<Rightarrow> string" where
  "resolve_model short =
     (let l = to_lower short in
      if l = ''haiku'' then ''claude-haiku-4-5''
      else if l = ''sonnet'' then ''claude-sonnet-4-6''
      else if l = ''opus'' then ''claude-opus-4-6''
      else if l = ''sonnet-max'' then ''claude-sonnet-4-6-max''
      else if l = ''opus-max'' then ''claude-opus-4-6-max''
      else if has_prefix short ''claude-'' then short
      else [])"

end
