(* ===== verification/Runtime_Properties.thy ===== *)
theory Runtime_Properties
  imports Runtime
begin

text \<open>
  What a turn does. The loop keeps one relation between what was sent and what will be stored
  (\<open>matches\<close>); the outcome of the loop follows from it by induction on the iterations left, and the
  memory side of a turn from the interface \<open>conv_log\<close> of the store.
\<close>

section \<open>Reading events and blocks\<close>

fun terminal :: "rt_event \<Rightarrow> bool" where
  "terminal (EvDone u) = True"
| "terminal (EvError e) = True"
| "terminal _ = False"

fun ev_text :: "rt_event list \<Rightarrow> string" where
  "ev_text [] = []"
| "ev_text (EvToken t # evs) = t @ ev_text evs"
| "ev_text (_ # evs) = ev_text evs"

fun ev_tools :: "rt_event list \<Rightarrow> (string \<times> string) list" where
  "ev_tools [] = []"
| "ev_tools (EvToolResult n r # evs) = (n, format_tool_result r) # ev_tools evs"
| "ev_tools (_ # evs) = ev_tools evs"

definition of_type :: "block_type \<Rightarrow> content_block list \<Rightarrow> content_block list" where
  "of_type t bs = filter (\<lambda>b. cb_type b = t) bs"

definition blocks_text :: "content_block list \<Rightarrow> string" where
  "blocks_text bs = concat (map cb_text (of_type BlockText bs))"

definition blocks_tools :: "content_block list \<Rightarrow> (string \<times> string) list" where
  "blocks_tools bs = zip (map cb_name (of_type BlockToolUse bs)) (map cb_output (of_type BlockToolResult bs))"

lemma ev_text_append [simp]: "ev_text (xs @ ys) = ev_text xs @ ev_text ys"
  by (induction xs rule: ev_text.induct) auto

lemma ev_tools_append [simp]: "ev_tools (xs @ ys) = ev_tools xs @ ev_tools ys"
  by (induction xs rule: ev_tools.induct) auto

lemma ev_tokens [simp]: "ev_text (map EvToken ts) = concat ts" "ev_tools (map EvToken ts) = []"
  by (induction ts) auto

definition live_ctx :: run_ctx where
  "live_ctx = \<lparr>rc_send = (\<lambda>_. True), rc_err = (\<lambda>_. None)\<rparr>"

lemma live [simp]:
  "emit live_ctx ev out = Some (out @ [ev])" "emit_last live_ctx ev out = out @ [ev]"
  "rc_err live_ctx n = None"
  by (simp_all add: emit_def emit_last_def live_ctx_def)

text \<open>What has been sent is what the blocks hold.\<close>

definition matches :: "rt_event list \<Rightarrow> content_block list \<Rightarrow> bool" where
  "matches out bs \<longleftrightarrow> filter terminal out = [] \<and> ev_text out = blocks_text bs \<and> ev_tools out = blocks_tools bs \<and>
     length (of_type BlockToolUse bs) = length (of_type BlockToolResult bs)"

lemma matches_Nil [simp]: "matches [] []"
  by (simp add: matches_def blocks_text_def blocks_tools_def of_type_def)

lemma empty_block_type [simp]: "cb_type (empty_block t) = t"
  by (simp add: empty_block_def)

lemma matches_text:
  "matches out bs \<Longrightarrow> matches (out @ map EvToken ts) (add_text (concat ts) bs)"
  by (auto simp: matches_def add_text_def blocks_text_def blocks_tools_def of_type_def filter_empty_conv)

lemma matches_tool:
  assumes "matches out bs"
  shows "matches (out @ [EvToolResult n r])
    (bs @ [(empty_block BlockToolUse)\<lparr>cb_name := n, cb_input := i, cb_tool_id := t\<rparr>,
           (empty_block BlockToolResult)\<lparr>cb_output := format_tool_result r, cb_tool_id := t\<rparr>])"
  using assms by (simp add: matches_def blocks_text_def blocks_tools_def of_type_def)

section \<open>The loop\<close>

lemma drain_live:
  "case drain live_ctx evs calls tx d out of
     Ended out' \<Rightarrow> \<exists>ts e. out' = out @ map EvToken ts @ [EvError e]
   | Drained calls' tx' d' out' \<Rightarrow> \<exists>ts. out' = out @ map EvToken ts \<and> tx' = tx @ concat ts"
proof (induction evs arbitrary: calls tx d out)
  case Nil
  show ?case by (auto intro: exI[of _ "[]"])
next
  case (Cons ev evs)
  show ?case
  proof (cases ev)
    case (AiToken t)
    show ?thesis using Cons.IH[where tx = "tx @ t" and out = "out @ [EvToken t]" and calls = calls and d = d] AiToken
      by (auto split: drained.splits) (metis append_Cons append_Nil append_assoc list.map(2) concat.simps(2))+
  next
    case (AiToolCall c)
    then show ?thesis using Cons by (cases c) simp_all
  next
    case (AiError e)
    then show ?thesis by (auto intro: exI[of _ "[]"])
  qed (use Cons in simp_all)
qed

lemma run_calls_live:
  assumes "matches out bs"
  shows "case run_calls live_ctx rt ctx tcs bs msgs out w of
    (ok, bs', msgs', out', w') \<Rightarrow> ok \<and> matches out' bs'"
  using assms
proof (induction tcs arbitrary: bs msgs out w)
  case (Cons tc tcs)
  obtain r w' where e: "execute_capability rt ctx tc w = (r, w')" by (metis surj_pair)
  show ?case
    using Cons.IH[OF matches_tool[OF Cons.prems, where n = "at_name tc" and i = "args_json (at_args tc)"
        and t = "at_id tc" and r = r]] e
    by (simp add: Let_def)
qed simp

text \<open>The two outcomes of a turn.\<close>

definition finished :: "'w runtime \<Rightarrow> conv_id \<Rightarrow> in_mem \<Rightarrow> rt_event list \<Rightarrow> in_mem \<Rightarrow> bool" where
  "finished rt conv mem out mem' \<longleftrightarrow>
     (\<exists>pre bs. out = pre @ [EvDone None] \<and> matches pre bs \<and>
        (if bs = [] then mem' = mem
         else \<exists>m. append_message None conv (empty_message\<lparr>m_role := ''assistant'', m_blocks := bs\<rparr>)
                    (rt_clock rt 2) (rt_clock rt 3) mem = Ok (m, mem')))"

definition failed_turn :: "in_mem \<Rightarrow> rt_event list \<Rightarrow> in_mem \<Rightarrow> bool" where
  "failed_turn mem out mem' \<longleftrightarrow> (\<exists>pre e. out = pre @ [EvError e] \<and> filter terminal pre = []) \<and> mem' = mem"

lemma failed_turnI: "filter terminal out = [] \<Longrightarrow> failed_turn mem (out @ [EvError e]) mem"
  by (auto simp: failed_turn_def)

lemma failed_drain: "matches out bs \<Longrightarrow> failed_turn mem (out @ map EvToken ts @ [EvError e]) mem"
  using failed_turnI[of "out @ map EvToken ts"] by (simp add: matches_def filter_empty_conv)

lemma persist_outcome:
  assumes "matches out bs"
  shows "case persist_assistant live_ctx rt conv bs out mem of
    (out', mem') \<Rightarrow> finished rt conv mem out' mem' \<or> failed_turn mem out' mem'"
proof (cases "append_message None conv (empty_message\<lparr>m_role := ''assistant'', m_blocks := bs\<rparr>)
                    (rt_clock rt 2) (rt_clock rt 3) mem")
  case (Inl e)
  then show ?thesis using assms failed_turnI
    by (auto simp: persist_assistant_def finished_def matches_def)
next
  case (Inr p)
  then show ?thesis using assms by (cases p) (auto simp: persist_assistant_def finished_def)
qed

lemma chat_loop_outcome:
  assumes "matches out bs"
  shows "case chat_loop live_ctx rt ctx r model tools n msgs bs out mem w of
    (out', mem', w') \<Rightarrow> finished rt (cr_conv r) mem out' mem' \<or> failed_turn mem out' mem'"
  using assms
proof (induction n arbitrary: msgs bs out w)
  case 0
  then show ?case using failed_turnI by (auto simp: matches_def)
next
  case (Suc n)
  obtain res w1 where run: "rt_engine rt (chat_ai_request r model msgs tools) w = (res, w1)" by (metis surj_pair)
  show ?case
  proof (cases res)
    case (Inl e)
    then show ?thesis using run Suc.prems failed_turnI by (auto simp: matches_def)
  next
    case (Inr stream)
    note d = drain_live[where evs = stream and calls = "[]" and tx = "[]" and d = False and out = out]
    show ?thesis
    proof (cases "drain live_ctx stream [] [] False out")
      case (Ended out1)
      then show ?thesis using d run Inr failed_drain[OF Suc.prems] by auto
    next
      case (Drained calls tx sawDone out1)
      then obtain ts where ts: "out1 = out @ map EvToken ts" "tx = concat ts" using d by auto
      have m: "matches out1 (add_text tx bs)" unfolding ts by (rule matches_text[OF Suc.prems])
      show ?thesis
      proof (cases "sawDone \<and> calls \<noteq> []")
        case True
        obtain ok bs2 msgs2 out2 w2 where rc:
          "run_calls live_ctx rt ctx calls (add_text tx bs) (add_reply tx msgs) out1 w1 = (ok, bs2, msgs2, out2, w2)"
          by (metis surj_pair)
        then show ?thesis using run_calls_live[OF m, of rt ctx calls "add_reply tx msgs" w1] Suc.IH[of out2 bs2 msgs2 w2]
          by (simp add: run Inr Drained True Let_def)
      next
        case False
        then show ?thesis
          using persist_outcome[OF m, of rt "cr_conv r" mem] failed_turnI[of out1] m
          by (auto simp: run Inr Drained Let_def matches_def split: prod.splits)
      qed
    qed
  qed
qed

section \<open>A turn\<close>

definition all_messages :: "conv_id \<Rightarrow> in_mem \<Rightarrow> message list res" where
  "all_messages c mem = list_messages None c no_opts mem"

definition user_message :: "string \<Rightarrow> message \<Rightarrow> bool" where
  "user_message input m \<longleftrightarrow> m_role m = ''user'' \<and> blocks_text (m_blocks m) = input \<and> blocks_tools (m_blocks m) = []"

text \<open>What the assistant messages of a turn must be for the events that were sent.\<close>

definition recorded :: "rt_event list \<Rightarrow> message list \<Rightarrow> bool" where
  "recorded out ms \<longleftrightarrow>
     (if ms = [] then (case last out of EvError e \<Rightarrow> True | EvDone u \<Rightarrow> ev_text out = [] \<and> ev_tools out = [] | _ \<Rightarrow> False)
      else \<exists>m. ms = [m] \<and> last out = EvDone None \<and> m_role m = ''assistant'' \<and>
        blocks_text (m_blocks m) = ev_text out \<and> blocks_tools (m_blocks m) = ev_tools out)"

lemma timeline_steps:
  assumes "append_message None c m now now' mem = Ok (m', mem')"
  shows "all_messages c mem = Ok ms \<Longrightarrow> all_messages c mem' = Ok (ms @ [m'])"
    and "d \<noteq> c \<Longrightarrow> all_messages d mem' = all_messages d mem"
    and "m_role m' = m_role m" and "m_blocks m' = m_blocks m"
  using in_mem_log.timeline_append[OF assms, of ms] in_mem_log.timeline_frame[OF assms, of d]
    in_mem_log.append_body[OF assms] by (simp_all add: all_messages_def)

lemma finished_recorded:
  assumes "finished rt conv mem out mem'" and "all_messages conv mem = Ok ms"
  shows "\<exists>as. all_messages conv mem' = Ok (ms @ as) \<and> recorded out as \<and>
    length (filter terminal out) = 1 \<and> terminal (last out)"
    and "d \<noteq> conv \<Longrightarrow> all_messages d mem' = all_messages d mem"
proof -
  obtain pre bs where b: "out = pre @ [EvDone None]" "matches pre bs"
    and mem: "if bs = [] then mem' = mem
         else \<exists>m. append_message None conv (empty_message\<lparr>m_role := ''assistant'', m_blocks := bs\<rparr>)
                    (rt_clock rt 2) (rt_clock rt 3) mem = Ok (m, mem')"
    using assms(1) by (auto simp: finished_def)
  have t: "length (filter terminal out) = 1" "terminal (last out)" using b by (simp_all add: matches_def)
  have "(\<exists>as. all_messages conv mem' = Ok (ms @ as) \<and> recorded out as) \<and>
      (d \<noteq> conv \<longrightarrow> all_messages d mem' = all_messages d mem)"
  proof (cases "bs = []")
    case True
    then have "recorded out []"
      using b by (simp add: recorded_def matches_def blocks_text_def blocks_tools_def of_type_def)
    then show ?thesis using mem True assms(2) by auto
  next
    case False
    then obtain m where m: "append_message None conv (empty_message\<lparr>m_role := ''assistant'', m_blocks := bs\<rparr>)
                    (rt_clock rt 2) (rt_clock rt 3) mem = Ok (m, mem')" using mem by auto
    have "recorded out [m]" using b timeline_steps(3,4)[OF m] by (simp add: recorded_def matches_def)
    then show ?thesis using timeline_steps(1,2)[OF m] assms(2) by blast
  qed
  then show "\<exists>as. all_messages conv mem' = Ok (ms @ as) \<and> recorded out as \<and>
      length (filter terminal out) = 1 \<and> terminal (last out)"
    and "d \<noteq> conv \<Longrightarrow> all_messages d mem' = all_messages d mem" using t by blast+
qed

lemma failed_recorded:
  assumes "failed_turn mem out mem'"
  shows "mem' = mem" and "recorded out []" and "length (filter terminal out) = 1" and "terminal (last out)"
  using assms by (auto simp: failed_turn_def recorded_def)


text \<open>A runtime over a counter: the tool \<open>tick\<close> counts up by two, the engine calls it once and then answers
  with the count's parity.\<close>

definition tick :: "nat exec capability" where
  "tick = simple_cap ''tick'' KindTool (\<lambda>ctx a n. ((\<lparr>co_data = Some (AnyString ''ticked''), co_error = []\<rparr>, None), n + 2))"

definition example_rt :: "nat runtime" where
  "example_rt = \<lparr>rt_registry = [''tick'' \<mapsto> tick], rt_order = [''tick''],
     rt_engine = (\<lambda>r n. (Ok (if n = 0 then [AiToolCall (Some \<lparr>at_id = ''t1'', at_name = ''tick'', at_args = None\<rparr>), AiDone None]
                             else [AiToken ''even'', AiDone None]), n)),
     rt_checker = None, rt_model = ''m'', rt_tier = ''free'', rt_max_iterations = 20, rt_clock = int\<rparr>"

definition example_chat :: chat_request where
  "example_chat = \<lparr>cr_conv = ''c'', cr_input = ''go'', cr_model = [], cr_backend = [], cr_system_prompts = [],
     cr_tools = None, cr_max_turns = 0, cr_effort = [], cr_write_capable = False, cr_data_dir = [], cr_resume_id = []\<rparr>"

lemma example_chat_run:
  "\<exists>mem'. chat live_ctx example_rt [] example_chat new_in_mem 0 =
     (Ok [EvToolResult ''tick'' \<lparr>co_data = Some (AnyString ''ticked''), co_error = []\<rparr>, EvToken ''even'', EvDone None], mem', 2)"
proof -
  obtain u mem1 where u: "append_message None ''c'' (empty_message\<lparr>m_role := ''user'',
      m_blocks := [(empty_block BlockText)\<lparr>cb_text := ''go''\<rparr>]\<rparr>) 0 1 new_in_mem = Ok (u, mem1)"
    using in_mem_log.append_total by blast
  obtain h where h: "list_messages None ''c'' (no_opts\<lparr>lo_summary := True\<rparr>) mem1 = Ok h"
    by (cases "list_messages None ''c'' (no_opts\<lparr>lo_summary := True\<rparr>) mem1")
       (auto simp: list_messages_def Let_def split: if_splits)
  obtain msgs where m: "msgs = to_ai_messages h" by blast
  obtain tools where t: "tools = build_tool_specs (list_manifests [''tick''] [''tick'' \<mapsto> tick])" by blast
  have x: "execute_capability example_rt [] \<lparr>at_id = ''t1'', at_name = ''tick'', at_args = None\<rparr> 0 =
      (\<lparr>co_data = Some (AnyString ''ticked''), co_error = []\<rparr>, 2)"
    by (simp add: execute_capability_def example_rt_def resolve_def get_cap_def tick_def simple_cap_def apply_policy_def Let_def)
  have pa: "\<exists>mem2. persist_assistant live_ctx example_rt ''c'' bs out mem1 = (out @ [EvDone None], mem2)" for bs out
  proof (cases "bs = []")
    case False
    obtain a mem2 where "append_message None ''c'' (empty_message\<lparr>m_role := ''assistant'', m_blocks := bs\<rparr>) 2 3 mem1 = Ok (a, mem2)"
      using in_mem_log.append_total by blast
    then show ?thesis using False by (simp add: persist_assistant_def example_rt_def)
  qed (simp add: persist_assistant_def)
  have "\<exists>mem2. chat_loop live_ctx example_rt [] example_chat ''m'' tools (Suc (Suc n)) msgs [] [] mem1 0 =
     ([EvToolResult ''tick'' \<lparr>co_data = Some (AnyString ''ticked''), co_error = []\<rparr>, EvToken ''even'', EvDone None], mem2, 2)" for n
    using pa[of "add_text ''even'' (add_text [] [] @ [(empty_block BlockToolUse)\<lparr>cb_name := ''tick'', cb_input := args_json None, cb_tool_id := ''t1''\<rparr>,
        (empty_block BlockToolResult)\<lparr>cb_output := ''ticked'', cb_tool_id := ''t1''\<rparr>])"
        "[EvToolResult ''tick'' \<lparr>co_data = Some (AnyString ''ticked''), co_error = []\<rparr>, EvToken ''even'']"]
    by (auto simp: example_rt_def[THEN arg_cong[where f = rt_engine]] x format_tool_result_def Let_def example_chat_def)
  from this[of 18] obtain mem2 where "chat_loop live_ctx example_rt [] example_chat ''m'' tools 20 msgs [] [] mem1 0 =
     ([EvToolResult ''tick'' \<lparr>co_data = Some (AnyString ''ticked''), co_error = []\<rparr>, EvToken ''even'', EvDone None], mem2, 2)"
    by (auto simp: numeral_eq_Suc)
  then show ?thesis
    unfolding chat_def using u h m t
    by (intro exI[of _ mem2]) (simp add: example_chat_def example_rt_def Let_def)
qed


section \<open>What can change the world\<close>

text \<open>The world is changed by the engine, and by capabilities: registered ones that pass the integrity
  check, each with the policy derived from its own manifest installed last on the context.\<close>

definition own_policy :: "'w runtime \<Rightarrow> 'w exec capability \<Rightarrow> policy" where
  "own_policy rt c = derive (view_of (cap_manifest c)) (rt_tier rt)"

definition integrity_ok :: "'w runtime \<Rightarrow> 'w exec capability \<Rightarrow> bool" where
  "integrity_ok rt c = (case rt_checker rt of None \<Rightarrow> True | Some verify \<Rightarrow> verify (mf_id (cap_manifest c)) = None)"

text \<open>\<open>I\<close> survives every lawful step.\<close>

definition lawful :: "('w \<Rightarrow> bool) \<Rightarrow> 'w runtime \<Rightarrow> sandbox_ctx \<Rightarrow> bool" where
  "lawful I rt ctx \<longleftrightarrow>
     (\<forall>req w. I w \<longrightarrow> I (snd (rt_engine rt req w))) \<and>
     (\<forall>i c a w. resolve i (rt_registry rt) = Some c \<and> integrity_ok rt c \<and> I w \<longrightarrow>
        I (snd (cap_execute c (own_policy rt c # ctx) a w)))"

lemma apply_policy_Ok:
  "apply_policy (rt_checker rt) ctx (view_of (cap_manifest c)) p = Ok sctx \<Longrightarrow>
   integrity_ok rt c \<and> sctx = p # ctx"
  by (auto simp: apply_policy_def integrity_ok_def view_of_def split: option.splits)

lemma lawful_cap:
  assumes "lawful I rt ctx" and "I w" and "resolve i (rt_registry rt) = Some c"
    and "apply_policy (rt_checker rt) ctx (view_of (cap_manifest c)) (derive (view_of (cap_manifest c)) (rt_tier rt)) = Ok sctx"
  shows "I (snd (cap_execute c sctx a w))"
  using assms(1-3) apply_policy_Ok[OF assms(4)] by (auto simp: lawful_def own_policy_def)

lemma execute_lawful:
  assumes "lawful I rt ctx" and "I w"
  shows "I (snd (execute_capability rt ctx tc w))"
proof (cases "resolve (at_name tc) (rt_registry rt)")
  case (Some c)
  let ?ap = "apply_policy (rt_checker rt) ctx (view_of (cap_manifest c)) (derive (view_of (cap_manifest c)) (rt_tier rt))"
  show ?thesis
  proof (cases ?ap)
    case (Inr sctx)
    obtain out err w' where x: "cap_execute c sctx (at_args tc) w = ((out, err), w')" by (metis surj_pair)
    then have "I w'" using lawful_cap[OF assms Some Inr, of "at_args tc"] by simp
    then show ?thesis using Some Inr x by (simp add: execute_capability_def Let_def split: option.split)
  qed (use Some assms(2) in \<open>simp add: execute_capability_def Let_def\<close>)
qed (use assms(2) in \<open>simp add: execute_capability_def\<close>)

lemma invoke_lawful:
  assumes "lawful I rt ctx" and "I w"
  shows "I (snd (invoke rt ctx capID a w))"
proof (cases "resolve capID (rt_registry rt)")
  case (Some c)
  let ?ap = "apply_policy (rt_checker rt) ctx (view_of (cap_manifest c)) (derive (view_of (cap_manifest c)) (rt_tier rt))"
  show ?thesis
  proof (cases ?ap)
    case (Inr sctx)
    obtain out err w' where x: "cap_execute c sctx a w = ((out, err), w')" by (metis surj_pair)
    then have "I w'" using lawful_cap[OF assms Some Inr, of a] by simp
    then show ?thesis using Some Inr x assms(2) by (simp add: invoke_def Let_def)
  qed (use Some assms(2) in \<open>simp add: invoke_def Let_def\<close>)
qed (use assms(2) in \<open>simp add: invoke_def Let_def\<close>)

lemma run_calls_lawful:
  "lawful I rt ctx \<Longrightarrow> I w \<Longrightarrow>
   case run_calls cx rt ctx tcs bs msgs out w of (ok, bs', msgs', out', w') \<Rightarrow> I w'"
proof (induction tcs arbitrary: bs msgs out w)
  case (Cons tc tcs)
  obtain r w1 where e: "execute_capability rt ctx tc w = (r, w1)" by (metis surj_pair)
  then have "I w1" using execute_lawful[OF Cons.prems, of tc] by simp
  then show ?case using Cons.IH[OF Cons.prems(1)] e by (simp add: Let_def split: option.split)
qed simp

lemma chat_loop_lawful:
  "lawful I rt ctx \<Longrightarrow> I w \<Longrightarrow> I (snd (snd (chat_loop cx rt ctx r model tools n msgs bs out mem w)))"
proof (induction n arbitrary: msgs bs out w)
  case (Suc n)
  obtain res w1 where run: "rt_engine rt (chat_ai_request r model msgs tools) w = (res, w1)" by (metis surj_pair)
  have w1: "I w1" using Suc.prems run unfolding lawful_def by (metis snd_conv)
  show ?case
  proof (cases "\<exists>stream calls tx out1. res = Inr stream \<and> drain cx stream [] [] False out = Drained calls tx True out1 \<and> calls \<noteq> []")
    case True
    then obtain stream calls tx out1 where d: "res = Inr stream"
      "drain cx stream [] [] False out = Drained calls tx True out1" "calls \<noteq> []" by blast
    obtain ok bs2 msgs2 out2 w2 where rc:
      "run_calls cx rt ctx calls (add_text tx bs) (add_reply tx msgs) out1 w1 = (ok, bs2, msgs2, out2, w2)"
      by (metis surj_pair)
    have "I w2" using run_calls_lawful[OF Suc.prems(1) w1, of cx calls "add_text tx bs" "add_reply tx msgs" out1] rc by simp
    then show ?thesis using Suc.IH[OF Suc.prems(1)] by (simp add: run d rc Let_def)
  next
    case False
    then show ?thesis using w1 by (auto simp: run Let_def split: sum.split drained.split prod.split)
  qed
qed simp

text \<open>C2. Nothing runs outside its sandbox. For every invariant of the outside world that the engine keeps
  and that each registered, intact capability keeps when it runs under exactly the policy derived
  from its own manifest, a chat turn and a direct invocation keep it, whatever the model asks for,
  however the context is cancelled and whatever policies the caller had installed.\<close>

theorem world_changes_only_under_policy:
  assumes "lawful I rt ctx" and "I w"
  shows "I (snd (snd (chat cx rt ctx r mem w))) \<and> I (snd (invoke rt ctx capID a w))"
proof
  show "I (snd (snd (chat cx rt ctx r mem w)))"
    using assms(2) chat_loop_lawful[OF assms, of cx r]
    by (simp add: chat_def Let_def split: sum.split prod.split) (metis snd_conv)
qed (rule invoke_lawful[OF assms])

theorem world_changes_only_under_policy_witness:
  "even (snd (snd (chat live_ctx example_rt [] example_chat new_in_mem 0)))"
proof -
  have "lawful even example_rt []"
    by (auto simp: lawful_def example_rt_def tick_def simple_cap_def resolve_def get_cap_def split: if_splits)
  from world_changes_only_under_policy[OF this, of 0 live_ctx example_chat new_in_mem] show ?thesis by simp
qed

section \<open>Converse\<close>

lemma aggregate_forward:
  "case aggregate evs tx u d of
     Inl e \<Rightarrow> list_ex (\<lambda>ev. \<exists>e. ev = EvError e) (forward live_ctx evs d out)
   | Inr (tx', u', d') \<Rightarrow>
       (\<exists>es. forward live_ctx evs d out = out @ es \<and> tx' = tx @ ev_text es \<and>
             list_ex (\<lambda>ev. \<exists>e. ev = EvError e) es = (\<not> d'))"
proof (induction evs arbitrary: tx u d out)
  case Nil
  show ?case by auto
next
  case (Cons ev evs)
  show ?case
  proof (cases ev)
    case (AiToken t)
    then show ?thesis using Cons.IH[where tx = "tx @ t" and u = u and d = d and out = "out @ [EvToken t]"]
      by (auto simp: Let_def split: sum.splits prod.splits; fastforce)
  next
    case (AiDone v)
    then show ?thesis using Cons.IH[where tx = tx and u = v and d = True and out = "out @ [EvDone v]"]
      by (auto simp: Let_def split: sum.splits prod.splits; fastforce)
  next
    case (AiToolCall c)
    then show ?thesis using Cons.IH[where tx = tx and u = u and d = d and out = out]
      by (auto simp: Let_def split: sum.splits prod.splits)
  next
    case (AiThinking t)
    then show ?thesis using Cons.IH[where tx = tx and u = u and d = d and out = "out @ [EvThinking t]"]
      by (auto simp: Let_def split: sum.splits prod.splits; fastforce)
  next
    case (AiToolUse t)
    then show ?thesis using Cons.IH[where tx = tx and u = u and d = d and out = "out @ [EvToolUse t]"]
      by (auto simp: Let_def split: sum.splits prod.splits; fastforce)
  next
    case (AiToolInput a t)
    then show ?thesis using Cons.IH[where tx = tx and u = u and d = d and out = "out @ [EvToolInput a t]"]
      by (auto simp: Let_def split: sum.splits prod.splits; fastforce)
  next
    case (AiToolOutput a t)
    then show ?thesis using Cons.IH[where tx = tx and u = u and d = d and out = "out @ [EvToolOutput a t]"]
      by (auto simp: Let_def split: sum.splits prod.splits; fastforce)
  qed (auto simp: Let_def)
qed

text \<open>A stream that reports an error.\<close>

definition has_error :: "rt_event list \<Rightarrow> bool" where
  "has_error evs = list_ex (\<lambda>ev. \<exists>e. ev = EvError e) evs"

text \<open>The two one-shot surfaces agree: on the same request \<open>Converse\<close> succeeds exactly when
  \<open>ConverseStream\<close> opens a stream without an error event, and its text is then the concatenation of
  the streamed tokens; both refuse the same requests and use the world in the same way.\<close>

theorem converse_agrees_with_stream:
  "case (converse live_ctx rt r w, converse_stream live_ctx rt r w) of
     ((Inr res, w1), (Inr evs, w2)) \<Rightarrow> w1 = w2 \<and> vs_text res = ev_text evs \<and> \<not> has_error evs
   | ((Inl e, w1), (Inr evs, w2)) \<Rightarrow> w1 = w2 \<and> has_error evs
   | ((Inl e, w1), (Inl e', w2)) \<Rightarrow> w1 = w2
   | ((Inr res, w1), (Inl e', w2)) \<Rightarrow> False"
proof -
  have same: "case (prepare_converse_stream rt r c w, prepare_converse_stream rt r c' w) of
      ((Inr s, w1), (Inr s', w2)) \<Rightarrow> s = s' \<and> w1 = w2 | ((Inl _, w1), (Inl _, w2)) \<Rightarrow> w1 = w2 | _ \<Rightarrow> False" for c c'
    by (auto simp: prepare_converse_stream_def Let_def split: sum.splits prod.splits option.splits)
  obtain a w1 b w2 where p: "prepare_converse_stream rt r ''runtime.Converse'' w = (a, w1)"
    "prepare_converse_stream rt r ''runtime.ConverseStream'' w = (b, w2)" by (metis surj_pair)
  note s = same[of "''runtime.Converse''" "''runtime.ConverseStream''", unfolded p]
  show ?thesis
  proof (cases a)
    case (Inl e)
    then show ?thesis using s p by (auto simp: converse_def converse_stream_def split: sum.splits)
  next
    case (Inr stream)
    then have b: "b = Inr stream" "w2 = w1" using s by (auto split: sum.splits)
    show ?thesis
      using aggregate_forward[where evs = stream and tx = "[]" and u = None and d = False and out = "[]"] p Inr b
      by (auto simp: converse_def converse_stream_def has_error_def split: sum.splits prod.splits)
  qed
qed

lemma resolve_model_idem: "resolve_model (resolve_model s) = resolve_model s"
  by (simp add: resolve_model_def Let_def to_lower_def lower_char_def)

end
