(* ===== verification/Integrity_Guard.thy ===== *)
theory Integrity_Guard
  imports Alf_Prelude "HOL-Library.Word"
begin

unbundle bit_operations_syntax

text \<open>
  \<open>internal/sandbox/integrity\<close>: the guard that watches the user's tools directory (\<open>guard.go\<close>) and the
  pattern audit (\<open>audit.go\<close>). The state holds the guard's two maps and the files it works on: the
  tools directory (plain files; the scan skips directories), the backups, the quarantine directory,
  the two JSON files and the change log. A file is its bytes, mode, owner, group and modification
  time; an operation on a file that exists succeeds. The hash is any function, the rules are
  those of \<open>ruleset.json\<close>; the listing order, the clock and the umask are arguments.
\<close>

section \<open>Files\<close>

record tool_file =
  tf_data :: string
  tf_mode :: "16 word"
  tf_uid :: nat
  tf_gid :: nat
  tf_mtime :: int

type_synonym dir = "string \<rightharpoonup> tool_file"

definition uidAlf :: nat where "uidAlf = 1000"
definition gidAlf :: nat where "gidAlf = 1000"
definition gidAlfd :: nat where "gidAlfd = 1001"
definition uidAlfd :: nat where "uidAlfd = 1001"

text \<open>The octal modes 640, 755, 775, 600 and 111.\<close>

definition modeLocked :: "16 word" where "modeLocked = 416"
definition modeTool :: "16 word" where "modeTool = 493"
definition modeRestored :: "16 word" where "modeRestored = 509"
definition modePrivate :: "16 word" where "modePrivate = 384"
definition modeExec :: "16 word" where "modeExec = 73"

record security_rule =
  sr_id :: string
  sr_category :: string
  sr_pattern :: string
  sr_severity :: string
  sr_cwe :: string
  sr_reason :: string

record security_warning =
  sw_tool :: string
  sw_rule :: security_rule

record guard_conf =
  gc_hash :: "string \<Rightarrow> string"
  gc_rules :: "security_rule list"
  gc_umask :: "16 word"

record guard_now =
  gn_now :: string
  gn_mtime :: int

record manifest_entry =
  me_name :: string
  me_exe_hash :: string
  me_schema_hash :: string
  me_size :: int
  me_mod_time :: int
  me_first_seen :: string
  me_last_check :: string

definition zero_entry :: manifest_entry where
  "zero_entry = \<lparr>me_name = [], me_exe_hash = [], me_schema_hash = [], me_size = 0, me_mod_time = 0,
     me_first_seen = [], me_last_check = []\<rparr>"

record quarantined_tool =
  qt_name :: string
  qt_old_hash :: string
  qt_new_hash :: string

record guard =
  g_manifest :: "string \<rightharpoonup> manifest_entry"
  g_quarantined :: "string \<rightharpoonup> quarantined_tool"
  g_tools :: dir
  g_backups :: dir
  g_qdir :: dir
  g_manifest_file :: "(string \<rightharpoonup> manifest_entry) option"
  g_quarantine_file :: "(string \<rightharpoonup> quarantined_tool) option"
  g_log :: "(string \<times> string \<times> string \<times> string) list"
  g_notified :: "(string \<times> string \<times> string) list"

abbreviation prev_name :: "string \<Rightarrow> string" where "prev_name name \<equiv> name @ ''.prev''"

text \<open>\<open>os.WriteFile\<close>: an existing file keeps its mode and owner, a new one belongs to the daemon.\<close>

definition write_file :: "guard_conf \<Rightarrow> guard_now \<Rightarrow> string \<Rightarrow> 16 word \<Rightarrow> tool_file option \<Rightarrow> tool_file" where
  "write_file c t data mode old =
     (case old of
        Some f \<Rightarrow> f\<lparr>tf_data := data, tf_mtime := gn_mtime t\<rparr>
      | None \<Rightarrow> \<lparr>tf_data = data, tf_mode = mode AND NOT (gc_umask c), tf_uid = uidAlfd, tf_gid = gidAlfd,
                 tf_mtime = gn_mtime t\<rparr>)"

definition copy_file :: "guard_conf \<Rightarrow> guard_now \<Rightarrow> tool_file option \<Rightarrow> tool_file option \<Rightarrow> tool_file option" where
  "copy_file c t src dst = map_option (\<lambda>f. write_file c t (tf_data f) (tf_mode f) dst) src"

definition hash_file :: "guard_conf \<Rightarrow> tool_file option \<Rightarrow> string option" where
  "hash_file c f = map_option (\<lambda>f. gc_hash c (tf_data f)) f"

definition lockdown_tool :: "string \<Rightarrow> guard \<Rightarrow> guard" where
  "lockdown_tool name s =
     (case g_tools s name of None \<Rightarrow> s
      | Some f \<Rightarrow> s\<lparr>g_tools := (g_tools s)(name \<mapsto> f\<lparr>tf_mode := modeLocked, tf_gid := gidAlfd\<rparr>)\<rparr>)"

definition unlock_tool :: "string \<Rightarrow> guard \<Rightarrow> guard" where
  "unlock_tool name s =
     (case g_tools s name of None \<Rightarrow> s
      | Some f \<Rightarrow> s\<lparr>g_tools := (g_tools s)(name \<mapsto> f\<lparr>tf_mode := modeTool, tf_uid := uidAlf, tf_gid := gidAlf\<rparr>)\<rparr>)"

definition backup :: "guard_conf \<Rightarrow> guard_now \<Rightarrow> string \<Rightarrow> guard \<Rightarrow> guard" where
  "backup c t name s =
     (case copy_file c t (g_tools s name) (g_backups s (prev_name name)) of None \<Rightarrow> s
      | Some f \<Rightarrow> s\<lparr>g_backups := (g_backups s)(prev_name name \<mapsto> f\<lparr>tf_mode := modeTool\<rparr>)\<rparr>)"

text \<open>The target is removed first, so a missing backup leaves no tool. The flag is whether it worked.\<close>

definition restore :: "guard_conf \<Rightarrow> guard_now \<Rightarrow> string \<Rightarrow> guard \<Rightarrow> bool \<times> guard" where
  "restore c t name s =
     (let s1 = s\<lparr>g_tools := (g_tools s)(name := None)\<rparr>
      in case copy_file c t (g_backups s (prev_name name)) None of
           None \<Rightarrow> (False, s1)
         | Some f \<Rightarrow> (True, s1\<lparr>g_tools := (g_tools s)(name \<mapsto> f\<lparr>tf_mode := modeRestored\<rparr>)\<rparr>))"

definition save_manifest :: "guard \<Rightarrow> guard" where
  "save_manifest s = s\<lparr>g_manifest_file := Some (g_manifest s)\<rparr>"

definition save_quarantine :: "guard \<Rightarrow> guard" where
  "save_quarantine s = s\<lparr>g_quarantine_file := Some (g_quarantined s)\<rparr>"

definition log_change :: "guard_now \<Rightarrow> string \<Rightarrow> string \<Rightarrow> string \<Rightarrow> guard \<Rightarrow> guard" where
  "log_change t name old new s = s\<lparr>g_log := g_log s @ [(gn_now t, name, take 12 old, take 12 new)]\<rparr>"

definition hash_schema :: "guard_conf \<Rightarrow> string \<Rightarrow> guard \<Rightarrow> string" where
  "hash_schema c name s = (case hash_file c (g_tools s (name @ ''.json'')) of None \<Rightarrow> [] | Some h \<Rightarrow> h)"

definition audit_tool_source :: "guard_conf \<Rightarrow> tool_file option \<Rightarrow> string \<Rightarrow> security_warning list" where
  "audit_tool_source c f name =
     (case f of None \<Rightarrow> []
      | Some f \<Rightarrow>
          map (\<lambda>r. \<lparr>sw_tool = name, sw_rule = r\<rparr>)
            (filter (\<lambda>r. str_contains (to_lower (tf_data f)) (to_lower (sr_pattern r))) (gc_rules c)))"

section \<open>The scan\<close>

definition register_new :: "guard_conf \<Rightarrow> guard_now \<Rightarrow> string \<Rightarrow> tool_file \<Rightarrow> string \<Rightarrow> string \<Rightarrow> guard \<Rightarrow> guard" where
  "register_new c t name info exeHash schemaHash s =
     save_manifest (backup c t name (s\<lparr>g_manifest := (g_manifest s)(name \<mapsto>
       \<lparr>me_name = name, me_exe_hash = exeHash, me_schema_hash = schemaHash,
        me_size = int (length (tf_data info)), me_mod_time = tf_mtime info,
        me_first_seen = gn_now t, me_last_check = gn_now t\<rparr>)\<rparr>))"

text \<open>The entry with the file's current size and time, and with its current hashes.\<close>

definition touched :: "guard_now \<Rightarrow> tool_file \<Rightarrow> manifest_entry \<Rightarrow> manifest_entry" where
  "touched t info e =
     e\<lparr>me_size := int (length (tf_data info)), me_mod_time := tf_mtime info, me_last_check := gn_now t\<rparr>"

definition accept_change ::
  "guard_conf \<Rightarrow> guard_now \<Rightarrow> string \<Rightarrow> tool_file \<Rightarrow> string \<Rightarrow> string \<Rightarrow> manifest_entry \<Rightarrow> guard \<Rightarrow> guard" where
  "accept_change c t name info exeHash schemaHash e s =
     save_manifest (backup c t name (s\<lparr>g_manifest := (g_manifest s)(name \<mapsto>
       touched t info (e\<lparr>me_exe_hash := exeHash, me_schema_hash := schemaHash\<rparr>))\<rparr>))"

definition quarantine_tool :: "guard_conf \<Rightarrow> guard_now \<Rightarrow> string \<Rightarrow> string \<Rightarrow> string \<Rightarrow> guard \<Rightarrow> guard" where
  "quarantine_tool c t name old new s =
     (let s1 = (case copy_file c t (g_tools s name) (g_qdir s name) of None \<Rightarrow> s
                | Some f \<Rightarrow> s\<lparr>g_qdir := (g_qdir s)(name \<mapsto>
                              f\<lparr>tf_mode := modePrivate, tf_uid := uidAlfd, tf_gid := gidAlfd\<rparr>)\<rparr>);
          s2 = lockdown_tool name (snd (restore c t name s1));
          s3 = save_quarantine (s2\<lparr>g_quarantined := (g_quarantined s2)(name \<mapsto>
                 \<lparr>qt_name = name, qt_old_hash = old, qt_new_hash = new\<rparr>)\<rparr>)
      in s3\<lparr>g_notified := g_notified s3 @ [(name, old, new)]\<rparr>)"

text \<open>The names the scan looks at.\<close>

definition scanned :: "string \<Rightarrow> bool" where
  "scanned name \<longleftrightarrow> \<not> (has_suffix name ''.json'' \<or> has_suffix name ''.quarantined'')"

definition scan_known ::
  "guard_conf \<Rightarrow> guard_now \<Rightarrow> bool \<Rightarrow> string \<Rightarrow> tool_file \<Rightarrow> manifest_entry \<Rightarrow> guard \<Rightarrow> guard" where
  "scan_known c t initial name info e s =
     (let exeHash = gc_hash c (tf_data info); schemaHash = hash_schema c name s in
      if me_exe_hash e = exeHash \<and> me_schema_hash e = schemaHash
      then s\<lparr>g_manifest := (g_manifest s)(name \<mapsto> touched t info e)\<rparr>
      else if initial then
        (if g_quarantined s name \<noteq> None then snd (restore c t name s)
         else accept_change c t name info exeHash schemaHash e s)
      else if g_quarantined s name \<noteq> None then
        lockdown_tool name
          (case hash_file c (g_backups s (prev_name name)) of
             None \<Rightarrow> s
           | Some backupHash \<Rightarrow>
               if backupHash \<noteq> [] \<and> exeHash \<noteq> backupHash then snd (restore c t name s) else s)
      else
        let s1 = log_change t name (me_exe_hash e) exeHash s in
        if audit_tool_source c (g_tools s name) name \<noteq> []
        then quarantine_tool c t name (me_exe_hash e) exeHash s1
        else accept_change c t name info exeHash schemaHash e s1)"

definition scan_one :: "guard_conf \<Rightarrow> guard_now \<Rightarrow> bool \<Rightarrow> string \<Rightarrow> guard \<Rightarrow> guard" where
  "scan_one c t initial name s =
     (if \<not> scanned name then s
      else case g_tools s name of
        None \<Rightarrow> s
      | Some info \<Rightarrow>
          if tf_mode info AND modeExec = 0 \<and> g_quarantined s name = None then s
          else (case g_manifest s name of
                  None \<Rightarrow> register_new c t name info (gc_hash c (tf_data info)) (hash_schema c name s) s
                | Some e \<Rightarrow>
                    if me_size e = int (length (tf_data info)) \<and> me_mod_time e = tf_mtime info then s
                    else scan_known c t initial name info e s))"

definition scan :: "guard_conf \<Rightarrow> guard_now \<Rightarrow> bool \<Rightarrow> string list \<Rightarrow> guard \<Rightarrow> guard" where
  "scan c t initial order s =
     (let s1 = fold (scan_one c t initial) order s;
          seen = filter scanned order
      in s1\<lparr>g_manifest := delete_where (\<lambda>name _. name \<notin> set seen) (g_manifest s1)\<rparr>)"

section \<open>Checks and resolution\<close>

definition errToolQuarantined :: string where
  "errToolQuarantined = ''tool quarantined: hash mismatch detected, awaiting user approval''"

definition check_tool :: "string \<Rightarrow> guard \<Rightarrow> string option" where
  "check_tool name s = (if g_quarantined s name \<noteq> None then Some errToolQuarantined else None)"

definition verify_tool :: "guard_conf \<Rightarrow> guard_now \<Rightarrow> string \<Rightarrow> guard \<Rightarrow> string option \<times> guard" where
  "verify_tool c t name s =
     (if g_quarantined s name \<noteq> None then (Some errToolQuarantined, s)
      else case g_manifest s name of
        None \<Rightarrow>
          if audit_tool_source c (g_tools s name) name \<noteq> []
          then (Some (''integrity: new tool '' @ name @ '' contains dangerous patterns, blocked pending scan''), s)
          else (case hash_file c (g_tools s name) of
                  None \<Rightarrow> (Some ''integrity: cannot hash new tool'', s)
                | Some h \<Rightarrow>
                    (None, save_manifest (s\<lparr>g_manifest := (g_manifest s)(name \<mapsto>
                       zero_entry\<lparr>me_name := name, me_exe_hash := h, me_first_seen := gn_now t,
                                  me_last_check := gn_now t\<rparr>)\<rparr>)))
      | Some e \<Rightarrow>
          (case hash_file c (g_tools s name) of
             None \<Rightarrow> (Some ''integrity: cannot read tool for verification'', s)
           | Some h \<Rightarrow>
               if h \<noteq> me_exe_hash e
               then (Some (''integrity: tool '' @ name @ '' modified since last scan (expected '' @
                           take 12 (me_exe_hash e) @ '', got '' @ take 12 h @ '')''), s)
               else (None, s)))"

definition is_quarantined :: "string \<Rightarrow> guard \<Rightarrow> bool" where
  "is_quarantined name s \<longleftrightarrow> g_quarantined s name \<noteq> None"

definition drop_quarantine :: "string \<Rightarrow> guard \<Rightarrow> guard" where
  "drop_quarantine name s = save_quarantine (s\<lparr>g_quarantined := (g_quarantined s)(name := None)\<rparr>)"

definition approve_modified :: "guard_conf \<Rightarrow> guard_now \<Rightarrow> string \<Rightarrow> guard \<Rightarrow> string option \<times> guard" where
  "approve_modified c t name s =
     (case g_quarantined s name of
        None \<Rightarrow> (Some (''tool '' @ go_quote name @ '' is not quarantined''), s)
      | Some qt \<Rightarrow>
          (case copy_file c t (g_qdir s name) (g_tools s name) of
             None \<Rightarrow> (Some ''integrity: restore quarantined'', s)
           | Some f \<Rightarrow>
               let s1 = unlock_tool name (s\<lparr>g_tools := (g_tools s)(name \<mapsto> f)\<rparr>);
                   s2 = s1\<lparr>g_qdir := (g_qdir s1)(name := None)\<rparr>;
                   e = (case g_manifest s2 name of None \<Rightarrow> zero_entry | Some e \<Rightarrow> e);
                   e1 = e\<lparr>me_exe_hash := qt_new_hash qt, me_last_check := gn_now t,
                          me_schema_hash := hash_schema c name s2\<rparr>;
                   e2 = (case g_tools s2 name of None \<Rightarrow> e1
                         | Some info \<Rightarrow> e1\<lparr>me_size := int (length (tf_data info)), me_mod_time := tf_mtime info\<rparr>)
               in (None, drop_quarantine name
                     (save_manifest (backup c t name (s2\<lparr>g_manifest := (g_manifest s2)(name \<mapsto> e2)\<rparr>))))))"

definition revert_tool :: "string \<Rightarrow> guard \<Rightarrow> string option \<times> guard" where
  "revert_tool name s =
     (if g_quarantined s name = None then (Some (''tool '' @ go_quote name @ '' is not quarantined''), s)
      else
        let s1 = s\<lparr>g_qdir := (g_qdir s)(name := None)\<rparr>;
            s2 = (case (g_tools s1 name, g_manifest s1 name) of
                    (Some info, Some e) \<Rightarrow>
                      s1\<lparr>g_manifest := (g_manifest s1)(name \<mapsto>
                           e\<lparr>me_size := int (length (tf_data info)), me_mod_time := tf_mtime info\<rparr>)\<rparr>
                  | _ \<Rightarrow> s1)
        in (None, drop_quarantine name (unlock_tool name s2)))"

section \<open>Start\<close>

text \<open>The names in the quarantine file and in the quarantine directory, in the order of the loops over
  them. The directory is the fallback when the file is missing or has no names.\<close>

fun requarantine :: "guard_conf \<Rightarrow> string list \<Rightarrow> guard \<Rightarrow> guard" where
  "requarantine c [] s = s"
| "requarantine c (name # names) s =
     (case hash_file c (g_qdir s name) of
        None \<Rightarrow> requarantine c names s
      | Some newHash \<Rightarrow>
          requarantine c names (s\<lparr>g_quarantined := (g_quarantined s)(name \<mapsto>
            \<lparr>qt_name = name,
             qt_old_hash = (case g_manifest s name of None \<Rightarrow> [] | Some e \<Rightarrow> me_exe_hash e),
             qt_new_hash = newHash\<rparr>)\<rparr>))"

definition restore_quarantine_state :: "guard_conf \<Rightarrow> string list \<Rightarrow> string list \<Rightarrow> guard \<Rightarrow> guard" where
  "restore_quarantine_state c names dirNames s =
     (let state = (case g_quarantine_file s of None \<Rightarrow> Map.empty | Some m \<Rightarrow> m) in
      if filter (\<lambda>n. state n \<noteq> None) names \<noteq> []
      then fold lockdown_tool names (s\<lparr>g_quarantined := state\<rparr>)
      else let s1 = requarantine c dirNames s
           in if filter (\<lambda>n. g_quarantined s1 n \<noteq> None) dirNames \<noteq> [] then save_quarantine s1 else s1)"

definition load_manifest :: "guard \<Rightarrow> guard" where
  "load_manifest s = (case g_manifest_file s of None \<Rightarrow> s | Some m \<Rightarrow> s\<lparr>g_manifest := m\<rparr>)"

text \<open>A new guard over the files that are there.\<close>

definition new_integrity_guard :: "guard_conf \<Rightarrow> string list \<Rightarrow> string list \<Rightarrow> guard \<Rightarrow> guard" where
  "new_integrity_guard c names dirNames s =
     restore_quarantine_state c names dirNames
       (load_manifest (s\<lparr>g_manifest := Map.empty, g_quarantined := Map.empty\<rparr>))"

definition fresh_guard :: "dir \<Rightarrow> guard" where
  "fresh_guard tools =
     \<lparr>g_manifest = Map.empty, g_quarantined = Map.empty, g_tools = tools, g_backups = Map.empty,
      g_qdir = Map.empty, g_manifest_file = None, g_quarantine_file = None, g_log = [], g_notified = []\<rparr>"

end
