(* ===== verification/Integrity_Properties.thy ===== *)
theory Integrity_Properties
  imports Integrity_Guard
begin

text \<open>
  What the integrity guard promises: a quarantine holds until the user resolves it, across scans,
  tampering and restarts; what \<open>Verify\<close> lets through is exactly the approved content; a dangerous
  change is undone and either version can be chosen; and where the guard fails to keep its promise.
\<close>

section \<open>What each helper changes\<close>

lemma lockdown_sel [simp]:
  "g_tools (lockdown_tool n s) =
     (g_tools s)(n := map_option (\<lambda>f. f\<lparr>tf_mode := modeLocked, tf_gid := gidAlfd\<rparr>) (g_tools s n))"
  "g_manifest (lockdown_tool n s) = g_manifest s" "g_quarantined (lockdown_tool n s) = g_quarantined s"
  "g_backups (lockdown_tool n s) = g_backups s" "g_qdir (lockdown_tool n s) = g_qdir s"
  "g_manifest_file (lockdown_tool n s) = g_manifest_file s"
  "g_quarantine_file (lockdown_tool n s) = g_quarantine_file s"
  by (auto simp: lockdown_tool_def split: option.split)

lemma unlock_sel [simp]:
  "g_tools (unlock_tool n s) =
     (g_tools s)(n := map_option (\<lambda>f. f\<lparr>tf_mode := modeTool, tf_uid := uidAlf, tf_gid := gidAlf\<rparr>) (g_tools s n))"
  "g_manifest (unlock_tool n s) = g_manifest s" "g_quarantined (unlock_tool n s) = g_quarantined s"
  "g_backups (unlock_tool n s) = g_backups s" "g_qdir (unlock_tool n s) = g_qdir s"
  "g_manifest_file (unlock_tool n s) = g_manifest_file s"
  "g_quarantine_file (unlock_tool n s) = g_quarantine_file s"
  by (auto simp: unlock_tool_def split: option.split)

lemma backup_sel [simp]:
  "g_tools (backup c t n s) = g_tools s" "g_manifest (backup c t n s) = g_manifest s"
  "g_quarantined (backup c t n s) = g_quarantined s" "g_qdir (backup c t n s) = g_qdir s"
  "g_manifest_file (backup c t n s) = g_manifest_file s"
  "g_quarantine_file (backup c t n s) = g_quarantine_file s"
  "m \<noteq> n \<Longrightarrow> g_backups (backup c t n s) (prev_name m) = g_backups s (prev_name m)"
  by (auto simp: backup_def split: option.split)

lemma backup_data:
  "g_tools s n = Some f \<Longrightarrow> \<exists>b. g_backups (backup c t n s) (prev_name n) = Some b \<and> tf_data b = tf_data f"
  by (auto simp: backup_def copy_file_def write_file_def split: option.split)

lemma restore_sel [simp]:
  "g_manifest (snd (restore c t n s)) = g_manifest s" "g_quarantined (snd (restore c t n s)) = g_quarantined s"
  "g_backups (snd (restore c t n s)) = g_backups s" "g_qdir (snd (restore c t n s)) = g_qdir s"
  "g_manifest_file (snd (restore c t n s)) = g_manifest_file s"
  "g_quarantine_file (snd (restore c t n s)) = g_quarantine_file s"
  "m \<noteq> n \<Longrightarrow> g_tools (snd (restore c t n s)) m = g_tools s m"
  by (auto simp: restore_def Let_def split: option.split)

lemma restore_tool:
  "g_tools (snd (restore c t n s)) n =
     map_option (\<lambda>b. (write_file c t (tf_data b) (tf_mode b) None)\<lparr>tf_mode := modeRestored\<rparr>) (g_backups s (prev_name n))"
  by (auto simp: restore_def copy_file_def Let_def split: option.split)

lemma write_file_data [simp]: "tf_data (write_file c t d m old) = d"
  by (simp add: write_file_def split: option.split)

lemma save_sel [simp]:
  "save_manifest s = s\<lparr>g_manifest_file := Some (g_manifest s)\<rparr>"
  "save_quarantine s = s\<lparr>g_quarantine_file := Some (g_quarantined s)\<rparr>"
  "log_change t n a b s = s\<lparr>g_log := g_log s @ [(gn_now t, n, take 12 a, take 12 b)]\<rparr>"
  by (simp_all add: save_manifest_def save_quarantine_def log_change_def)

lemma touched_sel [simp]:
  "me_exe_hash (touched t info e) = me_exe_hash e" "me_schema_hash (touched t info e) = me_schema_hash e"
  by (simp_all add: touched_def)

lemma register_new_sel [simp]:
  "g_tools (register_new c t n info h sh s) = g_tools s"
  "g_quarantined (register_new c t n info h sh s) = g_quarantined s"
  "g_qdir (register_new c t n info h sh s) = g_qdir s"
  "g_quarantine_file (register_new c t n info h sh s) = g_quarantine_file s"
  "g_manifest_file (register_new c t n info h sh s) = Some (g_manifest (register_new c t n info h sh s))"
  "m \<noteq> n \<Longrightarrow> g_manifest (register_new c t n info h sh s) m = g_manifest s m"
  "m \<noteq> n \<Longrightarrow> g_backups (register_new c t n info h sh s) (prev_name m) = g_backups s (prev_name m)"
  by (simp_all add: register_new_def)

lemma register_new_entry:
  "\<exists>e. g_manifest (register_new c t n info h sh s) n = Some e \<and> me_exe_hash e = h \<and>
       me_size e = int (length (tf_data info)) \<and> me_mod_time e = tf_mtime info"
  by (simp add: register_new_def)

lemma register_new_backup:
  "g_tools s n = Some f \<Longrightarrow>
   \<exists>b. g_backups (register_new c t n info h sh s) (prev_name n) = Some b \<and> tf_data b = tf_data f"
  by (auto simp: register_new_def intro!: backup_data)

lemma accept_change_sel [simp]:
  "g_tools (accept_change c t n info h sh e s) = g_tools s"
  "g_quarantined (accept_change c t n info h sh e s) = g_quarantined s"
  "g_qdir (accept_change c t n info h sh e s) = g_qdir s"
  "g_quarantine_file (accept_change c t n info h sh e s) = g_quarantine_file s"
  "g_manifest_file (accept_change c t n info h sh e s) = Some (g_manifest (accept_change c t n info h sh e s))"
  "m \<noteq> n \<Longrightarrow> g_manifest (accept_change c t n info h sh e s) m = g_manifest s m"
  "m \<noteq> n \<Longrightarrow> g_backups (accept_change c t n info h sh e s) (prev_name m) = g_backups s (prev_name m)"
  by (simp_all add: accept_change_def)

lemma accept_change_entry:
  "\<exists>e'. g_manifest (accept_change c t n info h sh e s) n = Some e' \<and> me_exe_hash e' = h"
  by (simp add: accept_change_def)

lemma accept_change_backup:
  "g_tools s n = Some f \<Longrightarrow>
   \<exists>b. g_backups (accept_change c t n info h sh e s) (prev_name n) = Some b \<and> tf_data b = tf_data f"
  by (auto simp: accept_change_def intro!: backup_data)

lemma quarantine_sel [simp]:
  "g_manifest (quarantine_tool c t n a b s) = g_manifest s"
  "g_manifest_file (quarantine_tool c t n a b s) = g_manifest_file s"
  "g_backups (quarantine_tool c t n a b s) = g_backups s"
  "g_quarantined (quarantine_tool c t n a b s) =
     (g_quarantined s)(n \<mapsto> \<lparr>qt_name = n, qt_old_hash = a, qt_new_hash = b\<rparr>)"
  "g_quarantine_file (quarantine_tool c t n a b s) = Some (g_quarantined (quarantine_tool c t n a b s))"
  "m \<noteq> n \<Longrightarrow> g_tools (quarantine_tool c t n a b s) m = g_tools s m"
  "m \<noteq> n \<Longrightarrow> g_qdir (quarantine_tool c t n a b s) m = g_qdir s m"
  by (auto simp: quarantine_tool_def Let_def split: option.split)

section \<open>A scan works tool by tool\<close>

text \<open>All the guard holds about one tool.\<close>

definition view ::
  "string \<Rightarrow> guard \<Rightarrow> manifest_entry option \<times> quarantined_tool option \<times> tool_file option \<times> tool_file option \<times> tool_file option" where
  "view n s = (g_manifest s n, g_quarantined s n, g_tools s n, g_qdir s n, g_backups s (prev_name n))"

lemma scan_one_other: "m \<noteq> n \<Longrightarrow> view m (scan_one c t i n s) = view m s"
  by (simp add: scan_one_def scan_known_def view_def Let_def split: option.split)

lemma scan_one_not_scanned: "\<not> scanned n \<Longrightarrow> scan_one c t i n s = s"
  by (simp add: scan_one_def)

lemma json_not_scanned [simp]: "\<not> scanned (n @ ''.json'')"
  by (auto simp: scanned_def has_suffix_def suffix_def)

lemma scan_one_json: "g_tools (scan_one c t i m s) (n @ ''.json'') = g_tools s (n @ ''.json'')"
  using scan_one_other[of "n @ ''.json''" m c t i s]
  by (cases "m = n @ ''.json''") (simp_all add: scan_one_not_scanned view_def)

lemma helpers_view:
  "view n s = view n s' \<Longrightarrow> view n (backup c t n s) = view n (backup c t n s')"
  "view n s = view n s' \<Longrightarrow> view n (snd (restore c t n s)) = view n (snd (restore c t n s'))"
  "view n s = view n s' \<Longrightarrow> view n (lockdown_tool n s) = view n (lockdown_tool n s')"
  by (auto simp: view_def backup_def restore_def Let_def split: option.split)

lemma register_view:
  "view n s = view n s' \<Longrightarrow> view n (register_new c t n info h sh s) = view n (register_new c t n info h sh s')"
  by (auto simp: view_def register_new_def backup_def split: option.split)

lemma accept_view:
  "view n s = view n s' \<Longrightarrow> view n (accept_change c t n info h sh e s) = view n (accept_change c t n info h sh e s')"
  by (auto simp: view_def accept_change_def backup_def split: option.split)

lemma quarantine_view:
  "view n s = view n s' \<Longrightarrow> view n (quarantine_tool c t n a b s) = view n (quarantine_tool c t n a b s')"
  by (auto simp: view_def quarantine_tool_def restore_def Let_def split: option.split)

lemma view_log: "view n (s\<lparr>g_log := l\<rparr>) = view n s"
  by (simp add: view_def)

lemma scan_known_local:
  assumes v: "view n s = view n s'" and j: "g_tools s (n @ ''.json'') = g_tools s' (n @ ''.json'')"
  shows "view n (scan_known c t i n info e s) = view n (scan_known c t i n info e s')"
proof -
  have sch: "hash_schema c n s = hash_schema c n s'" using j by (simp add: hash_schema_def)
  have sel: "g_quarantined s n = g_quarantined s' n" "g_tools s n = g_tools s' n"
    "g_backups s (prev_name n) = g_backups s' (prev_name n)" using v by (simp_all add: view_def)
  have up: "view n (s\<lparr>g_manifest := (g_manifest s)(n \<mapsto> x)\<rparr>) = view n (s'\<lparr>g_manifest := (g_manifest s')(n \<mapsto> x)\<rparr>)"
    for x using v by (simp add: view_def)
  have vl: "view n (s\<lparr>g_log := l\<rparr>) = view n (s'\<lparr>g_log := l'\<rparr>)" for l l'
    using v by (simp add: view_log)
  note r = helpers_view(2)[OF v, of c t]
  show ?thesis
    unfolding scan_known_def Let_def sch sel
    using v vl up helpers_view(3)[OF v] helpers_view(3)[OF r] r
    by (auto intro: accept_view[OF v] accept_view[OF vl] quarantine_view[OF vl] split: option.split)
qed

lemma scan_one_local:
  assumes v: "view n s = view n s'" and j: "g_tools s (n @ ''.json'') = g_tools s' (n @ ''.json'')"
  shows "view n (scan_one c t i n s) = view n (scan_one c t i n s')"
proof -
  have sch: "hash_schema c n s = hash_schema c n s'" using j by (simp add: hash_schema_def)
  have sel: "g_quarantined s n = g_quarantined s' n" "g_tools s n = g_tools s' n" "g_manifest s n = g_manifest s' n"
    using v by (simp_all add: view_def)
  show ?thesis unfolding scan_one_def sch sel
    using v by (auto intro: scan_known_local[OF v j] register_view[OF v] split: option.split)
qed

lemma scan_fold:
  assumes "distinct order"
  shows "view n (fold (scan_one c t i) order s) = (if n \<in> set order then view n (scan_one c t i n s) else view n s)"
  using assms
proof (induction order arbitrary: s)
  case (Cons m order)
  show ?case
  proof (cases "m = n")
    case True
    then show ?thesis using Cons by simp
  next
    case False
    have "view n (scan_one c t i n (scan_one c t i m s)) = view n (scan_one c t i n s)"
      by (rule scan_one_local[OF scan_one_other scan_one_json]) (use False in simp)
    then show ?thesis using Cons False by (simp add: scan_one_other)
  qed
qed simp

lemma scan_view:
  assumes "distinct order"
  shows "n \<in> set order \<Longrightarrow> scanned n \<Longrightarrow> view n (scan c t i order s) = view n (scan_one c t i n s)"
    and "\<not> (n \<in> set order \<and> scanned n) \<Longrightarrow> view n (scan c t i order s) = (None, snd (view n s))"
proof -
  let ?F = "fold (scan_one c t i) order s"
  have F: "view n (scan c t i order s) = (if n \<in> set order \<and> scanned n then view n ?F else (None, snd (view n ?F)))"
    by (simp add: scan_def Let_def view_def delete_where_def split: option.split)
  note f = scan_fold[OF assms, of n c t i s]
  show "n \<in> set order \<Longrightarrow> scanned n \<Longrightarrow> view n (scan c t i order s) = view n (scan_one c t i n s)"
    using F f by simp
  show "\<not> (n \<in> set order \<and> scanned n) \<Longrightarrow> view n (scan c t i order s) = (None, snd (view n s))"
    using F f by (cases "n \<in> set order") (simp_all add: scan_one_not_scanned)
qed

section \<open>The invariant\<close>

text \<open>The quarantine file is the map in memory, every copy in the quarantine directory belongs to a
  quarantined tool and has the hash that was recorded, and the manifest file knows the hash of every
  tool in the manifest.\<close>

definition q_synced :: "guard \<Rightarrow> bool" where
  "q_synced s \<longleftrightarrow>
     (case g_quarantine_file s of None \<Rightarrow> g_quarantined s = Map.empty | Some m \<Rightarrow> m = g_quarantined s)"

definition copies_ok :: "guard_conf \<Rightarrow> guard \<Rightarrow> bool" where
  "copies_ok c s \<longleftrightarrow> (\<forall>n f. g_qdir s n = Some f \<longrightarrow>
     (\<exists>q. g_quarantined s n = Some q \<and> gc_hash c (tf_data f) = qt_new_hash q))"

definition m_synced :: "guard \<Rightarrow> bool" where
  "m_synced s \<longleftrightarrow> (\<forall>n e. g_manifest s n = Some e \<longrightarrow>
     (\<exists>m e'. g_manifest_file s = Some m \<and> m n = Some e' \<and> me_exe_hash e' = me_exe_hash e))"

definition guard_inv :: "guard_conf \<Rightarrow> guard \<Rightarrow> bool" where
  "guard_inv c s \<longleftrightarrow> q_synced s \<and> copies_ok c s \<and> m_synced s"

lemma m_synced_save: "m_synced (s\<lparr>g_manifest_file := Some (g_manifest s)\<rparr>)"
  by (simp add: m_synced_def)

lemma m_syncedI: "g_manifest_file s = Some (g_manifest s) \<Longrightarrow> m_synced s"
  by (simp add: m_synced_def)

lemma m_synced_same:
  "m_synced s \<Longrightarrow> g_manifest s' = g_manifest s \<Longrightarrow> g_manifest_file s' = g_manifest_file s \<Longrightarrow> m_synced s'"
  by (simp add: m_synced_def)

lemma q_synced_same:
  "q_synced s \<Longrightarrow> g_quarantined s' = g_quarantined s \<Longrightarrow> g_quarantine_file s' = g_quarantine_file s \<Longrightarrow> q_synced s'"
  by (auto simp: q_synced_def split: option.splits)

lemma copies_ok_same:
  "copies_ok c s \<Longrightarrow> g_quarantined s' = g_quarantined s \<Longrightarrow> g_qdir s' = g_qdir s \<Longrightarrow> copies_ok c s'"
  by (simp add: copies_ok_def)

lemma inv_same:
  "guard_inv c s \<Longrightarrow> g_quarantined s' = g_quarantined s \<Longrightarrow> g_quarantine_file s' = g_quarantine_file s \<Longrightarrow>
   g_qdir s' = g_qdir s \<Longrightarrow>
   g_manifest s' = g_manifest s \<and> g_manifest_file s' = g_manifest_file s \<or> g_manifest_file s' = Some (g_manifest s') \<Longrightarrow>
   guard_inv c s'"
  unfolding guard_inv_def by (blast intro: q_synced_same copies_ok_same m_synced_same m_syncedI)

lemma inv_touch:
  assumes "guard_inv c s" and "g_manifest s n = Some e" and "me_exe_hash e' = me_exe_hash e"
  shows "guard_inv c (s\<lparr>g_manifest := (g_manifest s)(n \<mapsto> e')\<rparr>)"
  using assms by (auto simp: guard_inv_def q_synced_def copies_ok_def m_synced_def split: option.splits)

lemma inv_forget:
  assumes "guard_inv c s" shows "guard_inv c (s\<lparr>g_manifest := delete_where P (g_manifest s)\<rparr>)"
  using assms by (auto simp: guard_inv_def q_synced_def copies_ok_def m_synced_def delete_where_Some split: option.splits)

lemma inv_quarantine:
  assumes "guard_inv c s" and "g_tools s n = Some f" and "g_quarantined s n = None"
  shows "guard_inv c (quarantine_tool c t n a (gc_hash c (tf_data f)) s)"
proof -
  let ?s = "quarantine_tool c t n a (gc_hash c (tf_data f)) s"
  have "m_synced ?s" using assms(1) unfolding guard_inv_def by (auto intro: m_synced_same)
  moreover have "q_synced ?s" by (simp add: q_synced_def)
  moreover have "\<exists>g. g_qdir ?s n = Some g \<and> tf_data g = tf_data f"
    using assms(2) by (simp add: quarantine_tool_def Let_def copy_file_def)
  then have "copies_ok c ?s" using assms(1) unfolding copies_ok_def guard_inv_def
    by (metis fun_upd_apply option.inject quarantine_sel(4) quarantine_sel(7) quarantined_tool.select_convs(3))
  ultimately show ?thesis by (simp add: guard_inv_def)
qed

lemma inv_scan_known:
  assumes inv: "guard_inv c s" and e: "g_manifest s n = Some e" and info: "g_tools s n = Some info"
  shows "guard_inv c (scan_known c t i n info e s)"
proof -
  have touch: "guard_inv c (s\<lparr>g_manifest := (g_manifest s)(n \<mapsto> touched t info e)\<rparr>)"
    by (rule inv_touch[OF inv e]) simp
  have restored: "guard_inv c (snd (restore c t n s))" by (rule inv_same[OF inv]) simp_all
  have accepted: "guard_inv c (accept_change c t n info h sh e s')" if "guard_inv c s'" for h sh s'
    by (rule inv_same[OF that]) simp_all
  have locked: "guard_inv c (lockdown_tool n s')" if "guard_inv c s'" for s'
    by (rule inv_same[OF that]) simp_all
  have logged: "guard_inv c (s\<lparr>g_log := l\<rparr>)" for l by (rule inv_same[OF inv]) simp_all
  have quarantined: "guard_inv c (quarantine_tool c t n a (gc_hash c (tf_data info)) (s\<lparr>g_log := l\<rparr>))"
    if "g_quarantined s n = None" for a l
    by (rule inv_quarantine[OF logged]) (use info that in simp_all)
  show ?thesis unfolding scan_known_def Let_def save_sel
    using inv touch restored accepted[OF inv] accepted[OF logged] locked[OF inv] locked[OF restored] quarantined
    by (simp split: option.split)
qed

lemma inv_scan_one:
  assumes inv: "guard_inv c s" shows "guard_inv c (scan_one c t i n s)"
proof -
  have "guard_inv c (register_new c t n info h sh s)" for info h sh by (rule inv_same[OF inv]) simp_all
  then show ?thesis unfolding scan_one_def
    using inv inv_scan_known[OF inv] by (simp split: option.split)
qed

lemma inv_scan:
  assumes "guard_inv c s" shows "guard_inv c (scan c t i order s)"
proof -
  have "guard_inv c (fold (scan_one c t i) order s)"
    using assms by (induction order arbitrary: s) (simp_all add: inv_scan_one)
  then show ?thesis by (simp add: scan_def Let_def inv_forget)
qed

lemma inv_verify: "guard_inv c s \<Longrightarrow> guard_inv c (snd (verify_tool c t n s))"
  by (auto simp: verify_tool_def intro: inv_same split: option.split)

lemma inv_drop_quarantine:
  assumes "guard_inv c s" and "g_qdir s n = None" shows "guard_inv c (drop_quarantine n s)"
  using assms by (auto simp: guard_inv_def drop_quarantine_def q_synced_def copies_ok_def m_synced_def)

text \<open>The two resolutions, as what they leave of the tool.\<close>

lemma approve_error: "fst (approve_modified c t n s) = Some e \<Longrightarrow> snd (approve_modified c t n s) = s"
  by (auto simp: approve_modified_def Let_def split: option.splits)

lemma approve_ok:
  assumes "g_quarantined s n = Some q" and "g_qdir s n = Some f"
  shows "fst (approve_modified c t n s) = None"
    and "g_quarantined (snd (approve_modified c t n s)) = (g_quarantined s)(n := None)"
    and "g_qdir (snd (approve_modified c t n s)) = (g_qdir s)(n := None)"
    and "\<exists>g. g_tools (snd (approve_modified c t n s)) n = Some g \<and> tf_data g = tf_data f"
    and "\<exists>e. g_manifest (snd (approve_modified c t n s)) n = Some e \<and> me_exe_hash e = qt_new_hash q"
    and "\<exists>b. g_backups (snd (approve_modified c t n s)) (prev_name n) = Some b \<and> tf_data b = tf_data f"
    and "g_manifest_file (snd (approve_modified c t n s)) = Some (g_manifest (snd (approve_modified c t n s)))"
    and "g_quarantine_file (snd (approve_modified c t n s)) = Some (g_quarantined (snd (approve_modified c t n s)))"
  using assms
  by (simp_all add: approve_modified_def copy_file_def Let_def drop_quarantine_def backup_def)

lemma approve_other: "m \<noteq> n \<Longrightarrow> view m (snd (approve_modified c t n s)) = view m s"
  by (auto simp: approve_modified_def copy_file_def Let_def drop_quarantine_def view_def split: option.split)

lemma inv_approve: "guard_inv c s \<Longrightarrow> guard_inv c (snd (approve_modified c t n s))"
proof -
  assume inv: "guard_inv c s"
  show ?thesis
  proof (cases "fst (approve_modified c t n s)")
    case (Some e)
    then show ?thesis using inv approve_error[of c t n s e] by simp
  next
    case None
    then obtain q f where q: "g_quarantined s n = Some q" "g_qdir s n = Some f"
      by (auto simp: approve_modified_def copy_file_def Let_def split: option.splits)
    show ?thesis using inv approve_ok[OF q, of c t]
      by (auto simp: guard_inv_def q_synced_def copies_ok_def intro: m_syncedI)
  qed
qed

lemma revert_ok:
  assumes "g_quarantined s n = Some q"
  shows "fst (revert_tool n s) = None"
    and "g_quarantined (snd (revert_tool n s)) = (g_quarantined s)(n := None)"
    and "g_qdir (snd (revert_tool n s)) = (g_qdir s)(n := None)"
    and "map_option tf_data (g_tools (snd (revert_tool n s)) n) = map_option tf_data (g_tools s n)"
    and "map_option me_exe_hash (g_manifest (snd (revert_tool n s)) n) = map_option me_exe_hash (g_manifest s n)"
    and "g_backups (snd (revert_tool n s)) = g_backups s"
    and "g_manifest_file (snd (revert_tool n s)) = g_manifest_file s"
    and "g_quarantine_file (snd (revert_tool n s)) = Some (g_quarantined (snd (revert_tool n s)))"
  using assms
  by (simp_all add: revert_tool_def Let_def drop_quarantine_def option.map_comp comp_def split: option.split)

lemma revert_other: "m \<noteq> n \<Longrightarrow> view m (snd (revert_tool n s)) = view m s"
  by (auto simp: revert_tool_def Let_def drop_quarantine_def view_def split: option.split)

lemma inv_revert:
  assumes "guard_inv c s" shows "guard_inv c (snd (revert_tool n s))"
proof (cases "g_quarantined s n")
  case (Some q)
  note r = revert_ok[OF Some]
  have "m_synced (snd (revert_tool n s))"
    unfolding m_synced_def
  proof safe
    fix m e assume e: "g_manifest (snd (revert_tool n s)) m = Some e"
    then obtain e0 where "g_manifest s m = Some e0" "me_exe_hash e0 = me_exe_hash e"
      using r(5) revert_other[of m n s]
      by (cases "m = n"; cases "g_manifest s m") (simp_all add: view_def)
    then show "\<exists>k e'. g_manifest_file (snd (revert_tool n s)) = Some k \<and> k m = Some e' \<and> me_exe_hash e' = me_exe_hash e"
      using assms unfolding r(7) guard_inv_def m_synced_def by metis
  qed
  then show ?thesis using assms r by (auto simp: guard_inv_def q_synced_def copies_ok_def)
qed (use assms in \<open>simp add: revert_tool_def\<close>)

lemma fold_lockdown_sel [simp]:
  "g_manifest (fold lockdown_tool ns s) = g_manifest s" "g_quarantined (fold lockdown_tool ns s) = g_quarantined s"
  "g_backups (fold lockdown_tool ns s) = g_backups s" "g_qdir (fold lockdown_tool ns s) = g_qdir s"
  "g_manifest_file (fold lockdown_tool ns s) = g_manifest_file s"
  "g_quarantine_file (fold lockdown_tool ns s) = g_quarantine_file s"
  by (induction ns arbitrary: s) simp_all

lemma fold_lockdown_data: "map_option tf_data (g_tools (fold lockdown_tool ns s) n) = map_option tf_data (g_tools s n)"
  by (induction ns arbitrary: s) (simp_all add: option.map_comp comp_def)

text \<open>A restart: the orders are those of the quarantine file's names and of the quarantine directory.\<close>

definition q_state :: "guard \<Rightarrow> string \<rightharpoonup> quarantined_tool" where
  "q_state s = (case g_quarantine_file s of None \<Rightarrow> Map.empty | Some m \<Rightarrow> m)"

lemma q_synced_iff: "q_synced s \<Longrightarrow> q_state s = g_quarantined s"
  by (auto simp: q_synced_def q_state_def split: option.splits)

lemma load_manifest_sel [simp]:
  "g_manifest (load_manifest s) = (case g_manifest_file s of None \<Rightarrow> g_manifest s | Some m \<Rightarrow> m)"
  "g_quarantined (load_manifest s) = g_quarantined s" "g_tools (load_manifest s) = g_tools s"
  "g_backups (load_manifest s) = g_backups s" "g_qdir (load_manifest s) = g_qdir s"
  "g_manifest_file (load_manifest s) = g_manifest_file s" "g_quarantine_file (load_manifest s) = g_quarantine_file s"
  by (simp_all add: load_manifest_def split: option.split)

lemma restart_sel:
  assumes "guard_inv c s" and "visits names (q_state s)" and "visits dirNames (g_qdir s)"
  defines "s' \<equiv> new_integrity_guard c names dirNames s"
  shows "g_quarantined s' = g_quarantined s" and "g_quarantine_file s' = g_quarantine_file s"
    and "g_qdir s' = g_qdir s" and "g_backups s' = g_backups s" and "g_manifest_file s' = g_manifest_file s"
    and "g_manifest s' = (case g_manifest_file s of None \<Rightarrow> Map.empty | Some m \<Rightarrow> m)"
    and "map_option tf_data (g_tools s' n) = map_option tf_data (g_tools s n)"
proof -
  let ?s0 = "load_manifest (s\<lparr>g_manifest := Map.empty, g_quarantined := Map.empty\<rparr>)"
  have q: "q_state s = g_quarantined s" using assms(1) by (simp add: guard_inv_def q_synced_iff)
  have "s' = (if names \<noteq> [] then fold lockdown_tool names (?s0\<lparr>g_quarantined := q_state s\<rparr>) else ?s0)"
  proof (cases "names = []")
    case True
    then have "g_quarantined s = Map.empty" using assms(2) q by (auto simp: visits_def)
    then have "dirNames = []" using assms(1,3)
      by (cases dirNames) (auto simp: visits_def guard_inv_def copies_ok_def)
    then show ?thesis using True unfolding s'_def new_integrity_guard_def restore_quarantine_state_def by simp
  next
    case False
    have "filter (\<lambda>n. q_state s n \<noteq> None) names = names"
      using assms(2) by (auto simp: visits_def filter_id_conv)
    then show ?thesis using False
      unfolding s'_def new_integrity_guard_def restore_quarantine_state_def q_state_def Let_def by simp
  qed
  moreover have "names = [] \<Longrightarrow> g_quarantined s = Map.empty" using assms(2) q by (auto simp: visits_def)
  ultimately show "g_quarantined s' = g_quarantined s" and "g_quarantine_file s' = g_quarantine_file s"
    and "g_qdir s' = g_qdir s" and "g_backups s' = g_backups s" and "g_manifest_file s' = g_manifest_file s"
    and "g_manifest s' = (case g_manifest_file s of None \<Rightarrow> Map.empty | Some m \<Rightarrow> m)"
    and "map_option tf_data (g_tools s' n) = map_option tf_data (g_tools s n)"
    using q by (simp_all add: fold_lockdown_data split: option.split)
qed

lemma inv_restart:
  assumes "guard_inv c s" and "visits names (q_state s)" and "visits dirNames (g_qdir s)"
  shows "guard_inv c (new_integrity_guard c names dirNames s)"
proof -
  note r = restart_sel[OF assms]
  have "m_synced (new_integrity_guard c names dirNames s)"
    unfolding m_synced_def r(5,6) by (auto split: option.splits)
  then show ?thesis using assms(1) r(1-3)
    unfolding guard_inv_def by (blast intro: q_synced_same copies_ok_same)
qed

section \<open>Histories\<close>

text \<open>What can happen: scans, checks before a run, resolutions by the user, any change of the tools
  directory by others, and a restart. An order that does not list the map it stands for is no
  operation.\<close>

datatype guard_op =
    OpScan guard_now bool "string list"
  | OpVerify guard_now string
  | OpApprove guard_now string
  | OpRevert string
  | OpTamper dir
  | OpRestart "string list" "string list"

fun guard_step :: "guard_conf \<Rightarrow> guard_op \<Rightarrow> guard \<Rightarrow> guard" where
  "guard_step c (OpScan t i order) s = (if visits order (g_tools s) then scan c t i order s else s)"
| "guard_step c (OpVerify t n) s = snd (verify_tool c t n s)"
| "guard_step c (OpApprove t n) s = snd (approve_modified c t n s)"
| "guard_step c (OpRevert n) s = snd (revert_tool n s)"
| "guard_step c (OpTamper d) s = s\<lparr>g_tools := d\<rparr>"
| "guard_step c (OpRestart names dirNames) s =
     (if visits names (q_state s) \<and> visits dirNames (g_qdir s) then new_integrity_guard c names dirNames s else s)"

abbreviation guard_run :: "guard_conf \<Rightarrow> dir \<Rightarrow> guard_op list \<Rightarrow> guard" where
  "guard_run c tools ops \<equiv> fold (guard_step c) ops (fresh_guard tools)"

lemma inv_guard_step: "guard_inv c s \<Longrightarrow> guard_inv c (guard_step c op s)"
  by (cases op) (auto simp: inv_scan inv_verify inv_approve inv_revert inv_restart intro: inv_same)

interpretation ig: op_machine "fresh_guard tools" "guard_step c" "guard_inv c" for tools c
proof
  show "guard_inv c (fresh_guard tools)"
    by (simp add: guard_inv_def q_synced_def copies_ok_def m_synced_def fresh_guard_def)
qed (rule inv_guard_step)

section \<open>A quarantine holds\<close>

fun resolves :: "string \<Rightarrow> guard_op \<Rightarrow> bool" where
  "resolves n (OpApprove t m) = (m = n)"
| "resolves n (OpRevert m) = (m = n)"
| "resolves n _ = False"

lemma scan_keeps_quarantine:
  assumes "g_quarantined s n = Some q" and "distinct order"
  shows "g_quarantined (scan c t i order s) n = Some q"
proof -
  have "g_quarantined (scan_one c t i n s) n = Some q"
    using assms(1) by (simp add: scan_one_def scan_known_def Let_def split: option.split)
  then show ?thesis
    using assms scan_view[OF assms(2), of n c t i s]
    by (cases "n \<in> set order \<and> scanned n") (auto simp: view_def)
qed

lemma step_keeps_quarantine:
  assumes "guard_inv c s" and "g_quarantined s n = Some q" and "\<not> resolves n op"
  shows "g_quarantined (guard_step c op s) n = Some q"
proof (cases op)
  case (OpApprove t m)
  then show ?thesis using assms approve_other[of n m c t s] by (simp add: view_def)
next
  case (OpRevert m)
  then show ?thesis using assms revert_other[of n m s] by (simp add: view_def)
next
  case (OpRestart names dirNames)
  then show ?thesis using assms by (simp add: restart_sel(1))
next
  case (OpVerify t m)
  then show ?thesis using assms by (simp add: verify_tool_def split: option.split)
qed (use assms in \<open>simp_all add: scan_keeps_quarantine visits_def\<close>)

lemma run_keeps_quarantine:
  "guard_inv c s \<Longrightarrow> g_quarantined s n = Some q \<Longrightarrow> \<forall>op \<in> set ops. \<not> resolves n op \<Longrightarrow>
   g_quarantined (fold (guard_step c) ops s) n = Some q"
  by (induction ops arbitrary: s) (simp_all add: inv_guard_step step_keeps_quarantine)

text \<open>C16. A quarantine holds until the user resolves it: once a tool is quarantined, no sequence of scans,
  changes of the tools directory by anyone, checks, resolutions of other tools and restarts of the
  daemon lifts it or changes its record, and all the while the tool is refused.\<close>

theorem quarantine_until_resolved:
  assumes "g_quarantined (guard_run c tools past) n = Some q"
    and "\<forall>op \<in> set later. \<not> resolves n op"
  shows "let s = guard_run c tools (past @ later) in
    g_quarantined s n = Some q \<and> verify_tool c t n s = (Some errToolQuarantined, s) \<and>
    check_tool n s = Some errToolQuarantined"
proof -
  have "g_quarantined (guard_run c tools (past @ later)) n = Some q"
    using run_keeps_quarantine[OF ig.run_inv assms] by simp
  then show ?thesis by (simp add: verify_tool_def check_tool_def)
qed

section \<open>What Verify lets through\<close>

definition dangerous :: "guard_conf \<Rightarrow> string \<Rightarrow> bool" where
  "dangerous c d = list_ex (\<lambda>r. str_contains (to_lower d) (to_lower (sr_pattern r))) (gc_rules c)"

lemma audit_dangerous: "audit_tool_source c (Some f) n = [] \<longleftrightarrow> \<not> dangerous c (tf_data f)"
  by (auto simp: audit_tool_source_def dangerous_def filter_empty_conv list_ex_iff)

lemma verify_iff:
  "(fst (verify_tool c t n s) = None) =
     (g_quarantined s n = None \<and>
      (case g_tools s n of None \<Rightarrow> False
       | Some f \<Rightarrow> (case g_manifest s n of None \<Rightarrow> \<not> dangerous c (tf_data f)
                    | Some e \<Rightarrow> gc_hash c (tf_data f) = me_exe_hash e))) \<and>
   (case verify_tool c t n s of
      (None, s') \<Rightarrow> map_option me_exe_hash (g_manifest s' n) = hash_file c (g_tools s n) \<and>
                    s'\<lparr>g_manifest := g_manifest s, g_manifest_file := g_manifest_file s\<rparr> = s
    | (Some _, s') \<Rightarrow> s' = s)"
proof (cases "g_tools s n")
  case None
  then show ?thesis
    by (simp add: verify_tool_def hash_file_def audit_tool_source_def split: option.split)
next
  case (Some f)
  then show ?thesis
    by (auto simp: verify_tool_def hash_file_def audit_dangerous split: option.split)
qed

text \<open>C17. What may run: \<open>Verify\<close> accepts a tool if and only if it is not quarantined, its file exists, and
  the file has the approved hash or, for a tool the guard does not know yet, no dangerous pattern.
  After an acceptance the approved hash is that of the file, and no file was touched but the
  manifest; a refusal changes nothing.\<close>

theorem verify_exact:
  "(fst (verify_tool c t n s) = None) =
     (g_quarantined s n = None \<and>
      (case g_tools s n of None \<Rightarrow> False
       | Some f \<Rightarrow> (case g_manifest s n of None \<Rightarrow> \<not> dangerous c (tf_data f)
                    | Some e \<Rightarrow> gc_hash c (tf_data f) = me_exe_hash e))) \<and>
   (case verify_tool c t n s of
      (None, s') \<Rightarrow> map_option me_exe_hash (g_manifest s' n) = hash_file c (g_tools s n) \<and>
                    s'\<lparr>g_manifest := g_manifest s, g_manifest_file := g_manifest_file s\<rparr> = s
    | (Some _, s') \<Rightarrow> s' = s)"
  by (rule verify_iff)

section \<open>Dangerous changes\<close>

text \<open>The backup of a tracked tool is a version with the approved hash.\<close>

definition backed :: "guard_conf \<Rightarrow> string \<Rightarrow> guard \<Rightarrow> bool" where
  "backed c n s \<longleftrightarrow> (\<exists>e b. g_manifest s n = Some e \<and> g_backups s (prev_name n) = Some b \<and>
     gc_hash c (tf_data b) = me_exe_hash e)"

text \<open>A change the scan notices.\<close>

definition noticed :: "tool_file \<Rightarrow> manifest_entry \<Rightarrow> bool" where
  "noticed f e \<longleftrightarrow> tf_mode f AND modeExec \<noteq> 0 \<and> \<not> (me_size e = int (length (tf_data f)) \<and> me_mod_time e = tf_mtime f)"

lemma scan_quarantines:
  assumes "g_quarantined s n = None" and "scanned n" and "g_tools s n = Some f" and "g_manifest s n = Some e"
    and "noticed f e" and "me_exe_hash e \<noteq> gc_hash c (tf_data f)" and "dangerous c (tf_data f)"
    and "visits order (g_tools s)"
  shows "view n (scan c t False order s) =
    view n (quarantine_tool c t n (me_exe_hash e) (gc_hash c (tf_data f)) s)"
proof -
  have o: "n \<in> set order" "distinct order" using assms(3,8) by (auto simp: visits_def)
  have "scan_one c t False n s =
      quarantine_tool c t n (me_exe_hash e) (gc_hash c (tf_data f)) (log_change t n (me_exe_hash e) (gc_hash c (tf_data f)) s)"
    using assms(1-7) by (auto simp: scan_one_def scan_known_def noticed_def audit_dangerous Let_def simp del: save_sel)
  then have "view n (scan c t False order s) =
      view n (quarantine_tool c t n (me_exe_hash e) (gc_hash c (tf_data f)) (log_change t n (me_exe_hash e) (gc_hash c (tf_data f)) s))"
    using scan_view(1)[OF o(2) o(1) assms(2)] by simp
  also have "\<dots> = view n (quarantine_tool c t n (me_exe_hash e) (gc_hash c (tf_data f)) s)"
    by (rule quarantine_view) (simp add: view_log)
  finally show ?thesis .
qed

lemma quarantined_tool_view:
  assumes "g_tools s n = Some f" and "g_backups s (prev_name n) = Some b"
  shows "\<exists>g h. view n (quarantine_tool c t n a k s) =
      (g_manifest s n, Some \<lparr>qt_name = n, qt_old_hash = a, qt_new_hash = k\<rparr>, Some g, Some h, Some b) \<and>
      tf_data g = tf_data b \<and> tf_mode g = modeLocked \<and> tf_data h = tf_data f"
  using assms
  by (simp add: view_def quarantine_tool_def restore_def copy_file_def Let_def)

text \<open>C22. A dangerous change of an approved tool is undone, and the user can have either version. When a scan
  finds that an executable tool with a backup has changed and now matches a dangerous pattern, the
  tool is quarantined under its old and new hash and its file has the approved content again, not
  executable; approving then installs exactly the changed content, reverting leaves the approved one,
  and after either the tool runs.\<close>

theorem dangerous_change_undone:
  assumes "backed c n s" and "g_quarantined s n = None" and "scanned n" and "g_tools s n = Some f"
    and "g_manifest s n = Some e" and "noticed f e" and "me_exe_hash e \<noteq> gc_hash c (tf_data f)"
    and "dangerous c (tf_data f)" and "visits order (g_tools s)"
  shows "let s' = scan c t False order s; yes = approve_modified c t' n s'; no = revert_tool n s' in
    g_quarantined s' n = Some \<lparr>qt_name = n, qt_old_hash = me_exe_hash e, qt_new_hash = gc_hash c (tf_data f)\<rparr> \<and>
    (\<exists>g. g_tools s' n = Some g \<and> gc_hash c (tf_data g) = me_exe_hash e \<and> tf_mode g = modeLocked) \<and>
    map_option tf_data (g_tools (snd yes) n) = Some (tf_data f) \<and> fst (verify_tool c t'' n (snd yes)) = None \<and>
    map_option tf_data (g_tools (snd no) n) = map_option tf_data (g_backups s (prev_name n)) \<and>
    fst (verify_tool c t'' n (snd no)) = None"
proof -
  obtain b where b: "g_backups s (prev_name n) = Some b" "gc_hash c (tf_data b) = me_exe_hash e"
    using assms(1,5) by (auto simp: backed_def)
  let ?q = "\<lparr>qt_name = n, qt_old_hash = me_exe_hash e, qt_new_hash = gc_hash c (tf_data f)\<rparr>"
  obtain s' g h where s': "s' = scan c t False order s" "g_manifest s' n = Some e" "g_quarantined s' n = Some ?q"
      "g_tools s' n = Some g" "g_qdir s' n = Some h"
    and data: "tf_data g = tf_data b" "tf_mode g = modeLocked" "tf_data h = tf_data f"
    using quarantined_tool_view[OF assms(4) b(1), of c t "me_exe_hash e" "gc_hash c (tf_data f)"]
      scan_quarantines[OF assms(2-9), of t] assms(5) by (auto simp: view_def)
  note yes = approve_ok[OF s'(3,5), of c t'] and no = revert_ok[OF s'(3)]
  have "map_option tf_data (g_tools (snd (approve_modified c t' n s')) n) = Some (tf_data f)" using yes(4) data(3) by auto
  moreover have "fst (verify_tool c t'' n (snd (approve_modified c t' n s'))) = None"
    using yes(2,4,5) data(3) by (auto simp: verify_iff[THEN conjunct1])
  moreover have "map_option tf_data (g_tools (snd (revert_tool n s')) n) = map_option tf_data (g_backups s (prev_name n))"
    using no(4) s'(4) b data by simp
  moreover have "fst (verify_tool c t'' n (snd (revert_tool n s'))) = None"
    using no(2,4,5) s'(2,4) b data by (auto simp: verify_iff[THEN conjunct1])
  ultimately show ?thesis using s' data b(2) unfolding Let_def by auto
qed

section \<open>The backup keeps up\<close>

lemma backed_view: "view n s = view n s' \<Longrightarrow> backed c n s = backed c n s'"
  by (simp add: view_def backed_def)

lemma backed_same_hash:
  "backed c n s \<Longrightarrow> map_option me_exe_hash (g_manifest s' n) = map_option me_exe_hash (g_manifest s n) \<Longrightarrow>
   g_backups s' (prev_name n) = g_backups s (prev_name n) \<Longrightarrow> backed c n s'"
  by (auto simp: backed_def)

lemma backed_scan_known:
  assumes b: "backed c n s" and "g_tools s n = Some info" and "g_manifest s n = Some e"
  shows "backed c n (scan_known c t i n info e s)"
proof -
  have accepted: "backed c n (accept_change c t n info (gc_hash c (tf_data info)) sh e s')"
    if "g_tools s' n = Some info" for s' sh
    using accept_change_entry[of c t n info "gc_hash c (tf_data info)" sh e s']
      accept_change_backup[OF that, of c t info "gc_hash c (tf_data info)" sh e]
    by (auto simp: backed_def)
  have same: "backed c n s'" if "g_manifest s' = g_manifest s" "g_backups s' = g_backups s" for s'
    by (rule backed_same_hash[OF b]) (simp_all add: that)
  have touch: "backed c n (s\<lparr>g_manifest := (g_manifest s)(n \<mapsto> touched t info e)\<rparr>)"
    by (rule backed_same_hash[OF b]) (simp_all add: assms(3))
  show ?thesis unfolding scan_known_def Let_def
    using b accepted assms(2) touch by (auto intro!: same split: option.split)
qed

lemma backed_scan:
  assumes "distinct order" and "g_manifest (scan c t i order s) n \<noteq> None"
    and "backed c n s \<or> g_manifest s n = None \<and> (\<exists>f. g_tools s n = Some f \<and> (tf_mode f AND modeExec \<noteq> 0 \<or> g_quarantined s n \<noteq> None))"
  shows "backed c n (scan c t i order s)"
proof -
  have sc: "n \<in> set order \<and> scanned n"
  proof (rule ccontr)
    assume "\<not> (n \<in> set order \<and> scanned n)"
    from scan_view(2)[OF assms(1) this, of c t i s] assms(2) show False by (simp add: view_def)
  qed
  have "backed c n (scan_one c t i n s)"
  proof (cases "g_manifest s n")
    case None
    then obtain f where f: "g_tools s n = Some f" "tf_mode f AND modeExec \<noteq> 0 \<or> g_quarantined s n \<noteq> None"
      using assms(3) by (auto simp: backed_def)
    have "backed c n (register_new c t n f (gc_hash c (tf_data f)) sh s)" for sh
      using register_new_entry[of c t n f "gc_hash c (tf_data f)" sh s]
        register_new_backup[OF f(1), of c t f "gc_hash c (tf_data f)" sh]
      by (auto simp: backed_def)
    then show ?thesis using None f sc by (auto simp: scan_one_def)
  next
    case (Some e)
    then have "backed c n s" using assms(3) by simp
    then show ?thesis using Some backed_scan_known by (auto simp: scan_one_def split: option.split)
  qed
  then show ?thesis using scan_view(1)[OF assms(1), of n c t i s] sc backed_view by blast
qed

lemma backed_step:
  assumes inv: "guard_inv c s" and b: "backed c n s" and m: "g_manifest (guard_step c op s) n \<noteq> None"
  shows "backed c n (guard_step c op s)"
proof (cases op)
  case (OpScan t i order)
  then show ?thesis using b m backed_scan[of order c t i s n] by (auto simp: visits_def)
next
  case (OpVerify t k)
  have "g_manifest (snd (verify_tool c t k s)) n = g_manifest s n"
    using b by (auto simp: verify_tool_def backed_def split: option.split)
  moreover have "g_backups (snd (verify_tool c t k s)) = g_backups s"
    by (simp add: verify_tool_def split: option.split)
  ultimately show ?thesis using OpVerify backed_same_hash[OF b] by simp
next
  case (OpApprove t k)
  show ?thesis
  proof (cases "k = n \<and> fst (approve_modified c t n s) = None")
    case True
    then obtain q f where q: "g_quarantined s n = Some q" "g_qdir s n = Some f"
      by (auto simp: approve_modified_def copy_file_def Let_def split: option.splits)
    have "gc_hash c (tf_data f) = qt_new_hash q" using inv q unfolding guard_inv_def copies_ok_def by fastforce
    then show ?thesis using approve_ok(5,6)[OF q, of c t] OpApprove True by (auto simp: backed_def)
  next
    case False
    then have "view n (snd (approve_modified c t k s)) = view n s"
      using approve_other[of n k c t s] approve_error[of c t n s] by (cases "k = n") auto
    then show ?thesis using OpApprove b backed_view by (metis guard_step.simps(3))
  qed
next
  case (OpRevert k)
  show ?thesis
  proof (cases "k = n \<and> g_quarantined s n \<noteq> None")
    case True
    then show ?thesis using OpRevert revert_ok(5,6) backed_same_hash[OF b] by (auto simp: revert_ok)
  next
    case False
    then have "view n (snd (revert_tool k s)) = view n s"
      using revert_other[of n k s] by (cases "k = n") (auto simp: revert_tool_def)
    then show ?thesis using OpRevert b backed_view by (metis guard_step.simps(4))
  qed
next
  case (OpTamper d)
  then show ?thesis using b by (simp add: backed_def)
next
  case (OpRestart names dirNames)
  obtain e where "g_manifest s n = Some e" using b by (auto simp: backed_def)
  then obtain k e' where "g_manifest_file s = Some k" "k n = Some e'" "me_exe_hash e' = me_exe_hash e"
    using inv unfolding guard_inv_def m_synced_def by blast
  then show ?thesis using OpRestart b inv \<open>g_manifest s n = Some e\<close>
    by (auto simp: restart_sel(4,6) intro!: backed_same_hash[OF b])
qed

text \<open>A tool that a scan registered has a backup of its approved content for as long as it stays in the
  manifest: whatever scans, checks, resolutions, tampering and restarts follow, as long as no scan
  misses it, its backup has the approved hash, so a dangerous change of it can be undone.\<close>

theorem registered_tools_stay_backed:
  assumes "g_manifest (guard_run c tools past) n = None" and "g_tools (guard_run c tools past) n = Some f"
    and "tf_mode f AND modeExec \<noteq> 0" and "visits order (g_tools (guard_run c tools past))"
    and "\<forall>k \<le> length later. g_manifest (guard_run c tools (past @ OpScan t i order # take k later)) n \<noteq> None"
  shows "backed c n (guard_run c tools (past @ OpScan t i order # later))"
proof -
  let ?s = "guard_run c tools (past @ [OpScan t i order])"
  have start: "backed c n ?s"
    using assms(1-4) spec[OF assms(5), of 0] backed_scan[of order c t i "guard_run c tools past" n]
    by (auto simp: visits_def)
  have "guard_inv c s \<Longrightarrow> backed c n s \<Longrightarrow> \<forall>k \<le> length ops. g_manifest (fold (guard_step c) (take k ops) s) n \<noteq> None \<Longrightarrow>
    backed c n (fold (guard_step c) ops s)" for ops s
  proof (induction ops arbitrary: s)
    case (Cons op ops)
    have now: "backed c n (guard_step c op s)"
      using backed_step[OF Cons.prems(1,2)] spec[OF Cons.prems(3), of 1] by simp
    have rest: "g_manifest (fold (guard_step c) (take k ops) (guard_step c op s)) n \<noteq> None" if "k \<le> length ops" for k
      using spec[OF Cons.prems(3), of "Suc k"] that by simp
    show ?case using Cons.IH[OF inv_guard_step[OF Cons.prems(1)] now] rest by simp
  qed simp
  from this[OF ig.run_inv start] assms(5) show ?thesis by simp
qed

section \<open>Where the guard fails\<close>

text \<open>New tools are not audited by the scan: a new tool with a dangerous pattern is refused as long as no
  scan has seen it, and accepted once one has, because registering a new tool asks only for its hash.\<close>

theorem scan_registers_unaudited:
  assumes "g_manifest s n = None" and "g_quarantined s n = None" and "g_tools s n = Some f" and "scanned n"
    and "tf_mode f AND modeExec \<noteq> 0" and "dangerous c (tf_data f)" and "visits order (g_tools s)"
  shows "fst (verify_tool c t n s) \<noteq> None \<and> fst (verify_tool c t n (scan c t i order s)) = None"
proof -
  have o: "n \<in> set order" "distinct order" using assms(3,7) by (auto simp: visits_def)
  have "scan_one c t i n s = register_new c t n f (gc_hash c (tf_data f)) (hash_schema c n s) s"
    using assms by (simp add: scan_one_def)
  then have v: "view n (scan c t i order s) = view n (register_new c t n f (gc_hash c (tf_data f)) (hash_schema c n s) s)"
    using scan_view(1)[OF o(2) o(1) assms(4)] by simp
  obtain e where "g_manifest (register_new c t n f (gc_hash c (tf_data f)) (hash_schema c n s) s) n = Some e"
    "me_exe_hash e = gc_hash c (tf_data f)" using register_new_entry by blast
  then show ?thesis using v assms by (simp add: view_def verify_iff[THEN conjunct1])
qed

text \<open>The way out of a quarantine: if the file of a quarantined tool is removed and a scan runs, the tool is
  forgotten; if any file is then put in its place and a scan runs, that file is registered as the
  approved version and overwrites the backup. When the user now reverts, to keep the original, the
  planted file is what is installed and what runs.\<close>

theorem revert_runs_planted_file:
  assumes "g_quarantined s n = Some q" and "scanned n"
    and "visits order1 ((g_tools s)(n := None))" and "visits order2 ((g_tools s)(n \<mapsto> f))"
  shows "let s1 = scan c t False order1 (s\<lparr>g_tools := (g_tools s)(n := None)\<rparr>);
             s2 = scan c t' False order2 (s1\<lparr>g_tools := (g_tools s)(n \<mapsto> f)\<rparr>);
             r = revert_tool n s2
         in fst r = None \<and> map_option tf_data (g_tools (snd r) n) = Some (tf_data f) \<and>
            fst (verify_tool c t'' n (snd r)) = None"
proof -
  define s1 where "s1 = scan c t False order1 (s\<lparr>g_tools := (g_tools s)(n := None)\<rparr>)"
  define s2 where "s2 = scan c t' False order2 (s1\<lparr>g_tools := (g_tools s)(n \<mapsto> f)\<rparr>)"
  have o: "n \<notin> set order1" "distinct order1" "n \<in> set order2" "distinct order2"
    using assms(3,4) by (auto simp: visits_def)
  have v1: "g_manifest s1 n = None" "g_quarantined s1 n = Some q"
    using scan_view(2)[OF o(2), of n c t False "s\<lparr>g_tools := (g_tools s)(n := None)\<rparr>"] o(1) assms(1)
    unfolding s1_def by (simp_all add: view_def)
  let ?s = "s1\<lparr>g_tools := (g_tools s)(n \<mapsto> f)\<rparr>"
  have "scan_one c t' False n ?s = register_new c t' n f (gc_hash c (tf_data f)) (hash_schema c n ?s) ?s"
    using assms(2) v1 by (simp add: scan_one_def)
  then have v2: "view n s2 = view n (register_new c t' n f (gc_hash c (tf_data f)) (hash_schema c n ?s) ?s)"
    unfolding s2_def using scan_view(1)[OF o(4,3) assms(2)] by simp
  have q2: "g_quarantined s2 n = Some q" "g_tools s2 n = Some f"
    using v2 v1 by (simp_all add: view_def)
  have m2: "map_option me_exe_hash (g_manifest s2 n) = Some (gc_hash c (tf_data f))"
    using v2 register_new_entry[of c t' n f "gc_hash c (tf_data f)" "hash_schema c n ?s" ?s] by (auto simp: view_def)
  note r = revert_ok[OF q2(1)]
  have "fst (verify_tool c t'' n (snd (revert_tool n s2))) = None"
    using r(2,4,5) q2 m2 by (auto simp: verify_iff[THEN conjunct1] split: option.split)
  then show ?thesis unfolding Let_def s1_def[symmetric] s2_def[symmetric] using r(1,4) q2 by simp
qed

text \<open>A tool that is used before a scan has seen it has no backup: \<open>Verify\<close> registers it without one, and
  the scans that follow find its hash in the manifest and make none either. When it is then changed
  dangerously, the restore removes the file and has nothing to put in its place, and reverting does
  not bring the original back: it is lost.\<close>

theorem checked_first_loses_original:
  assumes "g_manifest s n = None" and "g_quarantined s n = None" and "g_backups s (prev_name n) = None"
    and "scanned n" and "g_tools s n = Some f" and "g_tools s (n @ ''.json'') = None"
    and "tf_mode f AND modeExec \<noteq> 0" and "\<not> dangerous c (tf_data f)"
    and "tf_mode f' AND modeExec \<noteq> 0" and "dangerous c (tf_data f')"
    and "gc_hash c (tf_data f) \<noteq> gc_hash c (tf_data f')" and "tf_mtime f \<noteq> tf_mtime f'"
    and "visits order (g_tools s)"
  shows "let v = verify_tool c t0 n s; s2 = scan c t1 False order (snd v);
             s3 = scan c t2 False order (s2\<lparr>g_tools := (g_tools s)(n \<mapsto> f')\<rparr>); r = revert_tool n s3
         in fst v = None \<and> g_tools s3 n = None \<and> fst r = None \<and> g_tools (snd r) n = None"
proof -
  have o: "n \<in> set order" "distinct order" using assms(5,13) by (auto simp: visits_def)
  define s1 where "s1 = snd (verify_tool c t0 n s)"
  define s2 where "s2 = scan c t1 False order s1"
  obtain e1 where v: "fst (verify_tool c t0 n s) = None" "view n s1 = (Some e1, None, Some f, g_qdir s n, None)"
      "g_tools s1 = g_tools s" "me_exe_hash e1 = gc_hash c (tf_data f)" "me_schema_hash e1 = []"
    using assms(1-8)
    by (simp add: s1_def verify_tool_def audit_dangerous hash_file_def view_def zero_entry_def)
  have sel1: "g_manifest s1 n = Some e1" "g_quarantined s1 n = None" "g_tools s1 n = Some f"
    "hash_schema c n s1 = []" using v assms(6) by (simp_all add: view_def hash_schema_def hash_file_def)
  have "\<exists>e2. view n (scan_one c t1 False n s1) = (Some e2, None, Some f, g_qdir s n, None) \<and>
      me_exe_hash e2 = gc_hash c (tf_data f) \<and> me_mod_time e2 = tf_mtime f"
    using v sel1 assms(4,7)
    by (auto simp: scan_one_def scan_known_def Let_def view_def touched_def)
  then obtain e2 where e2: "view n s2 = (Some e2, None, Some f, g_qdir s n, None)"
      "me_exe_hash e2 = gc_hash c (tf_data f)" "me_mod_time e2 = tf_mtime f"
    using scan_view(1)[OF o(2) o(1) assms(4)] unfolding s2_def by metis
  let ?s = "s2\<lparr>g_tools := (g_tools s)(n \<mapsto> f')\<rparr>"
  have "view n (scan c t2 False order ?s) = view n (quarantine_tool c t2 n (me_exe_hash e2) (gc_hash c (tf_data f')) ?s)"
    by (rule scan_quarantines)
       (use assms(4,5,9-13) e2 in \<open>auto simp: view_def noticed_def visits_def\<close>)
  then have "view n (scan c t2 False order ?s) = (Some e2,
      Some \<lparr>qt_name = n, qt_old_hash = me_exe_hash e2, qt_new_hash = gc_hash c (tf_data f')\<rparr>, None,
      g_qdir (quarantine_tool c t2 n (me_exe_hash e2) (gc_hash c (tf_data f')) ?s) n, None)"
    using e2(1) by (simp add: view_def quarantine_tool_def restore_def copy_file_def Let_def)
  then have s3: "g_tools (scan c t2 False order ?s) n = None"
    "g_quarantined (scan c t2 False order ?s) n =
       Some \<lparr>qt_name = n, qt_old_hash = me_exe_hash e2, qt_new_hash = gc_hash c (tf_data f')\<rparr>"
    by (simp_all add: view_def)
  show ?thesis unfolding Let_def s1_def[symmetric] s2_def[symmetric]
    using v(1) s3(1) revert_ok(1,4)[OF s3(2)] by simp
qed

section \<open>Examples\<close>

text \<open>A guard whose hash is the content itself, with one rule.\<close>

definition example_conf :: guard_conf where
  "example_conf = \<lparr>gc_hash = (\<lambda>d. d),
     gc_rules = [\<lparr>sr_id = ''R1'', sr_category = ''exec'', sr_pattern = ''x'', sr_severity = ''high'', sr_cwe = [],
                  sr_reason = []\<rparr>], gc_umask = 0\<rparr>"

definition script :: "string \<Rightarrow> int \<Rightarrow> tool_file" where
  "script d m = \<lparr>tf_data = d, tf_mode = modeTool, tf_uid = uidAlf, tf_gid = gidAlf, tf_mtime = m\<rparr>"

definition example_now :: guard_now where "example_now = \<lparr>gn_now = ''now'', gn_mtime = 9\<rparr>"

lemma example_sel [simp]:
  "tf_data (script d m) = d" "tf_mtime (script d m) = m" "tf_mode (script d m) AND modeExec \<noteq> 0"
  "gc_hash example_conf d = d" "dangerous example_conf ''x''" "\<not> dangerous example_conf ''a''"
  "scanned ''t''"
  by (simp_all add: script_def modeTool_def modeExec_def example_conf_def dangerous_def str_contains_def
      to_lower_def lower_char_def scanned_def has_suffix_def suffix_Cons sublist_Cons_right)

lemma visits_example [simp]: "visits [''t''] [''t'' \<mapsto> f]"
  by (simp add: visits_def)

definition example_guard :: guard where
  "example_guard = register_new example_conf example_now ''t'' (script ''a'' 1) ''a'' []
     (fresh_guard [''t'' \<mapsto> script ''a'' 1])"

lemma example_guard_sel:
  "g_tools example_guard = [''t'' \<mapsto> script ''a'' 1]" "g_quarantined example_guard = Map.empty"
  "\<exists>e. g_manifest example_guard ''t'' = Some e \<and> me_exe_hash e = ''a'' \<and> me_mod_time e = 1"
  "backed example_conf ''t'' example_guard"
  "\<exists>b. g_backups example_guard ''t.prev'' = Some b \<and> tf_data b = ''a''"
  by (auto simp: example_guard_def register_new_def fresh_guard_def backed_def backup_def copy_file_def)

theorem dangerous_change_undone_witness:
  "let s' = scan example_conf example_now False [''t''] (example_guard\<lparr>g_tools := [''t'' \<mapsto> script ''x'' 2]\<rparr>) in
   g_quarantined s' ''t'' = Some \<lparr>qt_name = ''t'', qt_old_hash = ''a'', qt_new_hash = ''x''\<rparr> \<and>
   map_option tf_data (g_tools (snd (revert_tool ''t'' s')) ''t'') = Some ''a''"
proof -
  let ?s = "example_guard\<lparr>g_tools := [''t'' \<mapsto> script ''x'' 2]\<rparr>"
  obtain e b where e: "g_manifest example_guard ''t'' = Some e" "me_exe_hash e = ''a''" "me_mod_time e = 1"
    and b: "g_backups example_guard ''t.prev'' = Some b" "tf_data b = ''a''"
    using example_guard_sel(3,5) by blast
  have 1: "backed example_conf ''t'' ?s" using example_guard_sel(4) by (simp add: backed_def)
  have 2: "g_quarantined ?s ''t'' = None" "g_tools ?s ''t'' = Some (script ''x'' 2)" "g_manifest ?s ''t'' = Some e"
    using example_guard_sel(2) e by simp_all
  have 3: "noticed (script ''x'' 2) e" using e by (simp add: noticed_def)
  show ?thesis
    using dangerous_change_undone[OF 1 2(1) _ 2(2,3) 3, where order = "[''t'']" and t = example_now] e b
    by (simp add: Let_def)
qed

theorem quarantine_until_resolved_witness:
  "g_quarantined (guard_run example_conf [''t'' \<mapsto> script ''a'' 1]
     ([OpScan example_now False [''t''], OpTamper [''t'' \<mapsto> script ''x'' 2], OpScan example_now False [''t'']] @
      [OpTamper Map.empty, OpRestart [''t''] [''t'']])) ''t'' =
   Some \<lparr>qt_name = ''t'', qt_old_hash = ''a'', qt_new_hash = ''x''\<rparr>"
proof -
  let ?r = "\<lambda>ops. guard_run example_conf [''t'' \<mapsto> script ''a'' 1] ops"
  let ?s = "?r [OpScan example_now False [''t'']]"
  have v: "view ''t'' ?s = view ''t'' example_guard"
    using scan_view(1)[of "[''t'']" "''t''" example_conf example_now False "fresh_guard [''t'' \<mapsto> script ''a'' 1]"]
    by (simp add: scan_one_def fresh_guard_def example_guard_def hash_schema_def hash_file_def)
  obtain e where e: "g_manifest example_guard ''t'' = Some e" "me_exe_hash e = ''a''" "me_mod_time e = 1"
    using example_guard_sel(3) by blast
  let ?t = "guard_step example_conf (OpTamper [''t'' \<mapsto> script ''x'' 2]) ?s"
  have 1: "g_quarantined ?t ''t'' = None" "g_tools ?t ''t'' = Some (script ''x'' 2)" "g_manifest ?t ''t'' = Some e"
    using v e(1) example_guard_sel(2) by (simp_all add: view_def)
  have 2: "noticed (script ''x'' 2) e" using e by (simp add: noticed_def)
  have "view ''t'' (scan example_conf example_now False [''t''] ?t) =
      view ''t'' (quarantine_tool example_conf example_now ''t'' ''a'' ''x'' ?t)"
    using scan_quarantines[OF 1(1) _ 1(2,3) 2, where order = "[''t'']" and t = example_now] e by simp
  then have "g_quarantined (?r ([OpScan example_now False [''t''], OpTamper [''t'' \<mapsto> script ''x'' 2],
      OpScan example_now False [''t'']])) ''t'' = Some \<lparr>qt_name = ''t'', qt_old_hash = ''a'', qt_new_hash = ''x''\<rparr>"
    by (simp add: view_def)
  from quarantine_until_resolved[OF this, of "[OpTamper Map.empty, OpRestart [''t''] [''t'']]"]
  show ?thesis by (simp add: Let_def)
qed

theorem registered_tools_stay_backed_witness:
  "backed example_conf ''t'' (guard_run example_conf [''t'' \<mapsto> script ''a'' 1] ([] @ OpScan example_now False [''t''] # []))"
proof (rule registered_tools_stay_backed[where f = "script ''a'' 1"])
  have "g_manifest (scan example_conf example_now False [''t''] (fresh_guard [''t'' \<mapsto> script ''a'' 1])) ''t'' \<noteq> None"
    using scan_view(1)[of "[''t'']" "''t''" example_conf example_now False "fresh_guard [''t'' \<mapsto> script ''a'' 1]"]
    by (simp add: scan_one_def fresh_guard_def view_def register_new_def)
  then show "\<forall>k \<le> length []. g_manifest (guard_run example_conf [''t'' \<mapsto> script ''a'' 1]
      ([] @ OpScan example_now False [''t''] # take k [])) ''t'' \<noteq> None"
    by (simp add: fresh_guard_def)
qed (simp_all add: fresh_guard_def)

theorem scan_registers_unaudited_witness:
  "fst (verify_tool example_conf example_now ''t'' (fresh_guard [''t'' \<mapsto> script ''x'' 1])) \<noteq> None"
  using scan_registers_unaudited[where s = "fresh_guard [''t'' \<mapsto> script ''x'' 1]" and n = "''t''"
      and f = "script ''x'' 1" and c = example_conf and order = "[''t'']" and t = example_now]
  by (simp add: fresh_guard_def)

theorem revert_runs_planted_file_witness:
  "let s = (fresh_guard [''t'' \<mapsto> script ''a'' 1])\<lparr>g_quarantined :=
               [''t'' \<mapsto> \<lparr>qt_name = ''t'', qt_old_hash = ''a'', qt_new_hash = ''x''\<rparr>]\<rparr>;
       s1 = scan example_conf example_now False [] (s\<lparr>g_tools := (g_tools s)(''t'' := None)\<rparr>);
       s2 = scan example_conf example_now False [''t''] (s1\<lparr>g_tools := (g_tools s)(''t'' \<mapsto> script ''x'' 2)\<rparr>)
   in map_option tf_data (g_tools (snd (revert_tool ''t'' s2)) ''t'') = Some ''x''"
  using revert_runs_planted_file[where s = "(fresh_guard [''t'' \<mapsto> script ''a'' 1])\<lparr>g_quarantined :=
               [''t'' \<mapsto> \<lparr>qt_name = ''t'', qt_old_hash = ''a'', qt_new_hash = ''x''\<rparr>]\<rparr>" and n = "''t''"
      and q = "\<lparr>qt_name = ''t'', qt_old_hash = ''a'', qt_new_hash = ''x''\<rparr>" and ?order1.0 = "[]"
      and ?order2.0 = "[''t'']" and f = "script ''x'' 2" and c = example_conf and t = example_now and t' = example_now]
  by (simp add: fresh_guard_def Let_def visits_def)

theorem checked_first_loses_original_witness:
  "let v = verify_tool example_conf example_now ''t'' (fresh_guard [''t'' \<mapsto> script ''a'' 1]);
       s2 = scan example_conf example_now False [''t''] (snd v);
       s3 = scan example_conf example_now False [''t''] (s2\<lparr>g_tools := [''t'' \<mapsto> script ''x'' 2]\<rparr>)
   in g_tools (snd (revert_tool ''t'' s3)) ''t'' = None"
  using checked_first_loses_original[where s = "fresh_guard [''t'' \<mapsto> script ''a'' 1]" and n = "''t''"
      and f = "script ''a'' 1" and c = example_conf and f' = "script ''x'' 2" and order = "[''t'']"
      and ?t0.0 = example_now and ?t1.0 = example_now and ?t2.0 = example_now]
  by (simp add: fresh_guard_def Let_def)

end
