(* ===== verification/Vault_Proxy.thy ===== *)
theory Vault_Proxy
  imports Http_Base
begin

text \<open>
  \<open>internal/sandbox/secrets/proxy.go\<close>: the HTTP proxy that stands between a process and the vault
  server. The vault server and the validation of \<open>http.NewRequest\<close> are parameters; the request's
  decoded path is \<open>rq_path\<close>, its raw query and its body are arguments.
\<close>

section \<open>The proxy\<close>

record vault_proxy =
  vp_allowed :: "string list option"
  vp_socket :: string
  vp_token :: string

definition new_vault_proxy :: "string \<Rightarrow> string \<Rightarrow> string list option \<Rightarrow> vault_proxy" where
  "new_vault_proxy socket token services = \<lparr>vp_allowed = services, vp_socket = socket, vp_token = token\<rparr>"

definition update_token :: "string \<Rightarrow> vault_proxy \<Rightarrow> vault_proxy" where
  "update_token token p = p\<lparr>vp_token := token\<rparr>"

text \<open>What is sent to the vault server, and what comes back: status, headers and body.\<close>

record upstream =
  up_method :: string
  up_url :: string
  up_headers :: "string \<rightharpoonup> string"
  up_body :: string

record vault_answer =
  va_status :: nat
  va_headers :: "(string \<times> string) list"
  va_body :: string

definition maxProxyBody :: nat where "maxProxyBody = 10 * 2 ^ 20"

text \<open>The path up to the next slash.\<close>

definition first_part :: "string \<Rightarrow> string" where
  "first_part rest = (case index_byte rest (CHR ''/'') of None \<Rightarrow> rest | Some i \<Rightarrow> take i rest)"

text \<open>The switch over the path: the service it names, \<open>None\<close> for a path that is not served.\<close>

definition path_service :: "string \<Rightarrow> string option" where
  "path_service path =
     (if has_prefix path ''/proxy/'' then Some (first_part (trim_prefix path ''/proxy/''))
      else if has_prefix path ''/ssh/'' then Some (first_part (trim_prefix path ''/ssh/''))
      else if path = ''/health'' then Some []
      else if path = ''/services'' then Some []
      else None)"

definition json_error :: "string \<Rightarrow> string" where
  "json_error msg = [CHR 0x7B] @ go_quote ''error'' @ '':'' @ go_quote msg @ [CHR 0x7D]"

fun copy_headers :: "string list \<Rightarrow> request \<Rightarrow> (string \<rightharpoonup> string) \<Rightarrow> (string \<rightharpoonup> string)" where
  "copy_headers [] r m = m"
| "copy_headers (h # hs) r m =
     copy_headers hs r (if header_get r h \<noteq> [] then m(h \<mapsto> header_get r h) else m)"

definition upstream_request :: "vault_proxy \<Rightarrow> request \<Rightarrow> string \<Rightarrow> string \<Rightarrow> upstream" where
  "upstream_request p r rawQuery body =
     (let hs = copy_headers [''Content-Type'', ''Accept'', ''Content-Length''] r Map.empty
      in \<lparr>up_method = rq_method r,
          up_url = ''http://localhost'' @ rq_path r @ (if rawQuery \<noteq> [] then ''?'' @ rawQuery else []),
          up_headers = (if vp_token p \<noteq> [] then hs(''Authorization'' \<mapsto> ''Bearer '' @ vp_token p) else hs),
          up_body = take maxProxyBody body\<rparr>)"

text \<open>The headers of the answer are added to those of the writer; the reader gets the first value.\<close>

definition forward_answer :: "vault_answer \<Rightarrow> writer \<Rightarrow> writer" where
  "forward_answer a w =
     write_body (va_body a) (write_header (va_status a)
       (fold (\<lambda>(k, v) w. w\<lparr>w_headers := (case w_headers w k of None \<Rightarrow> (w_headers w)(k \<mapsto> v) | Some _ \<Rightarrow> w_headers w)\<rparr>)
          (va_headers a) w))"

definition proxy_serve_http ::
  "(string \<Rightarrow> string \<Rightarrow> bool) \<Rightarrow> (upstream \<Rightarrow> vault_answer option) \<Rightarrow> vault_proxy \<Rightarrow> request \<Rightarrow> string \<Rightarrow> string \<Rightarrow> writer \<Rightarrow>
   upstream option \<times> writer" where
  "proxy_serve_http new_request_ok vault p r rawQuery body w =
     (case path_service (rq_path r) of
        None \<Rightarrow> (None, http_error (json_error ''forbidden'') 403 w)
      | Some service \<Rightarrow>
          if service = [] \<and> rq_path r \<noteq> ''/health'' \<and> rq_path r \<noteq> ''/services''
          then (None, http_error (json_error ''missing service name'') 400 w)
          else if service \<noteq> [] \<and> (case vp_allowed p of None \<Rightarrow> False | Some ss \<Rightarrow> service \<notin> set ss)
          then (None, http_error (json_error ''service not allowed'') 403 w)
          else let u = upstream_request p r rawQuery body in
            if \<not> new_request_ok (up_method u) (up_url u)
            then (None, http_error (json_error ''internal error'') 500 w)
            else (case vault u of
                    None \<Rightarrow> (Some u, http_error (json_error ''vault unreachable'') 502 w)
                  | Some a \<Rightarrow> (Some u, forward_answer a w)))"

section \<open>What reaches the vault\<close>

text \<open>The paths a set of services opens.\<close>

definition opens :: "string list option \<Rightarrow> string \<Rightarrow> bool" where
  "opens services path \<longleftrightarrow> path = ''/health'' \<or> path = ''/services'' \<or>
     (\<exists>svc rest. svc \<noteq> [] \<and> CHR ''/'' \<notin> set svc \<and> (case services of None \<Rightarrow> True | Some ss \<Rightarrow> svc \<in> set ss) \<and>
        (rest = [] \<or> has_prefix rest ''/'') \<and> path \<in> {''/proxy/'' @ svc @ rest, ''/ssh/'' @ svc @ rest})"

lemma first_part_split:
  "\<exists>rest. s = first_part s @ rest \<and> CHR ''/'' \<notin> set (first_part s) \<and> (rest = [] \<or> has_prefix rest ''/'')"
proof (cases "index_byte s (CHR ''/'')")
  case None
  have "first_part s = s" using None by (simp add: first_part_def)
  moreover have "CHR ''/'' \<notin> set s" using None unfolding index_byte_def find_index_None by blast
  ultimately show ?thesis by (intro exI[of _ "[]"]) simp
next
  case (Some i)
  then have i: "i < length s" "s ! i = CHR ''/''" "\<forall>j < i. s ! j \<noteq> CHR ''/''"
    by (auto simp: index_byte_def find_index_Some)
  have "s = take i s @ drop i s" by simp
  moreover have "CHR ''/'' \<notin> set (take i s)" using i by (auto simp: in_set_conv_nth)
  moreover have "has_prefix (drop i s) ''/''" using i by (simp add: Cons_nth_drop_Suc[symmetric])
  ultimately show ?thesis using Some unfolding first_part_def by (intro exI[of _ "drop i s"]) simp
qed

lemma first_part_append:
  assumes "CHR ''/'' \<notin> set svc" and "rest = [] \<or> has_prefix rest ''/''"
  shows "first_part (svc @ rest) = svc"
proof -
  have skip: "find_index P (svc @ rest) = map_option (\<lambda>i. length svc + i) (find_index P rest)"
    if "\<forall>x \<in> set svc. \<not> P x" for P
    using that by (induction svc; cases "find_index P rest") simp_all
  have "find_index (\<lambda>x. x = CHR ''/'') rest = (if rest = [] then None else Some 0)"
    using assms(2) by (cases rest) auto
  moreover have "\<forall>x \<in> set svc. \<not> x = CHR ''/''" using assms(1) by blast
  ultimately have "index_byte (svc @ rest) (CHR ''/'') = (if rest = [] then None else Some (length svc))"
    unfolding index_byte_def by (simp only: skip) simp
  then show ?thesis by (simp add: first_part_def)
qed

lemma path_service_proxy: "path_service (''/proxy/'' @ s) = Some (first_part s)"
  and path_service_ssh: "path_service (''/ssh/'' @ s) = Some (first_part s)"
  by (simp_all add: path_service_def trim_prefix_def)

lemma path_service_prefix:
  assumes "path_service path = Some svc" and "svc \<noteq> []"
  shows "\<exists>s. path \<in> {''/proxy/'' @ s, ''/ssh/'' @ s} \<and> svc = first_part s"
proof -
  consider "has_prefix path ''/proxy/''" | "has_prefix path ''/ssh/''"
    using assms unfolding path_service_def by (metis option.distinct(1) option.inject)
  then show ?thesis
  proof cases
    case 1
    then obtain s where "path = ''/proxy/'' @ s" using has_prefixD by blast
    then show ?thesis using assms(1) path_service_proxy[of s] by auto
  next
    case 2
    then obtain s where "path = ''/ssh/'' @ s" using has_prefixD by blast
    then show ?thesis using assms(1) path_service_ssh[of s] by auto
  qed
qed

lemma path_service_cases:
  "path_service path = Some svc \<and> svc \<noteq> [] \<longleftrightarrow>
   svc \<noteq> [] \<and> CHR ''/'' \<notin> set svc \<and>
   (\<exists>rest. (rest = [] \<or> has_prefix rest ''/'') \<and> path \<in> {''/proxy/'' @ svc @ rest, ''/ssh/'' @ svc @ rest})"
  (is "?L = ?R")
proof
  assume ?L
  then obtain s where s: "path \<in> {''/proxy/'' @ s, ''/ssh/'' @ s}" "svc = first_part s"
    using path_service_prefix by blast
  obtain rest where "s = svc @ rest" "CHR ''/'' \<notin> set svc" "rest = [] \<or> has_prefix rest ''/''"
    using first_part_split[of s] unfolding s(2)[symmetric] by blast
  then show ?R using \<open>?L\<close> s(1) by blast
next
  assume r: ?R
  then obtain rest where rest: "rest = [] \<or> has_prefix rest ''/''"
    "path = ''/proxy/'' @ svc @ rest \<or> path = ''/ssh/'' @ svc @ rest" by blast
  then show ?L using r first_part_append[of svc rest] path_service_proxy[of "svc @ rest"]
      path_service_ssh[of "svc @ rest"] by auto
qed

lemma copy_headers_dom: "dom (copy_headers hs r m) \<subseteq> dom m \<union> set hs"
proof (induction hs arbitrary: m)
  case (Cons h hs)
  define m' where "m' = (if header_get r h \<noteq> [] then m(h \<mapsto> header_get r h) else m)"
  have "dom m' \<subseteq> insert h (dom m)" by (auto simp: m'_def)
  moreover have "dom (copy_headers hs r m') \<subseteq> dom m' \<union> set hs" by (rule Cons)
  moreover have "copy_headers (h # hs) r m = copy_headers hs r m'" by (simp add: m'_def)
  ultimately have "dom (copy_headers (h # hs) r m) \<subseteq> insert h (dom m) \<union> set hs" by (metis Un_mono order.trans order_refl)
  then show ?case by auto
qed simp

lemma opens_iff:
  "opens services path \<longleftrightarrow> path \<in> {''/health'', ''/services''} \<or>
   (\<exists>svc. path_service path = Some svc \<and> svc \<noteq> [] \<and> (case services of None \<Rightarrow> True | Some ss \<Rightarrow> svc \<in> set ss))"
proof -
  have "opens services path \<longleftrightarrow> path \<in> {''/health'', ''/services''} \<or>
      (\<exists>svc. (svc \<noteq> [] \<and> CHR ''/'' \<notin> set svc \<and> (\<exists>rest. (rest = [] \<or> has_prefix rest ''/'') \<and>
                 path \<in> {''/proxy/'' @ svc @ rest, ''/ssh/'' @ svc @ rest})) \<and>
             (case services of None \<Rightarrow> True | Some ss \<Rightarrow> svc \<in> set ss))" unfolding opens_def by blast
  then show ?thesis unfolding path_service_cases[symmetric] by blast
qed

lemma upstream_request_headers:
  "up_headers (upstream_request p r rawQuery body) ''Authorization'' =
     (if vp_token p \<noteq> [] then Some (''Bearer '' @ vp_token p) else None)"
  "dom (up_headers (upstream_request p r rawQuery body)) \<subseteq>
     {''Content-Type'', ''Accept'', ''Content-Length'', ''Authorization''}"
proof -
  have hs: "dom (copy_headers [''Content-Type'', ''Accept'', ''Content-Length''] r Map.empty) \<subseteq>
      {''Content-Type'', ''Accept'', ''Content-Length''}" using copy_headers_dom[of _ r Map.empty] by simp
  then have "copy_headers [''Content-Type'', ''Accept'', ''Content-Length''] r Map.empty ''Authorization'' = None"
    by (auto simp: dom_def)
  then show "up_headers (upstream_request p r rawQuery body) ''Authorization'' =
     (if vp_token p \<noteq> [] then Some (''Bearer '' @ vp_token p) else None)"
    and "dom (up_headers (upstream_request p r rawQuery body)) \<subseteq>
     {''Content-Type'', ''Accept'', ''Content-Length'', ''Authorization''}"
    using hs by (auto simp: upstream_request_def Let_def)
qed

lemma serve_forwards:
  assumes "opens (vp_allowed p) (rq_path r)" and "ok (rq_method r) (up_url (upstream_request p r rawQuery body))"
  shows "fst (proxy_serve_http ok vault p r rawQuery body w) = Some (upstream_request p r rawQuery body)"
proof -
  have um: "up_method (upstream_request p r rawQuery body) = rq_method r"
    by (simp add: upstream_request_def Let_def)
  obtain svc where svc: "path_service (rq_path r) = Some svc"
    "\<not> (svc = [] \<and> rq_path r \<noteq> ''/health'' \<and> rq_path r \<noteq> ''/services'')"
    "\<not> (svc \<noteq> [] \<and> (case vp_allowed p of None \<Rightarrow> False | Some ss \<Rightarrow> svc \<notin> set ss))"
    using assms(1) unfolding opens_iff by (auto simp: path_service_def split: option.splits)
  show ?thesis using svc assms(2) unfolding proxy_serve_http_def Let_def um
    by (cases "vault (upstream_request p r rawQuery body)")
       (simp_all only: option.case if_False not_True_eq_False fst_conv)
qed

lemma serve_refuses:
  assumes "\<not> (opens (vp_allowed p) (rq_path r) \<and> ok (rq_method r) (up_url (upstream_request p r rawQuery body)))"
  shows "fst (proxy_serve_http ok vault p r rawQuery body new_writer) = None \<and>
    status_of (snd (proxy_serve_http ok vault p r rawQuery body new_writer)) \<in> {400, 403, 500}"
proof -
  have um: "up_method (upstream_request p r rawQuery body) = rq_method r"
    by (simp add: upstream_request_def Let_def)
  show ?thesis
  proof (cases "path_service (rq_path r)")
    case None
    then show ?thesis by (simp add: proxy_serve_http_def status_of_def)
  next
    case (Some svc)
    have perm: "opens (vp_allowed p) (rq_path r) \<longleftrightarrow> rq_path r \<in> {''/health'', ''/services''} \<or>
        svc \<noteq> [] \<and> (case vp_allowed p of None \<Rightarrow> True | Some ss \<Rightarrow> svc \<in> set ss)"
      unfolding opens_iff Some by simp
    consider (missing) "svc = []" "rq_path r \<noteq> ''/health''" "rq_path r \<noteq> ''/services''"
      | (denied) "svc \<noteq> []" "case vp_allowed p of None \<Rightarrow> False | Some ss \<Rightarrow> svc \<notin> set ss"
      | (bad) "\<not> (svc = [] \<and> rq_path r \<noteq> ''/health'' \<and> rq_path r \<noteq> ''/services'')"
          "\<not> (svc \<noteq> [] \<and> (case vp_allowed p of None \<Rightarrow> False | Some ss \<Rightarrow> svc \<notin> set ss))"
          "\<not> ok (rq_method r) (up_url (upstream_request p r rawQuery body))"
      using assms perm by (cases "vp_allowed p") auto
    then show ?thesis
    proof cases
      case bad
      then show ?thesis using Some unfolding proxy_serve_http_def Let_def um
        by (simp only: option.case if_False not_False_eq_True if_True) (simp add: status_of_def)
    qed (use Some in \<open>simp_all add: proxy_serve_http_def status_of_def\<close>)
  qed
qed


end
