(* ===== verification/Supervisor.thy ===== *)
theory Supervisor
  imports Vault_Proxy Go_Path
begin

text \<open>
  \<open>internal/platform/supervisor\<close>: the background services of apps. The state is the supervisor's
  maps; a process is its exits, a listener whether it could be opened. The files, the declared vault
  services, the parsing of durations and the two socket factories are parameters; \<open>None\<close> as a result
  of an operation is a panic (a channel closed twice).
\<close>

section \<open>State\<close>

record service_config =
  sc_name :: string
  sc_command :: string
  sc_args :: "string list"
  sc_env :: "(string \<times> string) list"
  sc_restart :: string
  sc_restart_delay :: string
  sc_max_restarts :: int
  sc_enabled :: bool

record managed_proc =
  mp_config :: service_config
  mp_slug :: string
  mp_work_dir :: string
  mp_stopped :: bool
  mp_restarts :: int
  mp_started :: gotime
  mp_last_err :: string
  mp_last_crash :: gotime

record supervisor =
  sv_apps_dir :: string
  sv_procs :: "string \<rightharpoonup> managed_proc"
  sv_stop :: bool
  sv_vault_socket :: string
  sv_token :: string
  sv_services :: "(string \<Rightarrow> string list) option"
  sv_proxies :: "string \<rightharpoonup> vault_proxy"
  sv_listeners :: "string \<rightharpoonup> unit"
  sv_app_tools :: bool
  sv_tools :: "string \<rightharpoonup> unit"

record app_entry =
  ae_name :: string
  ae_is_dir :: bool

text \<open>What is outside: the entries of the apps directory, the service files (\<open>None\<close> is no file, an
  error is invalid JSON), and whether a socket can be opened.\<close>

record sup_env =
  se_entries :: "app_entry list option"
  se_service_file :: "string \<Rightarrow> service_config res option"
  se_vault_listen :: "string \<Rightarrow> bool"
  se_tools_listen :: "string \<Rightarrow> bool"
  se_parse_duration :: "string \<Rightarrow> duration res"

definition new_supervisor :: "string \<Rightarrow> supervisor" where
  "new_supervisor appsDir =
     \<lparr>sv_apps_dir = appsDir, sv_procs = Map.empty, sv_stop = False, sv_vault_socket = [], sv_token = [],
      sv_services = None, sv_proxies = Map.empty, sv_listeners = Map.empty, sv_app_tools = False,
      sv_tools = Map.empty\<rparr>"

definition has_vault :: "supervisor \<Rightarrow> bool" where "has_vault s \<longleftrightarrow> sv_vault_socket s \<noteq> []"

definition set_vault :: "string \<Rightarrow> string \<Rightarrow> (string \<Rightarrow> string list) \<Rightarrow> supervisor \<Rightarrow> supervisor" where
  "set_vault socket token services s =
     s\<lparr>sv_vault_socket := socket, sv_token := token, sv_services := Some services,
       sv_proxies := Map.empty, sv_listeners := Map.empty\<rparr>"

definition set_app_tools :: "supervisor \<Rightarrow> supervisor" where
  "set_app_tools s = s\<lparr>sv_app_tools := True, sv_tools := Map.empty\<rparr>"

definition app_tools_sock_path :: "supervisor \<Rightarrow> string \<Rightarrow> string" where
  "app_tools_sock_path s slug = join_path [sv_apps_dir s, slug, ''tools.sock'']"

definition vault_sock_path :: "supervisor \<Rightarrow> string \<Rightarrow> string" where
  "vault_sock_path s slug = join_path [sv_apps_dir s, slug, ''vault.sock'']"

section \<open>Sockets\<close>

definition start_app_tools :: "sup_env \<Rightarrow> string \<Rightarrow> supervisor \<Rightarrow> supervisor" where
  "start_app_tools e slug s =
     (if \<not> sv_app_tools s \<or> \<not> se_tools_listen e slug then s else s\<lparr>sv_tools := (sv_tools s)(slug \<mapsto> ())\<rparr>)"

definition stop_app_tools :: "string \<Rightarrow> supervisor \<Rightarrow> supervisor" where
  "stop_app_tools slug s = s\<lparr>sv_tools := (sv_tools s)(slug := None)\<rparr>"

definition start_vault_proxy :: "sup_env \<Rightarrow> string \<Rightarrow> string list \<Rightarrow> supervisor \<Rightarrow> supervisor" where
  "start_vault_proxy e slug services s =
     (if \<not> se_vault_listen e slug then s
      else s\<lparr>sv_proxies := (sv_proxies s)(slug \<mapsto> new_vault_proxy (sv_vault_socket s) (sv_token s) (Some services)),
             sv_listeners := (sv_listeners s)(slug \<mapsto> ())\<rparr>)"

definition stop_vault_proxy :: "string \<Rightarrow> supervisor \<Rightarrow> supervisor" where
  "stop_vault_proxy slug s =
     s\<lparr>sv_proxies := (sv_proxies s)(slug := None), sv_listeners := (sv_listeners s)(slug := None)\<rparr>"

definition update_proxy_token :: "string \<Rightarrow> supervisor \<Rightarrow> supervisor" where
  "update_proxy_token token s =
     s\<lparr>sv_token := token, sv_proxies := (\<lambda>slug. map_option (update_token token) (sv_proxies s slug))\<rparr>"

section \<open>Services\<close>

text \<open>The defaults that \<open>scan\<close> and \<open>StartApp\<close> fill in.\<close>

definition with_defaults :: "string \<Rightarrow> service_config \<Rightarrow> service_config" where
  "with_defaults slug c =
     (let c1 = (if sc_name c = [] then c\<lparr>sc_name := slug\<rparr> else c);
          c2 = (if sc_restart c1 = [] then c1\<lparr>sc_restart := ''always''\<rparr> else c1)
      in if sc_max_restarts c2 = 0 then c2\<lparr>sc_max_restarts := 100\<rparr> else c2)"

fun scan_entries :: "sup_env \<Rightarrow> app_entry list \<Rightarrow> (string \<rightharpoonup> service_config) \<Rightarrow> (string \<rightharpoonup> service_config)" where
  "scan_entries e [] services = services"
| "scan_entries e (a # as) services =
     scan_entries e as
       (if \<not> ae_is_dir a \<or> has_prefix (ae_name a) ''.'' then services
        else case se_service_file e (ae_name a) of
               None \<Rightarrow> services
             | Some (Inl _) \<Rightarrow> services
             | Some (Inr c) \<Rightarrow>
                 if sc_command c = [] then services
                 else services(ae_name a \<mapsto> with_defaults (ae_name a) c))"

definition scan_services :: "sup_env \<Rightarrow> string \<rightharpoonup> service_config" where
  "scan_services e = (case se_entries e of None \<Rightarrow> Map.empty | Some as \<Rightarrow> scan_entries e as Map.empty)"

definition start_service :: "sup_env \<Rightarrow> string \<Rightarrow> service_config \<Rightarrow> supervisor \<Rightarrow> supervisor" where
  "start_service e slug c s =
     (let s1 = (case sv_services s of
                  None \<Rightarrow> s
                | Some f \<Rightarrow> if f slug \<noteq> [] then start_vault_proxy e slug (f slug) s else s);
          s2 = start_app_tools e slug s1
      in s2\<lparr>sv_procs := (sv_procs s2)(slug \<mapsto>
             \<lparr>mp_config = c, mp_slug = slug, mp_work_dir = join_path [sv_apps_dir s2, slug], mp_stopped = False,
              mp_restarts = 0, mp_started = 0, mp_last_err = [], mp_last_crash = 0\<rparr>)\<rparr>)"

text \<open>\<open>Start\<close>; the order is that of the map of services.\<close>

definition start_all :: "sup_env \<Rightarrow> string list \<Rightarrow> supervisor \<Rightarrow> supervisor" where
  "start_all e order s =
     fold (\<lambda>slug s. case scan_services e slug of
             None \<Rightarrow> s
           | Some c \<Rightarrow> if \<not> sc_enabled c then s else start_service e slug c s) order s"

definition start_app :: "sup_env \<Rightarrow> string \<Rightarrow> supervisor \<Rightarrow> supervisor" where
  "start_app e slug s =
     (if sv_procs s slug \<noteq> None then s
      else case se_service_file e slug of
        None \<Rightarrow> s
      | Some (Inl _) \<Rightarrow> s
      | Some (Inr c) \<Rightarrow>
          if sc_command c = [] then s
          else let c' = with_defaults slug c in
            if \<not> sc_enabled c' then s else start_service e slug c' s)"

text \<open>The map of proxies is nil until \<open>SetVault\<close>.\<close>

definition stop_app :: "string \<Rightarrow> supervisor \<Rightarrow> supervisor option" where
  "stop_app slug s =
     (case sv_procs s slug of
        None \<Rightarrow> Some s
      | Some p \<Rightarrow>
          if mp_stopped p then None
          else let s1 = s\<lparr>sv_procs := (sv_procs s)(slug := None)\<rparr>;
                   s2 = (if sv_services s1 \<noteq> None then stop_vault_proxy slug s1 else s1)
               in Some (stop_app_tools slug s2))"

definition restart_app :: "sup_env \<Rightarrow> string \<Rightarrow> supervisor \<Rightarrow> supervisor option" where
  "restart_app e slug s = map_option (start_app e slug) (stop_app slug s)"

definition stop_all :: "supervisor \<Rightarrow> supervisor option" where
  "stop_all s =
     (if sv_stop s \<or> (\<exists>p \<in> ran (sv_procs s). mp_stopped p) then None
      else Some (s\<lparr>sv_stop := True,
                   sv_procs := (\<lambda>slug. map_option (\<lambda>p. p\<lparr>mp_stopped := True\<rparr>) (sv_procs s slug)),
                   sv_tools := Map.empty\<rparr>))"

section \<open>The command\<close>

definition server_safe_env :: "string \<Rightarrow> string list" where
  "server_safe_env appDir =
     [''PATH=/opt/alf/tools.d:/usr/local/bin:/usr/bin:/bin'', ''HOME=/home/alf'', ''USER=alf'', ''LOGNAME=alf'',
      ''SHELL=/bin/bash'', ''LANG=en_US.UTF-8'', ''ALF_APP_DATA_DIR='' @ join_path [appDir, ''data''], ''TMPDIR=/tmp'']"

definition upper_char :: "char \<Rightarrow> char" where
  "upper_char c =
     (if 97 \<le> (of_char c :: nat) \<and> (of_char c :: nat) \<le> 122 then char_of ((of_char c :: nat) - 32) else c)"

definition to_upper :: "string \<Rightarrow> string" where "to_upper s = map upper_char s"

definition blockedEnvKeys :: "string list" where
  "blockedEnvKeys = [''PATH'', ''HOME'', ''SHELL'', ''USER'', ''LD_PRELOAD'', ''LD_LIBRARY_PATH'', ''LD_AUDIT'']"

definition blocked_key :: "string \<Rightarrow> bool" where
  "blocked_key k \<longleftrightarrow> to_upper k \<in> set blockedEnvKeys \<or> has_prefix (to_upper k) ''LD_''"

definition config_env :: "service_config \<Rightarrow> string list" where
  "config_env c = map (\<lambda>(k, v). k @ ''='' @ v) (filter (\<lambda>(k, v). \<not> blocked_key k) (sc_env c))"

record command =
  cm_path :: string
  cm_args :: "string list"
  cm_dir :: string
  cm_env :: "string list"
  cm_vault_socket :: string

definition build_cmd :: "supervisor \<Rightarrow> managed_proc \<Rightarrow> command res" where
  "build_cmd s p =
     (let c = mp_config p;
          cmd = clean (if \<not> is_abs (sc_command c) then join_path [mp_work_dir p, sc_command c] else sc_command c)
      in if \<not> has_prefix cmd (clean (sv_apps_dir s) @ ''/'')
         then Err (''command '' @ go_quote (sc_command c) @ '' escapes apps directory'')
         else let proxied = sv_services s \<noteq> None \<and> sv_proxies s (mp_slug p) \<noteq> None;
                  sock = (if proxied then vault_sock_path s (mp_slug p) else [])
              in Ok \<lparr>cm_path = cmd, cm_args = sc_args c, cm_dir = mp_work_dir p,
                     cm_env = server_safe_env (mp_work_dir p) @
                              (if proxied then [''VAULT_PROXY_SOCK='' @ sock] else []) @
                              (if sv_tools s (mp_slug p) \<noteq> None
                               then [''ALF_TOOLS_SOCK='' @ app_tools_sock_path s (mp_slug p)] else []) @
                              config_env c,
                     cm_vault_socket = sock\<rparr>)"

section \<open>Supervision\<close>

definition maxDelay :: duration where "maxDelay = 60 * second"

definition base_delay :: "sup_env \<Rightarrow> service_config \<Rightarrow> duration" where
  "base_delay e c =
     (if sc_restart_delay c \<noteq> []
      then (case se_parse_duration e (sc_restart_delay c) of Inr d \<Rightarrow> d | Inl _ \<Rightarrow> 3 * second)
      else 3 * second)"

text \<open>A product of durations wraps at 64 bits.\<close>

definition wrap64 :: "int \<Rightarrow> int" where "wrap64 i = (i + 2 ^ 63) mod 2 ^ 64 - 2 ^ 63"

definition next_delay :: "duration \<Rightarrow> duration" where
  "next_delay d = (let d' = wrap64 (d * 2) in if d' > maxDelay then maxDelay else d')"

text \<open>One round of the loop, as the outside plays it: a stop that is seen before the start, after the exit
  or in the wait, the errors of the start and of the exit, and the clock.\<close>

record round =
  ro_stop_before :: bool
  ro_started :: gotime
  ro_start_err :: "string option"
  ro_exit_err :: "string option"
  ro_stop_after :: bool
  ro_crash :: gotime
  ro_now :: gotime
  ro_stop_wait :: bool

datatype ended = Stopped | Refused | GaveUp | NotRestarted

definition stable :: "round \<Rightarrow> bool" where
  "stable r \<longleftrightarrow> ro_start_err r = None \<and> time_sub (ro_now r) (ro_started r) > 5 * minute"

text \<open>The loop over the rounds \<open>k\<close>, \<open>k + 1\<close>, ... with the waits so far. \<open>None\<close> is out of fuel.\<close>

fun supervise_loop ::
  "string option \<Rightarrow> (nat \<Rightarrow> round) \<Rightarrow> duration \<Rightarrow> nat \<Rightarrow> nat \<Rightarrow> duration \<Rightarrow> managed_proc \<Rightarrow> duration list \<Rightarrow>
   (ended \<times> managed_proc \<times> duration list) option" where
  "supervise_loop refusal rounds base 0 k delay p waits = None"
| "supervise_loop refusal rounds base (Suc fuel) k delay p waits =
     (let r = rounds k; mx = sc_max_restarts (mp_config p) in
      if ro_stop_before r then Some (Stopped, p, waits)
      else case refusal of
        Some e \<Rightarrow> Some (Refused, p\<lparr>mp_last_err := e\<rparr>, waits)
      | None \<Rightarrow>
          let p1 = p\<lparr>mp_started := ro_started r\<rparr> in
          case ro_start_err r of
            Some e \<Rightarrow>
              let p2 = p1\<lparr>mp_last_err := e, mp_restarts := mp_restarts p + 1\<rparr> in
              if mx > 0 \<and> mp_restarts p2 \<ge> mx then Some (GaveUp, p2, waits)
              else if ro_stop_wait r then Some (Stopped, p2, waits @ [delay])
              else supervise_loop refusal rounds base fuel (Suc k) (next_delay delay) p2 (waits @ [delay])
          | None \<Rightarrow>
              if ro_stop_after r then Some (Stopped, p1, waits)
              else
                let p2 = p1\<lparr>mp_restarts := mp_restarts p + 1, mp_last_crash := ro_crash r\<rparr>;
                    p3 = (case ro_exit_err r of None \<Rightarrow> p2 | Some e \<Rightarrow> p2\<lparr>mp_last_err := e\<rparr>);
                    delay1 = (if time_sub (ro_now r) (mp_started p3) > 5 * minute then base else delay)
                in if sc_restart (mp_config p) = ''no'' then Some (NotRestarted, p3, waits)
                   else if sc_restart (mp_config p) = ''on-failure'' \<and> ro_exit_err r = None
                   then Some (NotRestarted, p3, waits)
                   else if mx > 0 \<and> mp_restarts p3 \<ge> mx then Some (GaveUp, p3, waits)
                   else if ro_stop_wait r then Some (Stopped, p3, waits @ [delay1])
                   else supervise_loop refusal rounds base fuel (Suc k) (next_delay delay1) p3 (waits @ [delay1]))"

definition supervise ::
  "sup_env \<Rightarrow> supervisor \<Rightarrow> (nat \<Rightarrow> round) \<Rightarrow> nat \<Rightarrow> managed_proc \<Rightarrow> (ended \<times> managed_proc \<times> duration list) option" where
  "supervise e s rounds fuel p =
     (let base = base_delay e (mp_config p)
      in supervise_loop (case build_cmd s p of Inl err \<Rightarrow> Some err | Inr _ \<Rightarrow> None) rounds base fuel 0 base p [])"

end
