(* ===== verification/Supervisor_Properties.thy ===== *)
theory Supervisor_Properties
  imports Supervisor
begin

text \<open>
  What the supervisor promises: a crashing service is restarted at most as often as its limit says,
  with bounded and growing waits; a command outside the apps directory is never run; an app's vault
  proxy serves what the app declared, with the current token.
\<close>

section \<open>Restarts\<close>

lemma loop_ends:
  assumes "0 < sc_max_restarts (mp_config p)" and "mp_restarts p < sc_max_restarts (mp_config p)"
    and "int fuel = sc_max_restarts (mp_config p) - mp_restarts p"
  shows "\<exists>why p' ws. supervise_loop refusal rounds base fuel k delay p waits = Some (why, p', waits @ ws) \<and>
    mp_restarts p' \<le> sc_max_restarts (mp_config p) \<and> length ws < fuel"
  using assms
proof (induction fuel arbitrary: k delay p waits)
  case (Suc fuel)
  let ?mx = "sc_max_restarts (mp_config p)"
  have next_round: "\<exists>why p' ws. supervise_loop refusal rounds base fuel (Suc k) d' p1 (waits @ [d]) = Some (why, p', waits @ ws) \<and>
      mp_restarts p' \<le> ?mx \<and> length ws < Suc fuel"
    if "mp_config p1 = mp_config p" "mp_restarts p1 = mp_restarts p + 1" "\<not> ?mx \<le> mp_restarts p + 1" for p1 d d'
  proof -
    have "0 < sc_max_restarts (mp_config p1)" "mp_restarts p1 < sc_max_restarts (mp_config p1)"
      "int fuel = sc_max_restarts (mp_config p1) - mp_restarts p1" using Suc.prems that by simp_all
    from Suc.IH[OF this, where k = "Suc k" and delay = d' and waits = "waits @ [d]", unfolded that(1)]
    obtain why p' ws where "supervise_loop refusal rounds base fuel (Suc k) d' p1 (waits @ [d]) = Some (why, p', (waits @ [d]) @ ws)"
      "mp_restarts p' \<le> ?mx" "length ws < fuel" by blast
    then show ?thesis by (intro exI[of _ why] exI[of _ p'] exI[of _ "d # ws"]) simp
  qed
  have stop: "\<exists>why' p'' ws. Some (why, p', waits) = Some (why', p'', waits @ ws) \<and> mp_restarts p'' \<le> ?mx \<and> length ws < Suc fuel"
    if "mp_restarts p' \<le> ?mx" for why p' using that by (intro exI[of _ why] exI[of _ p'] exI[of _ "[]"]) simp
  have stop1: "\<exists>why' p'' ws. Some (why, p', waits @ [d]) = Some (why', p'', waits @ ws) \<and> mp_restarts p'' \<le> ?mx \<and> length ws < Suc fuel"
    if "mp_restarts p' \<le> ?mx" "fuel \<noteq> 0" for why p' d
    using that by (intro exI[of _ why] exI[of _ p'] exI[of _ "[d]"]) simp
  have fuel: "\<not> ?mx \<le> mp_restarts p + 1 \<Longrightarrow> fuel \<noteq> 0" using Suc.prems by auto
  show ?case
  proof (cases refusal)
    case None
    note nr = next_round[unfolded None]
    show ?thesis unfolding None using Suc.prems(1,2) fuel
      by (auto simp: Let_def intro!: stop stop1 nr split: option.split)
  qed (use Suc.prems(1,2) in \<open>auto simp: Let_def intro!: stop\<close>)
qed simp

text \<open>The waits of a run: each is the base after a stable round, and otherwise what the wait before asks for.\<close>

fun wait_chain :: "(nat \<Rightarrow> round) \<Rightarrow> duration \<Rightarrow> nat \<Rightarrow> duration \<Rightarrow> duration list \<Rightarrow> bool" where
  "wait_chain rounds base k delay [] = True"
| "wait_chain rounds base k delay (w # ws) =
     (w = (if stable (rounds k) then base else delay) \<and> wait_chain rounds base (Suc k) (next_delay w) ws)"

lemma loop_waits:
  "supervise_loop refusal rounds base fuel k delay p waits = Some (why, p', ws') \<Longrightarrow>
   \<exists>ws. ws' = waits @ ws \<and> wait_chain rounds base k delay ws"
proof (induction fuel arbitrary: k delay p waits)
  case (Suc fuel)
  have next_round: "\<exists>ws. ws' = waits @ ws \<and> wait_chain rounds base k delay ws"
    if "supervise_loop refusal rounds base fuel (Suc k) (next_delay d) p1 (waits @ [d]) = Some (why, p', ws')"
      and "d = (if stable (rounds k) then base else delay)" for p1 d
  proof -
    from Suc.IH[OF that(1)]
    obtain ws where "ws' = (waits @ [d]) @ ws" "wait_chain rounds base (Suc k) (next_delay d) ws" by blast
    then show ?thesis using that(2) by (intro exI[of _ "d # ws"]) simp
  qed
  have stop: "\<exists>ws. waits = waits @ ws \<and> wait_chain rounds base k delay ws"
    by (intro exI[of _ "[]"]) simp
  have stop1: "\<exists>ws. waits @ [d] = waits @ ws \<and> wait_chain rounds base k delay ws"
    if "d = (if stable (rounds k) then base else delay)" for d
    using that by (intro exI[of _ "[d]"]) simp
  show ?case
  proof (cases refusal)
    case None
    note nr = next_round[unfolded None]
    show ?thesis using Suc.prems unfolding None
      by (auto simp: Let_def stable_def intro!: stop stop1 dest!: nr split: option.splits if_splits)
  next
    case (Some e)
    then show ?thesis using Suc.prems stop by (auto simp: Let_def split: if_splits)
  qed
qed simp

lemma wait_chain_nth:
  "wait_chain rounds base k delay ws \<Longrightarrow> i < length ws \<Longrightarrow>
   ws ! i = (if stable (rounds (k + i)) then base else if i = 0 then delay else next_delay (ws ! (i - 1)))"
proof (induction ws arbitrary: k delay i)
  case (Cons w ws)
  then show ?case using Cons.IH[where k = "Suc k" and delay = "next_delay w" and i = "i - 1"]
    by (cases i) (auto simp: nth_Cons')
qed simp

lemma next_delay_small: "0 \<le> d \<Longrightarrow> d \<le> 2 ^ 62 - 1 \<Longrightarrow> next_delay d = min (2 * d) maxDelay"
  by (simp add: next_delay_def wrap64_def Let_def min_def)

text \<open>C24. Supervision ends: a service whose limit is positive (and no other limit but a negative one can be
  configured) is started at most that often, whatever its runs do, so the loop returns, with the
  number of restarts within the limit and fewer waits than the limit.\<close>

theorem supervise_terminates:
  assumes "0 < sc_max_restarts (mp_config p)" and "mp_restarts p = 0"
  shows "\<exists>why p' waits. supervise e s rounds (nat (sc_max_restarts (mp_config p))) p = Some (why, p', waits) \<and>
    mp_restarts p' \<le> sc_max_restarts (mp_config p) \<and> int (length waits) < sc_max_restarts (mp_config p)"
proof -
  have "\<exists>why p' ws. supervise_loop r rounds b (nat (sc_max_restarts (mp_config p))) 0 d p [] = Some (why, p', [] @ ws) \<and>
      mp_restarts p' \<le> sc_max_restarts (mp_config p) \<and> length ws < nat (sc_max_restarts (mp_config p))" for r b d
    by (rule loop_ends) (use assms in simp_all)
  then show ?thesis unfolding supervise_def Let_def append_Nil by (metis zless_nat_conj zless_nat_eq_int_zless)
qed

text \<open>The waits back off: each wait is the base delay at first and after a run of more than five minutes,
  and twice the wait before, capped at a minute, otherwise; so for a base delay from 0 to 292 years
  no wait is negative or longer than the base and a minute allow, and for one of at most a minute
  with no long run the \<open>i\<close>-th wait is the base times \<open>2 ^ i\<close>, capped.\<close>

theorem backoff_exact:
  assumes "supervise e s rounds fuel p = Some (why, p', waits)" and "i < length waits"
    and "0 \<le> base_delay e (mp_config p)" and "base_delay e (mp_config p) \<le> 2 ^ 62 - 1"
  shows "let base = base_delay e (mp_config p) in
    waits ! i = (if i = 0 \<or> stable (rounds i) then base else min (2 * waits ! (i - 1)) maxDelay) \<and>
    0 \<le> waits ! i \<and> waits ! i \<le> max base maxDelay \<and>
    (if base \<le> maxDelay \<and> (\<forall>j \<le> i. \<not> stable (rounds j)) then waits ! i = min (base * 2 ^ i) maxDelay else True)"
proof -
  let ?b = "base_delay e (mp_config p)"
  have chain: "wait_chain rounds ?b 0 ?b waits"
    using assms(1) loop_waits unfolding supervise_def Let_def by fastforce
  have m: "0 \<le> maxDelay" "maxDelay \<le> 2 ^ 62 - 1" by (simp_all add: maxDelay_def second_def)
  have range: "0 \<le> waits ! j \<and> waits ! j \<le> max ?b maxDelay" if "j < length waits" for j
    using that
  proof (induction j)
    case 0
    then show ?case using wait_chain_nth[OF chain 0] assms(3) by simp
  next
    case (Suc j)
    then have IH: "0 \<le> waits ! j" "waits ! j \<le> 2 ^ 62 - 1" using assms(4) m by (simp_all add: max_def split: if_splits)
    show ?case using wait_chain_nth[OF chain Suc.prems] assms(3) m next_delay_small[OF IH] IH(1)
      by (auto simp: min_def max_def)
  qed
  have step: "waits ! j = (if j = 0 \<or> stable (rounds j) then ?b else min (2 * waits ! (j - 1)) maxDelay)"
    if "j < length waits" for j
  proof -
    have "max ?b maxDelay \<le> 2 ^ 62 - 1" using assms(4) m by simp
    then have "0 \<le> waits ! (j - 1)" "waits ! (j - 1) \<le> 2 ^ 62 - 1" using range[of "j - 1"] that by linarith+
    then show ?thesis using wait_chain_nth[OF chain that] next_delay_small by simp
  qed
  have "waits ! j = min (?b * 2 ^ j) maxDelay"
    if "j \<le> i" "?b \<le> maxDelay" "\<forall>j \<le> i. \<not> stable (rounds j)" for j
    using that(1)
  proof (induction j)
    case 0
    then show ?case using step[of 0] assms(2) that(2) by (cases waits) simp_all
  next
    case (Suc j)
    have "min (2 * min (?b * 2 ^ j) maxDelay) maxDelay = min (?b * 2 ^ Suc j) maxDelay"
      using m(1) by (simp add: min_def)
    then show ?case using step[of "Suc j"] Suc that(3) assms(2) by simp
  qed
  then show ?thesis using step[OF assms(2)] range[OF assms(2)] unfolding Let_def by auto
qed

section \<open>Commands\<close>

lemma below_iff:
  assumes "list_all plain_elem bs" and "bs \<noteq> []" and "list_all plain_elem ts"
  shows "has_prefix (render True ts) (render True bs @ ''/'') \<longleftrightarrow> (\<exists>rest. rest \<noteq> [] \<and> ts = bs @ rest)"
proof
  have no_slash: "\<forall>e \<in> set xs. CHR ''/'' \<notin> set e" if "list_all plain_elem xs" for xs
    using that by (auto simp: list_all_iff plain_elem_def)
  have join: "str_join ''/'' (xs @ ys) = str_join ''/'' xs @ ''/'' @ str_join ''/'' ys"
    if "xs \<noteq> []" "ys \<noteq> []" for xs ys :: "string list"
    using that by (induction "''/''" xs rule: str_join.induct) (cases ys; simp)+
  have split: "split_at (CHR ''/'') (str_join ''/'' xs @ CHR ''/'' # r) = xs @ split_at (CHR ''/'') r"
    if "\<forall>e \<in> set xs. CHR ''/'' \<notin> set e" "xs \<noteq> []" for xs r
    using that by (induction "''/''" xs rule: str_join.induct) (auto simp: split_at_append)
  {
    assume "has_prefix (render True ts) (render True bs @ ''/'')"
    then obtain r where r: "str_join ''/'' ts = str_join ''/'' bs @ CHR ''/'' # r"
      using has_prefixD[of "render True ts"] by (fastforce simp: render_def)
    then have "ts \<noteq> []" by auto
    then have "ts = bs @ split_at (CHR ''/'') r"
      using r split[OF no_slash[OF assms(1)] assms(2)] split_at_join[OF no_slash[OF assms(3)]] by metis
    then show "\<exists>rest. rest \<noteq> [] \<and> ts = bs @ rest" by (metis split_at_not_Nil)
  }
  assume "\<exists>rest. rest \<noteq> [] \<and> ts = bs @ rest"
  then obtain rest where "rest \<noteq> []" "ts = bs @ rest" by blast
  then have "render True ts = (render True bs @ ''/'') @ str_join ''/'' rest"
    using join[OF assms(2)] by (simp add: render_def)
  then show "has_prefix (render True ts) (render True bs @ ''/'')" by (simp only: has_prefix_append)
qed

text \<open>A command outside the apps directory is never run: for an absolute apps directory other than the
  root, \<open>buildCmd\<close> accepts a service exactly when the cleaned path of its command (joined to the app's
  directory when it is relative) lies strictly below the apps directory, and that path is the one
  executed, in the app's directory; otherwise the service is refused before its first start.\<close>

theorem command_below_apps_dir:
  assumes "is_abs (sv_apps_dir s)" and "path_elems (sv_apps_dir s) \<noteq> []" and "is_abs (mp_work_dir p)"
  shows "let c = sc_command (mp_config p);
             target = (if is_abs c then c else join_path [mp_work_dir p, c])
         in if \<exists>rest. rest \<noteq> [] \<and> path_elems target = path_elems (sv_apps_dir s) @ rest
            then \<exists>cmd. build_cmd s p = Ok cmd \<and> cm_path cmd = clean target \<and> cm_dir cmd = mp_work_dir p
            else ro_stop_before (rounds 0) \<or>
              map_option (fst \<circ> snd) (supervise e s rounds (Suc n) p) =
                Some (p\<lparr>mp_last_err := ''command '' @ go_quote c @ '' escapes apps directory''\<rparr>)"
proof -
  let ?c = "sc_command (mp_config p)"
  let ?t = "if is_abs ?c then ?c else join_path [mp_work_dir p, ?c]"
  have abs: "is_abs ?t"
  proof (cases "is_abs ?c")
    case False
    have "mp_work_dir p \<noteq> []" using assms(3) by (auto simp: is_abs_def)
    then have "join_path [mp_work_dir p, ?c] = clean (mp_work_dir p @ ''/'' @ ?c)" by (simp add: join_path_def)
    moreover have "is_abs (mp_work_dir p @ ''/'' @ ?c)"
      using assms(3) by (cases "mp_work_dir p") (auto simp: is_abs_def)
    ultimately show ?thesis using False clean_abs[of "mp_work_dir p @ ''/'' @ ?c"] by simp
  qed simp
  have below: "has_prefix (clean ?t) (clean (sv_apps_dir s) @ ''/'') \<longleftrightarrow>
      (\<exists>rest. rest \<noteq> [] \<and> path_elems ?t = path_elems (sv_apps_dir s) @ rest)"
    unfolding clean_render[OF abs] clean_render[OF assms(1)]
    by (rule below_iff[OF path_elems_plain[OF assms(1)] assms(2) path_elems_plain[OF abs]])
  have flip: "(if \<not> is_abs ?c then join_path [mp_work_dir p, ?c] else ?c) = ?t" by simp
  have ok: "\<exists>cmd. build_cmd s p = Ok cmd \<and> cm_path cmd = clean ?t \<and> cm_dir cmd = mp_work_dir p"
    if "has_prefix (clean ?t) (clean (sv_apps_dir s) @ ''/'')"
    unfolding build_cmd_def Let_def flip using that by (simp only: not_True_eq_False if_False) simp
  have bad: "ro_stop_before (rounds 0) \<or> map_option (fst \<circ> snd) (supervise e s rounds (Suc n) p) =
      Some (p\<lparr>mp_last_err := ''command '' @ go_quote ?c @ '' escapes apps directory''\<rparr>)"
    if "\<not> has_prefix (clean ?t) (clean (sv_apps_dir s) @ ''/'')"
  proof -
    have "build_cmd s p = Err (''command '' @ go_quote ?c @ '' escapes apps directory'')"
      unfolding build_cmd_def Let_def flip using that by (simp only: not_False_eq_True if_True)
    then show ?thesis by (simp add: supervise_def Let_def)
  qed
  show ?thesis
  proof (cases "\<exists>rest. rest \<noteq> [] \<and> path_elems ?t = path_elems (sv_apps_dir s) @ rest")
    case True
    then show ?thesis unfolding Let_def if_P[OF True] using ok below by blast
  next
    case False
    then show ?thesis unfolding Let_def if_not_P[OF False] using bad below by blast
  qed
qed

section \<open>The environment\<close>

text \<open>Of several assignments of a variable the last counts (\<open>exec.Cmd\<close>).\<close>

definition env_pair :: "string \<Rightarrow> string \<times> string" where
  "env_pair a = (case index_byte a (CHR ''='') of None \<Rightarrow> (a, []) | Some i \<Rightarrow> (take i a, drop (Suc i) a))"

definition env_value :: "string list \<Rightarrow> string \<Rightarrow> string option" where
  "env_value env k = map_of (rev (map env_pair env)) k"

lemma env_pair_assign: "CHR ''='' \<notin> set k \<Longrightarrow> env_pair (k @ CHR ''='' # v) = (k, v)"
proof -
  assume "CHR ''='' \<notin> set k"
  then have "find_index (\<lambda>x. x = CHR ''='') (k @ CHR ''='' # v) = Some (length k)" by (induction k) auto
  then show ?thesis by (simp add: env_pair_def index_byte_def)
qed

lemma env_value_append: "env_value (a @ b) k = (case env_value b k of None \<Rightarrow> env_value a k | Some v \<Rightarrow> Some v)"
  by (simp add: env_value_def map_add_def split: option.split)

lemma env_value_single: "CHR ''='' \<notin> set k' \<Longrightarrow> env_value [k' @ CHR ''='' # v] k = (if k = k' then Some v else None)"
  by (simp add: env_value_def env_pair_assign)

lemma build_cmd_env:
  assumes "build_cmd s p = Ok cmd"
  shows "cm_env cmd = server_safe_env (mp_work_dir p) @
    (if sv_services s \<noteq> None \<and> sv_proxies s (mp_slug p) \<noteq> None
     then [''VAULT_PROXY_SOCK='' @ vault_sock_path s (mp_slug p)] else []) @
    (if sv_tools s (mp_slug p) \<noteq> None then [''ALF_TOOLS_SOCK='' @ app_tools_sock_path s (mp_slug p)] else []) @
    config_env (mp_config p)"
  using assms by (auto simp: build_cmd_def Let_def split: if_splits)

lemma config_env_value:
  assumes "\<forall>(k, v) \<in> set (sc_env c). CHR ''='' \<notin> set k" and "blocked_key k"
  shows "env_value (config_env c) k = None"
proof -
  have "k \<notin> fst ` set (map env_pair (config_env c))"
    using assms by (auto simp: config_env_def env_pair_assign)
  then show ?thesis by (auto simp: env_value_def map_of_eq_None_iff)
qed

text \<open>The environment of a service: as long as no configured name contains an equals sign, a service file
  cannot set the protected variables. The service sees the daemon's PATH, HOME, USER and SHELL and no
  variable whose name starts with LD_, whatever else it sets.\<close>

theorem protected_env_kept:
  assumes "build_cmd s p = Ok cmd" and "\<forall>(k, v) \<in> set (sc_env (mp_config p)). CHR ''='' \<notin> set k"
  shows "env_value (cm_env cmd) ''PATH'' = Some ''/opt/alf/tools.d:/usr/local/bin:/usr/bin:/bin'' \<and>
    env_value (cm_env cmd) ''HOME'' = Some ''/home/alf'' \<and> env_value (cm_env cmd) ''USER'' = Some ''alf'' \<and>
    env_value (cm_env cmd) ''SHELL'' = Some ''/bin/bash'' \<and> env_value (cm_env cmd) (''LD_'' @ x) = None"
proof -
  let ?sock = "if sv_services s \<noteq> None \<and> sv_proxies s (mp_slug p) \<noteq> None
      then [''VAULT_PROXY_SOCK'' @ CHR ''='' # vault_sock_path s (mp_slug p)] else []"
  let ?tools = "if sv_tools s (mp_slug p) \<noteq> None
      then [''ALF_TOOLS_SOCK'' @ CHR ''='' # app_tools_sock_path s (mp_slug p)] else []"
  have e: "cm_env cmd = server_safe_env (mp_work_dir p) @ ?sock @ ?tools @ config_env (mp_config p)"
    by (simp add: build_cmd_env[OF assms(1)])
  have blocked: "blocked_key ''PATH''" "blocked_key ''HOME''" "blocked_key ''USER''" "blocked_key ''SHELL''"
    "blocked_key (''LD_'' @ x)"
    by (simp_all add: blocked_key_def blockedEnvKeys_def to_upper_def upper_char_def)
  note none = config_env_value[OF assms(2)]
  have s0: "env_value ?sock k = None" "env_value ?tools k = None" if "blocked_key k" for k
  proof -
    have "\<not> blocked_key ''VAULT_PROXY_SOCK''" "\<not> blocked_key ''ALF_TOOLS_SOCK''"
      by (simp_all add: blocked_key_def blockedEnvKeys_def to_upper_def upper_char_def)
    then have "k \<noteq> ''VAULT_PROXY_SOCK''" "k \<noteq> ''ALF_TOOLS_SOCK''" using that by auto
    then show "env_value ?sock k = None" "env_value ?tools k = None"
      by (simp_all add: env_value_single del: append_Cons) (simp_all add: env_value_def)
  qed
  have v: "env_value (cm_env cmd) k = env_value (server_safe_env (mp_work_dir p)) k" if "blocked_key k" for k
    unfolding e env_value_append none[OF that] s0[OF that] by simp
  show ?thesis unfolding v[OF blocked(1)] v[OF blocked(2)] v[OF blocked(3)] v[OF blocked(4)] v[OF blocked(5)]
    by (simp add: server_safe_env_def env_value_def env_pair_def index_byte_def)
qed

text \<open>The way around it: a configured name that contains an equals sign is compared as a whole with the
  blocked names, but it is cut at the equals sign when the process starts. A service file that sets
  the variable named \<open>PATH=x\<close> last therefore replaces the search path by a value that starts with \<open>x\<close>.\<close>

theorem env_key_with_equals_overrides:
  assumes "build_cmd s (p\<lparr>mp_config := c\<lparr>sc_env := kvs @ [(''PATH='' @ x, v)]\<rparr>\<rparr>) = Ok cmd"
  shows "env_value (cm_env cmd) ''PATH'' = Some (x @ ''='' @ v)"
proof -
  have "to_upper (''PATH='' @ x) \<notin> set blockedEnvKeys" "\<not> has_prefix (to_upper (''PATH='' @ x)) ''LD_''"
    by (simp_all add: blockedEnvKeys_def to_upper_def upper_char_def)
  then have "\<not> blocked_key (''PATH='' @ x)" unfolding blocked_key_def by blast
  then obtain pre where "cm_env cmd = pre @ [''PATH'' @ CHR ''='' # (x @ ''='' @ v)]"
    using build_cmd_env[OF assms] by (simp add: config_env_def)
  then show ?thesis by (simp add: env_value_append env_value_single del: append_Cons)
qed

section \<open>Histories\<close>

text \<open>The operations on a supervisor; a panic (\<open>None\<close>) ends the history.\<close>

datatype sup_op =
    SupStart "string list"
  | SupStartApp string
  | SupStopApp string
  | SupRestartApp string
  | SupToken string
  | SupStop

fun sup_step1 :: "sup_env \<Rightarrow> sup_op \<Rightarrow> supervisor \<Rightarrow> supervisor option" where
  "sup_step1 e (SupStart order) s = Some (start_all e order s)"
| "sup_step1 e (SupStartApp slug) s = Some (start_app e slug s)"
| "sup_step1 e (SupStopApp slug) s = stop_app slug s"
| "sup_step1 e (SupRestartApp slug) s = restart_app e slug s"
| "sup_step1 e (SupToken token) s = Some (update_proxy_token token s)"
| "sup_step1 e SupStop s = stop_all s"

definition sup_step :: "sup_env \<times> sup_op \<Rightarrow> supervisor option \<Rightarrow> supervisor option" where
  "sup_step op s = Option.bind s (sup_step1 (fst op) (snd op))"

text \<open>Every vault proxy belongs to a supervised app, serves what the app declares and has the current
  token.\<close>

definition proxies_ok :: "(string \<Rightarrow> string list) \<Rightarrow> supervisor \<Rightarrow> bool" where
  "proxies_ok f s \<longleftrightarrow> sv_services s = Some f \<and>
     (\<forall>slug vp. sv_proxies s slug = Some vp \<longrightarrow>
        sv_procs s slug \<noteq> None \<and> vp_allowed vp = Some (f slug) \<and> f slug \<noteq> [] \<and> vp_token vp = sv_token s)"

definition sup_inv :: "(string \<Rightarrow> string list) \<Rightarrow> supervisor option \<Rightarrow> bool" where
  "sup_inv f s = (case s of None \<Rightarrow> True | Some s \<Rightarrow> proxies_ok f s)"

lemma start_service_ok: "proxies_ok f s \<Longrightarrow> proxies_ok f (start_service e slug c s)"
  by (auto simp: proxies_ok_def start_service_def start_vault_proxy_def start_app_tools_def new_vault_proxy_def Let_def)

lemma start_all_ok: "proxies_ok f s \<Longrightarrow> proxies_ok f (start_all e order s)"
  unfolding start_all_def
  by (induction order arbitrary: s) (auto simp: start_service_ok split: option.split)

lemma start_app_ok: "proxies_ok f s \<Longrightarrow> proxies_ok f (start_app e slug s)"
  by (auto simp: start_app_def Let_def start_service_ok split: option.split sum.split)

lemma stop_app_ok: "proxies_ok f s \<Longrightarrow> stop_app slug s = Some s' \<Longrightarrow> proxies_ok f s'"
  by (auto simp: proxies_ok_def stop_app_def stop_vault_proxy_def stop_app_tools_def Let_def
      split: option.splits if_splits)

lemma sup_step_ok:
  assumes "proxies_ok f s" and "sup_step1 e op s = Some s'" shows "proxies_ok f s'"
proof (cases op)
  case (SupRestartApp slug)
  then show ?thesis using assms stop_app_ok start_app_ok by (auto simp: restart_app_def)
next
  case (SupToken token)
  then show ?thesis using assms
    by (auto simp: proxies_ok_def update_proxy_token_def update_token_def)
next
  case SupStop
  then show ?thesis using assms by (auto simp: proxies_ok_def stop_all_def split: if_splits)
qed (use assms start_all_ok start_app_ok stop_app_ok in auto)

interpretation sup: op_machine "Some (set_vault socket token f (new_supervisor dir))" sup_step "sup_inv f"
  for socket token f dir
proof
  show "sup_inv f (Some (set_vault socket token f (new_supervisor dir)))"
    by (simp add: sup_inv_def proxies_ok_def set_vault_def)
  fix s op assume "sup_inv f s"
  then show "sup_inv f (sup_step op s)"
    using sup_step_ok by (cases s) (auto simp: sup_step_def sup_inv_def split: option.split)
qed

text \<open>What an app can reach of the vault. After any history of starts, stops, restarts and new tokens, a
  request on the vault socket of an app is sent to the vault server only if the app is supervised and
  declares vault services, the path is /health, /services or one of a declared service, and it then
  carries the token that was set last.\<close>

theorem app_vault_access:
  assumes "fold sup_step ops (Some (set_vault socket token f (new_supervisor dir))) = Some s"
    and "sv_proxies s slug = Some vp"
    and "fst (proxy_serve_http ok vault vp r rawQuery body new_writer) = Some u"
  shows "sv_procs s slug \<noteq> None \<and> f slug \<noteq> [] \<and> opens (Some (f slug)) (rq_path r) \<and>
    up_headers u ''Authorization'' = (if sv_token s \<noteq> [] then Some (''Bearer '' @ sv_token s) else None)"
proof -
  have "sup_inv f (Some s)" using sup.run_inv[of f ops socket token dir] assms(1) by simp
  then have vp: "sv_procs s slug \<noteq> None" "vp_allowed vp = Some (f slug)" "f slug \<noteq> []" "vp_token vp = sv_token s"
    using assms(2) by (auto simp: sup_inv_def proxies_ok_def)
  have "opens (vp_allowed vp) (rq_path r) \<and> ok (rq_method r) (up_url (upstream_request vp r rawQuery body))"
    using serve_refuses[of vp r ok rawQuery body vault] assms(3) by auto
  moreover from this have "u = upstream_request vp r rawQuery body"
    using serve_forwards[of vp r ok rawQuery body vault new_writer] assms(3) by simp
  ultimately show ?thesis using vp upstream_request_headers(1)[of vp r rawQuery body] by simp
qed

text \<open>Shutting down twice panics: after \<open>Stop\<close> the services stay in the map with their stop channel
  closed, so a later \<open>StopApp\<close> or \<open>RestartApp\<close> of any of them, or a second \<open>Stop\<close>, closes a closed
  channel.\<close>

theorem stop_after_shutdown_panics:
  assumes "stop_all s = Some s'"
  shows "stop_all s' = None \<and>
    (if sv_procs s slug = None then stop_app slug s' = Some s' else stop_app slug s' = None \<and> restart_app e slug s' = None)"
  using assms by (auto simp: stop_all_def stop_app_def restart_app_def split: if_splits option.split)

section \<open>Examples\<close>

definition example_service :: service_config where
  "example_service = \<lparr>sc_name = [], sc_command = ''run'', sc_args = [], sc_env = [(''PATH=/x'', ''y'')], sc_restart = [],
     sc_restart_delay = [], sc_max_restarts = 2, sc_enabled = True\<rparr>"

definition example_env :: sup_env where
  "example_env = \<lparr>se_entries = None, se_service_file = (\<lambda>_. Some (Ok example_service)), se_vault_listen = (\<lambda>_. True),
     se_tools_listen = (\<lambda>_. True), se_parse_duration = (\<lambda>_. Err ''bad'')\<rparr>"

definition example_proc :: managed_proc where
  "example_proc = \<lparr>mp_config = with_defaults ''a'' example_service, mp_slug = ''a'', mp_work_dir = ''/apps/a'',
     mp_stopped = False, mp_restarts = 0, mp_started = 0, mp_last_err = [], mp_last_crash = 0\<rparr>"

definition crash :: round where
  "crash = \<lparr>ro_stop_before = False, ro_started = 0, ro_start_err = None, ro_exit_err = Some ''crash'',
     ro_stop_after = False, ro_crash = 1, ro_now = 1, ro_stop_wait = False\<rparr>"

lemma example_proc_sel [simp]:
  "sc_max_restarts (mp_config example_proc) = 2" "sc_command (mp_config example_proc) = ''run''"
  "sc_restart_delay (mp_config example_proc) = []" "mp_restarts example_proc = 0"
  "mp_work_dir example_proc = ''/apps/a''" "sc_restart (mp_config example_proc) = ''always''"
  by (simp_all add: example_proc_def with_defaults_def example_service_def)

theorem supervise_terminates_witness:
  "\<exists>why p' waits. supervise example_env (new_supervisor ''/apps'') (\<lambda>_. crash) 2 example_proc = Some (why, p', waits) \<and>
     mp_restarts p' \<le> 2"
  using supervise_terminates[of example_proc example_env "new_supervisor ''/apps''" "\<lambda>_. crash"] by auto

lemma example_build:
  "\<exists>cmd. build_cmd (new_supervisor ''/apps'') (example_proc\<lparr>mp_config := c\<lparr>sc_command := ''run''\<rparr>\<rparr>) = Ok cmd"
proof -
  have "is_abs ''/apps''" "\<not> is_abs ''run''" by (simp_all add: is_abs_def)
  moreover have "clean (join_path [''/apps/a'', ''run'']) = ''/apps/a/run''" "clean ''/apps'' = ''/apps''"
    by (simp_all add: clean_def join_path_def path_elems_def render_def is_abs_def)
  ultimately show ?thesis by (simp add: build_cmd_def new_supervisor_def Let_def)
qed

lemma example_run:
  "supervise example_env (new_supervisor ''/apps'') (\<lambda>_. crash) 2 example_proc =
   Some (GaveUp, example_proc\<lparr>mp_restarts := 2, mp_last_err := ''crash'', mp_last_crash := 1\<rparr>, [3 * second])"
proof -
  have "\<exists>cmd. build_cmd (new_supervisor ''/apps'') example_proc = Ok cmd"
    using example_build[of "mp_config example_proc"] by (simp add: example_proc_def with_defaults_def example_service_def)
  then show ?thesis
    by (auto simp: supervise_def base_delay_def crash_def numeral_2_eq_2 time_sub_def go_time max_duration_def
        min_duration_def Let_def) (simp add: example_proc_def)
qed

theorem backoff_exact_witness: "[3 * second] ! 0 = min (3 * second * 2 ^ 0) maxDelay"
  using backoff_exact[OF example_run, where i = 0]
  by (simp add: base_delay_def stable_def crash_def time_sub_def go_time max_duration_def min_duration_def maxDelay_def Let_def)

theorem command_below_apps_dir_witness:
  "\<exists>cmd. build_cmd (new_supervisor ''/apps'') example_proc = Ok cmd \<and> cm_path cmd = ''/apps/a/run''"
proof -
  have e: "\<not> is_abs ''run''" "is_abs ''/apps''" "is_abs ''/apps/a''" "path_elems ''/apps'' = [''apps'']"
    "join_path [''/apps/a'', ''run''] = ''/apps/a/run''" "clean ''/apps/a/run'' = ''/apps/a/run''"
    "path_elems ''/apps/a/run'' = [''apps'', ''a'', ''run'']"
    by (simp_all add: clean_def join_path_def path_elems_def render_def is_abs_def)
  show ?thesis
    using command_below_apps_dir[where s = "new_supervisor ''/apps''" and p = example_proc] e
    by (auto simp: new_supervisor_def Let_def)
qed

theorem protected_env_kept_witness:
  "\<exists>cmd. build_cmd (new_supervisor ''/apps'') (example_proc\<lparr>mp_config := example_service\<lparr>sc_env := [(''PATH'', ''/evil'')]\<rparr>\<rparr>) = Ok cmd \<and>
     env_value (cm_env cmd) ''PATH'' = Some ''/opt/alf/tools.d:/usr/local/bin:/usr/bin:/bin''"
proof -
  let ?p = "example_proc\<lparr>mp_config := example_service\<lparr>sc_env := [(''PATH'', ''/evil'')]\<rparr>\<rparr>"
  obtain cmd where c: "build_cmd (new_supervisor ''/apps'') ?p = Ok cmd"
    using example_build[of "example_service\<lparr>sc_env := [(''PATH'', ''/evil'')]\<rparr>"] by (auto simp: example_service_def)
  then show ?thesis using protected_env_kept[OF c] by auto
qed

theorem env_key_with_equals_overrides_witness:
  "\<exists>cmd. build_cmd (new_supervisor ''/apps'') (example_proc\<lparr>mp_config := example_service\<lparr>sc_env := [] @ [(''PATH='' @ ''/evil:'', [])]\<rparr>\<rparr>) = Ok cmd \<and>
     env_value (cm_env cmd) ''PATH'' = Some (''/evil:'' @ ''='' @ [])"
proof -
  let ?c = "example_service\<lparr>sc_env := [] @ [(''PATH='' @ ''/evil:'', [])]\<rparr>"
  obtain cmd where c: "build_cmd (new_supervisor ''/apps'') (example_proc\<lparr>mp_config := ?c\<rparr>) = Ok cmd"
    using example_build[of ?c] by (auto simp: example_service_def)
  from env_key_with_equals_overrides[OF c] c show ?thesis by blast
qed

theorem app_vault_access_witness:
  "let s0 = set_vault ''vault'' ''t0'' (\<lambda>_. [''mail'']) (new_supervisor ''/apps'');
       s = update_proxy_token ''t1'' (start_app example_env ''a'' s0);
       r = \<lparr>rq_method = ''GET'', rq_path = ''/proxy/mail/x'', rq_headers = Map.empty, rq_cookies = [], rq_query = Map.empty,
            rq_form = Map.empty, rq_tls = False, rq_remote = [], rq_app_slug = None\<rparr>
   in \<exists>vp u. sv_proxies s ''a'' = Some vp \<and>
        fst (proxy_serve_http (\<lambda>_ _. True) (\<lambda>_. None) vp r [] [] new_writer) = Some u \<and>
        up_headers u ''Authorization'' = Some ''Bearer t1''"
proof -
  define s0 where "s0 = set_vault ''vault'' ''t0'' (\<lambda>_. [''mail'']) (new_supervisor ''/apps'')"
  define s where "s = update_proxy_token ''t1'' (start_app example_env ''a'' s0)"
  define r where "r = \<lparr>rq_method = ''GET'', rq_path = ''/proxy/mail/x'', rq_headers = Map.empty, rq_cookies = [],
      rq_query = Map.empty, rq_form = Map.empty, rq_tls = False, rq_remote = [], rq_app_slug = None\<rparr>"
  have run: "fold sup_step [(example_env, SupStartApp ''a''), (example_env, SupToken ''t1'')] (Some s0) = Some s"
    by (simp add: sup_step_def s_def)
  have vp: "sv_proxies s ''a'' = Some (new_vault_proxy ''vault'' ''t1'' (Some [''mail'']))"
    by (simp add: s_def s0_def start_app_def example_env_def example_service_def with_defaults_def start_service_def
        start_vault_proxy_def start_app_tools_def set_vault_def new_supervisor_def update_proxy_token_def
        update_token_def new_vault_proxy_def Let_def)
  have "opens (Some [''mail'']) ''/proxy/mail/x''"
    unfolding opens_def by (intro disjI2 exI[of _ "''mail''"] exI[of _ "''/x''"]) simp
  then have u: "fst (proxy_serve_http (\<lambda>_ _. True) (\<lambda>_. None) (new_vault_proxy ''vault'' ''t1'' (Some [''mail''])) r [] [] new_writer) =
      Some (upstream_request (new_vault_proxy ''vault'' ''t1'' (Some [''mail''])) r [] [])"
    by (intro serve_forwards) (simp_all add: new_vault_proxy_def r_def)
  have t: "sv_token s = ''t1''" by (simp add: s_def update_proxy_token_def)
  show ?thesis unfolding Let_def s0_def[symmetric] s_def[symmetric] r_def[symmetric]
    using app_vault_access[OF run[unfolded s0_def] vp u] vp u t by auto
qed

theorem stop_after_shutdown_panics_witness:
  "Option.bind (stop_all (start_app example_env ''a'' (new_supervisor ''/apps''))) (stop_app ''a'') = None"
proof -
  let ?s = "start_app example_env ''a'' (new_supervisor ''/apps'')"
  have p: "sv_procs ?s ''a'' \<noteq> None" "sv_stop ?s = False" "\<forall>p \<in> ran (sv_procs ?s). \<not> mp_stopped p"
    by (auto simp: start_app_def example_env_def example_service_def with_defaults_def start_service_def
        start_app_tools_def new_supervisor_def Let_def ran_def)
  then obtain s' where s': "stop_all ?s = Some s'" by (auto simp: stop_all_def)
  from stop_after_shutdown_panics[OF s', of "''a''"] p s' show ?thesis by simp
qed

end
