(* ===== verification/Skills.thy ===== *)
theory Skills
  imports Capability_Registry Go_Path
begin

text \<open>
  \<open>internal/skills\<close>: the parsing of \<open>SKILL.md\<close> files and the store (\<open>store.go\<close>), the catalog, trigger
  matching and the prompt blocks (\<open>catalog.go\<close>, \<open>inject.go\<close>), and the mirror into the capability
  registry (\<open>capability_adapter.go\<close>). The directories and files are arguments, as is the order in
  which a map is collected before it is sorted; a Go slice expression out of range is \<open>None\<close>.
\<close>

section \<open>Strings\<close>

text \<open>\<open>strings.Fields\<close>: the maximal runs of characters that are not space.\<close>

fun words_from :: "string \<Rightarrow> string \<Rightarrow> string list" where
  "words_from acc [] = (if acc = [] then [] else [rev acc])"
| "words_from acc (c # s) =
     (if is_space c then (if acc = [] then words_from [] s else rev acc # words_from [] s)
      else words_from (c # acc) s)"

definition str_fields :: "string \<Rightarrow> string list" where "str_fields s = words_from [] s"

text \<open>\<open>filepath.Base\<close>.\<close>

definition path_base :: "string \<Rightarrow> string" where
  "path_base p =
     (if p = [] then ''.''
      else let q = trim_right_char (CHR ''/'') p
           in if q = [] then ''/'' else last (split_at (CHR ''/'') q))"

text \<open>\<open>unicode.IsLetter\<close> and \<open>unicode.IsDigit\<close> of the rune with the value of a byte (Latin-1).\<close>

definition is_letter_byte :: "char \<Rightarrow> bool" where
  "is_letter_byte c \<longleftrightarrow>
     (let n = of_char c :: nat in
      (65 \<le> n \<and> n \<le> 90) \<or> (97 \<le> n \<and> n \<le> 122) \<or> n \<in> {170, 181, 186} \<or>
      (192 \<le> n \<and> n \<le> 214) \<or> (216 \<le> n \<and> n \<le> 246) \<or> (248 \<le> n \<and> n \<le> 255))"

definition is_digit_byte :: "char \<Rightarrow> bool" where
  "is_digit_byte c \<longleftrightarrow> (let n = of_char c :: nat in 48 \<le> n \<and> n \<le> 57)"

abbreviation word_char :: "char \<Rightarrow> bool" where "word_char c \<equiv> is_letter_byte c \<or> is_digit_byte c"

text \<open>The lines of a \<open>bufio.Scanner\<close>: without the final newline, one carriage return dropped, and none
  after a line that does not fit its buffer of 64 KB.\<close>

definition drop_cr :: "string \<Rightarrow> string" where
  "drop_cr s = (if s \<noteq> [] \<and> last s = CHR 0x0D then butlast s else s)"

definition scan_lines :: "string \<Rightarrow> string list" where
  "scan_lines s =
     (let ls = split_at (CHR 0x0A) s; ls' = (if last ls = [] then butlast ls else ls)
      in map drop_cr (takeWhile (\<lambda>l. length l \<le> 65535) ls'))"

section \<open>Data\<close>

record skill =
  sk_name :: string
  sk_description :: string
  sk_version :: string
  sk_triggers :: "string list"
  sk_tier :: string
  sk_prompt :: string
  sk_dir :: string

record skill_store =
  ks_dirs :: "string list"
  ks_current :: "string \<rightharpoonup> skill"

text \<open>The files: the entries of a directory with whether each is a directory, and the bytes of a file.\<close>

record skill_fs =
  sf_list :: "string \<Rightarrow> (string \<times> bool) list option"
  sf_read :: "string \<Rightarrow> string option"

section \<open>Parsing\<close>

definition unquote :: "string \<Rightarrow> string" where
  "unquote s =
     (if 2 \<le> length s \<and> ((hd s = CHR 0x22 \<and> last s = CHR 0x22) \<or> (hd s = CHR 0x27 \<and> last s = CHR 0x27))
      then butlast (tl s) else s)"

definition trim_suffix :: "string \<Rightarrow> string \<Rightarrow> string" where
  "trim_suffix s p = (if has_suffix s p then take (length s - length p) s else s)"

definition parse_list :: "string \<Rightarrow> string list" where
  "parse_list val =
     (let v = trim_suffix (trim_prefix (trim_space val) ''['') '']''
      in map to_lower (filter (\<lambda>s. s \<noteq> []) (map (\<lambda>s. unquote (trim_space s)) (split_at (CHR '','') v))))"

definition parse_kv :: "string \<Rightarrow> string \<times> string \<times> bool" where
  "parse_kv line =
     (case index_byte line (CHR '':'') of
        None \<Rightarrow> ([], [], False)
      | Some i \<Rightarrow>
          let key = trim_space (take i line); val = unquote (trim_space (drop (i + 1) line))
          in (key, val, key \<noteq> []))"

record frontmatter =
  fm_name :: string
  fm_description :: string
  fm_version :: string
  fm_triggers :: "string list"
  fm_tier :: string
  fm_body :: string

definition no_frontmatter :: "string \<Rightarrow> frontmatter" where
  "no_frontmatter content =
     \<lparr>fm_name = [], fm_description = [], fm_version = [], fm_triggers = [], fm_tier = [], fm_body = trim_space content\<rparr>"

definition front_line :: "string \<Rightarrow> frontmatter \<Rightarrow> frontmatter" where
  "front_line line f =
     (let (key, val, ok) = parse_kv line in
      if \<not> ok then f
      else if key = ''name'' then f\<lparr>fm_name := val\<rparr>
      else if key = ''description'' then f\<lparr>fm_description := val\<rparr>
      else if key = ''version'' then f\<lparr>fm_version := val\<rparr>
      else if key = ''triggers'' then f\<lparr>fm_triggers := parse_list val\<rparr>
      else if key = ''tier'' then f\<lparr>fm_tier := val\<rparr>
      else f)"

text \<open>\<open>strings.TrimLeft\<close> with the byte order mark as its cutset.\<close>

fun strip_bom :: "string \<Rightarrow> string" where
  "strip_bom (a # b # c # s) =
     (if a = CHR 0xEF \<and> b = CHR 0xBB \<and> c = CHR 0xBF then strip_bom s else a # b # c # s)"
| "strip_bom s = s"

definition parse_frontmatter :: "string \<Rightarrow> frontmatter" where
  "parse_frontmatter content0 =
     (let content = strip_bom content0 in
      if \<not> has_prefix (trim_space content) ''---'' then no_frontmatter content
      else
        let ls = drop 1 (scan_lines content);
            front = takeWhile (\<lambda>l. trim_space l \<noteq> ''---'') ls;
            after = dropWhile (\<lambda>l. trim_space l \<noteq> ''---'') ls
        in if after = [] then no_frontmatter content
           else (fold front_line front (no_frontmatter []))
                  \<lparr>fm_body := trim_space (str_join newline (tl after))\<rparr>)"

definition ref_files :: "skill_fs \<Rightarrow> string \<Rightarrow> string list" where
  "ref_files fs dir =
     (case sf_list fs dir of
        None \<Rightarrow> []
      | Some es \<Rightarrow>
          concat (map (\<lambda>(name, is_dir).
            if is_dir \<or> \<not> has_suffix name ''.md'' \<or> name = ''SKILL.md'' then []
            else (case sf_read fs (join_path [dir, name]) of
                    None \<Rightarrow> [] | Some d \<Rightarrow> if d = [] then [] else [d])) es))"

definition parse_skill :: "skill_fs \<Rightarrow> string \<Rightarrow> skill option" where
  "parse_skill fs dir =
     (case sf_read fs (join_path [dir, ''SKILL.md'']) of
        None \<Rightarrow> None
      | Some d \<Rightarrow>
          let f = parse_frontmatter d;
              name = (if fm_name f = [] then path_base dir else fm_name f);
              triggers = (if to_lower name \<in> to_lower ` set (fm_triggers f) then fm_triggers f
                          else fm_triggers f @ [name]);
              refs = ref_files fs dir;
              prompt = (if refs \<noteq> [] then fm_body f @ newline @ newline @ str_join (newline @ newline) refs
                        else fm_body f)
          in Some \<lparr>sk_name = name, sk_description = fm_description f, sk_version = fm_version f,
                   sk_triggers = triggers, sk_tier = fm_tier f, sk_prompt = prompt, sk_dir = dir\<rparr>)"

section \<open>The store\<close>

fun load_entries :: "skill_fs \<Rightarrow> string \<Rightarrow> (string \<times> bool) list \<Rightarrow> (string \<rightharpoonup> skill) \<Rightarrow> (string \<rightharpoonup> skill)" where
  "load_entries fs dir [] out = out"
| "load_entries fs dir ((name, is_dir) # es) out =
     load_entries fs dir es
       (if \<not> is_dir then out
        else case parse_skill fs (join_path [dir, name]) of None \<Rightarrow> out | Some sk \<Rightarrow> out(sk_name sk \<mapsto> sk))"

definition load_dir :: "skill_fs \<Rightarrow> string \<Rightarrow> string \<rightharpoonup> skill" where
  "load_dir fs dir =
     (if dir = [] then Map.empty
      else case sf_list fs dir of None \<Rightarrow> Map.empty | Some es \<Rightarrow> load_entries fs dir es Map.empty)"

definition reload_skills :: "skill_fs \<Rightarrow> skill_store \<Rightarrow> skill_store" where
  "reload_skills fs s = s\<lparr>ks_current := fold (\<lambda>dir merged. merged ++ load_dir fs dir) (ks_dirs s) Map.empty\<rparr>"

definition new_skill_store :: "skill_fs \<Rightarrow> string list \<Rightarrow> skill_store" where
  "new_skill_store fs dirs = reload_skills fs \<lparr>ks_dirs = dirs, ks_current = Map.empty\<rparr>"

text \<open>The keys of the map are the names, which are distinct, so sorting the skills by name is sorting the
  keys.\<close>

definition skills_at :: "string list \<Rightarrow> skill_store \<Rightarrow> skill list" where
  "skills_at names s = concat (map (\<lambda>n. case ks_current s n of None \<Rightarrow> [] | Some sk \<Rightarrow> [sk]) names)"

definition all_skills :: "string list \<Rightarrow> skill_store \<Rightarrow> skill list" where
  "all_skills order s = skills_at (sort order) s"

definition get_skill :: "string \<Rightarrow> skill_store \<Rightarrow> skill option" where
  "get_skill name s = ks_current s name"

fun add_triggers :: "string list \<Rightarrow> string list \<Rightarrow> string list" where
  "add_triggers [] ts = ts"
| "add_triggers (n # ns) ts =
     add_triggers ns (if n \<noteq> [] \<and> to_lower n \<notin> to_lower ` set ts then ts @ [n] else ts)"

definition add_dynamic_triggers :: "string \<Rightarrow> string list \<Rightarrow> skill_store \<Rightarrow> skill_store" where
  "add_dynamic_triggers name ns s =
     (case ks_current s name of
        None \<Rightarrow> s
      | Some sk \<Rightarrow>
          if ns = [] then s
          else s\<lparr>ks_current := (ks_current s)(name \<mapsto> sk\<lparr>sk_triggers := add_triggers ns (sk_triggers sk)\<rparr>)\<rparr>)"

section \<open>Matching\<close>

text \<open>The loop of \<open>containsWord\<close> from position \<open>i\<close>; slicing past the end panics.\<close>

function contains_from :: "string \<Rightarrow> string \<Rightarrow> nat \<Rightarrow> bool option" where
  "contains_from h n i =
     (if length h < i then None
      else case str_index (drop i h) n of
        None \<Rightarrow> Some False
      | Some idx \<Rightarrow>
          let start = i + idx; end' = start + length n;
              leftOK = (start = 0 \<or> \<not> word_char (h ! (start - 1)));
              rightOK = (end' = length h \<or> \<not> word_char (h ! end'))
          in if leftOK \<and> rightOK then Some True else contains_from h n (start + 1))"
  by pat_completeness auto
termination
  by (relation "measure (\<lambda>(h, n, i). length h + 1 - i)") auto

declare contains_from.simps [simp del]

definition contains_word :: "string \<Rightarrow> string \<Rightarrow> bool option" where
  "contains_word h n = contains_from h n 0"

fun all_words :: "string \<Rightarrow> string list \<Rightarrow> bool option" where
  "all_words msg [] = Some True"
| "all_words msg (w # ws) =
     (case contains_word msg w of
        None \<Rightarrow> None | Some b \<Rightarrow> if b then all_words msg ws else Some False)"

definition match_trigger :: "string \<Rightarrow> string \<Rightarrow> bool option" where
  "match_trigger msg trigger =
     (let ws = str_fields trigger
      in if length ws \<le> 1 then contains_word msg trigger else all_words msg ws)"

fun any_trigger :: "string \<Rightarrow> string list \<Rightarrow> bool option" where
  "any_trigger msg [] = Some False"
| "any_trigger msg (t # ts) =
     (case match_trigger msg (to_lower t) of
        None \<Rightarrow> None | Some b \<Rightarrow> if b then Some True else any_trigger msg ts)"

fun match_loop :: "string \<Rightarrow> skill list \<Rightarrow> string set \<Rightarrow> skill list option" where
  "match_loop msg [] seen = Some []"
| "match_loop msg (sk # sks) seen =
     (if sk_triggers sk = [] \<or> sk_name sk \<in> seen then match_loop msg sks seen
      else case any_trigger msg (sk_triggers sk) of
        None \<Rightarrow> None
      | Some b \<Rightarrow>
          if b then map_option (\<lambda>rest. sk # rest) (match_loop msg sks (insert (sk_name sk) seen))
          else match_loop msg sks seen)"

definition match_triggers :: "string list \<Rightarrow> skill_store \<Rightarrow> string \<Rightarrow> skill list option" where
  "match_triggers order s message = match_loop (to_lower message) (all_skills order s) {}"

fun resolve_min_tier :: "skill_store \<Rightarrow> string list \<Rightarrow> string" where
  "resolve_min_tier s [] = []"
| "resolve_min_tier s (name # names) =
     (case get_skill name s of
        None \<Rightarrow> resolve_min_tier s names
      | Some sk \<Rightarrow> if sk_tier sk \<noteq> [] then sk_tier sk else resolve_min_tier s names)"

section \<open>Prompt blocks\<close>

text \<open>The arrow of the catalog is three bytes of UTF-8.\<close>

definition catalog_entry :: "skill \<Rightarrow> string" where
  "catalog_entry sk = ''- '' @ sk_name sk @ '': '' @ sk_description sk @ newline @ ''  '' @
     [CHR 0xE2, CHR 0x86, CHR 0x92] @ '' '' @ sk_dir sk @ ''/''"

definition build_catalog :: "string list \<Rightarrow> skill_store \<Rightarrow> string" where
  "build_catalog order s =
     (let entries = map catalog_entry (filter (\<lambda>sk. sk_description sk \<noteq> []) (all_skills order s))
      in if entries = [] then []
         else ''=== [Available Skills] ==='' @ newline @
              ''Before saying you cannot do something, check if a skill below handles it.'' @ newline @
              concat (map (\<lambda>e. e @ newline) entries) @ newline @
              ''To use a skill, read its SKILL.md file for detailed instructions.'')"

definition build_injection :: "skill list \<Rightarrow> string" where
  "build_injection matched =
     (if matched = [] then []
      else ''=== [ACTIVE SKILLS - YOU MUST USE THESE] ==='' @ newline @
           ''The following skills are active for this conversation.'' @ newline @
           ''MANDATORY: Read each skill's SKILL.md file NOW and follow its instructions.'' @ newline @
           ''Do NOT claim you cannot do something if an active skill provides the capability.'' @ newline @ newline @
           concat (map (\<lambda>sk. ''- **'' @ sk_name sk @ ''**: '' @
             (if sk_description sk = [] then ''(no description)'' else sk_description sk) @ newline @
             ''  Read: '' @ sk_dir sk @ ''/SKILL.md'' @ newline) matched) @ newline @
           ''You MUST read these SKILL.md files before responding to skill-related requests.'' @ newline)"

definition skills_named :: "skill_store \<Rightarrow> string list \<Rightarrow> skill list" where
  "skills_named s names = concat (map (\<lambda>n. case get_skill n s of None \<Rightarrow> [] | Some sk \<Rightarrow> [sk]) names)"

definition build_injection_by_name :: "skill_store \<Rightarrow> string list \<Rightarrow> string" where
  "build_injection_by_name s names = (if names = [] then [] else build_injection (skills_named s names))"

definition build_injection_block :: "skill_store \<Rightarrow> string list \<Rightarrow> string" where
  "build_injection_block s names =
     (let blocks = map (\<lambda>sk. ''--- '' @ sk_name sk @ '' ---'' @ newline @ sk_prompt sk)
                     (filter (\<lambda>sk. sk_prompt sk \<noteq> []) (skills_named s names))
      in if blocks = [] then [] else str_join (newline @ newline) blocks)"

section \<open>The mirror in the capability registry\<close>

definition skill_manifest :: "skill \<Rightarrow> manifest" where
  "skill_manifest sk =
     \<lparr>mf_id = sk_name sk, mf_kind = KindSkill, mf_name = sk_name sk, mf_version = sk_version sk,
      mf_description = sk_description sk,
      mf_permissions = \<lparr>pm_file_paths = [], pm_networks = [], pm_secrets = []\<rparr>\<rparr>"

definition skill_execute :: "skill \<Rightarrow> cap_output res" where
  "skill_execute sk = Ok \<lparr>co_data = Some (AnyString (sk_prompt sk)), co_error = []\<rparr>"

definition skill_capability :: "skill \<Rightarrow> (cap_output res) capability" where
  "skill_capability sk = \<lparr>cap_manifest = skill_manifest sk, cap_execute = skill_execute sk\<rparr>"

fun mirror_loop :: "skill list \<Rightarrow> (cap_output res) registry \<Rightarrow> string option \<times> (cap_output res) registry" where
  "mirror_loop [] r = (None, r)"
| "mirror_loop (sk # sks) r =
     (if sk_description sk = [] then mirror_loop sks r
      else case replace_cap (Some (skill_capability sk)) r of
        (Some e, r') \<Rightarrow> (Some e, r')
      | (None, r') \<Rightarrow> mirror_loop sks r')"

definition mirror_into ::
  "string list \<Rightarrow> skill_store \<Rightarrow> (cap_output res) registry \<Rightarrow> string option \<times> (cap_output res) registry" where
  "mirror_into order s r = mirror_loop (all_skills order s) r"

end
