(* ===== verification/Skills_Properties.thy ===== *)
theory Skills_Properties
  imports Skills
begin

text \<open>
  What holds of the skills: word matching is exact and never slices out of range on the triggers a
  store can hold, and the shape of a store over all its operations.
\<close>

section \<open>Words\<close>

text \<open>The needle stands at \<open>p\<close> as a word.\<close>

definition word_at :: "string \<Rightarrow> string \<Rightarrow> nat \<Rightarrow> bool" where
  "word_at h n p \<longleftrightarrow> prefix n (drop p h) \<and> p + length n \<le> length h \<and>
     (p = 0 \<or> \<not> word_char (h ! (p - 1))) \<and>
     (p + length n = length h \<or> \<not> word_char (h ! (p + length n)))"

lemma contains_from_exact:
  assumes "n \<noteq> []" and "i \<le> length h"
  shows "contains_from h n i = Some (\<exists>p \<ge> i. word_at h n p)"
  using assms
proof (induction h n i rule: contains_from.induct)
  case (1 h n i)
  show ?case
  proof (cases "str_index (drop i h) n")
    case None
    have "\<not> word_at h n p" if "i \<le> p" for p
      using str_index_absent[OF None, of "p - i"] that by (simp add: word_at_def)
    with None "1.prems" show ?thesis by (subst contains_from.simps) auto
  next
    case (Some idx)
    let ?p = "i + idx"
    from str_index_first[OF Some] have occ: "prefix n (drop ?p h)" "?p + length n \<le> length h"
      and first: "\<forall>k < idx. \<not> prefix n (drop (i + k) h)"
      using "1.prems"(2) by (auto simp: add.commute)
    show ?thesis
    proof (cases "word_at h n ?p")
      case True
      then have "contains_from h n i = Some True"
        using Some "1.prems" by (subst contains_from.simps) (auto simp: word_at_def Let_def)
      moreover have "\<exists>p \<ge> i. word_at h n p" using True by (intro exI[of _ ?p]) simp
      ultimately show ?thesis by simp
    next
      case False
      have "?p + 1 \<le> length h" using occ(2) "1.prems"(1) by (cases n) auto
      then have IH: "contains_from h n (?p + 1) = Some (\<exists>p \<ge> ?p + 1. word_at h n p)"
        using 1 Some False occ by (simp add: word_at_def)
      have "contains_from h n i = contains_from h n (?p + 1)"
        using Some "1.prems" False occ by (subst contains_from.simps) (auto simp: word_at_def Let_def)
      moreover have "(\<exists>p \<ge> i. word_at h n p) = (\<exists>p \<ge> ?p + 1. word_at h n p)"
      proof -
        have "\<not> word_at h n p" if "i \<le> p" "p < ?p + 1" for p
        proof (cases "p = ?p")
          case True with False show ?thesis by simp
        next
          case neq: False
          with that have "p - i < idx" by simp
          with first have "\<not> prefix n (drop (i + (p - i)) h)" by blast
          with that show ?thesis by (simp add: word_at_def)
        qed
        then show ?thesis by (meson le_trans less_or_eq_imp_le not_le_imp_less le_add1)
      qed
      ultimately show ?thesis using IH by simp
    qed
  qed
qed

text \<open>A text contains a word when it has an occurrence whose neighbours are not letters or digits.\<close>

definition has_word :: "string \<Rightarrow> string \<Rightarrow> bool" where
  "has_word h n \<longleftrightarrow> (\<exists>a b. h = a @ n @ b \<and> (a = [] \<or> \<not> word_char (last a)) \<and> (b = [] \<or> \<not> word_char (hd b)))"

lemma word_at_split: "(\<exists>p. word_at h n p) \<longleftrightarrow> has_word h n"
proof
  assume "\<exists>p. word_at h n p"
  then obtain p where p: "word_at h n p" by blast
  then obtain b where b: "drop p h = n @ b" by (auto simp: word_at_def prefix_def)
  have h: "h = take p h @ n @ b" by (metis append_take_drop_id b)
  have le: "p \<le> length h" using p by (simp add: word_at_def)
  have "take p h = [] \<or> \<not> word_char (last (take p h))"
    using p le by (cases "p = 0") (auto simp: word_at_def last_conv_nth)
  moreover have "b = [] \<or> \<not> word_char (hd b)"
  proof (cases b)
    case (Cons c b')
    have "h ! (p + length n) = c"
      using h le Cons by (metis append.assoc length_append length_take min.absorb2 nth_append_length)
    moreover have "p + length n \<noteq> length h" using arg_cong[OF b, of length] Cons le by auto
    ultimately show ?thesis using p Cons by (simp add: word_at_def)
  qed simp
  ultimately show "has_word h n" using h unfolding has_word_def by blast
next
  assume "has_word h n"
  then obtain a b where ab: "h = a @ n @ b" "a = [] \<or> \<not> word_char (last a)" "b = [] \<or> \<not> word_char (hd b)"
    unfolding has_word_def by blast
  have "word_at h n (length a)"
    using ab by (cases "a = []"; cases b) (auto simp: word_at_def nth_append last_conv_nth)
  then show "\<exists>p. word_at h n p" by blast
qed

lemma contains_word_has: "n \<noteq> [] \<Longrightarrow> contains_word h n = Some (has_word h n)"
  using contains_from_exact[of n 0 h] word_at_split[of h n] by (simp add: contains_word_def)

text \<open>Word matching is exact: for a word that is not empty \<open>containsWord\<close> ends without slicing out of
  range, and holds exactly when the text has an occurrence of the word with no letter or digit
  directly before or after it.\<close>

theorem contains_word_exact:
  assumes "n \<noteq> []"
  shows "contains_word h n =
    Some (\<exists>a b. h = a @ n @ b \<and> (a = [] \<or> \<not> word_char (last a)) \<and> (b = [] \<or> \<not> word_char (hd b)))"
  using contains_word_has[OF assms] by (simp add: has_word_def)

theorem contains_word_exact_witness:
  "contains_word ''my app!'' ''app'' =
    Some (\<exists>a b. ''my app!'' = a @ ''app'' @ b \<and> (a = [] \<or> \<not> word_char (last a)) \<and> (b = [] \<or> \<not> word_char (hd b)))"
  by (rule contains_word_exact) simp

section \<open>Triggers of a store\<close>

definition trigger_hit :: "string \<Rightarrow> string \<Rightarrow> bool" where
  "trigger_hit msg t \<longleftrightarrow>
     (let ws = str_fields t in if length ws \<le> 1 then has_word msg t else \<forall>w \<in> set ws. has_word msg w)"

lemma words_from_not_Nil: "w \<in> set (words_from acc s) \<Longrightarrow> w \<noteq> []"
  by (induction acc s rule: words_from.induct) (auto split: if_splits)

lemma all_words_exact: "[] \<notin> set ws \<Longrightarrow> all_words msg ws = Some (\<forall>w \<in> set ws. has_word msg w)"
  by (induction ws) (auto simp: contains_word_has)

lemma match_trigger_exact: "t \<noteq> [] \<Longrightarrow> match_trigger msg t = Some (trigger_hit msg t)"
proof -
  have "[] \<notin> set (str_fields t)" using words_from_not_Nil by (auto simp: str_fields_def)
  moreover assume "t \<noteq> []"
  ultimately show ?thesis
    by (simp add: match_trigger_def trigger_hit_def Let_def all_words_exact contains_word_has)
qed

lemma any_trigger_exact:
  "[] \<notin> set ts \<Longrightarrow> any_trigger msg ts = Some (\<exists>t \<in> set ts. trigger_hit msg (to_lower t))"
proof (induction ts)
  case (Cons t ts)
  then have "to_lower t \<noteq> []" by (auto simp: to_lower_def)
  with Cons show ?case by (simp add: match_trigger_exact)
qed simp

lemma match_loop_exact:
  assumes "distinct (map sk_name sks)" "\<forall>sk \<in> set sks. [] \<notin> set (sk_triggers sk) \<and> sk_name sk \<notin> seen"
  shows "match_loop msg sks seen =
    Some (filter (\<lambda>sk. \<exists>t \<in> set (sk_triggers sk). trigger_hit msg (to_lower t)) sks)"
  using assms
proof (induction sks arbitrary: seen)
  case (Cons sk sks)
  have "\<forall>x \<in> set sks. sk_name x \<noteq> sk_name sk" using Cons.prems(1) by (auto simp: image_iff)
  with Cons show ?case by (auto simp: any_trigger_exact)
qed simp

section \<open>The store over all its operations\<close>

text \<open>Every skill is stored under its name, has itself as a trigger, and no empty trigger.\<close>

definition skill_ok :: "skill \<Rightarrow> bool" where
  "skill_ok sk \<longleftrightarrow> sk_name sk \<noteq> [] \<and> [] \<notin> set (sk_triggers sk) \<and>
     to_lower (sk_name sk) \<in> to_lower ` set (sk_triggers sk)"

definition store_ok :: "skill_store \<Rightarrow> bool" where
  "store_ok s \<longleftrightarrow> (\<forall>n sk. ks_current s n = Some sk \<longrightarrow> sk_name sk = n \<and> skill_ok sk)"

lemma parse_list_no_empty: "[] \<notin> set (parse_list v)"
  by (auto simp: parse_list_def Let_def to_lower_def)

lemma front_triggers: "[] \<notin> set (fm_triggers f) \<Longrightarrow> [] \<notin> set (fm_triggers (front_line l f))"
  by (auto simp: front_line_def parse_list_no_empty split: prod.split)

lemma fronts_triggers: "[] \<notin> set (fm_triggers f) \<Longrightarrow> [] \<notin> set (fm_triggers (fold front_line ls f))"
  by (induction ls arbitrary: f) (simp_all add: front_triggers)

lemma frontmatter_triggers: "[] \<notin> set (fm_triggers (parse_frontmatter c))"
  using fronts_triggers[of "no_frontmatter []"]
  by (simp add: parse_frontmatter_def Let_def no_frontmatter_def)

lemma path_base_not_Nil: "path_base p \<noteq> []"
proof -
  have last: "last (split_at c s) \<noteq> []" if "s \<noteq> []" "last s \<noteq> c" for c s
    using that
  proof (induction s)
    case (Cons x s)
    obtain w ws where "split_at c s = w # ws" by (cases "split_at c s") auto
    with Cons show ?case by (cases "s = []") auto
  qed simp
  have "last q \<noteq> CHR ''/''" if "q = trim_right_char (CHR ''/'') p" "q \<noteq> []" for q
    using that hd_dropWhile[of "\<lambda>x. x = CHR ''/''" "rev p"]
    by (auto simp: trim_right_char_def last_rev)
  then show ?thesis using last by (simp add: path_base_def Let_def)
qed

lemma parse_skill_ok: "parse_skill fs dir = Some sk \<Longrightarrow> skill_ok sk"
  using frontmatter_triggers path_base_not_Nil[of dir]
  by (auto simp: parse_skill_def skill_ok_def Let_def split: option.splits if_splits)

lemma load_entries_ok:
  "(\<forall>n sk. out n = Some sk \<longrightarrow> sk_name sk = n \<and> skill_ok sk) \<Longrightarrow>
   load_entries fs dir es out n = Some sk \<Longrightarrow> sk_name sk = n \<and> skill_ok sk"
proof (induction es arbitrary: out)
  case (Cons e es)
  obtain name is_dir where e: "e = (name, is_dir)" by (cases e)
  let ?out = "if \<not> is_dir then out
        else case parse_skill fs (join_path [dir, name]) of None \<Rightarrow> out | Some sk \<Rightarrow> out(sk_name sk \<mapsto> sk)"
  have "\<forall>n sk. ?out n = Some sk \<longrightarrow> sk_name sk = n \<and> skill_ok sk"
    using Cons.prems(1) parse_skill_ok by (auto split: option.split)
  with Cons.IH[of ?out] Cons.prems(2) show ?case by (simp add: e)
qed auto

lemma load_dir_ok: "load_dir fs dir n = Some sk \<Longrightarrow> sk_name sk = n \<and> skill_ok sk"
  using load_entries_ok[of Map.empty] by (auto simp: load_dir_def split: option.splits if_splits)

lemma merged_ok:
  "(\<forall>n sk. m n = Some sk \<longrightarrow> sk_name sk = n \<and> skill_ok sk) \<Longrightarrow>
   \<forall>n sk. fold (\<lambda>dir merged. merged ++ load_dir fs dir) dirs m n = Some sk \<longrightarrow> sk_name sk = n \<and> skill_ok sk"
proof (induction dirs arbitrary: m)
  case (Cons d dirs)
  have "\<forall>n sk. (m ++ load_dir fs d) n = Some sk \<longrightarrow> sk_name sk = n \<and> skill_ok sk"
    using Cons.prems load_dir_ok[of fs d] by (auto simp: map_add_Some_iff)
  from Cons.IH[OF this] show ?case by simp
qed simp

lemma add_triggers_mono: "set ts \<subseteq> set (add_triggers ns ts)"
  by (induction ns ts rule: add_triggers.induct) auto

lemma add_triggers_no_empty: "[] \<notin> set ts \<Longrightarrow> [] \<notin> set (add_triggers ns ts)"
  by (induction ns ts rule: add_triggers.induct) auto

datatype skill_op = OpReload skill_fs | OpAddTriggers string "string list"

fun skill_step :: "skill_op \<Rightarrow> skill_store \<Rightarrow> skill_store" where
  "skill_step (OpReload fs) s = reload_skills fs s"
| "skill_step (OpAddTriggers name ns) s = add_dynamic_triggers name ns s"

lemma skill_step_ok: "store_ok s \<Longrightarrow> store_ok (skill_step op s)"
proof (cases op)
  case (OpReload fs)
  then show ?thesis using merged_ok[of Map.empty fs "ks_dirs s"] by (simp add: store_ok_def reload_skills_def)
next
  case (OpAddTriggers name ns)
  moreover assume "store_ok s"
  ultimately show ?thesis
    using add_triggers_mono add_triggers_no_empty
    by (auto simp: store_ok_def add_dynamic_triggers_def skill_ok_def split: option.split) blast+
qed

lemma new_store_ok: "store_ok (new_skill_store fs dirs)"
  using skill_step_ok[of "\<lparr>ks_dirs = dirs, ks_current = Map.empty\<rparr>" "OpReload fs"]
  by (simp add: new_skill_store_def store_ok_def)

interpretation sks: op_machine "new_skill_store fs dirs" skill_step store_ok for fs dirs
  by unfold_locales (auto intro: new_store_ok skill_step_ok)

abbreviation store_after :: "skill_fs \<Rightarrow> string list \<Rightarrow> skill_op list \<Rightarrow> skill_store" where
  "store_after fs dirs ops \<equiv> fold skill_step ops (new_skill_store fs dirs)"

lemma skills_at_names: "store_ok s \<Longrightarrow> set ns \<subseteq> dom (ks_current s) \<Longrightarrow> map sk_name (skills_at ns s) = ns"
  by (induction ns) (auto simp: skills_at_def store_ok_def)

lemma skills_at_ok: "store_ok s \<Longrightarrow> sk \<in> set (skills_at ns s) \<Longrightarrow> skill_ok sk"
  by (auto simp: skills_at_def store_ok_def split: option.splits)


definition demo_fs :: skill_fs where
  "demo_fs = \<lparr>sf_list = (\<lambda>d. if d = ''s'' then Some [(''pdf'', True)] else Some []),
     sf_read = (\<lambda>p. if p = ''s/pdf/SKILL.md'' then Some ''Read it.'' else None)\<rparr>"

lemma demo_store: "ks_current (new_skill_store demo_fs [''s'']) =
  [''pdf'' \<mapsto> \<lparr>sk_name = ''pdf'', sk_description = [], sk_version = [], sk_triggers = [''pdf''], sk_tier = [],
              sk_prompt = ''Read it.'', sk_dir = ''s/pdf''\<rparr>]"
proof -
  have "parse_skill demo_fs ''s/pdf'' = Some \<lparr>sk_name = ''pdf'', sk_description = [], sk_version = [],
      sk_triggers = [''pdf''], sk_tier = [], sk_prompt = ''Read it.'', sk_dir = ''s/pdf''\<rparr>" by code_simp
  moreover have "join_path [''s'', ''pdf''] = ''s/pdf''" by code_simp
  moreover have "sf_list demo_fs ''s'' = Some [(''pdf'', True)]" by (simp add: demo_fs_def)
  ultimately show ?thesis by (simp add: new_skill_store_def reload_skills_def load_dir_def)
qed


text \<open>A blank line before the frontmatter loses it: the test trims the text but the scanner does not, so
  the opening mark is read as the closing one and every key becomes part of the prompt.\<close>

theorem leading_blank_line_drops_metadata:
  "let f = parse_frontmatter (newline @ ''---'' @ newline @ rest) in
   fm_name f = [] \<and> fm_description f = [] \<and> fm_triggers f = [] \<and> fm_tier f = []"
proof -
  have lines: "drop 1 (scan_lines (newline @ ''---'' @ newline @ rest)) = ''---'' # ls" if
      "scan_lines (newline @ ''---'' @ newline @ rest) = [] # ''---'' # ls" for ls
    using that by simp
  have "\<exists>ls. scan_lines (newline @ ''---'' @ newline @ rest) = [] # ''---'' # ls"
    by (cases "split_at (CHR 0x0A) rest") (auto simp: scan_lines_def drop_cr_def Let_def)
  then obtain ls where ls: "scan_lines (newline @ ''---'' @ newline @ rest) = [] # ''---'' # ls" by blast
  have "strip_bom (newline @ ''---'' @ newline @ rest) = newline @ ''---'' @ newline @ rest" by simp
  moreover have "trim_space ''---'' = ''---''" by code_simp
  ultimately show ?thesis
    using ls by (simp add: parse_frontmatter_def Let_def no_frontmatter_def)
qed

section \<open>The mirror\<close>

lemma mirror_loop_get:
  assumes "\<forall>sk \<in> set sks. sk_name sk \<noteq> []" and "distinct (map sk_name sks)"
  shows "fst (mirror_loop sks r) = None \<and>
    snd (mirror_loop sks r) i =
      (case find (\<lambda>sk. sk_name sk = i \<and> sk_description sk \<noteq> []) sks of
         Some sk \<Rightarrow> Some (skill_capability sk) | None \<Rightarrow> r i)"
  using assms
proof (induction sks arbitrary: r)
  case (Cons sk sks)
  have "find (\<lambda>x. sk_name x = sk_name sk \<and> sk_description x \<noteq> []) sks = None"
    using Cons.prems(2) by (auto simp: find_None_iff image_iff)
  moreover have "replace_cap (Some (skill_capability sk)) r = (None, r(sk_name sk \<mapsto> skill_capability sk))"
    using Cons.prems(1) by (simp add: replace_cap_def skill_capability_def skill_manifest_def Let_def)
  ultimately show ?case using Cons by (auto split: option.split)
qed simp

text \<open>The mirror never fails, and afterwards the registry holds for every described skill its capability,
  and under any other id what it held before: ids of skills that were removed stay.\<close>

theorem mirror_exact:
  assumes "visits order (ks_current (store_after fs dirs ops))"
  shows "fst (mirror_into order (store_after fs dirs ops) r) = None \<and>
    snd (mirror_into order (store_after fs dirs ops) r) i =
      (case ks_current (store_after fs dirs ops) i of
         Some sk \<Rightarrow> if sk_description sk \<noteq> [] then Some (skill_capability sk) else r i
       | None \<Rightarrow> r i)"
proof -
  let ?s = "store_after fs dirs ops"
  have ok: "store_ok ?s" by (rule sks.run_inv)
  have names: "map sk_name (all_skills order ?s) = sort order"
    using assms ok by (simp add: all_skills_def visits_def skills_at_names)
  have mem: "sk \<in> set (all_skills order ?s) \<longleftrightarrow> ks_current ?s (sk_name sk) = Some sk" for sk
    using assms ok by (force simp: all_skills_def skills_at_def visits_def store_ok_def split: option.splits)
  have dist: "distinct (map sk_name (all_skills order ?s))" using assms names by (simp add: visits_def)
  have ne: "\<forall>sk \<in> set (all_skills order ?s). sk_name sk \<noteq> []"
    using skills_at_ok[OF ok] by (auto simp: all_skills_def skill_ok_def)
  have "find (\<lambda>sk. sk_name sk = i \<and> sk_description sk \<noteq> []) (all_skills order ?s) =
    (case ks_current ?s i of Some sk \<Rightarrow> if sk_description sk \<noteq> [] then Some sk else None | None \<Rightarrow> None)"
  proof (cases "find (\<lambda>sk. sk_name sk = i \<and> sk_description sk \<noteq> []) (all_skills order ?s)")
    case None
    then show ?thesis using mem ok by (auto simp: find_None_iff store_ok_def split: option.split)
  next
    case (Some sk)
    then have "sk \<in> set (all_skills order ?s)" "sk_name sk = i" "sk_description sk \<noteq> []"
      by (auto simp: find_Some_iff)
    with Some mem show ?thesis by auto
  qed
  with mirror_loop_get[OF ne dist, of r i] show ?thesis
    by (simp add: mirror_into_def split: option.splits)
qed

theorem mirror_exact_witness:
  "fst (mirror_into [''pdf''] (store_after demo_fs [''s''] []) Map.empty) = None \<and>
   snd (mirror_into [''pdf''] (store_after demo_fs [''s''] []) Map.empty) ''pdf'' =
      (case ks_current (store_after demo_fs [''s''] []) ''pdf'' of
         Some sk \<Rightarrow> if sk_description sk \<noteq> [] then Some (skill_capability sk) else Map.empty ''pdf''
       | None \<Rightarrow> Map.empty ''pdf'')"
  by (rule mirror_exact) (simp add: visits_def demo_store)

end
