(* ===== verification/Json_Parse.thy ===== *)
theory Json_Parse
  imports Go_Json
begin

text \<open>
  \<open>encoding/json.Unmarshal\<close>: the grammar of JSON texts and the decoding of a value into Go's strings,
  integers, slices and structs. Decoding goes into an existing value, as Go's does: a missing or
  \<open>null\<close> member keeps it, a slice is refilled in place, and a member of another type is an error of
  the whole call. Names of members match without regard to (ASCII) case. A text holds bytes of
  valid UTF-8; escapes of code points are encoded, a lone surrogate becomes U+FFFD.
\<close>

section \<open>Values\<close>

datatype json =
    JNull
  | JBool bool
  | JNum string
  | JStr string
  | JArr "json list"
  | JObj "(string \<times> json) list"

definition is_json_ws :: "char \<Rightarrow> bool" where
  "is_json_ws c \<longleftrightarrow> c = CHR 0x20 \<or> c = CHR 0x09 \<or> c = CHR 0x0A \<or> c = CHR 0x0D"

definition skip_ws :: "string \<Rightarrow> string" where "skip_ws s = dropWhile is_json_ws s"

definition is_digit :: "char \<Rightarrow> bool" where
  "is_digit c \<longleftrightarrow> (let n = of_char c :: nat in 48 \<le> n \<and> n \<le> 57)"

section \<open>Strings\<close>

definition hex_value :: "char \<Rightarrow> nat option" where
  "hex_value c =
     (let n = of_char c :: nat in
      if 48 \<le> n \<and> n \<le> 57 then Some (n - 48)
      else if 97 \<le> n \<and> n \<le> 102 then Some (n - 87)
      else if 65 \<le> n \<and> n \<le> 70 then Some (n - 55)
      else None)"

fun hex4 :: "string \<Rightarrow> (nat \<times> string) option" where
  "hex4 (a # b # c # d # s) =
     (case (hex_value a, hex_value b, hex_value c, hex_value d) of
        (Some w, Some x, Some y, Some z) \<Rightarrow> Some (4096 * w + 256 * x + 16 * y + z, s)
      | _ \<Rightarrow> None)"
| "hex4 _ = None"

definition utf8 :: "nat \<Rightarrow> string" where
  "utf8 n =
     (if n < 128 then [char_of n]
      else if n < 2048 then [char_of (192 + n div 64), char_of (128 + n mod 64)]
      else if n < 65536 then [char_of (224 + n div 4096), char_of (128 + n div 64 mod 64), char_of (128 + n mod 64)]
      else [char_of (240 + n div 262144), char_of (128 + n div 4096 mod 64), char_of (128 + n div 64 mod 64),
            char_of (128 + n mod 64)])"

text \<open>The code point after \<open>\u\<close>: a pair of surrogates is one code point, a lone one the replacement.\<close>

definition surrogate :: "nat \<Rightarrow> bool" where "surrogate n \<longleftrightarrow> 55296 \<le> n \<and> n < 57344"

definition code_point :: "nat \<Rightarrow> string \<Rightarrow> nat \<times> string" where
  "code_point n s =
     (if \<not> surrogate n then (n, s)
      else if n < 56320 \<and> has_prefix s [CHR 0x5C, CHR ''u''] then
        (case hex4 (drop 2 s) of
           Some (m, s') \<Rightarrow>
             if 56320 \<le> m \<and> m < 57344 then (65536 + (n - 55296) * 1024 + (m - 56320), s') else (65533, s)
         | None \<Rightarrow> (65533, s))
      else (65533, s))"

definition simple_escape :: "char \<Rightarrow> char option" where
  "simple_escape c =
     (if c = CHR 0x22 \<or> c = CHR 0x5C \<or> c = CHR ''/'' then Some c
      else if c = CHR ''b'' then Some (CHR 0x08)
      else if c = CHR ''f'' then Some (CHR 0x0C)
      else if c = CHR ''n'' then Some (CHR 0x0A)
      else if c = CHR ''r'' then Some (CHR 0x0D)
      else if c = CHR ''t'' then Some (CHR 0x09)
      else None)"

text \<open>The rest of a string after its opening quote; the fuel is the length of the text.\<close>

fun parse_chars :: "nat \<Rightarrow> string \<Rightarrow> (string \<times> string) option" where
  "parse_chars 0 s = None"
| "parse_chars (Suc n) s =
     (case s of
        [] \<Rightarrow> None
      | c # t \<Rightarrow>
          if c = CHR 0x22 then Some ([], t)
          else if c = CHR 0x5C then
            (case t of
               [] \<Rightarrow> None
             | e # u \<Rightarrow>
                 if e = CHR ''u'' then
                   (case hex4 u of
                      None \<Rightarrow> None
                    | Some (k, v) \<Rightarrow>
                        let (p, v') = code_point k v in
                        map_option (\<lambda>(r, rest). (utf8 p @ r, rest)) (parse_chars n v'))
                 else (case simple_escape e of
                         None \<Rightarrow> None
                       | Some x \<Rightarrow> map_option (\<lambda>(r, rest). (x # r, rest)) (parse_chars n u)))
          else if (of_char c :: nat) < 32 then None
          else map_option (\<lambda>(r, rest). (c # r, rest)) (parse_chars n t))"

definition parse_str :: "string \<Rightarrow> (string \<times> string) option" where
  "parse_str s = parse_chars (Suc (length s)) s"

section \<open>Numbers\<close>

definition digits1 :: "string \<Rightarrow> (string \<times> string) option" where
  "digits1 s = (let d = takeWhile is_digit s in if d = [] then None else Some (d, dropWhile is_digit s))"

definition parse_frac :: "string \<Rightarrow> (string \<times> string) option" where
  "parse_frac s =
     (case s of
        c # t \<Rightarrow> if c = CHR ''.'' then map_option (\<lambda>(d, r). (c # d, r)) (digits1 t) else Some ([], s)
      | [] \<Rightarrow> Some ([], s))"

definition parse_exp :: "string \<Rightarrow> (string \<times> string) option" where
  "parse_exp s =
     (case s of
        c # t \<Rightarrow>
          if c = CHR ''e'' \<or> c = CHR ''E'' then
            (case t of
               g # u \<Rightarrow>
                 if g = CHR ''+'' \<or> g = CHR ''-'' then map_option (\<lambda>(d, r). (c # g # d, r)) (digits1 u)
                 else map_option (\<lambda>(d, r). (c # d, r)) (digits1 t)
             | [] \<Rightarrow> None)
          else Some ([], s)
      | [] \<Rightarrow> Some ([], s))"

definition parse_int_part :: "string \<Rightarrow> (string \<times> string) option" where
  "parse_int_part s =
     (case s of
        c # t \<Rightarrow> if c = CHR ''0'' then Some ([c], t) else digits1 s
      | [] \<Rightarrow> None)"

definition parse_num :: "string \<Rightarrow> (string \<times> string) option" where
  "parse_num s =
     (let (sign, s1) = (case s of c # t \<Rightarrow> if c = CHR ''-'' then ([c], t) else ([], s) | [] \<Rightarrow> ([], s)) in
      case parse_int_part s1 of
        None \<Rightarrow> None
      | Some (i, s2) \<Rightarrow>
          (case parse_frac s2 of
             None \<Rightarrow> None
           | Some (f, s3) \<Rightarrow>
               (case parse_exp s3 of None \<Rightarrow> None | Some (e, s4) \<Rightarrow> Some (sign @ i @ f @ e, s4))))"

section \<open>Texts\<close>

text \<open>A value, the rest of an array after a value, the members of an object from its first name. The
  first argument is fuel (the length of the text is enough), the second the nesting that is left of
  the scanner's limit of 10000.\<close>

fun parse_value :: "nat \<Rightarrow> nat \<Rightarrow> string \<Rightarrow> (json \<times> string) option"
  and parse_elems :: "nat \<Rightarrow> nat \<Rightarrow> string \<Rightarrow> (json list \<times> string) option"
  and parse_members :: "nat \<Rightarrow> nat \<Rightarrow> string \<Rightarrow> ((string \<times> json) list \<times> string) option" where
  "parse_value 0 d s = None"
| "parse_value (Suc n) d s =
     (case skip_ws s of
        [] \<Rightarrow> None
      | c # t \<Rightarrow>
          if c = CHR 0x22 then map_option (\<lambda>(x, r). (JStr x, r)) (parse_str t)
          else if c = CHR ''{'' then
            (if d = 0 then None
             else if has_prefix (skip_ws t) ''}'' then Some (JObj [], tl (skip_ws t))
             else map_option (\<lambda>(ms, r). (JObj ms, r)) (parse_members n (d - 1) t))
          else if c = CHR ''['' then
            (if d = 0 then None
             else if has_prefix (skip_ws t) '']'' then Some (JArr [], tl (skip_ws t))
             else map_option (\<lambda>(xs, r). (JArr xs, r)) (parse_elems n (d - 1) t))
          else if has_prefix (c # t) ''null'' then Some (JNull, drop 3 t)
          else if has_prefix (c # t) ''true'' then Some (JBool True, drop 3 t)
          else if has_prefix (c # t) ''false'' then Some (JBool False, drop 4 t)
          else map_option (\<lambda>(x, r). (JNum x, r)) (parse_num (c # t)))"
| "parse_elems 0 d s = None"
| "parse_elems (Suc n) d s =
     (case parse_value n d s of
        None \<Rightarrow> None
      | Some (v, r) \<Rightarrow>
          (case skip_ws r of
             [] \<Rightarrow> None
           | c # t \<Rightarrow>
               if c = CHR '']'' then Some ([v], t)
               else if c = CHR '','' then map_option (\<lambda>(vs, r'). (v # vs, r')) (parse_elems n d t)
               else None))"
| "parse_members 0 d s = None"
| "parse_members (Suc n) d s =
     (case skip_ws s of
        [] \<Rightarrow> None
      | q # s1 \<Rightarrow>
          if q \<noteq> CHR 0x22 then None
          else (case parse_str s1 of
            None \<Rightarrow> None
          | Some (k, s2) \<Rightarrow>
              (case skip_ws s2 of
                 [] \<Rightarrow> None
               | c # s3 \<Rightarrow>
                   if c \<noteq> CHR '':'' then None
                   else (case parse_value n d s3 of
                     None \<Rightarrow> None
                   | Some (v, r) \<Rightarrow>
                       (case skip_ws r of
                          [] \<Rightarrow> None
                        | e # t \<Rightarrow>
                            if e = CHR ''}'' then Some ([(k, v)], t)
                            else if e = CHR '','' then map_option (\<lambda>(ms, r'). ((k, v) # ms, r')) (parse_members n d t)
                            else None)))))"

definition maxNestingDepth :: nat where "maxNestingDepth = 10000"

definition parse_json :: "string \<Rightarrow> json option" where
  "parse_json s =
     (case parse_value (2 * length s + 2) maxNestingDepth s of
        None \<Rightarrow> None
      | Some (v, r) \<Rightarrow> if skip_ws r = [] then Some v else None)"

section \<open>Decoding\<close>

definition dec_string :: "json \<Rightarrow> string \<Rightarrow> string option" where
  "dec_string v old = (case v of JStr x \<Rightarrow> Some x | JNull \<Rightarrow> Some old | _ \<Rightarrow> None)"

definition dec_bool :: "json \<Rightarrow> bool \<Rightarrow> bool option" where
  "dec_bool v old = (case v of JBool b \<Rightarrow> Some b | JNull \<Rightarrow> Some old | _ \<Rightarrow> None)"

definition digits_value :: "string \<Rightarrow> nat" where
  "digits_value ds = fold (\<lambda>c n. 10 * n + (of_char c - 48)) ds 0"

definition int_literal :: "string \<Rightarrow> int option" where
  "int_literal x =
     (let neg = has_prefix x ''-''; ds = trim_prefix x ''-'';
          i = (if neg then - int (digits_value ds) else int (digits_value ds))
      in if ds \<noteq> [] \<and> list_all is_digit ds \<and> - (2 ^ 63) \<le> i \<and> i < 2 ^ 63 then Some i else None)"

definition dec_int :: "json \<Rightarrow> int \<Rightarrow> int option" where
  "dec_int v old = (case v of JNum x \<Rightarrow> int_literal x | JNull \<Rightarrow> Some old | _ \<Rightarrow> None)"

text \<open>A slice: element \<open>i\<close> is decoded into the old element \<open>i\<close>, or into the zero value.\<close>

fun dec_elems :: "(json \<Rightarrow> 'a \<Rightarrow> 'a option) \<Rightarrow> 'a \<Rightarrow> json list \<Rightarrow> 'a list \<Rightarrow> 'a list option" where
  "dec_elems dec zero [] olds = Some []"
| "dec_elems dec zero (v # vs) olds =
     (case dec v (case olds of [] \<Rightarrow> zero | x # _ \<Rightarrow> x) of
        None \<Rightarrow> None
      | Some x \<Rightarrow> map_option (\<lambda>xs. x # xs) (dec_elems dec zero vs (tl olds)))"

definition dec_slice :: "(json \<Rightarrow> 'a \<Rightarrow> 'a option) \<Rightarrow> 'a \<Rightarrow> json \<Rightarrow> 'a list \<Rightarrow> 'a list option" where
  "dec_slice dec zero v olds = (case v of JArr vs \<Rightarrow> dec_elems dec zero vs olds | JNull \<Rightarrow> Some [] | _ \<Rightarrow> None)"

text \<open>A struct: the members in their order, each into the field of its name.\<close>

fun dec_members :: "(string \<Rightarrow> json \<Rightarrow> 'a \<Rightarrow> 'a option) \<Rightarrow> (string \<times> json) list \<Rightarrow> 'a \<Rightarrow> 'a option" where
  "dec_members dec [] x = Some x"
| "dec_members dec ((k, v) # ms) x =
     (case dec (to_lower k) v x of None \<Rightarrow> None | Some y \<Rightarrow> dec_members dec ms y)"

definition dec_struct :: "(string \<Rightarrow> json \<Rightarrow> 'a \<Rightarrow> 'a option) \<Rightarrow> json \<Rightarrow> 'a \<Rightarrow> 'a option" where
  "dec_struct dec v old = (case v of JObj ms \<Rightarrow> dec_members dec ms old | JNull \<Rightarrow> Some old | _ \<Rightarrow> None)"

section \<open>Strings survive\<close>

text \<open>What \<open>json.Marshal\<close> writes for a string is read back as the string, whatever follows.\<close>

lemma hex_value_digit: "d < 16 \<Longrightarrow> hex_value (hex_digit d) = Some d"
  by (auto simp: hex_value_def hex_digit_def Let_def)

lemma hex_value_0: "hex_value (CHR ''0'') = Some 0"
  by (simp add: hex_value_def)

lemma hex4_escape: "b < 256 \<Longrightarrow> hex4 (CHR ''0'' # CHR ''0'' # hex_digit (b div 16) # hex_digit (b mod 16) # s) = Some (b, s)"
  using hex_value_digit[of "b div 16"] hex_value_digit[of "b mod 16"]
  by (simp add: hex_value_0)

lemma parse_char_escape:
  "parse_chars (Suc n) (json_escape c @ s) = map_option (\<lambda>(r, rest). (c # r, rest)) (parse_chars n s)"
proof -
  let ?b = "of_char c :: nat"
  consider (quote) "c = CHR 0x22 \<or> c = CHR 0x5C" | (ctl) "c \<in> {CHR 0x08, CHR 0x0C, CHR 0x0A, CHR 0x0D, CHR 0x09}"
    | (hex) "json_escape c = CHR 0x5C # ''u00'' @ [hex_digit (?b div 16), hex_digit (?b mod 16)]" "?b < 128"
    | (plain) "json_escape c = [c]" "c \<noteq> CHR 0x22" "c \<noteq> CHR 0x5C" "32 \<le> ?b"
  proof (cases "c = CHR 0x22 \<or> c = CHR 0x5C \<or> c \<in> {CHR 0x08, CHR 0x0C, CHR 0x0A, CHR 0x0D, CHR 0x09}")
    case False
    show ?thesis
    proof (cases "?b < 32 \<or> c = CHR ''<'' \<or> c = CHR ''>'' \<or> c = CHR ''&''")
      case True
      show ?thesis
      proof (rule hex)
        show "json_escape c = CHR 0x5C # ''u00'' @ [hex_digit (?b div 16), hex_digit (?b mod 16)]"
          using True False by (simp add: json_escape_def Let_def)
        show "?b < 128" using True by auto
      qed
    next
      case plain': False
      show ?thesis
      proof (rule plain)
        show "json_escape c = [c]" using plain' False by (simp add: json_escape_def)
      qed (use plain' False in auto)
    qed
  qed (use quote ctl in blast)
  then show ?thesis
  proof cases
    case quote
    then show ?thesis by (auto simp: json_escape_def simple_escape_def)
  next
    case ctl
    then show ?thesis by (auto simp: json_escape_def simple_escape_def)
  next
    case hex
    then have "code_point ?b s = (?b, s)" "utf8 ?b = [c]"
      by (simp_all add: code_point_def surrogate_def utf8_def)
    with hex hex4_escape[of ?b s] show ?thesis by (simp add: hex(1))
  next
    case plain
    then show ?thesis by simp
  qed
qed

lemma parse_chars_escape:
  "length s < n \<Longrightarrow> parse_chars n (concat (map json_escape s) @ CHR 0x22 # r) = Some (s, r)"
proof (induction s arbitrary: n)
  case Nil
  then show ?case by (cases n) simp_all
next
  case (Cons c s)
  then obtain m where n: "n = Suc m" "length s < m" by (cases n) auto
  show ?case using Cons.IH[OF n(2)] by (simp add: n(1) parse_char_escape del: parse_chars.simps)
qed

lemma length_json_escape: "1 \<le> length (json_escape c)"
  by (simp add: json_escape_def Let_def)

lemma length_escaped: "length s \<le> length (concat (map json_escape s))"
proof (induction s)
  case (Cons c s)
  then show ?case using length_json_escape[of c] by simp
qed simp

text \<open>What \<open>json.Marshal\<close> writes for a string is read back as the string.\<close>

lemma parse_str_escape: "parse_str (concat (map json_escape s) @ CHR 0x22 # r) = Some (s, r)"
  unfolding parse_str_def by (rule parse_chars_escape) (use length_escaped[of s] in simp)

section \<open>Texts survive\<close>

text \<open>The compact text of a value. Numbers are literals that end where they should.\<close>

fun json_text :: "json \<Rightarrow> string" where
  "json_text JNull = ''null''"
| "json_text (JBool b) = (if b then ''true'' else ''false'')"
| "json_text (JNum x) = x"
| "json_text (JStr s) = json_string s"
| "json_text (JArr vs) = ''['' @ str_join '','' (map json_text vs) @ '']''"
| "json_text (JObj ms) = ''{'' @ str_join '','' (map (\<lambda>(k, v). json_string k @ '':'' @ json_text v) ms) @ ''}''"

fun json_depth :: "json \<Rightarrow> nat" where
  "json_depth (JArr vs) = Suc (fold (\<lambda>v n. max n (json_depth v)) vs 0)"
| "json_depth (JObj ms) = Suc (fold (\<lambda>p n. max n (json_depth (snd p))) ms 0)"
| "json_depth v = 0"

definition delimited :: "string \<Rightarrow> bool" where
  "delimited r \<longleftrightarrow> r = [] \<or> hd r = CHR '','' \<or> hd r = CHR '']'' \<or> hd r = CHR ''}''"

definition num_literal :: "string \<Rightarrow> bool" where
  "num_literal x \<longleftrightarrow> x \<noteq> [] \<and> (is_digit (hd x) \<or> hd x = CHR ''-'') \<and> (\<forall>r. delimited r \<longrightarrow> parse_num (x @ r) = Some (x, r))"

fun json_nums_ok :: "json \<Rightarrow> bool" where
  "json_nums_ok (JNum x) = num_literal x"
| "json_nums_ok (JArr vs) = list_all json_nums_ok vs"
| "json_nums_ok (JObj ms) = list_all (\<lambda>p. json_nums_ok (snd p)) ms"
| "json_nums_ok v = True"

lemma le_fold_max: "(m :: nat) \<le> fold (\<lambda>v n. max n (f v)) vs m"
  by (induction vs arbitrary: m) (auto intro: order_trans[OF max.cobounded1])

lemma fold_max_le: "v \<in> set vs \<Longrightarrow> f v \<le> fold (\<lambda>v n. max n (f v)) vs (m :: nat)"
proof (induction vs arbitrary: m)
  case (Cons a vs)
  then show ?case using le_fold_max[of "max m (f a)" f vs] by auto
qed simp

lemma is_digit_not_ws: "is_digit c \<Longrightarrow> \<not> is_json_ws c"
  by (auto simp: is_digit_def is_json_ws_def)

lemma skip_ws_text [simp]: "\<not> is_json_ws c \<Longrightarrow> skip_ws (c # s) = c # s"
  by (simp add: skip_ws_def)

lemma ws_simps [simp]:
  "\<not> is_json_ws (CHR 0x22)" "\<not> is_json_ws (CHR ''{'')" "\<not> is_json_ws (CHR ''['')" "\<not> is_json_ws (CHR ''}'')"
  "\<not> is_json_ws (CHR '']'')" "\<not> is_json_ws (CHR '','')" "\<not> is_json_ws (CHR '':'')"
  by (simp_all add: is_json_ws_def)

lemma json_text_first: "json_nums_ok v \<Longrightarrow> \<exists>c t. json_text v = c # t \<and> \<not> is_json_ws c \<and> c \<noteq> CHR '']'' \<and> c \<noteq> CHR ''}''"
  by (cases v) (auto simp: json_string_def is_json_ws_def num_literal_def is_digit_def neq_Nil_conv)

lemma json_text_ne: "json_nums_ok v \<Longrightarrow> 1 \<le> length (json_text v)"
  using json_text_first[of v] by fastforce

abbreviation parses_text :: "json \<Rightarrow> bool" where
  "parses_text v \<equiv> (\<forall>n d r. 2 * length (json_text v) \<le> n \<longrightarrow> json_depth v \<le> d \<longrightarrow> delimited r \<longrightarrow>
     parse_value n d (json_text v @ r) = Some (v, r))"

lemma parse_elems_text:
  assumes "list_all json_nums_ok vs" and "vs \<noteq> []" and "\<forall>v \<in> set vs. parses_text v \<and> json_depth v \<le> d"
    and "2 * length (str_join '','' (map json_text vs)) < n"
  shows "parse_elems n d (str_join '','' (map json_text vs) @ CHR '']'' # r) = Some (vs, r)"
  using assms
proof (induction vs arbitrary: n)
  case (Cons v vs)
  then obtain m where n: "n = Suc m" by (cases n) auto
  show ?case
  proof (cases vs)
    case Nil
    with Cons.prems n show ?thesis by (simp add: delimited_def)
  next
    case (Cons u us)
    have "parse_value m d (json_text v @ CHR '','' # str_join '','' (map json_text vs) @ CHR '']'' # r) =
        Some (v, CHR '','' # str_join '','' (map json_text vs) @ CHR '']'' # r)"
      using Cons.prems n Cons by (simp add: delimited_def)
    moreover have "parse_elems m d (str_join '','' (map json_text vs) @ CHR '']'' # r) = Some (vs, r)"
      using Cons.IH[of m] Cons.prems n Cons json_text_ne[of v] by simp
    ultimately show ?thesis using n Cons by simp
  qed
qed simp

abbreviation member_text :: "string \<times> json \<Rightarrow> string" where
  "member_text \<equiv> \<lambda>(k, v). json_string k @ '':'' @ json_text v"

lemma parse_members_text:
  assumes "list_all (\<lambda>p. json_nums_ok (snd p)) ms" and "ms \<noteq> []"
    and "\<forall>p \<in> set ms. parses_text (snd p) \<and> json_depth (snd p) \<le> d"
    and "2 * length (str_join '','' (map member_text ms)) < n"
  shows "parse_members n d (str_join '','' (map member_text ms) @ CHR ''}'' # r) = Some (ms, r)"
  using assms
proof (induction ms arbitrary: n)
  case (Cons p ms)
  obtain k v where p: "p = (k, v)" by (cases p)
  from Cons.prems obtain m where n: "n = Suc m" by (cases n) auto
  note str = parse_str_escape[of k]
  show ?case
  proof (cases ms)
    case Nil
    with Cons.prems n p str show ?thesis by (simp add: delimited_def json_string_def)
  next
    case (Cons q qs)
    have "parse_value m d (json_text v @ CHR '','' # str_join '','' (map member_text ms) @ CHR ''}'' # r) =
        Some (v, CHR '','' # str_join '','' (map member_text ms) @ CHR ''}'' # r)"
      using Cons.prems n p Cons by (simp add: delimited_def)
    moreover have "parse_members m d (str_join '','' (map member_text ms) @ CHR ''}'' # r) = Some (ms, r)"
      using Cons.IH[of m] Cons.prems n p Cons by (simp add: json_string_def)
    ultimately show ?thesis using n p Cons str by (simp add: json_string_def)
  qed
qed simp

lemma str_join_first: "xs \<noteq> [] \<Longrightarrow> hd xs = c # t \<Longrightarrow> \<exists>t. str_join sep xs = c # t"
proof (cases xs)
  case (Cons x ys)
  assume "hd xs = c # t"
  with Cons show ?thesis by (cases ys) simp_all
qed simp

lemma parse_num_text:
  assumes "num_literal x" and "delimited r" and "0 < n"
  shows "parse_value n d (x @ r) = Some (JNum x, r)"
proof -
  obtain c t where x: "x = c # t" "is_digit c \<or> c = CHR ''-''" using assms(1) by (cases x) (auto simp: num_literal_def)
  then have "\<not> is_json_ws c" "c \<noteq> CHR 0x22" "c \<noteq> CHR ''{''" "c \<noteq> CHR ''[''" "c \<noteq> CHR ''n''" "c \<noteq> CHR ''t''" "c \<noteq> CHR ''f''"
    by (auto simp: is_digit_def is_json_ws_def)
  moreover have "parse_num (c # t @ r) = Some (x, r)" using assms(1,2) x by (simp add: num_literal_def)
  ultimately show ?thesis using x assms(3) by (cases n) simp_all
qed

lemma parse_value_text: "json_nums_ok v \<Longrightarrow> parses_text v"
proof (induction v)
  case (JNum x)
  then have "num_literal x" "x \<noteq> []" by (simp_all add: num_literal_def)
  then show ?case using parse_num_text[of x] by (cases x) simp_all
next
  case (JStr x)
  show ?case
  proof (intro allI impI)
    fix n d :: nat and r assume "2 * length (json_text (JStr x)) \<le> n"
    then obtain m where "n = Suc m" by (cases n) (auto simp: json_string_def)
    then show "parse_value n d (json_text (JStr x) @ r) = Some (JStr x, r)"
      by (simp add: json_string_def parse_str_escape)
  qed
next
  case (JArr vs)
  show ?case
  proof (intro allI impI)
    fix n d :: nat and r assume n: "2 * length (json_text (JArr vs)) \<le> n" and d: "json_depth (JArr vs) \<le> d"
    then obtain m where m: "n = Suc m" by (cases n) auto
    show "parse_value n d (json_text (JArr vs) @ r) = Some (JArr vs, r)"
    proof (cases vs)
      case Nil
      with d m show ?thesis by (simp add: skip_ws_def)
    next
      case (Cons u us)
      obtain c t where u: "json_text u = c # t" "\<not> is_json_ws c" "c \<noteq> CHR '']''"
        using json_text_first[of u] JArr.prems Cons by auto
      obtain t' where j: "str_join '','' (map json_text vs) = c # t'"
        using str_join_first[of "map json_text vs" c t "'',''"] u Cons by auto
      have "\<forall>v \<in> set vs. parses_text v \<and> json_depth v \<le> d - 1"
      proof
        fix v assume v: "v \<in> set vs"
        have "parses_text v" using JArr.IH[OF v] JArr.prems v by (simp add: list_all_iff)
        moreover have "Suc (json_depth v) \<le> d" using d fold_max_le[OF v, of json_depth 0] by simp
        ultimately show "parses_text v \<and> json_depth v \<le> d - 1" by simp
      qed
      then have "parse_elems m (d - 1) (str_join '','' (map json_text vs) @ CHR '']'' # r) = Some (vs, r)"
        using parse_elems_text[of vs "d - 1" m r] JArr.prems n m Cons by simp
      with j u d m show ?thesis by (simp del: parse_elems.simps)
    qed
  qed
next
  case (JObj ms)
  show ?case
  proof (intro allI impI)
    fix n d :: nat and r assume n: "2 * length (json_text (JObj ms)) \<le> n" and d: "json_depth (JObj ms) \<le> d"
    then obtain m where m: "n = Suc m" by (cases n) auto
    show "parse_value n d (json_text (JObj ms) @ r) = Some (JObj ms, r)"
    proof (cases ms)
      case Nil
      with d m show ?thesis by (simp add: skip_ws_def)
    next
      case (Cons p ps)
      obtain t where "member_text p = CHR 0x22 # t" by (cases p) (simp add: json_string_def)
      then obtain t' where j: "str_join '','' (map member_text ms) = CHR 0x22 # t'"
        using str_join_first[of "map member_text ms" "CHR 0x22" t "'',''"] Cons by auto
      have "\<forall>p \<in> set ms. parses_text (snd p) \<and> json_depth (snd p) \<le> d - 1"
      proof
        fix p assume p: "p \<in> set ms"
        have "parses_text (snd p)" using JObj.IH[OF p, of "snd p"] JObj.prems p by (simp add: list_all_iff snds.intros)
        moreover have "Suc (json_depth (snd p)) \<le> d" using d fold_max_le[OF p, of "\<lambda>p. json_depth (snd p)" 0] by simp
        ultimately show "parses_text (snd p) \<and> json_depth (snd p) \<le> d - 1" by simp
      qed
      then have "parse_members m (d - 1) (str_join '','' (map member_text ms) @ CHR ''}'' # r) = Some (ms, r)"
        using parse_members_text[of ms "d - 1" m r] JObj.prems n m Cons by simp
      with j d m show ?thesis by (simp del: parse_members.simps)
    qed
  qed
next
  case JNull
  show ?case by (intro allI impI, rename_tac n d r, case_tac n) (simp_all add: skip_ws_def is_json_ws_def)
next
  case (JBool b)
  show ?case by (cases b; intro allI impI, rename_tac n d r, case_tac n; simp add: skip_ws_def is_json_ws_def)
qed

text \<open>Reading a printed value gives the value, whatever bytes its strings hold.\<close>

lemma parse_json_text:
  assumes "json_nums_ok v" and "json_depth v \<le> maxNestingDepth"
  shows "parse_json (json_text v) = Some v"
proof -
  have "parse_value (2 * length (json_text v) + 2) maxNestingDepth (json_text v @ []) = Some (v, [])"
    using parse_value_text[OF assms(1)] assms(2) by (simp add: delimited_def del: parse_value.simps)
  then show ?thesis by (simp add: parse_json_def skip_ws_def del: parse_value.simps)
qed

end
