(* ===== verification/Comms_Tiers.thy ===== *)
theory Comms_Tiers
  imports Alf_Prelude "HOL-Library.Multiset"
begin

text \<open>
  \<open>internal/comms/tier.go\<close>: what the pipeline asks of the tier configuration. The tool registry and
  the provider registry are what the code reads of them: the wildcard's tools, the native tools and
  the registered backends; \<open>None\<close> is a nil registry or function.
\<close>

section \<open>Tiers\<close>

record tier_info =
  ti_name :: string
  ti_model :: string
  ti_priority :: int
  ti_enabled :: bool
  ti_routable :: bool
  ti_force_command :: bool
  ti_tools :: "string list"
  ti_write_capable :: bool
  ti_effort :: string
  ti_max_turns :: int
  ti_orchestrator_max_turns :: int
  ti_max_iterations :: int
  ti_timeout_min :: int
  ti_backend :: string
  ti_system_prompt :: string
  ti_router_label :: string
  ti_context_weight :: string
  ti_fallback :: string
  ti_role :: string

record tiers_snapshot =
  ts_tiers :: "tier_info list"
  ts_default_fallback :: string

record tier_params =
  tp_model :: string
  tp_tools :: "string list"
  tp_effort :: string
  tp_backend :: string
  tp_write_capable :: bool
  tp_max_turns :: int
  tp_orchestrator_max_turns :: int
  tp_max_iterations :: int
  tp_timeout_min :: int
  tp_system_prompt :: string
  tp_router_label :: string
  tp_context_weight :: string

definition maxInt :: int where "maxInt = 2 ^ 63 - 1"

definition tier_named :: "string \<Rightarrow> tiers_snapshot \<Rightarrow> tier_info option" where
  "tier_named name snap = find (\<lambda>t. ti_name t = name) (ts_tiers snap)"

text \<open>The loops that keep the index of the lowest priority so far, over the tiers that pass a test.\<close>

fun lowest :: "(tier_info \<Rightarrow> bool) \<Rightarrow> tier_info list \<Rightarrow> int \<Rightarrow> tier_info option \<Rightarrow> tier_info option" where
  "lowest P [] bestPriority best = best"
| "lowest P (t # ts) bestPriority best =
     (if P t \<and> ti_priority t < bestPriority then lowest P ts (ti_priority t) (Some t)
      else lowest P ts bestPriority best)"

section \<open>Models and fallbacks\<close>

definition default_fallback_model :: "tiers_snapshot \<Rightarrow> (string \<Rightarrow> string) option \<Rightarrow> string" where
  "default_fallback_model snap resolveModel =
     (let resolve = (\<lambda>raw. case resolveModel of None \<Rightarrow> raw | Some f \<Rightarrow> if f raw \<noteq> [] then f raw else raw);
          named = (if ts_default_fallback snap \<noteq> []
                   then find (\<lambda>t. ti_name t = ts_default_fallback snap \<and> ti_enabled t) (ts_tiers snap) else None)
      in case named of
           Some t \<Rightarrow> resolve (ti_model t)
         | None \<Rightarrow>
             (case lowest (\<lambda>t. ti_enabled t \<and> ti_routable t) (ts_tiers snap) maxInt None of
                Some t \<Rightarrow> resolve (ti_model t)
              | None \<Rightarrow>
                  (case find ti_enabled (ts_tiers snap) of
                     Some t \<Rightarrow> resolve (ti_model t)
                   | None \<Rightarrow> [])))"

definition is_orchestrator_tier :: "tiers_snapshot \<Rightarrow> string \<Rightarrow> bool" where
  "is_orchestrator_tier snap name =
     (case tier_named name snap of None \<Rightarrow> False | Some t \<Rightarrow> ti_role t = ''orchestrator'')"

text \<open>What \<open>ResolveTierParams\<close> reads of the registries.\<close>

record tier_registries =
  tr_wildcard :: "string list"
  tr_native :: "string list option"
  tr_backends :: "string list option"

definition resolve_tier_params ::
  "string \<Rightarrow> tiers_snapshot \<Rightarrow> tier_registries \<Rightarrow> (string \<Rightarrow> string) option \<Rightarrow> tier_params \<times> bool" where
  "resolve_tier_params tierName snap reg resolveModel =
     (case tier_named tierName snap of
        None \<Rightarrow>
          (\<lparr>tp_model = default_fallback_model snap resolveModel, tp_tools = [], tp_effort = [], tp_backend = [],
            tp_write_capable = False, tp_max_turns = 0, tp_orchestrator_max_turns = 0, tp_max_iterations = 0,
            tp_timeout_min = 0, tp_system_prompt = [], tp_router_label = [], tp_context_weight = []\<rparr>, False)
      | Some t \<Rightarrow>
          let backend =
                (if (ti_backend t = [] \<or> ti_backend t = ''cli'') \<and> str_contains (ti_model t) ''/''
                 then (case tr_backends reg of Some (b # _) \<Rightarrow> b | _ \<Rightarrow> ti_backend t)
                 else ti_backend t);
              model =
                (if backend = [] \<or> backend = ''cli''
                 then (case resolveModel of None \<Rightarrow> ti_model t | Some f \<Rightarrow> f (ti_model t))
                 else ti_model t);
              tools =
                (if ti_tools t = [''*''] then tr_wildcard reg
                 else if ti_tools t = [''*native'']
                 then (case tr_native reg of None \<Rightarrow> [] | Some ns \<Rightarrow> ns)
                 else ti_tools t)
          in (\<lparr>tp_model = model, tp_tools = tools, tp_effort = ti_effort t, tp_backend = backend,
               tp_write_capable = ti_write_capable t, tp_max_turns = ti_max_turns t,
               tp_orchestrator_max_turns = ti_orchestrator_max_turns t, tp_max_iterations = ti_max_iterations t,
               tp_timeout_min = ti_timeout_min t, tp_system_prompt = ti_system_prompt t,
               tp_router_label = ti_router_label t,
               tp_context_weight = (if ti_context_weight t = [] then ''full'' else ti_context_weight t)\<rparr>, True))"

definition effective_context_weight :: "tier_params \<Rightarrow> string" where
  "effective_context_weight tp =
     (if tp_context_weight tp \<in> {''light'', ''standard'', ''full''} then tp_context_weight tp else ''full'')"

definition first_fallback_tier :: "tiers_snapshot \<Rightarrow> string" where
  "first_fallback_tier snap =
     (if ts_default_fallback snap \<noteq> [] then ts_default_fallback snap
      else case find ti_enabled (ts_tiers snap) of
             Some t \<Rightarrow> ti_name t
           | None \<Rightarrow> (case ts_tiers snap of t # _ \<Rightarrow> ti_name t | [] \<Rightarrow> []))"

section \<open>Onboarding and media\<close>

text \<open>The loop that keeps the best and the second of the candidates (name, priority).\<close>

fun second_loop :: "string \<times> int \<Rightarrow> string \<times> int \<Rightarrow> (string \<times> int) list \<Rightarrow> string \<times> int" where
  "second_loop best snd' [] = snd'"
| "second_loop best snd' (c # cs) =
     (if snd c < snd best then second_loop c best cs
      else if snd c < snd snd' then second_loop best c cs
      else second_loop best snd' cs)"

definition onboarding_tier :: "tiers_snapshot \<Rightarrow> string" where
  "onboarding_tier snap =
     (let candidates = map (\<lambda>t. (ti_name t, ti_priority t))
                         (filter (\<lambda>t. ti_enabled t \<and> ti_role t \<noteq> ''orchestrator'') (ts_tiers snap))
      in case candidates of
           a # b # cs \<Rightarrow> fst (if snd b < snd a then second_loop b a cs else second_loop a b cs)
         | _ \<Rightarrow> first_fallback_tier snap)"

definition tier_has_read :: "tier_info \<Rightarrow> bool" where
  "tier_has_read t \<longleftrightarrow> ti_write_capable t \<or> list_ex (\<lambda>tool. tool = ''*'' \<or> tool = ''Read'') (ti_tools t)"

definition lowest_media_tier :: "tiers_snapshot \<Rightarrow> string" where
  "lowest_media_tier snap =
     (let name = (\<lambda>b. case b of None \<Rightarrow> [] | Some t \<Rightarrow> ti_name t);
          withRead = name (lowest (\<lambda>t. ti_enabled t \<and> tier_has_read t) (ts_tiers snap) maxInt None);
          enabled = name (lowest ti_enabled (ts_tiers snap) maxInt None)
      in if withRead \<noteq> [] then withRead
         else if enabled \<noteq> [] then enabled
         else (case ts_tiers snap of t # _ \<Rightarrow> ti_name t | [] \<Rightarrow> []))"

section \<open>The fallback chain\<close>

definition fallback_of :: "tiers_snapshot \<Rightarrow> string \<Rightarrow> string" where
  "fallback_of snap name = (case tier_named name snap of None \<Rightarrow> [] | Some t \<Rightarrow> ti_fallback t)"

lemma find_SomeD: "find P xs = Some x \<Longrightarrow> x \<in> set xs \<and> P x"
  by (induction xs) (auto split: if_splits)

lemma fallback_of_mem: "fallback_of snap name \<noteq> [] \<Longrightarrow> fallback_of snap name \<in> ti_fallback ` set (ts_tiers snap)"
  by (auto simp: fallback_of_def tier_named_def split: option.splits dest: find_SomeD)

text \<open>The loop ends because each round visits a name that is some tier's fallback and was not visited.\<close>

function chain_loop :: "tiers_snapshot \<Rightarrow> string \<Rightarrow> string set \<Rightarrow> string list \<Rightarrow> string list" where
  "chain_loop snap current visited chain =
     (let fb = fallback_of snap current in
      if fb = [] \<or> fb \<in> visited then chain
      else chain_loop snap fb (insert fb visited) (chain @ [fb]))"
  by pat_completeness auto
termination
proof (relation "measure (\<lambda>(snap, current, visited, chain). card (ti_fallback ` set (ts_tiers snap) - visited))")
  fix snap :: tiers_snapshot and current :: string and visited :: "string set" and chain :: "string list" and fb
  assume fb: "fb = fallback_of snap current" "\<not> (fb = [] \<or> fb \<in> visited)"
  let ?F = "ti_fallback ` set (ts_tiers snap)"
  have "fb \<in> ?F - visited" using fb fallback_of_mem by auto
  then have "?F - insert fb visited \<subset> ?F - visited" by blast
  then have "card (?F - insert fb visited) < card (?F - visited)" by (intro psubset_card_mono) auto
  then show "((snap, fb, insert fb visited, chain @ [fb]), snap, current, visited, chain)
      \<in> measure (\<lambda>(snap, current, visited, chain). card (ti_fallback ` set (ts_tiers snap) - visited))" by simp
qed simp

declare chain_loop.simps [simp del]

definition resolve_fallback_chain :: "string \<Rightarrow> tiers_snapshot \<Rightarrow> string list" where
  "resolve_fallback_chain startTier snap = chain_loop snap startTier {startTier} []"

definition is_tier_valid :: "string \<Rightarrow> tiers_snapshot \<Rightarrow> bool" where
  "is_tier_valid name snap \<longleftrightarrow>
     list_ex (\<lambda>t. ti_name t = name \<and> ti_enabled t \<and> (ti_routable t \<or> ti_force_command t)) (ts_tiers snap)"

section \<open>Properties\<close>

fun linked :: "tiers_snapshot \<Rightarrow> string \<Rightarrow> string list \<Rightarrow> bool" where
  "linked snap current [] = True"
| "linked snap current (t # ts) = (t \<noteq> [] \<and> fallback_of snap current = t \<and> linked snap t ts)"

lemma chain_loop_spec:
  "\<exists>ts. chain_loop snap current visited chain = chain @ ts \<and> linked snap current ts \<and> distinct ts \<and>
     set ts \<inter> visited = {} \<and>
     (let fb = fallback_of snap (last (current # ts)) in fb = [] \<or> fb \<in> visited \<union> set ts)"
proof (induction snap current visited chain rule: chain_loop.induct)
  case (1 snap current visited chain)
  let ?fb = "fallback_of snap current"
  show ?case
  proof (cases "?fb = [] \<or> ?fb \<in> visited")
    case True
    then show ?thesis by (intro exI[of _ "[]"]) (simp add: chain_loop.simps Let_def)
  next
    case False
    then obtain ts where ts: "chain_loop snap ?fb (insert ?fb visited) (chain @ [?fb]) = (chain @ [?fb]) @ ts"
      "linked snap ?fb ts" "distinct ts" "set ts \<inter> insert ?fb visited = {}"
      "let fb = fallback_of snap (last (?fb # ts)) in fb = [] \<or> fb \<in> insert ?fb visited \<union> set ts"
      using 1 by blast
    then show ?thesis using False
      by (intro exI[of _ "?fb # ts"]) (auto simp: chain_loop.simps[of snap current] Let_def)
  qed
qed

text \<open>The fallback chain: for every configuration, cyclic ones included, it ends; each tier in it is the
  fallback of the one before, none occurs twice or is the tier that failed, and it is complete: the
  last tier has no fallback, or one that was tried already.\<close>

theorem fallback_chain_exact:
  "let chain = resolve_fallback_chain start snap; fb = fallback_of snap (last (start # chain)) in
   linked snap start chain \<and> distinct (start # chain) \<and> (if fb = [] then True else fb \<in> set (start # chain))"
  using chain_loop_spec[of snap start "{start}" "[]"]
  by (auto simp: resolve_fallback_chain_def Let_def)


lemma sort_mset: "mset xs = mset ys \<Longrightarrow> sort xs = sort ys"
  by (rule properties_for_sort) simp_all

lemma head_insort: "hd (insort x xs) \<le> (x :: 'a :: linorder)"
  by (cases xs) auto

lemma sort_second_le:
  assumes "(x :: 'a :: linorder) \<le> y"
  shows "\<exists>p q r. sort (x # y # zs) = p # q # r \<and> q \<le> y"
proof (cases "sort zs")
  case Nil
  then show ?thesis using assms by simp
next
  case (Cons h t)
  have le: "hd (insort x (insort y t)) \<le> y" using head_insort[of x "insort y t"] assms by (rule order_trans)
  show ?thesis
  proof (cases "y \<le> h \<or> x \<le> h")
    case True
    then show ?thesis using Cons assms by auto
  next
    case False
    then have "sort (x # y # zs) = h # insort x (insort y t)" using Cons by simp
    moreover obtain q r where "insort x (insort y t) = q # r" by (cases "insort x (insort y t)") auto
    ultimately show ?thesis using le by simp
  qed
qed

lemma sort_drop_third:
  assumes "(x :: 'a :: linorder) \<le> y" and "y \<le> z"
  shows "sort (x # y # z # zs) ! 1 = sort (x # y # zs) ! 1"
proof -
  obtain p q r where s: "sort (x # y # zs) = p # q # r" "q \<le> y" using sort_second_le[OF assms(1)] by blast
  have "sort (x # y # z # zs) = sort (z # x # y # zs)" by (rule sort_mset) simp
  also have "\<dots> = insort z (p # q # r)" using s(1) by simp
  finally have "sort (x # y # z # zs) = insort z (p # q # r)" .
  moreover have "sorted (p # q # r)" using s(1) sorted_sort[of "x # y # zs"] by simp
  ultimately show ?thesis using s assms by auto
qed

lemma second_loop_spec:
  "snd a \<le> snd b \<Longrightarrow> second_loop a b cs \<in> set (b # a # cs) \<and>
   snd (second_loop a b cs) = sort (map snd (a # b # cs)) ! 1"
proof (induction cs arbitrary: a b)
  case Nil
  then show ?case by auto
next
  case (Cons c cs)
  have perm: "sort (map snd (a # b # c # cs)) = sort (map snd xs)" if "mset xs = mset (a # b # c # cs)" for xs
    by (rule sort_mset) (simp only: mset_map that)
  consider "snd c < snd a" | "\<not> snd c < snd a" "snd c < snd b" | "\<not> snd c < snd a" "\<not> snd c < snd b" by blast
  then show ?case
  proof cases
    case 1
    then show ?thesis using Cons.IH[of c a] Cons.prems perm[of "c # a # b # cs"] sort_drop_third[of "snd c" "snd a" "snd b"]
      by auto
  next
    case 2
    then show ?thesis using Cons.IH[of a c] Cons.prems perm[of "a # c # b # cs"] sort_drop_third[of "snd a" "snd c" "snd b"]
      by auto
  next
    case 3
    then show ?thesis using Cons.IH[of a b] Cons.prems sort_drop_third[of "snd a" "snd b" "snd c"] by auto
  qed
qed

text \<open>The onboarding tier is the second cheapest: with at least two enabled tiers that are not for
  orchestration, the chosen name is that of one of them whose priority is the second in the sorted
  list of their priorities; with fewer, it is the general fallback.\<close>

theorem onboarding_tier_second:
  "let cands = filter (\<lambda>t. ti_enabled t \<and> ti_role t \<noteq> ''orchestrator'') (ts_tiers snap) in
   if 2 \<le> length cands
   then \<exists>t \<in> set cands. onboarding_tier snap = ti_name t \<and> ti_priority t = sort (map ti_priority cands) ! 1
   else onboarding_tier snap = first_fallback_tier snap"
proof -
  let ?c = "filter (\<lambda>t. ti_enabled t \<and> ti_role t \<noteq> ''orchestrator'') (ts_tiers snap)"
  let ?np = "\<lambda>t. (ti_name t, ti_priority t)"
  show ?thesis
  proof (cases "2 \<le> length ?c")
    case True
    then obtain a b cs where c: "?c = a # b # cs" by (cases ?c; cases "tl ?c") auto
    let ?r = "if ti_priority b < ti_priority a then second_loop (?np b) (?np a) (map ?np cs)
              else second_loop (?np a) (?np b) (map ?np cs)"
    have "sort (ti_priority b # ti_priority a # map ti_priority cs) = sort (ti_priority a # ti_priority b # map ti_priority cs)"
      by (rule sort_mset) simp
    then have "?r \<in> ?np ` set ?c \<and> snd ?r = sort (map ti_priority ?c) ! 1"
      using second_loop_spec[of "?np b" "?np a" "map ?np cs"] second_loop_spec[of "?np a" "?np b" "map ?np cs"] c
      by (auto simp: comp_def)
    moreover have "onboarding_tier snap = fst ?r" using c by (simp add: onboarding_tier_def)
    ultimately show ?thesis using True by (auto simp: Let_def)
  next
    case False
    then show ?thesis by (cases ?c; cases "tl ?c") (auto simp: onboarding_tier_def)
  qed
qed

end
