(* ===== verification/Comms_Stream.thy ===== *)
theory Comms_Stream
  imports Flatten "HOL-Library.Multiset" "HOL-Library.Word"
begin

text \<open>
  The parts of \<open>internal/comms\<close> that read streams and texts: the accumulator of content blocks
  (\<open>accumulator.go\<close>), the channel ids (\<open>types.go\<close>), the reaction tags and the shared recent context
  (\<open>pipeline.go\<close>), and the notices for provider errors (\<open>error_classify.go\<close>).
\<close>

section \<open>The accumulator\<close>

definition maxAccumToolResultBytes :: nat where "maxAccumToolResultBytes = MaxToolResultBytes"
definition maxAccumThinkingBytes :: nat where "maxAccumThinkingBytes = 1024"

record stream_event =
  pe_type :: string
  pe_text :: string
  pe_detail :: string

record accumulator =
  ac_blocks :: "content_block list"
  ac_text :: string
  ac_thinking :: string
  ac_tool_name :: string
  ac_tool_id :: string
  ac_tool_input :: string
  ac_in_thinking :: bool
  ac_in_text :: bool

definition new_accumulator :: accumulator where
  "new_accumulator = \<lparr>ac_blocks = [], ac_text = [], ac_thinking = [], ac_tool_name = [], ac_tool_id = [],
     ac_tool_input = [], ac_in_thinking = False, ac_in_text = False\<rparr>"

definition text_block :: "block_type \<Rightarrow> string \<Rightarrow> content_block" where
  "text_block t s = (empty_block t)\<lparr>cb_text := s\<rparr>"

definition use_block :: "string \<Rightarrow> string \<Rightarrow> string \<Rightarrow> content_block" where
  "use_block name input tid = (empty_block BlockToolUse)\<lparr>cb_name := name, cb_input := input, cb_tool_id := tid\<rparr>"

definition result_block :: "string \<Rightarrow> string \<Rightarrow> content_block" where
  "result_block tid out = (empty_block BlockToolResult)\<lparr>cb_tool_id := tid, cb_output := out\<rparr>"

definition flush_thinking :: "accumulator \<Rightarrow> accumulator" where
  "flush_thinking a =
     (if \<not> ac_in_thinking a then a
      else a\<lparr>ac_blocks := ac_blocks a @ (if ac_thinking a \<noteq> []
                then [text_block BlockThinking (clip maxAccumThinkingBytes (ac_thinking a))] else []),
             ac_thinking := [], ac_in_thinking := False\<rparr>)"

definition flush_text :: "accumulator \<Rightarrow> accumulator" where
  "flush_text a =
     (if \<not> ac_in_text a then a
      else a\<lparr>ac_blocks := ac_blocks a @ (if ac_text a \<noteq> [] then [text_block BlockText (ac_text a)] else []),
             ac_text := [], ac_in_text := False\<rparr>)"

definition flush_tool :: "accumulator \<Rightarrow> accumulator" where
  "flush_tool a =
     (if ac_tool_name a = [] then a
      else a\<lparr>ac_blocks := ac_blocks a @ [use_block (ac_tool_name a) (ac_tool_input a) (ac_tool_id a)],
             ac_tool_name := [], ac_tool_input := []\<rparr>)"

definition process_event :: "stream_event \<Rightarrow> accumulator \<Rightarrow> accumulator" where
  "process_event ev a =
     (if pe_type ev = ''thinking'' then
        (if pe_text ev \<noteq> [] then
           (let a1 = (if \<not> ac_in_thinking a then (flush_tool (flush_text a))\<lparr>ac_in_thinking := True\<rparr> else a)
            in a1\<lparr>ac_thinking := ac_thinking a1 @ pe_text ev\<rparr>)
         else (flush_tool (flush_text a))\<lparr>ac_in_thinking := True\<rparr>)
      else if pe_type ev = ''text_delta'' then
        (let a1 = flush_tool (flush_thinking a)
         in a1\<lparr>ac_in_text := True, ac_text := ac_text a1 @ pe_text ev\<rparr>)
      else if pe_type ev = ''tool_use'' then
        (flush_tool (flush_text (flush_thinking a)))\<lparr>ac_tool_name := pe_detail ev, ac_tool_id := [], ac_tool_input := []\<rparr>
      else if pe_type ev = ''tool_input'' then a\<lparr>ac_tool_input := ac_tool_input a @ pe_text ev\<rparr>
      else if pe_type ev = ''tool_result'' then
        (let a1 = (if ac_tool_name a \<noteq> []
                   then (let tid = (if ac_tool_id a = [] then pe_detail ev else ac_tool_id a)
                         in a\<lparr>ac_blocks := ac_blocks a @ [use_block (ac_tool_name a) (ac_tool_input a) tid],
                              ac_tool_id := tid, ac_tool_name := [], ac_tool_input := []\<rparr>)
                   else a)
         in a1\<lparr>ac_blocks := ac_blocks a1 @ [result_block (pe_detail ev) (clip maxAccumToolResultBytes (pe_text ev))]\<rparr>)
      else if pe_type ev = ''block_stop'' then flush_text (flush_thinking a)
      else a)"

definition acc_blocks :: "accumulator \<Rightarrow> content_block list" where
  "acc_blocks a = ac_blocks (flush_tool (flush_text (flush_thinking a)))"

section \<open>Channels\<close>

definition channel_prefix :: "string \<Rightarrow> string" where
  "channel_prefix c = (case index_byte c (CHR '':'') of None \<Rightarrow> c | Some i \<Rightarrow> take i c)"

definition conv_channel :: "string \<Rightarrow> string" where
  "conv_channel c =
     (if channel_prefix c = ''tg'' then ChannelTelegram
      else if channel_prefix c = ''cc'' then ChannelCC else channel_prefix c)"

text \<open>The hash loop on \<open>int64\<close>: FNV-1a with a negated basis.\<close>

definition key_hash :: "string \<Rightarrow> 64 word" where
  "key_hash v = fold (\<lambda>c h. xor h (word_of_nat (of_char c)) * 16777619) v (- 2166136261)"

text \<open>\<open>parse_int\<close> is \<open>strconv.ParseInt\<close>.\<close>

definition session_key :: "(string \<Rightarrow> int option) \<Rightarrow> string \<Rightarrow> int" where
  "session_key parse_int c =
     (case index_byte c (CHR '':'') of
        None \<Rightarrow> - 1
      | Some i \<Rightarrow>
          let prefix = take i c; value = drop (i + 1) c in
          case (if prefix = ''tg'' then parse_int value else None) of
            Some n \<Rightarrow> n
          | None \<Rightarrow>
              if prefix = ''cc'' \<and> value \<noteq> [] \<and> value \<noteq> ''default''
              then (let h = key_hash value in sint (if 0 \<le> sint h then - h - 2 else h))
              else - 1)"

section \<open>Reaction tags\<close>

lemma str_index_Some: "str_index s p = Some i \<Longrightarrow> i + length p \<le> length s \<and> has_prefix (drop i s) p"
proof (induction s arbitrary: i)
  case Nil
  then show ?case by (auto simp: has_prefix_def split: if_splits)
next
  case (Cons c s)
  then show ?case
    by (auto simp: has_prefix_def prefix_length_le split: if_splits dest: prefix_length_le)
qed

lemma str_index_None: "str_index s p = None \<Longrightarrow> s \<noteq> a @ p @ b"
proof (induction s arbitrary: a)
  case Nil
  then show ?case by (auto split: if_splits)
next
  case (Cons c s)
  then show ?case by (cases a) (auto simp: has_prefix_def split: if_splits)
qed

function strip_react_tags :: "string \<Rightarrow> string" where
  "strip_react_tags tx =
     (case str_index tx ''[[react:'' of
        None \<Rightarrow> tx
      | Some start \<Rightarrow>
          (case str_index (drop start tx) '']]'' of
             None \<Rightarrow> tx
           | Some end' \<Rightarrow> strip_react_tags (take start tx @ drop (start + end' + 2) tx)))"
  by pat_completeness auto
termination
  by (relation "measure length") (auto dest!: str_index_Some)

declare strip_react_tags.simps [simp del]

definition trim_left_ws :: "string \<Rightarrow> string" where
  "trim_left_ws s = dropWhile (\<lambda>c. c \<in> {CHR '' '', CHR 0x0A, CHR 0x0D, CHR 0x09}) s"

definition extract_reaction :: "string \<Rightarrow> string \<times> string" where
  "extract_reaction tx =
     (let trimmed = trim_left_ws tx in
      if \<not> has_prefix trimmed ''[[react:'' then ([], strip_react_tags tx)
      else case str_index trimmed '']]'' of
        None \<Rightarrow> ([], tx)
      | Some end' \<Rightarrow>
          let emoji = drop 8 (take end' trimmed); rest = trim_left_ws (drop (end' + 2) trimmed)
          in if emoji = ''none'' \<or> emoji = [] then ([], strip_react_tags rest)
             else (emoji, strip_react_tags rest))"

section \<open>The shared recent context\<close>

text \<open>The insertion sort, on the reversed sorted part.\<close>

fun sink :: "message \<Rightarrow> message list \<Rightarrow> message list" where
  "sink x [] = [x]"
| "sink x (y # ys) = (if m_created x < m_created y then y # sink x ys else x # y # ys)"

definition insertion_sort :: "message list \<Rightarrow> message list" where
  "insertion_sort ms = rev (fold sink ms [])"

fun all_of :: "string option \<Rightarrow> in_mem \<Rightarrow> conv_info list \<Rightarrow> message list" where
  "all_of ctx s [] = []"
| "all_of ctx s (c # cs) =
     (case list_messages ctx (ci_id c) (no_opts\<lparr>lo_summary := True\<rparr>) s of
        Inl _ \<Rightarrow> all_of ctx s cs
      | Inr ms \<Rightarrow> ms @ all_of ctx s cs)"

definition no_filter :: conv_filter where "no_filter = \<lparr>cf_channel = [], cf_archived = False\<rparr>"

definition collect_recent_all :: "string option \<Rightarrow> in_mem \<Rightarrow> int \<Rightarrow> message list" where
  "collect_recent_all ctx s n =
     (if n \<le> 0 then []
      else case list_convs ctx no_filter s of
        Inl _ \<Rightarrow> []
      | Inr convs \<Rightarrow>
          if convs = [] then []
          else let all = insertion_sort (all_of ctx s convs)
               in if n < int (length all) then drop (length all - nat n) all else all)"

section \<open>Notices\<close>

definition truncate :: "string \<Rightarrow> nat \<Rightarrow> string" where
  "truncate s n = (if length s \<le> n then s else take n s @ ''...'')"

datatype ctx_err = NoErr | DeadlineExceeded | Canceled

definition has_any :: "string \<Rightarrow> string list \<Rightarrow> bool" where
  "has_any s ps = list_ex (str_contains s) ps"

definition classify_provider_error :: "string \<Rightarrow> ctx_err \<Rightarrow> string" where
  "classify_provider_error errMsg ctxErr =
     (let lower = to_lower errMsg in
      if has_any lower [''max_turns'', ''turn limit'', ''conversation limit'', ''max turns'']
      then ''Turn limit reached. Use /new to start a fresh conversation, or break your request into smaller steps.''
      else if ctxErr = DeadlineExceeded \<or> has_any lower [''deadline exceeded'', ''timeout'', ''timed out'']
      then ''Request timed out. The model took too long to respond. Try a simpler prompt or a faster tier.''
      else if has_any lower [''429'', ''rate limit'', ''rate_limit'', ''too many requests'']
      then ''Rate limit hit. Wait a moment and try again, or switch to a different tier.''
      else if has_any lower [''context_length'', ''context length'', ''maximum context'', ''token limit'',
                             ''too many tokens'', ''max tokens'']
      then ''Context too long for this model. Use /new to start fresh, or switch to a tier with a larger context window.''
      else if has_any lower [''401'', ''403'', ''unauthorized'', ''invalid api key'', ''authentication'']
      then ''Authentication error. Check your API key in the tier configuration.''
      else if has_any lower [''404'', ''model not found'', ''does not exist'']
      then ''Model not available. Check the model name in your tier configuration.''
      else if has_any lower [''500'', ''502'', ''503'', ''internal server error'', ''service unavailable'', ''bad gateway'']
      then ''The AI provider is experiencing issues. Try again in a moment, or switch to a different tier.''
      else if ctxErr = Canceled \<or> has_any lower [''context canceled'', ''signal: killed'']
      then ''Request was cancelled.''
      else ''An error occurred: '' @ truncate errMsg 200 @ ''. Try again or use /new to start fresh.'')"

section \<open>What the accumulator reconstructs\<close>

text \<open>The parts of an answer, the events that stand for each (any split into deltas), and the blocks they
  are recorded as. The provider engine drops block stops, so a part ends where the next begins; two
  texts in a row are one text unless something is between them.\<close>

datatype part = Say "string list" | Think "string list" | Call string "string list" string string | Stop

fun part_ok :: "part \<Rightarrow> bool" where
  "part_ok (Say ts) \<longleftrightarrow> ts \<noteq> []"
| "part_ok (Call name _ _ _) \<longleftrightarrow> name \<noteq> []"
| "part_ok _ \<longleftrightarrow> True"

definition pe :: "string \<Rightarrow> string \<Rightarrow> string \<Rightarrow> stream_event" where
  "pe t x d = \<lparr>pe_type = t, pe_text = x, pe_detail = d\<rparr>"

fun events_of :: "part \<Rightarrow> stream_event list" where
  "events_of (Say ts) = map (\<lambda>x. pe ''text_delta'' x []) ts"
| "events_of (Think ts) = pe ''thinking'' [] [] # map (\<lambda>x. pe ''thinking'' x []) ts"
| "events_of (Call name ins tid out) =
     pe ''tool_use'' [] name # map (\<lambda>x. pe ''tool_input'' x []) ins @ [pe ''tool_result'' out tid]"
| "events_of Stop = [pe ''block_stop'' [] []]"

fun blocks_of :: "part \<Rightarrow> content_block list" where
  "blocks_of (Say ts) = (if concat ts = [] then [] else [text_block BlockText (concat ts)])"
| "blocks_of (Think ts) =
     (if concat ts = [] then [] else [text_block BlockThinking (clip maxAccumThinkingBytes (concat ts))])"
| "blocks_of (Call name ins tid out) =
     [use_block name (concat ins) tid, result_block tid (clip maxAccumToolResultBytes out)]"
| "blocks_of Stop = []"

datatype pending = NoneOpen | TextOpen | ThinkOpen

fun opens_with :: "part \<Rightarrow> pending \<Rightarrow> bool" where
  "opens_with (Say _) k \<longleftrightarrow> k \<noteq> TextOpen"
| "opens_with (Think _) k \<longleftrightarrow> k \<noteq> ThinkOpen"
| "opens_with _ _ \<longleftrightarrow> True"

fun left_open :: "part \<Rightarrow> pending" where
  "left_open (Say _) = TextOpen"
| "left_open (Think _) = ThinkOpen"
| "left_open _ = NoneOpen"

fun separated :: "pending \<Rightarrow> part list \<Rightarrow> bool" where
  "separated k [] \<longleftrightarrow> True"
| "separated k (p # ps) \<longleftrightarrow> part_ok p \<and> opens_with p k \<and> separated (left_open p) ps"

fun holds_open :: "pending \<Rightarrow> accumulator \<Rightarrow> bool" where
  "holds_open NoneOpen a \<longleftrightarrow> \<not> ac_in_thinking a \<and> \<not> ac_in_text a \<and> ac_text a = [] \<and> ac_thinking a = [] \<and> ac_tool_name a = []"
| "holds_open TextOpen a \<longleftrightarrow> \<not> ac_in_thinking a \<and> ac_in_text a \<and> ac_thinking a = [] \<and> ac_tool_name a = []"
| "holds_open ThinkOpen a \<longleftrightarrow> ac_in_thinking a \<and> \<not> ac_in_text a \<and> ac_text a = [] \<and> ac_tool_name a = []"

lemmas flush_defs = flush_thinking_def flush_text_def flush_tool_def
lemmas event_defs = process_event_def pe_def flush_defs Let_def

lemma text_deltas:
  assumes "\<not> ac_in_thinking a" "ac_tool_name a = []" "ts \<noteq> []"
  shows "fold process_event (map (\<lambda>x. pe ''text_delta'' x []) ts) a =
           a\<lparr>ac_in_text := True, ac_text := ac_text a @ concat ts\<rparr>"
  using assms
proof (induction ts arbitrary: a)
  case (Cons t ts)
  then show ?case by (cases "ts = []") (simp_all add: event_defs)
qed simp

lemma thinking_deltas:
  assumes "ac_in_thinking a" "\<not> ac_in_text a" "ac_tool_name a = []"
  shows "fold process_event (map (\<lambda>x. pe ''thinking'' x []) ts) a =
           a\<lparr>ac_thinking := ac_thinking a @ concat ts\<rparr>"
  using assms by (induction ts arbitrary: a) (simp_all add: event_defs)

lemma tool_deltas:
  "fold process_event (map (\<lambda>x. pe ''tool_input'' x []) ts) a = a\<lparr>ac_tool_input := ac_tool_input a @ concat ts\<rparr>"
  by (induction ts arbitrary: a) (simp_all add: event_defs)

abbreviation settle :: "accumulator \<Rightarrow> accumulator" where
  "settle a \<equiv> flush_tool (flush_text (flush_thinking a))"

lemma settle_idle: "holds_open k a \<Longrightarrow> holds_open NoneOpen (settle a)"
  by (cases k) (simp_all add: flush_defs)

lemma idle_settle: "holds_open NoneOpen a \<Longrightarrow> settle a = a"
  by (simp add: flush_defs)

text \<open>The first event of a part closes what the parts before left open.\<close>

lemma first_text:
  "holds_open k a \<Longrightarrow> k \<noteq> TextOpen \<Longrightarrow> process_event (pe ''text_delta'' x []) a = process_event (pe ''text_delta'' x []) (settle a)"
  by (cases k) (simp_all add: event_defs)

lemma first_thinking:
  "holds_open k a \<Longrightarrow> k \<noteq> ThinkOpen \<Longrightarrow> process_event (pe ''thinking'' [] []) a = process_event (pe ''thinking'' [] []) (settle a)"
  by (cases k) (simp_all add: event_defs)

lemma first_tool:
  "holds_open k a \<Longrightarrow> process_event (pe ''tool_use'' [] n) a = process_event (pe ''tool_use'' [] n) (settle a)"
  by (cases k) (simp_all add: event_defs)

lemma first_stop:
  "holds_open k a \<Longrightarrow> process_event (pe ''block_stop'' [] []) a = process_event (pe ''block_stop'' [] []) (settle a)"
  by (cases k) (simp_all add: event_defs)

lemma events_settle:
  assumes "holds_open k a" "part_ok p" "opens_with p k"
  shows "fold process_event (events_of p) a = fold process_event (events_of p) (settle a)"
proof (cases p)
  case (Say ts)
  then obtain t ts' where "ts = t # ts'" using assms(2) by (cases ts) auto
  with Say assms(3) first_text[OF assms(1), of t] show ?thesis by simp
next
  case (Think ts)
  with assms(3) first_thinking[OF assms(1)] show ?thesis by simp
qed (simp_all add: first_tool[OF assms(1)] first_stop[OF assms(1)])

lemma part_from_idle:
  assumes "holds_open NoneOpen a" "part_ok p"
  shows "holds_open (left_open p) (fold process_event (events_of p) a) \<and>
         ac_blocks (settle (fold process_event (events_of p) a)) = ac_blocks a @ blocks_of p"
proof (cases p)
  case (Say ts)
  have "fold process_event (events_of p) a = a\<lparr>ac_in_text := True, ac_text := concat ts\<rparr>"
    using Say assms text_deltas[of a ts] by simp
  moreover have "ac_blocks (settle (a\<lparr>ac_in_text := True, ac_text := x\<rparr>)) =
      ac_blocks a @ (if x = [] then [] else [text_block BlockText x])" for x
    using assms(1) by (simp add: flush_defs)
  ultimately show ?thesis using Say assms(1) by simp
next
  case (Think ts)
  have start: "process_event (pe ''thinking'' [] []) a = a\<lparr>ac_in_thinking := True\<rparr>"
    using assms(1) by (simp add: event_defs)
  have "fold process_event (events_of p) a = a\<lparr>ac_in_thinking := True, ac_thinking := concat ts\<rparr>"
    using Think assms(1) by (simp add: start thinking_deltas)
  moreover have "ac_blocks (settle (a\<lparr>ac_in_thinking := True, ac_thinking := x\<rparr>)) =
      ac_blocks a @ (if x = [] then [] else [text_block BlockThinking (clip maxAccumThinkingBytes x)])" for x
    using assms(1) by (simp add: flush_defs)
  ultimately show ?thesis using Think assms(1) by simp
next
  case (Call name ins tid out)
  have start: "process_event (pe ''tool_use'' [] name) a =
                 a\<lparr>ac_tool_name := name, ac_tool_id := [], ac_tool_input := []\<rparr>"
    using assms(1) by (simp add: event_defs)
  from assms Call show ?thesis by (simp add: start tool_deltas) (simp add: event_defs)
next
  case Stop
  with assms(1) show ?thesis by (simp add: event_defs)
qed

lemma parts_fold:
  assumes "holds_open k a" "separated k ps"
  shows "ac_blocks (settle (fold process_event (concat (map events_of ps)) a)) =
         ac_blocks (settle a) @ concat (map blocks_of ps)"
  using assms
proof (induction ps arbitrary: k a)
  case (Cons p ps)
  let ?b = "fold process_event (events_of p) a"
  have ok: "part_ok p" "opens_with p k" using Cons.prems(2) by auto
  have b: "?b = fold process_event (events_of p) (settle a)" by (rule events_settle[OF Cons.prems(1) ok])
  have step: "holds_open (left_open p) ?b" "ac_blocks (settle ?b) = ac_blocks (settle a) @ blocks_of p"
    using part_from_idle[OF settle_idle[OF Cons.prems(1)] ok(1)] by (simp_all only: b)
  from Cons.IH[OF step(1)] Cons.prems(2) step(2) show ?case by simp
qed simp



text \<open>Two calls announced before their results are recorded with the wrong identifiers: the first
  use block has none, the second carries the identifier of the first call, and the second result
  refers to a use block that does not exist.\<close>

theorem parallel_calls_mismatched:
  assumes "n1 \<noteq> []" "n2 \<noteq> []" "t1 \<noteq> []"
  shows "acc_blocks (fold process_event
           [pe ''tool_use'' [] n1, pe ''tool_use'' [] n2, pe ''tool_result'' o1 t1, pe ''tool_result'' o2 t2]
           new_accumulator) =
         [use_block n1 [] [], use_block n2 [] t1,
          result_block t1 (clip maxAccumToolResultBytes o1), result_block t2 (clip maxAccumToolResultBytes o2)]"
  using assms by (simp add: event_defs new_accumulator_def acc_blocks_def)

theorem parallel_calls_mismatched_witness:
  "acc_blocks (fold process_event
     [pe ''tool_use'' [] ''A'', pe ''tool_use'' [] ''B'', pe ''tool_result'' ''x'' ''1'', pe ''tool_result'' ''y'' ''2'']
     new_accumulator) =
   [use_block ''A'' [] [], use_block ''B'' [] ''1'',
    result_block ''1'' (clip maxAccumToolResultBytes ''x''), result_block ''2'' (clip maxAccumToolResultBytes ''y'')]"
  by (rule parallel_calls_mismatched) simp_all

section \<open>Reaction tags are removed\<close>

definition complete_tag :: "string \<Rightarrow> bool" where
  "complete_tag s \<longleftrightarrow> (\<exists>a b c. s = a @ ''[[react:'' @ b @ '']]'' @ c)"

lemma str_index_complete: "\<exists>i. str_index (a @ p @ b) p = Some i \<and> i \<le> length a"
proof (induction a)
  case Nil
  then show ?case by (cases "p @ b") (auto simp: has_prefix_def, metis prefixI)
next
  case (Cons c a)
  then show ?case by auto
qed

lemma complete_tag_found:
  assumes "complete_tag s"
  shows "\<exists>i j. str_index s ''[[react:'' = Some i \<and> str_index (drop i s) '']]'' = Some j"
proof -
  from assms obtain a b c where s: "s = a @ ''[[react:'' @ (b @ '']]'' @ c)"
    unfolding complete_tag_def by auto
  obtain i where i: "str_index s ''[[react:'' = Some i" "i \<le> length a"
    using str_index_complete [of a "''[[react:''" "b @ '']]'' @ c"] unfolding s by blast
  have "drop i s = (drop i a @ ''[[react:'' @ b) @ '']]'' @ c" using i(2) by (simp add: s)
  then obtain j where "str_index (drop i s) '']]'' = Some j"
    using str_index_complete by metis
  with i(1) show ?thesis by blast
qed

text \<open>Whatever a model writes, the text shown to the user holds no complete reaction tag: the
  removal loop ends and leaves no \<open>[[react:\<dots>]]\<close>, not even one that removing another has joined.\<close>

theorem strip_react_tags_clean: "\<not> complete_tag (strip_react_tags tx)"
proof (induction tx rule: strip_react_tags.induct)
  case (1 tx)
  show ?case
  proof (cases "complete_tag tx")
    case True
    then obtain i j where ij: "str_index tx ''[[react:'' = Some i" "str_index (drop i tx) '']]'' = Some j"
      using complete_tag_found by blast
    show ?thesis using 1 [OF ij] by (subst strip_react_tags.simps) (simp add: ij)
  next
    case False
    then show ?thesis
      using 1 by (subst strip_react_tags.simps) (simp split: option.split)
  qed
qed

section \<open>The recent context is a stable sort\<close>

abbreviation newest_first :: "message list \<Rightarrow> bool" where
  "newest_first ms \<equiv> sorted_wrt (\<lambda>x y. m_created y \<le> m_created x) ms"

lemma mset_sink [simp]: "mset (sink x ys) = add_mset x (mset ys)"
  by (induction ys) auto

lemma set_sink [simp]: "set (sink x ys) = insert x (set ys)"
  by (induction ys) auto

lemma sink_sorted: "newest_first ys \<Longrightarrow> newest_first (sink x ys)"
  by (induction ys) (auto dest: le_less_trans)

lemma sink_stable:
  "newest_first ys \<Longrightarrow> filter (\<lambda>y. m_created y = k) (sink x ys) = filter (\<lambda>y. m_created y = k) (x # ys)"
  by (induction ys) auto

lemma fold_sink:
  assumes "newest_first acc"
  shows "newest_first (fold sink ms acc) \<and> mset (fold sink ms acc) = mset ms + mset acc \<and>
         filter (\<lambda>y. m_created y = k) (fold sink ms acc) = filter (\<lambda>y. m_created y = k) (rev ms @ acc)"
  using assms
proof (induction ms arbitrary: acc)
  case (Cons m ms)
  then show ?case using sink_sorted [OF Cons.prems, of m] sink_stable [OF Cons.prems, of k m] by simp
qed simp

lemma insertion_sort_is_sort_key: "insertion_sort ms = sort_key m_created ms"
proof (rule properties_for_sort_key [symmetric])
  show "mset (insertion_sort ms) = mset ms"
    using fold_sink [of "[]" ms] by (simp add: insertion_sort_def)
next
  fix k
  have "filter (\<lambda>y. m_created y = m_created k) (fold sink ms []) = filter (\<lambda>y. m_created y = m_created k) (rev ms)"
    using fold_sink [of "[]" ms "m_created k"] by simp
  then have "rev (filter (\<lambda>y. m_created y = m_created k) (fold sink ms [])) =
             rev (filter (\<lambda>y. m_created y = m_created k) (rev ms))" by simp
  then show "filter (\<lambda>x. m_created k = m_created x) (insertion_sort ms) = filter (\<lambda>x. m_created k = m_created x) ms"
    by (simp add: insertion_sort_def rev_filter eq_commute [of "m_created k"])
next
  have "sorted_wrt (\<lambda>x y. m_created x \<le> m_created y) (insertion_sort ms)"
    using fold_sink [of "[]" ms] by (simp add: insertion_sort_def sorted_wrt_rev)
  then show "sorted (map m_created (insertion_sort ms))" by (simp add: sorted_map)
qed

text \<open>The context of the router is the end of the merged history: when the conversations can be
  listed, \<open>collectRecentAll\<close> returns the last \<open>n\<close> of all their messages in the order of their times,
  those of equal times in the order of the conversations.\<close>

theorem recent_context_exact:
  "collect_recent_all ctx s n =
     (case list_convs ctx no_filter s of
        Inl _ \<Rightarrow> []
      | Inr convs \<Rightarrow> (let all = sort_key m_created (all_of ctx s convs) in drop (length all - nat n) all))"
  by (auto simp: collect_recent_all_def insertion_sort_is_sort_key Let_def nat_le_iff split: sum.split)

end
