(* ===== verification/Comms_Routing.thy ===== *)
theory Comms_Routing
  imports Comms_Tiers Comms_Stream Chat_Sessions Skills
begin

text \<open>
  The first half of \<open>ChatEngine.Process\<close> (\<open>internal/comms/pipeline.go\<close>, steps 0 to 9): persisting the
  user's message, choosing the tier that answers it over the session store, the tier catalog and the
  skills, and dispatching. The router model (\<open>ClassifyFull\<close>), the memory recall and the cancellation
  of the context are parameters; the clock, the snapshot of the tiers and the map orders are the
  same throughout one message. Traces, the event log and log lines are left out.
\<close>

section \<open>Data\<close>

record media_in =
  mi_type :: string
  mi_file_name :: string
  mi_mime_type :: string
  mi_temp_path :: string
  mi_frame_paths :: "string list"
  mi_transcript :: string
  mi_text_content :: string

record in_msg =
  in_channel :: string
  in_text :: string
  in_raw :: string
  in_router_text :: string
  in_reply_to :: string
  in_is_reply :: bool
  in_media :: "media_in list"
  in_forced_tier :: string
  in_env :: "string list"
  in_conv :: string
  in_source :: string
  in_reply_msg :: string
  in_preinserted :: string

record route_result =
  rr_tier :: string
  rr_response :: string
  rr_reason :: string
  rr_react :: string

definition to_tier :: "string \<Rightarrow> string \<Rightarrow> route_result" where
  "to_tier tier reason = \<lparr>rr_tier = tier, rr_response = [], rr_reason = reason, rr_react = []\<rparr>"

type_synonym out_event = "string \<times> (string \<times> string) list"

text \<open>What a message finds in the engine. \<open>ce_recall\<close> is the recall block and whether its best distance
  is below 0.6; \<open>ce_teams\<close> is \<open>None\<close> without an orchestrator, else whether it has teams.\<close>

record chat_engine =
  ce_tiers :: tiers_snapshot
  ce_registries :: tier_registries
  ce_resolve_model :: "(string \<Rightarrow> string) option"
  ce_classify :: "string \<Rightarrow> string \<Rightarrow> int \<Rightarrow> string \<Rightarrow> route_result"
  ce_skills :: "(string list \<times> skill_store) option"
  ce_recall :: "string \<times> bool"
  ce_onboarding :: string
  ce_teams :: "bool option"
  ce_parse_int :: "string \<Rightarrow> int option"
  ce_now :: gotime
  ce_ms :: int
  ce_new_conv :: string
  ce_new_user :: string
  ce_new_answer :: string

record pipe_state =
  ps_mem :: "in_mem option"
  ps_sessions :: chat_store
  ps_events :: "out_event list"

definition display_text :: "in_msg \<Rightarrow> string" where
  "display_text m = (if in_raw m \<noteq> [] then in_raw m else in_text m)"

definition emit_event :: "string \<Rightarrow> (string \<times> string) list \<Rightarrow> pipe_state \<Rightarrow> pipe_state" where
  "emit_event t d s = s\<lparr>ps_events := ps_events s @ [(t, d)]\<rparr>"

abbreviation arrow :: string where "arrow \<equiv> [CHR 0xE2, CHR 0x86, CHR 0x92]"

section \<open>The conversation and the user's message\<close>

text \<open>The conversation: the one of the message, else the channel's preference, else a new one that
  becomes the preference.\<close>

definition resolve_conv :: "string option \<Rightarrow> chat_engine \<Rightarrow> in_msg \<Rightarrow> pipe_state \<Rightarrow> string \<times> pipe_state" where
  "resolve_conv ctx e m s =
     (if in_conv m \<noteq> [] then (in_conv m, s)
      else case ps_mem s of
        None \<Rightarrow> ([], s)
      | Some mem \<Rightarrow>
          let key = ''active_conv:'' @ in_channel m in
          (case get_pref ctx key mem of
             Inr (Some (AnyString c)) \<Rightarrow>
               if c \<noteq> [] then (c, s)
               else (ce_new_conv e, (case set_pref ctx key (Some (AnyString (ce_new_conv e))) mem of
                                     Inl _ \<Rightarrow> s | Inr mem' \<Rightarrow> s\<lparr>ps_mem := Some mem'\<rparr>))
           | _ \<Rightarrow> (ce_new_conv e, (case set_pref ctx key (Some (AnyString (ce_new_conv e))) mem of
                                     Inl _ \<Rightarrow> s | Inr mem' \<Rightarrow> s\<lparr>ps_mem := Some mem'\<rparr>))))"

definition text_only :: "string \<Rightarrow> content_block list" where
  "text_only t = [(empty_block BlockText)\<lparr>cb_text := t\<rparr>]"

text \<open>\<open>AppendMessage\<close> whose error is dropped: the stored id, or the given one.\<close>

definition append_or :: "string option \<Rightarrow> chat_engine \<Rightarrow> string \<Rightarrow> message \<Rightarrow> string \<Rightarrow> pipe_state \<Rightarrow> string \<times> pipe_state" where
  "append_or ctx e conv msg mid s =
     (case ps_mem s of
        None \<Rightarrow> (mid, s)
      | Some mem \<Rightarrow>
          (case append_message ctx conv msg (ce_ms e) (ce_ms e) mem of
             Inl _ \<Rightarrow> (mid, s)
           | Inr (stored, mem') \<Rightarrow> (if m_id stored \<noteq> [] then m_id stored else mid, s\<lparr>ps_mem := Some mem'\<rparr>)))"

definition persist_user ::
  "string option \<Rightarrow> chat_engine \<Rightarrow> in_msg \<Rightarrow> string \<Rightarrow> string \<Rightarrow> pipe_state \<Rightarrow> string \<times> pipe_state" where
  "persist_user ctx e m conv mid s =
     (case ps_mem s of
        None \<Rightarrow> (mid, s)
      | Some mem \<Rightarrow>
          if in_preinserted m \<noteq> [] \<or> conv = [] then (mid, s)
          else
            let s1 = (case ensure_conv ctx conv [] (in_source m) (ce_ms e) mem of
                        Inl _ \<Rightarrow> s | Inr mem' \<Rightarrow> s\<lparr>ps_mem := Some mem'\<rparr>)
            in append_or ctx e conv
                 (empty_message\<lparr>m_role := ''user'', m_channel := conv_channel (in_channel m),
                                m_content := display_text m, m_blocks := text_only (display_text m),
                                m_reply_to := in_reply_msg m\<rparr>) mid s1)"

section \<open>The route\<close>

definition tier_in_catalog :: "string \<Rightarrow> tiers_snapshot \<Rightarrow> bool" where
  "tier_in_catalog name snap \<longleftrightarrow>
     list_ex (\<lambda>t. ti_name t = name \<and> (ti_enabled t \<or> ti_force_command t)) (ts_tiers snap)"

text \<open>Step 2: the tier forced by the message or the session, cleared when the catalog has it no more.\<close>

definition forced_tier :: "chat_engine \<Rightarrow> in_msg \<Rightarrow> int \<Rightarrow> chat_store \<Rightarrow> string \<times> chat_store" where
  "forced_tier e m key ss =
     (let (forced, ss1) = (if in_forced_tier m \<noteq> [] then (in_forced_tier m, ss) else get_forced_tier key (ce_now e) ss)
      in if forced \<noteq> [] \<and> \<not> tier_in_catalog forced (ce_tiers e)
         then ([], set_forced_tier key [] (ce_now e) ss1) else (forced, ss1))"

definition recent_context :: "string option \<Rightarrow> pipe_state \<Rightarrow> string" where
  "recent_context ctx s =
     (case ps_mem s of None \<Rightarrow> [] | Some mem \<Rightarrow> build_router_context (collect_recent_all ctx mem 6) 3)"

text \<open>\<open>classify\<close> is the router on a text, with the session and the recent context.\<close>

definition needs_upgrade :: "tiers_snapshot \<Rightarrow> route_result \<Rightarrow> bool" where
  "needs_upgrade snap r \<longleftrightarrow>
     rr_tier r = [] \<or> rr_response r \<noteq> [] \<or>
     list_ex (\<lambda>t. ti_name t = rr_tier r \<and> \<not> tier_has_read t) (ts_tiers snap)"

definition route_media :: "(string \<Rightarrow> route_result) \<Rightarrow> tiers_snapshot \<Rightarrow> string \<Rightarrow> route_result" where
  "route_media classify snap routerMsg =
     (if routerMsg \<noteq> [] then
        (let r = classify routerMsg in
         if needs_upgrade snap r
         then to_tier (lowest_media_tier snap)
                (''media-upgrade: '' @ rr_tier r @ arrow @ lowest_media_tier snap)
         else r)
      else to_tier (lowest_media_tier snap) ''media bypass (no caption)'')"

definition initial_route :: "(string \<Rightarrow> route_result) \<Rightarrow> tiers_snapshot \<Rightarrow> in_msg \<Rightarrow> string \<Rightarrow> route_result" where
  "initial_route classify snap m forced =
     (let routerMsg = (if in_router_text m = [] then in_text m else in_router_text m)
      in if forced \<noteq> [] then to_tier forced ''force_command''
         else if in_media m \<noteq> [] then route_media classify snap routerMsg
         else classify routerMsg)"

definition direct :: "route_result \<Rightarrow> bool" where
  "direct r \<longleftrightarrow> rr_response r \<noteq> [] \<and> rr_tier r = []"

definition reply_hint :: "in_msg \<Rightarrow> string" where
  "reply_hint m =
     (if in_reply_to m \<noteq> []
      then ''[The user is replying to:'' @ newline @ ''---'' @ newline @ in_reply_to m @ newline @ ''---'' @ newline @
           '']'' @ newline @ in_text m
      else in_text m) @ newline @
     ''[CONTEXT: This is a reply to a previous assistant message. Route to an appropriate tier - do not respond directly.]''"

definition reply_route :: "(string \<Rightarrow> route_result) \<Rightarrow> tiers_snapshot \<Rightarrow> in_msg \<Rightarrow> string \<Rightarrow> route_result \<Rightarrow> route_result" where
  "reply_route classify snap m forced r =
     (if in_is_reply m \<and> forced = [] \<and> direct r then
        (let c = classify (reply_hint m) in
         if rr_tier c \<noteq> [] then c\<lparr>rr_reason := ''reply-reclassify: '' @ rr_reason c\<rparr>
         else to_tier (first_fallback_tier snap)
                (''reply-fallback: '' @ rr_tier r @ arrow @ first_fallback_tier snap))
      else r)"

definition recall_route :: "string \<times> bool \<Rightarrow> tiers_snapshot \<Rightarrow> route_result \<Rightarrow> route_result" where
  "recall_route recall snap r =
     (if fst recall \<noteq> [] \<and> snd recall \<and> direct r
      then to_tier (first_fallback_tier snap) (''memory-override: direct'' @ arrow @ first_fallback_tier snap)
      else r)"

text \<open>The command \<open>/name text\<close> of a skill activates it and leaves the text.\<close>

definition split_command :: "string \<Rightarrow> string \<times> string option" where
  "split_command t =
     (case index_byte t (CHR '' '') of None \<Rightarrow> (t, None) | Some i \<Rightarrow> (take i t, Some (drop (i + 1) t)))"

definition skill_command :: "chat_engine \<Rightarrow> int \<Rightarrow> in_msg \<Rightarrow> chat_store \<Rightarrow> in_msg \<times> chat_store" where
  "skill_command e key m ss =
     (case ce_skills e of
        None \<Rightarrow> (m, ss)
      | Some (order, store) \<Rightarrow>
          if \<not> has_prefix (in_text m) ''/'' then (m, ss)
          else
            let (cmd, rest) = split_command (in_text m) in
            case get_skill (trim_prefix cmd ''/'') store of
              None \<Rightarrow> (m, ss)
            | Some sk \<Rightarrow>
                ((case rest of
                    None \<Rightarrow> m
                  | Some r \<Rightarrow> if trim_space r \<noteq> [] then m\<lparr>in_text := trim_space r\<rparr> else m),
                 add_skills key [sk_name sk] (ce_now e) ss))"

text \<open>\<open>None\<close> is a panic of the matcher.\<close>

definition skill_triggers :: "chat_engine \<Rightarrow> int \<Rightarrow> in_msg \<Rightarrow> chat_store \<Rightarrow> chat_store option" where
  "skill_triggers e key m ss =
     (case ce_skills e of
        None \<Rightarrow> Some ss
      | Some (order, store) \<Rightarrow>
          map_option (\<lambda>ms. if ms = [] then ss else add_skills key (map sk_name ms) (ce_now e) ss)
            (match_triggers order store (in_text m)))"

text \<open>The loop that keeps the priority of the last tier with a name.\<close>

definition last_priority :: "tiers_snapshot \<Rightarrow> string \<Rightarrow> int" where
  "last_priority snap name = fold (\<lambda>t p. if ti_name t = name then ti_priority t else p) (ts_tiers snap) (- 1)"

definition skill_tier_override :: "tiers_snapshot \<Rightarrow> route_result \<Rightarrow> string \<Rightarrow> route_result" where
  "skill_tier_override snap r minTier =
     (if direct r then to_tier minTier (''skill-tier: '' @ minTier)
      else if rr_tier r \<noteq> [] \<and> rr_tier r \<noteq> minTier \<and> 0 \<le> last_priority snap minTier \<and>
              last_priority snap (rr_tier r) < last_priority snap minTier
      then to_tier minTier (''skill-tier: '' @ rr_tier r @ arrow @ minTier)
      else r)"

text \<open>Active skills of an earlier run without a skill store call a method of a nil interface: \<open>None\<close>.\<close>

definition skill_route :: "chat_engine \<Rightarrow> int \<Rightarrow> chat_store \<Rightarrow> route_result \<Rightarrow> route_result option" where
  "skill_route e key ss r =
     (let active = get_skills key (ce_now e) ss in
      if active = [] then Some r
      else case ce_skills e of
        None \<Rightarrow> None
      | Some (order, store) \<Rightarrow>
          let minTier = resolve_min_tier store active
          in Some (if minTier = [] then r else skill_tier_override (ce_tiers e) r minTier))"

definition onboarding_route :: "chat_engine \<Rightarrow> route_result \<Rightarrow> route_result" where
  "onboarding_route e r =
     (if ce_onboarding e \<noteq> []
      then to_tier (onboarding_tier (ce_tiers e)) (''onboarding-override: '' @ onboarding_tier (ce_tiers e))
      else r)"

text \<open>Step 7.\<close>

definition valid_route :: "tiers_snapshot \<Rightarrow> string \<Rightarrow> route_result \<Rightarrow> route_result" where
  "valid_route snap forced r =
     (if rr_tier r \<noteq> [] \<and> forced = [] \<and> \<not> is_tier_valid (rr_tier r) snap
      then to_tier (first_fallback_tier snap) (''tier-invalid: '' @ rr_tier r @ arrow @ first_fallback_tier snap)
      else r)"

section \<open>Process, up to the answer\<close>

datatype front =
    Panicked
  | Cancelled string
  | Answered route_result string string
  | Routed route_result in_msg string

text \<open>Step 6: the router's own answer, recorded and sent.\<close>

definition answer_direct ::
  "string option \<Rightarrow> chat_engine \<Rightarrow> int \<Rightarrow> in_msg \<Rightarrow> string \<Rightarrow> route_result \<Rightarrow> pipe_state \<Rightarrow> string \<times> pipe_state" where
  "answer_direct ctx e key m conv r s =
     (let s1 = s\<lparr>ps_sessions := touch_context key ''router'' (ce_now e) (ps_sessions s)\<rparr>;
          (mid, s2) = (if conv = [] then (ce_new_answer e, s1)
            else append_or ctx e conv
              (empty_message\<lparr>m_role := ''assistant'', m_channel := conv_channel (in_channel m),
                             m_content := rr_response r, m_blocks := text_only (rr_response r),
                             m_model := ''router'', m_tier := ''router''\<rparr>) (ce_new_answer e) s1);
          s3 = emit_event ''text'' [(''text'', rr_response r)] s2;
          s4 = (if rr_react r \<noteq> [] then emit_event ''reaction'' [(''emoji'', rr_react r)] s3 else s3)
      in (mid, emit_event ''done'' [(''model'', ''router''), (''tier'', ''router'')] s4))"

text \<open>\<open>ctx1\<close> is the error of the context after routing; before, the stores see \<open>ctx\<close>.\<close>

definition process_front ::
  "string option \<Rightarrow> string option \<Rightarrow> chat_engine \<Rightarrow> in_msg \<Rightarrow> pipe_state \<Rightarrow> front \<times> pipe_state" where
  "process_front ctx ctx1 e m s0 =
     (let key = session_key (ce_parse_int e) (in_channel m);
          (conv, s1) = resolve_conv ctx e m s0;
          (userId, s2) = persist_user ctx e m conv (if in_preinserted m \<noteq> [] then in_preinserted m else ce_new_user e) s1;
          (forced, ss3) = forced_tier e m key (ps_sessions s2);
          (lastTier, msgCount) = chat_context key (ce_now e) ss3;
          recent = recent_context ctx s2;
          classify = (\<lambda>t. ce_classify e t lastTier msgCount recent);
          r1 = initial_route classify (ce_tiers e) m forced
      in case ctx1 of
           Some err \<Rightarrow> (Cancelled err, s2\<lparr>ps_sessions := ss3\<rparr>)
         | None \<Rightarrow>
             let r2 = reply_route classify (ce_tiers e) m forced r1;
                 r3 = recall_route (ce_recall e) (ce_tiers e) r2;
                 (m', ss4) = skill_command e key m ss3
             in (case skill_triggers e key m' ss4 of
                   None \<Rightarrow> (Panicked, s2\<lparr>ps_sessions := ss4\<rparr>)
                 | Some ss5 \<Rightarrow>
                     let s5 = s2\<lparr>ps_sessions := ss5\<rparr> in
                     (case skill_route e key ss5 r3 of
                        None \<Rightarrow> (Panicked, s5)
                      | Some r4 \<Rightarrow>
                          let r5 = onboarding_route e r4
                          in if direct r5
                             then (let (mid, s6) = answer_direct ctx e key m' conv r5 s5 in (Answered r5 userId mid, s6))
                             else (Routed (valid_route (ce_tiers e) forced r5) (m'\<lparr>in_conv := conv\<rparr>) userId, s5))))"

section \<open>Dispatch\<close>

datatype dispatch = NoModel string | ToAgents tier_params | ToTier route_result tier_params

definition dispatch_route :: "chat_engine \<Rightarrow> route_result \<Rightarrow> dispatch" where
  "dispatch_route e r =
     (let snap = ce_tiers e;
          tp = fst (resolve_tier_params (rr_tier r) snap (ce_registries e) (ce_resolve_model e))
      in case ce_teams e of
           None \<Rightarrow> ToTier r tp
         | Some teams \<Rightarrow>
             if \<not> is_orchestrator_tier snap (rr_tier r) then ToTier r tp
             else if tp_model tp = [] then NoModel (rr_tier r)
             else if teams then ToAgents tp
             else let fb = first_fallback_tier snap;
                      r' = to_tier fb (''no-teams: '' @ rr_tier r @ arrow @ fb)
                  in ToTier r' (fst (resolve_tier_params fb snap (ce_registries e) (ce_resolve_model e))))"

section \<open>A new session\<close>

definition new_session :: "chat_engine \<Rightarrow> string \<Rightarrow> pipe_state \<Rightarrow> string \<times> pipe_state" where
  "new_session e ch s =
     (let key = session_key (ce_parse_int e) ch;
          (old, ss1) = chat_archive key (ps_sessions s);
          s1 = s\<lparr>ps_sessions := clear_skills key ss1\<rparr>
      in (old, (case ps_mem s1 of
                  None \<Rightarrow> s1
                | Some mem \<Rightarrow>
                    (case set_pref None (''active_conv:'' @ ch) (Some (AnyString (ce_new_conv e))) mem of
                       Inl _ \<Rightarrow> s1 | Inr mem' \<Rightarrow> s1\<lparr>ps_mem := Some mem'\<rparr>))))"

definition signal_env :: "string \<Rightarrow> string list \<Rightarrow> string list" where
  "signal_env sock env =
     (if sock = [] then env
      else if list_ex (\<lambda>v. 16 < length v \<and> take 16 v = ''ALF_SIGNAL_SOCK='') env then env
      else env @ [''ALF_SIGNAL_SOCK='' @ sock])"

end
