(* ===== verification/Comms_Turn.thy ===== *)
theory Comms_Turn
  imports Comms_Routing
begin

text \<open>
  The second half of \<open>ChatEngine.Process\<close> (\<open>internal/comms/pipeline.go\<close>, \<open>processStandard\<close>): the call of
  a provider for a routed message, the retry without a session, the chain of fallback tiers, and
  what is recorded and sent at the end. The provider is a function of its call and of an outside
  state \<open>'w\<close> that returns its stream and its result; the context files, the tool schemas, the clock, the
  price and the context's error are parameters. Traces and the event log are left out.
\<close>

section \<open>The call of a provider\<close>

text \<open>The provider's parameters; \<open>pc_loop\<close> is the tool loop around an API provider, its tools and turns.\<close>

record provider_call =
  pc_backend :: string
  pc_loop :: "(string list \<times> int) option"
  pc_prompt :: string
  pc_model :: string
  pc_tools :: "string list"
  pc_write_capable :: bool
  pc_effort :: string
  pc_max_turns :: int
  pc_system_prompts :: "string list"
  pc_cache_breakpoint :: nat
  pc_resume :: string
  pc_conv_messages :: "(string \<times> string) list"
  pc_media :: "media_in list"
  pc_env :: "string list"

record turn_result =
  tu_text :: string
  tu_model :: string
  tu_cost :: "64 word"
  tu_session_id :: string

record 'w turn_env =
  te_chat :: chat_engine
  te_collect :: "string \<Rightarrow> string \<Rightarrow> string \<Rightarrow> string \<Rightarrow> string list"
  te_time :: string
  te_reaction :: string
  te_registered :: "string \<Rightarrow> bool"
  te_api_provider :: "string \<Rightarrow> bool"
  te_schemas :: "(string list \<Rightarrow> string list) option"
  te_instruction :: "string list \<Rightarrow> string"
  te_sock :: string
  te_invoke :: "provider_call \<Rightarrow> 'w \<Rightarrow> (string + turn_result) \<times> stream_event list \<times> 'w"
  te_ctx_err :: "'w \<Rightarrow> ctx_err"
  te_emoji :: "string \<Rightarrow> string"
  te_price :: "turn_result \<Rightarrow> string \<Rightarrow> 64 word"
  te_show_cost :: "64 word \<Rightarrow> string"
  te_duration :: int

definition is_api :: "tier_params \<Rightarrow> bool" where
  "is_api tp \<longleftrightarrow> tp_backend tp \<noteq> [] \<and> tp_backend tp \<noteq> ''cli''"

text \<open>The tool loop that is put around an API provider.\<close>

definition tool_loop :: "'w turn_env \<Rightarrow> tier_params \<Rightarrow> (string list \<times> int) option" where
  "tool_loop te tp =
     (case te_schemas te of
        None \<Rightarrow> None
      | Some strict \<Rightarrow>
          if is_api tp \<and> tp_tools tp \<noteq> [] \<and> te_api_provider te (tp_backend tp) \<and> strict (tp_tools tp) \<noteq> []
          then Some (strict (tp_tools tp), if tp_max_turns tp \<le> 0 then 10 else tp_max_turns tp)
          else None)"

text \<open>The system prompts, the stable ones before the breakpoint.\<close>

definition stable_prompts :: "'w turn_env \<Rightarrow> in_msg \<Rightarrow> tier_params \<Rightarrow> string list" where
  "stable_prompts te m tp =
     (let p0 = te_collect te (if is_api tp then ''api'' else ''cli'') (channel_prefix (in_channel m))
                 (effective_context_weight tp) (tp_backend tp);
          p1 = (if tp_system_prompt tp \<noteq> [] then tp_system_prompt tp # p0 else p0);
          p2 = (if tp_router_label tp \<noteq> [] then (''Your assigned role: '' @ tp_router_label tp) # p1 else p1)
      in if ce_onboarding (te_chat te) \<noteq> [] then p2 @ [ce_onboarding (te_chat te)] else p2)"

definition skill_prompts :: "'w turn_env \<Rightarrow> int \<Rightarrow> chat_store \<Rightarrow> tier_params \<Rightarrow> string list" where
  "skill_prompts te key ss tp =
     (case ce_skills (te_chat te) of
        None \<Rightarrow> []
      | Some (order, store) \<Rightarrow>
          if effective_context_weight tp = ''light'' then []
          else filter (\<lambda>b. b \<noteq> [])
                 [build_catalog order store, build_injection_by_name store (get_skills key (ce_now (te_chat te)) ss)])"

definition dynamic_prompts :: "'w turn_env \<Rightarrow> int \<Rightarrow> chat_store \<Rightarrow> in_msg \<Rightarrow> tier_params \<Rightarrow> string list" where
  "dynamic_prompts te key ss m tp =
     [''Current time: '' @ te_time te] @
     (if fst (ce_recall (te_chat te)) \<noteq> [] then [fst (ce_recall (te_chat te))] else []) @
     skill_prompts te key ss tp @
     (if effective_context_weight tp \<noteq> ''light'' then [te_reaction te] else []) @
     (if in_conv m \<noteq> []
      then [''Current session ID: '' @ in_conv m @ '' (channel: '' @ channel_prefix (in_channel m) @ '')''] else [])"

text \<open>The history of the conversation, as the context window.\<close>

definition history :: "string option \<Rightarrow> in_msg \<Rightarrow> pipe_state \<Rightarrow> message list option" where
  "history ctx m s =
     (case ps_mem s of
        None \<Rightarrow> None
      | Some mem \<Rightarrow>
          if in_conv m = [] then None
          else Some (build_context
                 (case list_messages ctx (in_conv m) (no_opts\<lparr>lo_summary := True\<rparr>) mem of Inl _ \<Rightarrow> [] | Inr ms \<Rightarrow> ms)
                 DefaultMaxMessages))"

definition history_prompt :: "tier_params \<Rightarrow> message list option \<Rightarrow> string list" where
  "history_prompt tp h =
     (case h of
        None \<Rightarrow> []
      | Some ms \<Rightarrow>
          let p = format_as_system_prompt ms [effective_context_weight tp] in if p \<noteq> [] then [p] else [])"

definition history_messages :: "message list option \<Rightarrow> (string \<times> string) list" where
  "history_messages h =
     (case h of None \<Rightarrow> [] | Some ms \<Rightarrow> map (\<lambda>o'. (om_role o', om_content o')) (flatten_text_only ms))"

text \<open>Which session is resumed: none for an API tier or after a change of the backend.\<close>

definition resume_id :: "chat_engine \<Rightarrow> int \<Rightarrow> string \<Rightarrow> chat_store \<Rightarrow> tier_params \<Rightarrow> string" where
  "resume_id e key sid ss tp =
     (let (_, lastBackend, _) = context_full key (ce_now e) ss
      in if is_api tp \<or> (lastBackend \<noteq> [] \<and> lastBackend \<noteq> tp_backend tp) then [] else sid)"

definition first_call :: "string option \<Rightarrow> 'w turn_env \<Rightarrow> int \<Rightarrow> string \<Rightarrow> in_msg \<Rightarrow> tier_params \<Rightarrow> pipe_state \<Rightarrow> provider_call" where
  "first_call ctx te key sid m tp s =
     (let e = te_chat te;
          stable = stable_prompts te m tp;
          lp = tool_loop te tp;
          instr = (case lp of None \<Rightarrow> [] | Some (names, _) \<Rightarrow> [te_instruction te names]);
          resume = resume_id e key sid (ps_sessions s) tp;
          h = history ctx m s
      in \<lparr>pc_backend = tp_backend tp, pc_loop = lp, pc_prompt = in_text m, pc_model = tp_model tp,
          pc_tools = tp_tools tp, pc_write_capable = tp_write_capable tp, pc_effort = tp_effort tp,
          pc_max_turns = tp_max_turns tp,
          pc_system_prompts = instr @ stable @ dynamic_prompts te key (ps_sessions s) m tp @
             (if \<not> is_api tp \<and> resume = [] then history_prompt tp h else []),
          pc_cache_breakpoint = length instr + length stable,
          pc_resume = resume,
          pc_conv_messages = (if is_api tp then history_messages h else []),
          pc_media = (if is_api tp then in_media m else []),
          pc_env = signal_env (te_sock te) (in_env m) @
             [''ALF_CHAIN_ORIGIN='' @ channel_prefix (in_channel m) @ '':'' @ in_conv m]\<rparr>)"

section \<open>One invocation\<close>

definition progress_event :: "stream_event \<Rightarrow> pipe_state \<Rightarrow> pipe_state" where
  "progress_event ev s =
     (if pe_type ev = ''thinking''
      then emit_event ''thinking'' (if pe_text ev \<noteq> [] then [(''text'', pe_text ev)] else []) s
      else if pe_type ev = ''tool_use'' then emit_event ''tool_use'' [(''name'', pe_detail ev)] s
      else if pe_type ev = ''tool_input''
      then emit_event ''tool_input'' [(''name'', pe_detail ev), (''chunk'', pe_text ev)] s
      else if pe_type ev = ''tool_result''
      then emit_event ''tool_result'' [(''tool_id'', pe_detail ev), (''result'', pe_text ev)] s
      else if pe_type ev = ''text_delta''
      then (if strip_react_tags (pe_text ev) \<noteq> []
            then emit_event ''text_delta'' [(''text'', strip_react_tags (pe_text ev))] s else s)
      else s)"

text \<open>Every attempt has a fresh accumulator.\<close>

record 'w attempt =
  at_result :: "string + turn_result"
  at_acc :: accumulator
  at_state :: pipe_state
  at_world :: 'w

definition invoke_once :: "'w turn_env \<Rightarrow> provider_call \<Rightarrow> pipe_state \<Rightarrow> 'w \<Rightarrow> 'w attempt" where
  "invoke_once te call s w =
     (let (res, evs, w') = te_invoke te call w
      in \<lparr>at_result = res, at_acc = fold process_event evs new_accumulator,
          at_state = fold progress_event evs s, at_world = w'\<rparr>)"

text \<open>The call, and once more without a session when a CLI call failed that had one on record.\<close>

definition retries :: "'w turn_env \<Rightarrow> string \<Rightarrow> tier_params \<Rightarrow> 'w attempt \<Rightarrow> bool" where
  "retries te sid tp a \<longleftrightarrow> isl (at_result a) \<and> sid \<noteq> [] \<and> \<not> is_api tp \<and> te_ctx_err te (at_world a) = NoErr"

definition fresh_call :: "string option \<Rightarrow> in_msg \<Rightarrow> tier_params \<Rightarrow> pipe_state \<Rightarrow> provider_call \<Rightarrow> provider_call" where
  "fresh_call ctx m tp s call =
     call\<lparr>pc_resume := [], pc_system_prompts := pc_system_prompts call @ history_prompt tp (history ctx m s)\<rparr>"

definition call_primary ::
  "string option \<Rightarrow> 'w turn_env \<Rightarrow> int \<Rightarrow> string \<Rightarrow> in_msg \<Rightarrow> tier_params \<Rightarrow> provider_call \<Rightarrow> pipe_state \<Rightarrow> 'w \<Rightarrow>
   provider_call \<times> 'w attempt" where
  "call_primary ctx te key sid m tp call s w =
     (let a = invoke_once te call s w in
      if retries te sid tp a
      then let s1 = (at_state a)\<lparr>ps_sessions := snd (chat_archive key (ps_sessions (at_state a)))\<rparr>;
               call' = fresh_call ctx m tp s1 call
           in (call', invoke_once te call' s1 (at_world a))
      else (call, a))"

section \<open>Fallback tiers\<close>

definition fallback_call :: "'w turn_env \<Rightarrow> provider_call \<Rightarrow> tier_params \<Rightarrow> provider_call" where
  "fallback_call te call tp =
     \<lparr>pc_backend = tp_backend tp, pc_loop = tool_loop te tp, pc_prompt = pc_prompt call, pc_model = tp_model tp,
      pc_tools = tp_tools tp, pc_write_capable = tp_write_capable tp, pc_effort = tp_effort tp,
      pc_max_turns = tp_max_turns tp, pc_system_prompts = pc_system_prompts call, pc_cache_breakpoint = 0,
      pc_resume = [], pc_conv_messages = pc_conv_messages call, pc_media = [], pc_env = pc_env call\<rparr>"

text \<open>The parameters of a fallback tier that passes the tests before the call.\<close>

definition usable_fallback :: "'w turn_env \<Rightarrow> string \<Rightarrow> tier_params option" where
  "usable_fallback te name =
     (let e = te_chat te; snap = ce_tiers e;
          (tp, found) = resolve_tier_params name snap (ce_registries e) (ce_resolve_model e)
      in if found \<and> list_ex (\<lambda>t. ti_name t = name \<and> ti_enabled t) (ts_tiers snap) \<and>
            (is_api tp \<longrightarrow> te_registered te (tp_backend tp))
         then Some tp else None)"

definition ellipsis :: string where "ellipsis = [CHR 0xE2, CHR 0x80, CHR 0xA6]"

definition announce_fallback :: "string \<Rightarrow> string \<Rightarrow> pipe_state \<Rightarrow> pipe_state" where
  "announce_fallback failed name s =
     emit_event ''system''
       [(''text'', ''Tier '' @ go_quote failed @ '' failed, trying fallback '' @ go_quote name @ ellipsis),
        (''level'', ''warn'')] s"

fun fallback_loop ::
  "'w turn_env \<Rightarrow> provider_call \<Rightarrow> string list \<Rightarrow> route_result \<Rightarrow> tier_params \<Rightarrow> 'w attempt \<Rightarrow>
   route_result \<times> tier_params \<times> 'w attempt" where
  "fallback_loop te call [] r tp a = (r, tp, a)"
| "fallback_loop te call (name # names) r tp a =
     (let s1 = announce_fallback (rr_tier r) name (at_state a) in
      case usable_fallback te name of
        None \<Rightarrow> fallback_loop te call names r tp (a\<lparr>at_state := s1\<rparr>)
      | Some tp' \<Rightarrow>
          let a' = invoke_once te (fallback_call te call tp') s1 (at_world a) in
          if isl (at_result a') then fallback_loop te call names r tp a'
          else (r\<lparr>rr_tier := name, rr_reason := rr_reason r @ '' [fallback: '' @ name @ '']''\<rparr>, tp',
                a'\<lparr>at_state := emit_event ''routed'' [(''tier'', name), (''model'', tp_model tp')] (at_state a')\<rparr>))"

definition call_with_fallbacks ::
  "'w turn_env \<Rightarrow> provider_call \<Rightarrow> route_result \<Rightarrow> tier_params \<Rightarrow> 'w attempt \<Rightarrow> route_result \<times> tier_params \<times> 'w attempt" where
  "call_with_fallbacks te call r tp a =
     (if isl (at_result a) \<and> te_ctx_err te (at_world a) = NoErr
      then fallback_loop te call (resolve_fallback_chain (rr_tier r) (ce_tiers (te_chat te))) r tp a
      else (r, tp, a))"

section \<open>The end of the turn\<close>

text \<open>\<open>stripToolXML\<close>: the non-greedy patterns, one after the other; a match is not scanned again.\<close>

function strip_between :: "string \<Rightarrow> string \<Rightarrow> string \<Rightarrow> string" where
  "strip_between op cl s =
     (case str_index s op of
        None \<Rightarrow> s
      | Some i \<Rightarrow>
          (case str_index (drop (i + length op) s) cl of
             None \<Rightarrow> s
           | Some j \<Rightarrow>
               if op = [] then s
               else take i s @ strip_between op cl (drop (i + length op + j + length cl) s)))"
  by pat_completeness auto
termination
  by (relation "measure (\<lambda>(op, cl, s). length s)") (auto dest!: str_index_first simp: length_greater_0_conv[symmetric] simp del: length_greater_0_conv)

declare strip_between.simps [simp del]

definition strip_tool_xml :: "string \<Rightarrow> string" where
  "strip_tool_xml t =
     trim_space (strip_between ''<tool_use>'' ''</tool_use>''
       (strip_between ''<invoke>'' ''</invoke>''
         (strip_between ''<function_calls>'' ''</function_calls>'' t)))"

definition turn_limit_notice :: "string \<Rightarrow> string" where
  "turn_limit_notice t =
     (if has_any (to_lower t) [''turn limit reached'', ''tool calling turn limit'']
      then ''Turn limit reached for this request. You can continue the conversation '' @ [CHR 0xE2, CHR 0x80, CHR 0x94] @
           '' the model will pick up where it left off. Use /new if you want to start fresh.''
      else [])"

definition resume_hint :: string where
  "resume_hint = ''Turn limit reached. Send another message to continue, increase the timeout, or raise the turn limit.''"

definition system_message :: "in_msg \<Rightarrow> string \<Rightarrow> message" where
  "system_message m t =
     empty_message\<lparr>m_role := ''system'', m_channel := conv_channel (in_channel m), m_content := t, m_blocks := text_only t\<rparr>"

definition append_system :: "string option \<Rightarrow> chat_engine \<Rightarrow> in_msg \<Rightarrow> string \<Rightarrow> pipe_state \<Rightarrow> pipe_state" where
  "append_system ctx e m t s = (if in_conv m = [] then s else snd (append_or ctx e (in_conv m) (system_message m t) [] s))"

text \<open>The failure: a cancelled request is left to its handler, any other is reported and recorded.\<close>

definition turn_failed :: "string option \<Rightarrow> 'w turn_env \<Rightarrow> in_msg \<Rightarrow> string \<Rightarrow> 'w attempt \<Rightarrow> pipe_state" where
  "turn_failed ctx te m err a =
     (if te_ctx_err te (at_world a) = Canceled then at_state a
      else let notice = classify_provider_error err (te_ctx_err te (at_world a)) in
           append_system ctx (te_chat te) m notice
             (emit_event ''system'' [(''text'', notice), (''level'', ''error'')]
               (emit_event ''error'' [(''text'', err)] (at_state a))))"

record process_result =
  pr_text :: string
  pr_model :: string
  pr_tier :: string
  pr_reason :: string
  pr_cost :: "64 word"
  pr_session_id :: string
  pr_reaction :: string
  pr_skills :: "string list"
  pr_blocks :: "content_block list"
  pr_duration :: int
  pr_user_id :: string
  pr_assistant_id :: string
  pr_turn_limit :: bool
  pr_is_agent :: bool

definition strip_block :: "content_block \<Rightarrow> content_block" where
  "strip_block b = (if cb_type b = BlockText then b\<lparr>cb_text := strip_react_tags (cb_text b)\<rparr> else b)"

definition record_session :: "'w turn_env \<Rightarrow> int \<Rightarrow> in_msg \<Rightarrow> route_result \<Rightarrow> tier_params \<Rightarrow> turn_result \<Rightarrow> pipe_state \<Rightarrow> pipe_state" where
  "record_session te key m r tp res s =
     (let now = ce_now (te_chat te) in
      if tu_session_id res \<noteq> []
      then s\<lparr>ps_sessions := set_with_backend key (tu_session_id res) (rr_tier r) (tp_backend tp) now (ps_sessions s)\<rparr>
      else if is_api tp
      then s\<lparr>ps_sessions := set_with_backend key (in_conv m) (rr_tier r) (tp_backend tp) now (ps_sessions s)\<rparr>
      else s)"

definition assistant_message ::
  "'w turn_env \<Rightarrow> in_msg \<Rightarrow> route_result \<Rightarrow> tier_params \<Rightarrow> turn_result \<Rightarrow> 64 word \<Rightarrow> string \<Rightarrow> accumulator \<Rightarrow> message" where
  "assistant_message te m r tp res cost shown acc =
     (let blocks = map strip_block (acc_blocks acc)
      in empty_message\<lparr>m_role := ''assistant'', m_channel := conv_channel (in_channel m), m_content := shown,
           m_blocks := (if blocks = [] then text_only shown else blocks), m_model := tu_model res,
           m_tier := rr_tier r, m_backend := tp_backend tp, m_cost := cost, m_duration := te_duration te,
           m_session_id := tu_session_id res\<rparr>)"

definition size_warning :: "'w turn_env \<Rightarrow> int \<Rightarrow> pipe_state \<Rightarrow> pipe_state" where
  "size_warning te key s =
     (let mc = snd (chat_context key (ce_now (te_chat te)) (ps_sessions s)) in
      if mc \<ge> 20
      then emit_event ''system''
             [(''text'', ''Context is getting large ('' @ show_int mc @ '' messages). Consider using /new to start fresh.''),
              (''level'', if mc \<ge> 40 then ''critical'' else ''high'')] s
      else s)"

definition limit_notice :: "string option \<Rightarrow> 'w turn_env \<Rightarrow> in_msg \<Rightarrow> route_result \<Rightarrow> turn_result \<Rightarrow> string \<Rightarrow> pipe_state \<Rightarrow> bool \<times> pipe_state" where
  "limit_notice ctx te m r res shown s =
     (if turn_limit_notice shown = [] then (False, s)
      else let full = turn_limit_notice shown @ '' '' @ resume_hint in
        (True, append_system ctx (te_chat te) m full
           (emit_event ''system'' [(''text'', full), (''level'', ''warning''), (''turn_limit'', ''true''),
                                   (''session_id'', tu_session_id res), (''tier'', rr_tier r)] s)))"

text \<open>The reaction of the answer, with its event, then the record, then the final events.\<close>

definition send_reaction :: "'w turn_env \<Rightarrow> string \<Rightarrow> pipe_state \<Rightarrow> string \<times> pipe_state" where
  "send_reaction te suggested s =
     (if suggested \<noteq> [] \<and> te_emoji te suggested \<noteq> []
      then (te_emoji te suggested, emit_event ''reaction'' [(''emoji'', te_emoji te suggested)] s)
      else (suggested, s))"

definition persist_answer ::
  "string option \<Rightarrow> 'w turn_env \<Rightarrow> in_msg \<Rightarrow> message \<Rightarrow> pipe_state \<Rightarrow> string \<times> pipe_state" where
  "persist_answer ctx te m msg s =
     (if in_conv m = [] then (ce_new_answer (te_chat te), s)
      else append_or ctx (te_chat te) (in_conv m) msg (ce_new_answer (te_chat te)) s)"

definition send_done :: "'w turn_env \<Rightarrow> route_result \<Rightarrow> turn_result \<Rightarrow> 64 word \<Rightarrow> string \<Rightarrow> pipe_state \<Rightarrow> pipe_state" where
  "send_done te r res cost shown s =
     emit_event ''done'' [(''model'', tu_model res), (''tier'', rr_tier r), (''cost'', te_show_cost te cost),
                          (''session_id'', tu_session_id res), (''duration'', show_int (te_duration te))]
       (emit_event ''text'' [(''text'', shown)] s)"

definition turn_done ::
  "string option \<Rightarrow> 'w turn_env \<Rightarrow> int \<Rightarrow> in_msg \<Rightarrow> string \<Rightarrow> route_result \<Rightarrow> tier_params \<Rightarrow> turn_result \<Rightarrow> accumulator \<Rightarrow>
   pipe_state \<Rightarrow> process_result \<times> pipe_state" where
  "turn_done ctx te key m userId r tp res acc s =
     (let cost = te_price te res (tp_backend tp);
          (suggested, shown) = extract_reaction (strip_tool_xml (tu_text res));
          (emoji, s2) = send_reaction te suggested (record_session te key m r tp res s);
          (mid, s3) = persist_answer ctx te m (assistant_message te m r tp res cost shown acc) s2;
          (hit, s6) = limit_notice ctx te m r res shown (send_done te r res cost shown s3);
          s7 = size_warning te key s6
      in (\<lparr>pr_text = shown, pr_model = tu_model res, pr_tier = rr_tier r, pr_reason = rr_reason r, pr_cost = cost,
           pr_session_id = tu_session_id res, pr_reaction = emoji,
           pr_skills = get_skills key (ce_now (te_chat te)) (ps_sessions s7),
           pr_blocks = (case ps_mem s of None \<Rightarrow> [] | Some _ \<Rightarrow> acc_blocks acc), pr_duration = te_duration te,
           pr_user_id = userId, pr_assistant_id = mid, pr_turn_limit = hit,
           pr_is_agent = False\<rparr>, s7))"

definition process_standard ::
  "string option \<Rightarrow> 'w turn_env \<Rightarrow> in_msg \<Rightarrow> route_result \<Rightarrow> tier_params \<Rightarrow> string \<Rightarrow> pipe_state \<Rightarrow> 'w \<Rightarrow>
   process_result res \<times> pipe_state \<times> 'w" where
  "process_standard ctx te m r tp userId s0 w =
     (let e = te_chat te;
          key = session_key (ce_parse_int e) (in_channel m);
          (sid, ss1) = chat_get key (ce_now e) (ps_sessions s0);
          call = first_call ctx te key sid m tp (s0\<lparr>ps_sessions := ss1\<rparr>);
          (call1, a1) = call_primary ctx te key sid m tp call (s0\<lparr>ps_sessions := ss1\<rparr>) w;
          (r', tp', a) = call_with_fallbacks te call1 r tp a1
      in case at_result a of
           Inl err \<Rightarrow> (Err (''provider: '' @ err), turn_failed ctx te m err a, at_world a)
         | Inr res \<Rightarrow>
             (let (out, s) = turn_done ctx te key m userId r' tp' res (at_acc a) (at_state a)
              in (Ok out, s, at_world a)))"

section \<open>The whole message\<close>

datatype processed =
    PPanicked
  | PError string
  | PDirect route_result string string
  | PNoModel
  | PAgents tier_params in_msg string
  | PAnswer "process_result res"

definition process ::
  "string option \<Rightarrow> string option \<Rightarrow> string option \<Rightarrow> 'w turn_env \<Rightarrow> in_msg \<Rightarrow> pipe_state \<Rightarrow> 'w \<Rightarrow> processed \<times> pipe_state \<times> 'w" where
  "process ctx ctx1 ctx2 te m s0 w =
     (case process_front ctx ctx1 (te_chat te) m s0 of
        (Panicked, s) \<Rightarrow> (PPanicked, s, w)
      | (Cancelled err, s) \<Rightarrow> (PError err, s, w)
      | (Answered r userId mid, s) \<Rightarrow> (PDirect r userId mid, s, w)
      | (Routed r m' userId, s) \<Rightarrow>
          (case ctx2 of
             Some err \<Rightarrow> (PError err, s, w)
           | None \<Rightarrow>
               let s1 = emit_event ''routed''
                     [(''tier'', rr_tier r),
                      (''model'', tp_model (fst (resolve_tier_params (rr_tier r) (ce_tiers (te_chat te))
                         (ce_registries (te_chat te)) (ce_resolve_model (te_chat te)))))] s
               in (case dispatch_route (te_chat te) r of
                     NoModel t \<Rightarrow>
                       (PNoModel,
                        emit_event ''done'' [(''tier'', t), (''model'', [])]
                          (emit_event ''text'' [(''text'', [CHR 0xE2, CHR 0x9A, CHR 0xA0, CHR 0xEF, CHR 0xB8, CHR 0x8F] @
                             '' Orchestrator tier has no model configured. Please set a model (e.g. '' @ go_quote ''sonnet'' @
                             '') in your orchestrator tier config.'')] s1), w)
                   | ToAgents tp \<Rightarrow> (PAgents tp m' userId, s1, w)
                   | ToTier r' tp \<Rightarrow>
                       (let (res, s2, w') = process_standard ctx (te :: 'w turn_env) m' r' tp userId s1 w
                        in (PAnswer res, s2, w')))))"

end
