(* ===== verification/Agents_Model.thy ===== *)
theory Agents_Model
  imports Json_Parse Comms_Turn
begin

text \<open>
  The data of \<open>internal/runtime/agents\<close>: teams and their agents (\<open>types.go\<close>), the store that loads them
  from JSON files (\<open>store.go\<close>), the sessions of one run (\<open>session.go\<close>), the orchestrator's prompt
  (\<open>prompt.go\<close>) and the preparation of a run (\<open>prepare.go\<close>). Costs are the bit patterns of Go's
  float64; the instruction text that is compiled into the binary is an argument.
\<close>

section \<open>Types\<close>

record agent_config =
  ag_name :: string
  ag_description :: string
  ag_tier :: string
  ag_system_prompt :: string
  ag_skills :: "string list"

record team_config =
  tg_id :: string
  tg_name :: string
  tg_description :: string
  tg_orchestrator_prompt :: string
  tg_max_agents :: int
  tg_timeout_min :: int
  tg_agents :: "agent_config list"

record agent_tier =
  gt_model :: string
  gt_backend :: string
  gt_tools :: "string list"
  gt_effort :: string
  gt_write_capable :: bool
  gt_max_turns :: int
  gt_system_prompt :: string

record plan_step =
  pl_step :: int
  pl_description :: string
  pl_agents :: "string list"

record approval_decision =
  ad_approved :: bool
  ad_feedback :: string

record delegate_request =
  dr_agent :: string
  dr_task :: string

record orchestrator_output =
  oo_delegates :: "delegate_request list"
  oo_response :: string
  oo_thinking :: string
  oo_plan :: "plan_step list"
  oo_questions :: "string list"
  oo_gather :: "string list"

record agent_result =
  aw_agent :: string
  aw_task :: string
  aw_status :: string
  aw_model :: string
  aw_text :: string
  aw_error :: string
  aw_cost :: "64 word"
  aw_duration :: duration

record run_config =
  rn_model :: string
  rn_backend :: string
  rn_effort :: string
  rn_max_iterations :: int
  rn_max_turns :: int
  rn_orchestrator_max_turns :: int
  rn_timeout_min :: int
  rn_skill_prompts :: "string list"
  rn_skill_lookup :: "(string \<Rightarrow> string option) option"
  rn_memory_context :: "string list"
  rn_need_validation :: bool
  rn_source :: string
  rn_team :: string
  rn_original_request :: string
  rn_conversation_context :: string

record task_meta =
  tk_id :: string
  tk_prompt :: string
  tk_response :: string
  tk_started :: gotime
  tk_completed :: "gotime option"
  tk_iterations :: nat
  tk_cost :: "64 word"
  tk_calls :: "agent_result list"
  tk_status :: string
  tk_plan :: "plan_step list"
  tk_questions :: "string list"
  tk_need_validation :: bool
  tk_feedback :: string
  tk_source :: string
  tk_team :: string

section \<open>Reading teams and outputs\<close>

definition no_agent :: agent_config where
  "no_agent = \<lparr>ag_name = [], ag_description = [], ag_tier = [], ag_system_prompt = [], ag_skills = []\<rparr>"

definition no_team :: team_config where
  "no_team = \<lparr>tg_id = [], tg_name = [], tg_description = [], tg_orchestrator_prompt = [], tg_max_agents = 0,
              tg_timeout_min = 0, tg_agents = []\<rparr>"

definition agent_field :: "string \<Rightarrow> json \<Rightarrow> agent_config \<Rightarrow> agent_config option" where
  "agent_field k v a =
     (if k = ''name'' then map_option (\<lambda>x. a\<lparr>ag_name := x\<rparr>) (dec_string v (ag_name a))
      else if k = ''description'' then map_option (\<lambda>x. a\<lparr>ag_description := x\<rparr>) (dec_string v (ag_description a))
      else if k = ''tier'' then map_option (\<lambda>x. a\<lparr>ag_tier := x\<rparr>) (dec_string v (ag_tier a))
      else if k = ''system_prompt'' then map_option (\<lambda>x. a\<lparr>ag_system_prompt := x\<rparr>) (dec_string v (ag_system_prompt a))
      else if k = ''skills'' then map_option (\<lambda>x. a\<lparr>ag_skills := x\<rparr>) (dec_slice dec_string [] v (ag_skills a))
      else Some a)"

definition team_field :: "string \<Rightarrow> json \<Rightarrow> team_config \<Rightarrow> team_config option" where
  "team_field k v t =
     (if k = ''id'' then map_option (\<lambda>x. t\<lparr>tg_id := x\<rparr>) (dec_string v (tg_id t))
      else if k = ''name'' then map_option (\<lambda>x. t\<lparr>tg_name := x\<rparr>) (dec_string v (tg_name t))
      else if k = ''description'' then map_option (\<lambda>x. t\<lparr>tg_description := x\<rparr>) (dec_string v (tg_description t))
      else if k = ''orchestrator_prompt''
      then map_option (\<lambda>x. t\<lparr>tg_orchestrator_prompt := x\<rparr>) (dec_string v (tg_orchestrator_prompt t))
      else if k = ''max_agents_per_request'' then map_option (\<lambda>x. t\<lparr>tg_max_agents := x\<rparr>) (dec_int v (tg_max_agents t))
      else if k = ''global_timeout_minutes'' then map_option (\<lambda>x. t\<lparr>tg_timeout_min := x\<rparr>) (dec_int v (tg_timeout_min t))
      else if k = ''agents''
      then map_option (\<lambda>x. t\<lparr>tg_agents := x\<rparr>) (dec_slice (dec_struct agent_field) no_agent v (tg_agents t))
      else Some t)"

definition decode_team :: "string \<Rightarrow> team_config option" where
  "decode_team data = (case parse_json data of None \<Rightarrow> None | Some v \<Rightarrow> dec_struct team_field v no_team)"

definition no_output :: orchestrator_output where
  "no_output = \<lparr>oo_delegates = [], oo_response = [], oo_thinking = [], oo_plan = [], oo_questions = [], oo_gather = []\<rparr>"

definition delegate_field :: "string \<Rightarrow> json \<Rightarrow> delegate_request \<Rightarrow> delegate_request option" where
  "delegate_field k v d =
     (if k = ''agent'' then map_option (\<lambda>x. d\<lparr>dr_agent := x\<rparr>) (dec_string v (dr_agent d))
      else if k = ''task'' then map_option (\<lambda>x. d\<lparr>dr_task := x\<rparr>) (dec_string v (dr_task d))
      else Some d)"

definition plan_field :: "string \<Rightarrow> json \<Rightarrow> plan_step \<Rightarrow> plan_step option" where
  "plan_field k v p =
     (if k = ''step'' then map_option (\<lambda>x. p\<lparr>pl_step := x\<rparr>) (dec_int v (pl_step p))
      else if k = ''description'' then map_option (\<lambda>x. p\<lparr>pl_description := x\<rparr>) (dec_string v (pl_description p))
      else if k = ''agents'' then map_option (\<lambda>x. p\<lparr>pl_agents := x\<rparr>) (dec_slice dec_string [] v (pl_agents p))
      else Some p)"

definition output_field :: "string \<Rightarrow> json \<Rightarrow> orchestrator_output \<Rightarrow> orchestrator_output option" where
  "output_field k v out =
     (if k = ''delegates''
      then map_option (\<lambda>x. out\<lparr>oo_delegates := x\<rparr>)
             (dec_slice (dec_struct delegate_field) \<lparr>dr_agent = [], dr_task = []\<rparr> v (oo_delegates out))
      else if k = ''response'' then map_option (\<lambda>x. out\<lparr>oo_response := x\<rparr>) (dec_string v (oo_response out))
      else if k = ''thinking'' then map_option (\<lambda>x. out\<lparr>oo_thinking := x\<rparr>) (dec_string v (oo_thinking out))
      else if k = ''plan''
      then map_option (\<lambda>x. out\<lparr>oo_plan := x\<rparr>)
             (dec_slice (dec_struct plan_field) \<lparr>pl_step = 0, pl_description = [], pl_agents = []\<rparr> v (oo_plan out))
      else if k = ''questions'' then map_option (\<lambda>x. out\<lparr>oo_questions := x\<rparr>) (dec_slice dec_string [] v (oo_questions out))
      else if k = ''gather'' then map_option (\<lambda>x. out\<lparr>oo_gather := x\<rparr>) (dec_slice dec_string [] v (oo_gather out))
      else Some out)"

definition decode_output :: "string \<Rightarrow> orchestrator_output option" where
  "decode_output data = (case parse_json data of None \<Rightarrow> None | Some v \<Rightarrow> dec_struct output_field v no_output)"

section \<open>The store of teams\<close>

definition split_team_agent :: "string \<Rightarrow> string \<times> string" where
  "split_team_agent s = (case index_byte s (CHR ''/'') of None \<Rightarrow> (s, []) | Some i \<Rightarrow> (take i s, drop (i + 1) s))"

record agent_store =
  gs_dir :: string
  gs_current :: "string \<rightharpoonup> team_config"

text \<open>What the directory gives: \<open>Inl True\<close> when it does not exist, \<open>Inl False\<close> for another error.\<close>

record agent_fs =
  af_list :: "string \<Rightarrow> bool + (string \<times> bool) list"
  af_read :: "string \<Rightarrow> string option"

fun load_teams :: "agent_fs \<Rightarrow> string \<Rightarrow> (string \<times> bool) list \<Rightarrow> (string \<rightharpoonup> team_config) \<Rightarrow> (string \<rightharpoonup> team_config)" where
  "load_teams fs dir [] merged = merged"
| "load_teams fs dir ((name, is_dir) # es) merged =
     load_teams fs dir es
       (if is_dir \<or> \<not> has_suffix name ''.json'' then merged
        else case af_read fs (join_path [dir, name]) of
          None \<Rightarrow> merged
        | Some data \<Rightarrow>
            (case decode_team data of
               None \<Rightarrow> merged
             | Some t \<Rightarrow>
                 let t' = (if tg_name t = [] then t\<lparr>tg_name := take (length name - 5) name\<rparr> else t)
                 in merged(tg_name t' \<mapsto> t')))"

definition reload_teams :: "agent_fs \<Rightarrow> agent_store \<Rightarrow> string option \<times> agent_store" where
  "reload_teams fs s =
     (case af_list fs (gs_dir s) of
        Inl missing \<Rightarrow> (if missing then (None, s) else (Some ''readdir'', s))
      | Inr es \<Rightarrow> (None, s\<lparr>gs_current := load_teams fs (gs_dir s) es Map.empty\<rparr>))"

definition new_agent_store :: "agent_fs \<Rightarrow> string \<Rightarrow> agent_store" where
  "new_agent_store fs dir = snd (reload_teams fs \<lparr>gs_dir = dir, gs_current = Map.empty\<rparr>)"

text \<open>Sorting the teams by their names, which are the keys of the map, is sorting the keys.\<close>

definition all_teams :: "string list \<Rightarrow> agent_store \<Rightarrow> team_config list" where
  "all_teams order s = concat (map (\<lambda>n. case gs_current s n of None \<Rightarrow> [] | Some t \<Rightarrow> [t]) (sort order))"

definition get_team :: "string \<Rightarrow> agent_store \<Rightarrow> team_config option" where
  "get_team name s = gs_current s name"

definition get_agent :: "string \<Rightarrow> agent_store \<Rightarrow> (team_config \<times> agent_config) option" where
  "get_agent name s =
     (let (team, agent) = split_team_agent name in
      case get_team team s of
        None \<Rightarrow> None
      | Some t \<Rightarrow> map_option (\<lambda>a. (t, a)) (find (\<lambda>a. ag_name a = agent) (tg_agents t)))"

section \<open>Sessions of a run\<close>

type_synonym agent_sessions = "string \<rightharpoonup> string"

definition session_get :: "string \<Rightarrow> agent_sessions \<Rightarrow> string" where
  "session_get key sm = (case sm key of None \<Rightarrow> [] | Some v \<Rightarrow> v)"

definition session_set :: "string \<Rightarrow> string \<Rightarrow> agent_sessions \<Rightarrow> agent_sessions" where
  "session_set key sid sm = sm(key \<mapsto> sid)"

definition session_clear :: "string \<Rightarrow> agent_sessions \<Rightarrow> agent_sessions" where
  "session_clear key sm = sm(key := None)"

section \<open>The orchestrator's prompt\<close>

definition para :: string where "para = newline @ newline"

definition agent_line :: "team_config \<Rightarrow> agent_config \<Rightarrow> string" where
  "agent_line t a = ''- **'' @ tg_name t @ ''/'' @ ag_name a @ ''**: '' @ ag_description a @ '' (tier: '' @ ag_tier a @ '')'' @ newline"

definition team_section :: "team_config \<Rightarrow> string" where
  "team_section t =
     ''### Team: '' @ tg_name t @ newline @ tg_description t @ para @
     (if tg_orchestrator_prompt t \<noteq> []
      then ''#### Instructions for team '' @ tg_name t @ newline @ tg_orchestrator_prompt t @ para else []) @
     concat (map (agent_line t) (tg_agents t)) @ newline"

text \<open>\<open>md\<close> is the embedded instruction text, \<open>codex\<close> the block for that backend.\<close>

definition build_orchestrator_prompt :: "string \<Rightarrow> string \<Rightarrow> team_config list \<Rightarrow> string \<Rightarrow> string \<Rightarrow> string" where
  "build_orchestrator_prompt md codex teams taskDir backend =
     trim_space md @ para @
     (if backend = ''codex'' then codex @ para else []) @
     (if taskDir \<noteq> []
      then ''## Task Directory'' @ newline @ taskDir @ newline @
           ''Agents write deliverables in their working directory under this path.'' @ para else []) @
     (if teams = [] then ''## Available Agents'' @ newline @ ''No agent teams are configured.'' @ newline
      else ''## Available Agents'' @ para @ concat (map team_section teams))"

section \<open>Preparing a run\<close>

record orchestration_inputs =
  oi_user_message :: string
  oi_data_dir :: string
  oi_source :: string
  oi_model :: string
  oi_backend :: string
  oi_effort :: string
  oi_max_turns :: int
  oi_orchestrator_max_turns :: int
  oi_max_iterations :: int
  oi_timeout_min :: int
  oi_recall_block :: string
  oi_skills :: "(string list \<times> skill_store) option"
  oi_conversation_context :: string
  oi_team :: string
  oi_need_validation :: bool

definition skill_lookup :: "skill_store \<Rightarrow> string \<Rightarrow> string option" where
  "skill_lookup s name =
     (case get_skill name s of
        None \<Rightarrow> None
      | Some sk \<Rightarrow> if sk_prompt sk = [] then None else Some (sk_prompt sk))"

definition skill_injections :: "(string list \<times> skill_store) option \<Rightarrow> string \<Rightarrow> string list option" where
  "skill_injections sks message =
     (case sks of
        None \<Rightarrow> Some []
      | Some (order, store) \<Rightarrow>
          map_option (\<lambda>ms. filter (\<lambda>p. p \<noteq> []) (map sk_prompt ms)) (match_triggers order store message))"

text \<open>\<open>ws\<close> is the listing of the workspace, \<open>mem\<close> the agents' memory context; \<open>None\<close> is a panic of the
  trigger matcher.\<close>

definition prepare_orchestration ::
  "(string \<Rightarrow> string) \<Rightarrow> string list \<Rightarrow> orchestration_inputs \<Rightarrow> (string list \<times> run_config) option" where
  "prepare_orchestration ws mem i =
     map_option (\<lambda>inj.
       ((if oi_recall_block i \<noteq> [] then [oi_recall_block i] else []) @
        (case oi_skills i of
           None \<Rightarrow> []
         | Some (order, store) \<Rightarrow>
             if build_catalog order store \<noteq> [] then [build_catalog order store] else []) @
        (if oi_data_dir i \<noteq> [] \<and> ws (oi_data_dir i) \<noteq> [] then [ws (oi_data_dir i)] else []) @
        (if oi_conversation_context i \<noteq> []
         then [''=== [Recent conversation] ==='' @ newline @ oi_conversation_context i] else []),
        \<lparr>rn_model = oi_model i, rn_backend = oi_backend i, rn_effort = oi_effort i,
         rn_max_iterations = oi_max_iterations i, rn_max_turns = oi_max_turns i,
         rn_orchestrator_max_turns = oi_orchestrator_max_turns i, rn_timeout_min = oi_timeout_min i,
         rn_skill_prompts = inj,
         rn_skill_lookup = (case oi_skills i of None \<Rightarrow> None | Some (_, store) \<Rightarrow> Some (skill_lookup store)),
         rn_memory_context = mem, rn_need_validation = oi_need_validation i, rn_source = oi_source i,
         rn_team = oi_team i, rn_original_request = oi_user_message i,
         rn_conversation_context = oi_conversation_context i\<rparr>))
     (skill_injections (oi_skills i) (oi_user_message i))"

end
