(* ===== verification/Orchestrator.thy ===== *)
theory Orchestrator
  imports Agents_Model
begin

text \<open>
  \<open>internal/runtime/agents/orchestrator.go\<close>: one run of the orchestrator, from the request to its
  record, and the operations on running tasks. The providers, the user's decisions, the files and the
  clock are functions of an outside state \<open>'w\<close>. The agents of one iteration run concurrently; the
  model runs them one after the other in any order that \<open>oe_completion\<close> picks. Writing \<open>task.json\<close>
  succeeds; progress callbacks, ownership of directories and log lines are left out.
\<close>

section \<open>The environment\<close>

datatype agent_prov = DefaultProv | BackendProv string

record agent_call =
  gk_prov :: agent_prov
  gk_loop :: "(string list \<times> int) option"
  gk_prompt :: string
  gk_model :: string
  gk_tools :: "string list"
  gk_write_capable :: bool
  gk_effort :: string
  gk_max_turns :: int
  gk_system_prompts :: "string list"
  gk_resume :: string
  gk_data_dir :: string
  gk_read_only :: bool
  gk_deadline :: gotime

record 'w orch_env =
  oe_store :: agent_store
  oe_order :: "string list"
  oe_data_dir :: string
  oe_resolve_tier :: "(string \<Rightarrow> agent_tier option) option"
  oe_resolves :: bool
  oe_api_provider :: "agent_prov \<Rightarrow> bool"
  oe_schemas :: "(string list \<Rightarrow> string list) option"
  oe_wildcard :: "string list"
  oe_native :: "string list"
  oe_instruction :: "string list \<Rightarrow> string"
  oe_md :: string
  oe_codex :: string
  oe_invoke :: "agent_call \<Rightarrow> 'w \<Rightarrow> (string + turn_result) \<times> 'w"
  oe_await :: "gotime \<Rightarrow> 'w \<Rightarrow> (string + approval_decision) \<times> 'w"
  oe_read :: "'w \<Rightarrow> string \<Rightarrow> string option"
  oe_now :: "'w \<Rightarrow> gotime"
  oe_add :: "64 word \<Rightarrow> 64 word \<Rightarrow> 64 word"
  oe_show_cost :: "64 word \<Rightarrow> string"
  oe_completion :: "nat \<Rightarrow> 'w \<Rightarrow> nat list"

definition provider_for :: "bool \<Rightarrow> string \<Rightarrow> string \<Rightarrow> agent_prov" where
  "provider_for resolves backend model =
     (let b = (if backend = [] \<and> CHR ''/'' \<in> set model then ''openrouter'' else backend)
      in if resolves \<and> b \<noteq> [] \<and> b \<noteq> ''cli'' then BackendProv b else DefaultProv)"

section \<open>The protocol\<close>

fun match_brace :: "nat \<Rightarrow> string \<Rightarrow> nat option" where
  "match_brace d [] = None"
| "match_brace d (c # s) =
     (if c = CHR ''{'' then map_option Suc (match_brace (Suc d) s)
      else if c = CHR ''}'' then (if d = 1 then Some 1 else map_option Suc (match_brace (d - 1) s))
      else map_option Suc (match_brace d s))"

definition cut_json :: "string \<Rightarrow> string" where
  "cut_json text =
     (case index_byte text (CHR ''{'') of
        None \<Rightarrow> text
      | Some i \<Rightarrow> (case match_brace 0 (drop i text) of None \<Rightarrow> text | Some n \<Rightarrow> take n (drop i text)))"

definition parse_orchestrator_output :: "string \<Rightarrow> orchestrator_output" where
  "parse_orchestrator_output text =
     (case decode_output (cut_json (trim_space text)) of None \<Rightarrow> no_output | Some out \<Rightarrow> out)"

definition escape_json :: "string \<Rightarrow> string" where "escape_json s = butlast (tl (json_string s))"

definition gather_content :: "'w orch_env \<Rightarrow> 'w \<Rightarrow> string \<Rightarrow> string" where
  "gather_content env w path =
     (case oe_read env w (join_path [oe_data_dir env, path]) of
        None \<Rightarrow> ''(file not found: '' @ path @ '')''
      | Some d \<Rightarrow> if 10000 < length d then take 10000 d @ newline @ ''... (truncated)'' else d)"

definition gather_prompt :: "'w orch_env \<Rightarrow> 'w \<Rightarrow> string list \<Rightarrow> string" where
  "gather_prompt env w paths =
     ''{\"gathered_files\":{'' @
     str_join '','' (map (\<lambda>p. ''\"'' @ escape_json p @ ''\":\"'' @ escape_json (gather_content env w p) @ ''\"'') paths) @
     ''},\"instruction\":\"now analyze this context and output a plan (Option A)\"}''"

definition approved_prompt :: string where
  "approved_prompt = ''{\"plan_approved\":true,\"instruction\":\"execute the plan now by delegating to agents\"}''"

definition rejected_prompt :: "string \<Rightarrow> string" where
  "rejected_prompt feedback =
     ''{\"plan_rejected\":true,\"feedback\":\"'' @ escape_json feedback @
     ''\",\"instruction\":\"revise your plan based on the feedback and output a new plan\"}''"

definition answered_prompt :: "string \<Rightarrow> string \<Rightarrow> string" where
  "answered_prompt feedback note =
     ''{\"arbitration_response\":\"'' @ escape_json feedback @ ''\",\"instruction\":\"'' @ note @ ''\"}''"

definition brain_note :: string where
  "brain_note = ''the user has answered your questions, continue with the task''"

definition agents_note :: string where
  "agents_note = ''the user answered the agents' questions, incorporate their answers and continue''"

definition nudge_prompt :: string where
  "nudge_prompt = ''{\"agent_results\": [], \"note\": \"No delegates provided. Either delegate to agents or provide a final response.\"}''"

definition result_json :: "'w orch_env \<Rightarrow> agent_result \<Rightarrow> string" where
  "result_json env a =
     ''{\"agent\":'' @ json_string (aw_agent a) @
     (if aw_text a \<noteq> [] then '',\"result\":'' @ json_string (aw_text a) else []) @
     (if aw_error a \<noteq> [] then '',\"error\":'' @ json_string (aw_error a) else []) @
     '',\"cost_usd\":'' @ oe_show_cost env (aw_cost a) @
     '',\"duration_ms\":'' @ show_int (go_div (aw_duration a) 1000000) @ ''}''"

definition review_instruction :: "agent_result list \<Rightarrow> string" where
  "review_instruction rs =
     (if list_ex (\<lambda>a. aw_error a \<noteq> []) rs
      then ''Some agents failed. Review the errors, decide if you need to retry with different instructions or if you can produce a final response with the successful results.''
      else ''Review the agent results. If all results are satisfactory, produce your final response. If any result is incomplete, incorrect, or needs improvement, delegate again with corrective instructions.'')"

definition resume_prompt :: "'w orch_env \<Rightarrow> nat \<Rightarrow> 64 word \<Rightarrow> agent_result list \<Rightarrow> string" where
  "resume_prompt env iteration cost rs =
     ''{\"agent_results\":'' @
     (if rs = [] then ''null'' else ''['' @ str_join '','' (map (result_json env) rs) @ '']'') @
     '',\"iteration\":'' @ show_nat (iteration + 2) @ '',\"total_cost_usd\":'' @ oe_show_cost env cost @
     '',\"review_instruction\":'' @ json_string (review_instruction rs) @ ''}''"

text \<open>The questions of an agent: \<open>[[QUESTION: ...]]\<close> on one line, spaces after the colon apart.\<close>

definition re_space :: "char \<Rightarrow> bool" where
  "re_space c \<longleftrightarrow> c \<in> {CHR 0x20, CHR 0x09, CHR 0x0A, CHR 0x0C, CHR 0x0D}"

lemma length_questions_rest:
  assumes "str_index s ''[[QUESTION:'' = Some i"
  shows "length (drop (j + 2) (dropWhile re_space (drop (i + 11) s))) < length s"
proof -
  have "0 < length s" using assms by (cases s) auto
  moreover have "length (dropWhile re_space (drop (i + 11) s)) \<le> length s - (i + 11)"
    using length_dropWhile_le[of re_space "drop (i + 11) s"] by simp
  ultimately show ?thesis by (simp only: length_drop)
qed

lemma length_questions_next: "str_index s ''[[QUESTION:'' = Some i \<Longrightarrow> length (drop (i + 1) s) < length s"
  by (cases s) auto

function questions_from :: "string \<Rightarrow> string list" where
  "questions_from s =
     (case str_index s ''[[QUESTION:'' of
        None \<Rightarrow> []
      | Some i \<Rightarrow>
          let r = dropWhile re_space (drop (i + 11) s) in
          (case str_index r '']]'' of
             None \<Rightarrow> []
           | Some j \<Rightarrow>
               if CHR 0x0A \<in> set (take j r) then questions_from (drop (i + 1) s)
               else take j r # questions_from (drop (j + 2) r)))"
  by pat_completeness auto

termination
  by (relation "measure length") (auto dest: length_questions_rest length_questions_next)

declare questions_from.simps [simp del]

definition extract_questions :: "string \<Rightarrow> string list" where
  "extract_questions s = filter (\<lambda>q. q \<noteq> []) (map trim_space (questions_from s))"

section \<open>The state of a run\<close>

record loop_state =
  lp_prompt :: string
  lp_limits :: nat
  lp_repeats :: nat
  lp_last :: string
  lp_meta :: task_meta
  lp_disk :: task_meta
  lp_sessions :: agent_sessions

definition update_meta :: "(task_meta \<Rightarrow> task_meta) \<Rightarrow> loop_state \<Rightarrow> loop_state" where
  "update_meta f st = st\<lparr>lp_meta := f (lp_meta st), lp_disk := f (lp_meta st)\<rparr>"

definition set_meta :: "(task_meta \<Rightarrow> task_meta) \<Rightarrow> loop_state \<Rightarrow> loop_state" where
  "set_meta f st = st\<lparr>lp_meta := f (lp_meta st)\<rparr>"

definition closed :: "string \<Rightarrow> gotime \<Rightarrow> task_meta \<Rightarrow> task_meta" where
  "closed status now m = m\<lparr>tk_status := status, tk_completed := Some now\<rparr>"

text \<open>What is fixed for a run.\<close>

record orch_run =
  ob_teams :: "team_config list"
  ob_task_dir :: string
  ob_deadline :: gotime
  ob_prompts :: "string list"
  ob_message :: string
  ob_config :: run_config

text \<open>A call with a session that has expired is repeated without it.\<close>

definition invoke_resuming ::
  "'w orch_env \<Rightarrow> string \<Rightarrow> agent_call \<Rightarrow> agent_sessions \<Rightarrow> 'w \<Rightarrow> (string + turn_result) \<times> agent_sessions \<times> 'w" where
  "invoke_resuming env key call sm w =
     (let (r, w1) = oe_invoke env call w in
      case r of
        Inl err \<Rightarrow>
          if gk_resume call \<noteq> [] \<and> str_contains err ''No conversation found''
          then (let (r2, w2) = oe_invoke env (call\<lparr>gk_resume := []\<rparr>) w1 in (r2, session_clear key sm, w2))
          else (r, sm, w1)
      | Inr _ \<Rightarrow> (r, sm, w1))"

definition store_session :: "string \<Rightarrow> turn_result \<Rightarrow> agent_sessions \<Rightarrow> agent_sessions" where
  "store_session key res sm = (if tu_session_id res \<noteq> [] then session_set key (tu_session_id res) sm else sm)"

section \<open>Agents\<close>

definition agent_dir :: "string \<Rightarrow> string \<Rightarrow> nat option \<Rightarrow> string" where
  "agent_dir taskDir name idx =
     (let (team, agent) = split_team_agent name
      in join_path [taskDir, team @ ''-'' @ agent @ (case idx of None \<Rightarrow> [] | Some i \<Rightarrow> ''-'' @ show_nat i)])"

definition workspace_prompt :: "string \<Rightarrow> string" where
  "workspace_prompt dir =
     ''## Your Workspace'' @ newline @ ''Your working directory is: '' @ dir @ newline @
     ''ALL files you create MUST be written inside this directory using RELATIVE paths (e.g. ./output.md).'' @ newline @
     ''Do NOT write files anywhere else '' @ [CHR 0xE2, CHR 0x80, CHR 0x94] @
     '' not in /home/alf/data/, not in the root, not in any other agent's directory.'' @ newline @
     ''Exception: if your task explicitly instructs you to write to /home/alf/data/apps/<app-name>/, follow that instruction.''"

text \<open>The skills of the agent by name when it lists some, else the ones that matched the message.\<close>

definition agent_skill_prompts :: "run_config \<Rightarrow> agent_config \<Rightarrow> string list" where
  "agent_skill_prompts rc a =
     (case rn_skill_lookup rc of
        None \<Rightarrow> rn_skill_prompts rc
      | Some look \<Rightarrow>
          if ag_skills a = [] then rn_skill_prompts rc
          else concat (map (\<lambda>n. case look n of None \<Rightarrow> [] | Some p \<Rightarrow> if p \<noteq> [] then [p] else []) (ag_skills a)))"

definition agent_prompts :: "run_config \<Rightarrow> agent_config \<Rightarrow> agent_tier \<Rightarrow> string \<Rightarrow> string list" where
  "agent_prompts rc a t dir =
     (if gt_system_prompt t \<noteq> [] then [gt_system_prompt t] else []) @
     (if ag_system_prompt a \<noteq> [] then [ag_system_prompt a] else []) @
     [workspace_prompt dir] @
     (if rn_original_request rc \<noteq> []
      then [''=== [Original User Request] ==='' @ newline @ rn_original_request rc] else []) @
     (if rn_conversation_context rc \<noteq> []
      then [''=== [Recent Conversation] ==='' @ newline @ rn_conversation_context rc] else []) @
     rn_memory_context rc @ agent_skill_prompts rc a"

definition agent_loop :: "'w orch_env \<Rightarrow> agent_tier \<Rightarrow> agent_prov \<Rightarrow> (string list \<times> int) option" where
  "agent_loop env t prov =
     (case oe_schemas env of
        None \<Rightarrow> None
      | Some strict \<Rightarrow>
          if gt_tools t = [] \<or> \<not> oe_api_provider env prov then None
          else let names = (if gt_tools t = [''*''] then oe_wildcard env
                            else if gt_tools t = [''*native''] then oe_native env else gt_tools t)
               in if strict names = [] then None
                  else Some (strict names, if gt_max_turns t \<le> 0 then 10 else gt_max_turns t))"

definition agent_request ::
  "'w orch_env \<Rightarrow> orch_run \<Rightarrow> delegate_request \<Rightarrow> agent_config \<Rightarrow> agent_tier \<Rightarrow> string \<Rightarrow> string \<Rightarrow> agent_call" where
  "agent_request env run d a t dir sid =
     (let prov = provider_for (oe_resolves env) (gt_backend t) (gt_model t);
          lp = agent_loop env t prov
      in \<lparr>gk_prov = prov, gk_loop = lp, gk_prompt = dr_task d, gk_model = gt_model t, gk_tools = gt_tools t,
          gk_write_capable = gt_write_capable t, gk_effort = gt_effort t, gk_max_turns = gt_max_turns t,
          gk_system_prompts = (case lp of None \<Rightarrow> [] | Some (names, _) \<Rightarrow> [oe_instruction env names]) @
             agent_prompts (ob_config run) a t dir,
          gk_resume = sid, gk_data_dir = dir, gk_read_only = False, gk_deadline = ob_deadline run\<rparr>)"

definition no_result :: "string \<Rightarrow> agent_result" where
  "no_result agent = \<lparr>aw_agent = agent, aw_task = [], aw_status = [], aw_model = [], aw_text = [], aw_error = [],
                      aw_cost = 0, aw_duration = 0\<rparr>"

definition agent_failed :: "string \<Rightarrow> string \<Rightarrow> agent_result" where
  "agent_failed agent err = (no_result agent)\<lparr>aw_error := err\<rparr>"

text \<open>The agent and tier of a delegate, or the error that stands for its result.\<close>

definition resolve_agent :: "'w orch_env \<Rightarrow> string \<Rightarrow> string + agent_config \<times> agent_tier" where
  "resolve_agent env name =
     (case get_agent name (oe_store env) of
        None \<Rightarrow> Inl (''agent '' @ go_quote name @ '' not found'')
      | Some (_, a) \<Rightarrow>
          (case oe_resolve_tier env of
             None \<Rightarrow> Inl (''agent '' @ go_quote name @ '' has no tier configured'')
           | Some tier \<Rightarrow>
               if ag_tier a = [] then Inl (''agent '' @ go_quote name @ '' has no tier configured'')
               else (case tier (ag_tier a) of
                       None \<Rightarrow> Inl (''tier '' @ go_quote (ag_tier a) @ '' not found'')
                     | Some t \<Rightarrow> Inr (a, t))))"

definition agent_outcome :: "string \<Rightarrow> string \<Rightarrow> duration \<Rightarrow> string + turn_result \<Rightarrow> agent_result" where
  "agent_outcome agent model dur r =
     (case r of
        Inl err \<Rightarrow> (no_result agent)\<lparr>aw_model := model, aw_error := err, aw_duration := dur\<rparr>
      | Inr res \<Rightarrow>
          (no_result agent)\<lparr>aw_model := model, aw_text := tu_text res,
             aw_error := (if str_contains (tu_text res) ''Turn limit reached'' then ''turn limit reached'' else []),
             aw_cost := tu_cost res, aw_duration := dur\<rparr>)"

definition invoke_agent ::
  "'w orch_env \<Rightarrow> orch_run \<Rightarrow> delegate_request \<Rightarrow> nat option \<Rightarrow> string \<Rightarrow> agent_sessions \<Rightarrow> 'w \<Rightarrow>
   agent_result \<times> agent_sessions \<times> 'w" where
  "invoke_agent env run d idx key sm w =
     (case resolve_agent env (dr_agent d) of
        Inl err \<Rightarrow> (agent_failed (dr_agent d) err, sm, w)
      | Inr (a, t) \<Rightarrow>
          let call = agent_request env run d a t (agent_dir (ob_task_dir run) (dr_agent d) idx) (session_get key sm);
              (r, sm1, w1) = invoke_resuming env key call sm w;
              sm2 = (case r of Inl _ \<Rightarrow> sm1 | Inr res \<Rightarrow> store_session key res sm1)
          in (agent_outcome (dr_agent d) (gt_model t) (time_sub (oe_now env w1) (oe_now env w)) r, sm2, w1))"

section \<open>Delegates\<close>

definition max_concurrent :: "team_config list \<Rightarrow> delegate_request list \<Rightarrow> int" where
  "max_concurrent teams ds =
     (let m = fold (\<lambda>d m. fold (\<lambda>t m. if tg_name t = fst (split_team_agent (dr_agent d)) \<and> m < tg_max_agents t
                                       then tg_max_agents t else m) teams m) ds 0
      in if m \<le> 0 then 3 else m)"

definition admitted :: "team_config list \<Rightarrow> delegate_request list \<Rightarrow> delegate_request list" where
  "admitted teams ds = take (nat (max_concurrent teams ds)) ds"

definition repeated :: "delegate_request list \<Rightarrow> nat \<Rightarrow> nat option" where
  "repeated ds i =
     (let same = (\<lambda>d. dr_agent d = dr_agent (ds ! i)) in
      if 1 < length (filter same ds) then Some (length (filter same (take (Suc i) ds))) else None)"

definition delegate_key :: "delegate_request list \<Rightarrow> nat \<Rightarrow> string" where
  "delegate_key ds i =
     dr_agent (ds ! i) @ (case repeated ds i of None \<Rightarrow> [] | Some n \<Rightarrow> ''#'' @ show_nat n)"

definition working_call :: "delegate_request \<Rightarrow> agent_result" where
  "working_call d = (no_result (dr_agent d))\<lparr>aw_task := dr_task d, aw_status := ''working''\<rparr>"

text \<open>The map of keys to positions keeps the last delegate of a key.\<close>

definition call_index :: "nat \<Rightarrow> delegate_request list \<Rightarrow> string \<Rightarrow> nat" where
  "call_index base ds key =
     base + last (filter (\<lambda>j. delegate_key ds j = key) [0..<length ds])"

definition final_result :: "delegate_request \<Rightarrow> agent_result \<Rightarrow> agent_result" where
  "final_result d r = r\<lparr>aw_status := (if aw_error r \<noteq> [] then ''failed'' else ''completed''), aw_task := dr_task d\<rparr>"

definition run_delegate ::
  "'w orch_env \<Rightarrow> orch_run \<Rightarrow> delegate_request list \<Rightarrow> nat \<Rightarrow> nat \<Rightarrow>
   agent_result list \<times> loop_state \<times> 'w \<Rightarrow> agent_result list \<times> loop_state \<times> 'w" where
  "run_delegate env run ds base i acc =
     (let (results, st, w) = acc;
          key = delegate_key ds i;
          (r, sm, w1) = invoke_agent env run (ds ! i) (repeated ds i) key (lp_sessions st) w;
          ar = final_result (ds ! i) r;
          st1 = update_meta (\<lambda>m. m\<lparr>tk_calls := (tk_calls m)[call_index base ds key := ar],
                                 tk_cost := oe_add env (tk_cost m) (aw_cost ar)\<rparr>) (st\<lparr>lp_sessions := sm\<rparr>)
      in (results @ [ar], st1, w1))"

definition execute_delegates ::
  "'w orch_env \<Rightarrow> orch_run \<Rightarrow> delegate_request list \<Rightarrow> loop_state \<Rightarrow> 'w \<Rightarrow> agent_result list \<times> loop_state \<times> 'w" where
  "execute_delegates env run ds0 st w =
     (let ds = admitted (ob_teams run) ds0;
          base = length (tk_calls (lp_meta st));
          st1 = update_meta (\<lambda>m. m\<lparr>tk_calls := tk_calls m @ map working_call ds\<rparr>) st
      in fold (run_delegate env run ds base) (oe_completion env (length ds) w) ([], st1, w))"

section \<open>One iteration\<close>

datatype verdict = Again | Finish "string res"

definition orchestratorKey :: string where "orchestratorKey = ''agent''"

definition brain_request :: "'w orch_env \<Rightarrow> orch_run \<Rightarrow> loop_state \<Rightarrow> agent_call" where
  "brain_request env run st =
     (let rc = ob_config run in
      \<lparr>gk_prov = provider_for (oe_resolves env) (rn_backend rc) (rn_model rc), gk_loop = None, gk_prompt = lp_prompt st,
       gk_model = rn_model rc, gk_tools = [], gk_write_capable = False,
       gk_effort = (if rn_effort rc = [] then ''high'' else rn_effort rc),
       gk_max_turns = (if rn_orchestrator_max_turns rc \<le> 0 then 3 else rn_orchestrator_max_turns rc),
       gk_system_prompts = ob_prompts run, gk_resume = session_get orchestratorKey (lp_sessions st),
       gk_data_dir = ob_task_dir run, gk_read_only = True, gk_deadline = ob_deadline run\<rparr>)"

definition fail_with :: "'w orch_env \<Rightarrow> string \<Rightarrow> loop_state \<Rightarrow> 'w \<Rightarrow> verdict \<times> loop_state \<times> 'w" where
  "fail_with env err st w = (Finish (Err err), update_meta (closed ''failed'' (oe_now env w)) st, w)"

text \<open>A question to the user: the run waits for the answer or for its context.\<close>

definition ask_user ::
  "'w orch_env \<Rightarrow> orch_run \<Rightarrow> string list \<Rightarrow> string \<Rightarrow> loop_state \<Rightarrow> 'w \<Rightarrow> verdict \<times> loop_state \<times> 'w" where
  "ask_user env run qs note st w =
     (let st1 = update_meta (\<lambda>m. m\<lparr>tk_questions := qs, tk_status := ''awaiting_arbitration''\<rparr>) st in
      case oe_await env (ob_deadline run) w of
        (Inl err, w1) \<Rightarrow> (Finish (Err err), st1, w1)
      | (Inr d, w1) \<Rightarrow>
          (Again, (update_meta (\<lambda>m. m\<lparr>tk_status := ''running'', tk_questions := []\<rparr>) st1)
                    \<lparr>lp_prompt := answered_prompt (ad_feedback d) note\<rparr>, w1))"

definition handle_plan ::
  "'w orch_env \<Rightarrow> orch_run \<Rightarrow> plan_step list \<Rightarrow> loop_state \<Rightarrow> 'w \<Rightarrow> verdict \<times> loop_state \<times> 'w" where
  "handle_plan env run plan st w =
     (let st1 = update_meta (\<lambda>m. m\<lparr>tk_plan := plan\<rparr>) st in
      if \<not> rn_need_validation (ob_config run) then (Again, st1\<lparr>lp_prompt := approved_prompt\<rparr>, w)
      else let st2 = update_meta (\<lambda>m. m\<lparr>tk_status := ''awaiting_approval''\<rparr>) st1 in
        case oe_await env (ob_deadline run) w of
          (Inl err, w1) \<Rightarrow> (Finish (Err err), st2, w1)
        | (Inr d, w1) \<Rightarrow>
            if ad_approved d
            then (Again, (update_meta (\<lambda>m. m\<lparr>tk_status := ''running''\<rparr>) st2)\<lparr>lp_prompt := approved_prompt\<rparr>, w1)
            else (Again, (update_meta (\<lambda>m. m\<lparr>tk_status := ''running'', tk_feedback := ad_feedback d, tk_plan := []\<rparr>) st2)
                           \<lparr>lp_prompt := rejected_prompt (ad_feedback d)\<rparr>, w1))"

definition handle_response :: "'w orch_env \<Rightarrow> string \<Rightarrow> loop_state \<Rightarrow> 'w \<Rightarrow> verdict \<times> loop_state \<times> 'w" where
  "handle_response env t st w =
     (Finish (Ok t), update_meta (\<lambda>m. closed ''completed'' (oe_now env w) (m\<lparr>tk_response := t\<rparr>)) st, w)"

definition handle_empty :: "'w orch_env \<Rightarrow> string \<Rightarrow> loop_state \<Rightarrow> 'w \<Rightarrow> verdict \<times> loop_state \<times> 'w" where
  "handle_empty env raw st w =
     (let st1 = (if raw = lp_last st then st\<lparr>lp_repeats := Suc (lp_repeats st)\<rparr>
                 else st\<lparr>lp_repeats := 1, lp_last := raw\<rparr>)
      in if 2 \<le> lp_repeats st1
         then fail_with env (''orchestrator brain error (repeated '' @ show_nat (lp_repeats st1) @ '' times): '' @
                (if length raw \<le> 200 then raw else take 200 raw @ ellipsis)) st1 w
         else (Again, st1\<lparr>lp_prompt := nudge_prompt\<rparr>, w))"

definition handle_delegates ::
  "'w orch_env \<Rightarrow> orch_run \<Rightarrow> nat \<Rightarrow> delegate_request list \<Rightarrow> loop_state \<Rightarrow> 'w \<Rightarrow> verdict \<times> loop_state \<times> 'w" where
  "handle_delegates env run i ds st w =
     (let (rs, st1, w1) = execute_delegates env run ds st w;
          qs = concat (map (\<lambda>a. extract_questions (aw_text a)) rs)
      in if qs \<noteq> [] then ask_user env run qs agents_note st1 w1
         else (Again, st1\<lparr>lp_prompt := resume_prompt env i (tk_cost (lp_meta st1)) rs\<rparr>, w1))"

definition handle_output ::
  "'w orch_env \<Rightarrow> orch_run \<Rightarrow> nat \<Rightarrow> string \<Rightarrow> loop_state \<Rightarrow> 'w \<Rightarrow> verdict \<times> loop_state \<times> 'w" where
  "handle_output env run i raw st w =
     (let out = parse_orchestrator_output raw in
      if oo_gather out \<noteq> [] then (Again, st\<lparr>lp_prompt := gather_prompt env w (oo_gather out)\<rparr>, w)
      else if oo_plan out \<noteq> [] then handle_plan env run (oo_plan out) st w
      else if oo_questions out \<noteq> [] then ask_user env run (oo_questions out) brain_note st w
      else if oo_response out \<noteq> [] then handle_response env (oo_response out) st w
      else if oo_delegates out = [] then handle_empty env raw st w
      else handle_delegates env run i (oo_delegates out) st w)"

definition turn_limit_hit :: "'w orch_env \<Rightarrow> orch_run \<Rightarrow> loop_state \<Rightarrow> 'w \<Rightarrow> verdict \<times> loop_state \<times> 'w" where
  "turn_limit_hit env run st w =
     (let st1 = st\<lparr>lp_limits := Suc (lp_limits st)\<rparr> in
      if 2 < lp_limits st1
      then fail_with env ''orchestrator repeatedly hit turn limit (2 retries) - try increasing max_turns in the orchestrator tier config'' st1 w
      else (Again, st1\<lparr>lp_sessions := session_clear orchestratorKey (lp_sessions st1), lp_prompt := ob_message run\<rparr>, w))"

definition iterate :: "'w orch_env \<Rightarrow> orch_run \<Rightarrow> nat \<Rightarrow> loop_state \<Rightarrow> 'w \<Rightarrow> verdict \<times> loop_state \<times> 'w" where
  "iterate env run i st0 w =
     (let st = set_meta (\<lambda>m. m\<lparr>tk_iterations := Suc i\<rparr>) st0;
          (r, sm, w1) = invoke_resuming env orchestratorKey (brain_request env run st) (lp_sessions st) w;
          st1 = st\<lparr>lp_sessions := sm\<rparr>
      in case r of
           Inl err \<Rightarrow> fail_with env (''orchestrator invoke: '' @ err) st1 w1
         | Inr res \<Rightarrow>
             let st2 = (set_meta (\<lambda>m. m\<lparr>tk_cost := oe_add env (tk_cost m) (tu_cost res)\<rparr>) st1)
                         \<lparr>lp_sessions := store_session orchestratorKey res sm\<rparr>
             in if str_contains (tu_text res) ''Turn limit reached'' then turn_limit_hit env run st2 w1
                else handle_output env run i (tu_text res) st2 w1)"

section \<open>The run\<close>

fun run_loop :: "'w orch_env \<Rightarrow> orch_run \<Rightarrow> nat \<Rightarrow> nat \<Rightarrow> loop_state \<Rightarrow> 'w \<Rightarrow> string res \<times> loop_state \<times> 'w" where
  "run_loop env run i 0 st w =
     (Err (''max iterations ('' @ show_nat i @ '') exceeded''),
      update_meta (closed ''timeout'' (oe_now env w)) st, w)"
| "run_loop env run i (Suc n) st w =
     (case iterate env run i st w of
        (Finish r, st1, w1) \<Rightarrow> (r, st1, w1)
      | (Again, st1, w1) \<Rightarrow> run_loop env run (Suc i) n st1 w1)"

definition open_status :: "string \<Rightarrow> bool" where
  "open_status s \<longleftrightarrow> s = ''running'' \<or> s = ''awaiting_approval'' \<or> s = ''awaiting_arbitration''"

text \<open>The deferred end of a run.\<close>

definition settle_run :: "gotime \<Rightarrow> loop_state \<Rightarrow> loop_state" where
  "settle_run now st = (if open_status (tk_status (lp_meta st)) then update_meta (closed ''interrupted'' now) st else st)"

definition global_timeout :: "team_config list \<Rightarrow> run_config \<Rightarrow> duration" where
  "global_timeout teams rc =
     (if 0 < rn_timeout_min rc then rn_timeout_min rc * minute
      else fold (\<lambda>t g. if 0 < tg_timeout_min t \<and> g < tg_timeout_min t * minute then tg_timeout_min t * minute else g)
             teams (60 * minute))"

definition select_teams :: "team_config list \<Rightarrow> run_config \<Rightarrow> team_config list" where
  "select_teams teams rc =
     (if rn_team rc = [] then teams
      else case find (\<lambda>t. tg_name t = rn_team rc) teams of None \<Rightarrow> [] | Some t \<Rightarrow> [t])"

record running_task =
  rk_started :: gotime
  rk_meta :: task_meta
  rk_channel :: "approval_decision option"
  rk_cancelled :: bool

record orchestrator =
  oc_counter :: "64 word"
  oc_running :: "string \<rightharpoonup> running_task"
  oc_disk :: "string \<rightharpoonup> task_meta"

definition new_meta :: "string \<Rightarrow> gotime \<Rightarrow> string \<Rightarrow> run_config \<Rightarrow> task_meta" where
  "new_meta taskId now message rc =
     \<lparr>tk_id = taskId, tk_prompt = message, tk_response = [], tk_started = now, tk_completed = None, tk_iterations = 0,
      tk_cost = 0, tk_calls = [], tk_status = ''running'', tk_plan = [], tk_questions = [], tk_need_validation = False,
      tk_feedback = [], tk_source = rn_source rc, tk_team = rn_team rc\<rparr>"

definition new_loop :: "string \<Rightarrow> task_meta \<Rightarrow> loop_state" where
  "new_loop message m =
     \<lparr>lp_prompt = message, lp_limits = 0, lp_repeats = 0, lp_last = [], lp_meta = m, lp_disk = m, lp_sessions = Map.empty\<rparr>"

definition new_run :: "'w orch_env \<Rightarrow> team_config list \<Rightarrow> string \<Rightarrow> gotime \<Rightarrow> string \<Rightarrow> string list \<Rightarrow> run_config \<Rightarrow> orch_run" where
  "new_run env teams taskId now message prompts rc =
     (let dir = join_path [join_path [oe_data_dir env, ''agents''], taskId] in
      \<lparr>ob_teams = teams, ob_task_dir = dir, ob_deadline = now + global_timeout teams rc,
       ob_prompts = prompts @ [build_orchestrator_prompt (oe_md env) (oe_codex env) teams dir (rn_backend rc)],
       ob_message = message, ob_config = rc\<rparr>)"

definition max_iterations :: "run_config \<Rightarrow> nat" where
  "max_iterations rc = (if rn_max_iterations rc \<le> 0 then 20 else nat (rn_max_iterations rc))"

definition run_task ::
  "'w orch_env \<Rightarrow> orch_run \<Rightarrow> task_meta \<Rightarrow> 'w \<Rightarrow> string res \<times> loop_state \<times> 'w" where
  "run_task env run m w =
     (let rc = ob_config run; st = new_loop (ob_message run) m;
          (r, st1, w1) =
            (if rn_model rc = []
             then (Err (''orchestrator tier has no model configured '' @ [CHR 0xE2, CHR 0x80, CHR 0x94] @
                        '' set a model in the orchestrator tier config''), st, w)
             else run_loop env run 0 (max_iterations rc) st w)
      in (r, settle_run (oe_now env w1) st1, w1))"

text \<open>The task is in the table of running tasks from its start to its end, so the table is the same
  before and after; its record stays on disk. The metadata is not returned without a model.\<close>

definition orchestrate ::
  "'w orch_env \<Rightarrow> string \<Rightarrow> string list \<Rightarrow> run_config \<Rightarrow> orchestrator \<Rightarrow> 'w \<Rightarrow>
   string res \<times> task_meta option \<times> orchestrator \<times> 'w" where
  "orchestrate env message prompts rc oc w =
     (let allTeams = all_teams (oe_order env) (oe_store env); teams = select_teams allTeams rc in
      if allTeams = [] then (Err ''no agent teams configured'', None, oc, w)
      else if teams = [] then (Err (''team '' @ go_quote (rn_team rc) @ '' not found''), None, oc, w)
      else
        let n = oc_counter oc + 1; now = oe_now env w;
            taskId = show_int now @ ''-'' @ show_nat (unat n);
            m = new_meta taskId now message rc;
            (r, st, w1) = run_task env (new_run env teams taskId now message prompts rc) m w
        in (r, if rn_model rc = [] then None else Some (lp_meta st),
            oc\<lparr>oc_counter := n, oc_running := (oc_running oc)(taskId := None), oc_disk := (oc_disk oc)(taskId \<mapsto> lp_disk st)\<rparr>, w1))"

section \<open>Running tasks\<close>

definition cancel_task :: "string \<Rightarrow> orchestrator \<Rightarrow> bool \<times> orchestrator" where
  "cancel_task taskId oc =
     (case oc_running oc taskId of
        None \<Rightarrow> (False, oc)
      | Some rk \<Rightarrow> (True, oc\<lparr>oc_running := (oc_running oc)(taskId \<mapsto> rk\<lparr>rk_cancelled := True\<rparr>)\<rparr>))"

definition cancel_all :: "string list \<Rightarrow> orchestrator \<Rightarrow> nat \<times> orchestrator" where
  "cancel_all ids oc =
     (length (filter (\<lambda>i. oc_running oc i \<noteq> None) ids), fold (\<lambda>i oc'. snd (cancel_task i oc')) ids oc)"

definition running_tasks :: "string list \<Rightarrow> orchestrator \<Rightarrow> (string \<times> gotime \<times> task_meta) list" where
  "running_tasks order oc =
     concat (map (\<lambda>i. case oc_running oc i of None \<Rightarrow> [] | Some rk \<Rightarrow> [(i, rk_started rk, rk_meta rk)]) order)"

text \<open>A decision is delivered when the task waits and no decision is in its channel yet.\<close>

definition offer :: "approval_decision \<Rightarrow> running_task \<Rightarrow> running_task option" where
  "offer d rk =
     (if tk_status (rk_meta rk) \<noteq> ''awaiting_approval'' \<and> tk_status (rk_meta rk) \<noteq> ''awaiting_arbitration'' then None
      else if rk_channel rk \<noteq> None then None
      else Some (rk\<lparr>rk_channel := Some d\<rparr>))"

definition approve :: "string \<Rightarrow> approval_decision \<Rightarrow> orchestrator \<Rightarrow> bool \<times> orchestrator" where
  "approve taskId d oc =
     (case oc_running oc taskId of
        None \<Rightarrow> (False, oc)
      | Some rk \<Rightarrow>
          (case offer d rk of
             None \<Rightarrow> (False, oc)
           | Some rk' \<Rightarrow> (True, oc\<lparr>oc_running := (oc_running oc)(taskId \<mapsto> rk')\<rparr>)))"

text \<open>\<open>os.RemoveAll\<close> on the set of existing paths.\<close>

definition below :: "string \<Rightarrow> string \<Rightarrow> bool" where
  "below dir p \<longleftrightarrow> p = dir \<or> has_prefix p (dir @ ''/'')"

definition remove_tree :: "string \<Rightarrow> (string \<Rightarrow> bool) \<Rightarrow> string \<Rightarrow> bool" where
  "remove_tree dir exists p \<longleftrightarrow> exists p \<and> \<not> below dir p"

definition delete_task :: "string \<Rightarrow> string \<Rightarrow> orchestrator \<Rightarrow> (string \<Rightarrow> bool) \<Rightarrow> bool \<times> (string \<Rightarrow> bool)" where
  "delete_task dataDir taskId oc exists =
     (if oc_running oc taskId \<noteq> None then (False, exists)
      else let dir = join_path [dataDir, ''agents'', taskId] in
        if \<not> exists dir then (False, exists) else (True, remove_tree dir exists))"

end
