(* ===== verification/Orchestrator_Properties.thy ===== *)
theory Orchestrator_Properties
  imports Orchestrator
begin

text \<open>
  Properties of the orchestrator: every run ends and leaves a settled record, the agents of an
  iteration each leave one result whatever the order they end in, outputs and prompts survive the
  protocol, decisions reach the question they are for or the next one, and deleting a task.
\<close>

section \<open>A run settles\<close>

named_theorems meta_ops \<open>the operations on the record of a task\<close>

lemmas [meta_ops] = update_meta_def set_meta_def closed_def

text \<open>What every operation of a run keeps of the record.\<close>

definition same_task :: "task_meta \<Rightarrow> task_meta \<Rightarrow> bool" where
  "same_task m m' \<longleftrightarrow> tk_id m' = tk_id m \<and> tk_prompt m' = tk_prompt m \<and> tk_started m' = tk_started m \<and>
     tk_source m' = tk_source m \<and> tk_team m' = tk_team m"

lemma same_task_refl [simp, intro]: "same_task m m"
  by (simp add: same_task_def)

lemma same_task_trans: "same_task a b \<Longrightarrow> same_task b c \<Longrightarrow> same_task a c"
  by (simp add: same_task_def)

definition same_run :: "loop_state \<Rightarrow> loop_state \<Rightarrow> bool" where
  "same_run st st' \<longleftrightarrow> same_task (lp_meta st) (lp_meta st') \<and> tk_status (lp_meta st') = tk_status (lp_meta st) \<and>
     tk_iterations (lp_meta st') = tk_iterations (lp_meta st)"

lemma run_delegate_same:
  "run_delegate env run ds base i (rs, st, w) = (rs', st', w') \<Longrightarrow> same_run st st' \<and> lp_disk st' = lp_meta st'"
  by (auto simp: run_delegate_def Let_def meta_ops same_run_def same_task_def split: prod.splits)

lemma run_delegates_same:
  "fold (run_delegate env run ds base) is (rs, st, w) = (rs', st', w') \<Longrightarrow> lp_disk st = lp_meta st \<Longrightarrow>
   same_run st st' \<and> lp_disk st' = lp_meta st'"
proof (induction "is" arbitrary: rs st w)
  case Nil
  then show ?case by (simp add: same_run_def)
next
  case (Cons i "is")
  obtain rs1 st1 w1 where s: "run_delegate env run ds base i (rs, st, w) = (rs1, st1, w1)" by (metis prod_cases3)
  have "same_run st st1" "lp_disk st1 = lp_meta st1" using run_delegate_same[OF s] by simp_all
  with Cons s show ?case by (fastforce simp: same_run_def intro: same_task_trans)
qed

lemma execute_delegates_same:
  assumes "execute_delegates env run ds st w = (rs, st', w')"
  shows "same_run st st'"
proof -
  have "same_run (update_meta (\<lambda>m. m\<lparr>tk_calls := tk_calls m @ map working_call (admitted (ob_teams run) ds)\<rparr>) st) st'"
    using assms run_delegates_same unfolding execute_delegates_def Let_def
    by (rule_tac conjunct1, rule_tac run_delegates_same) (auto simp: update_meta_def)
  then show ?thesis by (simp add: same_run_def same_task_def update_meta_def)
qed

text \<open>How an iteration ends: it goes on with the status \<open>running\<close>, or the run is over with a record on
  disk that says how.\<close>

definition over :: "string res \<Rightarrow> task_meta \<Rightarrow> bool" where
  "over r m \<longleftrightarrow>
     (case r of
        Inl _ \<Rightarrow> (tk_status m = ''failed'' \<or> tk_status m = ''timeout'') \<and> tk_completed m \<noteq> None \<or>
                open_status (tk_status m)
      | Inr t \<Rightarrow> tk_status m = ''completed'' \<and> tk_completed m \<noteq> None \<and> tk_response m = t \<and> t \<noteq> [])"

definition iterated :: "loop_state \<Rightarrow> verdict \<times> loop_state \<times> 'w \<Rightarrow> bool" where
  "iterated st x \<longleftrightarrow>
     (case x of
        (v, st', _) \<Rightarrow> same_task (lp_meta st) (lp_meta st') \<and> tk_iterations (lp_meta st') = tk_iterations (lp_meta st) \<and>
          (case v of
             Again \<Rightarrow> tk_status (lp_meta st') = ''running''
           | Finish r \<Rightarrow> lp_disk st' = lp_meta st' \<and> over r (lp_meta st')))"

lemma iterated_cong: "same_run st st' \<Longrightarrow> iterated st' x \<Longrightarrow> iterated st x"
  by (auto simp: iterated_def same_run_def intro: same_task_trans split: verdict.splits)

lemmas iterated_simps = iterated_def over_def meta_ops same_task_def open_status_def

lemma fail_iterated: "iterated st (fail_with env err st w)"
  by (simp add: fail_with_def iterated_simps)

lemma ask_iterated: "iterated st (ask_user env run qs note st w)"
  by (auto simp: ask_user_def iterated_simps Let_def split: prod.splits sum.splits)

lemma plan_iterated: "tk_status (lp_meta st) = ''running'' \<Longrightarrow> iterated st (handle_plan env run plan st w)"
  by (auto simp: handle_plan_def iterated_simps Let_def split: prod.splits sum.splits)

lemma response_iterated: "t \<noteq> [] \<Longrightarrow> iterated st (handle_response env t st w)"
  by (simp add: handle_response_def iterated_simps)

lemma empty_iterated: "tk_status (lp_meta st) = ''running'' \<Longrightarrow> iterated st (handle_empty env raw st w)"
  by (auto simp: handle_empty_def iterated_simps fail_with_def Let_def)

lemma delegates_iterated:
  assumes "tk_status (lp_meta st) = ''running''"
  shows "iterated st (handle_delegates env run i ds st w)"
proof -
  obtain rs st1 w1 where e: "execute_delegates env run ds st w = (rs, st1, w1)" by (metis prod_cases3)
  have s: "same_run st st1" using execute_delegates_same[OF e] .
  have "iterated st (ask_user env run qs agents_note st1 w1)" for qs by (rule iterated_cong[OF s ask_iterated])
  moreover have "iterated st (Again, st1\<lparr>lp_prompt := p\<rparr>, w1)" for p
    using s assms by (simp add: iterated_def same_run_def)
  ultimately show ?thesis by (simp add: handle_delegates_def e Let_def del: concat_eq_Nil_conv)
qed

lemma output_iterated: "tk_status (lp_meta st) = ''running'' \<Longrightarrow> iterated st (handle_output env run i raw st w)"
  by (simp add: handle_output_def Let_def plan_iterated ask_iterated response_iterated empty_iterated delegates_iterated)
     (simp add: iterated_def)

lemma limit_iterated: "tk_status (lp_meta st) = ''running'' \<Longrightarrow> iterated st (turn_limit_hit env run st w)"
  by (auto simp: turn_limit_hit_def fail_with_def iterated_simps Let_def)

lemma iterate_iterated:
  assumes "tk_status (lp_meta st) = ''running''"
  shows "iterated (set_meta (\<lambda>m. m\<lparr>tk_iterations := Suc i\<rparr>) st) (iterate env run i st w)"
proof -
  let ?st = "set_meta (\<lambda>m. m\<lparr>tk_iterations := Suc i\<rparr>) st"
  obtain r sm w1 where v: "invoke_resuming env orchestratorKey (brain_request env run ?st) (lp_sessions ?st) w = (r, sm, w1)"
    by (metis prod_cases3)
  have run: "tk_status (lp_meta ?st) = ''running''" using assms by (simp add: set_meta_def)
  show ?thesis
  proof (cases r)
    case (Inl err)
    have "iterated ?st (fail_with env (''orchestrator invoke: '' @ err) (?st\<lparr>lp_sessions := sm\<rparr>) w1)"
      by (rule iterated_cong[OF _ fail_iterated]) (simp add: same_run_def)
    with v Inl show ?thesis by (simp add: iterate_def Let_def)
  next
    case (Inr res)
    define st2 where "st2 = (set_meta (\<lambda>m. m\<lparr>tk_cost := oe_add env (tk_cost m) (tu_cost res)\<rparr>) (?st\<lparr>lp_sessions := sm\<rparr>))
        \<lparr>lp_sessions := store_session orchestratorKey res sm\<rparr>"
    have s: "same_run ?st st2" "tk_status (lp_meta st2) = ''running''"
      using run by (simp_all add: same_run_def set_meta_def same_task_def st2_def)
    have "iterate env run i st w =
        (if str_contains (tu_text res) ''Turn limit reached'' then turn_limit_hit env run st2 w1
         else handle_output env run i (tu_text res) st2 w1)"
      unfolding iterate_def Let_def st2_def v Inr by simp
    then show ?thesis
      using iterated_cong[OF s(1) limit_iterated[OF s(2), of env run w1]]
        iterated_cong[OF s(1) output_iterated[OF s(2), of env run i "tu_text res" w1]] by simp
  qed
qed

lemma run_loop_over:
  assumes "run_loop env run i n st w = (r, st', w')" and "tk_status (lp_meta st) = ''running''"
    and "tk_iterations (lp_meta st) \<le> i"
  shows "same_task (lp_meta st) (lp_meta st') \<and> tk_iterations (lp_meta st') \<le> i + n \<and>
    lp_disk st' = lp_meta st' \<and> over r (lp_meta st')"
  using assms
proof (induction n arbitrary: i st w)
  case 0
  then show ?case by (auto simp: meta_ops same_task_def over_def)
next
  case (Suc n)
  let ?st = "set_meta (\<lambda>m. m\<lparr>tk_iterations := Suc i\<rparr>) st"
  obtain v st1 w1 where it: "iterate env run i st w = (v, st1, w1)" by (metis prod_cases3)
  have d: "iterated ?st (v, st1, w1)" using iterate_iterated[OF Suc.prems(2), of i env run w] it by simp
  have sm: "same_task (lp_meta st) (lp_meta st1)" "tk_iterations (lp_meta st1) = Suc i"
    using d by (auto simp: iterated_def set_meta_def same_task_def)
  show ?case
  proof (cases v)
    case Again
    then have "run_loop env run (Suc i) n st1 w1 = (r, st', w')" "tk_status (lp_meta st1) = ''running''"
      using Suc.prems(1) it d by (auto simp: iterated_def)
    with Suc.IH[of "Suc i" st1 w1] sm show ?thesis by (auto intro: same_task_trans)
  next
    case (Finish r')
    with Suc.prems(1) it d sm show ?thesis by (auto simp: iterated_def)
  qed
qed

lemma settled:
  assumes "orchestrate env message prompts rc oc w = (r, Some m, oc', w')"
  shows "oc_disk oc' (tk_id m) = Some m \<and> oc_running oc' (tk_id m) = None \<and> tk_completed m \<noteq> None \<and>
    tk_iterations m \<le> max_iterations rc \<and>
    (case r of
       Inl _ \<Rightarrow> tk_status m \<in> {''failed'', ''timeout'', ''interrupted''}
     | Inr t \<Rightarrow> tk_status m = ''completed'' \<and> tk_response m = t \<and> t \<noteq> [])"
proof -
  let ?teams = "select_teams (all_teams (oe_order env) (oe_store env)) rc"
  let ?now = "oe_now env w"
  let ?id = "show_int ?now @ ''-'' @ show_nat (unat (oc_counter oc + 1))"
  let ?run = "new_run env ?teams ?id ?now message prompts rc"
  let ?m = "new_meta ?id ?now message rc"
  have model: "rn_model rc \<noteq> []" using assms by (auto simp: orchestrate_def Let_def split: if_splits prod.splits)
  obtain st where rt: "run_task env ?run ?m w = (r, st, w')" and m: "m = lp_meta st"
    and oc': "oc_disk oc' = (oc_disk oc)(?id \<mapsto> lp_disk st)" "oc_running oc' = (oc_running oc)(?id := None)"
    using assms by (auto simp: orchestrate_def Let_def split: if_splits prod.splits)
  obtain st1 w1 where lp: "run_loop env ?run 0 (max_iterations rc) (new_loop message ?m) w = (r, st1, w1)"
    and st: "st = settle_run (oe_now env w1) st1"
    using rt model by (auto simp: run_task_def new_run_def Let_def split: prod.splits)
  have f: "same_task ?m (lp_meta st1) \<and> tk_iterations (lp_meta st1) \<le> max_iterations rc \<and>
      lp_disk st1 = lp_meta st1 \<and> over r (lp_meta st1)"
    using run_loop_over[OF lp] by (simp add: new_loop_def new_meta_def)
  have "tk_id (lp_meta st) = ?id" "lp_disk st = lp_meta st" "tk_iterations (lp_meta st) \<le> max_iterations rc"
    using f by (auto simp: st settle_run_def meta_ops same_task_def new_meta_def)
  moreover have "tk_completed (lp_meta st) \<noteq> None \<and> (case r of
       Inl _ \<Rightarrow> tk_status (lp_meta st) \<in> {''failed'', ''timeout'', ''interrupted''}
     | Inr t \<Rightarrow> tk_status (lp_meta st) = ''completed'' \<and> tk_response (lp_meta st) = t \<and> t \<noteq> [])"
    using f by (auto simp: st settle_run_def meta_ops over_def open_status_def split: sum.splits)
  ultimately show ?thesis by (cases r) (simp_all add: m oc')
qed

text \<open>C33. Every run settles: when it returns the record of its task, that record is on disk as returned, the
  task is no longer in the table of running tasks, it has an end time and at most the configured
  number of iterations, and its status says what happened: \<open>completed\<close> with the answer exactly when
  there is one, else \<open>failed\<close>, \<open>timeout\<close> or \<open>interrupted\<close>.\<close>

theorem run_settles:
  assumes "orchestrate env message prompts rc oc w = (r, Some m, oc', w')"
  shows "oc_disk oc' (tk_id m) = Some m \<and> oc_running oc' (tk_id m) = None \<and> tk_completed m \<noteq> None \<and>
    tk_iterations m \<le> max_iterations rc \<and>
    (case r of
       Inl _ \<Rightarrow> tk_status m \<in> {''failed'', ''timeout'', ''interrupted''}
     | Inr t \<Rightarrow> tk_status m = ''completed'' \<and> tk_response m = t \<and> t \<noteq> [])"
  by (rule settled[OF assms])

section \<open>The agents of an iteration\<close>

lemma filter_eq_singleton: "distinct xs \<Longrightarrow> i \<in> set xs \<Longrightarrow> filter (\<lambda>j. j = i) xs = [i]"
  by (induction xs) (auto simp: filter_empty_conv)

definition keys_distinct :: "delegate_request list \<Rightarrow> bool" where
  "keys_distinct ds \<longleftrightarrow> inj_on (delegate_key ds) {..<length ds}"

lemma call_index_own:
  assumes "keys_distinct ds" and "i < length ds"
  shows "call_index base ds (delegate_key ds i) = base + i"
proof -
  have "filter (\<lambda>j. delegate_key ds j = delegate_key ds i) [0..<length ds] = filter (\<lambda>j. j = i) [0..<length ds]"
    using assms by (intro filter_cong) (auto simp: keys_distinct_def inj_on_def)
  then show ?thesis using filter_eq_singleton[of "[0..<length ds]" i] assms(2) by (simp add: call_index_def)
qed

text \<open>The keys are distinct unless the name of an agent holds a \<open>#\<close>.\<close>

lemma key_agent:
  assumes "CHR ''#'' \<notin> set (dr_agent (ds ! i))"
  shows "takeWhile (\<lambda>c. c \<noteq> CHR ''#'') (delegate_key ds i) = dr_agent (ds ! i)"
proof -
  have "\<forall>c \<in> set (dr_agent (ds ! i)). c \<noteq> CHR ''#''" using assms by metis
  then show ?thesis by (auto simp: delegate_key_def takeWhile_append2 split: option.split)
qed

lemma occurrences_strict:
  assumes "i < j" and "j < length ds" and "P (ds ! j)"
  shows "length (filter P (take (Suc i) ds)) < length (filter P (take (Suc j) ds))"
proof -
  have "take (Suc i) (take j ds) = take (Suc i) ds" using assms(1) by (simp add: min_def)
  then have "take j ds = take (Suc i) ds @ drop (Suc i) (take j ds)" by (metis append_take_drop_id)
  then have "length (filter P (take (Suc i) ds)) \<le> length (filter P (take j ds))"
    by (metis filter_append le_add1 length_append)
  then show ?thesis using assms(2,3) by (simp add: take_Suc_conv_app_nth)
qed

lemma keys_distinct_plain:
  assumes "\<forall>d \<in> set ds. CHR ''#'' \<notin> set (dr_agent d)"
  shows "keys_distinct ds"
proof -
  have step: "i = j" if ij: "i \<le> j" "j < length ds" and eq: "delegate_key ds i = delegate_key ds j" for i j
  proof -
    have h: "CHR ''#'' \<notin> set (dr_agent (ds ! i))" "CHR ''#'' \<notin> set (dr_agent (ds ! j))" using assms ij by auto
    have same: "dr_agent (ds ! i) = dr_agent (ds ! j)"
      using key_agent[OF h(1)] key_agent[OF h(2)] eq by simp
    show ?thesis
    proof (rule ccontr)
      assume "i \<noteq> j"
      with ij have lt: "i < j" by simp
      let ?P = "\<lambda>d. dr_agent d = dr_agent (ds ! j)"
      have less: "length (filter ?P (take (Suc i) ds)) < length (filter ?P (take (Suc j) ds))"
        by (rule occurrences_strict) (use lt ij in auto)
      have "0 < length (filter ?P (take (Suc i) ds))"
        using same ij lt by (auto simp: take_Suc_conv_app_nth)
      moreover have "length (filter ?P (take (Suc j) ds)) \<le> length (filter ?P ds)"
        by (metis append_take_drop_id filter_append le_add1 length_append)
      ultimately have "1 < length (filter ?P ds)" using less by linarith
      with eq less same show False by (simp add: delegate_key_def repeated_def)
    qed
  qed
  show ?thesis unfolding keys_distinct_def inj_on_def
  proof (intro ballI impI)
    fix i j assume "i \<in> {..<length ds}" "j \<in> {..<length ds}" "delegate_key ds i = delegate_key ds j"
    then show "i = j" using step[of i j] step[of j i] by (cases "i \<le> j") auto
  qed
qed

text \<open>The result of a delegate names it, its task and whether it failed.\<close>

definition result_of :: "delegate_request \<Rightarrow> agent_result \<Rightarrow> bool" where
  "result_of d a \<longleftrightarrow> aw_agent a = dr_agent d \<and> aw_task a = dr_task d \<and>
     aw_status a = (if aw_error a \<noteq> [] then ''failed'' else ''completed'')"

lemma invoke_agent_names: "invoke_agent env run d idx key sm w = (r, sm', w') \<Longrightarrow> aw_agent r = dr_agent d"
  by (auto simp: invoke_agent_def agent_failed_def agent_outcome_def no_result_def Let_def
      split: sum.splits prod.splits)

lemma run_delegate_step:
  assumes "run_delegate env run ds base i (rs, st, w) = (rs', st', w')" and "keys_distinct ds" and "i < length ds"
  shows "\<exists>a. result_of (ds ! i) a \<and> rs' = rs @ [a] \<and> tk_calls (lp_meta st') = (tk_calls (lp_meta st))[base + i := a]"
proof -
  obtain r sm w1 where "invoke_agent env run (ds ! i) (repeated ds i) (delegate_key ds i) (lp_sessions st) w = (r, sm, w1)"
    by (metis prod_cases3)
  with assms invoke_agent_names[OF this] show ?thesis
    by (intro exI[of _ "final_result (ds ! i) r"])
       (auto simp: run_delegate_def Let_def call_index_own update_meta_def result_of_def final_result_def)
qed

lemma run_delegates_steps:
  assumes "fold (run_delegate env run ds base) is (rs, st, w) = (rs', st', w')" and "keys_distinct ds"
    and "\<forall>i \<in> set is. i < length ds" and "distinct is"
  shows "\<exists>f. (\<forall>i \<in> set is. result_of (ds ! i) (f i)) \<and> rs' = rs @ map f is \<and>
    tk_calls (lp_meta st') = fold (\<lambda>i cs. cs[base + i := f i]) is (tk_calls (lp_meta st))"
  using assms
proof (induction "is" arbitrary: rs st w)
  case (Cons i "is")
  obtain rs1 st1 w1 where s: "run_delegate env run ds base i (rs, st, w) = (rs1, st1, w1)" by (metis prod_cases3)
  then obtain a where a: "result_of (ds ! i) a" "rs1 = rs @ [a]"
    "tk_calls (lp_meta st1) = (tk_calls (lp_meta st))[base + i := a]"
    using run_delegate_step Cons.prems by (metis list.set_intros(1))
  obtain f where f: "\<forall>i \<in> set is. result_of (ds ! i) (f i)" "rs' = rs1 @ map f is"
    "tk_calls (lp_meta st') = fold (\<lambda>i cs. cs[base + i := f i]) is (tk_calls (lp_meta st1))"
    using Cons.IH[of rs1 st1 w1] Cons.prems s by auto
  let ?f = "f(i := a)"
  have ne: "i \<notin> set is" using Cons.prems(4) by simp
  have "fold (\<lambda>i cs. cs[base + i := ?f i]) is cs = fold (\<lambda>i cs. cs[base + i := f i]) is cs" for cs
    using ne by (intro fold_cong) auto
  with f a ne show ?case by (intro exI[of _ ?f]) auto
qed (auto intro: exI[of _ undefined])

lemma nth_fold_update:
  "length (fold (\<lambda>i cs. cs[base + i := f i]) is cs) = length cs \<and>
   (j < length cs \<longrightarrow> fold (\<lambda>i cs. cs[base + i := f i]) is cs ! j =
     (if base \<le> j \<and> j - base \<in> set is then f (j - base) else cs ! j))"
  by (induction "is" arbitrary: cs) (auto simp: nth_list_update)

text \<open>C34. Whatever the order the agents of an iteration end in, the record of the task gains exactly one
  result per admitted delegate, in the order of the delegates, each with its agent, its task and a
  final status that says whether it failed; no agent is left working, and the results for the
  orchestrator are the same ones.\<close>

theorem delegates_complete:
  assumes "execute_delegates env run ds0 st w = (rs, st', w')" and "ds = admitted (ob_teams run) ds0"
    and "mset (oe_completion env (length ds) w) = mset [0..<length ds]"
    and "\<forall>d \<in> set ds0. CHR ''#'' \<notin> set (dr_agent d)"
  shows "\<exists>calls. tk_calls (lp_meta st') = tk_calls (lp_meta st) @ calls \<and> mset rs = mset calls \<and>
    list_all2 (\<lambda>d a. aw_agent a = dr_agent d \<and> aw_task a = dr_task d \<and>
      aw_status a = (if aw_error a \<noteq> [] then ''failed'' else ''completed'')) ds calls"
proof -
  let ?is = "oe_completion env (length ds) w"
  let ?base = "length (tk_calls (lp_meta st))"
  let ?st1 = "update_meta (\<lambda>m. m\<lparr>tk_calls := tk_calls m @ map working_call ds\<rparr>) st"
  have is_set: "set ?is = {..<length ds}" using assms(3) by (metis atLeast_upt set_mset_mset)
  have dist: "distinct ?is" using assms(3) by (metis distinct_upt mset_eq_imp_distinct_iff)
  have keys: "keys_distinct ds"
    by (rule keys_distinct_plain) (use assms(2,4) in \<open>auto simp: admitted_def dest: in_set_takeD\<close>)
  have "fold (run_delegate env run ds ?base) ?is ([], ?st1, w) = (rs, st', w')"
    using assms(1,2) by (simp add: execute_delegates_def Let_def)
  then obtain f where f: "\<forall>i \<in> set ?is. result_of (ds ! i) (f i)" "rs = map f ?is"
    "tk_calls (lp_meta st') = fold (\<lambda>i cs. cs[?base + i := f i]) ?is (tk_calls (lp_meta st) @ map working_call ds)"
    using run_delegates_steps[of env run ds ?base ?is "[]" ?st1 w rs st' w'] keys is_set dist
    by (auto simp: update_meta_def)
  let ?calls = "map f [0..<length ds]"
  have "tk_calls (lp_meta st') = tk_calls (lp_meta st) @ ?calls"
    unfolding f(3)
    by (rule nth_equalityI) (auto simp: nth_fold_update is_set nth_append)
  moreover have "mset rs = mset ?calls" by (simp only: f(2) mset_map assms(3))
  moreover have "list_all2 result_of ds ?calls" using f(1) is_set by (auto simp: list_all2_conv_all_nth)
  ultimately show ?thesis by (auto simp: result_of_def[abs_def])
qed

end
