(* ===== verification/Orchestrator_Protocol.thy ===== *)
theory Orchestrator_Protocol
  imports Orchestrator_Properties
begin

text \<open>
  The protocol between the orchestrator and its model: what is read from an output wherever it stands
  in a text, what the prompts say, and how decisions of the user meet the questions of a run.
\<close>

section \<open>Finding the output\<close>

text \<open>A text that leaves the depth of braces as it was, at any depth above 0.\<close>

definition level :: "string \<Rightarrow> bool" where
  "level t \<longleftrightarrow> (\<forall>d r. match_brace (Suc d) (t @ r) = map_option ((+) (length t)) (match_brace (Suc d) r))"

lemma level_Nil [simp, intro]: "level []"
  by (simp add: level_def map_option_case split: option.split)

lemma level_append [intro]: "level a \<Longrightarrow> level b \<Longrightarrow> level (a @ b)"
  by (simp add: level_def map_option_case add.assoc split: option.split)

lemma level_char: "c \<noteq> CHR ''{'' \<Longrightarrow> c \<noteq> CHR ''}'' \<Longrightarrow> level [c]"
  by (simp add: level_def map_option_case split: option.split)

lemma level_plain: "CHR ''{'' \<notin> set t \<Longrightarrow> CHR ''}'' \<notin> set t \<Longrightarrow> level t"
proof (induction t)
  case (Cons c t)
  then show ?case using level_append[OF level_char[of c], of t] by auto
qed simp

lemma level_join: "level sep \<Longrightarrow> \<forall>t \<in> set ts. level t \<Longrightarrow> level (str_join sep ts)"
  by (induction sep ts rule: str_join.induct) (auto intro: level_append)

lemma level_braces: "level t \<Longrightarrow> level (CHR ''{'' # t @ [CHR ''}''])"
  by (simp add: level_def map_option_case split: option.split)

lemma level_escape: "c \<noteq> CHR ''{'' \<Longrightarrow> c \<noteq> CHR ''}'' \<Longrightarrow> level (json_escape c)"
proof (rule level_plain)
  assume c: "c \<noteq> CHR ''{''" "c \<noteq> CHR ''}''"
  have hex: "hex_digit d \<noteq> CHR ''{'' \<and> hex_digit d \<noteq> CHR ''}''" if "d < 16" for d
    using hex_value_digit[OF that] by (auto simp: hex_value_def)
  have b: "of_char c div 16 < (16 :: nat)" by (simp add: less_mult_imp_div_less)
  show "CHR ''{'' \<notin> set (json_escape c)" "CHR ''}'' \<notin> set (json_escape c)"
    using c hex[OF b] hex[of "of_char c mod 16"] by (auto simp: json_escape_def Let_def)
qed

lemma level_string: "CHR ''{'' \<notin> set s \<Longrightarrow> CHR ''}'' \<notin> set s \<Longrightarrow> level (json_string s)"
proof -
  assume s: "CHR ''{'' \<notin> set s" "CHR ''}'' \<notin> set s"
  then have "level (concat (map json_escape s))" by (induction s) (auto intro: level_append level_escape)
  then have "level ([CHR 0x22] @ concat (map json_escape s) @ [CHR 0x22])"
    by (intro level_append level_char) auto
  then show ?thesis by (simp add: json_string_def)
qed

abbreviation braceless :: "string \<Rightarrow> bool" where
  "braceless s \<equiv> CHR ''{'' \<notin> set s \<and> CHR ''}'' \<notin> set s"

fun no_braces :: "json \<Rightarrow> bool" where
  "no_braces (JNum x) = braceless x"
| "no_braces (JStr s) = braceless s"
| "no_braces (JArr vs) = list_all no_braces vs"
| "no_braces (JObj ms) = list_all (\<lambda>p. braceless (fst p) \<and> no_braces (snd p)) ms"
| "no_braces _ = True"

lemma level_member: "braceless k \<Longrightarrow> level (json_text v) \<Longrightarrow> level (json_string k @ '':'' @ json_text v)"
  by (intro level_append level_string level_char[of "CHR '':''"]) auto

lemma level_members:
  assumes "no_braces (JObj ms)" and "\<forall>p \<in> set ms. level (json_text (snd p))"
  shows "level (str_join '','' (map member_text ms))"
proof (rule level_join)
  show "\<forall>t \<in> set (map member_text ms). level t"
  proof
    fix t assume "t \<in> set (map member_text ms)"
    then obtain k v where m: "(k, v) \<in> set ms" "t = json_string k @ '':'' @ json_text v" by auto
    from m(1) assms have "braceless k" "level (json_text v)" by (force simp: list_all_iff)+
    then show "level t" unfolding m(2) by (rule level_member)
  qed
qed (simp add: level_char)

lemma level_text: "no_braces v \<Longrightarrow> level (json_text v)"
proof (induction v)
  case (JArr vs)
  then have "level ('','' :: string)" "\<forall>t \<in> set (map json_text vs). level t"
    by (auto simp: list_all_iff intro: level_char)
  then have "level ([CHR ''['']  @ str_join '','' (map json_text vs) @ [CHR '']''])"
    by (intro level_append level_join level_char) auto
  then show ?case by simp
next
  case (JObj ms)
  have "\<forall>p \<in> set ms. level (json_text (snd p))"
    using JObj by (auto simp: list_all_iff intro: snds.intros)
  then have "level (str_join '','' (map member_text ms))" using level_members JObj.prems by blast
  then show ?case using level_braces by simp
qed (auto intro: level_plain level_string)

lemma match_members:
  assumes "no_braces (JObj ms)"
  shows "match_brace 0 (json_text (JObj ms) @ r) = Some (length (json_text (JObj ms)))"
proof -
  have "\<forall>p \<in> set ms. level (json_text (snd p))" using assms level_text by (auto simp: list_all_iff)
  then have "level (str_join '','' (map member_text ms))" using level_members assms by blast
  then show ?thesis by (simp add: level_def)
qed

lemma trim_around:
  assumes "t \<noteq> []" and "\<not> is_space (hd t)" and "\<not> is_space (last t)"
  shows "\<exists>p q. trim_space (pre @ t @ post) = p @ t @ q \<and> set p \<subseteq> set pre"
proof -
  obtain c s where t: "t = c # s" using assms(1) by (cases t) auto
  obtain s' e where t': "t = s' @ [e]" using assms(1) by (cases t rule: rev_cases) auto
  have l: "\<exists>p. trim_left (pre @ t @ post) = p @ t @ post \<and> set p \<subseteq> set pre"
  proof (induction pre)
    case Nil
    then show ?case using assms(2) t by (simp add: trim_left_def)
  next
    case (Cons a pre)
    then show ?case by (cases "is_space a") (auto simp: trim_left_def intro: exI[of _ "a # pre"])
  qed
  have r: "\<exists>q. trim_right (x @ t @ post) = x @ t @ q" for x
  proof (induction post rule: rev_induct)
    case Nil
    then show ?case using assms(3) t' by (simp add: trim_right_def)
  next
    case (snoc a post)
    then show ?case by (cases "is_space a") (auto simp: trim_right_def intro: exI[of _ "post @ [a]"])
  qed
  from l r show ?thesis unfolding trim_space_def by metis
qed

lemma index_byte_skip: "c \<notin> set p \<Longrightarrow> index_byte (p @ c # s) c = Some (length p)"
  unfolding index_byte_def by (induction p) auto



text \<open>A brace inside a string cuts the output: the search for the end counts braces in strings, so a final
  answer that mentions a closing brace is not valid any more and counts as no answer.\<close>

theorem brace_in_string_loses_output:
  "decode_output ''{\"response\":\"use } here\"}'' = Some (no_output\<lparr>oo_response := ''use } here''\<rparr>) \<and>
   parse_orchestrator_output ''{\"response\":\"use } here\"}'' = no_output"
  by code_simp

section \<open>What the prompts say\<close>

lemma escape_json_concat: "escape_json s = concat (map json_escape s)"
  by (simp add: escape_json_def json_string_def)

lemma json_string_lit: "json_string s = CHR 0x22 # escape_json s @ [CHR 0x22]"
  by (simp add: escape_json_concat json_string_def)

text \<open>C36. The feedback of the user reaches the model as data: whatever it holds, the prompt after a rejection
  and the prompt after an answer are JSON objects with exactly that text under its name, and nothing
  in the text can add or change a member.\<close>

theorem feedback_is_data:
  "parse_json (rejected_prompt fb) =
     Some (JObj [(''plan_rejected'', JBool True), (''feedback'', JStr fb),
                 (''instruction'', JStr ''revise your plan based on the feedback and output a new plan'')]) \<and>
   parse_json (answered_prompt fb brain_note) =
     Some (JObj [(''arbitration_response'', JStr fb), (''instruction'', JStr brain_note)]) \<and>
   parse_json (answered_prompt fb agents_note) =
     Some (JObj [(''arbitration_response'', JStr fb), (''instruction'', JStr agents_note)])"
proof -
  have lit: "escape_json brain_note = brain_note" "escape_json agents_note = agents_note"
    "escape_json ''revise your plan based on the feedback and output a new plan'' =
       ''revise your plan based on the feedback and output a new plan''"
    "escape_json ''plan_rejected'' = ''plan_rejected''" "escape_json ''feedback'' = ''feedback''"
    "escape_json ''instruction'' = ''instruction''" "escape_json ''arbitration_response'' = ''arbitration_response''"
    by code_simp+
  have "rejected_prompt fb =
      json_text (JObj [(''plan_rejected'', JBool True), (''feedback'', JStr fb),
                 (''instruction'', JStr ''revise your plan based on the feedback and output a new plan'')])"
    by (simp add: rejected_prompt_def json_string_lit lit)
  moreover have "answered_prompt fb nt = json_text (JObj [(''arbitration_response'', JStr fb), (''instruction'', JStr nt)])"
    if "escape_json nt = nt" for nt
    using that by (simp add: answered_prompt_def json_string_lit lit)
  ultimately show ?thesis
    by (simp add: lit parse_json_text maxNestingDepth_def del: json_text.simps)
qed

section \<open>Decisions and questions\<close>

text \<open>The run and the handlers of the control center share a task: the run asks (sets the status and
  waits), takes a decision from the channel, and goes on (resets the status); a handler offers a
  decision at any time. The numbers of the question a decision was sent for, of the questions asked
  and of the decisions sent, and the answers the run used, are history.\<close>

datatype control = Working | AtWait | Got approval_decision nat

record handshake =
  hk_task :: running_task
  hk_tag :: nat
  hk_control :: control
  hk_asked :: nat
  hk_sent :: nat
  hk_answers :: "(nat \<times> approval_decision \<times> nat) list"

definition with_status :: "string \<Rightarrow> running_task \<Rightarrow> running_task" where
  "with_status st rk = rk\<lparr>rk_meta := (rk_meta rk)\<lparr>tk_status := st\<rparr>\<rparr>"

inductive hand_step :: "handshake \<Rightarrow> handshake \<Rightarrow> bool" where
  ask: "hk_control h = Working \<Longrightarrow> st = ''awaiting_approval'' \<or> st = ''awaiting_arbitration'' \<Longrightarrow>
    hand_step h (h\<lparr>hk_task := with_status st (hk_task h), hk_control := AtWait, hk_asked := Suc (hk_asked h)\<rparr>)"
| send: "offer d (hk_task h) = Some rk \<Longrightarrow>
    hand_step h (h\<lparr>hk_task := rk, hk_tag := hk_asked h, hk_sent := Suc (hk_sent h)\<rparr>)"
| receive: "hk_control h = AtWait \<Longrightarrow> rk_channel (hk_task h) = Some d \<Longrightarrow>
    hand_step h (h\<lparr>hk_task := (hk_task h)\<lparr>rk_channel := None\<rparr>, hk_control := Got d (hk_tag h)\<rparr>)"
| resume: "hk_control h = Got d t \<Longrightarrow>
    hand_step h (h\<lparr>hk_task := with_status ''running'' (hk_task h), hk_control := Working,
                   hk_answers := hk_answers h @ [(hk_asked h, d, t)]\<rparr>)"

inductive_cases hand_stepE: "hand_step h h'"

definition fresh_hand :: "running_task \<Rightarrow> handshake" where
  "fresh_hand rk = \<lparr>hk_task = with_status ''running'' rk\<lparr>rk_channel := None\<rparr>, hk_tag = 0, hk_control = Working, hk_asked = 0,
     hk_sent = 0, hk_answers = []\<rparr>"

inductive hand_reach :: "running_task \<Rightarrow> handshake \<Rightarrow> bool" for rk where
  start: "hand_reach rk (fresh_hand rk)"
| next_step: "hand_reach rk h \<Longrightarrow> hand_step h h' \<Longrightarrow> hand_reach rk h'"

abbreviation near :: "nat \<Rightarrow> nat \<Rightarrow> bool" where "near t q \<equiv> t \<le> q \<and> q \<le> Suc t"

definition answers_numbered :: "(nat \<times> approval_decision \<times> nat) list \<Rightarrow> bool" where
  "answers_numbered xs \<longleftrightarrow> map fst xs = [1..<Suc (length xs)]"

lemma answers_numbered_Nil: "answers_numbered []"
  by (simp add: answers_numbered_def)

lemma answers_numbered_snoc: "answers_numbered xs \<Longrightarrow> n = Suc (length xs) \<Longrightarrow> answers_numbered (xs @ [(n, x)])"
  by (simp add: answers_numbered_def)

definition hand_ok :: "handshake \<Rightarrow> bool" where
  "hand_ok h \<longleftrightarrow>
     hk_sent h = length (hk_answers h) + (if rk_channel (hk_task h) = None then 0 else 1) +
       (case hk_control h of Got _ _ \<Rightarrow> 1 | _ \<Rightarrow> 0) \<and>
     answers_numbered (hk_answers h) \<and>
     length (hk_answers h) + (if hk_control h = Working then 0 else 1) = hk_asked h \<and>
     (\<forall>(q, d, t) \<in> set (hk_answers h). near t q) \<and>
     (case hk_control h of
        Working \<Rightarrow> tk_status (rk_meta (hk_task h)) = ''running'' \<and> (rk_channel (hk_task h) \<noteq> None \<longrightarrow> hk_tag h = hk_asked h)
      | AtWait \<Rightarrow> rk_channel (hk_task h) \<noteq> None \<longrightarrow> near (hk_tag h) (hk_asked h)
      | Got d t \<Rightarrow> near t (hk_asked h) \<and> (rk_channel (hk_task h) \<noteq> None \<longrightarrow> hk_tag h = hk_asked h))"

lemma offer_Some:
  "offer d rk = Some rk' \<longleftrightarrow>
   (tk_status (rk_meta rk) = ''awaiting_approval'' \<or> tk_status (rk_meta rk) = ''awaiting_arbitration'') \<and>
   rk_channel rk = None \<and> rk' = rk\<lparr>rk_channel := Some d\<rparr>"
  by (auto simp: offer_def)

lemma hand_step_ok: "hand_step h h' \<Longrightarrow> hand_ok h \<Longrightarrow> hand_ok h'"
proof (induction rule: hand_step.induct)
  case (ask h st)
  then show ?case by (auto simp: hand_ok_def with_status_def)
next
  case (send d h rk)
  then show ?case by (cases "hk_control h") (auto simp: hand_ok_def offer_Some)
next
  case (receive h d)
  then show ?case by (auto simp: hand_ok_def)
next
  case (resume h d t)
  then show ?case by (auto simp: hand_ok_def with_status_def intro: answers_numbered_snoc split: if_splits)
qed

lemma hand_reach_ok: "hand_reach rk h \<Longrightarrow> hand_ok h"
proof (induction rule: hand_reach.induct)
  case start
  show ?case by (simp add: hand_ok_def fresh_hand_def with_status_def answers_numbered_Nil)
qed (rule hand_step_ok)


text \<open>The second case happens: a decision sent after the run took the first one, but before it reset the
  status, stays in the channel and answers the next question, which nobody has seen yet.\<close>

theorem decision_answers_next_question: "\<exists>h. hand_reach rk h \<and> (2, d2, 1) \<in> set (hk_answers h)"
proof -
  let ?w = "''awaiting_approval''"
  define rk0 where "rk0 = with_status ''running'' rk\<lparr>rk_channel := None\<rparr>"
  define d1 :: approval_decision where "d1 = \<lparr>ad_approved = True, ad_feedback = []\<rparr>"
  have r: "with_status b (with_status a x) = with_status b x" "rk_channel (with_status a x) = rk_channel x"
    "with_status a (x\<lparr>rk_channel := c\<rparr>) = (with_status a x)\<lparr>rk_channel := c\<rparr>"
    "tk_status (rk_meta (with_status a x)) = a" for a b c x
    by (simp_all add: with_status_def)
  note [simp] = r numeral_2_eq_2
  let ?q = "with_status ?w rk\<lparr>rk_channel := None\<rparr>"
  have "hand_reach rk \<lparr>hk_task = rk0, hk_tag = 0, hk_control = Working, hk_asked = 0, hk_sent = 0, hk_answers = []\<rparr>"
    using hand_reach.start[of rk] by (simp add: fresh_hand_def rk0_def)
  from hand_reach.next_step[OF this hand_step.ask[of _ ?w]]
  have "hand_reach rk \<lparr>hk_task = ?q, hk_tag = 0, hk_control = AtWait, hk_asked = 1, hk_sent = 0, hk_answers = []\<rparr>"
    by (simp add: rk0_def)
  from hand_reach.next_step[OF this hand_step.send[of d1 _ "?q\<lparr>rk_channel := Some d1\<rparr>"]]
  have "hand_reach rk \<lparr>hk_task = ?q\<lparr>rk_channel := Some d1\<rparr>, hk_tag = 1, hk_control = AtWait, hk_asked = 1, hk_sent = 1, hk_answers = []\<rparr>"
    by (simp add: offer_Some)
  from hand_reach.next_step[OF this hand_step.receive[of _ d1]]
  have "hand_reach rk \<lparr>hk_task = ?q, hk_tag = 1, hk_control = Got d1 1, hk_asked = 1, hk_sent = 1, hk_answers = []\<rparr>"
    by simp
  from hand_reach.next_step[OF this hand_step.send[of d2 _ "?q\<lparr>rk_channel := Some d2\<rparr>"]]
  have "hand_reach rk \<lparr>hk_task = ?q\<lparr>rk_channel := Some d2\<rparr>, hk_tag = 1, hk_control = Got d1 1, hk_asked = 1, hk_sent = 2, hk_answers = []\<rparr>"
    by (simp add: offer_Some)
  from hand_reach.next_step[OF this hand_step.resume[of _ d1 1]]
  have "hand_reach rk \<lparr>hk_task = rk0\<lparr>rk_channel := Some d2\<rparr>, hk_tag = 1, hk_control = Working, hk_asked = 1, hk_sent = 2,
      hk_answers = [(1, d1, 1)]\<rparr>"
    by (simp add: rk0_def)
  from hand_reach.next_step[OF this hand_step.ask[of _ ?w]]
  have "hand_reach rk \<lparr>hk_task = ?q\<lparr>rk_channel := Some d2\<rparr>, hk_tag = 1, hk_control = AtWait, hk_asked = 2, hk_sent = 2,
      hk_answers = [(1, d1, 1)]\<rparr>"
    by (simp add: rk0_def)
  from hand_reach.next_step[OF this hand_step.receive[of _ d2]]
  have "hand_reach rk \<lparr>hk_task = ?q, hk_tag = 1, hk_control = Got d2 1, hk_asked = 2, hk_sent = 2, hk_answers = [(1, d1, 1)]\<rparr>"
    by simp
  from hand_reach.next_step[OF this hand_step.resume[of _ d2 1]]
  have "hand_reach rk \<lparr>hk_task = rk0, hk_tag = 1, hk_control = Working, hk_asked = 2, hk_sent = 2,
      hk_answers = [(1, d1, 1), (2, d2, 1)]\<rparr>"
    by (simp add: rk0_def)
  then show ?thesis by force
qed

definition demo_task :: running_task where
  "demo_task = \<lparr>rk_started = 0, rk_meta = new_meta ''1'' 0 ''hi'' \<lparr>rn_model = ''m'', rn_backend = [], rn_effort = [],
     rn_max_iterations = 2, rn_max_turns = 0, rn_orchestrator_max_turns = 0, rn_timeout_min = 0, rn_skill_prompts = [],
     rn_skill_lookup = None, rn_memory_context = [], rn_need_validation = True, rn_source = [], rn_team = [],
     rn_original_request = [], rn_conversation_context = []\<rparr>, rk_channel = None, rk_cancelled = False\<rparr>"


end
