(* ===== verification/Orchestrator_Runs.thy ===== *)
theory Orchestrator_Runs
  imports Orchestrator_Protocol
begin

text \<open>
  How many calls a run makes, what deleting a task removes, and runs of the orchestrator on a small
  team: the witnesses of the properties of runs, and a run that delegates without the approval it
  was asked to wait for.
\<close>

section \<open>The number of calls\<close>

definition agent_limit :: "team_config list \<Rightarrow> nat" where
  "agent_limit teams = nat (fold (\<lambda>t m. max m (tg_max_agents t)) teams 3)"

lemma fold_le:
  "(\<And>x m. x \<in> set xs \<Longrightarrow> m \<le> (b :: int) \<Longrightarrow> f x m \<le> b) \<Longrightarrow> m \<le> b \<Longrightarrow> fold f xs m \<le> b"
  by (induction xs arbitrary: m) auto

lemma fold_max_ge: "m \<le> fold (\<lambda>t m. max m (f t)) ts (m :: int) \<and> (\<forall>t \<in> set ts. f t \<le> fold (\<lambda>t m. max m (f t)) ts m)"
proof (induction ts arbitrary: m)
  case (Cons a ts)
  show ?case using Cons.IH[of "max m (f a)"] by auto
qed simp

lemma max_concurrent_limit: "nat (max_concurrent teams ds) \<le> agent_limit teams"
proof -
  let ?b = "fold (\<lambda>t m. max m (tg_max_agents t)) teams 3"
  have b: "3 \<le> ?b" "\<forall>t \<in> set teams. tg_max_agents t \<le> ?b" using fold_max_ge[of 3 tg_max_agents teams] by simp_all
  have "fold (\<lambda>d m. fold (\<lambda>t m. if tg_name t = fst (split_team_agent (dr_agent d)) \<and> m < tg_max_agents t
                                       then tg_max_agents t else m) teams m) ds 0 \<le> ?b"
    by (intro fold_le) (use b in \<open>auto intro!: fold_le\<close>)
  then have "max_concurrent teams ds \<le> ?b" using b(1) by (simp add: max_concurrent_def Let_def)
  then show ?thesis by (simp add: agent_limit_def nat_mono)
qed

text \<open>A count that every call raises by one and waiting does not.\<close>

definition counts_calls :: "'w orch_env \<Rightarrow> ('w \<Rightarrow> nat) \<Rightarrow> bool" where
  "counts_calls env cnt \<longleftrightarrow>
     (\<forall>call w. cnt (snd (oe_invoke env call w)) = Suc (cnt w)) \<and> (\<forall>t w. cnt (snd (oe_await env t w)) = cnt w)"

lemma invoke_resuming_count:
  "counts_calls env cnt \<Longrightarrow> invoke_resuming env key call sm w = (r, sm', w') \<Longrightarrow> cnt w' \<le> cnt w + 2"
  unfolding invoke_resuming_def counts_calls_def Let_def
  by (auto split: prod.splits sum.splits if_splits) (metis le_SucI order_refl snd_conv)+

lemma invoke_agent_count:
  "counts_calls env cnt \<Longrightarrow> invoke_agent env run d idx key sm w = (r, sm', w') \<Longrightarrow> cnt w' \<le> cnt w + 2"
  by (auto simp: invoke_agent_def Let_def dest: invoke_resuming_count split: sum.splits prod.splits)

lemma run_delegates_count:
  "counts_calls env cnt \<Longrightarrow> fold (run_delegate env run ds base) is (rs, st, w) = (rs', st', w') \<Longrightarrow>
   cnt w' \<le> cnt w + 2 * length is"
proof (induction "is" arbitrary: rs st w)
  case (Cons i "is")
  obtain rs1 st1 w1 where s: "run_delegate env run ds base i (rs, st, w) = (rs1, st1, w1)" by (metis prod_cases3)
  then have "cnt w1 \<le> cnt w + 2"
    using invoke_agent_count[OF Cons.prems(1)] by (fastforce simp: run_delegate_def Let_def split: prod.splits)
  moreover have "cnt w' \<le> cnt w1 + 2 * length is" using Cons.IH[of rs1 st1 w1] Cons.prems s by simp
  ultimately show ?case by simp
qed simp

lemma execute_delegates_count:
  assumes "counts_calls env cnt" and "\<forall>n w. length (oe_completion env n w) = n"
    and "execute_delegates env run ds st w = (rs, st', w')"
  shows "cnt w' \<le> cnt w + 2 * agent_limit (ob_teams run)"
proof -
  have "cnt w' \<le> cnt w + 2 * length (admitted (ob_teams run) ds)"
    using assms run_delegates_count[OF assms(1)] by (fastforce simp: execute_delegates_def Let_def)
  also have "length (admitted (ob_teams run) ds) \<le> agent_limit (ob_teams run)"
    using max_concurrent_limit[of "ob_teams run" ds] by (simp add: admitted_def)
  finally show ?thesis by simp
qed

lemma ask_count: "counts_calls env cnt \<Longrightarrow> ask_user env run qs nt st w = (v, st', w') \<Longrightarrow> cnt w' = cnt w"
  by (auto simp: ask_user_def counts_calls_def Let_def split: prod.splits sum.splits) (metis snd_conv)+

lemma plan_count: "counts_calls env cnt \<Longrightarrow> handle_plan env run plan st w = (v, st', w') \<Longrightarrow> cnt w' = cnt w"
  by (auto simp: handle_plan_def counts_calls_def Let_def split: prod.splits sum.splits if_splits) (metis snd_conv)+

lemma delegates_count:
  assumes "counts_calls env cnt" and "\<forall>n w. length (oe_completion env n w) = n"
    and "handle_delegates env run i ds st w = (v, st', w')"
  shows "cnt w' \<le> cnt w + 2 * agent_limit (ob_teams run)"
proof -
  obtain rs st1 w1 where e: "execute_delegates env run ds st w = (rs, st1, w1)" by (metis prod_cases3)
  have "cnt w' = cnt w1"
    using assms(3) ask_count[OF assms(1)] by (auto simp: handle_delegates_def e Let_def split: if_splits)
  then show ?thesis using execute_delegates_count[OF assms(1,2) e] by simp
qed

lemma output_count:
  assumes "counts_calls env cnt" and "\<forall>n w. length (oe_completion env n w) = n"
    and "handle_output env run i raw st w = (v, st', w')"
  shows "cnt w' \<le> cnt w + 2 * agent_limit (ob_teams run)"
  using assms(3) ask_count[OF assms(1)] plan_count[OF assms(1)] delegates_count[OF assms(1,2)]
  by (auto simp: handle_output_def handle_response_def handle_empty_def fail_with_def Let_def split: if_splits)

lemma iterate_count:
  assumes "counts_calls env cnt" and "\<forall>n w. length (oe_completion env n w) = n"
    and "iterate env run i st w = (v, st', w')"
  shows "cnt w' \<le> cnt w + (2 + 2 * agent_limit (ob_teams run))"
proof -
  let ?st = "set_meta (\<lambda>m. m\<lparr>tk_iterations := Suc i\<rparr>) st"
  obtain r sm w1 where v: "invoke_resuming env orchestratorKey (brain_request env run ?st) (lp_sessions ?st) w = (r, sm, w1)"
    by (metis prod_cases3)
  have "cnt w1 \<le> cnt w + 2" using invoke_resuming_count[OF assms(1) v] .
  moreover have "cnt w' \<le> cnt w1 + 2 * agent_limit (ob_teams run)"
    using assms(3) output_count[OF assms(1,2)]
    by (auto simp: iterate_def v Let_def turn_limit_hit_def fail_with_def split: sum.splits if_splits)
  ultimately show ?thesis by simp
qed

lemma run_loop_count:
  assumes "counts_calls env cnt" and "\<forall>n w. length (oe_completion env n w) = n"
    and "run_loop env run i n st w = (r, st', w')"
  shows "cnt w' \<le> cnt w + n * (2 + 2 * agent_limit (ob_teams run))"
  using assms(3)
proof (induction n arbitrary: i st w)
  case (Suc n)
  obtain v st1 w1 where it: "iterate env run i st w = (v, st1, w1)" by (metis prod_cases3)
  have "cnt w1 \<le> cnt w + (2 + 2 * agent_limit (ob_teams run))" using iterate_count[OF assms(1,2) it] .
  moreover have "cnt w' \<le> cnt w1 + n * (2 + 2 * agent_limit (ob_teams run))"
    using Suc.prems Suc.IH[of "Suc i" st1 w1] it by (cases v) auto
  ultimately show ?case by simp
qed simp

text \<open>C35. A run is bounded, whatever its model answers: it calls providers at most twice per iteration for the
  orchestrator and twice for each agent the teams admit, over at most the configured iterations.\<close>

theorem run_calls_bounded:
  assumes "\<forall>call w. cnt (snd (oe_invoke env call w)) = Suc (cnt w)"
    and "\<forall>t w. cnt (snd (oe_await env t w)) = cnt w" and "\<forall>n w. length (oe_completion env n w) = n"
    and "orchestrate env message prompts rc oc w = (r, m, oc', w')"
  shows "cnt w' \<le> cnt w +
    max_iterations rc * (2 + 2 * agent_limit (select_teams (all_teams (oe_order env) (oe_store env)) rc))"
proof -
  have c: "counts_calls env cnt" using assms(1,2) by (simp add: counts_calls_def)
  let ?teams = "select_teams (all_teams (oe_order env) (oe_store env)) rc"
  have "cnt w' \<le> cnt w + max_iterations (ob_config run) * (2 + 2 * agent_limit (ob_teams run))"
    if "run_task env run mm w = (r, st, w')" for run mm st
    using that run_loop_count[OF c assms(3)] by (fastforce simp: run_task_def Let_def split: if_splits prod.splits)
  then have run: "cnt w' \<le> cnt w + max_iterations rc * (2 + 2 * agent_limit ?teams)"
    if "run_task env (new_run env ?teams x y message prompts rc) mm w = (r, st, w')" for x y mm st
    using that by (fastforce simp: new_run_def Let_def)
  show ?thesis
    using assms(4) run by (auto simp: orchestrate_def Let_def split: if_splits prod.splits)
qed

section \<open>Deleting a task\<close>

lemma agents_path:
  assumes "is_abs dataDir"
  shows "join_path [dataDir, ''agents'', x] =
    render True (clean_elems True (''agents'' # rev (path_elems dataDir)) (split_at (CHR ''/'') x))"
proof -
  have ne: "dataDir \<noteq> []" using assms by (auto simp: is_abs_def)
  let ?p = "dataDir @ CHR ''/'' # ''agents'' @ CHR ''/'' # x"
  have a: "is_abs ?p" using assms ne by (cases dataDir) (auto simp: is_abs_def)
  have sp: "split_at (CHR ''/'') ?p = split_at (CHR ''/'') dataDir @ [''agents''] @ split_at (CHR ''/'') x"
    using split_at_app[of "CHR ''/''" dataDir "''agents'' @ CHR ''/'' # x"] by simp
  have "path_elems ?p = clean_elems True (''agents'' # rev (path_elems dataDir)) (split_at (CHR ''/'') x)"
    unfolding path_elems_def sp clean_elems_append using assms a by (simp add: path_elems_def)
  then show ?thesis using ne a by (simp add: join_path_def clean_render)
qed

text \<open>C39. Deleting a task with an id that is one path element never touches a running task, and removes
  exactly the directory \<open>agents/<id>\<close> with what is below it. The id comes from a query parameter and
  is not checked: with \<open>..\<close> the whole data directory is removed.\<close>

theorem delete_task_removes:
  assumes "is_abs dataDir" and "clean dataDir = dataDir"
  shows "(plain_elem x \<longrightarrow> delete_task dataDir x oc exists =
      (let dir = render True (path_elems dataDir @ [''agents'', x]) in
       if oc_running oc x \<noteq> None \<or> \<not> exists dir then (False, exists)
       else (True, \<lambda>p. exists p \<and> p \<noteq> dir \<and> \<not> has_prefix p (dir @ ''/'')))) \<and>
    (oc_running oc ''..'' = None \<longrightarrow> exists dataDir \<longrightarrow>
      delete_task dataDir ''..'' oc exists = (True, \<lambda>p. exists p \<and> p \<noteq> dataDir \<and> \<not> has_prefix p (dataDir @ ''/'')))"
proof (intro conjI impI)
  assume x: "plain_elem x"
  then have "CHR ''/'' \<notin> set x" by (simp add: plain_elem_def)
  then have "split_at (CHR ''/'') x = [x]" by (rule split_at_no_sep)
  with x show "delete_task dataDir x oc exists =
      (let dir = render True (path_elems dataDir @ [''agents'', x]) in
       if oc_running oc x \<noteq> None \<or> \<not> exists dir then (False, exists)
       else (True, \<lambda>p. exists p \<and> p \<noteq> dir \<and> \<not> has_prefix p (dir @ ''/'')))"
    by (auto simp: delete_task_def agents_path[OF assms(1)] plain_elem_def remove_tree_def[abs_def] below_def Let_def)
next
  assume r: "oc_running oc ''..'' = None" "exists dataDir"
  have "render True (path_elems dataDir) = dataDir" using assms by (simp add: clean_render)
  with r show "delete_task dataDir ''..'' oc exists = (True, \<lambda>p. exists p \<and> p \<noteq> dataDir \<and> \<not> has_prefix p (dataDir @ ''/''))"
    by (auto simp: delete_task_def agents_path[OF assms(1)] remove_tree_def[abs_def] below_def)
qed

section \<open>Runs on a small team\<close>

text \<open>The outside state of the demonstration: the outputs to come, the calls made and the waits.\<close>

type_synonym demo_world = "string list \<times> agent_call list \<times> nat"

definition demo_store :: agent_store where
  "demo_store = \<lparr>gs_dir = ''teams'', gs_current = Map.empty(''t'' :=
     Some (no_team\<lparr>tg_name := ''t'', tg_agents := [no_agent\<lparr>ag_name := ''a'', ag_tier := ''x''\<rparr>]\<rparr>))\<rparr>"

definition demo_orch :: "demo_world orch_env" where
  "demo_orch = \<lparr>oe_store = demo_store, oe_order = [''t''], oe_data_dir = ''/d'',
     oe_resolve_tier = Some (\<lambda>_. Some \<lparr>gt_model = ''m'', gt_backend = [], gt_tools = [], gt_effort = [], gt_write_capable = False,
                                       gt_max_turns = 0, gt_system_prompt = []\<rparr>),
     oe_resolves = False, oe_api_provider = (\<lambda>_. False), oe_schemas = None, oe_wildcard = [], oe_native = [],
     oe_instruction = (\<lambda>_. []), oe_md = [], oe_codex = [],
     oe_invoke = (\<lambda>call (outs, calls, waits).
       (case outs of
          [] \<Rightarrow> (Inl ''no model'', [], calls @ [call], waits)
        | t # ts \<Rightarrow> (Inr \<lparr>tu_text = t, tu_model = ''m'', tu_cost = 0, tu_session_id = []\<rparr>, ts, calls @ [call], waits))),
     oe_await = (\<lambda>_ (outs, calls, waits). (Inr \<lparr>ad_approved = True, ad_feedback = []\<rparr>, outs, calls, Suc waits)),
     oe_read = (\<lambda>_ _. None), oe_now = (\<lambda>_. 5), oe_add = (+), oe_show_cost = (\<lambda>_. ''0''),
     oe_completion = (\<lambda>n _. rev [0..<n])\<rparr>"

definition demo_config :: run_config where
  "demo_config = \<lparr>rn_model = ''m'', rn_backend = [], rn_effort = [], rn_max_iterations = 3, rn_max_turns = 0,
     rn_orchestrator_max_turns = 0, rn_timeout_min = 0, rn_skill_prompts = [], rn_skill_lookup = None,
     rn_memory_context = [], rn_need_validation = True, rn_source = [], rn_team = [], rn_original_request = [],
     rn_conversation_context = []\<rparr>"

definition idle :: orchestrator where
  "idle = \<lparr>oc_counter = 0, oc_running = Map.empty, oc_disk = Map.empty\<rparr>"

definition demo_outputs :: "string list" where
  "demo_outputs = [''{\"delegates\":[{\"agent\":\"t/a\",\"task\":\"go\"}]}'', ''found it'', ''{\"response\":\"ok\"}'']"

definition demo_orchestrate :: "string res \<times> task_meta option \<times> orchestrator \<times> demo_world" where
  "demo_orchestrate = orchestrate demo_orch ''hi'' [] demo_config idle (demo_outputs, [], 0)"

lemma demo_view:
  "(case demo_orchestrate of (r, m, oc, outs, calls, waits) \<Rightarrow>
      (r, map_option tk_iterations m, map gk_prompt (take 1 (drop 1 calls)), length calls, waits)) =
   (Inr ''ok'', Some 2, [''go''], 3, 0)"
  by code_simp

lemma demo_result:
  obtains m oc outs calls where "demo_orchestrate = (Inr ''ok'', Some m, oc, outs, calls, 0)" "length calls = 3"
    "map gk_prompt (take 1 (drop 1 calls)) = [''go'']" "tk_iterations m = 2"
proof -
  obtain r m oc outs calls waits where d: "demo_orchestrate = (r, m, oc, outs, calls, waits)" by (metis prod_cases6)
  have "r = Inr ''ok''" "map_option tk_iterations m = Some 2" "length calls = 3" "waits = 0"
    "map gk_prompt (take 1 (drop 1 calls)) = [''go'']"
    using demo_view unfolding d by simp_all
  with d that show thesis by (cases m) auto
qed

theorem run_settles_witness:
  "\<exists>m oc outs calls. demo_orchestrate = (Inr ''ok'', Some m, oc, outs, calls, 0) \<and> tk_status m = ''completed'' \<and> tk_response m = ''ok'' \<and>
     oc_disk oc (tk_id m) = Some m"
proof (rule demo_result)
  fix m oc outs calls
  assume d: "demo_orchestrate = (Inr ''ok'', Some m, oc, outs, calls, 0)"
  have "tk_status m = ''completed'' \<and> tk_response m = ''ok'' \<and> oc_disk oc (tk_id m) = Some m"
    using run_settles[OF d[unfolded demo_orchestrate_def]] by simp
  with d show ?thesis by blast
qed

text \<open>Validation does not bind the model: this run was asked to wait for the approval of its plan, but the
  model delegates without a plan, the agent runs, and the user is never asked.\<close>

theorem validation_bypassed:
  "rn_need_validation demo_config \<and>
   (\<exists>m oc outs calls. orchestrate demo_orch ''hi'' [] demo_config idle (demo_outputs, [], 0) = (Inr ''ok'', Some m, oc, outs, calls, 0) \<and>
      map gk_prompt (take 1 (drop 1 calls)) = [''go''])"
  using demo_result unfolding demo_orchestrate_def by (simp add: demo_config_def) metis

theorem run_calls_bounded_witness:
  "\<exists>m oc outs calls. demo_orchestrate = (Inr ''ok'', m, oc, outs, calls, 0) \<and> length calls \<le> 0 + 3 * (2 + 2 * 3)"
proof (rule demo_result)
  fix m oc outs calls
  assume d: "demo_orchestrate = (Inr ''ok'', Some m, oc, outs, calls, 0)"
  let ?cnt = "\<lambda>w :: demo_world. length (fst (snd w))"
  have h: "\<forall>call w. ?cnt (snd (oe_invoke demo_orch call w)) = Suc (?cnt w)" "\<forall>t w. ?cnt (snd (oe_await demo_orch t w)) = ?cnt w"
    "\<forall>n w. length (oe_completion demo_orch n w) = n"
    by (auto simp: demo_orch_def split: list.split)
  have "max_iterations demo_config = 3" "agent_limit (select_teams (all_teams (oe_order demo_orch) (oe_store demo_orch)) demo_config) = 3"
    by code_simp+
  with run_calls_bounded[OF h d[unfolded demo_orchestrate_def]] d show ?thesis by auto
qed

text \<open>Two delegates of the same agent and one that is unknown, ending in the reverse order.\<close>

definition demo_delegates :: "delegate_request list" where
  "demo_delegates = [\<lparr>dr_agent = ''t/a'', dr_task = ''1''\<rparr>, \<lparr>dr_agent = ''t/b'', dr_task = ''2''\<rparr>]"

definition demo_team_run :: orch_run where
  "demo_team_run = new_run demo_orch (all_teams [''t''] demo_store) ''1'' 0 ''hi'' [] demo_config"

theorem delegates_complete_witness:
  "\<exists>rs st outs ls n calls. execute_delegates demo_orch demo_team_run demo_delegates (new_loop ''hi'' (new_meta ''1'' 0 ''hi'' demo_config))
      ([''x''], [], 0) = (rs, st, outs, ls, n) \<and> mset rs = mset calls \<and> tk_calls (lp_meta st) = calls \<and> length calls = 2"
proof -
  let ?st = "new_loop ''hi'' (new_meta ''1'' 0 ''hi'' demo_config)"
  obtain rs st outs ls n where e: "execute_delegates demo_orch demo_team_run demo_delegates ?st ([''x''], [], 0) = (rs, st, outs, ls, n)"
    by (metis prod_cases5)
  have ad: "admitted (ob_teams demo_team_run) demo_delegates = demo_delegates"
    by (simp add: demo_team_run_def new_run_def Let_def) code_simp
  have "mset (oe_completion demo_orch (length demo_delegates) ([''x''], [], 0)) = mset [0..<length demo_delegates]"
    by (simp add: demo_orch_def)
  moreover have "\<forall>d \<in> set demo_delegates. CHR ''#'' \<notin> set (dr_agent d)" by (simp add: demo_delegates_def)
  moreover have "tk_calls (lp_meta ?st) = []" by (simp add: new_loop_def new_meta_def)
  ultimately show ?thesis
    using delegates_complete[OF e ad[symmetric]] e by (auto simp: demo_delegates_def dest: list_all2_lengthD)
qed

theorem delete_task_removes_witness:
  "delete_task ''/d'' ''..'' idle (\<lambda>_. True) = (True, \<lambda>p. p \<noteq> ''/d'' \<and> \<not> has_prefix p (''/d'' @ ''/''))"
proof -
  have "is_abs ''/d''" "clean ''/d'' = ''/d''" by code_simp+
  from delete_task_removes[OF this, of "''x''" idle "\<lambda>_. True"] show ?thesis by (simp add: idle_def)
qed

end
