(* ===== verification/Comms_Properties.thy ===== *)
theory Comms_Properties
  imports Comms_Turn Memory_Store
begin

text \<open>
  What holds of a message on its way through the pipeline: which tier answers it, what is recorded of
  the exchange, and how often providers are called. The records rest on the contract \<open>conv_log\<close> of
  the memory through its interpretation \<open>in_mem_log\<close>.
\<close>

section \<open>Records\<close>

text \<open>The messages of a conversation, as the store lists them.\<close>

definition recorded :: "pipe_state \<Rightarrow> string \<Rightarrow> message list" where
  "recorded s c =
     (case ps_mem s of
        None \<Rightarrow> []
      | Some mem \<Rightarrow> (case list_messages None c no_opts mem of Inl _ \<Rightarrow> [] | Inr ms \<Rightarrow> ms))"

lemma recorded_cong: "ps_mem s = ps_mem t \<Longrightarrow> recorded s c = recorded t c"
  by (simp add: recorded_def)

lemma emit_event_sel [simp]:
  "ps_mem (emit_event t d s) = ps_mem s" "ps_sessions (emit_event t d s) = ps_sessions s"
  "ps_events (emit_event t d s) = ps_events s @ [(t, d)]"
  by (simp_all add: emit_event_def)

lemma append_or_log:
  assumes "ps_mem s \<noteq> None" "c \<noteq> []"
  shows "\<exists>m'. fst (append_or None e c msg mid s) = m_id m' \<and>
    recorded (snd (append_or None e c msg mid s)) c = recorded s c @ [m'] \<and>
    m_role m' = m_role msg \<and> m_content m' = m_content msg \<and> m_blocks m' = m_blocks msg \<and> m_tier m' = m_tier msg \<and>
    ps_mem (snd (append_or None e c msg mid s)) \<noteq> None \<and>
    ps_sessions (snd (append_or None e c msg mid s)) = ps_sessions s"
proof -
  obtain mem where mem: "ps_mem s = Some mem" using assms(1) by blast
  obtain m' mem' where a: "append_message None c msg (ce_ms e) (ce_ms e) mem = Ok (m', mem')"
    using append_message_total[OF assms(2)] by blast
  note ok = append_message_ok[OF a]
  have "list_messages None c no_opts mem' = Ok (msgs_of mem c @ [m'])"
    using assms(2) ok(2) by (simp add: list_messages_all)
  moreover have "m_id m' \<noteq> []" by (simp add: ok(3) msg_name_def)
  moreover have "m_tier m' = m_tier msg" by (subst ok(5)) (simp add: stored_def)
  ultimately show ?thesis
    using mem a assms(2) in_mem_log.append_body[OF a]
    by (intro exI[of _ m']) (simp add: append_or_def recorded_def list_messages_all)
qed

lemma ensure_conv_log:
  assumes "ensure_conv None c t ch now mem = Ok mem'"
  shows "msgs_of mem' = msgs_of mem"
  using assms by (auto simp: ensure_conv_def split: if_splits)

section \<open>Sessions are not changed before the route\<close>

lemma append_or_sessions [simp]: "ps_sessions (snd (append_or ctx e c msg mid s)) = ps_sessions s"
  by (simp add: append_or_def split: option.split sum.split prod.split)

lemma resolve_conv_sessions [simp]: "ps_sessions (snd (resolve_conv ctx e m s)) = ps_sessions s"
  by (simp add: resolve_conv_def Let_def split: option.split sum.split go_any.split)

lemma persist_user_sessions [simp]: "ps_sessions (snd (persist_user ctx e m c mid s)) = ps_sessions s"
  by (simp add: persist_user_def Let_def split: option.split sum.split)

abbreviation msg_key :: "chat_engine \<Rightarrow> in_msg \<Rightarrow> int" where
  "msg_key e m \<equiv> session_key (ce_parse_int e) (in_channel m)"

text \<open>The route of a message that is not answered directly, from its forced tier.\<close>

lemma routed_shape:
  assumes "process_front ctx ctx1 e m s = (Routed r m' uid, s')"
  shows "\<exists>r3 r4. skill_route e (msg_key e m) (ps_sessions s') r3 = Some r4 \<and>
    r = valid_route (ce_tiers e) (fst (forced_tier e m (msg_key e m) (ps_sessions s))) (onboarding_route e r4) \<and>
    \<not> direct (onboarding_route e r4) \<and>
    (fst (forced_tier e m (msg_key e m) (ps_sessions s)) \<noteq> [] \<longrightarrow>
       r3 = to_tier (fst (forced_tier e m (msg_key e m) (ps_sessions s))) ''force_command'')"
proof -
  let ?key = "msg_key e m"
  obtain conv s1 where c: "resolve_conv ctx e m s = (conv, s1)" by (cases "resolve_conv ctx e m s")
  obtain u s2 where u: "persist_user ctx e m conv (if in_preinserted m \<noteq> [] then in_preinserted m else ce_new_user e) s1 = (u, s2)"
    by (metis surj_pair)
  have ss: "ps_sessions s2 = ps_sessions s"
    using resolve_conv_sessions[of ctx e m s] persist_user_sessions[of ctx e m conv _ s1] c u by (metis snd_conv)
  obtain f ss3 where f: "forced_tier e m ?key (ps_sessions s) = (f, ss3)" by (metis surj_pair)
  obtain lt mc where lm: "chat_context ?key (ce_now e) ss3 = (lt, mc)" by (metis surj_pair)
  let ?cl = "\<lambda>t. ce_classify e t lt mc (recent_context ctx s2)"
  let ?r2 = "reply_route ?cl (ce_tiers e) m f (initial_route ?cl (ce_tiers e) m f)"
  let ?r3 = "recall_route (ce_recall e) (ce_tiers e) ?r2"
  obtain m1 ss4 where sc: "skill_command e ?key m ss3 = (m1, ss4)" by (metis surj_pair)
  from assms obtain ss5 r4 where st: "skill_triggers e ?key m1 ss4 = Some ss5" "skill_route e ?key ss5 ?r3 = Some r4"
    and nd: "\<not> direct (onboarding_route e r4)" and r: "r = valid_route (ce_tiers e) f (onboarding_route e r4)"
    and s': "ps_sessions s' = ss5"
    by (auto simp: process_front_def Let_def c u ss f lm sc split: option.splits if_splits prod.splits)
  have "f \<noteq> [] \<longrightarrow> ?r3 = to_tier f ''force_command''"
    by (simp add: initial_route_def reply_route_def recall_route_def direct_def to_tier_def Let_def)
  with st(2) nd r s' f show ?thesis by (intro exI[of _ ?r3] exI[of _ r4]) simp
qed

text \<open>C31. A message with no forced tier is never routed to a tier that is disabled or not routable: the
  routed tier is one the catalog allows, or the configured fallback (which the code does not check),
  or none, when the model of the default fallback answers.\<close>

theorem unforced_route_valid:
  assumes "process_front ctx ctx1 e m s = (Routed r m' uid, s')"
    and "in_forced_tier m = []" and "fst (get_forced_tier (msg_key e m) (ce_now e) (ps_sessions s)) = []"
  shows "rr_tier r = [] \<or> is_tier_valid (rr_tier r) (ce_tiers e) \<or> rr_tier r = first_fallback_tier (ce_tiers e)"
proof -
  have "fst (forced_tier e m (msg_key e m) (ps_sessions s)) = []"
    using assms(2,3)
    by (cases "get_forced_tier (msg_key e m) (ce_now e) (ps_sessions s)") (simp add: forced_tier_def)
  with routed_shape[OF assms(1)] show ?thesis by (auto simp: valid_route_def to_tier_def)
qed

text \<open>A forced tier of the catalog answers the message, whatever the router, the recall and the reply
  say, with two exceptions: during onboarding the onboarding tier answers, and an active skill that
  asks for a tier of higher priority replaces it, even by a tier that is disabled, because the final
  check is skipped for forced messages.\<close>

theorem forced_route_exact:
  assumes "process_front ctx ctx1 e m s = (Routed r m' uid, s')"
    and "fst (forced_tier e m (msg_key e m) (ps_sessions s)) = f" and "f \<noteq> []"
  shows "rr_tier r =
    (if ce_onboarding e \<noteq> [] then onboarding_tier (ce_tiers e)
     else case ce_skills e of
       None \<Rightarrow> f
     | Some (order, store) \<Rightarrow>
         let t = resolve_min_tier store (get_skills (msg_key e m) (ce_now e) (ps_sessions s')) in
         if t \<noteq> [] \<and> t \<noteq> f \<and> 0 \<le> last_priority (ce_tiers e) t \<and>
            last_priority (ce_tiers e) f < last_priority (ce_tiers e) t then t else f)"
proof -
  obtain r4 where r4: "skill_route e (msg_key e m) (ps_sessions s') (to_tier f ''force_command'') = Some r4"
    and r: "r = onboarding_route e r4"
    using routed_shape[OF assms(1)] assms(2,3) by (auto simp: valid_route_def)
  have min_Nil: "resolve_min_tier store [] = []" for store by simp
  have "rr_tier r4 = (case ce_skills e of
       None \<Rightarrow> f
     | Some (order, store) \<Rightarrow>
         let t = resolve_min_tier store (get_skills (msg_key e m) (ce_now e) (ps_sessions s')) in
         if t \<noteq> [] \<and> t \<noteq> f \<and> 0 \<le> last_priority (ce_tiers e) t \<and>
            last_priority (ce_tiers e) f < last_priority (ce_tiers e) t then t else f)"
    using r4 assms(3) min_Nil
    by (auto simp: skill_route_def skill_tier_override_def direct_def to_tier_def Let_def
             split: option.splits prod.splits if_splits)
  then show ?thesis by (simp add: r onboarding_route_def to_tier_def)
qed

text \<open>Concrete engines: two tiers, of which the second is disabled, and a skill that asks for it.\<close>

definition demo_tier :: "string \<Rightarrow> int \<Rightarrow> bool \<Rightarrow> tier_info" where
  "demo_tier name pri enabled =
     \<lparr>ti_name = name, ti_model = name, ti_priority = pri, ti_enabled = enabled, ti_routable = True,
      ti_force_command = False, ti_tools = [], ti_write_capable = False, ti_effort = [], ti_max_turns = 0,
      ti_orchestrator_max_turns = 0, ti_max_iterations = 0, ti_timeout_min = 0, ti_backend = [],
      ti_system_prompt = [], ti_router_label = [], ti_context_weight = [], ti_fallback = [], ti_role = []\<rparr>"

definition demo_skill :: skill where
  "demo_skill = \<lparr>sk_name = ''plan'', sk_description = [], sk_version = [], sk_triggers = [''plan''],
     sk_tier = ''deep'', sk_prompt = [], sk_dir = []\<rparr>"

definition demo_engine :: chat_engine where
  "demo_engine =
     \<lparr>ce_tiers = \<lparr>ts_tiers = [demo_tier ''fast'' 1 True, demo_tier ''deep'' 2 False], ts_default_fallback = []\<rparr>,
      ce_registries = \<lparr>tr_wildcard = [], tr_native = None, tr_backends = None\<rparr>, ce_resolve_model = None,
      ce_classify = (\<lambda>_ _ _ _. to_tier ''fast'' ''router''),
      ce_skills = Some ([''plan''], \<lparr>ks_dirs = [], ks_current = [''plan'' \<mapsto> demo_skill]\<rparr>),
      ce_recall = ([], False), ce_onboarding = [], ce_teams = None, ce_parse_int = (\<lambda>_. None), ce_now = 0, ce_ms = 0,
      ce_new_conv = ''n'', ce_new_user = ''u'', ce_new_answer = ''a''\<rparr>"

definition demo_msg :: "string \<Rightarrow> string \<Rightarrow> in_msg" where
  "demo_msg text forced =
     \<lparr>in_channel = ''cc:1'', in_text = text, in_raw = [], in_router_text = [], in_reply_to = [], in_is_reply = False,
      in_media = [], in_forced_tier = forced, in_env = [], in_conv = ''c1'', in_source = ''cc'', in_reply_msg = [],
      in_preinserted = []\<rparr>"

definition demo_state :: pipe_state where
  "demo_state = \<lparr>ps_mem = None,
     ps_sessions = \<lparr>ch_timeout = 0, ch_entries = Map.empty, ch_disk = None, ch_disk_ok = False, ch_order = (\<lambda>_. [])\<rparr>,
     ps_events = []\<rparr>"

lemma demo_forced:
  "fst (process_front None None demo_engine (demo_msg ''plan it'' ''fast'') demo_state) =
     Routed (to_tier ''deep'' (''skill-tier: fast'' @ arrow @ ''deep'')) (demo_msg ''plan it'' ''fast'') ''u''"
  by code_simp

theorem forced_route_exact_witness:
  "let s' = snd (process_front None None demo_engine (demo_msg ''plan it'' ''fast'') demo_state);
       t = resolve_min_tier (snd (the (ce_skills demo_engine)))
             (get_skills (msg_key demo_engine (demo_msg ''plan it'' ''fast'')) 0 (ps_sessions s'))
   in ''deep'' = (if t \<noteq> [] \<and> t \<noteq> ''fast'' \<and> 0 \<le> last_priority (ce_tiers demo_engine) t \<and>
         last_priority (ce_tiers demo_engine) ''fast'' < last_priority (ce_tiers demo_engine) t then t else ''fast'') \<and>
      \<not> is_tier_valid ''deep'' (ce_tiers demo_engine)"
proof -
  have run: "process_front None None demo_engine (demo_msg ''plan it'' ''fast'') demo_state =
      (Routed (to_tier ''deep'' (''skill-tier: fast'' @ arrow @ ''deep'')) (demo_msg ''plan it'' ''fast'') ''u'',
       snd (process_front None None demo_engine (demo_msg ''plan it'' ''fast'') demo_state))"
    by (simp add: prod_eq_iff demo_forced)
  have forced: "fst (forced_tier demo_engine (demo_msg ''plan it'' ''fast'')
      (msg_key demo_engine (demo_msg ''plan it'' ''fast'')) (ps_sessions demo_state)) = ''fast''"
    by code_simp
  have "\<not> is_tier_valid ''deep'' (ce_tiers demo_engine)" by code_simp
  with forced_route_exact[OF run forced] show ?thesis
    by (simp add: Let_def to_tier_def demo_engine_def)
qed

lemma demo_unforced:
  "fst (process_front None None demo_engine (demo_msg ''hello'' []) demo_state) =
     Routed (to_tier ''fast'' ''router'') (demo_msg ''hello'' []) ''u''"
  by code_simp

theorem unforced_route_valid_witness:
  "rr_tier (to_tier ''fast'' ''router'') = [] \<or> is_tier_valid (rr_tier (to_tier ''fast'' ''router'')) (ce_tiers demo_engine) \<or>
   rr_tier (to_tier ''fast'' ''router'') = first_fallback_tier (ce_tiers demo_engine)"
proof (rule unforced_route_valid)
  show "process_front None None demo_engine (demo_msg ''hello'' []) demo_state =
      (Routed (to_tier ''fast'' ''router'') (demo_msg ''hello'' []) ''u'',
       snd (process_front None None demo_engine (demo_msg ''hello'' []) demo_state))"
    by (simp add: prod_eq_iff demo_unforced)
  show "in_forced_tier (demo_msg ''hello'' []) = []" by (simp add: demo_msg_def)
  show "fst (get_forced_tier (msg_key demo_engine (demo_msg ''hello'' [])) (ce_now demo_engine) (ps_sessions demo_state)) = []"
    by (simp add: get_forced_tier_def demo_state_def)
qed

section \<open>What is recorded of an exchange\<close>

lemma persist_user_log:
  assumes "ps_mem s \<noteq> None" "c \<noteq> []" "in_preinserted m = []"
  shows "\<exists>u. fst (persist_user None e m c mid s) = m_id u \<and>
    recorded (snd (persist_user None e m c mid s)) c = recorded s c @ [u] \<and>
    m_role u = ''user'' \<and> m_content u = display_text m \<and> ps_mem (snd (persist_user None e m c mid s)) \<noteq> None"
proof -
  obtain mem where mem: "ps_mem s = Some mem" using assms(1) by blast
  let ?msg = "empty_message\<lparr>m_role := ''user'', m_channel := conv_channel (in_channel m),
      m_content := display_text m, m_blocks := text_only (display_text m), m_reply_to := in_reply_msg m\<rparr>"
  obtain mem' where en: "ensure_conv None c [] (in_source m) (ce_ms e) mem = Ok mem'"
    using assms(2) by (cases "im_convs mem c") (simp_all add: ensure_conv_def)
  let ?s1 = "s\<lparr>ps_mem := Some mem'\<rparr>"
  have "recorded ?s1 c = recorded s c"
    using ensure_conv_log[OF en] assms(2) by (simp add: recorded_def mem list_messages_all)
  moreover have "persist_user None e m c mid s = append_or None e c ?msg mid ?s1"
    using mem assms(2,3) en by (simp add: persist_user_def)
  ultimately show ?thesis using append_or_log[of ?s1 c e ?msg mid] assms(2) by auto
qed

lemma answer_direct_log:
  assumes "ps_mem s \<noteq> None" "c \<noteq> []" "answer_direct None e key m c r s = (mid, s')"
  shows "\<exists>a. recorded s' c = recorded s c @ [a] \<and> m_id a = mid \<and> m_role a = ''assistant'' \<and>
    m_content a = rr_response r \<and> m_tier a = ''router''"
proof -
  let ?s1 = "s\<lparr>ps_sessions := touch_context key ''router'' (ce_now e) (ps_sessions s)\<rparr>"
  let ?msg = "empty_message\<lparr>m_role := ''assistant'', m_channel := conv_channel (in_channel m), m_content := rr_response r,
      m_blocks := text_only (rr_response r), m_model := ''router'', m_tier := ''router''\<rparr>"
  obtain s2 where ap: "append_or None e c ?msg (ce_new_answer e) ?s1 = (mid, s2)" "ps_mem s' = ps_mem s2"
    using assms(2,3) by (auto simp: answer_direct_def Let_def split: prod.splits if_splits)
  have "recorded ?s1 c = recorded s c" by (rule recorded_cong) simp
  with append_or_log[of ?s1 c e ?msg "ce_new_answer e"] assms(1,2) ap recorded_cong[OF ap(2)]
  show ?thesis by auto
qed

text \<open>Every answer of the router itself is recorded: when \<open>Process\<close> answers a message without a tier,
  its conversation ends with exactly the user's text and that answer, under the two ids that are
  returned.\<close>

theorem direct_answer_recorded:
  assumes "process_front None ctx1 e m s = (Answered r uid mid, s')"
    and "ps_mem s \<noteq> None" and "in_conv m \<noteq> []" and "in_preinserted m = []"
  shows "\<exists>u a. recorded s' (in_conv m) = recorded s (in_conv m) @ [u, a] \<and>
    m_role u = ''user'' \<and> m_content u = display_text m \<and> m_id u = uid \<and>
    m_role a = ''assistant'' \<and> m_content a = rr_response r \<and> m_id a = mid \<and> m_tier a = ''router''"
proof -
  let ?c = "in_conv m"
  have c: "resolve_conv None e m s = (?c, s)" using assms(3) by (simp add: resolve_conv_def)
  obtain u s2 where u: "persist_user None e m ?c (ce_new_user e) s = (u, s2)" by (metis surj_pair)
  from assms(1) obtain key m1 ss where ad: "answer_direct None e key m1 ?c r (s2\<lparr>ps_sessions := ss\<rparr>) = (mid, s')"
    and uid: "uid = u"
    by (auto simp: process_front_def Let_def c u assms(4) split: option.splits if_splits prod.splits)
  from persist_user_log[OF assms(2,3,4), of e "ce_new_user e"] u obtain um where
    um: "u = m_id um" "recorded s2 ?c = recorded s ?c @ [um]" "m_role um = ''user''" "m_content um = display_text m"
    "ps_mem s2 \<noteq> None" by auto
  have "recorded (s2\<lparr>ps_sessions := ss\<rparr>) ?c = recorded s2 ?c" by (rule recorded_cong) simp
  with answer_direct_log[OF _ assms(3) ad] um uid show ?thesis by auto
qed

definition demo_direct :: chat_engine where
  "demo_direct = demo_engine\<lparr>ce_classify := (\<lambda>_ _ _ _. \<lparr>rr_tier = [], rr_response = ''Hi.'', rr_reason = [], rr_react = []\<rparr>)\<rparr>"

lemma demo_answered:
  "fst (process_front None None demo_direct (demo_msg ''hello'' []) (demo_state\<lparr>ps_mem := Some new_in_mem\<rparr>)) =
     Answered \<lparr>rr_tier = [], rr_response = ''Hi.'', rr_reason = [], rr_react = []\<rparr> ''m1'' ''m2''"
  by code_simp

theorem direct_answer_recorded_witness:
  "\<exists>u a. recorded (snd (process_front None None demo_direct (demo_msg ''hello'' []) (demo_state\<lparr>ps_mem := Some new_in_mem\<rparr>))) ''c1'' =
     [u, a] \<and> m_content u = ''hello'' \<and> m_content a = ''Hi.''"
proof -
  have run: "process_front None None demo_direct (demo_msg ''hello'' []) (demo_state\<lparr>ps_mem := Some new_in_mem\<rparr>) =
      (Answered \<lparr>rr_tier = [], rr_response = ''Hi.'', rr_reason = [], rr_react = []\<rparr> ''m1'' ''m2'',
       snd (process_front None None demo_direct (demo_msg ''hello'' []) (demo_state\<lparr>ps_mem := Some new_in_mem\<rparr>)))"
    by (simp add: prod_eq_iff demo_answered)
  have "recorded (demo_state\<lparr>ps_mem := Some new_in_mem\<rparr>) ''c1'' = []"
    by (simp add: recorded_def list_messages_all new_in_mem_def msgs_of_def)
  with direct_answer_recorded[OF run] show ?thesis by (auto simp: demo_msg_def display_text_def)
qed

section \<open>A turn with a provider\<close>

lemma progress_events_mem [simp]: "ps_mem (fold progress_event evs s) = ps_mem s"
  by (induction evs arbitrary: s) (simp_all add: progress_event_def)

lemma invoke_once_mem [simp]: "ps_mem (at_state (invoke_once te call s w)) = ps_mem s"
  by (simp add: invoke_once_def split: prod.split)

lemma call_primary_mem [simp]: "ps_mem (at_state (snd (call_primary ctx te key sid m tp call s w))) = ps_mem s"
  by (simp add: call_primary_def Let_def)

lemma fallback_loop_mem:
  "fallback_loop te call names r tp a = (r', tp', a') \<Longrightarrow> ps_mem (at_state a') = ps_mem (at_state a)"
  by (induction te call names r tp a rule: fallback_loop.induct)
     (auto simp: Let_def announce_fallback_def split: option.splits if_splits)

lemma call_with_fallbacks_mem:
  "call_with_fallbacks te call r tp a = (r', tp', a') \<Longrightarrow> ps_mem (at_state a') = ps_mem (at_state a)"
  by (auto simp: call_with_fallbacks_def fallback_loop_mem split: if_splits)

text \<open>The shape of a turn: the attempt that ends it and the state it leaves.\<close>

lemma standard_shape:
  assumes "process_standard ctx te m r tp uid s w = (res, s', w')"
  shows "\<exists>key call1 s1 a1 r' tp' a. call_with_fallbacks te call1 r tp a1 = (r', tp', a) \<and>
    (call1, a1) = call_primary ctx te key (fst (chat_get key (ce_now (te_chat te)) (ps_sessions s))) m tp
       (first_call ctx te key (fst (chat_get key (ce_now (te_chat te)) (ps_sessions s))) m tp s1) s1 w \<and>
    ps_mem (at_state a) = ps_mem s \<and> w' = at_world a \<and>
    (case at_result a of
       Inl err \<Rightarrow> res = Err (''provider: '' @ err) \<and> s' = turn_failed ctx te m err a
     | Inr tr \<Rightarrow> \<exists>out. res = Ok out \<and> turn_done ctx te key m uid r' tp' tr (at_acc a) (at_state a) = (out, s'))"
proof -
  let ?key = "msg_key (te_chat te) m"
  obtain sid ss1 where g: "chat_get ?key (ce_now (te_chat te)) (ps_sessions s) = (sid, ss1)" by (metis surj_pair)
  let ?s1 = "s\<lparr>ps_sessions := ss1\<rparr>"
  obtain call1 a1 where p: "call_primary ctx te ?key sid m tp (first_call ctx te ?key sid m tp ?s1) ?s1 w = (call1, a1)"
    by (metis surj_pair)
  obtain r' tp' a where f: "call_with_fallbacks te call1 r tp a1 = (r', tp', a)" by (metis prod_cases3)
  have "ps_mem (at_state a) = ps_mem s"
    using call_with_fallbacks_mem[OF f]
      call_primary_mem[of ctx te ?key sid m tp "first_call ctx te ?key sid m tp ?s1" ?s1 w] p by simp
  then show ?thesis
    using assms g p f
    by (intro exI[of _ ?key] exI[of _ call1] exI[of _ ?s1] exI[of _ a1] exI[of _ r'] exI[of _ tp'] exI[of _ a])
       (auto simp: process_standard_def Let_def split: sum.splits prod.splits)
qed

lemma append_system_log:
  assumes "ps_mem s \<noteq> None" "in_conv m \<noteq> []"
  shows "\<exists>n. recorded (append_system None e m t s) (in_conv m) = recorded s (in_conv m) @ [n] \<and>
    m_role n = ''system'' \<and> m_content n = t"
  using append_or_log[OF assms, of e "system_message m t" "[]"] assms(2)
  by (auto simp: append_system_def system_message_def)

lemma record_session_mem [simp]: "ps_mem (record_session te key m r tp tr s) = ps_mem s"
  by (simp add: record_session_def Let_def)

lemma size_warning_mem [simp]: "ps_mem (size_warning te key s) = ps_mem s"
  by (simp add: size_warning_def Let_def)

lemma turn_done_log:
  assumes "ps_mem s \<noteq> None" "in_conv m \<noteq> []" "turn_done None te key m uid r tp tr acc s = (out, s')"
  shows "\<exists>a n. recorded s' (in_conv m) = recorded s (in_conv m) @ [a] @ (if pr_turn_limit out then [n] else []) \<and>
    m_role a = ''assistant'' \<and> m_content a = pr_text out \<and> m_tier a = pr_tier out \<and> m_id a = pr_assistant_id out \<and>
    m_role n = ''system'' \<and> pr_tier out = rr_tier r"
proof -
  let ?e = "te_chat te"
  obtain sug shown where x: "extract_reaction (strip_tool_xml (tu_text tr)) = (sug, shown)" by (metis surj_pair)
  let ?msg = "assistant_message te m r tp tr (te_price te tr (tp_backend tp)) shown acc"
  obtain emoji s2 where sr: "send_reaction te sug (record_session te key m r tp tr s) = (emoji, s2)" by (metis surj_pair)
  obtain mid s3 where pa: "persist_answer None te m ?msg s2 = (mid, s3)" by (metis surj_pair)
  let ?s5 = "send_done te r tr (te_price te tr (tp_backend tp)) shown s3"
  obtain hit s6 where ln: "limit_notice None te m r tr shown ?s5 = (hit, s6)" by (metis surj_pair)
  have out: "pr_turn_limit out = hit" "pr_text out = shown" "pr_tier out = rr_tier r" "pr_assistant_id out = mid"
    and s': "ps_mem s' = ps_mem s6"
    using assms(3) by (auto simp: turn_done_def Let_def x sr pa ln)
  have ap: "append_or None ?e (in_conv m) ?msg (ce_new_answer ?e) s2 = (mid, s3)" "ps_mem s2 = ps_mem s"
    using pa sr assms(2) by (auto simp: persist_answer_def send_reaction_def split: if_splits)
  from append_or_log[of s2 "in_conv m" ?e ?msg "ce_new_answer ?e"] assms(1,2) ap obtain a where
    a: "recorded s3 (in_conv m) = recorded s (in_conv m) @ [a]" "m_id a = mid" "m_role a = ''assistant''"
       "m_content a = shown" "m_tier a = rr_tier r" "ps_mem s3 \<noteq> None"
    using recorded_cong[OF ap(2)] by (auto simp: assistant_message_def Let_def)
  obtain s5 where s5: "ps_mem s5 = ps_mem s3" "limit_notice None te m r tr shown s5 = (hit, s6)"
    using ln by (intro that[of ?s5]) (simp_all add: send_done_def)
  let ?t = "turn_limit_notice shown @ '' '' @ resume_hint"
  have "\<exists>n. recorded s6 (in_conv m) = recorded s3 (in_conv m) @ (if hit then [n] else []) \<and> m_role n = ''system''"
  proof (cases hit)
    case True
    then obtain d where "s6 = append_system None ?e m ?t (emit_event ''system'' d s5)"
      using s5(2) by (auto simp: limit_notice_def Let_def split: if_splits)
    then show ?thesis
      using True append_system_log[of "emit_event ''system'' d s5" m ?e ?t] assms(2) a(6) s5(1)
        recorded_cong[of "emit_event ''system'' d s5" s3 "in_conv m"] by auto
  next
    case False
    then have "s6 = s5" using s5(2) by (auto simp: limit_notice_def Let_def split: if_splits)
    then show ?thesis
      using False recorded_cong[OF s5(1), of "in_conv m"]
      by (intro exI[of _ "empty_message\<lparr>m_role := ''system''\<rparr>"]) simp
  qed
  with a out recorded_cong[OF s'] show ?thesis by auto
qed


definition demo_turn :: "nat turn_env" where
  "demo_turn =
     \<lparr>te_chat = demo_engine, te_collect = (\<lambda>_ _ _ _. [''core'']), te_time = ''10:00'', te_reaction = ''r'',
      te_registered = (\<lambda>_. True), te_api_provider = (\<lambda>_. False), te_schemas = None, te_instruction = (\<lambda>_. []),
      te_sock = [],
      te_invoke = (\<lambda>call n. (Inr \<lparr>tu_text = ''Hello'', tu_model = ''m'', tu_cost = 0, tu_session_id = ''s1''\<rparr>,
                            [pe ''text_delta'' ''Hello'' []], Suc n)),
      te_ctx_err = (\<lambda>_. NoErr), te_emoji = (\<lambda>x. x), te_price = (\<lambda>res _. tu_cost res), te_show_cost = (\<lambda>_. ''0''),
      te_duration = 1\<rparr>"

definition demo_params :: tier_params where
  "demo_params = fst (resolve_tier_params ''fast'' (ce_tiers demo_engine) (ce_registries demo_engine) None)"

definition demo_run :: "process_result res \<times> pipe_state \<times> nat" where
  "demo_run = process_standard None demo_turn (demo_msg ''hello'' []) (to_tier ''fast'' ''router'') demo_params ''u''
     (demo_state\<lparr>ps_mem := Some new_in_mem\<rparr>) 0"

lemma demo_run_ok: "map_option (\<lambda>out. (pr_text out, pr_tier out, pr_turn_limit out))
    (case fst demo_run of Inl _ \<Rightarrow> None | Inr out \<Rightarrow> Some out) = Some (''Hello'', ''fast'', False)"
  by code_simp

lemma demo_run_Inr: "\<exists>out s' w'. demo_run = (Inr out, s', w') \<and> pr_text out = ''Hello'' \<and> pr_tier out = ''fast'' \<and> \<not> pr_turn_limit out"
proof -
  obtain res s' w' where run: "demo_run = (res, s', w')" by (metis prod_cases3)
  show ?thesis using demo_run_ok unfolding run by (cases res) simp_all
qed


section \<open>How often providers are called\<close>

text \<open>A count of the calls that every invocation raises by one.\<close>

definition counts :: "'w turn_env \<Rightarrow> ('w \<Rightarrow> nat) \<Rightarrow> bool" where
  "counts te cnt \<longleftrightarrow> (\<forall>call w. cnt (snd (snd (te_invoke te call w))) = Suc (cnt w))"

lemma invoke_count: "counts te cnt \<Longrightarrow> cnt (at_world (invoke_once te call s w)) = Suc (cnt w)"
  by (simp add: invoke_once_def counts_def split: prod.split) (metis snd_conv)

lemma fallback_loop_count:
  "counts te cnt \<Longrightarrow> fallback_loop te call names r tp a = (r', tp', a') \<Longrightarrow>
   cnt (at_world a) \<le> cnt (at_world a') \<and> cnt (at_world a') \<le> cnt (at_world a) + length names"
  by (induction te call names r tp a rule: fallback_loop.induct)
     (fastforce simp: Let_def invoke_count split: option.splits if_splits)+

lemma fallback_loop_tier:
  "fallback_loop te call names r tp a = (r', tp', a') \<Longrightarrow>
   r' = r \<and> tp' = tp \<or> (rr_tier r' \<in> set names \<and> usable_fallback te (rr_tier r') = Some tp')"
  by (induction te call names r tp a rule: fallback_loop.induct)
     (auto simp: Let_def split: option.splits if_splits)

text \<open>C30. A message calls its provider at least once, at most twice (the second time without the session),
  and then each tier of the fallback chain at most once; an answer that does not come from the routed
  tier comes from an enabled tier of that chain whose API backend is registered.\<close>

theorem turn_calls_bounded:
  assumes "\<forall>call w. cnt (snd (snd (te_invoke te call w))) = Suc (cnt w)"
    and "process_standard ctx te m r tp uid s w = (res, s', w')"
  shows "cnt w < cnt w' \<and> cnt w' \<le> cnt w + 2 + length (resolve_fallback_chain (rr_tier r) (ce_tiers (te_chat te))) \<and>
    (case res of
       Inl _ \<Rightarrow> True
     | Inr out \<Rightarrow> pr_tier out = rr_tier r \<or>
         (\<exists>t \<in> set (ts_tiers (ce_tiers (te_chat te))). ti_name t = pr_tier out \<and> ti_enabled t \<and>
            pr_tier out \<in> set (resolve_fallback_chain (rr_tier r) (ce_tiers (te_chat te))) \<and>
            (let tp' = fst (resolve_tier_params (pr_tier out) (ce_tiers (te_chat te)) (ce_registries (te_chat te))
                         (ce_resolve_model (te_chat te)))
             in \<not> is_api tp' \<or> te_registered te (tp_backend tp'))))"
proof -
  have c: "counts te cnt" using assms(1) by (simp add: counts_def)
  obtain key call1 s1 a1 r' tp' a where fb: "call_with_fallbacks te call1 r tp a1 = (r', tp', a)"
    and pr: "\<exists>sid call. (call1, a1) = call_primary ctx te key sid m tp call s1 w" and w': "w' = at_world a"
    and res: "case at_result a of
       Inl err \<Rightarrow> res = Err (''provider: '' @ err) \<and> s' = turn_failed ctx te m err a
     | Inr tr \<Rightarrow> \<exists>out. res = Ok out \<and> turn_done ctx te key m uid r' tp' tr (at_acc a) (at_state a) = (out, s')"
    using standard_shape[OF assms(2)] by blast
  let ?chain = "resolve_fallback_chain (rr_tier r) (ce_tiers (te_chat te))"
  have first: "cnt w < cnt (at_world a1) \<and> cnt (at_world a1) \<le> cnt w + 2"
    using pr by (auto simp: call_primary_def Let_def invoke_count[OF c] split: if_splits)
  have loop: "fallback_loop te call1 ?chain r tp a1 = (r', tp', a) \<or> (r, tp, a1) = (r', tp', a)"
    using fb by (auto simp: call_with_fallbacks_def split: if_splits)
  have "cnt (at_world a1) \<le> cnt w' \<and> cnt w' \<le> cnt (at_world a1) + length ?chain"
    using loop fallback_loop_count[OF c, of call1 ?chain r tp a1 r' tp' a] by (auto simp: w')
  moreover have "r' = r \<and> tp' = tp \<or> rr_tier r' \<in> set ?chain \<and> usable_fallback te (rr_tier r') = Some tp'"
    using loop fallback_loop_tier[of te call1 ?chain r tp a1 r' tp' a] by blast
  moreover have "pr_tier out = rr_tier r'" if "res = Inr out" for out
    using res that by (auto simp: turn_done_def Let_def split: sum.splits prod.splits)
  ultimately show ?thesis
    using first
    by (fastforce simp: usable_fallback_def Let_def list_ex_iff split: sum.split prod.splits if_splits)
qed

theorem turn_calls_bounded_witness:
  "\<exists>res s' w'. demo_run = (res, s', w') \<and> 0 < w' \<and> w' \<le> 0 + 2 + length (resolve_fallback_chain ''fast'' (ce_tiers demo_engine))"
proof -
  obtain res s' w' where run: "demo_run = (res, s', w')" by (metis prod_cases3)
  have inc: "\<forall>call w. id (snd (snd (te_invoke demo_turn call w))) = Suc (id w)" by (simp add: demo_turn_def)
  have "id 0 < id w' \<and> id w' \<le> id 0 + 2 + length (resolve_fallback_chain (rr_tier (to_tier ''fast'' ''router''))
      (ce_tiers (te_chat demo_turn)))"
    using turn_calls_bounded[OF inc run[unfolded demo_run_def]] by blast
  with run show ?thesis by (auto simp: to_tier_def demo_turn_def)
qed

section \<open>Where the history goes\<close>

text \<open>The retry repeats the history: when the backend changed, the first call of a CLI tier already has
  the history as a system prompt; if it fails while a session is on record, the second call has it
  twice.\<close>

theorem retry_repeats_history:
  assumes "\<not> is_api tp" and "resume_id (te_chat te) key sid (ps_sessions s) tp = []"
    and "retries te sid tp (invoke_once te (first_call None te key sid m tp s) s w)"
  shows "\<exists>base. pc_system_prompts (first_call None te key sid m tp s) = base @ history_prompt tp (history None m s) \<and>
    pc_system_prompts (fst (call_primary None te key sid m tp (first_call None te key sid m tp s) s w)) =
      base @ history_prompt tp (history None m s) @ history_prompt tp (history None m s)"
proof -
  have h: "history None m (t\<lparr>ps_sessions := x\<rparr>) = history None m s" if "ps_mem t = ps_mem s" for t x
    using that by (simp add: history_def)
  have "\<exists>base. pc_system_prompts (first_call None te key sid m tp s) = base @ history_prompt tp (history None m s)"
    using assms(1,2) by (simp add: first_call_def Let_def)
  then obtain base where base: "pc_system_prompts (first_call None te key sid m tp s) = base @ history_prompt tp (history None m s)"
    by blast
  have "pc_system_prompts (fst (call_primary None te key sid m tp (first_call None te key sid m tp s) s w)) =
      base @ history_prompt tp (history None m s) @ history_prompt tp (history None m s)"
    using assms(3) base by (simp add: call_primary_def Let_def fresh_call_def h[OF invoke_once_mem])
  with base show ?thesis by blast
qed

text \<open>A fallback from an API tier to a CLI tier loses the conversation: the fallback call resumes no
  session, and the history is in the list of messages, which only API providers read, not in a system
  prompt; media are dropped as well.\<close>

theorem fallback_loses_history:
  assumes "is_api tp"
  shows "let c = fallback_call te (first_call ctx te key sid m tp s) tp' in
    pc_resume c = [] \<and> pc_media c = [] \<and> pc_conv_messages c = history_messages (history ctx m s) \<and>
    pc_system_prompts c = (case tool_loop te tp of None \<Rightarrow> [] | Some (names, _) \<Rightarrow> [te_instruction te names]) @
      stable_prompts te m tp @ dynamic_prompts te key (ps_sessions s) m tp"
  using assms by (simp add: fallback_call_def first_call_def Let_def)

end
