(* ===== verification/Comms_Agents.thy ===== *)
theory Comms_Agents
  imports Orchestrator_Runs Comms_Properties
begin

text \<open>
  \<open>processAgent\<close> of \<open>internal/comms/pipeline.go\<close>: a message that is routed to the orchestrator's tier runs the
  orchestrator of \<open>Orchestrator\<close> over the conversation of \<open>Memory_Model\<close>, and its answer is recorded
  and sent. The events that mirror the progress of the run, traces and the event log are left out.
\<close>

section \<open>processAgent\<close>

definition agent_context :: "string option \<Rightarrow> in_msg \<Rightarrow> pipe_state \<Rightarrow> string" where
  "agent_context ctx m s =
     (case ps_mem s of
        None \<Rightarrow> []
      | Some mem \<Rightarrow>
          if in_conv m = [] then []
          else (case list_messages ctx (in_conv m) (no_opts\<lparr>lo_summary := True\<rparr>) mem of
                  Inl _ \<Rightarrow> []
                | Inr ms \<Rightarrow> if ms = [] then [] else build_router_context ms 5))"

definition agent_inputs :: "chat_engine \<Rightarrow> 'w orch_env \<Rightarrow> tier_params \<Rightarrow> string \<Rightarrow> in_msg \<Rightarrow> orchestration_inputs" where
  "agent_inputs e env tp conv m =
     \<lparr>oi_user_message = in_text m, oi_data_dir = oe_data_dir env, oi_source = channel_prefix (in_channel m),
      oi_model = tp_model tp, oi_backend = tp_backend tp, oi_effort = tp_effort tp, oi_max_turns = tp_max_turns tp,
      oi_orchestrator_max_turns = tp_orchestrator_max_turns tp, oi_max_iterations = tp_max_iterations tp,
      oi_timeout_min = tp_timeout_min tp, oi_recall_block = fst (ce_recall e), oi_skills = ce_skills e,
      oi_conversation_context = conv, oi_team = [], oi_need_validation = False\<rparr>"

definition agent_message :: "in_msg \<Rightarrow> tier_params \<Rightarrow> string \<Rightarrow> 64 word \<Rightarrow> int \<Rightarrow> message" where
  "agent_message m tp t cost ms =
     empty_message\<lparr>m_role := ''assistant'', m_channel := conv_channel (in_channel m), m_content := t,
       m_blocks := text_only t, m_model := ''agent'', m_tier := ''agent'', m_backend := tp_backend tp,
       m_cost := cost, m_duration := ms\<rparr>"

definition agent_result_of :: "string \<Rightarrow> 64 word \<Rightarrow> int \<Rightarrow> string \<Rightarrow> string \<Rightarrow> process_result" where
  "agent_result_of t cost ms uid mid =
     \<lparr>pr_text = t, pr_model = ''agent'', pr_tier = ''agent'', pr_reason = [], pr_cost = cost, pr_session_id = [],
      pr_reaction = [], pr_skills = [], pr_blocks = [], pr_duration = ms, pr_user_id = uid, pr_assistant_id = mid,
      pr_turn_limit = False, pr_is_agent = True\<rparr>"

text \<open>\<open>None\<close> is a panic: of the trigger matcher, or of the metadata that is missing with an answer, which
  never happens. \<open>ws\<close> lists the workspace, \<open>ctxs\<close> are the agents' context files.\<close>

definition process_agent ::
  "string option \<Rightarrow> 'v turn_env \<Rightarrow> 'w orch_env \<Rightarrow> (string \<Rightarrow> string) \<Rightarrow> string list \<Rightarrow> in_msg \<Rightarrow> tier_params \<Rightarrow> string \<Rightarrow>
   pipe_state \<Rightarrow> orchestrator \<Rightarrow> 'w \<Rightarrow> (process_result res \<times> pipe_state \<times> orchestrator \<times> 'w) option" where
  "process_agent ctx te env ws ctxs m tp uid s oc w =
     (let e = te_chat te in
      case prepare_orchestration ws ctxs (agent_inputs e env tp (agent_context ctx m s) m) of
        None \<Rightarrow> None
      | Some (prompts, rc) \<Rightarrow>
          (case orchestrate env (in_text m) prompts rc oc w of
             (Inl err, _, oc', w') \<Rightarrow>
               Some (Err (''agent: '' @ err), emit_event ''error'' [(''text'', err)] s, oc', w')
           | (Inr t, None, oc', w') \<Rightarrow> None
           | (Inr t, Some meta, oc', w') \<Rightarrow>
               let cost = tk_cost meta; ms = te_duration te;
                   (mid, s1) = (if in_conv m = [] then (ce_new_answer e, s)
                     else append_or ctx e (in_conv m) (agent_message m tp t cost ms) (ce_new_answer e) s);
                   s2 = emit_event ''done'' [(''model'', ''agent''), (''tier'', ''agent''), (''cost'', te_show_cost te cost),
                                             (''task_id'', tk_id meta)]
                          (emit_event ''text'' [(''text'', t)] s1)
               in Some (Ok (agent_result_of t cost ms uid mid), s2, oc', w')))"

section \<open>The answer and the task\<close>

text \<open>C40. A message for the agents is answered by a completed task: when \<open>processAgent\<close> answers, the task named
  in its last event is on disk as completed with exactly the answer that is returned, it runs no
  more, and the conversation ends with that answer under the returned id; when it fails, the
  conversation is as it was.\<close>

theorem agent_answer_recorded:
  assumes "process_agent None te env ws ctxs m tp uid s oc w = Some (res, s', oc', w')"
    and "ps_mem s \<noteq> None" and "in_conv m \<noteq> []"
  shows "case res of
      Inl err \<Rightarrow> recorded s' (in_conv m) = recorded s (in_conv m) \<and> ps_events s' \<noteq> ps_events s
    | Inr out \<Rightarrow>
        \<exists>a t. recorded s' (in_conv m) = recorded s (in_conv m) @ [a] \<and> m_role a = ''assistant'' \<and>
          m_content a = pr_text out \<and> m_id a = pr_assistant_id out \<and> pr_text out \<noteq> [] \<and>
          oc_disk oc' (tk_id t) = Some t \<and> oc_running oc' (tk_id t) = None \<and>
          tk_status t = ''completed'' \<and> tk_response t = pr_text out \<and>
          (''task_id'', tk_id t) \<in> set (snd (last (ps_events s')))"
proof -
  let ?e = "te_chat te"
  obtain prompts rc where p: "prepare_orchestration ws ctxs (agent_inputs ?e env tp (agent_context None m s) m) = Some (prompts, rc)"
    using assms(1) by (auto simp: process_agent_def Let_def split: option.splits)
  obtain r mo oc1 w1 where o: "orchestrate env (in_text m) prompts rc oc w = (r, mo, oc1, w1)" by (metis prod_cases4)
  show ?thesis
  proof (cases r)
    case (Inl err)
    with assms(1) p o show ?thesis by (auto simp: process_agent_def Let_def recorded_def)
  next
    case (Inr t)
    with assms(1) p o obtain meta where mo: "mo = Some meta"
      by (cases mo) (auto simp: process_agent_def Let_def)
    let ?msg = "agent_message m tp t (tk_cost meta) (te_duration te)"
    obtain mid s1 where ap: "append_or None ?e (in_conv m) ?msg (ce_new_answer ?e) s = (mid, s1)" by (metis surj_pair)
    have set: "oc_disk oc1 (tk_id meta) = Some meta \<and> oc_running oc1 (tk_id meta) = None \<and>
        tk_status meta = ''completed'' \<and> tk_response meta = t \<and> t \<noteq> []"
      using settled[OF o[unfolded mo Inr]] by simp
    have out: "res = Inr (agent_result_of t (tk_cost meta) (te_duration te) uid mid)" "oc' = oc1"
      "s' = emit_event ''done'' [(''model'', ''agent''), (''tier'', ''agent''), (''cost'', te_show_cost te (tk_cost meta)),
              (''task_id'', tk_id meta)] (emit_event ''text'' [(''text'', t)] s1)"
      using assms(1,3) p o Inr mo ap by (auto simp: process_agent_def Let_def)
    have "recorded s' (in_conv m) = recorded s1 (in_conv m)" using out(3) by (intro recorded_cong) simp
    with append_or_log[OF assms(2,3), of ?e ?msg "ce_new_answer ?e"] ap set show ?thesis
      unfolding out(1) by (auto simp: out agent_result_of_def agent_message_def intro!: exI[of _ meta])
  qed
qed

definition demo_agent_run :: "(process_result res \<times> pipe_state \<times> orchestrator \<times> demo_world) option" where
  "demo_agent_run = process_agent None demo_turn demo_orch (\<lambda>_. []) [] (demo_msg ''hello'' []) (demo_params\<lparr>tp_model := ''m''\<rparr>)
     ''u'' (demo_state\<lparr>ps_mem := Some new_in_mem\<rparr>) idle ([''{\"response\":\"ok\"}''], [], 0)"

lemma demo_agent_ok:
  "map_option (\<lambda>(res, s, oc, w). case res of Inl _ \<Rightarrow> [] | Inr out \<Rightarrow> pr_text out) demo_agent_run = Some ''ok''"
  by code_simp

theorem agent_answer_recorded_witness:
  "\<exists>out s' oc' w' a t. demo_agent_run = Some (Inr out, s', oc', w') \<and> pr_text out = ''ok'' \<and>
     recorded s' ''c1'' = recorded (demo_state\<lparr>ps_mem := Some new_in_mem\<rparr>) ''c1'' @ [a] \<and> m_content a = ''ok'' \<and>
     oc_disk oc' (tk_id t) = Some t \<and> tk_status t = ''completed'' \<and> tk_response t = ''ok''"
proof -
  obtain res s' oc' w' where d: "demo_agent_run = Some (res, s', oc', w')"
    using demo_agent_ok by (cases demo_agent_run) auto
  obtain out where out: "res = Inr out" "pr_text out = ''ok''" using demo_agent_ok unfolding d by (cases res) auto
  have "in_conv (demo_msg ''hello'' []) = ''c1''" by (simp add: demo_msg_def)
  then have "\<exists>a t. recorded s' ''c1'' = recorded (demo_state\<lparr>ps_mem := Some new_in_mem\<rparr>) ''c1'' @ [a] \<and> m_content a = ''ok'' \<and>
      oc_disk oc' (tk_id t) = Some t \<and> tk_status t = ''completed'' \<and> tk_response t = ''ok''"
    using agent_answer_recorded[OF d[unfolded demo_agent_run_def]] unfolding out(1) by (simp add: out(2)) blast
  with d out show ?thesis by blast
qed

end
