(* ===== verification/Agents_Strategy.thy ===== *)
theory Agents_Strategy
  imports Orchestrator_Properties Runtime
begin

text \<open>
  \<open>internal/runtime/agents/strategy.go\<close>: the orchestrator as a strategy of the runtime, which ignores the
  engine it is given. The state of the orchestrator is part of the outside state; the caller's
  context stays open, so every event is delivered.
\<close>

record strategy_options =
  so_skill_lookup :: "(string \<Rightarrow> string option) option"
  so_memory_context :: "string list"
  so_source :: string

definition build_run_config :: "ai_request \<Rightarrow> strategy_options \<Rightarrow> run_config" where
  "build_run_config r opts =
     \<lparr>rn_model = ar_model r, rn_backend = ar_backend r, rn_effort = ar_effort r, rn_max_iterations = 0,
      rn_max_turns = ar_max_turns r, rn_orchestrator_max_turns = 0, rn_timeout_min = 0, rn_skill_prompts = [],
      rn_skill_lookup = so_skill_lookup opts, rn_memory_context = so_memory_context opts, rn_need_validation = False,
      rn_source = so_source opts, rn_team = [], rn_original_request = [], rn_conversation_context = []\<rparr>"

definition last_user_message :: "ai_message list \<Rightarrow> string" where
  "last_user_message ms = (case find (\<lambda>m. ai_role m = ''user'') (rev ms) of None \<Rightarrow> [] | Some m \<Rightarrow> ai_content m)"

definition strategy_usage :: "ai_request \<Rightarrow> task_meta \<Rightarrow> ai_usage" where
  "strategy_usage r m = \<lparr>us_cost = tk_cost m, us_model = ar_model r, us_num_turns = int (tk_iterations m), us_session_id = [],
     us_input_tokens = 0, us_output_tokens = 0\<rparr>"

definition orchestrator_strategy ::
  "'w orch_env \<Rightarrow> strategy_options \<Rightarrow> (orchestrator \<times> 'w) strategy" where
  "orchestrator_strategy env opts engine r ow =
     (let (oc, w) = ow; msg = last_user_message (ar_messages r) in
      if msg = [] then (Err ''agents.Strategy.Run: no user message in Request'', ow)
      else case orchestrate env msg (ar_system_prompts r) (build_run_config r opts) oc w of
        (Inl err, _, oc', w') \<Rightarrow> (Ok [AiError err], oc', w')
      | (Inr t, m, oc', w') \<Rightarrow>
          (Ok ((if t \<noteq> [] then [AiToken t] else []) @ [AiDone (map_option (strategy_usage r) m)]), oc', w'))"

text \<open>As a strategy the orchestrator gives one terminal event, as the last one: an error when the run
  fails, else the answer as one token and the end with the cost and the iterations of the task,
  which is then on disk as completed with that answer.\<close>

theorem strategy_terminal:
  assumes "orchestrator_strategy env opts engine r (oc, w) = (Inr evs, oc', w')" and "ar_model r \<noteq> []"
  shows "(\<exists>err. evs = [AiError err]) \<or>
    (\<exists>t m. evs = [AiToken t, AiDone (Some (strategy_usage r m))] \<and> t \<noteq> [] \<and> oc_disk oc' (tk_id m) = Some m \<and>
       tk_status m = ''completed'' \<and> tk_response m = t)"
proof -
  let ?msg = "last_user_message (ar_messages r)"
  let ?rc = "build_run_config r opts"
  obtain x mo oc1 w1 where o: "orchestrate env ?msg (ar_system_prompts r) ?rc oc w = (x, mo, oc1, w1)" by (metis prod_cases4)
  show ?thesis
  proof (cases x)
    case (Inl err)
    with assms(1) o show ?thesis by (auto simp: orchestrator_strategy_def Let_def split: if_splits)
  next
    case (Inr t)
    have "mo \<noteq> None" using o Inr assms(2)
      by (auto simp: orchestrate_def Let_def build_run_config_def split: if_splits prod.splits)
    then obtain m where mo: "mo = Some m" by blast
    from settled[OF o[unfolded mo Inr]] assms(1) o Inr mo show ?thesis
      by (auto simp: orchestrator_strategy_def Let_def split: if_splits)
  qed
qed

end
