(* ===== verification/Tooling_Registry.thy ===== *)
theory Tooling_Registry
  imports Json_Parse Go_Path Capability_Registry Integrity_Guard "HOL-Library.AList"
begin

text \<open>
  \<open>internal/tooling/registry.go\<close>, \<open>native.go\<close> and \<open>capability_adapter.go\<close>: the schemas of the tools, read from
  \<open>tools.d/*.json\<close> and \<open>tools/*.json\<close> or registered by native tools, the mirror of the native tools in
  the capability registry, the expansion of the wildcard, and the conversion of schemas to the
  format of OpenAI. A directory listing is an argument; a number of a JSON text is its literal, and
  whether it is in the range of \<open>float64\<close> and how it is printed are arguments. A Go map that is built
  here is an association list without duplicates; where the code ranges over it, the order is an
  argument.
\<close>

section \<open>Values of type any\<close>

datatype go_val = VNull | VBool bool | VNum string | VStr string | VList "go_val list" | VStrs "string list"
  | VMap "(string \<times> go_val) list"

fun val_of_json :: "json \<Rightarrow> go_val" where
  "val_of_json JNull = VNull"
| "val_of_json (JBool b) = VBool b"
| "val_of_json (JNum x) = VNum x"
| "val_of_json (JStr s) = VStr s"
| "val_of_json (JArr vs) = VList (map val_of_json vs)"
| "val_of_json (JObj ms) =
     VMap (fold (\<lambda>(k, v). AList.update k v) (map (\<lambda>(k, v). (k, val_of_json v)) ms) [])"

fun nums_in_range :: "(string \<Rightarrow> bool) \<Rightarrow> json \<Rightarrow> bool" where
  "nums_in_range ok (JNum x) = ok x"
| "nums_in_range ok (JArr vs) = list_all (nums_in_range ok) vs"
| "nums_in_range ok (JObj ms) = list_all (\<lambda>p. nums_in_range ok (snd p)) ms"
| "nums_in_range ok v = True"

text \<open>Decoding into a \<open>map[string]any\<close>: members are added to a map that is there.\<close>

definition dec_map ::
  "(string \<Rightarrow> bool) \<Rightarrow> json \<Rightarrow> (string \<times> go_val) list option \<Rightarrow> (string \<times> go_val) list option option" where
  "dec_map ok v old =
     (case v of
        JNull \<Rightarrow> Some None
      | JObj ms \<Rightarrow>
          if nums_in_range ok v
          then Some (Some (fold (\<lambda>(k, v). AList.update k v) (map (\<lambda>(k, v). (k, val_of_json v)) ms)
                            (case old of None \<Rightarrow> [] | Some m \<Rightarrow> m)))
          else None
      | _ \<Rightarrow> None)"

text \<open>\<open>json.Marshal\<close> of a value; the argument prints a number.\<close>

fun val_json :: "(string \<Rightarrow> string) \<Rightarrow> go_val \<Rightarrow> string" where
  "val_json num VNull = ''null''"
| "val_json num (VBool b) = (if b then ''true'' else ''false'')"
| "val_json num (VNum x) = num x"
| "val_json num (VStr s) = json_string s"
| "val_json num (VList vs) = ''['' @ str_join '','' (map (val_json num) vs) @ '']''"
| "val_json num (VStrs ss) = ''['' @ str_join '','' (map json_string ss) @ '']''"
| "val_json num (VMap kvs) =
     ''{'' @ str_join '','' (map (\<lambda>(k, v). json_string k @ '':'' @ v)
               (sort_key fst (map (\<lambda>(k, v). (k, val_json num v)) kvs))) @ ''}''"

section \<open>Schemas and native tools\<close>

record tool_schema =
  tsc_name :: string
  tsc_description :: string
  tsc_parameters :: "(string \<times> go_val) list option"

definition zero_schema :: tool_schema where
  "zero_schema = \<lparr>tsc_name = [], tsc_description = [], tsc_parameters = None\<rparr>"

definition schema_member :: "(string \<Rightarrow> bool) \<Rightarrow> string \<Rightarrow> json \<Rightarrow> tool_schema \<Rightarrow> tool_schema option" where
  "schema_member ok k v s =
     (if k = ''name'' then map_option (\<lambda>x. s\<lparr>tsc_name := x\<rparr>) (dec_string v (tsc_name s))
      else if k = ''description'' then map_option (\<lambda>x. s\<lparr>tsc_description := x\<rparr>) (dec_string v (tsc_description s))
      else if k = ''parameters'' then map_option (\<lambda>x. s\<lparr>tsc_parameters := x\<rparr>) (dec_map ok v (tsc_parameters s))
      else Some s)"

record 'w native_tool =
  nt_name :: string
  nt_schema :: tool_schema
  nt_run :: "string \<Rightarrow> 'w \<Rightarrow> string res \<times> 'w"

type_synonym 'w tool_capability = "(string \<times> go_val) list option \<Rightarrow> 'w \<Rightarrow> cap_output res \<times> 'w"

text \<open>The adapter: \<open>Execute\<close> prints its input as JSON for the tool and wraps the tool's text.\<close>

definition capability_execute :: "(string \<Rightarrow> string) \<Rightarrow> 'w native_tool \<Rightarrow> 'w tool_capability" where
  "capability_execute num t inp w =
     (case nt_run t (case inp of None \<Rightarrow> ''{}'' | Some kvs \<Rightarrow> val_json num (VMap kvs)) w of
        (Inl e, w') \<Rightarrow> (Err e, w')
      | (Inr out, w') \<Rightarrow> (Ok \<lparr>co_data = Some (AnyString out), co_error = []\<rparr>, w'))"

definition as_capability :: "(string \<Rightarrow> string) \<Rightarrow> 'w native_tool \<Rightarrow> 'w tool_capability capability" where
  "as_capability num t =
     \<lparr>cap_manifest = \<lparr>mf_id = nt_name t, mf_kind = KindTool, mf_name = tsc_name (nt_schema t), mf_version = [],
        mf_description = tsc_description (nt_schema t),
        mf_permissions = \<lparr>pm_file_paths = [], pm_networks = [], pm_secrets = []\<rparr>\<rparr>,
      cap_execute = capability_execute num t\<rparr>"

section \<open>The registry\<close>

record 'w tool_registry =
  tr_schemas :: "string \<rightharpoonup> tool_schema"
  tr_natives :: "string \<rightharpoonup> 'w native_tool"
  tr_native_names :: "string list"
  tr_warnings :: "security_warning list"
  tr_cap :: "'w tool_capability registry option"

definition empty_tool_registry :: "'w tool_registry" where
  "empty_tool_registry =
     \<lparr>tr_schemas = Map.empty, tr_natives = Map.empty, tr_native_names = [], tr_warnings = [], tr_cap = None\<rparr>"

text \<open>An entry of a directory; a file that cannot be read has no content.\<close>

record dir_entry =
  de_name :: string
  de_is_dir :: bool
  de_file :: "tool_file option"

definition is_schema_file :: "dir_entry \<Rightarrow> bool" where
  "is_schema_file e \<longleftrightarrow>
     \<not> (de_is_dir e \<or> \<not> has_suffix (de_name e) ''.json'' \<or> has_suffix (de_name e) ''.quarantined'')"

definition is_tool_file :: "dir_entry \<Rightarrow> bool" where
  "is_tool_file e \<longleftrightarrow>
     \<not> (de_is_dir e \<or> has_suffix (de_name e) ''.json'' \<or> has_suffix (de_name e) ''.quarantined'')"

definition load_schema :: "(string \<Rightarrow> bool) \<Rightarrow> dir_entry \<Rightarrow> tool_schema option" where
  "load_schema ok e =
     (case de_file e of
        None \<Rightarrow> None
      | Some f \<Rightarrow>
          (case parse_json (tf_data f) of
             None \<Rightarrow> None
           | Some v \<Rightarrow>
               map_option (\<lambda>s. if tsc_name s = []
                               then s\<lparr>tsc_name := take (length (de_name e) - 5) (de_name e)\<rparr> else s)
                 (dec_struct (schema_member ok) v zero_schema)))"

definition scan_entry ::
  "(string \<Rightarrow> bool) \<Rightarrow> bool \<Rightarrow> dir_entry \<Rightarrow> (string \<rightharpoonup> tool_schema) \<Rightarrow> (string \<rightharpoonup> tool_schema)" where
  "scan_entry ok user e m =
     (if \<not> is_schema_file e then m
      else case load_schema ok e of
             None \<Rightarrow> m
           | Some s \<Rightarrow> if user \<and> m (tsc_name s) \<noteq> None then m else m(tsc_name s \<mapsto> s))"

definition scan_dir ::
  "(string \<Rightarrow> bool) \<Rightarrow> bool \<Rightarrow> dir_entry list option \<Rightarrow> (string \<rightharpoonup> tool_schema) \<Rightarrow> (string \<rightharpoonup> tool_schema)" where
  "scan_dir ok user listing m = (case listing of None \<Rightarrow> m | Some es \<Rightarrow> fold (scan_entry ok user) es m)"

definition audit_entries :: "guard_conf \<Rightarrow> guard option \<Rightarrow> dir_entry list option \<Rightarrow> security_warning list" where
  "audit_entries c g listing =
     (case listing of
        None \<Rightarrow> []
      | Some es \<Rightarrow>
          concat (map (\<lambda>e. if \<not> is_tool_file e then []
                           else if (case g of None \<Rightarrow> False | Some s \<Rightarrow> is_quarantined (de_name e) s) then []
                           else audit_tool_source c (de_file e) (de_name e)) es))"

record tool_dirs =
  td_system :: "dir_entry list option"
  td_user :: "dir_entry list option"

definition scan_files ::
  "(string \<Rightarrow> bool) \<Rightarrow> guard_conf \<Rightarrow> guard option \<Rightarrow> bool \<Rightarrow> tool_dirs \<Rightarrow> 'w tool_registry \<Rightarrow> 'w tool_registry" where
  "scan_files ok c g initial d r =
     (let kept = (if initial then tr_schemas r
                  else (\<lambda>n. if n \<in> set (tr_native_names r) then tr_schemas r n else None))
      in r\<lparr>tr_schemas := scan_dir ok True (td_user d) (scan_dir ok False (td_system d) kept),
           tr_warnings := audit_entries c g (td_user d)\<rparr>)"

definition new_tool_registry :: "(string \<Rightarrow> bool) \<Rightarrow> guard_conf \<Rightarrow> tool_dirs \<Rightarrow> 'w tool_registry" where
  "new_tool_registry ok c d = scan_files ok c None True d empty_tool_registry"

definition rescan :: "(string \<Rightarrow> bool) \<Rightarrow> guard_conf \<Rightarrow> guard option \<Rightarrow> tool_dirs \<Rightarrow> 'w tool_registry \<Rightarrow> 'w tool_registry" where
  "rescan ok c g d r = scan_files ok c g False d r"

definition register_native :: "(string \<Rightarrow> string) \<Rightarrow> 'w native_tool \<Rightarrow> 'w tool_registry \<Rightarrow> 'w tool_registry" where
  "register_native num t r =
     r\<lparr>tr_schemas := (tr_schemas r)(nt_name t \<mapsto> nt_schema t),
       tr_natives := (tr_natives r)(nt_name t \<mapsto> t),
       tr_native_names := tr_native_names r @ [nt_name t],
       tr_cap := map_option (\<lambda>cr. snd (register (Some (as_capability num t)) cr)) (tr_cap r)\<rparr>"

definition back_fill ::
  "(string \<Rightarrow> string) \<Rightarrow> (string \<rightharpoonup> 'w native_tool) \<Rightarrow> string \<Rightarrow> 'w tool_capability registry \<Rightarrow> 'w tool_capability registry" where
  "back_fill num natives name cr =
     (case natives name of
        None \<Rightarrow> cr
      | Some t \<Rightarrow> if get_cap name cr \<noteq> None then cr else snd (register (Some (as_capability num t)) cr))"

definition set_capability_registry ::
  "(string \<Rightarrow> string) \<Rightarrow> 'w tool_capability registry option \<Rightarrow> 'w tool_registry \<Rightarrow> 'w tool_registry" where
  "set_capability_registry num cr r =
     (case cr of
        None \<Rightarrow> r\<lparr>tr_cap := None\<rparr>
      | Some c \<Rightarrow> r\<lparr>tr_cap := Some (fold (back_fill num (tr_natives r)) (tr_native_names r) c)\<rparr>)"

definition get_native :: "string \<Rightarrow> 'w tool_registry \<Rightarrow> 'w native_tool option" where
  "get_native name r = tr_natives r name"

definition get_schema :: "string \<Rightarrow> 'w tool_registry \<Rightarrow> tool_schema option" where
  "get_schema name r = tr_schemas r name"

definition fallback_schema :: "string \<Rightarrow> tool_schema" where
  "fallback_schema name =
     \<lparr>tsc_name = name, tsc_description = ''Run the '' @ name @ '' tool'',
      tsc_parameters = Some
        [(''type'', VStr ''object''),
         (''properties'', VMap [(''args'', VMap [(''type'', VStr ''string''), (''description'', VStr ''Command-line arguments'')])]),
         (''required'', VStrs [''args'']),
         (''additionalProperties'', VBool False)]\<rparr>"

definition for_tools :: "string list \<Rightarrow> 'w tool_registry \<Rightarrow> tool_schema list" where
  "for_tools names r = map (\<lambda>n. case tr_schemas r n of Some s \<Rightarrow> s | None \<Rightarrow> fallback_schema n) names"

definition for_tools_strict :: "string list \<Rightarrow> 'w tool_registry \<Rightarrow> tool_schema list" where
  "for_tools_strict names r = List.map_filter (tr_schemas r) names"

definition all_schemas :: "string list \<Rightarrow> 'w tool_registry \<Rightarrow> tool_schema list" where
  "all_schemas order r = List.map_filter (tr_schemas r) order"

definition user_tool_names :: "tool_dirs \<Rightarrow> string list" where
  "user_tool_names d = (case td_user d of None \<Rightarrow> [] | Some es \<Rightarrow> map de_name (filter is_tool_file es))"

section \<open>The wildcard\<close>

definition signal_tools :: "string list" where "signal_tools = [''react'', ''status'']"

definition seen_in :: "dir_entry list option \<Rightarrow> string \<Rightarrow> bool" where
  "seen_in listing n \<longleftrightarrow>
     (case listing of
        None \<Rightarrow> False
      | Some es \<Rightarrow> list_ex (\<lambda>e. is_tool_file e \<and> de_name e \<notin> set signal_tools \<and> de_name e = n) es)"

text \<open>The names the code collects in a map; the argument is the order in which the map is read.\<close>

definition discover_tool_names :: "string list \<Rightarrow> tool_dirs \<Rightarrow> string list" where
  "discover_tool_names order d = filter (\<lambda>n. seen_in (td_system d) n \<or> seen_in (td_user d) n) order"

definition add_unseen :: "string \<Rightarrow> string list \<Rightarrow> string list" where
  "add_unseen n ts = (if n \<in> set ts then ts else ts @ [n])"

definition resolve_wildcard :: "string list \<Rightarrow> tool_dirs \<Rightarrow> 'w tool_registry option \<Rightarrow> string list" where
  "resolve_wildcard order d r =
     (let tools = fold add_unseen (discover_tool_names order d) [];
          tools' = (case r of None \<Rightarrow> tools | Some r \<Rightarrow> fold add_unseen (tr_native_names r) tools)
      in sort tools')"

section \<open>OpenAI's format\<close>

definition tool_name_char :: "char \<Rightarrow> bool" where
  "tool_name_char c \<longleftrightarrow>
     (let n = of_char c :: nat in
      97 \<le> n \<and> n \<le> 122 \<or> 65 \<le> n \<and> n \<le> 90 \<or> 48 \<le> n \<and> n \<le> 57 \<or> c = CHR ''_'')"

text \<open>\<open>strings.Map\<close> works on code points: the bytes 80 to BF continue one.\<close>

definition sanitize_char :: "char \<Rightarrow> string" where
  "sanitize_char c =
     (let n = of_char c :: nat in
      if tool_name_char c then [c] else if 128 \<le> n \<and> n < 192 then [] else ''_'')"

definition sanitize_tool_name :: "string \<Rightarrow> string" where
  "sanitize_tool_name name = concat (map sanitize_char name)"

definition orig_required :: "(string \<times> go_val) list \<Rightarrow> string \<Rightarrow> bool" where
  "orig_required params n \<longleftrightarrow>
     (case map_of params ''required'' of
        Some (VList rs) \<Rightarrow> VStr n \<in> set rs
      | Some (VStrs ss) \<Rightarrow> n \<in> set ss
      | _ \<Rightarrow> False)"

definition nullable_prop :: "go_val \<Rightarrow> go_val" where
  "nullable_prop p =
     (case p of
        VMap kvs \<Rightarrow>
          (case map_of kvs ''type'' of
             Some (VStr t) \<Rightarrow>
               if t \<noteq> ''null'' then VMap (AList.update ''type'' (VList [VStr t, VStr ''null'']) kvs) else p
           | Some (VList ts) \<Rightarrow>
               if VStr ''null'' \<in> set ts then p else VMap (AList.update ''type'' (VList (ts @ [VStr ''null''])) kvs)
           | _ \<Rightarrow> p)
      | _ \<Rightarrow> p)"

definition patch_props :: "(string \<times> go_val) list \<Rightarrow> (string \<times> go_val) list \<Rightarrow> (string \<times> go_val) list" where
  "patch_props params props = map (\<lambda>(k, v). (k, if orig_required params k then v else nullable_prop v)) props"

text \<open>The result, and the original after the call: the copy is shallow, so the properties that are made
  nullable are those of the original.\<close>

definition enforce_strict_schema ::
  "string list \<Rightarrow> (string \<times> go_val) list \<Rightarrow> (string \<times> go_val) list \<times> (string \<times> go_val) list" where
  "enforce_strict_schema order params =
     (case map_of params ''properties'' of
        Some (VMap props) \<Rightarrow>
          let params' = AList.update ''properties'' (VMap (patch_props params props)) params;
              allRequired = filter (\<lambda>n. n \<in> fst ` set props) order
          in (AList.update ''additionalProperties'' (VBool False)
                (AList.update ''required'' (VStrs allRequired) params'), params')
      | _ \<Rightarrow>
          (AList.update ''additionalProperties'' (VBool False)
             (AList.update ''required'' (VStrs []) (AList.update ''properties'' (VMap []) params)), params))"

definition to_openai_one :: "bool \<Rightarrow> string list \<Rightarrow> tool_schema \<Rightarrow> go_val \<times> tool_schema" where
  "to_openai_one strict order s =
     (let params = (case tsc_parameters s of
                      None \<Rightarrow> [(''type'', VStr ''object''), (''properties'', VMap [])] | Some p \<Rightarrow> p);
          (out, params') = (if strict then enforce_strict_schema order params else (params, params))
      in (VMap [(''type'', VStr ''function''),
                (''function'', VMap ([(''name'', VStr (sanitize_tool_name (tsc_name s))),
                                      (''description'', VStr (tsc_description s)),
                                      (''parameters'', VMap out)] @
                                     (if strict then [(''strict'', VBool True)] else [])))],
          if tsc_parameters s = None then s else s\<lparr>tsc_parameters := Some params'\<rparr>))"

definition to_openai :: "bool \<Rightarrow> string list \<Rightarrow> tool_schema list \<Rightarrow> (go_val \<times> tool_schema) list" where
  "to_openai strict order ss = map (to_openai_one strict order) ss"

end
