(* ===== verification/Tooling_Files.thy ===== *)
theory Tooling_Files
  imports Tooling_Registry Sandbox_Policy
begin

text \<open>
  The native tools on files: \<open>native_read_file.go\<close>, \<open>native_write_file.go\<close> and \<open>native_remove.go\<close> of
  \<open>internal/tooling\<close>, over the boundary of \<open>Sandbox_Policy\<close>. The operations of the file system are
  arguments that read or change the world. An \<open>int\<close> has 64 bits: a sum that leaves the range wraps. A
  run that stops with a run-time panic is a result of its own.
\<close>

section \<open>Arguments and the file system\<close>

record 'w disk =
  dk_fs :: "'w \<Rightarrow> file_system"
  dk_stat :: "string \<Rightarrow> 'w \<Rightarrow> bool res"
  dk_lstat :: "string \<Rightarrow> 'w \<Rightarrow> fs_error + bool"
  dk_read :: "string \<Rightarrow> 'w \<Rightarrow> string res"
  dk_mkdir_all :: "string \<Rightarrow> 'w \<Rightarrow> string option \<times> 'w"
  dk_write :: "string \<Rightarrow> string \<Rightarrow> 'w \<Rightarrow> string option \<times> 'w"
  dk_remove :: "string \<Rightarrow> 'w \<Rightarrow> string option \<times> 'w"
  dk_remove_all :: "string \<Rightarrow> 'w \<Rightarrow> string option \<times> 'w"

datatype run_result = Returned "string res" | Panicked string

definition int64_wrap :: "int \<Rightarrow> int" where "int64_wrap i = sint (word_of_int i :: 64 word)"

definition parse_args :: "(string \<Rightarrow> json \<Rightarrow> 'a \<Rightarrow> 'a option) \<Rightarrow> string \<Rightarrow> 'a \<Rightarrow> 'a option" where
  "parse_args dec argsJSON zero =
     (case parse_json argsJSON of None \<Rightarrow> None | Some v \<Rightarrow> dec_struct dec v zero)"

text \<open>The boundary check of the three tools, on the path they will use.\<close>

definition checked_path :: "'w disk \<Rightarrow> string \<Rightarrow> 'w \<Rightarrow> string \<Rightarrow> string res" where
  "checked_path dk dataDir w path =
     (let p = resolve_path dataDir path in
      case check_boundary (dk_fs dk w) dataDir p of Inl e \<Rightarrow> Err e | Inr _ \<Rightarrow> Ok p)"

section \<open>read_file\<close>

record read_args =
  ra_path :: string
  ra_offset :: int
  ra_limit :: int

definition read_member :: "string \<Rightarrow> json \<Rightarrow> read_args \<Rightarrow> read_args option" where
  "read_member k v a =
     (if k = ''path'' then map_option (\<lambda>x. a\<lparr>ra_path := x\<rparr>) (dec_string v (ra_path a))
      else if k = ''offset'' then map_option (\<lambda>x. a\<lparr>ra_offset := x\<rparr>) (dec_int v (ra_offset a))
      else if k = ''limit'' then map_option (\<lambda>x. a\<lparr>ra_limit := x\<rparr>) (dec_int v (ra_limit a))
      else Some a)"

definition readFileMaxBytes :: nat where "readFileMaxBytes = 100000"
definition readFileMaxLines :: int where "readFileMaxLines = 2000"

text \<open>The text of the answer for a file's content. A slice with bounds out of order panics.\<close>

definition render_lines :: "string \<Rightarrow> int \<Rightarrow> int \<Rightarrow> string \<Rightarrow> run_result" where
  "render_lines path offset0 limit0 data =
     (let offset = (if offset0 < 1 then 1 else offset0);
          limit = (if limit0 \<le> 0 then readFileMaxLines else limit0);
          lns = split_at (CHR 0x0A) data;
          total = int (length lns);
          startIdx = offset - 1
      in if startIdx \<ge> total
         then Returned (Err (''offset '' @ show_int offset @ '' exceeds file length ('' @ show_int total @ '' lines)''))
         else
           let end0 = int64_wrap (startIdx + limit);
               endIdx = (if end0 > total then total else end0)
           in if endIdx < startIdx then Panicked ''slice bounds out of range''
              else
                let selected = str_join newline (take (nat (endIdx - startIdx)) (drop (nat startIdx) lns));
                    cut = take readFileMaxBytes selected;
                    truncated = readFileMaxBytes < length selected
                in Returned (Ok
                     (''File: '' @ path @ '' ('' @ show_int total @ '' lines total)'' @ newline @
                      (if offset > 1 \<or> endIdx < total
                       then ''Showing lines '' @ show_int offset @ ''-'' @
                            show_int (startIdx + int (count_list cut (CHR 0x0A)) + 1) @ newline else []) @
                      ''---'' @ newline @ cut @
                      (if truncated then newline @ ''... (truncated at '' @ show_nat readFileMaxBytes @ '' bytes)'' else []))))"

definition read_file_run :: "'w disk \<Rightarrow> string \<Rightarrow> string \<Rightarrow> 'w \<Rightarrow> run_result" where
  "read_file_run dk dataDir argsJSON w =
     (case parse_args read_member argsJSON \<lparr>ra_path = [], ra_offset = 0, ra_limit = 0\<rparr> of
        None \<Rightarrow> Returned (Err ''invalid arguments'')
      | Some a \<Rightarrow>
          if ra_path a = [] then Returned (Err ''path is required'')
          else case checked_path dk dataDir w (ra_path a) of
            Inl e \<Rightarrow> Returned (Err e)
          | Inr p \<Rightarrow>
              (case dk_stat dk p w of
                 Inl e \<Rightarrow> Returned (Err e)
               | Inr True \<Rightarrow> Returned (Err ''path is a directory, not a file'')
               | Inr False \<Rightarrow>
                   (case dk_read dk p w of
                      Inl e \<Rightarrow> Returned (Err e)
                    | Inr data \<Rightarrow> render_lines p (ra_offset a) (ra_limit a) data)))"

section \<open>write_file\<close>

record write_args =
  wa_path :: string
  wa_content :: string

definition write_member :: "string \<Rightarrow> json \<Rightarrow> write_args \<Rightarrow> write_args option" where
  "write_member k v a =
     (if k = ''path'' then map_option (\<lambda>x. a\<lparr>wa_path := x\<rparr>) (dec_string v (wa_path a))
      else if k = ''content'' then map_option (\<lambda>x. a\<lparr>wa_content := x\<rparr>) (dec_string v (wa_content a))
      else Some a)"

text \<open>\<open>filepath.Dir\<close> of a cleaned absolute path.\<close>

definition parent_dir :: "string \<Rightarrow> string" where
  "parent_dir p = render (is_abs p) (butlast (path_elems p))"

definition write_file_run :: "'w disk \<Rightarrow> string \<Rightarrow> string \<Rightarrow> 'w \<Rightarrow> string res \<times> 'w" where
  "write_file_run dk dataDir argsJSON w =
     (case parse_args write_member argsJSON \<lparr>wa_path = [], wa_content = []\<rparr> of
        None \<Rightarrow> (Err ''invalid arguments'', w)
      | Some a \<Rightarrow>
          if wa_path a = [] then (Err ''path is required'', w)
          else case checked_path dk dataDir w (wa_path a) of
            Inl e \<Rightarrow> (Err e, w)
          | Inr p \<Rightarrow>
              (case dk_mkdir_all dk (parent_dir p) w of
                 (Some e, w1) \<Rightarrow> (Err (''failed to create parent directories: '' @ e), w1)
               | (None, w1) \<Rightarrow>
                   (case dk_write dk p (wa_content a) w1 of
                      (Some e, w2) \<Rightarrow> (Err (''failed to write file: '' @ e), w2)
                    | (None, w2) \<Rightarrow>
                        (Ok (''Written '' @ show_nat (length (wa_content a)) @ '' bytes to '' @ p), w2))))"

section \<open>remove\<close>

record remove_args =
  rm_path :: string
  rm_recursive :: bool

definition remove_member :: "string \<Rightarrow> json \<Rightarrow> remove_args \<Rightarrow> remove_args option" where
  "remove_member k v a =
     (if k = ''path'' then map_option (\<lambda>x. a\<lparr>rm_path := x\<rparr>) (dec_string v (rm_path a))
      else if k = ''recursive'' then map_option (\<lambda>x. a\<lparr>rm_recursive := x\<rparr>) (dec_bool v (rm_recursive a))
      else Some a)"

definition protected_paths :: "string list" where
  "protected_paths = [''/'', ''/home'', ''/root'', ''/etc'', ''/var'', ''/usr'', ''/bin'', ''/opt'', ''/tmp'']"

text \<open>Every refusal of the tool before anything is deleted; \<open>Ok\<close> is whether the target is a directory.\<close>

definition remove_guard :: "'w disk \<Rightarrow> string \<Rightarrow> string \<Rightarrow> bool \<Rightarrow> 'w \<Rightarrow> bool res" where
  "remove_guard dk dataDir p recursive w =
     (if p \<in> set protected_paths then Err (''refusing to delete protected path: '' @ p)
      else if dataDir \<noteq> [] \<and> p = clean dataDir then Err (''refusing to delete data root: '' @ p)
      else case check_boundary (dk_fs dk w) dataDir p of
        Inl e \<Rightarrow> Err e
      | Inr _ \<Rightarrow>
          (case dk_lstat dk p w of
             Inl NotExist \<Rightarrow> Err (''path does not exist: '' @ p)
           | Inl (FsError e) \<Rightarrow> Err (''cannot stat path: '' @ e)
           | Inr isDir \<Rightarrow>
               if isDir \<and> \<not> recursive
               then Err (p @ '' is a directory - set recursive=true to delete it and its contents'')
               else Ok isDir))"

definition remove_run :: "'w disk \<Rightarrow> string \<Rightarrow> string \<Rightarrow> 'w \<Rightarrow> string res \<times> 'w" where
  "remove_run dk dataDir argsJSON w =
     (case parse_args remove_member argsJSON \<lparr>rm_path = [], rm_recursive = False\<rparr> of
        None \<Rightarrow> (Err ''invalid arguments'', w)
      | Some a \<Rightarrow>
          if rm_path a = [] then (Err ''path is required'', w)
          else
            let p = resolve_path dataDir (rm_path a) in
            (case remove_guard dk dataDir p (rm_recursive a) w of
               Inl e \<Rightarrow> (Err e, w)
             | Inr isDir \<Rightarrow>
                 (case (if isDir then dk_remove_all dk p w else dk_remove dk p w) of
                    (Some e, w1) \<Rightarrow> (Err (''deletion failed: '' @ e), w1)
                  | (None, w1) \<Rightarrow>
                      (case dk_lstat dk p w1 of
                         Inr _ \<Rightarrow> (Err (''deletion verification failed: '' @ p @ '' still exists''), w1)
                       | Inl _ \<Rightarrow> (Ok (''Deleted '' @ (if isDir then ''directory'' else ''file'') @ '': '' @ p), w1)))))"

section \<open>What they promise\<close>

lemma wrap64_mod: "int64_wrap i = (i + 2 ^ 63) mod 2 ^ 64 - 2 ^ 63"
  unfolding int64_wrap_def by (subst int_word_sint) simp

lemma wrap64_id: "- (2 ^ 63) \<le> i \<Longrightarrow> i < 2 ^ 63 \<Longrightarrow> int64_wrap i = i"
  by (simp add: wrap64_mod)

lemma wrap64_over: "2 ^ 63 \<le> i \<Longrightarrow> i < 2 ^ 64 \<Longrightarrow> int64_wrap i = i - 2 ^ 64"
proof -
  assume "2 ^ 63 \<le> i" and "i < 2 ^ 64"
  then have "(i - 2 ^ 63) mod 2 ^ 64 = i - 2 ^ 63" by simp
  then have "(i + 2 ^ 63) mod 2 ^ 64 = i - 2 ^ 63" using mod_add_self2[of "i - 2 ^ 63" "2 ^ 64"] by (simp add: add.commute)
  then show ?thesis unfolding wrap64_mod by simp
qed

text \<open>When reading a file crashes the daemon: a slice of lines out of range, exactly when the offset is in
  the file, past its first line, and offset and limit together leave the range of a 64-bit integer.
  Otherwise the tool returns.\<close>

theorem read_file_panics_iff:
  assumes "- (2 ^ 63) \<le> offset" and "offset < 2 ^ 63" and "- (2 ^ 63) \<le> limit" and "limit < 2 ^ 63"
    and "int (length (split_at (CHR 0x0A) data)) < 2 ^ 62"
  shows "(\<exists>m. render_lines path offset limit data = Panicked m) \<longleftrightarrow>
    offset - 1 < int (length (split_at (CHR 0x0A) data)) \<and> 1 < offset \<and> 0 < limit \<and> 2 ^ 63 \<le> offset - 1 + limit"
proof -
  define off where "off = (if offset < 1 then 1 else offset)"
  define lim where "lim = (if limit \<le> 0 then readFileMaxLines else limit)"
  define total where "total = int (length (split_at (CHR 0x0A) data))"
  have b: "1 \<le> off" "off < 2 ^ 63" "1 \<le> lim" "lim < 2 ^ 63" "total < 2 ^ 62" "0 < total"
    using assms by (auto simp: off_def lim_def readFileMaxLines_def total_def)
  have pan: "(\<exists>m. render_lines path offset limit data = Panicked m) \<longleftrightarrow>
      off - 1 < total \<and> (if int64_wrap (off - 1 + lim) > total then total else int64_wrap (off - 1 + lim)) < off - 1"
    unfolding off_def lim_def total_def by (simp add: render_lines_def Let_def)
  show ?thesis
  proof (cases "off - 1 + lim < 2 ^ 63")
    case True
    then have "int64_wrap (off - 1 + lim) = off - 1 + lim" using b by (intro wrap64_id) simp_all
    then show ?thesis unfolding pan using True b
      by (auto simp: off_def lim_def total_def[symmetric] split: if_splits)
  next
    case False
    then have "int64_wrap (off - 1 + lim) = off - 1 + lim - 2 ^ 64" using b by (intro wrap64_over) simp_all
    then show ?thesis unfolding pan using False b
      by (auto simp: off_def lim_def readFileMaxLines_def total_def[symmetric] split: if_splits)
  qed
qed

theorem read_file_panics_iff_witness:
  "\<exists>m. render_lines ''/w/a'' 2 9223372036854775807 [CHR ''x'', CHR 0x0A, CHR ''y''] = Panicked m"
  using read_file_panics_iff[of 2 9223372036854775807 "[CHR ''x'', CHR 0x0A, CHR ''y'']" "''/w/a''"] by simp

text \<open>The lines that are shown, when nothing overflows and they fit: the ones asked for, and no others.\<close>

theorem read_file_lines:
  assumes "1 \<le> offset" and "1 \<le> limit" and "offset - 1 + limit < 2 ^ 63"
    and "offset \<le> int (length (split_at (CHR 0x0A) data))"
    and "length (str_join newline (take (nat limit) (drop (nat (offset - 1)) (split_at (CHR 0x0A) data)))) \<le> readFileMaxBytes"
  shows "\<exists>hdr. render_lines path offset limit data =
    Returned (Ok (hdr @ ''---'' @ newline @
      str_join newline (take (nat limit) (drop (nat (offset - 1)) (split_at (CHR 0x0A) data)))))"
proof -
  let ?lns = "split_at (CHR 0x0A) data"
  have w: "int64_wrap (offset - 1 + limit) = offset - 1 + limit" using assms by (intro wrap64_id) simp_all
  let ?stop = "if offset - 1 + limit > int (length ?lns) then int (length ?lns) else offset - 1 + limit"
  have t: "take (nat (?stop - (offset - 1))) (drop (nat (offset - 1)) ?lns) = take (nat limit) (drop (nat (offset - 1)) ?lns)"
    using assms by (auto intro!: take_all)
  have "\<not> ?stop < offset - 1" using assms by auto
  then show ?thesis using assms t w
    by (auto simp: render_lines_def Let_def)
qed

theorem read_file_lines_witness:
  "\<exists>hdr. render_lines ''/w/a'' 2 1 [CHR ''x'', CHR 0x0A, CHR ''y''] = Returned (Ok (hdr @ ''---'' @ newline @ ''y''))"
  using read_file_lines[of 2 1 "[CHR ''x'', CHR 0x0A, CHR ''y'']" "''/w/a''"] by (simp add: readFileMaxBytes_def)

text \<open>A tool changes the world only through a path that the boundary accepts. \<open>write_file\<close> and \<open>remove\<close>
  leave the world alone unless the resolved path passes the boundary check in the world as it is;
  \<open>remove\<close> never deletes a protected path, the data root, or a directory without \<open>recursive\<close>.\<close>

theorem file_tools_stay_inside:
  "(snd (write_file_run dk dataDir argsJSON w) \<noteq> w \<longrightarrow>
      (\<exists>a. parse_args write_member argsJSON \<lparr>wa_path = [], wa_content = []\<rparr> = Some a \<and>
           (\<exists>q. check_boundary (dk_fs dk w) dataDir (resolve_path dataDir (wa_path a)) = Ok q))) \<and>
   (snd (remove_run dk dataDir argsJSON w) \<noteq> w \<longrightarrow>
      (\<exists>a. parse_args remove_member argsJSON \<lparr>rm_path = [], rm_recursive = False\<rparr> = Some a \<and>
           (let p = resolve_path dataDir (rm_path a) in
              p \<notin> set protected_paths \<and> (dataDir \<noteq> [] \<longrightarrow> p \<noteq> clean dataDir) \<and>
              (\<exists>q. check_boundary (dk_fs dk w) dataDir p = Ok q) \<and>
              (dk_lstat dk p w = Inr True \<longrightarrow> rm_recursive a))))"
proof -
  have "\<exists>q. check_boundary (dk_fs dk w) dataDir (resolve_path dataDir path) = Ok q" if "checked_path dk dataDir w path = Ok p" for path p
    using that by (auto simp: checked_path_def Let_def split: sum.splits)
  then have "snd (write_file_run dk dataDir argsJSON w) \<noteq> w \<longrightarrow>
      (\<exists>a. parse_args write_member argsJSON \<lparr>wa_path = [], wa_content = []\<rparr> = Some a \<and>
           (\<exists>q. check_boundary (dk_fs dk w) dataDir (resolve_path dataDir (wa_path a)) = Ok q))"
    by (auto simp: write_file_run_def split: option.splits sum.splits)
  moreover have "snd (remove_run dk dataDir argsJSON w) \<noteq> w \<longrightarrow>
      (\<exists>a. parse_args remove_member argsJSON \<lparr>rm_path = [], rm_recursive = False\<rparr> = Some a \<and>
           (\<exists>d. remove_guard dk dataDir (resolve_path dataDir (rm_path a)) (rm_recursive a) w = Ok d))"
    by (auto simp: remove_run_def Let_def split: option.splits sum.splits)
  moreover have "p \<notin> set protected_paths \<and> (dataDir \<noteq> [] \<longrightarrow> p \<noteq> clean dataDir) \<and>
      (\<exists>q. check_boundary (dk_fs dk w) dataDir p = Ok q) \<and> (dk_lstat dk p w = Inr True \<longrightarrow> r)"
    if "remove_guard dk dataDir p r w = Ok d" for p r d
    using that by (auto simp: remove_guard_def split: if_splits sum.splits fs_error.splits)
  ultimately show ?thesis unfolding Let_def by blast
qed

section \<open>A protected file and its directory\<close>

text \<open>The file system of the example: the workspace \<open>/w\<close> with the directory \<open>logs\<close> and the protected log in it.\<close>

definition logs_fs :: file_system where
  "logs_fs =
     \<lparr>fs_eval = (\<lambda>p. if p \<in> {''/'', ''/w'', ''/w/logs'', ''/w/logs/tool-changes.log''} then Inr p else Inl NotExist),
      fs_lstat = (\<lambda>p. if p \<in> {''/'', ''/w'', ''/w/logs'', ''/w/logs/tool-changes.log''} then None else Some NotExist)\<rparr>"

definition logs_disk :: "bool disk" where
  "logs_disk =
     \<lparr>dk_fs = (\<lambda>_. logs_fs), dk_stat = (\<lambda>_ _. Ok True), dk_lstat = (\<lambda>p w. if w then Inr (p = ''/w/logs'') else Inl NotExist),
      dk_read = (\<lambda>_ _. Ok []), dk_mkdir_all = (\<lambda>_ w. (None, w)), dk_write = (\<lambda>_ _ w. (None, w)),
      dk_remove = (\<lambda>_ w. (None, False)), dk_remove_all = (\<lambda>_ w. (None, False))\<rparr>"

text \<open>The change log is protected by name only: the boundary refuses the file itself and accepts the
  directory that holds it, so a recursive removal of \<open>logs\<close> deletes the protected file.\<close>

theorem protected_log_deleted_with_parent:
  "(\<forall>q. check_boundary logs_fs ''/w'' ''/w/logs/tool-changes.log'' \<noteq> Ok q) \<and>
   (\<exists>d. remove_guard logs_disk ''/w'' ''/w/logs'' True True = Ok d) \<and>
   remove_run logs_disk ''/w'' ''{\"path\":\"logs\",\"recursive\":true}'' True = (Ok ''Deleted directory: /w/logs'', False)"
proof -
  have d: "real_dir logs_fs ''/w'' = ''/w''" by (simp add: real_dir_def logs_fs_def)
  have r: "real_path logs_fs ''/w/logs'' = Ok ''/w/logs''"
    "real_path logs_fs ''/w/logs/tool-changes.log'' = Ok ''/w/logs/tool-changes.log''"
    by (simp_all add: real_path_def logs_fs_def)
  have g: "go_rel ''/w'' ''/w/logs'' = Some ''logs''"
    "go_rel ''/w'' ''/w/logs/tool-changes.log'' = Some ''logs/tool-changes.log''"
    by (simp_all add: go_rel_def path_elems_def clean_def render_def is_abs_def)
  have a: "check_boundary logs_fs ''/w'' ''/w/logs'' = Ok ''/w/logs''"
    by (simp add: check_boundary_def r d g protected_prefixes_def)
  have b: "\<forall>q. check_boundary logs_fs ''/w'' ''/w/logs/tool-changes.log'' \<noteq> Ok q"
    by (simp add: check_boundary_def r d g protected_prefixes_def)
  have c: "remove_guard logs_disk ''/w'' ''/w/logs'' True True = Ok True"
    using a by (simp add: remove_guard_def logs_disk_def protected_paths_def clean_def path_elems_def render_def is_abs_def)
  have p: "parse_args remove_member ''{\"path\":\"logs\",\"recursive\":true}'' \<lparr>rm_path = [], rm_recursive = False\<rparr> =
      Some \<lparr>rm_path = ''logs'', rm_recursive = True\<rparr>"
    by code_simp
  have "resolve_path ''/w'' ''logs'' = ''/w/logs''"
    by (simp add: resolve_path_def join_path_def clean_def path_elems_def render_def is_abs_def)
  then have "remove_run logs_disk ''/w'' ''{\"path\":\"logs\",\"recursive\":true}'' True = (Ok ''Deleted directory: /w/logs'', False)"
    unfolding remove_run_def p by (simp add: c Let_def) (simp add: logs_disk_def)
  then show ?thesis using b c by blast
qed

end
