(* ===== verification/Provider_History.thy ===== *)
theory Provider_History
  imports Alf_Prelude
begin

text \<open>
  \<open>internal/ai/provider/history.go\<close>: the message history of keyed sessions for API providers, a map in
  memory over one file per sanitized key. A file is the entry it holds, or nothing that can be
  decoded; writing it works or fails, which is an argument. The clock is an argument.
\<close>

section \<open>State\<close>

record hist_message =
  hm_role :: string
  hm_content :: string

record hist_entry =
  he_messages :: "hist_message list"
  he_last_used :: gotime

record prov_history =
  ph_sessions :: "string \<rightharpoonup> hist_entry"
  ph_files :: "string \<rightharpoonup> hist_entry option"
  ph_max :: nat
  ph_expiry :: duration

definition new_history :: "(string \<rightharpoonup> hist_entry option) \<Rightarrow> int \<Rightarrow> duration \<Rightarrow> prov_history" where
  "new_history disk maxMsgs expiry =
     \<lparr>ph_sessions = Map.empty, ph_files = disk, ph_max = (if maxMsgs \<le> 0 then 100 else nat maxMsgs),
      ph_expiry = (if expiry \<le> 0 then hour else expiry)\<rparr>"

text \<open>The loop runs over code points: the bytes 80 to BF continue one.\<close>

definition key_char :: "char \<Rightarrow> string" where
  "key_char c =
     (let n = of_char c :: nat in
      if 97 \<le> n \<and> n \<le> 122 \<or> 65 \<le> n \<and> n \<le> 90 \<or> 48 \<le> n \<and> n \<le> 57 \<or> c = CHR ''-'' \<or> c = CHR ''_'' then [c]
      else if 128 \<le> n \<and> n < 192 then [] else ''_'')"

definition sanitize_key :: "string \<Rightarrow> string" where
  "sanitize_key key = (let b = concat (map key_char key) in if b = [] then ''default'' else b)"

section \<open>Operations\<close>

definition hist_load :: "gotime \<Rightarrow> string \<Rightarrow> prov_history \<Rightarrow> hist_entry \<times> prov_history" where
  "hist_load now key h =
     (case ph_sessions h key of
        Some e \<Rightarrow> (e, h)
      | None \<Rightarrow>
          let e = (case ph_files h (sanitize_key key) of
                     Some (Some e) \<Rightarrow> e
                   | _ \<Rightarrow> \<lparr>he_messages = [], he_last_used = now\<rparr>)
          in (e, h\<lparr>ph_sessions := (ph_sessions h)(key \<mapsto> e)\<rparr>))"

definition hist_persist :: "bool \<Rightarrow> string \<Rightarrow> hist_entry \<Rightarrow> prov_history \<Rightarrow> prov_history" where
  "hist_persist ok key e h = (if ok then h\<lparr>ph_files := (ph_files h)(sanitize_key key \<mapsto> Some e)\<rparr> else h)"

definition slide :: "nat \<Rightarrow> 'a list \<Rightarrow> 'a list" where
  "slide maxMsgs ms =
     (if maxMsgs < length ms
      then (let d = length ms - maxMsgs; n = (if odd d then d + 1 else d)
            in if 0 < n \<and> n < length ms then drop n ms else ms)
      else ms)"

definition hist_append :: "bool \<Rightarrow> gotime \<Rightarrow> string \<Rightarrow> hist_message \<Rightarrow> prov_history \<Rightarrow> prov_history" where
  "hist_append ok now key msg h =
     (let (e, h1) = hist_load now key h;
          e' = \<lparr>he_messages = slide (ph_max h) (he_messages e @ [msg]), he_last_used = now\<rparr>
      in hist_persist ok key e' (h1\<lparr>ph_sessions := (ph_sessions h1)(key \<mapsto> e')\<rparr>))"

definition hist_clear :: "string \<Rightarrow> prov_history \<Rightarrow> prov_history" where
  "hist_clear key h =
     h\<lparr>ph_sessions := (ph_sessions h)(key := None), ph_files := (ph_files h)(sanitize_key key := None)\<rparr>"

definition hist_get :: "gotime \<Rightarrow> string \<Rightarrow> prov_history \<Rightarrow> hist_message list \<times> prov_history" where
  "hist_get now key h =
     (let (e, h1) = hist_load now key h in
      if he_messages e = [] then ([], h1)
      else if time_sub now (he_last_used e) > ph_expiry h then ([], hist_clear key h1)
      else (he_messages e, h1))"

section \<open>The window\<close>

lemma slide_suffix: "\<exists>n. even n \<and> slide m xs = drop n xs"
proof -
  let ?d = "length xs - m"
  let ?n = "if odd ?d then ?d + 1 else ?d"
  have "slide m xs = drop 0 xs \<or> slide m xs = drop ?n xs" by (simp add: slide_def Let_def)
  moreover have "even ?n" by simp
  ultimately show ?thesis by (metis even_zero)
qed

lemma slide_ne: "xs \<noteq> [] \<Longrightarrow> slide m xs \<noteq> []"
  by (auto simp: slide_def Let_def)

lemma slide_length: "2 \<le> m \<Longrightarrow> length xs \<le> m + 1 \<Longrightarrow> length (slide m xs) \<le> m"
  by (auto simp: slide_def Let_def)

text \<open>Turns that alternate and begin with the user's.\<close>

fun alternating :: "string \<Rightarrow> string \<Rightarrow> hist_message list \<Rightarrow> bool" where
  "alternating a b [] = True"
| "alternating a b (m # ms) = (hm_role m = a \<and> alternating b a ms)"

lemma alternating_drop2: "alternating a b ms \<Longrightarrow> alternating a b (drop 2 ms)"
  by (cases ms; cases "tl ms") auto

lemma alternating_drop: "alternating a b ms \<Longrightarrow> even n \<Longrightarrow> alternating a b (drop n ms)"
proof (induction n arbitrary: ms rule: nat_less_induct)
  case (1 n)
  show ?case
  proof (cases "n = 0")
    case False
    then obtain k where k: "n = Suc (Suc k)" "even k" using "1.prems"(2) by (cases n; cases "n - 1") auto
    then have "alternating a b (drop k (drop 2 ms))"
      using "1.IH"[rule_format, of k "drop 2 ms"] alternating_drop2[OF "1.prems"(1)] by simp
    then show ?thesis using k(1) by (simp add: numeral_2_eq_2)
  qed (use "1.prems" in simp)
qed

text \<open>The sliding window keeps the history usable: after an append the message is the last one, what was
  dropped is an even number of the oldest messages, so turns that alternate from the user's still do,
  and with a window of two or more a history within it stays within it.\<close>

theorem hist_append_window:
  assumes "ph_sessions h key = Some e"
  shows "\<exists>e' n. ph_sessions (hist_append ok now key msg h) key = Some e' \<and> even n \<and>
      he_messages e' = drop n (he_messages e @ [msg]) \<and> he_messages e' \<noteq> [] \<and> last (he_messages e') = msg \<and>
      (alternating a b (he_messages e @ [msg]) \<longrightarrow> alternating a b (he_messages e')) \<and>
      (2 \<le> ph_max h \<and> length (he_messages e) \<le> ph_max h \<longrightarrow> length (he_messages e') \<le> ph_max h)"
proof -
  let ?ms = "he_messages e @ [msg]"
  let ?e = "\<lparr>he_messages = slide (ph_max h) ?ms, he_last_used = now\<rparr>"
  have s: "ph_sessions (hist_append ok now key msg h) key = Some ?e"
    using assms by (simp add: hist_append_def hist_load_def hist_persist_def Let_def)
  obtain n where n: "even n" "slide (ph_max h) ?ms = drop n ?ms" using slide_suffix by blast
  have ne: "slide (ph_max h) ?ms \<noteq> []" by (rule slide_ne) simp
  then have "last (slide (ph_max h) ?ms) = msg" using n(2) by (cases "n < length ?ms") (auto simp: last_drop)
  then show ?thesis using s n ne alternating_drop[of a b ?ms n] slide_length[of "ph_max h" ?ms]
    by (intro exI[of _ ?e] exI[of _ n]) auto
qed

theorem hist_append_window_witness:
  "\<exists>e'. ph_sessions (hist_append True 1 ''k'' \<lparr>hm_role = ''user'', hm_content = ''c''\<rparr>
     ((new_history Map.empty 2 0)\<lparr>ph_sessions := [''k'' \<mapsto> \<lparr>he_messages =
        [\<lparr>hm_role = ''user'', hm_content = ''a''\<rparr>, \<lparr>hm_role = ''assistant'', hm_content = ''b''\<rparr>], he_last_used = 0\<rparr>]\<rparr>)) ''k'' = Some e' \<and>
     length (he_messages e') \<le> 2"
  using hist_append_window[of "(new_history Map.empty 2 0)\<lparr>ph_sessions := [''k'' \<mapsto> \<lparr>he_messages =
        [\<lparr>hm_role = ''user'', hm_content = ''a''\<rparr>, \<lparr>hm_role = ''assistant'', hm_content = ''b''\<rparr>], he_last_used = 0\<rparr>]\<rparr>" "''k''"]
  by (fastforce simp: new_history_def)

text \<open>Different keys can share a file: after a restart a session reads the history of another one whose key
  has the same sanitized form (\<open>tg:1\<close> and \<open>tg_1\<close>, for example).\<close>

theorem history_leaks_between_keys:
  assumes "sanitize_key k' = sanitize_key k" and "time_sub later now \<le> ph_expiry h" and "0 < ph_expiry h"
    and "ph_sessions h k = Some e"
  shows "fst (hist_get later k' (new_history (ph_files (hist_append True now k msg h)) (int (ph_max h)) (ph_expiry h))) =
    slide (ph_max h) (he_messages e @ [msg])"
  using assms slide_ne[of "he_messages e @ [msg]" "ph_max h"]
  by (simp add: hist_get_def hist_load_def hist_append_def hist_persist_def new_history_def Let_def)

theorem history_leaks_between_keys_witness:
  "fst (hist_get 5 ''tg_1'' (new_history (ph_files (hist_append True 1 ''tg:1'' \<lparr>hm_role = ''user'', hm_content = ''secret''\<rparr>
      ((new_history Map.empty 10 0)\<lparr>ph_sessions := [''tg:1'' \<mapsto> \<lparr>he_messages = [], he_last_used = 0\<rparr>]\<rparr>))) 10 hour)) =
   [\<lparr>hm_role = ''user'', hm_content = ''secret''\<rparr>]"
  using history_leaks_between_keys[of "''tg_1''" "''tg:1''" 5 1
      "(new_history Map.empty 10 0)\<lparr>ph_sessions := [''tg:1'' \<mapsto> \<lparr>he_messages = [], he_last_used = 0\<rparr>]\<rparr>"
      "\<lparr>he_messages = [], he_last_used = 0\<rparr>" "\<lparr>hm_role = ''user'', hm_content = ''secret''\<rparr>"]
  by (simp add: sanitize_key_def key_char_def new_history_def slide_def time_sub_exact go_time min_duration_def max_duration_def)

end
