(* ===== verification/Provider_Messages.thy ===== *)
theory Provider_Messages
  imports Runtime Tooling_Registry Provider_History Go_Encoding
begin

text \<open>
  \<open>internal/ai/provider/provider.go\<close> and the first half of \<open>api.go\<close>: the parameters of a provider, the messages
  an API provider sends for a prompt, their JSON form, the marks for prompt caching and the images
  that go along. The file of an image is read through an argument. The order of the members of a
  JSON object is not modelled.
\<close>

section \<open>Parameters\<close>

record context_tool_call =
  ctc_id :: string
  ctc_name :: string
  ctc_arguments :: string

record context_msg =
  cm_role :: string
  cm_content :: string
  cm_tool_calls :: "context_tool_call list"
  cm_tool_call_id :: string

record provider_params =
  pp_model :: string
  pp_tools :: "string list"
  pp_write_capable :: bool
  pp_effort :: string
  pp_system_prompts :: "string list"
  pp_cache_breakpoint :: int
  pp_max_turns :: int
  pp_resume :: string
  pp_data_dir :: string
  pp_env :: "string list"
  pp_session_key :: string
  pp_conv_messages :: "context_msg list"
  pp_media :: "media_entry list"

record api_provider =
  apv_name :: string
  apv_api_key :: string
  apv_base_url :: string
  apv_headers :: "(string \<times> string) list"
  apv_default_model :: string
  apv_max_tokens :: int
  apv_auth :: string
  apv_history :: bool

text \<open>The defaults of \<open>NewAPIProviderFromConfig\<close>.\<close>

definition new_api_provider :: "api_provider \<Rightarrow> api_provider" where
  "new_api_provider cfg =
     cfg\<lparr>apv_auth := (if apv_auth cfg = [] then ''bearer'' else apv_auth cfg),
         apv_max_tokens := (if apv_max_tokens cfg = 0 then 4096 else apv_max_tokens cfg)\<rparr>"

definition is_ollama_compat :: "api_provider \<Rightarrow> bool" where "is_ollama_compat p \<longleftrightarrow> apv_auth p = ''none''"

definition is_direct_openai :: "api_provider \<Rightarrow> bool" where
  "is_direct_openai p \<longleftrightarrow> str_contains (apv_base_url p) ''api.openai.com''"

section \<open>Messages\<close>

text \<open>The only cache control the code builds is the ephemeral one: a flag.\<close>

record content_part =
  cb_type :: string
  cb_text :: string
  cb_image :: "string option"
  cb_cache :: bool

record model_tool_call =
  mtc_id :: string
  mtc_type :: string
  mtc_name :: string
  mtc_arguments :: string

record model_message =
  mm_role :: string
  mm_content :: string
  mm_multi :: "content_part list"
  mm_tool_calls :: "model_tool_call list"
  mm_tool_call_id :: string
  mm_cache :: bool

definition simple_message :: "string \<Rightarrow> string \<Rightarrow> model_message" where
  "simple_message role content =
     \<lparr>mm_role = role, mm_content = content, mm_multi = [], mm_tool_calls = [], mm_tool_call_id = [], mm_cache = False\<rparr>"

definition text_part :: "string \<Rightarrow> bool \<Rightarrow> content_part" where
  "text_part t cached = \<lparr>cb_type = ''text'', cb_text = t, cb_image = None, cb_cache = cached\<rparr>"

definition ephemeral :: go_val where "ephemeral = VMap [(''type'', VStr ''ephemeral'')]"

definition part_json :: "content_part \<Rightarrow> go_val" where
  "part_json b = VMap
     ([(''type'', VStr (cb_type b))] @
      (if cb_text b = [] then [] else [(''text'', VStr (cb_text b))]) @
      (case cb_image b of None \<Rightarrow> [] | Some u \<Rightarrow> [(''image_url'', VMap [(''url'', VStr u)])]) @
      (if cb_cache b then [(''cache_control'', ephemeral)] else []))"

definition call_json :: "model_tool_call \<Rightarrow> go_val" where
  "call_json c = VMap
     [(''id'', VStr (mtc_id c)), (''type'', VStr (mtc_type c)),
      (''function'', VMap [(''name'', VStr (mtc_name c)), (''arguments'', VStr (mtc_arguments c))])]"

definition cached_content :: "model_message \<Rightarrow> go_val" where
  "cached_content m =
     (if mm_cache m \<and> mm_content m \<noteq> []
      then VList [VMap [(''type'', VStr ''text''), (''text'', VStr (mm_content m)), (''cache_control'', ephemeral)]]
      else VStr (mm_content m))"

definition message_json :: "model_message \<Rightarrow> go_val" where
  "message_json m = VMap
     ((''role'', VStr (mm_role m)) #
      (if mm_tool_calls m \<noteq> [] then
         [(''content'', if mm_content m \<noteq> [] then VStr (mm_content m) else VNull),
          (''tool_calls'', VList (map call_json (mm_tool_calls m)))]
       else if mm_tool_call_id m \<noteq> [] then
         [(''content'', cached_content m), (''tool_call_id'', VStr (mm_tool_call_id m))]
       else if mm_multi m \<noteq> [] then [(''content'', VList (map part_json (mm_multi m)))]
       else if mm_content m \<noteq> [] then [(''content'', cached_content m)]
       else []))"

section \<open>Marks for caching\<close>

definition clear_cache :: "model_message \<Rightarrow> model_message" where
  "clear_cache m = (if mm_role m \<noteq> ''system'' then m\<lparr>mm_cache := False\<rparr> else m)"

text \<open>The backward loop: the argument is the list from its end.\<close>

fun tag_first :: "model_message list \<Rightarrow> model_message list" where
  "tag_first [] = []"
| "tag_first (m # ms) = (if mm_role m \<noteq> ''system'' then m\<lparr>mm_cache := True\<rparr> # ms else m # tag_first ms)"

definition tag_last_message_cache :: "model_message list \<Rightarrow> model_message list" where
  "tag_last_message_cache ms = rev (tag_first (rev (map clear_cache ms)))"

section \<open>Media\<close>

text \<open>A match of the media pattern at the start of the text: what is left after it. The characters between
  the word and the first closing bracket must contain one of the two phrases.\<close>

definition media_match :: "string \<Rightarrow> string option" where
  "media_match s =
     (let body = (if has_prefix s ''[PHOTO'' \<or> has_prefix s ''[VIDEO'' then drop 6 s else []);
          inner = takeWhile (\<lambda>c. c \<noteq> CHR '']'') body;
          rest = dropWhile (\<lambda>c. c \<noteq> CHR '']'') body
      in if rest \<noteq> [] \<and> (str_contains inner ''use Read tool to view'' \<or> str_contains inner ''contact sheet'')
         then Some (case tl rest of c # r \<Rightarrow> if c = CHR 0x0A then r else c # r | [] \<Rightarrow> [])
         else None)"

lemma length_media_match:
  assumes "media_match s = Some r" shows "length r < length s"
proof -
  define body where "body = (if has_prefix s ''[PHOTO'' \<or> has_prefix s ''[VIDEO'' then drop 6 s else [])"
  define rest where "rest = dropWhile (\<lambda>c. c \<noteq> CHR '']'') body"
  have "rest \<noteq> [] \<and> r = (case tl rest of c # r \<Rightarrow> if c = CHR 0x0A then r else c # r | [] \<Rightarrow> [])"
    using assms unfolding media_match_def body_def[symmetric] Let_def rest_def[symmetric] by (simp split: if_splits)
  then have "length r < length rest" by (cases rest) (auto split: list.splits)
  moreover have "length rest \<le> length body" unfolding rest_def by (rule length_dropWhile_le)
  moreover have "length body \<le> length s" by (simp add: body_def)
  ultimately show ?thesis by linarith
qed

function strip_media :: "string \<Rightarrow> string" where
  "strip_media s =
     (case s of
        [] \<Rightarrow> []
      | c # t \<Rightarrow> (case media_match s of Some r \<Rightarrow> strip_media r | None \<Rightarrow> c # strip_media t))"
  by pat_completeness auto
termination
  by (relation "measure length") (auto dest: length_media_match)

declare strip_media.simps [simp del]

definition strip_media_instructions :: "string \<Rightarrow> string" where
  "strip_media_instructions prompt = trim_space (strip_media prompt)"

text \<open>\<open>base64.StdEncoding\<close>.\<close>

definition b64_std :: "string \<Rightarrow> string" where
  "b64_std s =
     map (\<lambda>c. if c = CHR ''-'' then CHR ''+'' else if c = CHR ''_'' then CHR ''/'' else c) (b64_encode s) @
     replicate ((3 - length s mod 3) mod 3) (CHR ''='')"

definition build_vision_block :: "(string \<Rightarrow> string option) \<Rightarrow> media_entry \<Rightarrow> content_part option" where
  "build_vision_block read m =
     (if me_type m = ''photo'' then
        (case read (me_temp_path m) of
           None \<Rightarrow> None
         | Some data \<Rightarrow>
             if data = [] then None
             else Some \<lparr>cb_type = ''image_url'', cb_text = [],
                        cb_image = Some (''data:'' @ me_mime_type m @ '';base64,'' @ b64_std data), cb_cache = False\<rparr>)
      else if me_type m = ''document'' \<and> me_text_content m \<noteq> [] then
        Some (text_part (''[Document: '' @ me_file_name m @ '']'' @ newline @ me_text_content m) False)
      else None)"

section \<open>The messages of a prompt\<close>

definition prov_system_message :: "bool \<Rightarrow> int \<Rightarrow> string list \<Rightarrow> model_message list" where
  "prov_system_message isAnthropic bp prompts =
     (if prompts = [] then []
      else if isAnthropic \<and> 0 < bp then
        let stable = str_join (newline @ newline) (take (nat bp) prompts);
            dynamic = (if bp < int (length prompts) then str_join (newline @ newline) (drop (nat bp) prompts) else [])
        in [(simple_message ''system'' [])\<lparr>mm_multi :=
              text_part stable True # (if dynamic \<noteq> [] then [text_part dynamic False] else [])\<rparr>]
      else [simple_message ''system'' (str_join (newline @ newline) prompts)])"

definition conv_message :: "context_msg \<Rightarrow> model_message" where
  "conv_message m =
     (simple_message (cm_role m) (cm_content m))\<lparr>
        mm_tool_call_id := cm_tool_call_id m,
        mm_tool_calls := map (\<lambda>c. \<lparr>mtc_id = ctc_id c, mtc_type = ''function'', mtc_name = ctc_name c,
                                    mtc_arguments = ctc_arguments c\<rparr>) (cm_tool_calls m)\<rparr>"

definition prov_user_message :: "(string \<Rightarrow> string option) \<Rightarrow> string \<Rightarrow> media_entry list \<Rightarrow> model_message" where
  "prov_user_message read prompt ms =
     (if ms = [] then simple_message ''user'' prompt
      else
        let clean = strip_media_instructions prompt;
            blocks = List.map_filter (build_vision_block read) ms @ (if clean \<noteq> [] then [text_part clean False] else [])
        in if blocks \<noteq> [] then (simple_message ''user'' [])\<lparr>mm_multi := blocks\<rparr> else simple_message ''user'' prompt)"

definition is_anthropic :: "api_provider \<Rightarrow> provider_params \<Rightarrow> bool" where
  "is_anthropic p params \<longleftrightarrow>
     has_prefix (if pp_model params = [] then apv_default_model p else pp_model params) ''anthropic/''"

definition keyed_session :: "api_provider \<Rightarrow> provider_params \<Rightarrow> bool" where
  "keyed_session p params \<longleftrightarrow> pp_session_key params \<noteq> [] \<and> apv_history p"

text \<open>The conversation of the parameters, or else the history of their key, which reading can change.\<close>

definition conv_part ::
  "api_provider \<Rightarrow> gotime \<Rightarrow> provider_params \<Rightarrow> prov_history \<Rightarrow> model_message list \<times> prov_history" where
  "conv_part p now params h =
     (if pp_conv_messages params \<noteq> [] then (map conv_message (pp_conv_messages params), h)
      else if keyed_session p params then
        (case hist_get now (pp_session_key params) h of
           (ms, h') \<Rightarrow> (map (\<lambda>m. simple_message (hm_role m) (hm_content m)) ms, h'))
      else ([], h))"

definition past_messages ::
  "api_provider \<Rightarrow> gotime \<Rightarrow> provider_params \<Rightarrow> prov_history \<Rightarrow> model_message list \<times> prov_history" where
  "past_messages p now params h =
     (let sys = prov_system_message (is_anthropic p params) (pp_cache_breakpoint params) (pp_system_prompts params);
          (conv, h') = conv_part p now params h;
          ms = sys @ conv
      in (if is_anthropic p params \<and> (pp_conv_messages params \<noteq> [] \<or> keyed_session p params)
          then tag_last_message_cache ms else ms, h'))"

definition build_messages ::
  "api_provider \<Rightarrow> (string \<Rightarrow> string option) \<Rightarrow> gotime \<Rightarrow> string \<Rightarrow> provider_params \<Rightarrow> prov_history
   \<Rightarrow> model_message list \<times> prov_history" where
  "build_messages p read now prompt params h =
     (let (ms, h') = past_messages p now params h;
          present = (ms \<noteq> [] \<and> mm_role (last ms) = ''user'' \<and> mm_content (last ms) = prompt)
      in (if present then ms else ms @ [prov_user_message read prompt (pp_media params)], h'))"

section \<open>What is sent\<close>

definition cache_marks :: "model_message list \<Rightarrow> nat" where
  "cache_marks ms = sum_list (map (\<lambda>m. (if mm_cache m then 1 else 0) + length (filter cb_cache (mm_multi m))) ms)"

lemma cache_marks_simps [simp]:
  "cache_marks [] = 0"
  "cache_marks (m # ms) = (if mm_cache m then 1 else 0) + length (filter cb_cache (mm_multi m)) + cache_marks ms"
  "cache_marks (ms @ ns) = cache_marks ms + cache_marks ns"
  "cache_marks (rev ms) = cache_marks ms"
  by (simp_all add: cache_marks_def rev_map[symmetric] sum_list_rev)

definition part_marks :: "model_message list \<Rightarrow> nat" where
  "part_marks ms = sum_list (map (\<lambda>m. length (filter cb_cache (mm_multi m))) ms)"

definition system_unmarked :: "model_message list \<Rightarrow> bool" where
  "system_unmarked ms \<longleftrightarrow> (\<forall>m \<in> set ms. mm_role m = ''system'' \<longrightarrow> \<not> mm_cache m)"

lemma cache_marks_clear: "system_unmarked ms \<Longrightarrow> cache_marks (map clear_cache ms) = part_marks ms"
  by (induction ms) (auto simp: part_marks_def clear_cache_def system_unmarked_def)

lemma tag_first_marks: "cache_marks (tag_first ms) \<le> Suc (cache_marks ms)"
  by (induction ms) auto

lemma tag_last_marks: "system_unmarked ms \<Longrightarrow> cache_marks (tag_last_message_cache ms) \<le> Suc (part_marks ms)"
  using tag_first_marks[of "rev (map clear_cache ms)"]
  by (simp add: tag_last_message_cache_def cache_marks_clear)

lemma part_marks_simps [simp]:
  "part_marks [] = 0"
  "part_marks (m # ms) = length (filter cb_cache (mm_multi m)) + part_marks ms"
  "part_marks (ms @ ns) = part_marks ms + part_marks ns"
  "part_marks (rev ms) = part_marks ms"
  by (simp_all add: part_marks_def rev_map[symmetric] sum_list_rev)

lemma part_marks_tag [simp]: "part_marks (tag_last_message_cache ms) = part_marks ms"
proof -
  have "part_marks (tag_first ns) = part_marks ns" for ns by (induction ns) auto
  moreover have "part_marks (map clear_cache ms) = part_marks ms" by (induction ms) (auto simp: clear_cache_def)
  ultimately show ?thesis by (simp add: tag_last_message_cache_def)
qed

lemma system_unmarked_tag: "system_unmarked ms \<Longrightarrow> system_unmarked (tag_last_message_cache ms)"
proof -
  have t: "system_unmarked ns \<Longrightarrow> system_unmarked (tag_first ns)" for ns
    by (induction ns) (auto simp: system_unmarked_def split: if_splits)
  assume "system_unmarked ms"
  then have "system_unmarked (map clear_cache ms)" by (auto simp: system_unmarked_def clear_cache_def)
  then show ?thesis using t[of "rev (map clear_cache ms)"] by (simp add: tag_last_message_cache_def system_unmarked_def)
qed

lemma unmarked_conv:
  "system_unmarked (map conv_message cs)" "part_marks (map conv_message cs) = 0" "cache_marks (map conv_message cs) = 0"
  by (induction cs) (simp_all add: conv_message_def simple_message_def system_unmarked_def)

lemma unmarked_plain:
  "system_unmarked (map (\<lambda>m. simple_message (f m) (g m)) xs)" "part_marks (map (\<lambda>m. simple_message (f m) (g m)) xs) = 0"
  "cache_marks (map (\<lambda>m. simple_message (f m) (g m)) xs) = 0"
  by (induction xs) (simp_all add: simple_message_def system_unmarked_def)

lemma system_message_marks:
  "system_unmarked (prov_system_message a bp ps) \<and> part_marks (prov_system_message a bp ps) \<le> (if a then 1 else 0) \<and>
   cache_marks (prov_system_message a bp ps) = part_marks (prov_system_message a bp ps)"
  by (auto simp: prov_system_message_def simple_message_def text_part_def system_unmarked_def Let_def)

lemma system_unmarked_append: "system_unmarked (ms @ ns) \<longleftrightarrow> system_unmarked ms \<and> system_unmarked ns"
  by (auto simp: system_unmarked_def)

lemma past_messages_marks:
  "system_unmarked (fst (past_messages p now params h)) \<and>
   part_marks (fst (past_messages p now params h)) \<le> (if is_anthropic p params then 1 else 0) \<and>
   cache_marks (fst (past_messages p now params h)) \<le> (if is_anthropic p params then 2 else 0)"
proof -
  define sys where "sys = prov_system_message (is_anthropic p params) (pp_cache_breakpoint params) (pp_system_prompts params)"
  have s: "system_unmarked sys" "part_marks sys \<le> (if is_anthropic p params then 1 else 0)" "cache_marks sys = part_marks sys"
    using system_message_marks unfolding sys_def by blast+
  define conv where "conv = fst (conv_part p now params h)"
  define t where "t \<longleftrightarrow> is_anthropic p params \<and> (pp_conv_messages params \<noteq> [] \<or> keyed_session p params)"
  have c: "fst (past_messages p now params h) = (if t then tag_last_message_cache (sys @ conv) else sys @ conv)"
    unfolding past_messages_def sys_def[symmetric] t_def[symmetric] Let_def conv_def by (simp split: prod.split)
  have u: "system_unmarked conv" "part_marks conv = 0" "cache_marks conv = 0"
  proof -
    have "conv = [] \<or> (\<exists>cs. conv = map conv_message cs) \<or>
        (\<exists>xs :: hist_message list. conv = map (\<lambda>m. simple_message (hm_role m) (hm_content m)) xs)"
    proof (cases "pp_conv_messages params = [] \<and> keyed_session p params")
      case True
      then have "conv = map (\<lambda>m. simple_message (hm_role m) (hm_content m)) (fst (hist_get now (pp_session_key params) h))"
        by (simp add: conv_def conv_part_def split: prod.split)
      then show ?thesis by blast
    next
      case False
      then have "conv = [] \<or> conv = map conv_message (pp_conv_messages params)" by (auto simp: conv_def conv_part_def)
      then show ?thesis by blast
    qed
    then show "system_unmarked conv" "part_marks conv = 0" "cache_marks conv = 0"
      using unmarked_conv unmarked_plain[of hm_role hm_content] by (auto simp: system_unmarked_def[of "[]"])
  qed
  have a: "system_unmarked (sys @ conv)" "part_marks (sys @ conv) = part_marks sys" "cache_marks (sys @ conv) = part_marks sys"
    using s u by (simp_all add: system_unmarked_append)
  show ?thesis
    using c s(2) a tag_last_marks[OF a(1)] system_unmarked_tag[OF a(1)]
    by (cases t; cases "is_anthropic p params") (auto simp: t_def)
qed

lemma user_message_marks: "cache_marks [prov_user_message read prompt ms] = 0 \<and> mm_role (prov_user_message read prompt ms) = ''user'' \<and>
    part_marks [prov_user_message read prompt ms] = 0"
proof -
  have "\<forall>b \<in> set (List.map_filter (build_vision_block read) ms). \<not> cb_cache b"
    by (auto simp: List.map_filter_def build_vision_block_def text_part_def split: if_splits option.splits)
  then have "filter cb_cache (List.map_filter (build_vision_block read) ms) = []" by (simp add: filter_empty_conv)
  then show ?thesis by (simp add: prov_user_message_def simple_message_def text_part_def Let_def)
qed

text \<open>What a request ends with, and how much of it is marked for caching. The last message is the
  user's, with the prompt (or its media and the prompt without the instructions for them); no request
  carries more than two cache marks, where the API allows four, and none unless the model is
  Anthropic's; marking again, as the tool loop does before each further request, keeps this.\<close>

theorem build_messages_exact:
  "fst (build_messages p read now prompt params h) \<noteq> [] \<and>
   mm_role (last (fst (build_messages p read now prompt params h))) = ''user'' \<and>
   (mm_content (last (fst (build_messages p read now prompt params h))) = prompt \<or>
    last (fst (build_messages p read now prompt params h)) = prov_user_message read prompt (pp_media params)) \<and>
   cache_marks (fst (build_messages p read now prompt params h)) \<le> (if is_anthropic p params then 2 else 0) \<and>
   cache_marks (tag_last_message_cache (fst (build_messages p read now prompt params h) @ map conv_message extra)) \<le> 2"
proof -
  define past where "past = fst (past_messages p now params h)"
  define ms where "ms = fst (build_messages p read now prompt params h)"
  have m: "ms = (if past \<noteq> [] \<and> mm_role (last past) = ''user'' \<and> mm_content (last past) = prompt then past
                 else past @ [prov_user_message read prompt (pp_media params)])"
    by (simp add: ms_def past_def build_messages_def Let_def split: prod.split)
  have pm: "system_unmarked past" "part_marks past \<le> (if is_anthropic p params then 1 else 0)"
    "cache_marks past \<le> (if is_anthropic p params then 2 else 0)"
    unfolding past_def using past_messages_marks by blast+
  note u = user_message_marks[of read prompt "pp_media params"]
  have "system_unmarked (ms @ map conv_message extra)" "part_marks (ms @ map conv_message extra) \<le> 1"
    using pm u unmarked_conv[of extra] m by (auto simp: system_unmarked_append system_unmarked_def split: if_splits)
  then have "cache_marks (tag_last_message_cache (ms @ map conv_message extra)) \<le> 2"
    using tag_last_marks[of "ms @ map conv_message extra"] by simp
  moreover have "ms \<noteq> [] \<and> mm_role (last ms) = ''user'' \<and>
      (mm_content (last ms) = prompt \<or> last ms = prov_user_message read prompt (pp_media params))"
    unfolding m using u by simp
  moreover have "cache_marks ms \<le> (if is_anthropic p params then 2 else 0)" unfolding m using pm(3) u by (auto split: if_splits)
  ultimately show ?thesis unfolding ms_def by blast
qed

text \<open>When the conversation already ends with the prompt, the media of the request are not sent.\<close>

theorem media_dropped_with_present_prompt:
  assumes "pp_conv_messages params = cs @ [c]" and "cm_role c = ''user''" and "cm_content c = prompt" and "\<not> is_anthropic p params"
  shows "fst (build_messages p read now prompt (params\<lparr>pp_media := ms\<rparr>) h) =
    fst (build_messages p read now prompt (params\<lparr>pp_media := []\<rparr>) h)"
proof -
  have a: "\<not> is_anthropic p (params\<lparr>pp_media := xs\<rparr>)" for xs using assms(4) by (simp add: is_anthropic_def split: if_splits)
  then have "past_messages p now (params\<lparr>pp_media := xs\<rparr>) h =
      (prov_system_message False (pp_cache_breakpoint params) (pp_system_prompts params) @ map conv_message cs @ [conv_message c], h)" for xs
    using assms(1) by (simp add: past_messages_def conv_part_def Let_def)
  then show ?thesis using assms(2,3)
    by (simp add: build_messages_def conv_message_def simple_message_def Let_def)
qed

definition demo_params_chat :: provider_params where
  "demo_params_chat =
     \<lparr>pp_model = ''m'', pp_tools = [], pp_write_capable = False, pp_effort = [], pp_system_prompts = [''s''],
      pp_cache_breakpoint = 0, pp_max_turns = 0, pp_resume = [], pp_data_dir = [], pp_env = [], pp_session_key = [],
      pp_conv_messages = [\<lparr>cm_role = ''user'', cm_content = ''look'', cm_tool_calls = [], cm_tool_call_id = []\<rparr>], pp_media = []\<rparr>"

definition demo_api :: api_provider where
  "demo_api =
     \<lparr>apv_name = ''b'', apv_api_key = [], apv_base_url = ''http://h'', apv_headers = [], apv_default_model = [],
      apv_max_tokens = 4096, apv_auth = ''bearer'', apv_history = False\<rparr>"

theorem media_dropped_with_present_prompt_witness:
  "fst (build_messages demo_api (\<lambda>_. Some ''x'') 0 ''look''
     (demo_params_chat\<lparr>pp_media := [\<lparr>me_type = ''photo'', me_file_name = ''p'', me_mime_type = ''image/png'', me_temp_path = ''/t'',
        me_frame_paths = [], me_transcript = [], me_text_content = []\<rparr>]\<rparr>) (new_history Map.empty 0 0)) =
   fst (build_messages demo_api (\<lambda>_. Some ''x'') 0 ''look'' (demo_params_chat\<lparr>pp_media := []\<rparr>) (new_history Map.empty 0 0))"
  by (rule media_dropped_with_present_prompt[where cs = "[]"
        and c = "\<lparr>cm_role = ''user'', cm_content = ''look'', cm_tool_calls = [], cm_tool_call_id = []\<rparr>"])
     (simp_all add: demo_params_chat_def is_anthropic_def demo_api_def)

end
