(* ===== verification/Provider_Stream.thy ===== *)
theory Provider_Stream
  imports Provider_Messages Comms_Stream Json_Parse
begin

text \<open>
  The second half of \<open>internal/ai/provider/api.go\<close>: a request, its retries, and the assembly of the answer from
  the server-sent events of the response. The HTTP client is an argument: it gives an error or a
  response, whose body is the list of lines the scanner delivers before it stops, for whatever
  reason it stops. The wait before a retry is an argument too. A result comes with the progress
  events, in order, and the number of requests that were sent.
\<close>

section \<open>Chunks\<close>

record delta_call =
  dc_index :: int
  dc_id :: string
  dc_name :: string
  dc_arguments :: string

record delta =
  dl_content :: "string option"
  dl_reasoning :: "string option"
  dl_calls :: "delta_call list"

record choice =
  ch_delta :: delta
  ch_finish :: "string option"

record chunk_usage =
  ug_prompt :: int
  ug_completion :: int
  ug_cached :: "int option"

record chunk =
  ck_choices :: "choice list"
  ck_usage :: "chunk_usage option"

definition dec_ptr_string :: "json \<Rightarrow> string option option" where
  "dec_ptr_string v = (case v of JNull \<Rightarrow> Some None | JStr x \<Rightarrow> Some (Some x) | _ \<Rightarrow> None)"

definition function_member :: "string \<Rightarrow> json \<Rightarrow> delta_call \<Rightarrow> delta_call option" where
  "function_member k v d =
     (if k = ''name'' then map_option (\<lambda>x. d\<lparr>dc_name := x\<rparr>) (dec_string v (dc_name d))
      else if k = ''arguments'' then map_option (\<lambda>x. d\<lparr>dc_arguments := x\<rparr>) (dec_string v (dc_arguments d))
      else Some d)"

definition delta_call_member :: "string \<Rightarrow> json \<Rightarrow> delta_call \<Rightarrow> delta_call option" where
  "delta_call_member k v d =
     (if k = ''index'' then map_option (\<lambda>x. d\<lparr>dc_index := x\<rparr>) (dec_int v (dc_index d))
      else if k = ''id'' then map_option (\<lambda>x. d\<lparr>dc_id := x\<rparr>) (dec_string v (dc_id d))
      else if k = ''type'' then map_option (\<lambda>x. d) (dec_string v [])
      else if k = ''function'' then dec_struct function_member v d
      else Some d)"

definition zero_delta_call :: delta_call where
  "zero_delta_call = \<lparr>dc_index = 0, dc_id = [], dc_name = [], dc_arguments = []\<rparr>"

definition delta_member :: "string \<Rightarrow> json \<Rightarrow> delta \<Rightarrow> delta option" where
  "delta_member k v d =
     (if k = ''content'' then map_option (\<lambda>x. d\<lparr>dl_content := x\<rparr>) (dec_ptr_string v)
      else if k = ''reasoning'' then map_option (\<lambda>x. d\<lparr>dl_reasoning := x\<rparr>) (dec_ptr_string v)
      else if k = ''tool_calls'' then
        map_option (\<lambda>x. d\<lparr>dl_calls := x\<rparr>) (dec_slice (dec_struct delta_call_member) zero_delta_call v (dl_calls d))
      else Some d)"

definition zero_delta :: delta where
  "zero_delta = \<lparr>dl_content = None, dl_reasoning = None, dl_calls = []\<rparr>"

definition choice_member :: "string \<Rightarrow> json \<Rightarrow> choice \<Rightarrow> choice option" where
  "choice_member k v c =
     (if k = ''delta'' then map_option (\<lambda>x. c\<lparr>ch_delta := x\<rparr>) (dec_struct delta_member v (ch_delta c))
      else if k = ''finish_reason'' then map_option (\<lambda>x. c\<lparr>ch_finish := x\<rparr>) (dec_ptr_string v)
      else Some c)"

definition details_member :: "string \<Rightarrow> json \<Rightarrow> int \<Rightarrow> int option" where
  "details_member k v n = (if k = ''cached_tokens'' then dec_int v n else Some n)"

definition usage_member :: "string \<Rightarrow> json \<Rightarrow> chunk_usage \<Rightarrow> chunk_usage option" where
  "usage_member k v u =
     (if k = ''prompt_tokens'' then map_option (\<lambda>x. u\<lparr>ug_prompt := x\<rparr>) (dec_int v (ug_prompt u))
      else if k = ''completion_tokens'' then map_option (\<lambda>x. u\<lparr>ug_completion := x\<rparr>) (dec_int v (ug_completion u))
      else if k = ''prompt_tokens_details'' then
        (if v = JNull then Some (u\<lparr>ug_cached := None\<rparr>)
         else map_option (\<lambda>x. u\<lparr>ug_cached := Some x\<rparr>)
                (dec_struct details_member v (case ug_cached u of None \<Rightarrow> 0 | Some n \<Rightarrow> n)))
      else Some u)"

definition chunk_member :: "string \<Rightarrow> json \<Rightarrow> chunk \<Rightarrow> chunk option" where
  "chunk_member k v c =
     (if k = ''choices'' then
        map_option (\<lambda>x. c\<lparr>ck_choices := x\<rparr>)
          (dec_slice (dec_struct choice_member) \<lparr>ch_delta = zero_delta, ch_finish = None\<rparr> v (ck_choices c))
      else if k = ''usage'' then
        (if v = JNull then Some (c\<lparr>ck_usage := None\<rparr>)
         else map_option (\<lambda>x. c\<lparr>ck_usage := Some x\<rparr>)
                (dec_struct usage_member v
                   (case ck_usage c of None \<Rightarrow> \<lparr>ug_prompt = 0, ug_completion = 0, ug_cached = None\<rparr> | Some u \<Rightarrow> u)))
      else Some c)"

definition parse_chunk :: "string \<Rightarrow> chunk option" where
  "parse_chunk payload =
     (case parse_json payload of
        None \<Rightarrow> None | Some v \<Rightarrow> dec_struct chunk_member v \<lparr>ck_choices = [], ck_usage = None\<rparr>)"

section \<open>The stream\<close>

record stream_acc =
  sa_text :: string
  sa_calls :: "(int \<times> model_tool_call) list"
  sa_finish :: string
  sa_input :: int
  sa_output :: int
  sa_cached :: int
  sa_events :: "stream_event list"

definition progress :: "string \<Rightarrow> string \<Rightarrow> string \<Rightarrow> stream_event" where
  "progress ty detail t = \<lparr>pe_type = ty, pe_text = t, pe_detail = detail\<rparr>"

definition add_usage :: "chunk_usage option \<Rightarrow> stream_acc \<Rightarrow> stream_acc" where
  "add_usage u a =
     (case u of
        None \<Rightarrow> a
      | Some u \<Rightarrow>
          a\<lparr>sa_input := (if ug_prompt u > 0 then ug_prompt u else sa_input a),
            sa_output := (if ug_completion u > 0 then ug_completion u else sa_output a),
            sa_cached := (case ug_cached u of Some n \<Rightarrow> if n > 0 then n else sa_cached a | None \<Rightarrow> sa_cached a)\<rparr>)"

definition grow_call :: "delta_call \<Rightarrow> model_tool_call option \<Rightarrow> model_tool_call" where
  "grow_call d old =
     (let c = (case old of Some c \<Rightarrow> c
               | None \<Rightarrow> \<lparr>mtc_id = [], mtc_type = ''function'', mtc_name = [], mtc_arguments = []\<rparr>)
      in c\<lparr>mtc_id := (if dc_id d \<noteq> [] then dc_id d else mtc_id c),
           mtc_name := mtc_name c @ dc_name d, mtc_arguments := mtc_arguments c @ dc_arguments d\<rparr>)"

definition add_call :: "delta_call \<Rightarrow> stream_acc \<Rightarrow> stream_acc" where
  "add_call d a =
     (let c = grow_call d (map_of (sa_calls a) (dc_index d)) in
      a\<lparr>sa_calls := AList.update (dc_index d) c (sa_calls a),
        sa_events := sa_events a @
          (if dc_name d \<noteq> [] then [progress ''tool_use'' (mtc_name c) []] else []) @
          (if dc_arguments d \<noteq> [] then [progress ''tool_input'' (mtc_name c) (dc_arguments d)] else [])\<rparr>)"

definition delta_text :: "string option \<Rightarrow> string" where
  "delta_text t = (case t of None \<Rightarrow> [] | Some t \<Rightarrow> t)"

definition add_choice :: "choice \<Rightarrow> stream_acc \<Rightarrow> stream_acc" where
  "add_choice ch a =
     (let d = ch_delta ch; th = delta_text (dl_reasoning d); t = delta_text (dl_content d) in
      fold add_call (dl_calls d)
        (a\<lparr>sa_finish := (case ch_finish ch of Some f \<Rightarrow> f | None \<Rightarrow> sa_finish a),
           sa_text := sa_text a @ t,
           sa_events := sa_events a @
             (if th \<noteq> [] then [progress ''thinking'' [] th] else []) @
             (if t \<noteq> [] then [progress ''text_delta'' [] t] else [])\<rparr>))"

definition add_chunk :: "chunk \<Rightarrow> stream_acc \<Rightarrow> stream_acc" where
  "add_chunk ck a = fold add_choice (ck_choices ck) (add_usage (ck_usage ck) a)"

fun read_lines :: "string list \<Rightarrow> stream_acc \<Rightarrow> stream_acc" where
  "read_lines [] a = a"
| "read_lines (line # ls) a =
     (if \<not> has_prefix line ''data: '' then read_lines ls a
      else if drop 6 line = ''[DONE]'' then a
      else (case parse_chunk (drop 6 line) of
              None \<Rightarrow> read_lines ls a
            | Some ck \<Rightarrow> read_lines ls (add_chunk ck a)))"

definition new_acc :: "int \<Rightarrow> int \<Rightarrow> stream_acc" where
  "new_acc input output =
     \<lparr>sa_text = [], sa_calls = [], sa_finish = [], sa_input = input, sa_output = output, sa_cached = 0, sa_events = []\<rparr>"

definition collect_calls :: "stream_acc \<Rightarrow> model_tool_call list" where
  "collect_calls a = List.map_filter (\<lambda>i. map_of (sa_calls a) (int i)) [0..<length (sa_calls a)]"

section \<open>Requests\<close>

record api_request =
  rq_model :: string
  rq_messages :: "model_message list"
  rq_max_tokens :: int
  rq_tools :: string
  rq_tool_choice :: string
  rq_parallel :: "bool option"
  rq_reasoning :: "string option"
  rq_usage :: bool

record http_response =
  hr_status :: int
  hr_body :: string
  hr_prompt_tokens :: "int option"
  hr_completion_tokens :: "int option"
  hr_lines :: "string list"
  hr_ctx :: "string option"

record 'w http_client =
  hc_do :: "api_request \<Rightarrow> 'w \<Rightarrow> (string + http_response) \<times> 'w"
  hc_wait :: "duration \<Rightarrow> 'w \<Rightarrow> string option \<times> 'w"

record stream_result =
  sr_text :: string
  sr_calls :: "model_tool_call list"
  sr_finish :: string
  sr_model :: string
  sr_input :: int
  sr_output :: int
  sr_cached :: int

record 'w reply =
  ry_result :: "stream_result res"
  ry_events :: "stream_event list"
  ry_requests :: nat
  ry_world :: 'w

definition trunc_body :: "string \<Rightarrow> string" where "trunc_body body = clip 300 (trim_space body)"

definition translate_api_error :: "int \<Rightarrow> string \<Rightarrow> string" where
  "translate_api_error status body =
     (if status = 404 \<and> str_contains body ''No endpoints found that support image input''
      then ''The active model does not support image input. Switch to an image-capable model (e.g. gpt-4o, claude-sonnet) or remove the attachment.''
      else if status = 404 \<and> str_contains body ''No endpoints found''
      then ''No provider endpoint matches this request for the selected model. The model may be unavailable or incompatible with the requested feature.''
      else [])"

text \<open>What a complete response with status 200 gives; \<open>None\<close> is an empty answer.\<close>

definition read_response :: "string \<Rightarrow> http_response \<Rightarrow> stream_result option \<times> stream_event list" where
  "read_response model r =
     (let a = read_lines (hr_lines r)
                (new_acc (case hr_prompt_tokens r of Some n \<Rightarrow> n | None \<Rightarrow> 0)
                   (case hr_completion_tokens r of Some n \<Rightarrow> n | None \<Rightarrow> 0));
          text = trim_space (sa_text a); calls = collect_calls a
      in (if text = [] \<and> calls = [] then None
          else Some \<lparr>sr_text = text, sr_calls = calls, sr_finish = sa_finish a, sr_model = model,
                     sr_input = sa_input a, sr_output = sa_output a, sr_cached = sa_cached a\<rparr>,
          sa_events a))"

function do_stream_request :: "'w http_client \<Rightarrow> api_provider \<Rightarrow> api_request \<Rightarrow> nat \<Rightarrow> 'w \<Rightarrow> 'w reply" where
  "do_stream_request hc p req attempt w =
     (case hc_do hc req w of
        (Inl e, w1) \<Rightarrow>
          \<lparr>ry_result = Err (''api request ('' @ apv_name p @ ''): '' @ e), ry_events = [], ry_requests = 1, ry_world = w1\<rparr>
      | (Inr r, w1) \<Rightarrow>
          if hr_status r = 429 \<and> attempt < 3 then
            (case hc_wait hc (2 ^ attempt * second) w1 of
               (Some e, w2) \<Rightarrow> \<lparr>ry_result = Err e, ry_events = [], ry_requests = 1, ry_world = w2\<rparr>
             | (None, w2) \<Rightarrow>
                 let next = do_stream_request hc p req (attempt + 1) w2 in next\<lparr>ry_requests := ry_requests next + 1\<rparr>)
          else if hr_status r \<noteq> 200 then
            let msg = translate_api_error (hr_status r) (hr_body r) in
            \<lparr>ry_result = Err (if msg \<noteq> [] then msg
                              else ''api['' @ apv_name p @ ''] error '' @ show_int (hr_status r) @ '': '' @ trunc_body (hr_body r)),
             ry_events = [], ry_requests = 1, ry_world = w1\<rparr>
          else
            (case read_response (rq_model req) r of (res, evs) \<Rightarrow>
               (case hr_ctx r of
                  Some e \<Rightarrow> \<lparr>ry_result = Err e, ry_events = evs, ry_requests = 1, ry_world = w1\<rparr>
                | None \<Rightarrow>
                    (case res of
                       Some sr \<Rightarrow> \<lparr>ry_result = Ok sr, ry_events = evs, ry_requests = 1, ry_world = w1\<rparr>
                     | None \<Rightarrow>
                         if attempt < 1 then
                           let next = do_stream_request hc p req (attempt + 1) w1
                           in next\<lparr>ry_requests := ry_requests next + 1, ry_events := evs @ ry_events next\<rparr>
                         else \<lparr>ry_result = Err (''api['' @ apv_name p @ ''] returned empty response''), ry_events = evs,
                               ry_requests = 1, ry_world = w1\<rparr>))))"
  by pat_completeness auto
termination
  by (relation "measure (\<lambda>(hc, p, req, attempt, w). 4 - attempt)") auto

declare do_stream_request.simps [simp del]

definition request_for :: "api_provider \<Rightarrow> model_message list \<Rightarrow> string \<Rightarrow> string \<Rightarrow> string \<Rightarrow> api_request" where
  "request_for p messages model tools effort =
     \<lparr>rq_model = model, rq_messages = messages, rq_max_tokens = apv_max_tokens p, rq_tools = tools,
      rq_tool_choice = (if is_ollama_compat p \<and> tools \<noteq> [] then ''auto'' else []),
      rq_parallel = (if \<not> is_direct_openai p \<and> tools \<noteq> [] then Some False else None),
      rq_reasoning = (if effort \<noteq> [] \<and> \<not> is_ollama_compat p then Some effort else None),
      rq_usage = (\<not> (is_ollama_compat p \<and> tools \<noteq> []))\<rparr>"

definition do_request ::
  "'w http_client \<Rightarrow> api_provider \<Rightarrow> model_message list \<Rightarrow> string \<Rightarrow> string \<Rightarrow> string \<Rightarrow> 'w \<Rightarrow> 'w reply" where
  "do_request hc p messages model tools effort w =
     do_stream_request hc p (request_for p messages model tools effort) 0 w"

record invoke_result =
  ir_text :: string
  ir_model :: string
  ir_turns :: int
  ir_input :: int
  ir_output :: int

text \<open>\<open>Invoke\<close> without a tool loop; the arguments are the clock and whether the history file can be written.\<close>

definition api_invoke ::
  "'w http_client \<Rightarrow> api_provider \<Rightarrow> (string \<Rightarrow> string option) \<Rightarrow> bool \<Rightarrow> gotime \<Rightarrow> string \<Rightarrow> provider_params
   \<Rightarrow> prov_history \<Rightarrow> 'w \<Rightarrow> invoke_result res \<times> stream_event list \<times> prov_history \<times> 'w" where
  "api_invoke hc p read ok now prompt params h w =
     (let model = (if pp_model params = [] then apv_default_model p else pp_model params) in
      if model = [] then
        (Err (''api['' @ apv_name p @ '']: no model configured (pass Params.Model or set APIProviderConfig.DefaultModel)''), [], h, w)
      else
        let (messages, h1) = build_messages p read now prompt params h;
            r = do_stream_request hc p (request_for p messages model [] (pp_effort params)) 0 w
        in (case ry_result r of
              Inl e \<Rightarrow> (Err e, ry_events r, h1, ry_world r)
            | Inr sr \<Rightarrow>
                let text = (if sr_text sr = [] \<and> sr_calls sr \<noteq> []
                            then ''Model attempted tool calls but no tool loop is configured: '' @
                              str_join '', '' (map (\<lambda>c. ''[tool_call: '' @ mtc_name c @ ''('' @ mtc_arguments c @ '')]'') (sr_calls sr))
                            else sr_text sr);
                    key = pp_session_key params;
                    h2 = (if pp_conv_messages params = [] \<and> key \<noteq> [] \<and> apv_history p
                          then hist_append ok now key \<lparr>hm_role = ''assistant'', hm_content = text\<rparr>
                                 (hist_append ok now key \<lparr>hm_role = ''user'', hm_content = prompt\<rparr> h1)
                          else h1)
                in (Ok \<lparr>ir_text = text, ir_model = model, ir_turns = 0, ir_input = sr_input sr, ir_output = sr_output sr\<rparr>,
                    ry_events r, h2, ry_world r)))"

section \<open>What is assembled\<close>

fun stream_chunks :: "string list \<Rightarrow> chunk list" where
  "stream_chunks [] = []"
| "stream_chunks (line # ls) =
     (if \<not> has_prefix line ''data: '' then stream_chunks ls
      else if drop 6 line = ''[DONE]'' then []
      else (case parse_chunk (drop 6 line) of None \<Rightarrow> stream_chunks ls | Some ck \<Rightarrow> ck # stream_chunks ls))"

lemma read_lines_chunks: "read_lines ls a = fold add_chunk (stream_chunks ls) a"
  by (induction ls arbitrary: a) (auto split: option.split)

definition stream_deltas :: "string list \<Rightarrow> delta list" where
  "stream_deltas ls = map ch_delta (concat (map ck_choices (stream_chunks ls)))"

definition texts :: "stream_event list \<Rightarrow> string" where
  "texts evs = concat (map pe_text (filter (\<lambda>e. pe_type e = ''text_delta'') evs))"

lemma texts_append [simp]: "texts (xs @ ys) = texts xs @ texts ys" "texts [] = []"
  by (simp_all add: texts_def)

lemma texts_progress [simp]: "texts [progress ty d t] = (if ty = ''text_delta'' then t else [])"
  by (simp add: texts_def progress_def)

text \<open>What the calls of some deltas do to the map of calls.\<close>

abbreviation grow_calls :: "delta_call list \<Rightarrow> (int \<times> model_tool_call) list \<Rightarrow> (int \<times> model_tool_call) list" where
  "grow_calls \<equiv> fold (\<lambda>d cs. AList.update (dc_index d) (grow_call d (map_of cs (dc_index d))) cs)"

lemma add_call_other [simp]:
  "sa_text (add_call d a) = sa_text a" "texts (sa_events (add_call d a)) = texts (sa_events a)"
  by (simp_all add: add_call_def Let_def)

lemma add_calls_other [simp]:
  "sa_text (fold add_call ds a) = sa_text a" "texts (sa_events (fold add_call ds a)) = texts (sa_events a)"
  by (induction ds arbitrary: a) simp_all

lemma sa_calls_fold:
  "sa_calls (fold add_call ds a) = grow_calls ds (sa_calls a)"
  by (induction ds arbitrary: a) (simp_all add: add_call_def Let_def)

lemma add_choice_sem:
  "sa_text (add_choice ch a) = sa_text a @ delta_text (dl_content (ch_delta ch))"
  "texts (sa_events (add_choice ch a)) = texts (sa_events a) @ delta_text (dl_content (ch_delta ch))"
  "sa_calls (add_choice ch a) =
     grow_calls (dl_calls (ch_delta ch)) (sa_calls a)"
  by (simp_all add: add_choice_def sa_calls_fold Let_def)

lemma add_usage_sem [simp]:
  "sa_text (add_usage u a) = sa_text a" "sa_events (add_usage u a) = sa_events a" "sa_calls (add_usage u a) = sa_calls a"
  by (simp_all add: add_usage_def split: option.split)

lemma add_choices_sem:
  "sa_text (fold add_choice chs a) = sa_text a @ concat (map (\<lambda>ch. delta_text (dl_content (ch_delta ch))) chs) \<and>
   texts (sa_events (fold add_choice chs a)) = texts (sa_events a) @ concat (map (\<lambda>ch. delta_text (dl_content (ch_delta ch))) chs) \<and>
   sa_calls (fold add_choice chs a) =
     grow_calls
       (concat (map (\<lambda>ch. dl_calls (ch_delta ch)) chs)) (sa_calls a)"
  by (induction chs arbitrary: a) (simp_all add: add_choice_sem)

lemma stream_sem:
  "sa_text (read_lines ls a) = sa_text a @ concat (map (\<lambda>d. delta_text (dl_content d)) (stream_deltas ls)) \<and>
   texts (sa_events (read_lines ls a)) = texts (sa_events a) @ concat (map (\<lambda>d. delta_text (dl_content d)) (stream_deltas ls)) \<and>
   sa_calls (read_lines ls a) =
     grow_calls
       (concat (map dl_calls (stream_deltas ls))) (sa_calls a)"
proof -
  have "sa_text (fold add_chunk cks a) = sa_text a @ concat (map (\<lambda>ch. delta_text (dl_content (ch_delta ch))) (concat (map ck_choices cks))) \<and>
      texts (sa_events (fold add_chunk cks a)) =
        texts (sa_events a) @ concat (map (\<lambda>ch. delta_text (dl_content (ch_delta ch))) (concat (map ck_choices cks))) \<and>
      sa_calls (fold add_chunk cks a) =
        grow_calls
          (concat (map (\<lambda>ch. dl_calls (ch_delta ch)) (concat (map ck_choices cks)))) (sa_calls a)" for cks
    by (induction cks arbitrary: a) (simp_all add: add_chunk_def add_choices_sem)
  then show ?thesis by (simp add: read_lines_chunks stream_deltas_def o_def)
qed

text \<open>The call of an index: the last id that is not empty, and the pieces of its name and arguments joined.\<close>

definition assembled :: "delta_call list \<Rightarrow> int \<Rightarrow> model_tool_call" where
  "assembled ds i =
     (let mine = filter (\<lambda>d. dc_index d = i) ds in
      \<lparr>mtc_id = fold (\<lambda>d x. if dc_id d \<noteq> [] then dc_id d else x) mine [], mtc_type = ''function'',
       mtc_name = concat (map dc_name mine), mtc_arguments = concat (map dc_arguments mine)\<rparr>)"

lemma grow_assembled:
  "dc_index d = i \<Longrightarrow> grow_call d (if i \<in> dc_index ` set ds then Some (assembled ds i) else None) = assembled (ds @ [d]) i"
proof (cases "i \<in> dc_index ` set ds")
  case False
  then have "filter (\<lambda>d. dc_index d = i) ds = []" by (auto simp: filter_empty_conv)
  then show "dc_index d = i \<Longrightarrow> ?thesis" using False by (simp add: grow_call_def assembled_def Let_def)
qed (simp add: grow_call_def assembled_def Let_def)

lemma assembled_other: "dc_index d \<noteq> i \<Longrightarrow> assembled (ds @ [d]) i = assembled ds i"
  by (simp add: assembled_def)

lemma map_of_calls:
  "map_of (grow_calls ds []) i = (if i \<in> dc_index ` set ds then Some (assembled ds i) else None)"
proof (induction ds rule: rev_induct)
  case (snoc d ds)
  have "map_of (grow_calls (ds @ [d]) []) i =
      (if i = dc_index d then Some (grow_call d (map_of (grow_calls ds []) i)) else map_of (grow_calls ds []) i)"
    by (simp add: update_conv')
  also have "\<dots> = (if i \<in> dc_index ` set (ds @ [d]) then Some (assembled (ds @ [d]) i) else None)"
    unfolding snoc using grow_assembled[of d i ds] assembled_other[of d i ds] by auto
  finally show ?case .
qed simp

lemma keys_of_calls:
  "distinct (map fst cs) \<Longrightarrow>
   distinct (map fst (grow_calls ds cs))"
  by (induction ds arbitrary: cs) (simp_all add: distinct_update)

lemma length_calls:
  "length (grow_calls ds []) = card (dc_index ` set ds)"
proof -
  let ?cs = "grow_calls ds []"
  have d: "distinct (map fst ?cs)" using keys_of_calls[of "[]"] by simp
  have "fst ` set ?cs = dom (map_of ?cs)" by (simp add: dom_map_of_conv_image_fst)
  also have "\<dots> = dc_index ` set ds" by (auto simp: map_of_calls dom_def)
  finally have "card (set (map fst ?cs)) = card (dc_index ` set ds)" by simp
  then show ?thesis using distinct_card[OF d] by simp
qed

text \<open>Lines as a provider sends them: some text, and a piece of a tool call.\<close>

definition data_line :: "json \<Rightarrow> string" where
  "data_line v = ''data: '' @ json_text v"

definition content_chunk :: "string \<Rightarrow> json" where
  "content_chunk t = JObj [(''choices'', JArr [JObj [(''delta'', JObj [(''content'', JStr t)])]])]"

definition call_chunk :: "string \<Rightarrow> string \<Rightarrow> string \<Rightarrow> json" where
  "call_chunk i name args =
     JObj [(''choices'', JArr [JObj [(''delta'', JObj [(''tool_calls'', JArr [JObj
       [(''index'', JNum ''0''), (''id'', JStr i), (''function'', JObj [(''name'', JStr name), (''arguments'', JStr args)])]])])]])]"

lemma data_line_chunks:
  assumes "json_nums_ok v" and "json_depth v \<le> maxNestingDepth" and "v = JObj ms"
  shows "stream_chunks (data_line v # ls) =
    (case dec_struct chunk_member v \<lparr>ck_choices = [], ck_usage = None\<rparr> of
       None \<Rightarrow> stream_chunks ls | Some ck \<Rightarrow> ck # stream_chunks ls)"
proof -
  have "json_text v \<noteq> ''[DONE]''" using assms(3) by simp
  then show ?thesis
    using parse_json_text[OF assms(1,2)] by (simp add: data_line_def parse_chunk_def has_prefix_def)
qed

lemma content_chunk_chunks:
  "stream_chunks (data_line (content_chunk t) # ls) =
   \<lparr>ck_choices = [\<lparr>ch_delta = zero_delta\<lparr>dl_content := Some t\<rparr>, ch_finish = None\<rparr>], ck_usage = None\<rparr> # stream_chunks ls"
  by (subst data_line_chunks)
     (simp_all add: content_chunk_def maxNestingDepth_def dec_struct_def chunk_member_def choice_member_def delta_member_def
        dec_slice_def dec_ptr_string_def to_lower_def lower_char_def)

lemma zero_literal: "num_literal ''0''" "int_literal ''0'' = Some 0"
  by (auto simp: num_literal_def delimited_def parse_num_def parse_int_part_def parse_frac_def parse_exp_def Json_Parse.is_digit_def
      neq_Nil_conv split: list.split)
    code_simp

lemma call_chunk_chunks:
  "stream_chunks (data_line (call_chunk i name args) # ls) =
   \<lparr>ck_choices = [\<lparr>ch_delta = zero_delta\<lparr>dl_calls := [\<lparr>dc_index = 0, dc_id = i, dc_name = name, dc_arguments = args\<rparr>]\<rparr>, ch_finish = None\<rparr>],
    ck_usage = None\<rparr> # stream_chunks ls"
  by (subst data_line_chunks)
     (simp_all add: call_chunk_def maxNestingDepth_def dec_struct_def chunk_member_def choice_member_def delta_member_def
        delta_call_member_def function_member_def zero_delta_call_def zero_delta_def zero_literal dec_int_def dec_string_def
        dec_slice_def dec_ptr_string_def to_lower_def lower_char_def)

lemma other_lines:
  "stream_chunks (''data: [DONE]'' # ls) = []" "stream_chunks ('': comment'' # ls) = stream_chunks ls"
  by (simp_all add: has_prefix_def)

lemmas line_chunks = call_chunk_chunks content_chunk_chunks other_lines

text \<open>C8. The answer is assembled from any split into chunks: the text and the stream of text events are the
  content of the chunks in order, and when the tool calls are numbered 0, 1, ... each call is
  recovered with its id and the pieces of its name and arguments joined, in the order of the numbers,
  however the pieces of different calls are interleaved. Lines that are no data or no JSON are
  skipped, and nothing after the end mark counts.\<close>

theorem stream_assembled:
  assumes "dc_index ` set (concat (map dl_calls (stream_deltas ls))) = int ` {..<n}"
  shows "sa_text (read_lines ls (new_acc i out)) = concat (map (\<lambda>d. delta_text (dl_content d)) (stream_deltas ls)) \<and>
    texts (sa_events (read_lines ls (new_acc i out))) = sa_text (read_lines ls (new_acc i out)) \<and>
    collect_calls (read_lines ls (new_acc i out)) =
      map (\<lambda>k. assembled (concat (map dl_calls (stream_deltas ls))) (int k)) [0..<n]"
proof -
  let ?ds = "concat (map dl_calls (stream_deltas ls))"
  let ?a = "read_lines ls (new_acc i out)"
  have s: "sa_calls ?a = grow_calls ?ds []"
    using stream_sem[of ls "new_acc i out"] by (simp add: new_acc_def)
  have "card (int ` {..<n}) = n" by (simp add: card_image)
  then have len: "length (sa_calls ?a) = n" unfolding s length_calls assms by simp
  have m: "map_of (sa_calls ?a) (int k) = Some (assembled ?ds (int k))" if "k < n" for k
    using that assms unfolding s map_of_calls by auto
  have "List.map_filter (\<lambda>i. map_of (sa_calls ?a) (int i)) [0..<k] = map (\<lambda>k. assembled ?ds (int k)) [0..<k]" if "k \<le> n" for k
    using that m by (induction k) (auto simp: List.map_filter_def)
  then have "collect_calls ?a = map (\<lambda>k. assembled ?ds (int k)) [0..<n]" by (simp add: collect_calls_def len)
  then show ?thesis using stream_sem[of ls "new_acc i out"] by (simp add: new_acc_def)
qed

theorem stream_assembled_witness:
  "collect_calls (read_lines [data_line (call_chunk ''c'' ''ls'' ''{''), '': comment'', data_line (call_chunk [] [] ''}''), ''data: [DONE]''] (new_acc 0 0)) =
     [\<lparr>mtc_id = ''c'', mtc_type = ''function'', mtc_name = ''ls'', mtc_arguments = ''{}''\<rparr>]"
proof -
  let ?ls = "[data_line (call_chunk ''c'' ''ls'' ''{''), '': comment'', data_line (call_chunk [] [] ''}''), ''data: [DONE]'']"
  have d: "concat (map dl_calls (stream_deltas ?ls)) =
      [\<lparr>dc_index = 0, dc_id = ''c'', dc_name = ''ls'', dc_arguments = ''{''\<rparr>,
       \<lparr>dc_index = 0, dc_id = [], dc_name = [], dc_arguments = ''}''\<rparr>]"
    by (simp add: stream_deltas_def line_chunks zero_delta_def del: stream_chunks.simps)
  then have i: "dc_index ` set (concat (map dl_calls (stream_deltas ?ls))) = int ` {..<1}" by (simp add: lessThan_Suc)
  show ?thesis
    using stream_assembled[OF i, of 0 0, THEN conjunct2, THEN conjunct2] d by (simp add: assembled_def Let_def)
qed

text \<open>A provider that numbers its only call 1 instead of 0: the call is dropped.\<close>

theorem sparse_index_loses_call:
  assumes "dc_index ` set (concat (map dl_calls (stream_deltas ls))) = {1}"
  shows "sa_calls (read_lines ls (new_acc i out)) \<noteq> [] \<and> collect_calls (read_lines ls (new_acc i out)) = []"
proof -
  let ?ds = "concat (map dl_calls (stream_deltas ls))"
  let ?a = "read_lines ls (new_acc i out)"
  have s: "sa_calls ?a = grow_calls ?ds []"
    using stream_sem[of ls "new_acc i out"] by (simp add: new_acc_def)
  have "length (sa_calls ?a) = 1" unfolding s length_calls assms by simp
  moreover have "map_of (sa_calls ?a) 0 = None" using assms unfolding s map_of_calls by auto
  ultimately show ?thesis by (auto simp: collect_calls_def List.map_filter_def)
qed

end
