(* ===== verification/Error_Journal.thy ===== *)
theory Error_Journal
  imports Tooling_Registry
begin

text \<open>
  \<open>internal/tooling/errorjournal.go\<close>: the journal of the errors of tools and apps, a file with one JSON
  object per line. The file is its text, missing at first. A time is its RFC 3339 text, and reading
  one (\<open>time.Time\<close>'s decoder followed by its encoder) is an argument; the texts are valid UTF-8. The
  sources of the tools are the files of \<open>tools/\<close> and \<open>tools.d/\<close>, under names without separators.
\<close>

section \<open>Entries and lines\<close>

record tool_error =
  te_kind :: string
  te_tool :: string
  te_args :: string
  te_error :: string
  te_stack :: string
  te_source_hash :: string
  te_timestamp :: string
  te_resolved :: bool
  te_resolved_at :: "string option"

definition zero_error :: tool_error where
  "zero_error = \<lparr>te_kind = [], te_tool = [], te_args = [], te_error = [], te_stack = [], te_source_hash = [],
     te_timestamp = ''0001-01-01T00:00:00Z'', te_resolved = False, te_resolved_at = None\<rparr>"

definition ErrorKindTool :: string where "ErrorKindTool = ''tool''"
definition ErrorKindApp :: string where "ErrorKindApp = ''app''"
definition maxJournalEntries :: nat where "maxJournalEntries = 200"

definition omit_empty :: "string \<Rightarrow> string \<Rightarrow> (string \<times> json) list" where
  "omit_empty k v = (if v = [] then [] else [(k, JStr v)])"

definition error_json :: "tool_error \<Rightarrow> json" where
  "error_json e = JObj
     (omit_empty ''kind'' (te_kind e) @
      [(''tool'', JStr (te_tool e)), (''args'', JStr (te_args e)), (''error'', JStr (te_error e))] @
      omit_empty ''stack'' (te_stack e) @
      omit_empty ''source_hash'' (te_source_hash e) @
      [(''timestamp'', JStr (te_timestamp e)), (''resolved'', JBool (te_resolved e))] @
      (case te_resolved_at e of None \<Rightarrow> [] | Some t \<Rightarrow> [(''resolved_at'', JStr t)]))"

definition dec_time :: "(string \<Rightarrow> string option) \<Rightarrow> json \<Rightarrow> string \<Rightarrow> string option" where
  "dec_time tm v old = (case v of JNull \<Rightarrow> Some old | JStr x \<Rightarrow> tm x | _ \<Rightarrow> None)"

definition error_member :: "(string \<Rightarrow> string option) \<Rightarrow> string \<Rightarrow> json \<Rightarrow> tool_error \<Rightarrow> tool_error option" where
  "error_member tm k v e =
     (if k = ''kind'' then map_option (\<lambda>x. e\<lparr>te_kind := x\<rparr>) (dec_string v (te_kind e))
      else if k = ''tool'' then map_option (\<lambda>x. e\<lparr>te_tool := x\<rparr>) (dec_string v (te_tool e))
      else if k = ''args'' then map_option (\<lambda>x. e\<lparr>te_args := x\<rparr>) (dec_string v (te_args e))
      else if k = ''error'' then map_option (\<lambda>x. e\<lparr>te_error := x\<rparr>) (dec_string v (te_error e))
      else if k = ''stack'' then map_option (\<lambda>x. e\<lparr>te_stack := x\<rparr>) (dec_string v (te_stack e))
      else if k = ''source_hash'' then map_option (\<lambda>x. e\<lparr>te_source_hash := x\<rparr>) (dec_string v (te_source_hash e))
      else if k = ''timestamp'' then map_option (\<lambda>x. e\<lparr>te_timestamp := x\<rparr>) (dec_time tm v (te_timestamp e))
      else if k = ''resolved'' then map_option (\<lambda>x. e\<lparr>te_resolved := x\<rparr>) (dec_bool v (te_resolved e))
      else if k = ''resolved_at'' then
        (if v = JNull then Some (e\<lparr>te_resolved_at := None\<rparr>)
         else map_option (\<lambda>x. e\<lparr>te_resolved_at := Some x\<rparr>) (dec_time tm v []))
      else Some e)"

definition parse_error_line :: "(string \<Rightarrow> string option) \<Rightarrow> string \<Rightarrow> tool_error option" where
  "parse_error_line tm line =
     (case parse_json line of None \<Rightarrow> None | Some v \<Rightarrow> dec_struct (error_member tm) v zero_error)"

section \<open>The file\<close>

definition load_journal :: "(string \<Rightarrow> string option) \<Rightarrow> string option \<Rightarrow> tool_error list" where
  "load_journal tm file =
     (case file of
        None \<Rightarrow> []
      | Some data \<Rightarrow>
          List.map_filter (\<lambda>line. if line = [] then None else parse_error_line tm line)
            (split_at (CHR 0x0A) (trim_space data)))"

definition save_journal :: "tool_error list \<Rightarrow> string option" where
  "save_journal es = Some (str_join newline (map (\<lambda>e. json_text (error_json e)) es) @ newline)"

definition keep_last :: "nat \<Rightarrow> 'a list \<Rightarrow> 'a list" where
  "keep_last n xs = (if n < length xs then drop (length xs - n) xs else xs)"

definition append_locked :: "(string \<Rightarrow> string option) \<Rightarrow> tool_error \<Rightarrow> string option \<Rightarrow> string option" where
  "append_locked tm e file = save_journal (keep_last maxJournalEntries (load_journal tm file @ [e]))"

definition hash_tool_source :: "guard_conf \<Rightarrow> dir \<Rightarrow> dir \<Rightarrow> string \<Rightarrow> string" where
  "hash_tool_source c tools system name =
     (case tools name of
        Some f \<Rightarrow> take 16 (gc_hash c (tf_data f))
      | None \<Rightarrow> (case system name of Some f \<Rightarrow> take 16 (gc_hash c (tf_data f)) | None \<Rightarrow> []))"

definition tool_entry :: "string \<Rightarrow> string \<Rightarrow> string \<Rightarrow> string \<Rightarrow> string \<Rightarrow> tool_error" where
  "tool_entry hash now name args err =
     zero_error\<lparr>te_kind := ErrorKindTool, te_tool := name, te_args := clip 2000 args, te_error := clip 2000 err,
                te_source_hash := hash, te_timestamp := now\<rparr>"

definition append_error ::
  "(string \<Rightarrow> string option) \<Rightarrow> string \<Rightarrow> string \<Rightarrow> string \<Rightarrow> string \<Rightarrow> string \<Rightarrow> string option \<Rightarrow> string option" where
  "append_error tm hash now name args err file = append_locked tm (tool_entry hash now name args err) file"

definition app_error_entry :: "string \<Rightarrow> string \<Rightarrow> string \<Rightarrow> string \<Rightarrow> tool_error" where
  "app_error_entry now slug message stack =
     zero_error\<lparr>te_kind := ErrorKindApp, te_tool := slug, te_error := clip 2000 message, te_stack := clip 2000 stack,
                te_timestamp := now\<rparr>"

definition append_app_error ::
  "(string \<Rightarrow> string option) \<Rightarrow> string \<Rightarrow> string \<Rightarrow> string \<Rightarrow> string \<Rightarrow> string option \<Rightarrow> string option" where
  "append_app_error tm now slug message stack file = append_locked tm (app_error_entry now slug message stack) file"

definition mark_resolved :: "string \<Rightarrow> string \<Rightarrow> tool_error \<Rightarrow> tool_error" where
  "mark_resolved now name e =
     (if te_tool e = name \<and> \<not> te_resolved e then e\<lparr>te_resolved := True, te_resolved_at := Some now\<rparr> else e)"

definition resolve_by_name ::
  "(string \<Rightarrow> string option) \<Rightarrow> string \<Rightarrow> string \<Rightarrow> string option \<Rightarrow> string option" where
  "resolve_by_name tm now name file =
     (let es = load_journal tm file in
      if list_ex (\<lambda>e. te_tool e = name \<and> \<not> te_resolved e) es
      then save_journal (map (mark_resolved now name) es) else file)"

definition unresolved :: "(string \<Rightarrow> string option) \<Rightarrow> string option \<Rightarrow> tool_error list" where
  "unresolved tm file = filter (\<lambda>e. \<not> te_resolved e) (load_journal tm file)"

section \<open>The summary\<close>

definition effective_kind :: "tool_error \<Rightarrow> string" where
  "effective_kind e = (if te_kind e = [] then ErrorKindTool else te_kind e)"

definition group_key :: "tool_error \<Rightarrow> string" where
  "group_key e = effective_kind e @ '':'' @ te_tool e"

record entry_stats =
  es_kind :: string
  es_count :: nat
  es_last :: tool_error

text \<open>The map of the code and its order of keys in one association list.\<close>

definition group_entry :: "tool_error \<Rightarrow> (string \<times> entry_stats) list \<Rightarrow> (string \<times> entry_stats) list" where
  "group_entry e sts =
     (let key = group_key e in
      case map_of sts key of
        None \<Rightarrow> sts @ [(key, \<lparr>es_kind = effective_kind e, es_count = 1, es_last = e\<rparr>)]
      | Some st \<Rightarrow> AList.update key (st\<lparr>es_count := es_count st + 1, es_last := e\<rparr>) sts)"

definition group_entries :: "tool_error list \<Rightarrow> (string \<times> entry_stats) list" where
  "group_entries es = fold group_entry es []"

definition bullet :: "string \<Rightarrow> string \<Rightarrow> string" where
  "bullet label s = ''- '' @ label @ '': `'' @ s @ ''`'' @ newline"

text \<open>The dash of "may be fixed" is U+2014, three bytes.\<close>

definition modified_mark :: string where
  "modified_mark = '' (source modified since error '' @ [char_of (226 :: nat), char_of (128 :: nat), char_of (148 :: nat)] @
     '' may be fixed, verify)''"

definition summary_section :: "guard_conf \<Rightarrow> dir \<Rightarrow> dir \<Rightarrow> string \<times> entry_stats \<Rightarrow> string" where
  "summary_section c tools system p =
     (case p of (key, st) \<Rightarrow>
        let name = drop (length (es_kind st) + 1) key;
            current = (if es_kind st = ErrorKindTool then hash_tool_source c tools system (drop 5 key) else []);
            label = (if es_kind st = ErrorKindApp then ''App'' else ''Tool'');
            modified = (if es_kind st = ErrorKindTool \<and> te_source_hash (es_last st) \<noteq> current \<and> current \<noteq> []
                        then modified_mark else [])
        in ''### '' @ label @ '': '' @ name @ '' ('' @ show_nat (es_count st) @ '' errors'' @ modified @ '')'' @ newline @
           bullet ''Last error'' (clip 300 (te_error (es_last st))) @
           (if te_args (es_last st) \<noteq> [] \<and> te_args (es_last st) \<noteq> ''{}''
            then bullet ''Failing args'' (clip 200 (te_args (es_last st))) else []) @
           (if te_stack (es_last st) \<noteq> [] then bullet ''Stack'' (clip 300 (te_stack (es_last st))) else []) @
           (if es_kind st = ErrorKindTool
            then ''- Fix: read tool source at `~/data/tools/'' @ name @ ''`, fix the bug, then run with the failing args''
            else ''- Fix: read app source at `~/data/apps/'' @ name @ ''/`, check index.html or main.go for the error'') @
           newline @ newline)"

definition unresolved_summary :: "(string \<Rightarrow> string option) \<Rightarrow> guard_conf \<Rightarrow> dir \<Rightarrow> dir \<Rightarrow> string option \<Rightarrow> string" where
  "unresolved_summary tm c tools system file =
     (let es = unresolved tm file in
      if es = [] then []
      else ''## Errors ('' @ show_nat (length es) @ '' unresolved)'' @ newline @ newline @
           ''The following tools/apps have recent errors. Diagnose and fix each one.'' @ newline @
           ''After fixing, test to confirm the fix works.'' @ newline @ newline @
           concat (map (summary_section c tools system) (group_entries es)))"

section \<open>Reading what was written\<close>

text \<open>An entry whose times the decoder reads as they are.\<close>

definition times_ok :: "(string \<Rightarrow> string option) \<Rightarrow> tool_error \<Rightarrow> bool" where
  "times_ok tm e \<longleftrightarrow> tm (te_timestamp e) = Some (te_timestamp e) \<and>
     (case te_resolved_at e of None \<Rightarrow> True | Some t \<Rightarrow> tm t = Some t)"

lemma json_escape_no_newline: "CHR 0x0A \<notin> set (json_escape c)"
proof -
  have v: "hex_value (CHR 0x0A) = None" by (simp add: hex_value_def)
  have "(of_char c :: nat) div 16 < 16" by (rule less_mult_imp_div_less) simp
  then have d: "hex_digit (of_char c div 16) \<noteq> CHR 0x0A" "hex_digit (of_char c mod 16) \<noteq> CHR 0x0A"
    using hex_value_digit[of "of_char c div 16"] hex_value_digit[of "of_char c mod 16"] v by auto
  then show ?thesis by (auto simp: json_escape_def Let_def)
qed

lemma json_string_no_newline: "CHR 0x0A \<notin> set (json_string s)"
  using json_escape_no_newline by (auto simp: json_string_def)

lemma str_join_chars: "set (str_join sep xs) \<subseteq> set sep \<union> \<Union> (set ` set xs)"
  by (induction sep xs rule: str_join.induct) auto

lemma json_nums_omit: "list_all (\<lambda>p. json_nums_ok (snd p)) (omit_empty k v)"
  by (simp add: omit_empty_def)

lemma error_json_ok: "json_nums_ok (error_json e) \<and> json_depth (error_json e) \<le> maxNestingDepth"
  by (auto simp: error_json_def omit_empty_def maxNestingDepth_def split: option.split)

lemma parse_error_text:
  assumes "times_ok tm e"
  shows "parse_error_line tm (json_text (error_json e)) = Some e"
proof -
  have "dec_struct (error_member tm) (error_json e) zero_error = Some e"
    using assms
    by (cases e)
       (auto simp: error_json_def dec_struct_def omit_empty_def error_member_def dec_string_def dec_bool_def
         dec_time_def times_ok_def zero_error_def to_lower_def lower_char_def split: option.splits)
  then show ?thesis
    using parse_json_text[of "error_json e"] error_json_ok[of e] by (simp add: parse_error_line_def)
qed


lemma json_text_error:
  "\<exists>m. json_text (error_json e) = CHR ''{'' # m @ ''}'' \<and> CHR 0x0A \<notin> set m"
proof -
  have "CHR 0x0A \<notin> set (str_join '','' (map (\<lambda>(k, v). json_string k @ '':'' @ json_text v) ms))"
    if "\<forall>p \<in> set ms. CHR 0x0A \<notin> set (json_text (snd p))" for ms
    using that str_join_chars[of "'',''" "map (\<lambda>(k, v). json_string k @ '':'' @ json_text v) ms"] json_string_no_newline
    by fastforce
  moreover obtain ms where "error_json e = JObj ms" "\<forall>p \<in> set ms. CHR 0x0A \<notin> set (json_text (snd p))"
    using json_string_no_newline by (fastforce simp: error_json_def omit_empty_def split: option.splits if_splits)
  ultimately show ?thesis by auto
qed

lemma split_at_join_char:
  "\<forall>e \<in> set es. c \<notin> set e \<Longrightarrow> es \<noteq> [] \<Longrightarrow> split_at c (str_join [c] es) = es"
  by (induction "[c]" es rule: str_join.induct) (auto simp: split_at_no_sep split_at_append)

lemma trim_space_ends:
  assumes "\<not> is_space a" and "\<not> is_space b"
  shows "trim_space (a # m @ [b] @ newline) = a # m @ [b]"
  using assms by (simp add: trim_space_def trim_left_def trim_right_def is_space_def)

lemma str_join_ends:
  assumes "\<forall>x \<in> set xs. \<exists>m. x = a # m @ [b]" and "xs \<noteq> []"
  shows "\<exists>m. str_join sep xs = a # m @ [b]"
  using assms
proof (induction sep xs rule: str_join.induct)
  case (3 sep x y zs)
  then obtain m where "str_join sep (y # zs) = a # m @ [b]" by fastforce
  moreover obtain k where "x = a # k @ [b]" using 3 by auto
  ultimately show ?case by simp
qed auto

text \<open>What is saved is what is loaded.\<close>

lemma load_save_journal:
  assumes "list_all (times_ok tm) es"
  shows "load_journal tm (save_journal es) = es"
proof (cases "es = []")
  case True
  then show ?thesis
    by (simp add: load_journal_def save_journal_def trim_space_def trim_left_def trim_right_def is_space_def
        List.map_filter_def)
next
  case False
  let ?ls = "map (\<lambda>e. json_text (error_json e)) es"
  have ends: "\<forall>x \<in> set ?ls. \<exists>m. x = CHR ''{'' # m @ [CHR ''}'']" using json_text_error by fastforce
  have nl: "\<forall>x \<in> set ?ls. CHR 0x0A \<notin> set x"
  proof
    fix x assume "x \<in> set ?ls"
    then obtain e where "x = json_text (error_json e)" by auto
    then show "CHR 0x0A \<notin> set x" using json_text_error[of e] by auto
  qed
  obtain m where m: "str_join newline ?ls = CHR ''{'' # m @ [CHR ''}'']"
    using str_join_ends[OF ends] False by auto
  have "trim_space (str_join newline ?ls @ newline) = str_join newline ?ls"
    unfolding m using trim_space_ends[of "CHR ''{''" "CHR ''}''" m] by (simp add: is_space_def)
  then have "load_journal tm (save_journal es) =
      List.map_filter (\<lambda>line. if line = [] then None else parse_error_line tm line) ?ls"
    using split_at_join_char[OF nl] False by (simp add: load_journal_def save_journal_def)
  also have "\<dots> = es"
  proof -
    have line: "(if json_text (error_json e) = [] then None else parse_error_line tm (json_text (error_json e))) = Some e"
      if "e \<in> set es" for e
      using that assms parse_error_text[of tm e] json_text_error[of e] by (auto simp: list_all_iff)
    then show ?thesis by (induction es) (auto simp: List.map_filter_def)
  qed
  finally show ?thesis .
qed

section \<open>The journal as a list\<close>

datatype journal_op = JTool string string string string string | JApp string string string string
  | JResolve string string

fun journal_step :: "(string \<Rightarrow> string option) \<Rightarrow> journal_op \<Rightarrow> string option \<Rightarrow> string option" where
  "journal_step tm (JTool hash now name args err) file = append_error tm hash now name args err file"
| "journal_step tm (JApp now slug message stack) file = append_app_error tm now slug message stack file"
| "journal_step tm (JResolve now name) file = resolve_by_name tm now name file"

fun abs_journal_step :: "journal_op \<Rightarrow> tool_error list \<Rightarrow> tool_error list" where
  "abs_journal_step (JTool hash now name args err) es = keep_last 200 (es @ [tool_entry hash now name args err])"
| "abs_journal_step (JApp now slug message stack) es = keep_last 200 (es @ [app_error_entry now slug message stack])"
| "abs_journal_step (JResolve now name) es = map (mark_resolved now name) es"

fun journal_time :: "journal_op \<Rightarrow> string" where
  "journal_time (JTool hash now name args err) = now"
| "journal_time (JApp now slug message stack) = now"
| "journal_time (JResolve now name) = now"

lemma keep_last_set: "set (keep_last n xs) \<subseteq> set xs"
  by (auto simp: keep_last_def dest: in_set_dropD)

lemma length_keep_last: "length (keep_last n xs) = min n (length xs)"
  by (simp add: keep_last_def)

lemma journal_step_refines:
  assumes "list_all (times_ok tm) (load_journal tm file)" and t: "tm (journal_time op) = Some (journal_time op)"
  shows "load_journal tm (journal_step tm op file) = abs_journal_step op (load_journal tm file) \<and>
    list_all (times_ok tm) (load_journal tm (journal_step tm op file))"
proof -
  have app: "load_journal tm (append_locked tm e file) = keep_last 200 (load_journal tm file @ [e]) \<and>
      list_all (times_ok tm) (keep_last 200 (load_journal tm file @ [e]))" if "times_ok tm e" for e
  proof -
    have "list_all (times_ok tm) (keep_last 200 (load_journal tm file @ [e]))"
      using assms(1) that keep_last_set[of 200 "load_journal tm file @ [e]"] by (auto simp: list_all_iff)
    then show ?thesis by (simp add: append_locked_def maxJournalEntries_def load_save_journal)
  qed
  show ?thesis
  proof (cases op)
    case (JResolve now name)
    have ok: "list_all (times_ok tm) (map (mark_resolved now name) (load_journal tm file))"
      using assms JResolve by (auto simp: list_all_iff mark_resolved_def times_ok_def)
    have "map (mark_resolved now name) es = es"
      if "\<not> list_ex (\<lambda>e. te_tool e = name \<and> \<not> te_resolved e) es" for es
      using that by (induction es) (auto simp: mark_resolved_def)
    then show ?thesis using JResolve ok assms(1) by (auto simp: resolve_by_name_def load_save_journal Let_def)
  qed (use t app in \<open>auto simp: append_error_def append_app_error_def tool_entry_def app_error_entry_def times_ok_def zero_error_def\<close>)
qed



text \<open>What a resolution leaves: the entries of other names. The kind plays no part, so a tool that
  succeeds also resolves the errors of an app of the same name.\<close>

theorem resolve_by_name_exact:
  assumes "list_all (times_ok tm) (load_journal tm file)" and "tm now = Some now"
  shows "unresolved tm (resolve_by_name tm now name file) = filter (\<lambda>e. te_tool e \<noteq> name) (unresolved tm file)"
proof -
  have "load_journal tm (resolve_by_name tm now name file) = map (mark_resolved now name) (load_journal tm file)"
    using journal_step_refines[OF assms(1), of "JResolve now name"] assms(2) by simp
  moreover have "filter (\<lambda>e. \<not> te_resolved e) (map (mark_resolved now name) es) =
      filter (\<lambda>e. te_tool e \<noteq> name) (filter (\<lambda>e. \<not> te_resolved e) es)" for es
    by (induction es) (auto simp: mark_resolved_def)
  ultimately show ?thesis by (simp add: unresolved_def)
qed

theorem resolve_by_name_exact_witness:
  "unresolved Some (resolve_by_name Some ''t1'' ''notes'' (append_app_error Some ''t0'' ''notes'' ''crash'' [] None)) = []"
proof -
  have l: "load_journal Some (append_app_error Some ''t0'' ''notes'' ''crash'' [] None) = [app_error_entry ''t0'' ''notes'' ''crash'' []]"
    using journal_step_refines[of Some None "JApp ''t0'' ''notes'' ''crash'' []"]
    by (simp add: load_journal_def keep_last_def)
  have "list_all (times_ok Some) (load_journal Some (append_app_error Some ''t0'' ''notes'' ''crash'' [] None))"
    unfolding l by (simp add: times_ok_def app_error_entry_def zero_error_def)
  from resolve_by_name_exact[OF this, of "''t1''" "''notes''"] show ?thesis
    by (simp add: unresolved_def l app_error_entry_def zero_error_def)
qed

section \<open>Groups\<close>

lemma map_of_group_entry:
  "map_of (group_entry e sts) k =
   (if k = group_key e
    then Some (case map_of sts k of
                 None \<Rightarrow> \<lparr>es_kind = effective_kind e, es_count = 1, es_last = e\<rparr>
               | Some st \<Rightarrow> st\<lparr>es_count := es_count st + 1, es_last := e\<rparr>)
    else map_of sts k)"
proof (cases "map_of sts (group_key e)")
  case None
  then show ?thesis
    by (auto simp: group_entry_def Let_def map_add_def split: option.split)
next
  case (Some st)
  then show ?thesis by (simp add: group_entry_def update_conv' Let_def)
qed

lemma map_of_fold_group:
  "map_of (fold group_entry es []) k =
   (let g = filter (\<lambda>e. group_key e = k) es in
    if g = [] then None
    else Some \<lparr>es_kind = effective_kind (hd g), es_count = length g, es_last = last g\<rparr>)"
proof (induction es rule: rev_induct)
  case (snoc e es)
  show ?case
  proof (cases "k = group_key e")
    case True
    then show ?thesis
      by (cases "filter (\<lambda>e'. group_key e' = group_key e) es")
         (simp_all add: map_of_group_entry snoc[unfolded True] Let_def)
  qed (simp add: map_of_group_entry snoc Let_def)
qed simp

text \<open>The summary counts every unresolved error once: a group has the entries of its kind and name, and
  what it shows is the last of them.\<close>

theorem group_entries_exact:
  "map_of (group_entries es) k =
   (let g = filter (\<lambda>e. group_key e = k) es in
    if g = [] then None
    else Some \<lparr>es_kind = effective_kind (hd g), es_count = length g, es_last = last g\<rparr>)"
  unfolding group_entries_def by (rule map_of_fold_group)

end
