(* ===== verification/Tooling_Executor.thy ===== *)
theory Tooling_Executor
  imports Error_Journal
begin

text \<open>
  \<open>internal/tooling/executor.go\<close>: the execution of one tool call. Native tools run in the daemon; another
  name is looked up in \<open>tools.d/\<close> and \<open>tools/\<close>, checked by the integrity guard when it is a user's
  tool, and started as a process with arguments made from the JSON of the call. Starting a process,
  its outcome, the resolution of links, the printing of numbers and durations and the order in
  which a map is read are arguments. The state is what the executor reads and writes: the two
  directories (the user's is the guard's), the journal's file, the rest of the world, and the list
  of the processes that have been started.
\<close>

section \<open>Data\<close>

record call_request =
  cq_id :: string
  cq_name :: string
  cq_arguments :: string

record call_result =
  cv_id :: string
  cv_output :: string
  cv_is_error :: bool
  cv_exit_code :: int
  cv_error :: string

record proc_result =
  po_stdout :: string
  po_stderr :: string
  po_err :: "string option"
  po_deadline :: bool
  po_exit :: "int option"

record 'w executor =
  xe_data_dir :: string
  xe_home_dir :: string
  xe_natives :: "string \<rightharpoonup> 'w native_tool"
  xe_registry :: "'w tool_registry option"
  xe_integrity :: bool
  xe_journal :: bool
  xe_env :: "string list"
  xe_timeout :: duration
  xe_conf :: guard_conf
  xe_range :: "string \<Rightarrow> bool"
  xe_num :: "string \<Rightarrow> string"
  xe_num_v :: "string \<Rightarrow> string"
  xe_time :: "string \<Rightarrow> string option"
  xe_show_duration :: "duration \<Rightarrow> string"
  xe_links :: "string \<rightharpoonup> string"
  xe_spawn :: "string \<Rightarrow> tool_file \<Rightarrow> string list \<Rightarrow> string option \<Rightarrow> string list \<Rightarrow> duration \<Rightarrow> 'w \<Rightarrow> proc_result \<times> 'w"

record started =
  sd_path :: string
  sd_file :: tool_file
  sd_args :: "string list"

record 'w exec_state =
  xs_system :: dir
  xs_guard :: guard
  xs_journal :: "string option"
  xs_world :: 'w
  xs_started :: "started list"

section \<open>Arguments\<close>

fun format_any :: "(string \<Rightarrow> string) \<Rightarrow> go_val \<Rightarrow> string" where
  "format_any num VNull = ''<nil>''"
| "format_any num (VBool b) = (if b then ''true'' else ''false'')"
| "format_any num (VNum x) = num x"
| "format_any num (VStr s) = s"
| "format_any num (VList vs) = ''['' @ str_join '' '' (map (format_any num) vs) @ '']''"
| "format_any num (VStrs ss) = ''['' @ str_join '' '' ss @ '']''"
| "format_any num (VMap kvs) =
     ''map['' @ str_join '' '' (map (\<lambda>(k, v). k @ '':'' @ v)
                  (sort_key fst (map (\<lambda>(k, v). (k, format_any num v)) kvs))) @ '']''"

definition format_value :: "'w executor \<Rightarrow> go_val \<Rightarrow> string" where
  "format_value env v =
     (case v of
        VStr s \<Rightarrow> s
      | VNum x \<Rightarrow> xe_num env x
      | VBool b \<Rightarrow> if b then ''true'' else ''false''
      | _ \<Rightarrow> format_any (xe_num_v env) v)"

definition positional_args :: "tool_schema \<Rightarrow> string list" where
  "positional_args s =
     (case tsc_parameters s of
        None \<Rightarrow> []
      | Some params \<Rightarrow>
          (case map_of params ''x-positional'' of
             Some (VList vs) \<Rightarrow> List.map_filter (\<lambda>v. case v of VStr x \<Rightarrow> Some x | _ \<Rightarrow> None) vs
           | _ \<Rightarrow> []))"

definition positional_arg :: "'w executor \<Rightarrow> (string \<times> go_val) list \<Rightarrow> string \<Rightarrow> string list" where
  "positional_arg env args key =
     (case map_of args key of
        None \<Rightarrow> []
      | Some v \<Rightarrow> if v = VNull then [] else let s = format_value env v in if s = [] then [] else [s])"

definition flag_arg :: "'w executor \<Rightarrow> (string \<times> go_val) list \<Rightarrow> string \<Rightarrow> string list" where
  "flag_arg env args key =
     (case map_of args key of
        None \<Rightarrow> []
      | Some v \<Rightarrow>
          (case v of
             VNull \<Rightarrow> []
           | VBool b \<Rightarrow> if b then [''--'' @ key] else []
           | _ \<Rightarrow> let s = format_value env v in if s = [] then [] else [''--'' @ key, s]))"

text \<open>The order lists the keys of the object, as Go happens to read them.\<close>

definition json_to_cli :: "'w executor \<Rightarrow> string list \<Rightarrow> string \<Rightarrow> string \<Rightarrow> string list" where
  "json_to_cli env order toolName argsJSON =
     (case xe_registry env of
        None \<Rightarrow> []
      | Some r \<Rightarrow>
          (case get_schema toolName r of
             None \<Rightarrow> []
           | Some schema \<Rightarrow>
               (case parse_json argsJSON of
                  None \<Rightarrow> []
                | Some v \<Rightarrow>
                    (case dec_map (xe_range env) v None of
                       None \<Rightarrow> []
                     | Some None \<Rightarrow> []
                     | Some (Some args) \<Rightarrow>
                         let positional = positional_args schema in
                         concat (map (positional_arg env args) positional) @
                         concat (map (flag_arg env args) (filter (\<lambda>k. k \<notin> set positional) order))))))"

section \<open>Tools on disk\<close>

definition tool_dir :: "bool \<Rightarrow> string" where "tool_dir user = (if user then ''tools'' else ''tools.d'')"

definition tool_path :: "string \<Rightarrow> bool \<times> string \<Rightarrow> string" where
  "tool_path dataDir p = join_path [dataDir, tool_dir (fst p), snd p]"

text \<open>A plain file of a directory under a candidate name. The empty name and the dot are the directory.\<close>

definition stat_file :: "dir \<Rightarrow> string \<Rightarrow> bool" where
  "stat_file d n \<longleftrightarrow> n \<noteq> [] \<and> n \<noteq> ''.'' \<and> d n \<noteq> None"

definition candidates :: "string \<Rightarrow> string list" where
  "candidates name =
     name # (if CHR ''_'' \<in> set name then [map (\<lambda>c. if c = CHR ''_'' then CHR ''-'' else c) name] else [])"

definition in_dir :: "dir \<Rightarrow> dir \<Rightarrow> bool \<times> string \<Rightarrow> bool" where
  "in_dir system tools p \<longleftrightarrow> stat_file (if fst p then tools else system) (snd p)"

definition resolve_tool :: "dir \<Rightarrow> dir \<Rightarrow> string \<Rightarrow> (bool \<times> string) option" where
  "resolve_tool system tools name =
     (if CHR ''/'' \<in> set name \<or> CHR 0x5C \<in> set name \<or> str_contains name ''..'' then None
      else find (in_dir system tools) (map (Pair False) (candidates name) @ map (Pair True) (candidates name)))"

definition is_user_tool :: "string \<Rightarrow> string \<Rightarrow> bool" where
  "is_user_tool toolPath dataDir \<longleftrightarrow> has_prefix toolPath (join_path [dataDir, ''tools''] @ ''/'')"

definition base_of_path :: "string \<Rightarrow> string" where
  "base_of_path p = (if path_elems p = [] then (if is_abs p then ''/'' else ''.'') else last (path_elems p))"

fun app_slug :: "string list \<Rightarrow> string" where
  "app_slug (p # slug # b # rest) =
     (if p = ''apps'' \<and> b = ''bin'' then slug else app_slug (slug # b # rest))"
| "app_slug _ = []"

definition app_slug_from_path :: "'w executor \<Rightarrow> string \<Rightarrow> string" where
  "app_slug_from_path env toolPath =
     (case xe_links env toolPath of None \<Rightarrow> [] | Some real \<Rightarrow> app_slug (split_at (CHR ''/'') real))"

definition build_env_for_tool :: "'w executor \<Rightarrow> string \<Rightarrow> string list" where
  "build_env_for_tool env toolPath =
     [''HOME='' @ xe_home_dir env, ''ALF_DATA_DIR='' @ xe_data_dir env,
      ''PATH='' @ join_path [xe_data_dir env, ''tools.d''] @ '':'' @ join_path [xe_data_dir env, ''tools''] @
        '':/usr/local/bin:/usr/bin:/bin''] @ xe_env env @
     (let slug = (if toolPath = [] then [] else app_slug_from_path env toolPath) in
      if slug = [] then []
      else [''ALF_APP_DATA_DIR='' @ join_path [xe_data_dir env, ''apps'', slug, ''data'']])"

section \<open>One call\<close>

definition call_failed :: "call_request \<Rightarrow> string \<Rightarrow> int \<Rightarrow> string \<Rightarrow> call_result" where
  "call_failed call out code msg =
     \<lparr>cv_id = cq_id call, cv_output = out, cv_is_error = True, cv_exit_code = code, cv_error = msg\<rparr>"

definition call_succeeded :: "call_request \<Rightarrow> string \<Rightarrow> call_result" where
  "call_succeeded call out =
     \<lparr>cv_id = cq_id call, cv_output = (if out = [] then ''(no output)'' else out), cv_is_error = False,
      cv_exit_code = 0, cv_error = []\<rparr>"

definition journal_failure :: "'w executor \<Rightarrow> string \<Rightarrow> call_request \<Rightarrow> string \<Rightarrow> 'w exec_state \<Rightarrow> 'w exec_state" where
  "journal_failure env now call msg s =
     (if xe_journal env
      then s\<lparr>xs_journal := append_error (xe_time env)
               (hash_tool_source (xe_conf env) (g_tools (xs_guard s)) (xs_system s) (cq_name call))
               now (cq_name call) (cq_arguments call) msg (xs_journal s)\<rparr>
      else s)"

definition journal_success :: "'w executor \<Rightarrow> string \<Rightarrow> call_request \<Rightarrow> 'w exec_state \<Rightarrow> 'w exec_state" where
  "journal_success env now call s =
     (if xe_journal env
      then s\<lparr>xs_journal := resolve_by_name (xe_time env) now (cq_name call) (xs_journal s)\<rparr> else s)"

definition failure_output :: "call_request \<Rightarrow> string \<Rightarrow> string \<Rightarrow> string \<Rightarrow> string" where
  "failure_output call stdout stderr err =
     (let out = (if stderr \<noteq> [] then (if stdout \<noteq> [] then stdout @ newline @ stderr else stderr) else stdout)
      in if out = [] then ''tool '' @ go_quote (cq_name call) @ '' failed: '' @ err else out)"

text \<open>The effective timeout: 30 seconds unless one is configured.\<close>

definition call_timeout :: "'w executor \<Rightarrow> duration" where
  "call_timeout env = (if xe_timeout env \<le> 0 then 30 * second else xe_timeout env)"

definition finish_call ::
  "'w executor \<Rightarrow> string \<Rightarrow> call_request \<Rightarrow> proc_result \<Rightarrow> 'w exec_state \<Rightarrow> call_result \<times> 'w exec_state" where
  "finish_call env now call po s =
     (let output = trim_space (po_stdout po) in
      case po_err po of
        Some err \<Rightarrow>
          let errMsg = trim_space (po_stderr po) in
          if po_deadline po then
            let msg = ''tool '' @ go_quote (cq_name call) @ '' timed out after '' @ xe_show_duration env (call_timeout env)
            in (call_failed call msg (-1) msg, journal_failure env now call msg s)
          else
            let out = failure_output call output errMsg err
            in (call_failed call out (case po_exit po of Some code \<Rightarrow> code | None \<Rightarrow> -1) (if errMsg = [] then err else errMsg),
                journal_failure env now call out s)
      | None \<Rightarrow> (call_succeeded call output, journal_success env now call s))"

definition run_process ::
  "'w executor \<Rightarrow> string list \<Rightarrow> string \<Rightarrow> call_request \<Rightarrow> string \<Rightarrow> tool_file \<Rightarrow> 'w exec_state \<Rightarrow> call_result \<times> 'w exec_state" where
  "run_process env order now call path f s =
     (let cliArgs = json_to_cli env order (cq_name call) (cq_arguments call);
          inp = (if cliArgs = [] then Some (cq_arguments call) else None);
          (po, w) = xe_spawn env path f cliArgs inp (build_env_for_tool env path) (call_timeout env) (xs_world s)
      in finish_call env now call po
           (s\<lparr>xs_world := w, xs_started := xs_started s @ [\<lparr>sd_path = path, sd_file = f, sd_args = cliArgs\<rparr>]\<rparr>))"

definition check_integrity ::
  "'w executor \<Rightarrow> guard_now \<Rightarrow> string \<Rightarrow> guard \<Rightarrow> string option \<times> guard" where
  "check_integrity env t path g =
     (if xe_integrity env \<and> is_user_tool path (xe_data_dir env)
      then verify_tool (xe_conf env) t (base_of_path path) g else (None, g))"

text \<open>The arguments are the order of the keys of the call's object and the time.\<close>

definition execute_call ::
  "'w executor \<Rightarrow> string list \<Rightarrow> guard_now \<Rightarrow> call_request \<Rightarrow> 'w exec_state \<Rightarrow> call_result \<times> 'w exec_state" where
  "execute_call env order t call s =
     (case xe_natives env (cq_name call) of
        Some n \<Rightarrow>
          (case nt_run n (cq_arguments call) (xs_world s) of
             (Inl e, w) \<Rightarrow> (call_failed call e (-1) e, s\<lparr>xs_world := w\<rparr>)
           | (Inr out, w) \<Rightarrow> (call_succeeded call out, s\<lparr>xs_world := w\<rparr>))
      | None \<Rightarrow>
          (case resolve_tool (xs_system s) (g_tools (xs_guard s)) (cq_name call) of
             None \<Rightarrow>
               let msg = ''tool '' @ go_quote (cq_name call) @ '' not found'' in (call_failed call msg (-1) msg, s)
           | Some p \<Rightarrow>
               let path = tool_path (xe_data_dir env) p in
               (case check_integrity env t path (xs_guard s) of
                  (Some e, g) \<Rightarrow>
                    let msg = ''tool '' @ go_quote (cq_name call) @ '' blocked: '' @ e
                    in (call_failed call msg (-1) msg, s\<lparr>xs_guard := g\<rparr>)
                | (None, g) \<Rightarrow>
                    (case (if fst p then g_tools g else xs_system s) (snd p) of
                       None \<Rightarrow> (call_failed call [] (-1) [], s\<lparr>xs_guard := g\<rparr>)
                     | Some f \<Rightarrow> run_process env order (gn_now t) call path f (s\<lparr>xs_guard := g\<rparr>)))))"

end
