(* ===== verification/Tool_Loop.thy ===== *)
theory Tool_Loop
  imports Provider_Stream Tooling_Executor
begin

text \<open>
  \<open>internal/ai/provider/toolloop.go\<close> and \<open>tooling_adapter.go\<close>: the loop that sends the conversation to an API
  provider, runs the tools the model asks for through the executor and sends their results back,
  until an answer without tool calls or the limit of turns. A run comes with the requests it has
  sent (their messages) and the tool calls it has executed, in order. The context's error is a
  function of the world.
\<close>

record 'w tool_loop_state =
  tl_client :: "'w http_client"
  tl_api :: api_provider
  tl_tools :: "go_val list"
  tl_max_turns :: int
  tl_exec :: "call_request \<Rightarrow> 'w \<Rightarrow> call_result \<times> 'w"
  tl_ctx :: "'w \<Rightarrow> string option"

definition nested_string :: "go_val \<Rightarrow> string list \<Rightarrow> string option" where
  "nested_string m keys =
     (case fold (\<lambda>k cur. case cur of
                    Some (VMap kvs) \<Rightarrow> Some (case map_of kvs k of Some v \<Rightarrow> v | None \<Rightarrow> VNull)
                  | _ \<Rightarrow> None) keys (Some m) of
        Some (VStr s) \<Rightarrow> Some s
      | _ \<Rightarrow> None)"

definition tool_sort_name :: "go_val \<Rightarrow> string" where
  "tool_sort_name t = (case nested_string t [''function'', ''name''] of Some s \<Rightarrow> s | None \<Rightarrow> [])"

text \<open>The constructor: ten turns unless a positive number is given, and the tools in the order of their names
  (Go's sort leaves the order of tools with equal names open; here it is that of the argument).\<close>

definition new_tool_loop :: "'w tool_loop_state \<Rightarrow> 'w tool_loop_state" where
  "new_tool_loop lp =
     lp\<lparr>tl_max_turns := (if tl_max_turns lp \<le> 0 then 10 else tl_max_turns lp),
        tl_tools := sort_key tool_sort_name (tl_tools lp)\<rparr>"

definition calls_message :: "stream_result \<Rightarrow> model_message" where
  "calls_message sr = (simple_message ''assistant'' (sr_text sr))\<lparr>mm_tool_calls := sr_calls sr\<rparr>"

definition tool_reply :: "string \<Rightarrow> call_result \<Rightarrow> model_message" where
  "tool_reply i v = (simple_message ''tool'' (cv_output v))\<lparr>mm_tool_call_id := i\<rparr>"

fun exec_calls ::
  "(call_request \<Rightarrow> 'w \<Rightarrow> call_result \<times> 'w) \<Rightarrow> model_tool_call list \<Rightarrow> 'w
   \<Rightarrow> model_message list \<times> stream_event list \<times> 'w" where
  "exec_calls exec [] w = ([], [], w)"
| "exec_calls exec (c # cs) w =
     (let (v, w1) = exec \<lparr>cq_id = mtc_id c, cq_name = mtc_name c, cq_arguments = mtc_arguments c\<rparr> w;
          (ms, evs, w2) = exec_calls exec cs w1
      in (tool_reply (mtc_id c) v # ms, progress ''tool_result'' (mtc_id c) (cv_output v) # evs, w2))"

record 'w loop_run =
  lr_result :: "invoke_result res"
  lr_events :: "stream_event list"
  lr_sent :: "model_message list list"
  lr_ran :: "model_tool_call list"
  lr_world :: 'w

definition loop_end :: "invoke_result res \<Rightarrow> stream_event list \<Rightarrow> model_message list list \<Rightarrow> 'w \<Rightarrow> 'w loop_run" where
  "loop_end res evs sent w = \<lparr>lr_result = res, lr_events = evs, lr_sent = sent, lr_ran = [], lr_world = w\<rparr>"

definition turn_limit_text :: "string \<Rightarrow> string" where
  "turn_limit_text t = (if t = [] then ''Tool calling turn limit reached.'' else t)"

definition next_messages :: "string \<Rightarrow> model_message list \<Rightarrow> stream_result \<Rightarrow> model_message list \<Rightarrow> model_message list" where
  "next_messages model messages sr results =
     (let ms = messages @ calls_message sr # results in
      if has_prefix model ''anthropic/'' then tag_last_message_cache ms else ms)"

function loop_from ::
  "'w tool_loop_state \<Rightarrow> string \<Rightarrow> string \<Rightarrow> string \<Rightarrow> int \<Rightarrow> model_message list \<Rightarrow> int \<Rightarrow> int \<Rightarrow> 'w \<Rightarrow> 'w loop_run" where
  "loop_from lp model tools effort turns messages tin tout w =
     (case tl_ctx lp w of
        Some e \<Rightarrow> loop_end (Err (''tool loop cancelled: '' @ e)) [] [] w
      | None \<Rightarrow>
          let r = do_request (tl_client lp) (tl_api lp) messages model tools effort w in
          (case ry_result r of
             Inl e \<Rightarrow> loop_end (Err e) (ry_events r) [messages] (ry_world r)
           | Inr sr \<Rightarrow>
               let tin' = tin + sr_input sr; tout' = tout + sr_output sr in
               if sr_calls sr = [] then
                 loop_end (Ok \<lparr>ir_text = sr_text sr, ir_model = model, ir_turns = turns, ir_input = tin', ir_output = tout'\<rparr>)
                   (ry_events r) [messages] (ry_world r)
               else if turns + 1 \<ge> tl_max_turns lp then
                 loop_end (Ok \<lparr>ir_text = turn_limit_text (sr_text sr), ir_model = model, ir_turns = turns + 1,
                               ir_input = tin', ir_output = tout'\<rparr>) (ry_events r) [messages] (ry_world r)
               else
                 (case exec_calls (tl_exec lp) (sr_calls sr) (ry_world r) of
                    (results, evs, w') \<Rightarrow>
                      let rest = loop_from lp model tools effort (turns + 1) (next_messages model messages sr results) tin' tout' w'
                      in rest\<lparr>lr_events := ry_events r @ evs @ lr_events rest,
                              lr_sent := messages # lr_sent rest,
                              lr_ran := sr_calls sr @ lr_ran rest\<rparr>)))"
  by pat_completeness auto
termination
  by (relation "measure (\<lambda>(lp, model, tools, effort, turns, messages, tin, tout, w). nat (tl_max_turns lp - turns))") auto

declare loop_from.simps [simp del]

text \<open>\<open>Invoke\<close>: the messages are built before the model is checked. The arguments are those of \<open>build_messages\<close>.\<close>

definition tool_loop_invoke ::
  "'w tool_loop_state \<Rightarrow> (string \<Rightarrow> string option) \<Rightarrow> gotime \<Rightarrow> string \<Rightarrow> provider_params \<Rightarrow> prov_history \<Rightarrow> 'w
   \<Rightarrow> 'w loop_run \<times> prov_history" where
  "tool_loop_invoke lp read now prompt params h w =
     (let (messages, h') = build_messages (tl_api lp) read now prompt params h;
          model = (if pp_model params = [] then apv_default_model (tl_api lp) else pp_model params)
      in if model = []
         then (loop_end (Err ''toolloop: no model configured (pass Params.Model or configure the backend default)'') [] [] w, h')
         else (loop_from lp model (val_json (\<lambda>x. x) (VList (tl_tools lp))) (pp_effort params) 0 messages 0 0 w, h'))"

text \<open>The adapter of the executor: the loop's world is the executor's state. The order of the keys of a
  call's object and the time are arguments.\<close>

definition executor_adapter ::
  "'w executor \<Rightarrow> (call_request \<Rightarrow> string list) \<Rightarrow> guard_now \<Rightarrow> call_request \<Rightarrow> 'w exec_state \<Rightarrow> call_result \<times> 'w exec_state" where
  "executor_adapter env order t call s = execute_call env (order call) t call s"

section \<open>Well-formed conversations\<close>

text \<open>Every message with tool calls is followed by one result per call, in order, under its id.\<close>

fun answered :: "model_message list \<Rightarrow> bool" where
  "answered [] = True"
| "answered (m # ms) =
     (map mm_tool_call_id (take (length (mm_tool_calls m)) ms) = map mtc_id (mm_tool_calls m) \<and>
      (\<forall>x \<in> set (take (length (mm_tool_calls m)) ms). mm_role x = ''tool'' \<and> mm_tool_calls x = []) \<and> answered ms)"

lemma answered_append_closed:
  "answered ms \<Longrightarrow> answered ns \<Longrightarrow> answered (ms @ ns)"
proof (induction ms)
  case (Cons m ms)
  let ?n = "length (mm_tool_calls m)"
  have "map mm_tool_call_id (take ?n ms) = map mtc_id (mm_tool_calls m)"
    using Cons.prems(1) unfolding answered.simps by (rule conjunct1)
  from arg_cong[OF this, of length] have "?n \<le> length ms" by simp
  then have t: "take ?n (ms @ ns) = take ?n ms" by simp
  show ?case using Cons.IH Cons.prems unfolding append_Cons answered.simps t by blast
qed simp

lemma answered_results:
  "(\<forall>x \<in> set ms. mm_tool_calls x = []) \<Longrightarrow> answered ms"
  by (induction ms) auto

lemma exec_calls_results:
  "map mm_tool_call_id (fst (exec_calls exec cs w)) = map mtc_id cs \<and>
   (\<forall>x \<in> set (fst (exec_calls exec cs w)). mm_role x = ''tool'' \<and> mm_tool_calls x = [])"
proof (induction cs arbitrary: w)
  case (Cons c cs)
  obtain v w1 where "exec \<lparr>cq_id = mtc_id c, cq_name = mtc_name c, cq_arguments = mtc_arguments c\<rparr> w = (v, w1)" by fastforce
  moreover obtain ms evs w2 where "exec_calls exec cs w1 = (ms, evs, w2)" by (metis prod_cases3)
  ultimately show ?case using Cons[of w1] by (simp add: tool_reply_def simple_message_def)
qed simp

lemma exec_calls_length: "length (fst (exec_calls exec cs w)) = length cs"
  using exec_calls_results[of exec cs w] by (metis length_map)

lemma answered_cong:
  "list_all2 (\<lambda>x y. mm_tool_calls x = mm_tool_calls y \<and> mm_tool_call_id x = mm_tool_call_id y \<and> mm_role x = mm_role y) ms ns \<Longrightarrow>
   answered ms = answered ns"
proof (induction ms ns rule: list_all2_induct)
  case (Cons x ms y ns)
  let ?n = "length (mm_tool_calls x)"
  have t: "list_all2 (\<lambda>x y. mm_tool_calls x = mm_tool_calls y \<and> mm_tool_call_id x = mm_tool_call_id y \<and> mm_role x = mm_role y)
      (take ?n ms) (take ?n ns)" using Cons.hyps(2) by (rule list_all2_takeI)
  then have "map mm_tool_call_id (take ?n ms) = map mm_tool_call_id (take ?n ns)"
    "(\<forall>x \<in> set (take ?n ms). mm_role x = ''tool'' \<and> mm_tool_calls x = []) =
     (\<forall>x \<in> set (take ?n ns). mm_role x = ''tool'' \<and> mm_tool_calls x = [])"
    by (induction rule: list_all2_induct) auto
  then show ?case using Cons by simp
qed simp

lemma tag_last_same:
  "list_all2 (\<lambda>x y. mm_tool_calls x = mm_tool_calls y \<and> mm_tool_call_id x = mm_tool_call_id y \<and> mm_role x = mm_role y)
     (tag_last_message_cache ms) ms"
proof -
  let ?R = "\<lambda>x y. mm_tool_calls x = mm_tool_calls y \<and> mm_tool_call_id x = mm_tool_call_id y \<and> mm_role x = mm_role y"
  have refl: "list_all2 ?R xs xs" for xs by (rule list_all2_refl) simp
  have c: "list_all2 ?R (map clear_cache ms) ms"
    by (induction ms) (auto simp: clear_cache_def)
  have t: "list_all2 ?R (tag_first xs) xs" for xs by (induction xs) (auto simp: refl)
  have "list_all2 ?R (tag_last_message_cache ms) (map clear_cache ms)"
    unfolding tag_last_message_cache_def using t[of "rev (map clear_cache ms)"] by (simp add: list_all2_rev1)
  then show ?thesis using c by (rule list_all2_trans[rotated]) auto
qed

lemma map_calls_tag: "map mm_tool_calls (tag_last_message_cache ms) = map mm_tool_calls ms"
  using tag_last_same[of ms] by (induction rule: list_all2_induct) auto

lemma next_messages_answered:
  assumes "answered messages"
  shows "answered (next_messages model messages sr (fst (exec_calls exec (sr_calls sr) w)))"
proof -
  let ?rs = "fst (exec_calls exec (sr_calls sr) w)"
  have "answered (calls_message sr # ?rs)"
    using exec_calls_results[of exec "sr_calls sr" w] exec_calls_length[of exec "sr_calls sr" w]
    by (auto simp: calls_message_def simple_message_def intro: answered_results)
  then have "answered (messages @ calls_message sr # ?rs)" by (rule answered_append_closed[OF assms])
  then show ?thesis using answered_cong[OF tag_last_same] by (simp add: next_messages_def Let_def)
qed

lemma next_messages_calls:
  "concat (map mm_tool_calls (next_messages model messages sr (fst (exec_calls exec (sr_calls sr) w)))) =
   concat (map mm_tool_calls messages) @ sr_calls sr"
proof -
  have "concat (map mm_tool_calls (fst (exec_calls exec (sr_calls sr) w))) = []"
    using exec_calls_results[of exec "sr_calls sr" w] by (auto simp: concat_eq_Nil_conv)
  then show ?thesis
    by (simp add: next_messages_def map_calls_tag calls_message_def simple_message_def Let_def)
qed

section \<open>The loop\<close>

text \<open>One step of the loop, as a case distinction.\<close>

lemma loop_from_cases:
  obtains (stop) res evs w' where "loop_from lp model tools effort turns messages tin tout w = loop_end (Err res) evs [] w'"
  | (fail) res evs w' where "loop_from lp model tools effort turns messages tin tout w = loop_end (Err res) evs [messages] w'"
  | (finish) r evs w' where "loop_from lp model tools effort turns messages tin tout w = loop_end (Ok r) evs [messages] w'"
      "ir_turns r = turns \<or> ir_turns r = turns + 1 \<and> turns + 1 \<ge> tl_max_turns lp"
  | (more) sr w1 w2 evs tin' tout' where "turns + 1 < tl_max_turns lp"
      "w2 = snd (snd (exec_calls (tl_exec lp) (sr_calls sr) w1))"
      "loop_from lp model tools effort turns messages tin tout w =
         (loop_from lp model tools effort (turns + 1)
            (next_messages model messages sr (fst (exec_calls (tl_exec lp) (sr_calls sr) w1))) tin' tout' w2)
         \<lparr>lr_events := evs @ lr_events (loop_from lp model tools effort (turns + 1)
            (next_messages model messages sr (fst (exec_calls (tl_exec lp) (sr_calls sr) w1))) tin' tout' w2),
          lr_sent := messages # lr_sent (loop_from lp model tools effort (turns + 1)
            (next_messages model messages sr (fst (exec_calls (tl_exec lp) (sr_calls sr) w1))) tin' tout' w2),
          lr_ran := sr_calls sr @ lr_ran (loop_from lp model tools effort (turns + 1)
            (next_messages model messages sr (fst (exec_calls (tl_exec lp) (sr_calls sr) w1))) tin' tout' w2)\<rparr>"
proof (cases "tl_ctx lp w")
  case (Some e)
  then show ?thesis by (intro stop[of "''tool loop cancelled: '' @ e" "[]" w]) (simp add: loop_from.simps)
next
  case None
  let ?r = "do_request (tl_client lp) (tl_api lp) messages model tools effort w"
  show ?thesis
  proof (cases "ry_result ?r")
    case (Inl e)
    then show ?thesis using None
      by (intro fail[of e "ry_events ?r" "ry_world ?r"]) (simp add: loop_from.simps[of lp model tools effort turns] Let_def)
  next
    case (Inr sr)
    show ?thesis
    proof (cases "sr_calls sr = [] \<or> turns + 1 \<ge> tl_max_turns lp")
      case True
      then show ?thesis using None Inr
        by (cases "sr_calls sr = []")
           (auto intro!: finish simp: loop_from.simps[of lp model tools effort turns] Let_def)
    next
      case False
      obtain rs evs w2 where rc: "exec_calls (tl_exec lp) (sr_calls sr) (ry_world ?r) = (rs, evs, w2)" by (metis prod_cases3)
      show ?thesis
        by (rule more[of w2 sr "ry_world ?r" "tin + sr_input sr" "tout + sr_output sr" "ry_events ?r @ evs"])
           (use False None Inr rc in \<open>simp_all add: loop_from.simps[of lp model tools effort turns] Let_def\<close>)
    qed
  qed
qed

lemma loop_from_spec:
  assumes "answered messages" and "0 \<le> turns" and "turns < tl_max_turns lp"
  shows "(\<forall>ms \<in> set (lr_sent (loop_from lp model tools effort turns messages tin tout w)). answered ms) \<and>
    int (length (lr_sent (loop_from lp model tools effort turns messages tin tout w))) \<le> tl_max_turns lp - turns \<and>
    (\<forall>r. lr_result (loop_from lp model tools effort turns messages tin tout w) = Ok r \<longrightarrow>
       turns \<le> ir_turns r \<and> ir_turns r \<le> tl_max_turns lp \<and>
       lr_sent (loop_from lp model tools effort turns messages tin tout w) \<noteq> [] \<and>
       concat (map mm_tool_calls (last (lr_sent (loop_from lp model tools effort turns messages tin tout w)))) =
         concat (map mm_tool_calls messages) @ lr_ran (loop_from lp model tools effort turns messages tin tout w))"
  using assms
proof (induction "nat (tl_max_turns lp - turns)" arbitrary: turns messages tin tout w rule: less_induct)
  case less
  show ?case
  proof (cases rule: loop_from_cases[of lp model tools effort turns messages tin tout w])
    case (more sr w1 w2 evs tin' tout')
    let ?ms = "next_messages model messages sr (fst (exec_calls (tl_exec lp) (sr_calls sr) w1))"
    let ?rest = "loop_from lp model tools effort (turns + 1) ?ms tin' tout' w2"
    have ih: "(\<forall>ms \<in> set (lr_sent ?rest). answered ms) \<and>
        int (length (lr_sent ?rest)) \<le> tl_max_turns lp - (turns + 1) \<and>
        (\<forall>r. lr_result ?rest = Ok r \<longrightarrow> turns + 1 \<le> ir_turns r \<and> ir_turns r \<le> tl_max_turns lp \<and> lr_sent ?rest \<noteq> [] \<and>
           concat (map mm_tool_calls (last (lr_sent ?rest))) = concat (map mm_tool_calls ?ms) @ lr_ran ?rest)"
      by (rule less.hyps) (use less.prems more(1) next_messages_answered in auto)
    then show ?thesis using less.prems(1) unfolding more(3) next_messages_calls by auto
  qed (use less.prems in \<open>auto simp: loop_end_def\<close>)
qed

end
