(* ===== verification/Tooling_Schemas.thy ===== *)
theory Tooling_Schemas
  imports Tooling_Registry
begin

text \<open>
  What the registry of \<open>Tooling_Registry\<close> promises: which schema a name has after a scan, the mirror of
  the native tools in the capability registry, the wildcard, and the strict form of a schema.
\<close>

section \<open>Scans\<close>

definition loaded :: "(string \<Rightarrow> bool) \<Rightarrow> dir_entry list option \<Rightarrow> tool_schema list" where
  "loaded ok listing =
     (case listing of
        None \<Rightarrow> []
      | Some es \<Rightarrow> List.map_filter (\<lambda>e. if is_schema_file e then load_schema ok e else None) es)"

abbreviation file_schema :: "(string \<Rightarrow> bool) \<Rightarrow> dir_entry \<Rightarrow> tool_schema option" where
  "file_schema ok e \<equiv> (if is_schema_file e then load_schema ok e else None)"

lemma scan_entry_at:
  "scan_entry ok user e m n =
   (case file_schema ok e of
      None \<Rightarrow> m n
    | Some s \<Rightarrow> if tsc_name s = n \<and> \<not> (user \<and> m n \<noteq> None) then Some s else m n)"
  by (auto simp: scan_entry_def split: option.split)

lemma map_filter_Cons: "List.map_filter f (x # xs) = (case f x of None \<Rightarrow> [] | Some y \<Rightarrow> [y]) @ List.map_filter f xs"
  by (simp add: List.map_filter_def split: option.split)

lemma map_filter_Nil: "List.map_filter f [] = []"
  by (simp add: List.map_filter_def)

lemma find_append: "find P (xs @ ys) = (case find P xs of Some x \<Rightarrow> Some x | None \<Rightarrow> find P ys)"
  by (induction xs) auto

lemma scan_user_entries:
  "fold (scan_entry ok True) es m n =
   (case m n of Some s \<Rightarrow> Some s
    | None \<Rightarrow> find (\<lambda>s. tsc_name s = n) (List.map_filter (file_schema ok) es))"
proof (induction es arbitrary: m)
  case (Cons e es)
  show ?case
    unfolding fold_Cons o_def Cons.IH map_filter_Cons
    by (cases "m n"; cases "file_schema ok e") (simp_all add: scan_entry_at)
qed (simp add: map_filter_Nil split: option.split)

lemma scan_system_entries:
  "fold (scan_entry ok False) es m n =
   (case find (\<lambda>s. tsc_name s = n) (rev (List.map_filter (file_schema ok) es)) of
      Some s \<Rightarrow> Some s | None \<Rightarrow> m n)"
proof (induction es arbitrary: m)
  case (Cons e es)
  show ?case
    unfolding fold_Cons o_def Cons.IH map_filter_Cons rev_append find_append
    by (cases "find (\<lambda>s. tsc_name s = n) (rev (List.map_filter (file_schema ok) es))"; cases "file_schema ok e")
       (simp_all add: scan_entry_at)
qed (simp add: map_filter_Nil)

text \<open>C19. Which schema a name has after a scan, exactly: the last file of \<open>tools.d\<close> that declares the
  name, else what was kept (at start nothing is dropped, on a rescan only the native tools stay), else
  the first file of \<open>tools\<close> that declares it. So a user's file never changes a schema that a system
  file or a native tool has, whatever name it declares; a system file does replace a native one.\<close>

theorem scan_files_exact:
  "tr_schemas (scan_files ok c g initial d r) n =
   (case find (\<lambda>s. tsc_name s = n) (rev (loaded ok (td_system d))) of
      Some s \<Rightarrow> Some s
    | None \<Rightarrow>
        (case (if initial \<or> n \<in> set (tr_native_names r) then tr_schemas r n else None) of
           Some s \<Rightarrow> Some s
         | None \<Rightarrow> find (\<lambda>s. tsc_name s = n) (loaded ok (td_user d))))"
  unfolding scan_files_def Let_def scan_dir_def loaded_def
  by (cases "td_user d"; cases "td_system d")
     (auto simp: scan_user_entries scan_system_entries split: option.split)

section \<open>Native tools and the capability registry\<close>

datatype 'w tooling_op = OpNative "'w native_tool"
  | OpAttach "'w tool_capability registry option"
  | OpRescan "guard option" tool_dirs

fun tooling_step ::
  "(string \<Rightarrow> bool) \<Rightarrow> (string \<Rightarrow> string) \<Rightarrow> guard_conf \<Rightarrow> 'w tooling_op \<Rightarrow> 'w tool_registry \<Rightarrow> 'w tool_registry" where
  "tooling_step ok num c (OpNative t) r = register_native num t r"
| "tooling_step ok num c (OpAttach cr) r = set_capability_registry num cr r"
| "tooling_step ok num c (OpRescan g d) r = rescan ok c g d r"

definition mirrored :: "string list \<Rightarrow> 'w tool_capability registry \<Rightarrow> bool" where
  "mirrored names cr \<longleftrightarrow> (\<forall>n \<in> set names. n \<noteq> [] \<longrightarrow> cr n \<noteq> None)"

definition tooling_inv :: "'w tool_registry \<Rightarrow> bool" where
  "tooling_inv r \<longleftrightarrow>
     dom (tr_natives r) = set (tr_native_names r) \<and>
     (\<forall>n t. tr_natives r n = Some t \<longrightarrow> nt_name t = n) \<and>
     set (tr_native_names r) \<subseteq> dom (tr_schemas r) \<and>
     (case tr_cap r of None \<Rightarrow> True | Some cr \<Rightarrow> mirrored (tr_native_names r) cr)"

lemma register_keeps: "cr n = Some c \<Longrightarrow> snd (register x cr) n = Some c"
  by (auto simp: register_def Let_def split: option.split)

lemma register_adds: "nt_name t \<noteq> [] \<Longrightarrow> snd (register (Some (as_capability num t)) cr) (nt_name t) \<noteq> None"
  by (auto simp: register_def as_capability_def Let_def)

lemma back_fill_keeps: "cr n \<noteq> None \<Longrightarrow> fold (back_fill num natives) names cr n \<noteq> None"
proof (induction names arbitrary: cr)
  case (Cons m names)
  have "back_fill num natives m cr n \<noteq> None"
    using Cons.prems by (auto simp: back_fill_def register_keeps split: option.split)
  then show ?case using Cons.IH by simp
qed simp

lemma back_fill_mirrors:
  assumes "\<forall>n t. natives n = Some t \<longrightarrow> nt_name t = n"
  shows "set names \<subseteq> dom natives \<Longrightarrow> mirrored names (fold (back_fill num natives) names cr)"
proof (induction names arbitrary: cr)
  case (Cons m names)
  obtain t where t: "natives m = Some t" "nt_name t = m" using Cons.prems assms by auto
  have "m \<noteq> [] \<Longrightarrow> back_fill num natives m cr m \<noteq> None"
    using t register_adds[of t num cr] by (auto simp: back_fill_def get_cap_def)
  then have "m \<noteq> [] \<Longrightarrow> fold (back_fill num natives) names (back_fill num natives m cr) m \<noteq> None"
    by (rule back_fill_keeps)
  then show ?case using Cons by (auto simp: mirrored_def)
qed (simp add: mirrored_def)

lemma scan_keeps_dom: "n \<in> set (tr_native_names r) \<Longrightarrow> tr_schemas r n \<noteq> None \<Longrightarrow> tr_schemas (rescan ok c g d r) n \<noteq> None"
  unfolding rescan_def scan_files_exact by (auto split: option.split)

lemma register_native_inv:
  assumes "tooling_inv r" shows "tooling_inv (register_native num t r)"
proof -
  have "mirrored (tr_native_names r @ [nt_name t]) (snd (register (Some (as_capability num t)) cr))"
    if "mirrored (tr_native_names r) cr" for cr
    using that register_adds[of t num cr] register_keeps[of cr _ _ "Some (as_capability num t)"]
    by (auto simp: mirrored_def)
  then show ?thesis using assms by (auto simp: tooling_inv_def register_native_def split: option.splits)
qed

lemma tooling_step_inv: "tooling_inv r \<Longrightarrow> tooling_inv (tooling_step ok num c op r)"
proof (cases op)
  case (OpNative t)
  then show "tooling_inv r \<Longrightarrow> ?thesis" by (simp add: register_native_inv)
next
  case (OpAttach cr)
  then show "tooling_inv r \<Longrightarrow> ?thesis"
    by (cases cr) (auto simp: tooling_inv_def set_capability_registry_def intro!: back_fill_mirrors)
next
  case (OpRescan g d)
  assume r: "tooling_inv r"
  have "set (tr_native_names r) \<subseteq> dom (tr_schemas (rescan ok c g d r))"
    using r scan_keeps_dom[of _ r ok c g d] unfolding tooling_inv_def by blast
  then show ?thesis using r OpRescan
    by (cases "tr_cap r") (auto simp: tooling_inv_def rescan_def scan_files_def Let_def)
qed

interpretation tooling: op_machine empty_tool_registry "tooling_step ok num c" tooling_inv for ok num c
  by unfold_locales
     (simp add: tooling_inv_def empty_tool_registry_def, rule tooling_step_inv)


definition demo_tool :: "string \<Rightarrow> unit native_tool" where
  "demo_tool out = \<lparr>nt_name = ''x'', nt_schema = zero_schema, nt_run = (\<lambda>_ w. (Ok out, w))\<rparr>"

definition demo_conf :: guard_conf where
  "demo_conf = \<lparr>gc_hash = (\<lambda>s. s), gc_rules = [], gc_umask = 0\<rparr>"


text \<open>A native tool that is registered again under the same name: the tool registry has the new tool, the
  capability registry keeps the old one, and the name is listed twice.\<close>

theorem reregistered_native_diverges:
  assumes "nt_name new = nt_name old" and "nt_name old \<noteq> []" and "tr_cap r = Some cr" and "cr (nt_name old) = None"
  shows "get_native (nt_name old) (register_native num new (register_native num old r)) = Some new \<and>
    map_option (get_cap (nt_name old)) (tr_cap (register_native num new (register_native num old r))) =
      Some (Some (as_capability num old)) \<and>
    count_list (tr_native_names (register_native num new (register_native num old r))) (nt_name old) \<ge> 2"
  using assms
  by (simp add: get_native_def register_native_def register_def as_capability_def get_cap_def Let_def)

theorem reregistered_native_diverges_witness:
  "map_option (get_cap ''x'') (tr_cap (register_native (\<lambda>s. s) (demo_tool ''new'')
     (register_native (\<lambda>s. s) (demo_tool ''old'') (empty_tool_registry\<lparr>tr_cap := Some Map.empty\<rparr>)))) =
   Some (Some (as_capability (\<lambda>s. s) (demo_tool ''old'')))"
  using reregistered_native_diverges[of "demo_tool ''new''" "demo_tool ''old''"
      "empty_tool_registry\<lparr>tr_cap := Some Map.empty\<rparr>" Map.empty "\<lambda>s. s"]
  by (simp add: demo_tool_def)

section \<open>The wildcard\<close>

lemma add_unseen_fold: "distinct ts \<Longrightarrow> distinct (fold add_unseen ns ts) \<and> set (fold add_unseen ns ts) = set ts \<union> set ns"
proof (induction ns arbitrary: ts)
  case (Cons n ns)
  have "distinct (add_unseen n ts)" using Cons.prems by (auto simp: add_unseen_def)
  from Cons.IH[OF this] show ?case by (auto simp: add_unseen_def)
qed simp

text \<open>The tool list of a wildcard does not depend on the order in which Go reads its map: it is the
  sorted list, without duplicates, of the executables of the two directories (the signal tools and
  the manifests apart) and the native tools. Two requests therefore have the same list.\<close>

theorem resolve_wildcard_exact:
  assumes "{n. seen_in (td_system d) n \<or> seen_in (td_user d) n} \<subseteq> set order"
  shows "resolve_wildcard order d (Some r) =
    sorted_list_of_set ({n. seen_in (td_system d) n \<or> seen_in (td_user d) n} \<union> set (tr_native_names r))"
proof -
  let ?ts = "fold add_unseen (discover_tool_names order d) []"
  let ?ts' = "fold add_unseen (tr_native_names r) ?ts"
  have a: "distinct ?ts" "set ?ts = {n. seen_in (td_system d) n \<or> seen_in (td_user d) n}"
    using add_unseen_fold[of "[]" "discover_tool_names order d"] assms by (auto simp: discover_tool_names_def)
  have b: "distinct ?ts'" "set ?ts' = {n. seen_in (td_system d) n \<or> seen_in (td_user d) n} \<union> set (tr_native_names r)"
    using add_unseen_fold[OF a(1), of "tr_native_names r"] a(2) by auto
  have "sort ?ts' = sorted_list_of_set (set ?ts')"
    using b(1) by (simp add: sorted_list_of_set_sort_remdups distinct_remdups_id)
  then show ?thesis unfolding b(2) by (simp add: resolve_wildcard_def Let_def)
qed

definition demo_entry :: "string \<Rightarrow> dir_entry" where
  "demo_entry n = \<lparr>de_name = n, de_is_dir = False, de_file = None\<rparr>"

definition demo_dirs :: tool_dirs where
  "demo_dirs = \<lparr>td_system = Some (map demo_entry [''b'', ''status'']), td_user = Some (map demo_entry [''b'', ''a'', ''a.json''])\<rparr>"

lemma demo_dirs_seen: "{n. seen_in (td_system demo_dirs) n \<or> seen_in (td_user demo_dirs) n} = {''b'', ''a''}"
  by (auto simp: seen_in_def demo_dirs_def demo_entry_def is_tool_file_def signal_tools_def has_suffix_def suffix_def
      Cons_eq_append_conv)

theorem resolve_wildcard_exact_witness:
  "resolve_wildcard [''b'', ''a''] demo_dirs (Some (register_native (\<lambda>s. s) (demo_tool []) empty_tool_registry)) =
   sorted_list_of_set ({''b'', ''a''} \<union> {''x''}) \<and>
   resolve_wildcard [''a'', ''b''] demo_dirs (Some (register_native (\<lambda>s. s) (demo_tool []) empty_tool_registry)) =
   sorted_list_of_set ({''b'', ''a''} \<union> {''x''})"
  using resolve_wildcard_exact[of demo_dirs "[''b'', ''a'']" "register_native (\<lambda>s. s) (demo_tool []) empty_tool_registry"]
    resolve_wildcard_exact[of demo_dirs "[''a'', ''b'']" "register_native (\<lambda>s. s) (demo_tool []) empty_tool_registry"]
  unfolding demo_dirs_seen
  by (simp add: register_native_def demo_tool_def empty_tool_registry_def)

section \<open>Names and strict schemas\<close>

lemma name_char_sanitize: "tool_name_char c \<Longrightarrow> sanitize_char c = [c]"
  by (simp add: sanitize_char_def)

lemma sanitize_char_safe: "x \<in> set (sanitize_char c) \<Longrightarrow> tool_name_char x"
  by (auto simp: sanitize_char_def tool_name_char_def Let_def split: if_splits)

lemma sanitize_safe_id: "list_all tool_name_char s \<Longrightarrow> sanitize_tool_name s = s"
  by (induction s) (auto simp: sanitize_tool_name_def name_char_sanitize)

text \<open>A sanitized name has only letters, digits and underscores, and is left alone by another pass; two
  tools can get the same name, and nothing cuts a name at the 64 bytes of the API.\<close>

theorem sanitize_tool_name_safe:
  "list_all tool_name_char (sanitize_tool_name s) \<and>
   sanitize_tool_name (sanitize_tool_name s) = sanitize_tool_name s \<and>
   sanitize_tool_name ''a-b'' = sanitize_tool_name ''a.b'' \<and>
   length (sanitize_tool_name (replicate n (CHR ''a''))) = n"
proof -
  have safe: "list_all tool_name_char (sanitize_tool_name s)" for s
    by (auto simp: list_all_iff sanitize_tool_name_def sanitize_char_safe)
  have "sanitize_tool_name (replicate n (CHR ''a'')) = replicate n (CHR ''a'')"
    by (rule sanitize_safe_id) (simp add: list_all_iff tool_name_char_def)
  then show ?thesis using safe sanitize_safe_id[OF safe]
    by (simp add: sanitize_tool_name_def sanitize_char_def tool_name_char_def)
qed

definition allows_null :: "go_val \<Rightarrow> bool" where
  "allows_null p \<longleftrightarrow>
     (case p of
        VMap kvs \<Rightarrow>
          (case map_of kvs ''type'' of
             Some (VStr t) \<Rightarrow> t = ''null'' | Some (VList ts) \<Rightarrow> VStr ''null'' \<in> set ts | _ \<Rightarrow> True)
      | _ \<Rightarrow> True)"

lemma nullable_allows_null: "allows_null (nullable_prop p)"
  by (auto simp: allows_null_def nullable_prop_def update_conv' split: go_val.splits option.splits)

lemma nullable_idem: "nullable_prop (nullable_prop p) = nullable_prop p"
  by (auto simp: nullable_prop_def update_conv' split: go_val.splits option.splits)

lemma map_of_patch:
  "map_of (patch_props params props) k =
   map_option (\<lambda>v. if orig_required params k then v else nullable_prop v) (map_of props k)"
  by (induction props) (auto simp: patch_props_def)

lemma orig_required_update: "orig_required (AList.update ''properties'' v params) = orig_required params"
  by (rule ext) (simp add: orig_required_def update_conv')

lemma patch_idem:
  "patch_props (AList.update ''properties'' v params) (patch_props params props) = patch_props params props"
  by (auto simp: patch_props_def orig_required_update nullable_idem)

lemma fst_patch: "fst ` set (patch_props params props) = fst ` set props"
  by (force simp: patch_props_def)

lemma update_update: "AList.update k v (AList.update k w xs) = AList.update k v xs"
  by (induction xs) auto

text \<open>The strict form of a schema has every property in \<open>required\<close> and no additional ones; a property
  that was required is unchanged, every other one allows null (where its type says anything), and
  converting the same schema a second time, in the same order, gives the same result. The copy is
  shallow: the original's own properties are the patched ones afterwards.\<close>

theorem strict_schema_exact:
  assumes "map_of params ''properties'' = Some (VMap props)" and "fst ` set props \<subseteq> set order"
  shows "\<exists>ps rs. map_of (fst (enforce_strict_schema order params)) ''properties'' = Some (VMap ps) \<and>
      map_of (fst (enforce_strict_schema order params)) ''required'' = Some (VStrs rs) \<and>
      map_of (fst (enforce_strict_schema order params)) ''additionalProperties'' = Some (VBool False) \<and>
      set rs = fst ` set props \<and>
      (\<forall>k v. map_of props k = Some v \<longrightarrow>
         (if orig_required params k then map_of ps k = Some v
          else \<exists>v'. map_of ps k = Some v' \<and> allows_null v')) \<and>
      map_of (snd (enforce_strict_schema order params)) ''properties'' = Some (VMap ps) \<and>
      enforce_strict_schema order (snd (enforce_strict_schema order params)) = enforce_strict_schema order params"
proof -
  let ?ps = "patch_props params props"
  let ?rs = "filter (\<lambda>n. n \<in> fst ` set props) order"
  let ?p = "AList.update ''properties'' (VMap ?ps) params"
  have e: "enforce_strict_schema order params =
      (AList.update ''additionalProperties'' (VBool False) (AList.update ''required'' (VStrs ?rs) ?p), ?p)"
    using assms(1) by (simp add: enforce_strict_schema_def Let_def)
  have again: "enforce_strict_schema order ?p = enforce_strict_schema order params"
    unfolding e by (simp add: enforce_strict_schema_def update_conv' patch_idem fst_patch update_update Let_def)
  show ?thesis
    by (rule exI[of _ ?ps], rule exI[of _ ?rs])
       (use assms(2) again in \<open>auto simp: e update_conv' map_of_patch nullable_allows_null\<close>)
qed

definition sample_schema :: "(string \<times> go_val) list" where
  "sample_schema =
     [(''properties'', VMap [(''a'', VMap [(''type'', VStr ''string'')]), (''b'', VMap [(''type'', VStr ''integer'')])]),
      (''required'', VList [VStr ''a''])]"

theorem strict_schema_exact_witness:
  "\<exists>ps rs. map_of (fst (enforce_strict_schema [''a'', ''b''] sample_schema)) ''properties'' = Some (VMap ps) \<and>
     set rs = {''a'', ''b''} \<and>
     map_of (fst (enforce_strict_schema [''a'', ''b''] sample_schema)) ''required'' = Some (VStrs rs)"
  using strict_schema_exact[of sample_schema "[(''a'', VMap [(''type'', VStr ''string'')]), (''b'', VMap [(''type'', VStr ''integer'')])]"
      "[''a'', ''b'']"]
  by (fastforce simp: sample_schema_def)

text \<open>So a conversion without strict mode, for a backend that has none, is affected by an earlier strict one.\<close>

theorem strict_conversion_leaks:
  "map_of sample_schema ''properties'' \<noteq> map_of (snd (enforce_strict_schema [''a'', ''b''] sample_schema)) ''properties'' \<and>
   snd (to_openai_one True [''a'', ''b''] \<lparr>tsc_name = ''t'', tsc_description = [], tsc_parameters = Some sample_schema\<rparr>) =
     \<lparr>tsc_name = ''t'', tsc_description = [], tsc_parameters = Some (snd (enforce_strict_schema [''a'', ''b''] sample_schema))\<rparr>"
  by (simp add: sample_schema_def enforce_strict_schema_def patch_props_def orig_required_def nullable_prop_def
      to_openai_one_def Let_def)

end
