(* ===== verification/Tooling_Properties.thy ===== *)
theory Tooling_Properties
  imports Tooling_Executor Tooling_Schemas
begin

text \<open>
  What the executor of \<open>Tooling_Executor\<close> promises: where a tool comes from, that a user's tool only runs
  when the integrity guard accepts the very file that is started, and how a call is answered.
\<close>

section \<open>Paths\<close>

lemma plain_dirs: "plain_elem (tool_dir u)" "CHR ''/'' \<notin> set (tool_dir u)" "plain_elem ''tools''"
  by (simp_all add: plain_elem_def tool_dir_def)

lemma path_elems_below:
  assumes "is_abs d" and "list_all plain_elem es" and "es \<noteq> []"
  shows "path_elems (d @ ''/'' @ str_join ''/'' es) = path_elems d @ es"
proof -
  have abs: "is_abs (d @ ''/'' @ str_join ''/'' es)" using assms(1) by (cases d) (auto simp: is_abs_def)
  have "split_at (CHR ''/'') (str_join ''/'' es) = es"
    using assms by (intro split_at_join) (auto simp: list_all_iff plain_elem_def)
  then have "path_elems (d @ ''/'' @ str_join ''/'' es) = clean_elems True [] (split_at (CHR ''/'') d @ es)"
    using abs by (simp add: path_elems_def split_at_app)
  also have "\<dots> = clean_elems True (rev (path_elems d)) es"
    using assms(1) by (simp add: path_elems_def clean_elems_append)
  also have "\<dots> = path_elems d @ es" using clean_elems_id[OF assms(2)] by simp
  finally show ?thesis .
qed

lemma join_path_below:
  assumes "is_abs d" and "list_all plain_elem es" and "es \<noteq> []"
  shows "join_path (d # es) = render True (path_elems d @ es)"
proof -
  have ne: "d \<noteq> []" using assms(1) by (auto simp: is_abs_def)
  have j: "str_join ''/'' (d # es) = d @ ''/'' @ str_join ''/'' es" using assms(3) by (cases es) auto
  have abs: "is_abs (str_join ''/'' (d # es))" using assms(1) ne unfolding j by (cases d) (auto simp: is_abs_def)
  show ?thesis using ne clean_render[OF abs] path_elems_below[OF assms] by (simp add: join_path_def j)
qed

lemma str_join_snoc: "str_join sep (es @ [x]) = (if es = [] then x else str_join sep es @ sep @ x)"
  by (induction sep es rule: str_join.induct) auto

lemma tool_path_render:
  assumes "is_abs d" and "plain_elem (snd p)"
  shows "tool_path d p = render True (path_elems d @ [tool_dir (fst p), snd p])"
  using join_path_below[OF assms(1), of "[tool_dir (fst p), snd p]"] assms(2) plain_dirs by (simp add: tool_path_def)

lemma tool_path_elems:
  assumes "is_abs d" and "plain_elem (snd p)"
  shows "path_elems (tool_path d p) = path_elems d @ [tool_dir (fst p), snd p]"
proof -
  have "list_all plain_elem (path_elems d @ [tool_dir (fst p), snd p])"
    using path_elems_plain[OF assms(1)] assms(2) plain_dirs by simp
  from path_elems_render[OF this] show ?thesis by (simp add: tool_path_render[OF assms])
qed

lemma is_user_tool_iff:
  assumes "is_abs d" and "plain_elem (snd p)"
  shows "is_user_tool (tool_path d p) d \<longleftrightarrow> fst p"
proof -
  let ?P = "if path_elems d = [] then [] else str_join ''/'' (path_elems d) @ ''/''"
  have u: "join_path [d, ''tools''] = CHR ''/'' # ?P @ ''tools''"
    using join_path_below[OF assms(1), of "[''tools'']"] plain_dirs
    by (simp add: render_def str_join_snoc)
  have t: "tool_path d p = CHR ''/'' # ?P @ tool_dir (fst p) @ ''/'' @ snd p"
    using str_join_snoc[of "''/''" "path_elems d @ [tool_dir (fst p)]" "snd p"]
    by (simp add: tool_path_render[OF assms] render_def str_join_snoc)
  show ?thesis unfolding is_user_tool_def u t by (simp add: has_prefix_def tool_dir_def)
qed

section \<open>Resolution\<close>

lemma candidate_plain:
  assumes "c \<in> set (candidates name)" and "CHR ''/'' \<notin> set name" and "\<not> str_contains name ''..''"
    and "c \<noteq> []" and "c \<noteq> ''.''"
  shows "plain_elem c"
proof -
  have "c \<noteq> ''..''"
  proof
    assume c: "c = ''..''"
    have "name = ''..''" if "map (\<lambda>x. if x = CHR ''_'' then CHR ''-'' else x) name = ''..''"
      using that by (auto simp: map_eq_Cons_conv split: if_splits)
    then have "name = ''..''" using assms(1) c by (auto simp: candidates_def split: if_splits)
    then show False using assms(3) by (simp add: str_contains_def)
  qed
  moreover have "CHR ''/'' \<notin> set c" using assms(1,2) by (auto simp: candidates_def split: if_splits)
  ultimately show ?thesis using assms(4,5) by (simp add: plain_elem_def)
qed

lemma find_Some_mem: "find P xs = Some x \<Longrightarrow> x \<in> set xs \<and> P x"
  by (induction xs) (auto split: if_splits)

lemma resolve_tool_Some:
  assumes "resolve_tool system tools name = Some p"
  shows "snd p \<in> set (candidates name) \<and> in_dir system tools p \<and> plain_elem (snd p) \<and>
    (fst p \<longrightarrow> (\<forall>c \<in> set (candidates name). \<not> stat_file system c))"
proof -
  let ?ps = "map (Pair False) (candidates name) @ map (Pair True) (candidates name)"
  have f: "find (in_dir system tools) ?ps = Some p" and n: "CHR ''/'' \<notin> set name" "\<not> str_contains name ''..''"
    using assms by (auto simp: resolve_tool_def split: if_splits)
  have m: "p \<in> set ?ps" "in_dir system tools p" using find_Some_mem[OF f] by auto
  have c: "snd p \<in> set (candidates name)" using m(1) by auto
  have "\<forall>c \<in> set (candidates name). \<not> in_dir system tools (False, c)" if "fst p"
  proof (cases "find (in_dir system tools) (map (Pair False) (candidates name))")
    case None
    then show ?thesis by (auto simp: find_None_iff)
  next
    case (Some q)
    then have "q = p" using f by (simp add: find_append)
    moreover have "\<not> fst q" using find_Some_mem[OF Some] by auto
    ultimately show ?thesis using that by simp
  qed
  then show ?thesis using c m(2) candidate_plain[OF c n] by (auto simp: in_dir_def stat_file_def)
qed

text \<open>C21. Where an executable comes from. A resolved tool is a plain file directly in \<open>tools.d\<close> or \<open>tools\<close>
  under the name of the call, or that name with its underscores read as hyphens: no name leads
  anywhere else. A user's tool is used only when no system tool has one of these names, and the
  integrity check recognises exactly the tools of the user's directory.\<close>

theorem resolve_tool_exact:
  assumes "is_abs dataDir" and "resolve_tool system tools name = Some p"
  shows "path_elems (tool_path dataDir p) = path_elems dataDir @ [tool_dir (fst p), snd p] \<and>
    snd p \<in> set (candidates name) \<and> (if fst p then tools else system) (snd p) \<noteq> None \<and>
    (fst p \<longrightarrow> (\<forall>c \<in> set (candidates name). \<not> stat_file system c)) \<and>
    is_user_tool (tool_path dataDir p) dataDir = fst p \<and> base_of_path (tool_path dataDir p) = snd p"
  using resolve_tool_Some[OF assms(2)] tool_path_elems[OF assms(1), of p] is_user_tool_iff[OF assms(1), of p]
  by (auto simp: in_dir_def stat_file_def base_of_path_def)

definition demo_file :: "string \<Rightarrow> tool_file" where
  "demo_file d = \<lparr>tf_data = d, tf_mode = modeTool, tf_uid = uidAlf, tf_gid = gidAlf, tf_mtime = 0\<rparr>"

lemma demo_resolve: "resolve_tool Map.empty [''my-tool'' \<mapsto> demo_file ''sh''] ''my_tool'' = Some (True, ''my-tool'')"
  by (simp add: resolve_tool_def candidates_def in_dir_def stat_file_def str_contains_def sublist_def Cons_eq_append_conv)

theorem resolve_tool_exact_witness:
  "path_elems (tool_path ''/d'' (True, ''my-tool'')) = path_elems ''/d'' @ [''tools'', ''my-tool''] \<and>
   is_user_tool (tool_path ''/d'' (True, ''my-tool'')) ''/d''"
  using resolve_tool_exact[OF _ demo_resolve, of "''/d''"] by (simp add: is_abs_def tool_dir_def)

section \<open>Execution\<close>

lemma verify_passes:
  assumes "verify_tool c t name g = (None, g')"
  shows "g_tools g' = g_tools g \<and> g_quarantined g name = None \<and>
    (\<exists>f e. g_tools g name = Some f \<and> g_manifest g' name = Some e \<and> me_exe_hash e = gc_hash c (tf_data f) \<and>
       (g_manifest g name = Some e \<or>
        g_manifest g name = None \<and> audit_tool_source c (Some f) name = []))"
  using assms
  by (auto simp: verify_tool_def hash_file_def save_manifest_def split: if_splits option.splits)

lemma finish_call_started: "xs_started (snd (finish_call env now call po s)) = xs_started s"
  by (auto simp: finish_call_def journal_failure_def journal_success_def Let_def split: option.split)

lemma finish_call_guard: "xs_guard (snd (finish_call env now call po s)) = xs_guard s"
  by (auto simp: finish_call_def journal_failure_def journal_success_def Let_def split: option.split)

lemma run_process_started [simp]:
  "xs_started (snd (run_process env order now call path f s)) =
     xs_started s @ [\<lparr>sd_path = path, sd_file = f, sd_args = json_to_cli env order (cq_name call) (cq_arguments call)\<rparr>]"
  "xs_guard (snd (run_process env order now call path f s)) = xs_guard s"
  by (simp_all add: run_process_def finish_call_started finish_call_guard Let_def split: prod.split)

lemma execute_call_starts:
  assumes "is_abs (xe_data_dir env)" and "xe_integrity env"
  shows "xs_started (snd (execute_call env order t call s)) = xs_started s \<or>
    (\<exists>p f e. resolve_tool (xs_system s) (g_tools (xs_guard s)) (cq_name call) = Some p \<and>
       xs_started (snd (execute_call env order t call s)) = xs_started s @
         [\<lparr>sd_path = tool_path (xe_data_dir env) p, sd_file = f,
           sd_args = json_to_cli env order (cq_name call) (cq_arguments call)\<rparr>] \<and>
       (if fst p then g_tools (xs_guard s) else xs_system s) (snd p) = Some f \<and>
       (fst p \<longrightarrow>
          g_quarantined (xs_guard s) (snd p) = None \<and>
          g_manifest (xs_guard (snd (execute_call env order t call s))) (snd p) = Some e \<and>
          me_exe_hash e = gc_hash (xe_conf env) (tf_data f) \<and>
          (g_manifest (xs_guard s) (snd p) = Some e \<or>
           g_manifest (xs_guard s) (snd p) = None \<and> audit_tool_source (xe_conf env) (Some f) (snd p) = [])))"
proof (cases "xe_natives env (cq_name call) = None \<and>
    resolve_tool (xs_system s) (g_tools (xs_guard s)) (cq_name call) \<noteq> None")
  case False
  have "xs_started (snd (execute_call env order t call s)) = xs_started s"
  proof (cases "xe_natives env (cq_name call)")
    case None
    then have "resolve_tool (xs_system s) (g_tools (xs_guard s)) (cq_name call) = None" using False by blast
    then show ?thesis using None by (simp add: execute_call_def Let_def)
  next
    case (Some n)
    then show ?thesis by (simp add: execute_call_def split: prod.split sum.split)
  qed
  then show ?thesis by blast
next
  case True
  then obtain p where nat: "xe_natives env (cq_name call) = None"
    and p: "resolve_tool (xs_system s) (g_tools (xs_guard s)) (cq_name call) = Some p" by auto
  let ?path = "tool_path (xe_data_dir env) p"
  note ex = resolve_tool_exact[OF assms(1) p]
  obtain err g where chk: "check_integrity env t ?path (xs_guard s) = (err, g)" by fastforce
  show ?thesis
  proof (cases err)
    case (Some m)
    then show ?thesis using nat p chk by (simp add: execute_call_def Let_def)
  next
    case None
    have g: "g_tools g = g_tools (xs_guard s)"
      using chk None ex verify_passes[of "xe_conf env" t "snd p" "xs_guard s" g]
      by (auto simp: check_integrity_def split: if_splits)
    obtain f where f: "(if fst p then g_tools (xs_guard s) else xs_system s) (snd p) = Some f" using ex by auto
    have x: "execute_call env order t call s = run_process env order (gn_now t) call ?path f (s\<lparr>xs_guard := g\<rparr>)"
      using nat p chk None g f by (simp add: execute_call_def Let_def split: if_splits)
    have "\<exists>e. fst p \<longrightarrow> g_quarantined (xs_guard s) (snd p) = None \<and> g_manifest g (snd p) = Some e \<and>
        me_exe_hash e = gc_hash (xe_conf env) (tf_data f) \<and>
        (g_manifest (xs_guard s) (snd p) = Some e \<or>
         g_manifest (xs_guard s) (snd p) = None \<and> audit_tool_source (xe_conf env) (Some f) (snd p) = [])"
      using chk None ex f assms(2) verify_passes[of "xe_conf env" t "snd p" "xs_guard s" g]
      by (auto simp: check_integrity_def)
    then show ?thesis using p f unfolding x by auto
  qed
qed


definition demo_executor :: "unit executor" where
  "demo_executor =
     \<lparr>xe_data_dir = ''/d'', xe_home_dir = ''/h'', xe_natives = Map.empty, xe_registry = None, xe_integrity = True,
      xe_journal = True, xe_env = [], xe_timeout = 0, xe_conf = demo_conf, xe_range = (\<lambda>_. True), xe_num = (\<lambda>x. x),
      xe_num_v = (\<lambda>x. x), xe_time = Some, xe_show_duration = (\<lambda>_. ''30s''), xe_links = Map.empty,
      xe_spawn = (\<lambda>path f args inp env d w.
        (\<lparr>po_stdout = [], po_stderr = ''bad'', po_err = Some ''exit status 1'', po_deadline = False, po_exit = Some 1\<rparr>, w))\<rparr>"

definition demo_exec_state :: "unit exec_state" where
  "demo_exec_state =
     \<lparr>xs_system = Map.empty, xs_guard = fresh_guard [''my-tool'' \<mapsto> demo_file ''sh''], xs_journal = None,
      xs_world = (), xs_started = []\<rparr>"

definition demo_call :: call_request where
  "demo_call = \<lparr>cq_id = ''c1'', cq_name = ''my_tool'', cq_arguments = ''{}''\<rparr>"

definition demo_time :: guard_now where "demo_time = \<lparr>gn_now = ''2026-01-01T00:00:00Z'', gn_mtime = 0\<rparr>"

lemma demo_started:
  "xs_started (snd (execute_call demo_executor [] demo_time demo_call demo_exec_state)) =
   [\<lparr>sd_path = tool_path ''/d'' (True, ''my-tool''), sd_file = demo_file ''sh'', sd_args = []\<rparr>]"
proof -
  have u: "is_user_tool (tool_path ''/d'' (True, ''my-tool'')) ''/d''" "base_of_path (tool_path ''/d'' (True, ''my-tool'')) = ''my-tool''"
    using resolve_tool_exact[OF _ demo_resolve, of "''/d''"] by (simp_all add: is_abs_def)
  have "check_integrity demo_executor demo_time (tool_path ''/d'' (True, ''my-tool'')) (xs_guard demo_exec_state) =
      verify_tool demo_conf demo_time ''my-tool'' (fresh_guard [''my-tool'' \<mapsto> demo_file ''sh''])"
    using u by (simp add: check_integrity_def demo_executor_def demo_exec_state_def)
  then show ?thesis
    using demo_resolve
    by (simp add: execute_call_def demo_executor_def demo_exec_state_def demo_call_def fresh_guard_def verify_tool_def
        demo_conf_def audit_tool_source_def hash_file_def save_manifest_def json_to_cli_def Let_def)
qed


lemma finish_call_answer:
  "cv_id (fst (finish_call env now call po s)) = cq_id call \<and>
   (\<not> cv_is_error (fst (finish_call env now call po s)) \<longrightarrow>
      cv_output (fst (finish_call env now call po s)) \<noteq> [] \<and> cv_exit_code (fst (finish_call env now call po s)) = 0)"
  by (auto simp: finish_call_def call_failed_def call_succeeded_def Let_def split: option.split)

lemma run_process_answer:
  "cv_id (fst (run_process env order now call path f s)) = cq_id call \<and>
   (\<not> cv_is_error (fst (run_process env order now call path f s)) \<longrightarrow>
      cv_output (fst (run_process env order now call path f s)) \<noteq> [] \<and>
      cv_exit_code (fst (run_process env order now call path f s)) = 0)"
  by (simp add: run_process_def finish_call_answer Let_def split: prod.split)

text \<open>Every call is answered under its own id, and an answer that is no error says something.\<close>

theorem call_answered:
  "cv_id (fst (execute_call env order t call s)) = cq_id call \<and>
   (\<not> cv_is_error (fst (execute_call env order t call s)) \<longrightarrow>
      cv_output (fst (execute_call env order t call s)) \<noteq> [] \<and>
      cv_exit_code (fst (execute_call env order t call s)) = 0)"
  by (auto simp: execute_call_def run_process_answer call_failed_def call_succeeded_def Let_def
      split: option.split prod.split sum.split)

text \<open>The journal follows the outcome of the process. A process that ends without an error resolves the
  entries of its tool; one that fails or times out adds one entry with the output of the call; a call
  that starts no process leaves the journal as it is.\<close>

theorem journal_follows_outcome:
  assumes "xe_journal env" and "xe_spawn env path f (json_to_cli env order (cq_name call) (cq_arguments call))
      (if json_to_cli env order (cq_name call) (cq_arguments call) = [] then Some (cq_arguments call) else None)
      (build_env_for_tool env path) (call_timeout env) (xs_world s) = (po, w)"
  shows "xs_journal (snd (run_process env order now call path f s)) =
    (if po_err po = None then resolve_by_name (xe_time env) now (cq_name call) (xs_journal s)
     else append_error (xe_time env)
            (hash_tool_source (xe_conf env) (g_tools (xs_guard s)) (xs_system s) (cq_name call))
            now (cq_name call) (cq_arguments call) (cv_output (fst (run_process env order now call path f s))) (xs_journal s)) \<and>
    (cv_is_error (fst (run_process env order now call path f s)) = (po_err po \<noteq> None))"
  using assms
  by (auto simp: run_process_def finish_call_def journal_failure_def journal_success_def call_failed_def
      call_succeeded_def Let_def split: option.split)

theorem journal_follows_outcome_witness:
  "cv_is_error (fst (run_process demo_executor [] ''2026-01-01T00:00:00Z'' demo_call ''/d/tools/my-tool'' (demo_file ''sh'') demo_exec_state))"
  using journal_follows_outcome[of demo_executor "''/d/tools/my-tool''" "demo_file ''sh''" "[]" demo_call demo_exec_state]
  by (simp add: demo_executor_def)

text \<open>A tool whose file name has a hyphen is offered to the model under its sanitized name and found
  again under it, but its schema is not: the arguments of the call are not converted to options, the
  JSON goes to standard input as if the tool had no schema, and the journal has no hash of its source.\<close>

theorem hyphenated_tool_loses_schema:
  assumes "tools ''my-tool'' = Some f" and "tools ''my_tool'' = None" and "system ''my_tool'' = None" and "system ''my-tool'' = None"
    and "xe_registry env = Some r" and "get_schema ''my-tool'' r = Some schema" and "get_schema ''my_tool'' r = None"
  shows "sanitize_tool_name ''my-tool'' = ''my_tool'' \<and>
    resolve_tool system tools ''my_tool'' = Some (True, ''my-tool'') \<and>
    json_to_cli env order ''my_tool'' args = [] \<and>
    hash_tool_source c tools system ''my_tool'' = []"
  using assms
  by (simp add: sanitize_tool_name_def sanitize_char_def tool_name_char_def resolve_tool_def candidates_def in_dir_def
      stat_file_def str_contains_def sublist_def Cons_eq_append_conv json_to_cli_def hash_tool_source_def)

definition demo_registry :: "unit tool_registry" where
  "demo_registry = empty_tool_registry\<lparr>tr_schemas := [''my-tool'' \<mapsto> fallback_schema ''my-tool'']\<rparr>"

theorem hyphenated_tool_loses_schema_witness:
  "json_to_cli (demo_executor\<lparr>xe_registry := Some demo_registry\<rparr>) [''args''] ''my_tool'' ''{\"args\":\"x\"}'' = []"
  using hyphenated_tool_loses_schema[of "[''my-tool'' \<mapsto> demo_file ''sh'']" "demo_file ''sh''" Map.empty
      "demo_executor\<lparr>xe_registry := Some demo_registry\<rparr>" demo_registry "fallback_schema ''my-tool''" "[''args'']"]
  by (simp add: demo_registry_def get_schema_def)

end
