(* ===== verification/Provider_Properties.thy ===== *)
theory Provider_Properties
  imports Tool_Loop Tooling_Properties
begin

text \<open>
  What the API provider and its tool loop promise: bounded requests, a conversation in which every tool
  call has its result, and tools that only run when they are verified; and what a response that
  stops early is taken for.
\<close>

section \<open>Requests\<close>

lemma requests_le:
  "1 \<le> ry_requests (do_stream_request hc p req attempt w) \<and> ry_requests (do_stream_request hc p req attempt w) \<le> max 1 (4 - attempt)"
proof (induction hc p req attempt w rule: do_stream_request.induct)
  case (1 hc p req attempt w)
  obtain o1 w1 where h: "hc_do hc req w = (o1, w1)" by fastforce
  show ?case
  proof (cases o1)
    case (Inl e)
    then show ?thesis using h by (simp add: do_stream_request.simps[of hc p req attempt w])
  next
    case (Inr r)
    consider (limit) "hr_status r = 429" "attempt < 3" | (bad) "\<not> (hr_status r = 429 \<and> attempt < 3)" "hr_status r \<noteq> 200"
      | (good) "hr_status r = 200" by blast
    then show ?thesis
    proof cases
      case limit
      obtain e w2 where wt: "hc_wait hc (2 ^ attempt * second) w1 = (e, w2)" by fastforce
      show ?thesis
      proof (cases e)
        case None
        then have "1 \<le> ry_requests (do_stream_request hc p req (attempt + 1) w2) \<and>
            ry_requests (do_stream_request hc p req (attempt + 1) w2) \<le> max 1 (4 - (attempt + 1))"
          using 1(1)[OF h[symmetric] Inr] limit wt by simp
        then show ?thesis using h Inr limit wt None
          by (simp add: do_stream_request.simps[of hc p req attempt w] Let_def) linarith
      qed (use h Inr limit wt in \<open>simp add: do_stream_request.simps[of hc p req attempt w]\<close>)
    next
      case bad
      then show ?thesis using h Inr by (auto simp: do_stream_request.simps[of hc p req attempt w] Let_def)
    next
      case good
      obtain res evs where rr: "read_response (rq_model req) r = (res, evs)" by fastforce
      show ?thesis
      proof (cases "hr_ctx r = None \<and> res = None \<and> attempt < 1")
        case True
        then have "1 \<le> ry_requests (do_stream_request hc p req (attempt + 1) w1) \<and>
            ry_requests (do_stream_request hc p req (attempt + 1) w1) \<le> max 1 (4 - (attempt + 1))"
          using 1(2)[OF h[symmetric] Inr] good rr by simp
        then show ?thesis using h Inr good rr True
          by (simp add: do_stream_request.simps[of hc p req 0 w] Let_def)
      next
        case False
        then show ?thesis using h Inr good rr
          by (auto simp: do_stream_request.simps[of hc p req attempt w] Let_def split: option.splits)
      qed
    qed
  qed
qed


text \<open>The two retries share one counter, so an empty answer after a rate-limit retry is an error at once.\<close>

theorem empty_not_retried_after_rate_limit:
  assumes "hc_do hc req w = (Inr r1, w1)" and "hr_status r1 = 429" and "hc_wait hc (2 ^ 0 * second) w1 = (None, w2)"
    and "hc_do hc req w2 = (Inr r2, w3)" and "hr_status r2 = 200" and "hr_lines r2 = []" and "hr_ctx r2 = None"
  shows "ry_result (do_stream_request hc p req 0 w) = Err (''api['' @ apv_name p @ ''] returned empty response'') \<and>
    ry_requests (do_stream_request hc p req 0 w) = 2"
proof -
  have e: "read_response (rq_model req) r2 = (None, [])"
    using assms(6) by (simp add: read_response_def new_acc_def collect_calls_def trim_space_def trim_left_def trim_right_def
        List.map_filter_def Let_def split: option.split)
  have "do_stream_request hc p req 1 w2 =
      \<lparr>ry_result = Err (''api['' @ apv_name p @ ''] returned empty response''), ry_events = [], ry_requests = 1, ry_world = w3\<rparr>"
    using assms(4,5,7) e by (simp add: do_stream_request.simps[of hc p req "Suc 0" w2])
  then show ?thesis using assms(1-3) by (simp add: do_stream_request.simps[of hc p req 0 w] Let_def)
qed

definition empty_response :: "int \<Rightarrow> http_response" where
  "empty_response status =
     \<lparr>hr_status = status, hr_body = [], hr_prompt_tokens = None, hr_completion_tokens = None, hr_lines = [], hr_ctx = None\<rparr>"

definition limited_client :: "nat http_client" where
  "limited_client = \<lparr>hc_do = (\<lambda>req w. (Inr (empty_response (if w = 0 then 429 else 200)), w + 1)), hc_wait = (\<lambda>d w. (None, w))\<rparr>"

theorem empty_not_retried_after_rate_limit_witness:
  "ry_requests (do_stream_request limited_client demo_api (request_for demo_api [] ''m'' [] []) 0 0) = 2"
  using empty_not_retried_after_rate_limit[of limited_client "request_for demo_api [] ''m'' [] []" 0 "empty_response 429" 1 1
      "empty_response 200" 2 demo_api]
  by (simp add: limited_client_def empty_response_def)

section \<open>A response that stops early\<close>

lemma chunks_append: "(\<forall>l \<in> set ls. l \<noteq> ''data: [DONE]'') \<Longrightarrow> stream_chunks (ls @ ms) = stream_chunks ls @ stream_chunks ms"
proof (induction ls)
  case (Cons l ls)
  have "\<not> (has_prefix l ''data: '' \<and> drop 6 l = ''[DONE]'')"
  proof
    assume a: "has_prefix l ''data: '' \<and> drop 6 l = ''[DONE]''"
    then obtain r where "l = ''data: '' @ r" by (auto dest: has_prefixD)
    then show False using a Cons.prems by simp
  qed
  then show ?case using Cons by (auto split: option.split)
qed simp

lemma read_response_Ok:
  assumes "trim_space (concat (map (\<lambda>d. delta_text (dl_content d)) (stream_deltas (hr_lines r)))) \<noteq> []"
  shows "\<exists>sr. fst (read_response model r) = Some sr \<and>
    sr_text sr = trim_space (concat (map (\<lambda>d. delta_text (dl_content d)) (stream_deltas (hr_lines r))))"
  using assms stream_sem[of "hr_lines r"] by (simp add: read_response_def new_acc_def Let_def)

text \<open>C27. A response that stops early is a complete answer. The code looks neither at the scanner's error nor
  for the end mark, so when the connection breaks (or a line is too long) after some text has arrived,
  the request succeeds and its answer is the text so far: any cut of the body that leaves text gives a
  result, a prefix of the whole text up to the blanks around it.\<close>

theorem truncated_stream_is_success:
  assumes "hc_do hc req w = (Inr r, w')" and "hr_status r = 200" and "hr_ctx r = None"
    and "hr_lines r = kept" and "whole = kept @ lost" and "\<forall>l \<in> set kept. l \<noteq> ''data: [DONE]''"
    and "trim_space (concat (map (\<lambda>d. delta_text (dl_content d)) (stream_deltas kept))) \<noteq> []"
  shows "\<exists>sr rest. ry_result (do_stream_request hc p req 0 w) = Ok sr \<and>
    sr_text sr = trim_space (concat (map (\<lambda>d. delta_text (dl_content d)) (stream_deltas kept))) \<and>
    concat (map (\<lambda>d. delta_text (dl_content d)) (stream_deltas whole)) =
      concat (map (\<lambda>d. delta_text (dl_content d)) (stream_deltas kept)) @ rest"
proof -
  obtain sr where sr: "fst (read_response (rq_model req) r) = Some sr"
    "sr_text sr = trim_space (concat (map (\<lambda>d. delta_text (dl_content d)) (stream_deltas kept)))"
    using read_response_Ok[of r "rq_model req"] assms(4,7) by auto
  obtain evs where "read_response (rq_model req) r = (Some sr, evs)" using sr(1) by (metis prod.collapse)
  then have "ry_result (do_stream_request hc p req 0 w) = Ok sr"
    using assms(1-3) by (simp add: do_stream_request.simps[of hc p req 0 w])
  moreover have "stream_deltas whole = stream_deltas kept @ stream_deltas lost"
    using chunks_append[OF assms(6)] assms(5) by (simp add: stream_deltas_def)
  ultimately show ?thesis using sr(2) by auto
qed

definition demo_line :: string where
  "demo_line = data_line (content_chunk ''Half'')"

lemma demo_line_deltas: "map dl_content (stream_deltas [demo_line]) = [Some ''Half'']"
  by (simp add: demo_line_def stream_deltas_def content_chunk_chunks stream_chunks.simps(1) del: stream_chunks.simps(2))

definition cut_client :: "unit http_client" where
  "cut_client = \<lparr>hc_do = (\<lambda>req w. (Inr ((empty_response 200)\<lparr>hr_lines := [demo_line]\<rparr>), w)), hc_wait = (\<lambda>d w. (None, w))\<rparr>"

theorem truncated_stream_is_success_witness:
  "\<exists>sr. ry_result (do_stream_request cut_client demo_api (request_for demo_api [] ''m'' [] []) 0 ()) = Ok sr \<and> sr_text sr = ''Half''"
proof -
  have m: "map (\<lambda>d. delta_text (dl_content d)) (stream_deltas [demo_line]) = [''Half'']"
    using arg_cong[OF demo_line_deltas, of "map delta_text"] by (simp add: delta_text_def o_def)
  have t: "trim_space ''Half'' = ''Half''" by code_simp
  have "\<forall>l \<in> set [demo_line]. l \<noteq> ''data: [DONE]''" by (simp add: demo_line_def data_line_def content_chunk_def)
  from truncated_stream_is_success[OF _ _ _ _ refl this, where hc = cut_client and w = "()" and w' = "()" and p = demo_api
      and req = "request_for demo_api [] ''m'' [] []" and r = "(empty_response 200)\<lparr>hr_lines := [demo_line]\<rparr>" and lost = "[]"]
  show ?thesis by (auto simp: cut_client_def empty_response_def m t)
qed

section \<open>The tool loop\<close>


definition demo_loop :: "unit tool_loop_state" where
  "demo_loop = new_tool_loop
     \<lparr>tl_client = cut_client, tl_api = demo_api, tl_tools = [], tl_max_turns = 0,
      tl_exec = (\<lambda>c w. (call_succeeded c [], w)), tl_ctx = (\<lambda>_. None)\<rparr>"


section \<open>The loop over the executor\<close>

text \<open>A start that the guard accepted: the state before and after the call in which it happened.\<close>

definition start_verified :: "'w executor \<Rightarrow> started \<Rightarrow> bool" where
  "start_verified env sd \<longleftrightarrow>
     (\<exists>(s :: 'w exec_state) (g :: guard) p (e :: manifest_entry).
        sd_path sd = tool_path (xe_data_dir env) p \<and>
        (if fst p then g_tools (xs_guard s) else xs_system s) (snd p) = Some (sd_file sd) \<and>
        (fst p \<longrightarrow> g_quarantined (xs_guard s) (snd p) = None \<and> g_manifest g (snd p) = Some e \<and>
           me_exe_hash e = gc_hash (xe_conf env) (tf_data (sd_file sd)) \<and>
           (g_manifest (xs_guard s) (snd p) = Some e \<or>
            g_manifest (xs_guard s) (snd p) = None \<and>
              audit_tool_source (xe_conf env) (Some (sd_file sd)) (snd p) = [])))"

definition starts_ok :: "'w executor \<Rightarrow> started list \<Rightarrow> 'w exec_state \<Rightarrow> bool" where
  "starts_ok env old s \<longleftrightarrow> (\<exists>new. xs_started s = old @ new \<and> list_all (start_verified env) new)"

lemma starts_ok_execute:
  assumes "is_abs (xe_data_dir env)" and "xe_integrity env" and "starts_ok env old s"
  shows "starts_ok env old (snd (execute_call env order t call s))"
proof -
  obtain new where n: "xs_started s = old @ new" "list_all (start_verified env) new" using assms(3) by (auto simp: starts_ok_def)
  let ?s = "snd (execute_call env order t call s)"
  from execute_call_starts[OF assms(1,2), of order t call s]
  consider (none) "xs_started ?s = xs_started s"
    | (one) p f e where "xs_started ?s = xs_started s @ [\<lparr>sd_path = tool_path (xe_data_dir env) p, sd_file = f,
           sd_args = json_to_cli env order (cq_name call) (cq_arguments call)\<rparr>]"
        "(if fst p then g_tools (xs_guard s) else xs_system s) (snd p) = Some f"
        "fst p \<longrightarrow> g_quarantined (xs_guard s) (snd p) = None \<and> g_manifest (xs_guard ?s) (snd p) = Some e \<and>
          me_exe_hash e = gc_hash (xe_conf env) (tf_data f) \<and>
          (g_manifest (xs_guard s) (snd p) = Some e \<or>
           g_manifest (xs_guard s) (snd p) = None \<and> audit_tool_source (xe_conf env) (Some f) (snd p) = [])"
    by blast
  then show ?thesis
  proof cases
    case none
    then show ?thesis using assms(3) by (simp add: starts_ok_def)
  next
    case one
    have "start_verified env \<lparr>sd_path = tool_path (xe_data_dir env) p, sd_file = f,
        sd_args = json_to_cli env order (cq_name call) (cq_arguments call)\<rparr>"
      unfolding start_verified_def
      by (rule exI[of _ s], rule exI[of _ "xs_guard ?s"], rule exI[of _ p], rule exI[of _ e]) (use one(2,3) in simp)
    then show ?thesis using one(1) n unfolding starts_ok_def by (intro exI[of _ "new @ [_]"]) auto
  qed
qed

lemma exec_calls_inv:
  assumes "\<And>c w. P w \<Longrightarrow> P (snd (exec c w))"
  shows "P w \<Longrightarrow> P (snd (snd (exec_calls exec cs w)))"
proof (induction cs arbitrary: w)
  case (Cons c cs)
  obtain v w1 where e: "exec \<lparr>cq_id = mtc_id c, cq_name = mtc_name c, cq_arguments = mtc_arguments c\<rparr> w = (v, w1)" by fastforce
  then have "P w1" using assms[OF Cons.prems] by (metis snd_conv)
  then have "P (snd (snd (exec_calls exec cs w1)))" by (rule Cons.IH)
  then show ?case using e by (cases "exec_calls exec cs w1") simp
qed simp

lemma do_stream_inv:
  assumes "\<And>req w. P w \<Longrightarrow> P (snd (hc_do hc req w))" and "\<And>d w. P w \<Longrightarrow> P (snd (hc_wait hc d w))"
  shows "P w \<Longrightarrow> P (ry_world (do_stream_request hc p req attempt w))"
  using assms
proof (induction hc p req attempt w rule: do_stream_request.induct)
  case (1 hc p req attempt w)
  obtain o1 w1 where h: "hc_do hc req w = (o1, w1)" by fastforce
  have p1: "P w1" using 1(4)[OF 1(3), of req] h by simp
  show ?case
  proof (cases o1)
    case (Inl e)
    then show ?thesis using h p1 by (simp add: do_stream_request.simps[of hc p req attempt w])
  next
    case (Inr r)
    show ?thesis
    proof (cases "hr_status r = 429 \<and> attempt < 3")
      case True
      obtain e w2 where wt: "hc_wait hc (2 ^ attempt * second) w1 = (e, w2)" by fastforce
      have p2: "P w2" using 1(5)[OF p1, of "2 ^ attempt * second"] wt by simp
      show ?thesis
        using 1(1)[OF h[symmetric] Inr True wt[symmetric] _ p2 1(4,5)] h Inr True wt p2
        by (cases e) (simp_all add: do_stream_request.simps[of hc p req attempt w] Let_def)
    next
      case False
      obtain res evs where rr: "read_response (rq_model req) r = (res, evs)" by fastforce
      show ?thesis
        using 1(2)[OF h[symmetric] Inr False _ rr[symmetric] _ _ _ p1 1(4,5)] h Inr False rr p1
        by (auto simp: do_stream_request.simps[of hc p req attempt w] Let_def split: option.split)
    qed
  qed
qed

lemma loop_from_inv:
  assumes "\<And>req w. P w \<Longrightarrow> P (snd (hc_do (tl_client lp) req w))" and "\<And>d w. P w \<Longrightarrow> P (snd (hc_wait (tl_client lp) d w))"
    and "\<And>c w. P w \<Longrightarrow> P (snd (tl_exec lp c w))"
  shows "P w \<Longrightarrow> P (lr_world (loop_from lp model tools effort turns messages tin tout w))"
proof (induction "nat (tl_max_turns lp - turns)" arbitrary: turns messages tin tout w rule: less_induct)
  case less
  let ?r = "do_request (tl_client lp) (tl_api lp) messages model tools effort w"
  have pr: "P (ry_world ?r)" unfolding do_request_def by (rule do_stream_inv[OF assms(1,2) less.prems])
  show ?case
  proof (cases "tl_ctx lp w = None \<and> (\<exists>sr. ry_result ?r = Inr sr \<and> sr_calls sr \<noteq> [] \<and> turns + 1 < tl_max_turns lp)")
    case False
    then show ?thesis using less.prems pr
      by (auto simp: loop_from.simps[of lp model tools effort turns] loop_end_def Let_def split: option.split sum.split)
  next
    case True
    then obtain sr where sr: "ry_result ?r = Inr sr" "sr_calls sr \<noteq> []" "turns + 1 < tl_max_turns lp" "tl_ctx lp w = None" by blast
    obtain rs evs w2 where rc: "exec_calls (tl_exec lp) (sr_calls sr) (ry_world ?r) = (rs, evs, w2)" by (metis prod_cases3)
    have "P w2" using exec_calls_inv[of P "tl_exec lp" "ry_world ?r" "sr_calls sr"] assms(3) pr rc by simp
    then have "P (lr_world (loop_from lp model tools effort (turns + 1) (next_messages model messages sr rs)
        (tin + sr_input sr) (tout + sr_output sr) w2))"
      using less.hyps sr(3) by simp
    then show ?thesis using sr rc by (simp add: loop_from.simps[of lp model tools effort turns] Let_def)
  qed
qed


definition demo_executor_loop :: "unit exec_state tool_loop_state" where
  "demo_executor_loop =
     \<lparr>tl_client = \<lparr>hc_do = (\<lambda>req s. (Inl ''down'', s)), hc_wait = (\<lambda>d s. (None, s))\<rparr>, tl_api = demo_api, tl_tools = [],
      tl_max_turns = 5, tl_exec = executor_adapter demo_executor (\<lambda>_. []) demo_time, tl_ctx = (\<lambda>_. None)\<rparr>"


end
