(* ===== verification/Provider_Engine.thy ===== *)
theory Provider_Engine
  imports Tool_Loop
begin

text \<open>
  \<open>internal/ai/provider/engine.go\<close> and \<open>registry.go\<close>: the adapter that makes a provider an engine of the
  runtime, and the registry of backends. The consumer takes every event and the context is not
  cancelled while it does; the error of the context after a failed call, and whether the channel has
  room for the error event, are arguments.
\<close>

section \<open>The engine\<close>

text \<open>A provider: its result is an error, no result, or a text with its usage, and its progress events.\<close>

type_synonym 'w provider =
  "string \<Rightarrow> provider_params \<Rightarrow> 'w \<Rightarrow> (string + (string \<times> ai_usage) option) \<times> stream_event list \<times> 'w"

definition merge_system_prompts :: "string list \<Rightarrow> string list \<Rightarrow> string list" where
  "merge_system_prompts a b = filter (\<lambda>s. s \<noteq> []) (a @ b)"

text \<open>The position of the last user message.\<close>

definition last_user :: "ai_message list \<Rightarrow> nat option" where
  "last_user msgs =
     map_option (\<lambda>k. length msgs - 1 - k) (find_index (\<lambda>m. ai_role m = ''user'') (rev msgs))"

definition split_prompt :: "ai_message list \<Rightarrow> (string \<times> context_msg list \<times> string list) res" where
  "split_prompt msgs =
     (if msgs = [] then Err ''provider.Engine: Request.Messages is empty''
      else case last_user msgs of
        None \<Rightarrow> Err ''provider.Engine: Request.Messages has no user message''
      | Some i \<Rightarrow>
          let others = take i msgs @ drop (i + 1) msgs in
          Ok (ai_content (msgs ! i),
              map (\<lambda>m. \<lparr>cm_role = ai_role m, cm_content = ai_content m, cm_tool_calls = [], cm_tool_call_id = []\<rparr>)
                (filter (\<lambda>m. ai_role m \<noteq> ''system'') others),
              map ai_content (filter (\<lambda>m. ai_role m = ''system'' \<and> ai_content m \<noteq> []) others)))"

definition tool_names :: "tool_spec list \<Rightarrow> string list" where
  "tool_names specs = filter (\<lambda>n. n \<noteq> []) (map ts_name specs)"

definition forward_event :: "stream_event \<Rightarrow> ai_event list" where
  "forward_event ev =
     (if pe_type ev = ''text_delta'' then (if pe_text ev = [] then [] else [AiToken (pe_text ev)])
      else if pe_type ev = ''thinking'' then [AiThinking (pe_text ev)]
      else if pe_type ev = ''tool_use'' then [AiToolUse (pe_detail ev)]
      else if pe_type ev = ''tool_input'' then [AiToolInput (pe_detail ev) (pe_text ev)]
      else if pe_type ev = ''tool_result'' then [AiToolOutput (pe_detail ev) (pe_text ev)]
      else [])"

text \<open>What is left to send of the final text when \<open>already\<close> was streamed.\<close>

definition tail_tokens :: "string \<Rightarrow> string \<Rightarrow> ai_event list" where
  "tail_tokens text already =
     (if text \<noteq> [] \<and> text \<noteq> already then
        (let rest = (if has_prefix text already then drop (length already) text else text)
         in if rest \<noteq> [] then [AiToken rest] else [])
      else [])"

definition run_invoke ::
  "string option \<Rightarrow> bool \<Rightarrow> (string + (string \<times> ai_usage) option) \<Rightarrow> stream_event list \<Rightarrow> ai_event list" where
  "run_invoke ctxErr room res evs =
     concat (map forward_event evs) @
     (case res of
        Inl e \<Rightarrow> (if room then [AiError (case ctxErr of Some c \<Rightarrow> c | None \<Rightarrow> ''provider.Invoke: '' @ e)] else [])
      | Inr None \<Rightarrow> [AiDone None]
      | Inr (Some (text, u)) \<Rightarrow> tail_tokens text (texts evs) @ [AiDone (Some u)])"

definition engine_params :: "ai_request \<Rightarrow> context_msg list \<Rightarrow> string list \<Rightarrow> provider_params" where
  "engine_params req history systemPrompts =
     \<lparr>pp_model = ar_model req, pp_tools = tool_names (ar_tools req), pp_write_capable = ar_write_capable req,
      pp_effort = ar_effort req, pp_system_prompts = systemPrompts, pp_cache_breakpoint = ar_cache_breakpoint req,
      pp_max_turns = ar_max_turns req, pp_resume = ar_resume_id req, pp_data_dir = ar_data_dir req, pp_env = ar_env req,
      pp_session_key = [], pp_conv_messages = history, pp_media = ar_media req\<rparr>"

definition engine_run :: "string option \<Rightarrow> bool \<Rightarrow> 'w provider option \<Rightarrow> 'w ai_engine" where
  "engine_run ctxErr room prov req w =
     (case prov of
        None \<Rightarrow> (Err ''provider.Engine: nil Provider'', w)
      | Some f \<Rightarrow>
          if ar_model req = [] then (Err ''provider.Engine: Request.Model required'', w)
          else case split_prompt (ar_messages req) of
            Inl e \<Rightarrow> (Err e, w)
          | Inr (prompt, history, fromMessages) \<Rightarrow>
              (case f prompt (engine_params req history (merge_system_prompts (ar_system_prompts req) fromMessages)) w of
                 (res, evs, w') \<Rightarrow> (Ok (run_invoke ctxErr room res evs), w')))"

text \<open>The tool loop as a provider.\<close>

definition loop_provider :: "'w tool_loop_state \<Rightarrow> (string \<Rightarrow> string option) \<Rightarrow> gotime \<Rightarrow> prov_history \<Rightarrow> 'w provider" where
  "loop_provider lp read now h prompt params w =
     (let run = fst (tool_loop_invoke lp read now prompt params h w)
      in ((case lr_result run of
             Inl e \<Rightarrow> Inl e
           | Inr r \<Rightarrow> Inr (Some (ir_text r, \<lparr>us_cost = 0, us_model = ir_model r, us_num_turns = ir_turns r, us_session_id = [],
                                         us_input_tokens = ir_input r, us_output_tokens = ir_output r\<rparr>))),
          lr_events run, lr_world run))"

section \<open>The registry\<close>

record ('a, 'g) backends =
  bk_api :: "string \<rightharpoonup> 'a"
  bk_generic :: "string \<rightharpoonup> 'g"

datatype ('a, 'g) chosen = UseCli | UseApi 'a | UseGeneric 'g

definition register_backend :: "string \<Rightarrow> 'a \<Rightarrow> ('a, 'g) backends \<Rightarrow> ('a, 'g) backends" where
  "register_backend name p b = b\<lparr>bk_api := (bk_api b)(name \<mapsto> p)\<rparr>"

definition register_provider :: "string \<Rightarrow> 'g \<Rightarrow> ('a, 'g) backends \<Rightarrow> ('a, 'g) backends" where
  "register_provider name p b = b\<lparr>bk_generic := (bk_generic b)(name \<mapsto> p)\<rparr>"

definition unregister_backend :: "string \<Rightarrow> ('a, 'g) backends \<Rightarrow> ('a, 'g) backends" where
  "unregister_backend name b = b\<lparr>bk_api := (bk_api b)(name := None), bk_generic := (bk_generic b)(name := None)\<rparr>"

definition for_backend :: "string \<Rightarrow> ('a, 'g) backends \<Rightarrow> ('a, 'g) chosen" where
  "for_backend name b =
     (if name = [] \<or> name = ''cli'' then UseCli
      else case bk_api b name of
        Some p \<Rightarrow> UseApi p
      | None \<Rightarrow> (case bk_generic b name of Some g \<Rightarrow> UseGeneric g | None \<Rightarrow> UseCli))"

definition has_backend :: "string \<Rightarrow> ('a, 'g) backends \<Rightarrow> bool" where
  "has_backend name b \<longleftrightarrow> bk_api b name \<noteq> None \<or> bk_generic b name \<noteq> None"

text \<open>The names, in the order in which the two maps are read.\<close>

definition backend_names :: "string list \<Rightarrow> string list \<Rightarrow> ('a, 'g) backends \<Rightarrow> string list" where
  "backend_names orderA orderG b =
     filter (\<lambda>n. bk_api b n \<noteq> None) orderA @ filter (\<lambda>n. bk_generic b n \<noteq> None) orderG"

text \<open>An unknown backend is served by the CLI, a name registered twice by its API backend, and after a
  removal a name leads to the CLI.\<close>

theorem for_backend_exact:
  "(for_backend name b \<noteq> UseCli \<longrightarrow> has_backend name b \<and> name \<noteq> [] \<and> name \<noteq> ''cli'') \<and>
   (name \<noteq> [] \<and> name \<noteq> ''cli'' \<longrightarrow> for_backend name (register_backend name p (register_provider name g b)) = UseApi p) \<and>
   for_backend name (unregister_backend name b) = UseCli"
  by (auto simp: for_backend_def has_backend_def register_backend_def register_provider_def unregister_backend_def
      split: option.splits)

section \<open>What the engine delivers\<close>

definition token_text :: "ai_event list \<Rightarrow> string" where
  "token_text evs = concat (map (\<lambda>e. case e of AiToken t \<Rightarrow> t | _ \<Rightarrow> []) evs)"

lemma token_text_append [simp]: "token_text (xs @ ys) = token_text xs @ token_text ys"
  by (simp add: token_text_def)

lemma token_text_done [simp]: "token_text [AiDone u] = []" "token_text [] = []"
  by (simp_all add: token_text_def)

lemma token_text_forward: "token_text (concat (map forward_event evs)) = texts evs"
  by (induction evs) (auto simp: token_text_def texts_def forward_event_def)

lemma token_text_tail:
  "already @ token_text (tail_tokens text already) =
   (if has_prefix text already then text else if text = [] then already else already @ text)"
  by (auto simp: tail_tokens_def token_text_def Let_def has_prefix_def dest: prefix_length_le intro: append_take_drop_id elim: prefixE)

text \<open>C26. The text a consumer of the engine reads. It is the provider's final text exactly when that text
  continues what was streamed. Otherwise it is everything that was streamed followed by the whole
  final text once more: an answer that was streamed with blanks around it, which the provider trims,
  and any answer after a tool turn in which the model also said something, are delivered twice.\<close>

theorem engine_text_exact:
  "token_text (run_invoke c room (Inr (Some (text, u))) evs) =
     (if has_prefix text (texts evs) then text
      else if text = [] then texts evs else texts evs @ text) \<and>
   last (run_invoke c room (Inr (Some (text, u))) evs) = AiDone (Some u)"
  using token_text_tail[of "texts evs" "text"] by (simp add: run_invoke_def token_text_forward)

text \<open>The failure of a provider leaves no event when the channel is full.\<close>

theorem engine_error_dropped:
  "run_invoke c False (Inl e) evs = concat (map forward_event evs) \<and>
   run_invoke c True (Inl e) evs =
     concat (map forward_event evs) @ [AiError (case c of Some x \<Rightarrow> x | None \<Rightarrow> ''provider.Invoke: '' @ e)]"
  by (simp add: run_invoke_def)

lemma find_index_rev:
  "find_index P (rev xs) = Some k \<Longrightarrow>
   k < length xs \<and> P (xs ! (length xs - 1 - k)) \<and> (\<forall>j. length xs - 1 - k < j \<and> j < length xs \<longrightarrow> \<not> P (xs ! j))"
proof -
  assume k: "find_index P (rev xs) = Some k"
  then have a: "k < length xs" "P (rev xs ! k)" "\<forall>j < k. \<not> P (rev xs ! j)" by (auto simp: find_index_Some)
  have "\<not> P (xs ! j)" if "length xs - 1 - k < j" "j < length xs" for j
  proof -
    have "length xs - 1 - j < k" using that a(1) by linarith
    then have "\<not> P (rev xs ! (length xs - 1 - j))" using a(3) by blast
    then show ?thesis using that by (simp add: rev_nth)
  qed
  then show ?thesis using a by (simp add: rev_nth)
qed

text \<open>What the provider is asked. The prompt is the last message of the user; the other messages keep
  their order, the system ones as system prompts (the empty ones left out) and the rest, with their
  roles, as the conversation; it fails exactly when there is no user message.\<close>

theorem split_prompt_exact:
  "case split_prompt msgs of
     Inl e \<Rightarrow> \<forall>m \<in> set msgs. ai_role m \<noteq> ''user''
   | Inr (prompt, history, sys) \<Rightarrow>
       \<exists>i. i < length msgs \<and> ai_role (msgs ! i) = ''user'' \<and>
         (\<forall>j. i < j \<and> j < length msgs \<longrightarrow> ai_role (msgs ! j) \<noteq> ''user'') \<and>
         prompt = ai_content (msgs ! i) \<and>
         map (\<lambda>c. (cm_role c, cm_content c)) history =
           map (\<lambda>m. (ai_role m, ai_content m)) (filter (\<lambda>m. ai_role m \<noteq> ''system'') (take i msgs @ drop (i + 1) msgs)) \<and>
         sys = map ai_content (filter (\<lambda>m. ai_role m = ''system'' \<and> ai_content m \<noteq> []) (take i msgs @ drop (i + 1) msgs))"
proof (cases "find_index (\<lambda>m. ai_role m = ''user'') (rev msgs)")
  case None
  then have "\<forall>m \<in> set msgs. ai_role m \<noteq> ''user''" by (simp add: find_index_None)
  then show ?thesis using None by (simp add: split_prompt_def last_user_def)
next
  case (Some k)
  note k = find_index_rev[OF Some]
  then have "msgs \<noteq> []" by auto
  then show ?thesis using Some k
    by (auto simp: split_prompt_def last_user_def Let_def o_def intro!: exI[of _ "length msgs - 1 - k"])
qed

section \<open>An answer that is delivered twice\<close>

definition ok_response :: "string list \<Rightarrow> http_response" where
  "ok_response ls =
     \<lparr>hr_status = 200, hr_body = [], hr_prompt_tokens = None, hr_completion_tokens = None, hr_lines = ls, hr_ctx = None\<rparr>"

text \<open>A server that first says something and calls a tool, then answers.\<close>

definition two_turn_loop :: "int tool_loop_state" where
  "two_turn_loop =
     \<lparr>tl_client = \<lparr>hc_do = (\<lambda>req w. (Inr (ok_response (if w = 0 then [data_line (content_chunk ''Looking. ''), data_line (call_chunk ''c'' ''ls'' ''{}'')] else [data_line (content_chunk ''Two files.'')])), w + 1)),
                  hc_wait = (\<lambda>d w. (None, w))\<rparr>,
      tl_api = \<lparr>apv_name = ''b'', apv_api_key = [], apv_base_url = ''http://h'', apv_headers = [], apv_default_model = [],
                apv_max_tokens = 4096, apv_auth = ''bearer'', apv_history = False\<rparr>,
      tl_tools = [], tl_max_turns = 5,
      tl_exec = (\<lambda>c w. (call_succeeded c ''a b'', w)), tl_ctx = (\<lambda>_. None)\<rparr>"

definition hello_request :: ai_request where
  "hello_request =
     \<lparr>ar_model = ''m'', ar_backend = [], ar_system_prompts = [], ar_messages = [\<lparr>ai_role = ''user'', ai_content = ''hi''\<rparr>],
      ar_tools = [], ar_max_turns = 5, ar_effort = [], ar_write_capable = False, ar_data_dir = [], ar_stream = True,
      ar_cache_breakpoint = 0, ar_media = [], ar_env = [], ar_resume_id = []\<rparr>"

lemma trimmed: "trim_space ''Looking. '' = ''Looking.''" "trim_space ''Two files.'' = ''Two files.''"
  by code_simp+

lemma first_response:
  "read_response ''m'' (ok_response [data_line (content_chunk ''Looking. ''), data_line (call_chunk ''c'' ''ls'' ''{}'')]) =
   (Some \<lparr>sr_text = ''Looking.'', sr_calls = [\<lparr>mtc_id = ''c'', mtc_type = ''function'', mtc_name = ''ls'', mtc_arguments = ''{}''\<rparr>],
          sr_finish = [], sr_model = ''m'', sr_input = 0, sr_output = 0, sr_cached = 0\<rparr>,
    [progress ''text_delta'' [] ''Looking. '', progress ''tool_use'' ''ls'' [], progress ''tool_input'' ''ls'' ''{}''])"
  by (simp add: read_response_def ok_response_def read_lines_chunks line_chunks add_chunk_def add_choice_def add_call_def add_usage_def
      grow_call_def zero_delta_def new_acc_def collect_calls_def delta_text_def trimmed List.map_filter_def Let_def del: stream_chunks.simps(2))

lemma second_response:
  "read_response ''m'' (ok_response [data_line (content_chunk ''Two files.'')]) =
   (Some \<lparr>sr_text = ''Two files.'', sr_calls = [], sr_finish = [], sr_model = ''m'', sr_input = 0, sr_output = 0, sr_cached = 0\<rparr>,
    [progress ''text_delta'' [] ''Two files.''])"
  by (simp add: read_response_def ok_response_def read_lines_chunks line_chunks add_chunk_def add_choice_def add_call_def add_usage_def
      grow_call_def zero_delta_def new_acc_def collect_calls_def delta_text_def trimmed List.map_filter_def Let_def del: stream_chunks.simps(2))

lemma ok_response_simps [simp]:
  "hr_status (ok_response ls) = 200" "hr_ctx (ok_response ls) = None"
  by (simp_all add: ok_response_def)

lemma two_turn_request:
  "read_response ''m'' (ok_response (if w = 0 then [data_line (content_chunk ''Looking. ''), data_line (call_chunk ''c'' ''ls'' ''{}'')] else [data_line (content_chunk ''Two files.'')])) = (Some sr, evs) \<Longrightarrow>
   do_request (tl_client two_turn_loop) (tl_api two_turn_loop) ms ''m'' tools e w =
     \<lparr>ry_result = Ok sr, ry_events = evs, ry_requests = 1, ry_world = w + 1\<rparr>"
  unfolding do_request_def by (subst do_stream_request.simps) (simp add: two_turn_loop_def request_for_def)

lemma two_turn_first:
  "do_request (tl_client two_turn_loop) (tl_api two_turn_loop) ms ''m'' tools e 0 =
   \<lparr>ry_result = Ok \<lparr>sr_text = ''Looking.'', sr_calls = [\<lparr>mtc_id = ''c'', mtc_type = ''function'', mtc_name = ''ls'', mtc_arguments = ''{}''\<rparr>],
          sr_finish = [], sr_model = ''m'', sr_input = 0, sr_output = 0, sr_cached = 0\<rparr>,
    ry_events = [progress ''text_delta'' [] ''Looking. '', progress ''tool_use'' ''ls'' [], progress ''tool_input'' ''ls'' ''{}''],
    ry_requests = 1, ry_world = 1\<rparr>"
  using two_turn_request[of 0] first_response by simp

lemma two_turn_second:
  "do_request (tl_client two_turn_loop) (tl_api two_turn_loop) ms ''m'' tools e 1 =
   \<lparr>ry_result = Ok \<lparr>sr_text = ''Two files.'', sr_calls = [], sr_finish = [], sr_model = ''m'', sr_input = 0, sr_output = 0, sr_cached = 0\<rparr>,
    ry_events = [progress ''text_delta'' [] ''Two files.''], ry_requests = 1, ry_world = 2\<rparr>"
  using two_turn_request[of 1] second_response by simp

lemma two_turn_ctx:
  "tl_ctx two_turn_loop w = None" "tl_max_turns two_turn_loop = 5"
  "tl_exec two_turn_loop q w = (call_succeeded q ''a b'', w)"
  by (simp_all add: two_turn_loop_def)

lemma two_turn_end:
  "loop_from two_turn_loop ''m'' tools e 1 ms 0 0 1 =
   loop_end (Ok \<lparr>ir_text = ''Two files.'', ir_model = ''m'', ir_turns = 1, ir_input = 0, ir_output = 0\<rparr>)
     [progress ''text_delta'' [] ''Two files.''] [ms] 2"
  by (subst loop_from.simps) (simp add: two_turn_second two_turn_ctx Let_def)

lemma two_turn_run:
  "lr_result (loop_from two_turn_loop ''m'' tools e 0 ms 0 0 0) =
     Ok \<lparr>ir_text = ''Two files.'', ir_model = ''m'', ir_turns = 1, ir_input = 0, ir_output = 0\<rparr> \<and>
   texts (lr_events (loop_from two_turn_loop ''m'' tools e 0 ms 0 0 0)) = ''Looking. Two files.''"
  by (subst (1 2) loop_from.simps)
     (simp add: two_turn_ctx two_turn_first two_turn_end loop_end_def call_succeeded_def progress_def texts_def Let_def)

text \<open>The engine over the whole stack: messages, requests, stream, tool loop. The answer comes twice.\<close>

theorem tool_turn_answer_twice:
  "\<exists>evs. fst (engine_run None True (Some (loop_provider two_turn_loop (\<lambda>_. None) 0 (new_history Map.empty 0 0))) hello_request 0) = Ok evs \<and>
     token_text evs = ''Looking. Two files.Two files.''"
proof -
  define P where "P = loop_provider two_turn_loop (\<lambda>_. None) 0 (new_history Map.empty 0 0)"
  have "\<exists>evs w u. P ''hi'' (engine_params hello_request [] []) 0 = (Inr (Some (''Two files.'', u)), evs, w) \<and> texts evs = ''Looking. Two files.''"
    using two_turn_run by (simp add: P_def loop_provider_def tool_loop_invoke_def engine_params_def hello_request_def Let_def split: prod.split)
  then obtain evs w u where P: "P ''hi'' (engine_params hello_request [] []) 0 = (Inr (Some (''Two files.'', u)), evs, w)"
    "texts evs = ''Looking. Two files.''" by blast
  have "split_prompt (ar_messages hello_request) = Ok (''hi'', [], [])" by code_simp
  then show ?thesis using P token_text_tail[of "texts evs" "''Two files.''"]
    by (simp add: engine_run_def P_def[symmetric] run_invoke_def token_text_forward hello_request_def merge_system_prompts_def has_prefix_def)
qed

end
