(* ===== verification/Spec2Isabelle.thy ===== *)
theory Spec2Isabelle
  imports Memory_Store CC_Sessions App_Tokens Http_Properties Firewall Chat_Sessions
    Scheduler_Properties Flatten Capability_Registry Sandbox_Policy Runtime_Properties
    Integrity_Properties Supervisor_Properties Skills_Properties Comms_Agents Agents_Strategy
    Tooling_Files Provider_Properties Provider_Engine
begin

text \<open>
  Alf is a personal assistant daemon: frontends (a web control center, Telegram, a scheduler) hand a
  user's message to a runtime, which drives a language model, runs the tools the model asks for
  under a sandbox and records the conversation. This library models the Go packages that carry that
  logic and proves the properties that make them correct.

  \<^bold>\<open>Conventions.\<close> Every operation of a Go type is a function of the same name (in snake case) on a
  record of its state; a method that writes returns the new state. Errors are values: \<open>'a res\<close> is
  \<open>Inl\<close> the message or \<open>Inr\<close> the result, and a Go \<open>(v, ok)\<close> is an option. Times are nanoseconds
  since the epoch, random strings, clocks, disks and the order in which Go iterates over a map are
  arguments; hashes and int64 encodings are words of their width. Byte strings are HOL strings.
  Theorems quantify over all of these arguments, so they hold for every clock, disk, map order and
  interleaving of whole operations (each operation of the code holds its lock throughout).

  \<^bold>\<open>The theories.\<close>
  \<^item> \<open>Alf_Prelude\<close>: results, Go's \<open>strings\<close>, \<open>strconv\<close>, \<open>time\<close> and map idioms, and the locale
    \<open>op_machine\<close>, an operation history that keeps an invariant, which the stores interpret.
  \<^item> \<open>Memory_Model\<close>, \<open>Memory_Store\<close> (\<open>internal/memory\<close>: \<open>store.go\<close>, \<open>inmem.go\<close>): conversations, messages,
    summaries, reactions, documents and preferences. Identity and numbering of messages, refinement of
    the documents to one ordered list, paging, summaries and cascading deletion.
  \<^item> \<open>Flatten\<close> (\<open>memory/flatten.go\<close>): the context window and the forms a history takes for the providers.
  \<^item> \<open>Capability_Registry\<close> (\<open>internal/capability\<close>), \<open>Go_Json\<close>, \<open>Go_Path\<close> (of the standard library:
    \<open>json.Marshal\<close> and the lexical part of \<open>path/filepath\<close>) and \<open>Sandbox_Policy\<close> (\<open>internal/sandbox\<close>):
    what a capability may do, which permissions an untrusted app keeps, which files may be touched.
  \<^item> \<open>Runtime\<close>, \<open>Runtime_Properties\<close> (\<open>internal/runtime\<close>, \<open>internal/ai\<close>): the tool loop of a chat turn and
    the one-shot calls, over the memory, the registry and the sandbox above. The engine, the
    capabilities and the context's cancellation are parameters; the loop's fuel is the code's own
    bound \<open>MaxIterations\<close>, so every turn ends.
  \<^item> \<open>CC_Sessions\<close>, \<open>App_Tokens\<close> with \<open>Go_Encoding\<close> (base64, SHA-256, HMAC), \<open>Net_Addr\<close>, \<open>Http_Base\<close>,
    \<open>Http_Auth\<close>, \<open>Http_Chain\<close>, \<open>Http_Security\<close>, \<open>Http_Properties\<close> (\<open>internal/controlcenter\<close>): magic links
    and browser sessions, the tokens of embedded apps, and the middleware chain from the TCP port to
    the router in the order \<open>factory.go\<close> builds it.
  \<^item> \<open>Firewall\<close> (\<open>internal/sandbox/network\<close>): the egress policy, its ring buffer and host statistics.
  \<^item> \<open>Chat_Sessions\<close> (\<open>internal/platform/session\<close>): the session of each chat and its file.
  \<^item> \<open>Scheduler\<close>, \<open>Scheduler_Properties\<close> (\<open>internal/scheduler\<close>): jobs, the engine's cron table, restart
    and catch-up.
  \<^item> \<open>Integrity_Guard\<close>, \<open>Integrity_Properties\<close> (\<open>internal/sandbox/integrity\<close>): the guard over the tools
    directory, its manifest, backups and quarantine, over any hash function and audit rules.
  \<^item> \<open>Vault_Proxy\<close> (\<open>internal/sandbox/secrets/proxy.go\<close>), \<open>Supervisor\<close>, \<open>Supervisor_Properties\<close>
    (\<open>internal/platform/supervisor\<close>): the services of apps, the command and environment each runs with,
    the restart loop and its backoff, and which vault services an app reaches.
  \<^item> \<open>Comms_Tiers\<close>, \<open>Comms_Stream\<close> (\<open>internal/comms\<close>): the choice of a model tier and its fallbacks, the
    blocks recorded from a stream of events, reaction tags, the shared recent context, error notices.
  \<^item> \<open>Skills\<close>, \<open>Skills_Properties\<close> (\<open>internal/skills\<close>): skill files and their store, the matching of
    triggers, the prompt blocks and the mirror in the capability registry.
  \<^item> \<open>Comms_Routing\<close>, \<open>Comms_Turn\<close>, \<open>Comms_Properties\<close> (\<open>internal/comms/pipeline.go\<close>): a message from
    its arrival to its recorded answer: the user's message in the memory, the forced tier, the route
    and its overrides, the dispatch, then the call of a provider, its retry, the fallback tiers and the
    end of the turn. The router, the recall, the provider and the context are parameters.
  \<^item> \<open>Json_Parse\<close> (\<open>encoding/json\<close>: the parser, decoding into structs, and reading back what was
    written), \<open>Agents_Model\<close>, \<open>Orchestrator\<close> (\<open>internal/runtime/agents\<close>): teams, the protocol with the
    model, the loop of a run with its agents, approvals and questions, and the table of running
    tasks. \<open>Orchestrator_Properties\<close>, \<open>Orchestrator_Protocol\<close> and \<open>Orchestrator_Runs\<close> show how runs
    settle, what is read and written, how decisions meet questions (an inductive step relation of the
    run and the handlers) and how many calls are made; \<open>Agents_Strategy\<close> is the runtime's view of it
    and \<open>Comms_Agents\<close> the message pipeline's. The order in which concurrent agents end is an argument.
  \<^item> \<open>Tooling_Registry\<close>, \<open>Tooling_Schemas\<close>, \<open>Error_Journal\<close>, \<open>Tooling_Executor\<close>, \<open>Tooling_Properties\<close>,
    \<open>Tooling_Files\<close> (\<open>internal/tooling\<close>): the schemas of tools from their files and the native tools,
    the mirror in the capability registry, strict schemas, the journal of errors and its file, a call
    from its name to the process it starts and its answer, and the tools that read, write and remove
    files. Which file a call runs, and that the integrity guard accepted it.
  \<^item> \<open>Provider_History\<close>, \<open>Provider_Messages\<close>, \<open>Provider_Stream\<close>, \<open>Tool_Loop\<close>, \<open>Provider_Properties\<close>,
    \<open>Provider_Engine\<close> (\<open>internal/ai/provider\<close>): the API provider. The history of keyed sessions, the
    messages of a request and their marks for caching, the retries and the assembly of an answer from
    its stream, the loop that runs the tools through the executor, the adapter to the runtime's engine
    and the table of backends. The HTTP client is a parameter.

  \<^bold>\<open>How the parts meet.\<close> The chain authenticates against the session and token stores and hands a
  request to a handler; a chat handler calls the runtime, which appends to the memory, flattens the
  history for the engine, looks tools up in the registry and runs each under the derived policy; a
  tool reaches files through the boundary check and the network through the firewall. Behind the engine
  is a provider: the tool loop, whose executor asks the integrity guard before it starts a process. The locale
  \<open>conv_log\<close> is what the runtime needs of the memory and is interpreted by \<open>Memory_Store\<close>'s model.

  \<^bold>\<open>Bounds and loops.\<close> All loops of the model are structural or have a measure (eviction: the number of
  sessions over the limit; paths: their elements; the tool loop: the turns left; a request: the attempts left). SHA-256 is computed, so witnesses never evaluate
  it; the theorems about tokens hold for the function as it is.

  \<^bold>\<open>Not modelled.\<close> SQL statements, embedding search and floating-point ranking, the providers that
  drive a command-line process, the native tools that only call a service, voice, the installation
  wizard, the Telegram client, process and mount system calls, cryptography of the vault: they are
  I/O or third-party calls whose result is a parameter here. The components of the manifest list them with the reason.
\<close>

end
